(* ===== verification/Npw_Prelude.thy ===== *)
theory Npw_Prelude
  imports Main "HOL-Library.Word"
begin

text \<open>
  Shared vocabulary of the development: the fixed-width C types, the result of a C call that
  can return an error code or crash, the sequencing of such calls, network byte order, and the
  lemma collections the component theories add to.
\<close>

unbundle bit_operations_syntax

named_theorems op_simps \<open>evaluation of sequenced calls\<close>
named_theorems wire_rules \<open>how sequenced calls extend or consume a byte stream\<close>

subsection \<open>C types\<close>

type_synonym byte = "8 word"
type_synonym uint16 = "16 word"
type_synonym uint32 = "32 word"
type_synonym int32 = "32 word"
type_synonym uint64 = "64 word"
type_synonym ulong = "64 word"
type_synonym ptr = nat
type_synonym code_ptr = nat

text \<open>Machine pointers of a 64-bit process, where their bits matter.\<close>

type_synonym cptr = uint64

abbreviation (input) NULL :: nat where
  "NULL \<equiv> 0"

text \<open>
  An \<open>int32\<close> is a 32-bit pattern; \<open>c_int\<close> is the value a C \<open>int\<close> with that pattern has and
  \<open>to_int32\<close> the pattern of an \<open>int\<close> value.
\<close>

abbreviation c_int :: "int32 \<Rightarrow> int" where
  "c_int w \<equiv> sint w"

abbreviation to_int32 :: "int \<Rightarrow> int32" where
  "to_int32 i \<equiv> word_of_int i"

lemma c_int_to_int32:
  assumes "- (2 ^ 31) \<le> i" "i < 2 ^ 31"
  shows "c_int (to_int32 i) = i"
  using assms by (simp add: sint_sbintrunc' signed_take_bit_int_eq_self)

lemma to_int32_c_int [simp]: "to_int32 (c_int w) = w"
  by simp

subsection \<open>Results of C calls\<close>

text \<open>
  A call returns a value (\<open>Ok\<close>, the code \<open>RPC_ERROR_NO_ERROR\<close> together with what the call
  stored through its out-parameters), or a negative error code (\<open>Err\<close>), or it does not return:
  a failed \<open>assert\<close>, an explicit \<open>abort()\<close>, an access outside an object or to a freed one, or a
  loop that exceeds the number of iterations it was given.
\<close>

datatype crash = Assertion_failed | Aborted | Out_of_bounds | Use_after_free | No_return

datatype 'a res = Ok 'a | Err int | Crash crash

type_synonym ('s, 'a) op = "'s \<Rightarrow> 'a res \<times> 's"

definition ret :: "'a \<Rightarrow> ('s, 'a) op" where
  "ret x s = (Ok x, s)"

definition fail :: "int \<Rightarrow> ('s, 'a) op" where
  "fail e s = (Err e, s)"

definition crash :: "crash \<Rightarrow> ('s, 'a) op" where
  "crash c s = (Crash c, s)"

text \<open>\<open>if ((error = m) < 0) return error;\<close> followed by \<open>f\<close>.\<close>

definition bind_op :: "('s, 'a) op \<Rightarrow> ('a \<Rightarrow> ('s, 'b) op) \<Rightarrow> ('s, 'b) op" where
  "bind_op m f s = (case m s of
       (Ok x, s') \<Rightarrow> f x s'
     | (Err e, s') \<Rightarrow> (Err e, s')
     | (Crash c, s') \<Rightarrow> (Crash c, s'))"

definition then_op :: "('s, 'a) op \<Rightarrow> ('s, 'b) op \<Rightarrow> ('s, 'b) op" where
  "then_op m n = bind_op m (\<lambda>_. n)"

text \<open>A sequence of calls, left at the first error.\<close>

primrec run_all :: "('s, unit) op list \<Rightarrow> ('s, unit) op" where
  "run_all [] = ret ()"
| "run_all (m # ms) = then_op m (run_all ms)"

text \<open>A loop that stores one result per iteration, left at the first error.\<close>

primrec collect_all :: "('s, 'a) op list \<Rightarrow> ('s, 'a list) op" where
  "collect_all [] = ret []"
| "collect_all (m # ms) = bind_op m (\<lambda>x. bind_op (collect_all ms) (\<lambda>xs. ret (x # xs)))"

text \<open>\<open>assert (b)\<close>.\<close>

definition assert_op :: "bool \<Rightarrow> ('s, unit) op" where
  "assert_op b = (if b then ret () else crash Assertion_failed)"

definition get_state :: "('s, 's) op" where
  "get_state s = (Ok s, s)"

definition modify_state :: "('s \<Rightarrow> 's) \<Rightarrow> ('s, unit) op" where
  "modify_state f s = (Ok (), f s)"

lemma ret_apply [op_simps]: "ret x s = (Ok x, s)"
  by (simp add: ret_def)

lemma fail_apply [op_simps]: "fail e s = (Err e, s)"
  by (simp add: fail_def)

lemma crash_apply [op_simps]: "crash c s = (Crash c, s)"
  by (simp add: crash_def)

lemma assert_apply [op_simps]:
  "assert_op b s = (if b then (Ok (), s) else (Crash Assertion_failed, s))"
  by (simp add: assert_op_def ret_def crash_def)

lemma get_state_apply [op_simps]: "get_state s = (Ok s, s)"
  by (simp add: get_state_def)

lemma modify_state_apply [op_simps]: "modify_state f s = (Ok (), f s)"
  by (simp add: modify_state_def)

lemma bind_op_Ok [op_simps]: "m s = (Ok x, s') \<Longrightarrow> bind_op m f s = f x s'"
  by (simp add: bind_op_def)

lemma bind_op_Err [op_simps]: "m s = (Err e, s') \<Longrightarrow> bind_op m f s = (Err e, s')"
  by (simp add: bind_op_def)

lemma bind_op_Crash [op_simps]: "m s = (Crash c, s') \<Longrightarrow> bind_op m f s = (Crash c, s')"
  by (simp add: bind_op_def)

lemma bind_ret [simp]: "bind_op (ret x) f = f x"
  by (rule ext) (simp add: bind_op_def ret_def)

lemma bind_ret_right: "bind_op m ret = m"
  by (rule ext) (auto simp: bind_op_def ret_def split: prod.splits res.splits)

lemma then_ret [simp]: "then_op (ret x) n = n"
  by (simp add: then_op_def)

lemma then_ret_unit: "then_op m (ret ()) = m"
  by (rule ext) (auto simp: then_op_def bind_op_def ret_apply split: prod.splits res.splits)

lemma then_assoc: "then_op (then_op m n) k = then_op m (then_op n k)"
  by (rule ext) (auto simp: then_op_def bind_op_def split: prod.splits res.splits)

lemma bind_op_eq_Ok_iff:
  "bind_op m f s = (Ok y, s') \<longleftrightarrow> (\<exists>x t. m s = (Ok x, t) \<and> f x t = (Ok y, s'))"
  by (auto simp: bind_op_def split: prod.splits res.splits)

lemma then_op_Ok [op_simps]: "m s = (Ok x, s') \<Longrightarrow> then_op m n s = n s'"
  by (simp add: then_op_def bind_op_def)

lemma then_op_eq_Ok_iff:
  "then_op m n s = (Ok y, s') \<longleftrightarrow> (\<exists>x t. m s = (Ok x, t) \<and> n t = (Ok y, s'))"
  by (simp add: then_op_def bind_op_eq_Ok_iff)

subsection \<open>Network byte order\<close>

text \<open>
  The four bytes in memory of \<open>htonl (w)\<close>, most significant first, and \<open>ntohl\<close> of four bytes
  read back. Any other number of bytes is never decoded.
\<close>

definition htonl :: "uint32 \<Rightarrow> byte list" where
  "htonl w = [ucast (drop_bit 24 w), ucast (drop_bit 16 w), ucast (drop_bit 8 w), ucast w]"

fun ntohl :: "byte list \<Rightarrow> uint32" where
  "ntohl [a, b, c, d] =
     push_bit 24 (ucast a) OR push_bit 16 (ucast b) OR push_bit 8 (ucast c) OR ucast d"
| "ntohl _ = 0"

lemma length_htonl [simp]: "length (htonl w) = 4"
  by (simp add: htonl_def)

lemma htonl_neq_Nil [simp]: "htonl w \<noteq> []"
  by (simp add: htonl_def)

lemma ntohl_htonl [simp]: "ntohl (htonl w) = w"
proof (rule bit_word_eqI)
  fix n
  assume "n < LENGTH(32)"
  then have n: "n < 32" by simp
  consider "n < 8" | "8 \<le> n" "n < 16" | "16 \<le> n" "n < 24" | "24 \<le> n"
    by linarith
  then show "bit (ntohl (htonl w)) n \<longleftrightarrow> bit w n"
    using n by cases (auto simp: htonl_def bit_simps)
qed

lemma htonl_ntohl:
  assumes "length bs = 4"
  shows "htonl (ntohl bs) = bs"
proof -
  obtain a b c d where bs: "bs = [a, b, c, d]"
    using assms by (auto simp: length_Suc_conv eval_nat_numeral)
  show ?thesis
    unfolding bs htonl_def ntohl.simps list.inject
    by (intro conjI refl bit_word_eqI) (auto simp: bit_simps dest: bit_imp_le_length)
qed

lemma htonl_inject [simp]: "htonl v = htonl w \<longleftrightarrow> v = w"
  by (metis ntohl_htonl)

subsection \<open>Splitting and joining 64-bit values\<close>

definition hi32 :: "uint64 \<Rightarrow> uint32" where
  "hi32 v = ucast (drop_bit 32 v)"

definition lo32 :: "uint64 \<Rightarrow> uint32" where
  "lo32 v = ucast v"

definition join64 :: "uint32 \<Rightarrow> uint32 \<Rightarrow> uint64" where
  "join64 hi lo = push_bit 32 (ucast hi) OR ucast lo"

lemma join64_split [simp]: "join64 (hi32 v) (lo32 v) = v"
proof (rule bit_word_eqI)
  fix n
  assume "n < LENGTH(64)"
  then show "bit (join64 (hi32 v) (lo32 v)) n \<longleftrightarrow> bit v n"
    by (auto simp: join64_def hi32_def lo32_def bit_simps)
qed

subsection \<open>Lists\<close>

text \<open>A \<open>for\<close> loop that looks for the first element with a property.\<close>

primrec first_index :: "('a \<Rightarrow> bool) \<Rightarrow> 'a list \<Rightarrow> nat option" where
  "first_index P [] = None"
| "first_index P (x # xs) = (if P x then Some 0 else map_option Suc (first_index P xs))"

lemma first_index_None_iff: "first_index P xs = None \<longleftrightarrow> (\<forall>x \<in> set xs. \<not> P x)"
  by (induction xs) auto

lemma first_index_SomeD:
  "first_index P xs = Some i \<Longrightarrow> i < length xs \<and> P (xs ! i) \<and> (\<forall>j < i. \<not> P (xs ! j))"
proof (induction xs arbitrary: i)
  case Nil
  then show ?case by simp
next
  case (Cons x xs)
  show ?case
  proof (cases "P x")
    case True
    with Cons.prems show ?thesis by simp
  next
    case False
    with Cons.prems obtain j where "i = Suc j" "first_index P xs = Some j"
      by auto
    with Cons.IH False show ?thesis
      by (auto simp: nth_Cons split: nat.splits)
  qed
qed

lemma first_index_unique:
  assumes "i < length xs" "P (xs ! i)" "\<And>j. j < i \<Longrightarrow> \<not> P (xs ! j)"
  shows "first_index P xs = Some i"
proof -
  obtain k where k: "first_index P xs = Some k"
    using assms(1,2) by (cases "first_index P xs") (auto simp: first_index_None_iff)
  from first_index_SomeD [OF k] have "k < length xs" "P (xs ! k)" "\<forall>j < k. \<not> P (xs ! j)"
    by auto
  with assms have "k = i"
    by (metis nat_neq_iff)
  with k show ?thesis by simp
qed

end
