(* ===== verification/Rpc_Codes.thy ===== *)
theory Rpc_Codes
  imports Npw_Prelude
begin

text \<open>
  The integer codes of \<^verbatim>\<open>rpc.h\<close> and \<^verbatim>\<open>rpc.c\<close> (errors, connection status, wire types, message
  markers), the error strings, and the time-out settings read from the environment.
\<close>

subsection \<open>Error codes, status codes, wire types, message markers\<close>

abbreviation (input) RPC_ERROR_NO_ERROR :: int where "RPC_ERROR_NO_ERROR \<equiv> 0"
abbreviation (input) RPC_ERROR_GENERIC :: int where "RPC_ERROR_GENERIC \<equiv> - 1000"
abbreviation (input) RPC_ERROR_ERRNO_SET :: int where "RPC_ERROR_ERRNO_SET \<equiv> - 1001"
abbreviation (input) RPC_ERROR_NO_MEMORY :: int where "RPC_ERROR_NO_MEMORY \<equiv> - 1002"
abbreviation (input) RPC_ERROR_CONNECTION_NULL :: int where "RPC_ERROR_CONNECTION_NULL \<equiv> - 1003"
abbreviation (input) RPC_ERROR_CONNECTION_CLOSED :: int where "RPC_ERROR_CONNECTION_CLOSED \<equiv> - 1004"
abbreviation (input) RPC_ERROR_CONNECTION_TYPE_MISMATCH :: int where
  "RPC_ERROR_CONNECTION_TYPE_MISMATCH \<equiv> - 1005"
abbreviation (input) RPC_ERROR_MESSAGE_TIMEOUT :: int where "RPC_ERROR_MESSAGE_TIMEOUT \<equiv> - 1006"
abbreviation (input) RPC_ERROR_MESSAGE_TRUNCATED :: int where "RPC_ERROR_MESSAGE_TRUNCATED \<equiv> - 1007"
abbreviation (input) RPC_ERROR_MESSAGE_TYPE_INVALID :: int where
  "RPC_ERROR_MESSAGE_TYPE_INVALID \<equiv> - 1008"
abbreviation (input) RPC_ERROR_MESSAGE_HANDLER_INVALID :: int where
  "RPC_ERROR_MESSAGE_HANDLER_INVALID \<equiv> - 1009"
abbreviation (input) RPC_ERROR_MESSAGE_ARGUMENT_MISMATCH :: int where
  "RPC_ERROR_MESSAGE_ARGUMENT_MISMATCH \<equiv> - 1010"
abbreviation (input) RPC_ERROR_MESSAGE_ARGUMENT_UNKNOWN :: int where
  "RPC_ERROR_MESSAGE_ARGUMENT_UNKNOWN \<equiv> - 1011"
abbreviation (input) RPC_ERROR_MESSAGE_ARGUMENT_INVALID :: int where
  "RPC_ERROR_MESSAGE_ARGUMENT_INVALID \<equiv> - 1012"
abbreviation (input) RPC_ERROR_MESSAGE_SYNC_NOT_ALLOWED :: int where
  "RPC_ERROR_MESSAGE_SYNC_NOT_ALLOWED \<equiv> - 1013"

abbreviation (input) RPC_STATUS_BROKEN :: int where "RPC_STATUS_BROKEN \<equiv> - 1"
abbreviation (input) RPC_STATUS_CLOSED :: int where "RPC_STATUS_CLOSED \<equiv> 0"
abbreviation (input) RPC_STATUS_ACTIVE :: int where "RPC_STATUS_ACTIVE \<equiv> 1"

abbreviation (input) RPC_TYPE_INVALID :: int where "RPC_TYPE_INVALID \<equiv> 0"
abbreviation (input) RPC_TYPE_CHAR :: int where "RPC_TYPE_CHAR \<equiv> - 2000"
abbreviation (input) RPC_TYPE_BOOLEAN :: int where "RPC_TYPE_BOOLEAN \<equiv> - 2001"
abbreviation (input) RPC_TYPE_INT32 :: int where "RPC_TYPE_INT32 \<equiv> - 2002"
abbreviation (input) RPC_TYPE_UINT32 :: int where "RPC_TYPE_UINT32 \<equiv> - 2003"
abbreviation (input) RPC_TYPE_UINT64 :: int where "RPC_TYPE_UINT64 \<equiv> - 2004"
abbreviation (input) RPC_TYPE_DOUBLE :: int where "RPC_TYPE_DOUBLE \<equiv> - 2005"
abbreviation (input) RPC_TYPE_STRING :: int where "RPC_TYPE_STRING \<equiv> - 2006"
abbreviation (input) RPC_TYPE_ARRAY :: int where "RPC_TYPE_ARRAY \<equiv> - 2007"

abbreviation (input) RPC_MESSAGE_START :: int where "RPC_MESSAGE_START \<equiv> - 3000"
abbreviation (input) RPC_MESSAGE_ARGS :: int where "RPC_MESSAGE_ARGS \<equiv> - 3001"
abbreviation (input) RPC_MESSAGE_END :: int where "RPC_MESSAGE_END \<equiv> - 3002"
abbreviation (input) RPC_MESSAGE_ACK :: int where "RPC_MESSAGE_ACK \<equiv> - 3003"
abbreviation (input) RPC_MESSAGE_REPLY :: int where "RPC_MESSAGE_REPLY \<equiv> - 3004"
abbreviation (input) RPC_MESSAGE_FAILURE :: int where "RPC_MESSAGE_FAILURE \<equiv> - 3005"
abbreviation (input) RPC_MESSAGE_SYNC :: int where "RPC_MESSAGE_SYNC \<equiv> - 3006"
abbreviation (input) RPC_MESSAGE_SYNC_END :: int where "RPC_MESSAGE_SYNC_END \<equiv> - 3007"
abbreviation (input) RPC_MESSAGE_SYNC_ACK :: int where "RPC_MESSAGE_SYNC_ACK \<equiv> - 3008"

subsection \<open>Error strings\<close>

text \<open>\<open>strerror_errno\<close> is \<open>strerror (errno)\<close> at the time of the call.\<close>

definition rpc_strerror :: "string \<Rightarrow> int \<Rightarrow> string" where
  "rpc_strerror strerror_errno error =
    (if error = RPC_ERROR_NO_ERROR then ''No error''
     else if error = RPC_ERROR_GENERIC then ''Generic error''
     else if error = RPC_ERROR_ERRNO_SET then strerror_errno
     else if error = RPC_ERROR_NO_MEMORY then ''Out of memory''
     else if error = RPC_ERROR_CONNECTION_NULL then ''Connection was NULL''
     else if error = RPC_ERROR_CONNECTION_CLOSED then ''Connection closed''
     else if error = RPC_ERROR_CONNECTION_TYPE_MISMATCH then ''Connection type mismatch''
     else if error = RPC_ERROR_MESSAGE_TIMEOUT then ''Message timeout''
     else if error = RPC_ERROR_MESSAGE_TRUNCATED then ''Message truncated''
     else if error = RPC_ERROR_MESSAGE_TYPE_INVALID then ''Message type invalid''
     else if error = RPC_ERROR_MESSAGE_HANDLER_INVALID then ''Message does not have any handler''
     else if error = RPC_ERROR_MESSAGE_ARGUMENT_MISMATCH then ''Message argument mismatch''
     else if error = RPC_ERROR_MESSAGE_ARGUMENT_UNKNOWN then ''Message argument type unknown''
     else if error = RPC_ERROR_MESSAGE_ARGUMENT_INVALID then ''Message argument invalid''
     else if error = RPC_ERROR_MESSAGE_SYNC_NOT_ALLOWED then ''SYNC message forbidden''
     else ''<unknown>'')"

text \<open>\<^verbatim>\<open>npw_strerror\<close> of \<^verbatim>\<open>utils.c\<close>: codes in the RPC range go to \<open>rpc_strerror\<close>.\<close>

definition npw_strerror :: "string \<Rightarrow> int \<Rightarrow> string" where
  "npw_strerror strerror_errno error =
    (if error > - 1100 \<and> error \<le> - 1000 then rpc_strerror strerror_errno error
     else if error = 0 then ''No error''
     else ''Unknown error'')"

subsection \<open>Time-outs\<close>

abbreviation (input) RPC_MESSAGE_TIMEOUT :: int where "RPC_MESSAGE_TIMEOUT \<equiv> 30"
abbreviation (input) RPC_INIT_TIMEOUT :: int where "RPC_INIT_TIMEOUT \<equiv> 5"

text \<open>
  \<open>env\<close> is \<open>atoi\<close> of the environment variable, if it is set. The results are seconds.
\<close>

definition env_timeout :: "int \<Rightarrow> int option \<Rightarrow> int" where
  "env_timeout dflt env =
     (let timeout = (case env of None \<Rightarrow> 0 | Some v \<Rightarrow> v)
      in if timeout \<le> 0 then dflt else timeout)"

definition rpc_message_timeout_1 :: "int option \<Rightarrow> int" where
  "rpc_message_timeout_1 env = env_timeout RPC_MESSAGE_TIMEOUT env"

definition rpc_init_timeout_1 :: "int option \<Rightarrow> int" where
  "rpc_init_timeout_1 env = env_timeout RPC_INIT_TIMEOUT env"

text \<open>
  The public accessors cache the first answer in a \<open>static int\<close> that starts at \<open>-1\<close>: the
  argument is the cached value, the result the time-out and the new cached value.
\<close>

definition rpc_message_timeout :: "int option \<Rightarrow> int \<Rightarrow> int \<times> int" where
  "rpc_message_timeout env timeout =
     (let timeout' = (if timeout < 0 then rpc_message_timeout_1 env else timeout)
      in (timeout', timeout'))"

definition rpc_init_timeout :: "int option \<Rightarrow> int \<Rightarrow> int \<times> int" where
  "rpc_init_timeout env timeout =
     (let timeout' = (if timeout < 0 then rpc_init_timeout_1 env else timeout)
      in (timeout', timeout'))"

text \<open>
  \<open>rpc_poll\<close> splits a time-out in microseconds into a \<open>struct timeval\<close>; its callers compute the
  microseconds as \<open>rpc_message_timeout () * 1000000\<close> in a 32-bit \<open>int\<close>.
\<close>

definition timeout_usec :: "int \<Rightarrow> int32" where
  "timeout_usec seconds = to_int32 seconds * 1000000"

definition rpc_poll_timeval :: "int32 \<Rightarrow> int \<times> int" where
  "rpc_poll_timeval timeout =
     (let t = c_int timeout
      in (sgn t * (\<bar>t\<bar> div 1000000), sgn t * (\<bar>t\<bar> mod 1000000)))"

lemma rpc_message_timeout_pos: "timeout \<noteq> 0 \<Longrightarrow> 0 < fst (rpc_message_timeout env timeout)"
  by (auto simp: rpc_message_timeout_def rpc_message_timeout_1_def env_timeout_def Let_def
      split: option.splits)

lemma rpc_message_timeout_cached:
  "rpc_message_timeout env (snd (rpc_message_timeout env' timeout)) =
   rpc_message_timeout env' timeout"
  by (auto simp: rpc_message_timeout_def rpc_message_timeout_1_def env_timeout_def Let_def
      split: option.splits)

text \<open>For every time-out up to 2147 seconds the multiplication does not overflow.\<close>

lemma c_int_timeout_usec:
  assumes "0 \<le> seconds" "seconds \<le> 2147"
  shows "c_int (timeout_usec seconds) = seconds * 1000000"
proof -
  have "timeout_usec seconds = to_int32 (seconds * 1000000)"
    by (simp add: timeout_usec_def)
  moreover have "- (2 ^ 31) \<le> seconds * 1000000" "seconds * 1000000 < 2 ^ 31"
    using assms by simp_all
  ultimately show ?thesis
    by (simp only: c_int_to_int32)
qed

lemma rpc_poll_timeval_seconds:
  assumes "0 \<le> seconds" "seconds \<le> 2147"
  shows "rpc_poll_timeval (timeout_usec seconds) = (seconds, 0)"
  using assms by (cases "seconds = 0")
    (simp_all add: rpc_poll_timeval_def c_int_timeout_usec Let_def sgn_mult abs_mult)

end
