(* ===== verification/Rpc_Io.thy ===== *)
theory Rpc_Io
  imports Rpc_Codes "HOL-Library.Sublist"
begin

text \<open>
  The transfer loops of \<^verbatim>\<open>rpc.c\<close> over a non-blocking stream socket.

  What \<open>send\<close>, \<open>recv\<close> and \<open>select\<close> do is given as a script: one event per system call that does
  not simply succeed. A call made when the script is empty is undisturbed: \<open>send\<close> accepts all
  bytes, \<open>recv\<close> delivers what has arrived, and a read from a drained socket sees the end of the
  stream if the peer closed it and a time-out otherwise. A script is any finite list, so the
  theorems hold for every run in which the kernel interferes finitely often.
\<close>

subsection \<open>System calls\<close>

datatype errno = EINTR | ECONNRESET | ECONNREFUSED | ENOENT | Eother int

datatype poll_result = Poll_ready | Poll_timeout | Poll_errno errno

text \<open>
  \<open>Xfer n\<close>: the call transfers at most \<open>n\<close> bytes; \<open>Sys_errno e\<close>: it fails with \<open>e\<close>;
  \<open>Would_block p\<close>: it fails with \<open>EAGAIN\<close> and the \<open>select\<close> that follows gives \<open>p\<close>.
\<close>

datatype io_event = Xfer nat | Sys_errno errno | Would_block poll_result

record io_state =
  rx_queue :: "byte list"
  rx_eof :: bool
  rx_script :: "io_event list"
  tx_wire :: "byte list"
  tx_script :: "io_event list"
  malloc_ok :: "nat \<Rightarrow> bool"

subsection \<open>The loops\<close>

text \<open>
  \<open>send_step\<close> is one iteration of the loop of \<^verbatim>\<open>_rpc_message_send_bytes\<close>: it either returns or
  leaves the bytes still to send, with the loop condition \<open>count > 0\<close> to be tested next.
\<close>

datatype ('a, 'b) step = Return 'a | Continue 'b

fun send_step :: "io_event \<Rightarrow> byte list \<Rightarrow> byte list \<times> (unit res, byte list) step" where
  "send_step (Xfer n) bytes = (take n bytes, Continue (drop n bytes))"
| "send_step (Sys_errno e) bytes =
     ([], if e = ECONNRESET then Return (Err RPC_ERROR_CONNECTION_CLOSED)
          else if e = EINTR then Continue bytes
          else Return (Err RPC_ERROR_ERRNO_SET))"
| "send_step (Would_block p) bytes =
     ([], case p of
            Poll_ready \<Rightarrow> Continue bytes
          | Poll_timeout \<Rightarrow> Return (Err RPC_ERROR_MESSAGE_TIMEOUT)
          | Poll_errno e \<Rightarrow>
              if e = EINTR then Continue bytes else Return (Err RPC_ERROR_ERRNO_SET))"

text \<open>The result, the rest of the script, and the bytes the kernel accepted.\<close>

fun send_loop :: "io_event list \<Rightarrow> byte list \<Rightarrow> unit res \<times> io_event list \<times> byte list" where
  "send_loop [] bytes = (Ok (), [], bytes)"
| "send_loop (ev # evs) bytes =
     (case send_step ev bytes of
        (out, Return r) \<Rightarrow> (r, evs, out)
      | (out, Continue rest) \<Rightarrow>
          if rest = [] then (Ok (), evs, out)
          else (case send_loop evs rest of (r, evs', out') \<Rightarrow> (r, evs', out @ out')))"

definition rpc_message_send_bytes_1 :: "byte list \<Rightarrow> ('z io_state_scheme, unit) op" where
  "rpc_message_send_bytes_1 bytes s =
     (case send_loop (tx_script s) bytes of
        (r, evs, out) \<Rightarrow> (r, s\<lparr>tx_wire := tx_wire s @ out, tx_script := evs\<rparr>))"

text \<open>
  One iteration of \<^verbatim>\<open>_rpc_message_recv_bytes\<close> with \<open>count\<close> bytes still to read and \<open>q\<close> in the
  socket: what it took from the socket and how it went on. \<open>recv\<close> with a zero count returns 0.
\<close>

fun recv_step :: "io_event \<Rightarrow> bool \<Rightarrow> nat \<Rightarrow> byte list \<Rightarrow> byte list \<times> (unit res, nat) step" where
  "recv_step (Xfer n) eof count q =
     (if count = 0 then ([], Return (Err RPC_ERROR_CONNECTION_CLOSED))
      else if q = [] then
        ([], Return (Err (if eof then RPC_ERROR_CONNECTION_CLOSED else RPC_ERROR_MESSAGE_TIMEOUT)))
      else (let got = take (min count (max 1 n)) q in (got, Continue (count - length got))))"
| "recv_step (Sys_errno e) eof count q =
     ([], if e = EINTR then Continue count else Return (Err RPC_ERROR_ERRNO_SET))"
| "recv_step (Would_block p) eof count q =
     ([], case p of
            Poll_ready \<Rightarrow> Continue count
          | Poll_timeout \<Rightarrow> Return (Err RPC_ERROR_MESSAGE_TIMEOUT)
          | Poll_errno e \<Rightarrow>
              if e = EINTR then Continue count else Return (Err RPC_ERROR_ERRNO_SET))"

text \<open>
  The result, the rest of the script, and the bytes taken from the socket. With an empty script
  the loop makes undisturbed calls: one delivers all it can, and if that is not enough the next
  one finds the socket drained.
\<close>

fun recv_loop ::
  "io_event list \<Rightarrow> bool \<Rightarrow> nat \<Rightarrow> byte list \<Rightarrow> unit res \<times> io_event list \<times> byte list"
where
  "recv_loop [] eof count q =
     (if count = 0 then (Err RPC_ERROR_CONNECTION_CLOSED, [], [])
      else if count \<le> length q then (Ok (), [], take count q)
      else (Err (if eof then RPC_ERROR_CONNECTION_CLOSED else RPC_ERROR_MESSAGE_TIMEOUT), [], q))"
| "recv_loop (ev # evs) eof count q =
     (case recv_step ev eof count q of
        (got, Return r) \<Rightarrow> (r, evs, got)
      | (got, Continue rest) \<Rightarrow>
          if rest = 0 then (Ok (), evs, got)
          else (case recv_loop evs eof rest (drop (length got) q) of
                  (r, evs', got') \<Rightarrow> (r, evs', got @ got')))"

definition rpc_message_recv_bytes_1 :: "nat \<Rightarrow> ('z io_state_scheme, byte list) op" where
  "rpc_message_recv_bytes_1 count s =
     (case recv_loop (rx_script s) (rx_eof s) count (rx_queue s) of
        (r, evs, got) \<Rightarrow>
          (case r of Ok _ \<Rightarrow> Ok got | Err e \<Rightarrow> Err e | Crash c \<Rightarrow> Crash c,
           s\<lparr>rx_queue := drop (length got) (rx_queue s), rx_script := evs\<rparr>))"

subsection \<open>Scripts that only delay\<close>

text \<open>
  Events after which the loop goes on: interrupted calls, short transfers and \<open>EAGAIN\<close> followed
  by a \<open>select\<close> that reports readiness or is itself interrupted.
\<close>

fun delay_event :: "io_event \<Rightarrow> bool" where
  "delay_event (Xfer n) = True"
| "delay_event (Sys_errno e) = (e = EINTR)"
| "delay_event (Would_block p) = (p = Poll_ready \<or> p = Poll_errno EINTR)"

definition calm :: "'z io_state_scheme \<Rightarrow> bool" where
  "calm s \<longleftrightarrow> list_all delay_event (tx_script s) \<and> list_all delay_event (rx_script s)"

text \<open>The error codes the loops return.\<close>

definition io_failure :: "unit res \<Rightarrow> bool" where
  "io_failure r \<longleftrightarrow> r = Err RPC_ERROR_CONNECTION_CLOSED \<or> r = Err RPC_ERROR_MESSAGE_TIMEOUT \<or>
     r = Err RPC_ERROR_ERRNO_SET"

subsection \<open>The send loop\<close>

lemma io_failure_not_Ok: "io_failure r \<Longrightarrow> r \<noteq> Ok ()"
  by (auto simp: io_failure_def)

lemma send_step_Return:
  "send_step ev bytes = (out, Return r) \<Longrightarrow> out = [] \<and> io_failure r"
  by (cases ev) (auto simp: io_failure_def split: if_splits poll_result.splits)

lemma send_step_Continue: "send_step ev bytes = (out, Continue rest) \<Longrightarrow> bytes = out @ rest"
  by (cases ev) (auto split: if_splits poll_result.splits)

lemma send_step_delay:
  assumes "delay_event ev"
  obtains out rest where "send_step ev bytes = (out, Continue rest)"
  using assms that by (cases ev) auto

text \<open>Whatever the kernel does, the accepted bytes are a prefix, and all of them on success.\<close>

lemma send_loop_result:
  "send_loop evs bytes = (r, evs', out) \<Longrightarrow>
     prefix out bytes \<and> (r = Ok () \<and> out = bytes \<or> io_failure r) \<and> suffix evs' evs"
proof (induction evs bytes arbitrary: r evs' out rule: send_loop.induct)
  case (1 bytes)
  then show ?case by simp
next
  case (2 ev evs bytes)
  obtain o1 st where st: "send_step ev bytes = (o1, st)"
    by fastforce
  show ?case
  proof (cases st)
    case (Return r1)
    with "2.prems" st have "r = r1" "evs' = evs" "out = o1" by simp_all
    with send_step_Return [OF st [unfolded Return]] show ?thesis
      by (simp add: suffix_ConsI)
  next
    case (Continue rest)
    note split = send_step_Continue [OF st [unfolded Continue]]
    show ?thesis
    proof (cases "rest = []")
      case True
      with "2.prems" st Continue split show ?thesis
        by (simp add: suffix_ConsI)
    next
      case False
      obtain r2 e2 o2 where rec: "send_loop evs rest = (r2, e2, o2)"
        by (cases "send_loop evs rest") auto
      note IH = "2.IH" [OF st [symmetric] Continue False rec]
      have "r = r2" "evs' = e2" "out = o1 @ o2"
        using "2.prems" st Continue False rec by simp_all
      with IH split show ?thesis by (auto intro: suffix_ConsI)
    qed
  qed
qed

lemma send_loop_calm:
  "list_all delay_event evs \<Longrightarrow>
     \<exists>evs'. send_loop evs bytes = (Ok (), evs', bytes) \<and> list_all delay_event evs'"
proof (induction evs bytes rule: send_loop.induct)
  case (1 bytes)
  then show ?case by simp
next
  case (2 ev evs bytes)
  then have d: "delay_event ev" "list_all delay_event evs" by simp_all
  obtain out rest where st: "send_step ev bytes = (out, Continue rest)"
    using d(1) by (rule send_step_delay)
  note split = send_step_Continue [OF st]
  show ?case
  proof (cases "rest = []")
    case True
    with st split d show ?thesis by simp
  next
    case False
    with "2.IH" [OF st [symmetric] refl False d(2)] st split show ?thesis by auto
  qed
qed

lemma rpc_message_send_bytes_1_calm:
  assumes "calm s"
  shows "\<exists>evs. rpc_message_send_bytes_1 bytes s =
      (Ok (), s\<lparr>tx_wire := tx_wire s @ bytes, tx_script := evs\<rparr>) \<and> list_all delay_event evs"
  using assms send_loop_calm [of "tx_script s" bytes]
  by (auto simp: calm_def rpc_message_send_bytes_1_def)

subsection \<open>The receive loop\<close>

lemma recv_step_Return:
  "recv_step ev eof count q = (got, Return r) \<Longrightarrow> got = [] \<and> io_failure r"
  by (cases ev) (auto simp: io_failure_def Let_def split: if_splits poll_result.splits)

lemma recv_step_Continue:
  "recv_step ev eof count q = (got, Continue rest) \<Longrightarrow>
     prefix got q \<and> length got \<le> count \<and> rest = count - length got"
  by (cases ev) (auto simp: Let_def take_is_prefix split: if_splits poll_result.splits)

lemma recv_step_delay:
  assumes "delay_event ev" "0 < count" "q \<noteq> []"
  obtains got rest where "recv_step ev eof count q = (got, Continue rest)"
  using assms that by (cases ev) (auto simp: Let_def)

text \<open>
  Whatever the kernel does, the bytes read are a prefix of what is in the socket; a loop asked
  for at least one byte succeeds only with exactly the number asked for.
\<close>

lemma recv_loop_result:
  "recv_loop evs eof count q = (r, evs', got) \<Longrightarrow>
     prefix got q \<and> length got \<le> count \<and> (r = Ok () \<and> length got = count \<or> io_failure r) \<and>
     suffix evs' evs"
proof (induction evs eof count q arbitrary: r evs' got rule: recv_loop.induct)
  case (1 eof count q)
  then show ?case by (auto simp: io_failure_def take_is_prefix split: if_splits)
next
  case (2 ev evs eof count q)
  obtain g1 st where st: "recv_step ev eof count q = (g1, st)"
    by fastforce
  show ?case
  proof (cases st)
    case (Return r1)
    with "2.prems" st have "r = r1" "evs' = evs" "got = g1" by simp_all
    with recv_step_Return [OF st [unfolded Return]] show ?thesis
      by (simp add: suffix_ConsI)
  next
    case (Continue rest)
    note g1 = recv_step_Continue [OF st [unfolded Continue]]
    show ?thesis
    proof (cases "rest = 0")
      case True
      with "2.prems" st Continue g1 show ?thesis by (simp add: suffix_ConsI)
    next
      case False
      obtain r2 e2 g2 where rec: "recv_loop evs eof rest (drop (length g1) q) = (r2, e2, g2)"
        by (cases "recv_loop evs eof rest (drop (length g1) q)") auto
      note IH = "2.IH" [OF st [symmetric] Continue False rec]
      have res: "r = r2" "evs' = e2" "got = g1 @ g2"
        using "2.prems" st Continue False rec by simp_all
      have "q = g1 @ drop (length g1) q"
        using g1 by (metis append_eq_conv_conj prefix_def)
      with IH have "prefix (g1 @ g2) q"
        by (metis same_prefix_prefix)
      with IH g1 False res show ?thesis by (auto intro: suffix_ConsI)
    qed
  qed
qed

lemma recv_loop_calm:
  "list_all delay_event evs \<Longrightarrow> 0 < count \<Longrightarrow> count \<le> length q \<Longrightarrow>
     \<exists>evs'. recv_loop evs eof count q = (Ok (), evs', take count q) \<and> list_all delay_event evs'"
proof (induction evs eof count q rule: recv_loop.induct)
  case (1 eof count q)
  then show ?case by simp
next
  case (2 ev evs eof count q)
  then have d: "delay_event ev" "list_all delay_event evs" "q \<noteq> []" by auto
  obtain g1 rest where st: "recv_step ev eof count q = (g1, Continue rest)"
    using d(1) "2.prems"(2) d(3) by (rule recv_step_delay)
  note g1 = recv_step_Continue [OF st]
  then have q: "q = g1 @ drop (length g1) q"
    by (metis append_eq_conv_conj prefix_def)
  have tk: "take count q = g1 @ take rest (drop (length g1) q)"
    using g1 q by (metis le_add_diff_inverse take_add append_eq_conv_conj)
  show ?case
  proof (cases "rest = 0")
    case True
    with st g1 tk d show ?thesis by simp
  next
    case False
    then have "0 < rest" "rest \<le> length (drop (length g1) q)"
      using g1 "2.prems"(3) by auto
    from "2.IH" [OF st [symmetric] refl False d(2) this] st False tk show ?thesis by auto
  qed
qed

lemma rpc_message_recv_bytes_1_calm:
  assumes "calm s" "rx_queue s = bs @ rest" "bs \<noteq> []"
  shows "\<exists>evs. rpc_message_recv_bytes_1 (length bs) s =
      (Ok bs, s\<lparr>rx_queue := rest, rx_script := evs\<rparr>) \<and> list_all delay_event evs"
proof -
  obtain evs where "recv_loop (rx_script s) (rx_eof s) (length bs) (rx_queue s) = (Ok (), evs, bs)"
    "list_all delay_event evs"
    using assms recv_loop_calm [of "rx_script s" "length bs" "rx_queue s" "rx_eof s"]
    by (auto simp: calm_def)
  with assms(2) show ?thesis
    by (auto simp: rpc_message_recv_bytes_1_def)
qed

subsection \<open>Streams under any behaviour of the kernel\<close>

text \<open>
  C13. Whatever \<open>send\<close> and \<open>select\<close> do (short writes, interruptions, errors, time-outs), the bytes
  \<open>_rpc_message_send_bytes\<close> puts on the wire are a prefix of the message in order, without loss or
  repetition; it reports success exactly when all of them are out, and otherwise one of the three
  I/O error codes.
\<close>

theorem rpc_message_send_bytes_1_prefix:
  assumes "rpc_message_send_bytes_1 bytes s = (r, s')"
  shows "\<exists>out. prefix out bytes \<and> tx_wire s' = tx_wire s @ out \<and> (r = Ok () \<and> out = bytes \<or> io_failure r) \<and>
    rx_queue s' = rx_queue s"
  using assms send_loop_result [of "tx_script s" bytes]
  by (auto simp: rpc_message_send_bytes_1_def split: prod.splits)

theorem rpc_message_send_bytes_1_prefix_witness:
  "\<exists>out. prefix out [1, 2, 3, 4] \<and>
     tx_wire (snd (rpc_message_send_bytes_1 [1, 2, 3, 4] \<lparr>rx_queue = [], rx_eof = False, rx_script = [],
       tx_wire = [9], tx_script = [Xfer 2, Sys_errno EINTR, Would_block Poll_timeout],
       malloc_ok = (\<lambda>_. True)\<rparr>)) = [9] @ out"
  using rpc_message_send_bytes_1_prefix [of "[1, 2, 3, 4]" "\<lparr>rx_queue = [], rx_eof = False, rx_script = [],
       tx_wire = [9], tx_script = [Xfer 2, Sys_errno EINTR, Would_block Poll_timeout],
       malloc_ok = (\<lambda>_. True)\<rparr>", OF prod.collapse [symmetric]] by auto

text \<open>
  C14. Whatever \<open>recv\<close> and \<open>select\<close> do, \<open>_rpc_message_recv_bytes\<close> removes a prefix of at most \<open>count\<close> bytes
  from the stream and leaves the rest; it succeeds only with exactly \<open>count\<close> bytes, in order, and
  otherwise reports one of the three I/O error codes.
\<close>

theorem rpc_message_recv_bytes_1_prefix:
  assumes "rpc_message_recv_bytes_1 count s = (r, s')"
  shows "\<exists>got. rx_queue s = got @ rx_queue s' \<and> length got \<le> count \<and> tx_wire s' = tx_wire s \<and>
    (r = Ok got \<and> length got = count \<or> r = Err RPC_ERROR_CONNECTION_CLOSED \<or>
     r = Err RPC_ERROR_MESSAGE_TIMEOUT \<or> r = Err RPC_ERROR_ERRNO_SET)"
proof -
  obtain r0 evs got where l: "recv_loop (rx_script s) (rx_eof s) count (rx_queue s) = (r0, evs, got)"
    by (cases "recv_loop (rx_script s) (rx_eof s) count (rx_queue s)") auto
  note res = recv_loop_result [OF l]
  then have "rx_queue s = got @ drop (length got) (rx_queue s)"
    by (metis append_eq_conv_conj prefix_def)
  with assms l res show ?thesis
    by (intro exI [of _ got]) (auto simp: rpc_message_recv_bytes_1_def io_failure_def split: res.splits)
qed

theorem rpc_message_recv_bytes_1_prefix_witness:
  "\<exists>got. [1, 2, 3] = got @ rx_queue (snd (rpc_message_recv_bytes_1 2 \<lparr>rx_queue = [1, 2, 3], rx_eof = False,
       rx_script = [Xfer 1, Sys_errno EINTR], tx_wire = [], tx_script = [], malloc_ok = (\<lambda>_. True)\<rparr>)) \<and>
     length got \<le> 2"
  using rpc_message_recv_bytes_1_prefix [of 2 "\<lparr>rx_queue = [1, 2, 3], rx_eof = False,
       rx_script = [Xfer 1, Sys_errno EINTR], tx_wire = [], tx_script = [], malloc_ok = (\<lambda>_. True)\<rparr>",
       OF prod.collapse [symmetric]] by auto

end
