(* ===== verification/Rpc_Map.thy ===== *)
theory Rpc_Map
  imports Rpc_Codes
begin

text \<open>
  The tables of \<^verbatim>\<open>rpc.c\<close> (\<open>rpc_map_t\<close>): an array of entries searched from the front, grown by
  seven cells at a time. They hold the user-defined marshalers and the method callbacks of a
  connection. The array is a list of \<open>n_entries_max\<close> cells; the outcome of \<open>malloc\<close> and
  \<open>realloc\<close> and the content of cells that \<open>realloc\<close> leaves uninitialised are arguments.
\<close>

subsection \<open>The table\<close>

record 'v rpc_map_entry =
  e_value :: "'v option"
  e_key :: int
  use_count :: int

record 'v rpc_map =
  n_entries :: nat
  n_entries_max :: nat
  entries :: "'v rpc_map_entry list option"
  destroy_func :: code_ptr

definition N_ENTRIES_ALLOC :: nat where
  "N_ENTRIES_ALLOC = 7"

definition zero_entry :: "'v rpc_map_entry" where
  "zero_entry = \<lparr>e_value = None, e_key = 0, use_count = 0\<rparr>"

definition rpc_map_new :: "bool \<Rightarrow> 'v rpc_map option" where
  "rpc_map_new malloc_ok =
     (if malloc_ok
      then Some \<lparr>n_entries = 0, n_entries_max = 0, entries = None, destroy_func = NULL\<rparr>
      else None)"

definition rpc_map_new_full :: "bool \<Rightarrow> code_ptr \<Rightarrow> 'v rpc_map option" where
  "rpc_map_new_full malloc_ok f =
     (case rpc_map_new malloc_ok of
        None \<Rightarrow> None
      | Some m \<Rightarrow> Some (m\<lparr>destroy_func := f\<rparr>))"

text \<open>The values \<open>destroy_func\<close> is called on, in order, before the array and the map are freed.\<close>

definition rpc_map_destroy :: "'v rpc_map option \<Rightarrow> 'v option list" where
  "rpc_map_destroy mp =
     (case mp of
        None \<Rightarrow> []
      | Some m \<Rightarrow>
          (case entries m of
             None \<Rightarrow> []
           | Some es \<Rightarrow>
               (if destroy_func m \<noteq> NULL then map e_value (take (n_entries m) es) else [])))"

text \<open>The index of the entry \<^verbatim>\<open>_rpc_map_lookup\<close> points to.\<close>

definition rpc_map_lookup_entry :: "'v rpc_map \<Rightarrow> int \<Rightarrow> nat option" where
  "rpc_map_lookup_entry m key =
     (case entries m of
        None \<Rightarrow> None
      | Some es \<Rightarrow> first_index (\<lambda>e. e_key e = key) (take (n_entries m) es))"

definition rpc_map_lookup :: "'v rpc_map \<Rightarrow> int \<Rightarrow> 'v option \<times> 'v rpc_map" where
  "rpc_map_lookup m key =
     (case (rpc_map_lookup_entry m key, entries m) of
        (Some i, Some es) \<Rightarrow>
          (e_value (es ! i),
           m\<lparr>entries := Some (es[i := (es ! i)\<lparr>use_count := use_count (es ! i) + 1\<rparr>])\<rparr>)
      | _ \<Rightarrow> (None, m))"

text \<open>The slot an insertion of a new key uses before the array is grown.\<close>

definition rpc_map_free_slot :: "'v rpc_map \<Rightarrow> nat" where
  "rpc_map_free_slot m =
     (case entries m of
        None \<Rightarrow> n_entries_max m
      | Some es \<Rightarrow>
          (case first_index (\<lambda>e. e_value e = None) (take (n_entries_max m) es) of
             None \<Rightarrow> n_entries_max m
           | Some i \<Rightarrow> i))"

text \<open>
  \<open>realloc\<close> to \<open>n_entries_max + 7\<close> cells (the new ones hold \<open>junk\<close>), then \<open>memset\<close> of seven cells
  from \<open>n_entries\<close> on.
\<close>

definition rpc_map_grow :: "'v rpc_map_entry \<Rightarrow> 'v rpc_map \<Rightarrow> 'v rpc_map_entry list" where
  "rpc_map_grow junk m =
     (let old = (case entries m of None \<Rightarrow> [] | Some es \<Rightarrow> es);
          es = old @ replicate (n_entries_max m + N_ENTRIES_ALLOC - length old) junk;
          i = n_entries m
      in take i es @ replicate N_ENTRIES_ALLOC zero_entry @ drop (i + N_ENTRIES_ALLOC) es)"

definition rpc_map_store :: "nat \<Rightarrow> int \<Rightarrow> 'v \<Rightarrow> 'v rpc_map_entry list \<Rightarrow> 'v rpc_map_entry list"
where
  "rpc_map_store i key v es = es[i := \<lparr>e_value = Some v, e_key = key, use_count = 0\<rparr>]"

definition rpc_map_insert ::
  "bool \<Rightarrow> 'v rpc_map_entry \<Rightarrow> 'v rpc_map \<Rightarrow> int \<Rightarrow> 'v \<Rightarrow> int \<times> 'v rpc_map"
where
  "rpc_map_insert realloc_ok junk m key v =
     (case (rpc_map_lookup_entry m key, entries m) of
        (Some i, Some es) \<Rightarrow>
          (RPC_ERROR_NO_ERROR,
           m\<lparr>entries := Some (es[i := (es ! i)\<lparr>e_value := Some v, use_count := 0\<rparr>])\<rparr>)
      | _ \<Rightarrow>
          (let i = rpc_map_free_slot m
           in if i \<ge> n_entries_max m
              then (if \<not> realloc_ok then (RPC_ERROR_NO_MEMORY, m\<lparr>entries := None\<rparr>)
                    else (0, m\<lparr>entries := Some (rpc_map_store (n_entries m) key v
                                                  (rpc_map_grow junk m)),
                               n_entries_max := n_entries_max m + N_ENTRIES_ALLOC,
                               n_entries := n_entries m + 1\<rparr>))
              else (0, m\<lparr>entries := map_option (rpc_map_store i key v) (entries m),
                         n_entries := n_entries m + 1\<rparr>)))"

subsection \<open>Well-formed tables and what they denote\<close>

definition cells :: "'v rpc_map \<Rightarrow> 'v rpc_map_entry list" where
  "cells m = (case entries m of None \<Rightarrow> [] | Some es \<Rightarrow> es)"

definition used :: "'v rpc_map \<Rightarrow> 'v rpc_map_entry list" where
  "used m = take (n_entries m) (cells m)"

definition rpc_map_ok :: "'v rpc_map \<Rightarrow> bool" where
  "rpc_map_ok m \<longleftrightarrow>
     (entries m = None \<longrightarrow> n_entries_max m = 0) \<and>
     length (cells m) = n_entries_max m \<and>
     n_entries m \<le> n_entries_max m \<and>
     n_entries_max m mod N_ENTRIES_ALLOC = 0 \<and>
     list_all (\<lambda>e. e_value e \<noteq> None) (used m) \<and>
     list_all (\<lambda>e. e_value e = None) (drop (n_entries m) (cells m)) \<and>
     distinct (map e_key (used m))"

definition rpc_map_abs :: "'v rpc_map \<Rightarrow> int \<Rightarrow> 'v option" where
  "rpc_map_abs m key =
     (case rpc_map_lookup_entry m key of
        None \<Rightarrow> None
      | Some i \<Rightarrow> e_value (cells m ! i))"

lemma cells_Some [simp]: "entries m = Some es \<Longrightarrow> cells m = es"
  by (simp add: cells_def)

lemma lookup_entry_used: "rpc_map_lookup_entry m key = first_index (\<lambda>e. e_key e = key) (used m)"
  by (simp add: rpc_map_lookup_entry_def used_def cells_def split: option.split)

lemma lookup_entry_SomeD:
  assumes "rpc_map_lookup_entry m key = Some i"
  shows "i < n_entries m" "i < length (cells m)" "e_key (cells m ! i) = key"
    "used m ! i = cells m ! i" "\<exists>es. entries m = Some es"
proof -
  from assms have *: "i < length (used m)" "e_key (used m ! i) = key"
    by (auto simp: lookup_entry_used dest: first_index_SomeD)
  then show "i < n_entries m" "i < length (cells m)" "used m ! i = cells m ! i"
    "e_key (cells m ! i) = key"
    by (simp_all add: used_def)
  from * show "\<exists>es. entries m = Some es"
    by (cases "entries m") (simp_all add: used_def cells_def)
qed

text \<open>The denotation is the association list of the used cells.\<close>

lemma abs_map_of:
  "rpc_map_abs m key = map_option (the \<circ> e_value) (map_of (map (\<lambda>e. (e_key e, e)) (used m)) key)"
  if "rpc_map_ok m"
proof -
  have "list_all (\<lambda>e. e_value e \<noteq> None) es \<Longrightarrow>
      (case first_index (\<lambda>e. e_key e = key) es of None \<Rightarrow> None | Some i \<Rightarrow> e_value (es ! i)) =
      map_option (the \<circ> e_value) (map_of (map (\<lambda>e. (e_key e, e)) es) key)"
    for es :: "'a rpc_map_entry list"
  proof (induction es)
    case Nil
    show ?case by simp
  next
    case (Cons e es)
    then show ?case
      by (cases "first_index (\<lambda>e. e_key e = key) es") auto
  qed
  from this [of "used m"] that show ?thesis
    by (auto simp: rpc_map_abs_def lookup_entry_used rpc_map_ok_def split: option.splits
        dest: lookup_entry_SomeD [unfolded lookup_entry_used])
qed

subsection \<open>Correctness of the operations\<close>

lemma rpc_map_new_ok: "rpc_map_new b = Some m \<Longrightarrow> rpc_map_ok m \<and> rpc_map_abs m = Map.empty"
  by (auto simp: rpc_map_new_def rpc_map_ok_def cells_def used_def rpc_map_abs_def
      rpc_map_lookup_entry_def split: if_splits)

lemma abs_None_iff:
  assumes "rpc_map_ok m"
  shows "rpc_map_abs m key = None \<longleftrightarrow> rpc_map_lookup_entry m key = None"
proof (cases "rpc_map_lookup_entry m key")
  case None
  then show ?thesis by (simp add: rpc_map_abs_def)
next
  case (Some i)
  have "used m ! i \<in> set (used m)"
    using Some by (auto simp: lookup_entry_used dest: first_index_SomeD)
  moreover have "used m ! i = cells m ! i"
    using Some by (rule lookup_entry_SomeD)
  ultimately show ?thesis
    using Some assms by (auto simp: rpc_map_abs_def rpc_map_ok_def list_all_iff)
qed

text \<open>Updating a used cell in place, keeping its key.\<close>

lemma update_used_cell:
  assumes ok: "rpc_map_ok m" and i: "rpc_map_lookup_entry m key = Some i"
    and e: "e_key e = key" "e_value e = Some v"
    and m': "m' = m\<lparr>entries := Some ((cells m)[i := e])\<rparr>"
  shows "rpc_map_ok m'" "rpc_map_abs m' = (rpc_map_abs m)(key \<mapsto> v)"
proof -
  note D = lookup_entry_SomeD [OF i]
  have c: "cells m' = (cells m)[i := e]"
    by (simp add: m')
  have u: "used m' = (used m)[i := e]"
    using D(1) by (simp add: m' used_def take_update_swap)
  have d: "drop (n_entries m) (cells m') = drop (n_entries m) (cells m)"
    using D(1) by (simp add: m')
  have lu: "i < length (used m)"
    using D(1,2) by (simp add: used_def)
  have k: "map e_key (used m') = map e_key (used m)"
    using e D lu by (simp add: u map_update list_update_same_conv)
  have v: "list_all (\<lambda>e. e_value e \<noteq> None) (used m')"
    using ok e lu by (auto simp: u rpc_map_ok_def list_all_iff dest!: set_update_subset_insert [THEN subsetD])
  show "rpc_map_ok m'"
    using ok k v d by (auto simp: rpc_map_ok_def m')
  have le: "rpc_map_lookup_entry m' k' = rpc_map_lookup_entry m k'" for k'
  proof -
    have "first_index (\<lambda>e. e_key e = k') es = first_index (\<lambda>x. x = k') (map e_key es)"
      for es :: "'a rpc_map_entry list"
      by (induction es) auto
    then show ?thesis by (simp add: lookup_entry_used k)
  qed
  show "rpc_map_abs m' = (rpc_map_abs m)(key \<mapsto> v)"
  proof
    fix k'
    show "rpc_map_abs m' k' = ((rpc_map_abs m)(key \<mapsto> v)) k'"
    proof (cases "k' = key")
      case True
      with i e D(2) show ?thesis by (simp add: rpc_map_abs_def le c)
    next
      case False
      then have "j \<noteq> i" if "rpc_map_lookup_entry m k' = Some j" for j
        using lookup_entry_SomeD(3) [OF that] D(3) by auto
      with False show ?thesis
        by (auto simp: rpc_map_abs_def le c split: option.splits)
    qed
  qed
qed

text \<open>Storing a new key in the first free cell of an array whose used part is \<open>used m\<close>.\<close>

lemma store_new_cell:
  assumes ok: "rpc_map_ok m" and new: "rpc_map_lookup_entry m key = None"
    and es: "take (n_entries m) es = used m" "n_entries m < length es"
      "list_all (\<lambda>e. e_value e = None) (drop (n_entries m) es)" "length es mod N_ENTRIES_ALLOC = 0"
    and m': "entries m' = Some (rpc_map_store (n_entries m) key v es)"
      "n_entries m' = n_entries m + 1" "n_entries_max m' = length es"
  shows "rpc_map_ok m'" "rpc_map_abs m' = (rpc_map_abs m)(key \<mapsto> v)"
proof -
  let ?e = "\<lparr>e_value = Some v, e_key = key, use_count = 0\<rparr>"
  have lu: "length (used m) = n_entries m"
    using es(1,2) by (metis length_take min.absorb4)
  have u: "used m' = used m @ [?e]"
    using es(1,2) m'
    by (simp add: used_def [of m'] rpc_map_store_def take_Suc_conv_app_nth take_update_swap
        list_update_append lu)
  have d: "drop (n_entries m') (cells m') = drop (Suc (n_entries m)) es"
    using m' by (simp add: rpc_map_store_def)
  have "set (drop (Suc (n_entries m)) es) \<subseteq> set (drop (n_entries m) es)"
    by (rule set_drop_subset_set_drop) simp
  then have free: "list_all (\<lambda>e. e_value e = None) (drop (n_entries m') (cells m'))"
    using es(3) by (auto simp: d list_all_iff)
  have "key \<notin> set (map e_key (used m))"
    using new by (auto simp: lookup_entry_used first_index_None_iff)
  then show ok': "rpc_map_ok m'"
    using ok free m' es by (auto simp: rpc_map_ok_def u rpc_map_store_def)
  have "map_of (map (\<lambda>e. (e_key e, e)) (used m)) key = None"
    using new by (force simp: lookup_entry_used first_index_None_iff map_of_eq_None_iff)
  then show "rpc_map_abs m' = (rpc_map_abs m)(key \<mapsto> v)"
    by (auto simp: abs_map_of [OF ok] abs_map_of [OF ok'] u map_add_def fun_eq_iff
        split: option.splits)
qed

lemma rpc_map_lookup_correct:
  assumes "rpc_map_ok m"
  shows "fst (rpc_map_lookup m key) = rpc_map_abs m key"
    "rpc_map_ok (snd (rpc_map_lookup m key))"
    "rpc_map_abs (snd (rpc_map_lookup m key)) = rpc_map_abs m"
proof -
  have "fst (rpc_map_lookup m key) = rpc_map_abs m key \<and>
    rpc_map_ok (snd (rpc_map_lookup m key)) \<and>
    rpc_map_abs (snd (rpc_map_lookup m key)) = rpc_map_abs m"
  proof (cases "rpc_map_lookup_entry m key")
    case None
    with assms show ?thesis by (simp add: rpc_map_lookup_def rpc_map_abs_def)
  next
    case (Some i)
    then obtain es where es: "entries m = Some es"
      by (auto dest: lookup_entry_SomeD(5))
    obtain v where v: "rpc_map_abs m key = Some v"
      using abs_None_iff [OF assms, of key] Some by auto
    then have "e_value (es ! i) = Some v"
      using Some es by (simp add: rpc_map_abs_def)
    moreover have "e_key (es ! i) = key"
      using lookup_entry_SomeD(3) [OF Some] es by simp
    ultimately show ?thesis
      using update_used_cell [OF assms Some _ _ refl, of "(es ! i)\<lparr>use_count := use_count (es ! i) + 1\<rparr>" v]
        v es Some by (simp add: rpc_map_lookup_def map_upd_triv)
  qed
  then show "fst (rpc_map_lookup m key) = rpc_map_abs m key"
    "rpc_map_ok (snd (rpc_map_lookup m key))"
    "rpc_map_abs (snd (rpc_map_lookup m key)) = rpc_map_abs m"
    by simp_all
qed

text \<open>In a well-formed table the first cell without a value is the cell after the used ones.\<close>

lemma free_slot_ok:
  assumes "rpc_map_ok m"
  shows "rpc_map_free_slot m = n_entries m"
proof (cases "n_entries m = n_entries_max m")
  case True
  with assms have "\<forall>e \<in> set (cells m). e_value e \<noteq> None"
    by (auto simp: rpc_map_ok_def used_def list_all_iff)
  then have "first_index (\<lambda>e. e_value e = None) (cells m) = None"
    by (simp add: first_index_None_iff)
  with assms True show ?thesis
    by (auto simp: rpc_map_free_slot_def rpc_map_ok_def split: option.splits)
next
  case False
  with assms have n: "n_entries m < length (cells m)"
    by (auto simp: rpc_map_ok_def)
  then obtain es where es: "entries m = Some es" "length es = n_entries_max m"
    using assms by (cases "entries m") (auto simp: cells_def rpc_map_ok_def)
  have "e_value (es ! n_entries m) = None"
    using assms n es by (auto simp: rpc_map_ok_def list_all_length dest!: spec [of _ 0])
  moreover have "e_value (es ! j) \<noteq> None" if "j < n_entries m" for j
    using assms n es that by (auto simp: rpc_map_ok_def used_def list_all_length)
  ultimately have "first_index (\<lambda>e. e_value e = None) es = Some (n_entries m)"
    using n es by (intro first_index_unique) auto
  with es show ?thesis by (simp add: rpc_map_free_slot_def)
qed

lemma grow_ok:
  assumes "rpc_map_ok m" "n_entries m = n_entries_max m"
  shows "rpc_map_grow junk m = cells m @ replicate N_ENTRIES_ALLOC zero_entry"
  using assms by (simp add: rpc_map_grow_def rpc_map_ok_def cells_def N_ENTRIES_ALLOC_def Let_def
      split: option.splits)

lemma rpc_map_insert_correct:
  assumes ok: "rpc_map_ok m"
  shows "fst (rpc_map_insert True junk m key v) = RPC_ERROR_NO_ERROR"
    "rpc_map_ok (snd (rpc_map_insert True junk m key v))"
    "rpc_map_abs (snd (rpc_map_insert True junk m key v)) = (rpc_map_abs m)(key \<mapsto> v)"
proof -
  let ?r = "rpc_map_insert True junk m key v"
  have "fst ?r = RPC_ERROR_NO_ERROR \<and> rpc_map_ok (snd ?r) \<and>
    rpc_map_abs (snd ?r) = (rpc_map_abs m)(key \<mapsto> v)"
  proof (cases "rpc_map_lookup_entry m key")
    case (Some i)
    then obtain es where es: "entries m = Some es" and "e_key (es ! i) = key"
      using lookup_entry_SomeD(3,5) [OF Some] by auto
    then show ?thesis
      using update_used_cell [OF ok Some _ _ refl, of "(es ! i)\<lparr>e_value := Some v, use_count := 0\<rparr>" v]
        Some by (simp add: rpc_map_insert_def)
  next
    case None
    show ?thesis
    proof (cases "n_entries m = n_entries_max m")
      case True
      have l: "length (cells m) = n_entries_max m" "n_entries_max m mod N_ENTRIES_ALLOC = 0"
        using ok by (auto simp: rpc_map_ok_def)
      show ?thesis
        using store_new_cell [OF ok None, of "cells m @ replicate N_ENTRIES_ALLOC zero_entry"
            "snd ?r" v] None True l
        by (simp add: rpc_map_insert_def free_slot_ok [OF ok] grow_ok [OF ok True] used_def
            N_ENTRIES_ALLOC_def list_all_length zero_entry_def Let_def split: option.splits)
    next
      case False
      with ok have n: "n_entries m < length (cells m)" "length (cells m) = n_entries_max m"
        by (auto simp: rpc_map_ok_def)
      then obtain es where es: "entries m = Some es"
        by (cases "entries m") (auto simp: cells_def)
      with n None have r: "?r = (0, m\<lparr>entries := Some (rpc_map_store (n_entries m) key v es),
          n_entries := n_entries m + 1\<rparr>)"
        by (simp add: rpc_map_insert_def free_slot_ok [OF ok] Let_def)
      have "list_all (\<lambda>e. e_value e = None) (drop (n_entries m) es)"
        "length es mod N_ENTRIES_ALLOC = 0" "take (n_entries m) es = used m"
        using ok es by (auto simp: rpc_map_ok_def used_def)
      with n es show ?thesis
        by (simp add: r store_new_cell [OF ok None])
    qed
  qed
  then show "fst ?r = RPC_ERROR_NO_ERROR" "rpc_map_ok (snd ?r)"
    "rpc_map_abs (snd ?r) = (rpc_map_abs m)(key \<mapsto> v)"
    by simp_all
qed

subsection \<open>Tables as finite maps\<close>

text \<open>
  A sequence of insertions and lookups. An insertion returns a code, a lookup the value it found.
  An insertion names the content \<open>realloc\<close> leaves in the cells it adds.
\<close>

datatype 'v map_call = Insert "'v rpc_map_entry" int 'v | Lookup int

datatype 'v map_outcome = Code int | Value "'v option"

primrec run_call :: "'v map_call \<Rightarrow> 'v rpc_map \<Rightarrow> 'v map_outcome \<times> 'v rpc_map" where
  "run_call (Insert junk k v) m = apfst Code (rpc_map_insert True junk m k v)"
| "run_call (Lookup k) m = apfst Value (rpc_map_lookup m k)"

primrec spec_call ::
  "'v map_call \<Rightarrow> (int \<Rightarrow> 'v option) \<Rightarrow> 'v map_outcome \<times> (int \<Rightarrow> 'v option)"
where
  "spec_call (Insert junk k v) f = (Code RPC_ERROR_NO_ERROR, f(k \<mapsto> v))"
| "spec_call (Lookup k) f = (Value (f k), f)"

fun run_calls :: "('c \<Rightarrow> 's \<Rightarrow> 'r \<times> 's) \<Rightarrow> 'c list \<Rightarrow> 's \<Rightarrow> 'r list \<times> 's" where
  "run_calls step [] s = ([], s)"
| "run_calls step (c # cs) s =
     (case step c s of (r, s') \<Rightarrow> apfst ((#) r) (run_calls step cs s'))"

lemma run_call_refines:
  assumes "rpc_map_ok m"
  shows "fst (run_call c m) = fst (spec_call c (rpc_map_abs m))"
    "rpc_map_ok (snd (run_call c m))"
    "rpc_map_abs (snd (run_call c m)) = snd (spec_call c (rpc_map_abs m))"
  using rpc_map_lookup_correct [OF assms] rpc_map_insert_correct [OF assms] by (cases c; simp)+

lemma run_calls_refine:
  assumes "rpc_map_ok m" "run_calls run_call cs m = (rs, m')"
  shows "run_calls spec_call cs (rpc_map_abs m) = (rs, rpc_map_abs m') \<and> rpc_map_ok m'"
  using assms
proof (induction cs arbitrary: m rs)
  case (Cons c cs)
  note step = run_call_refines [OF Cons.prems(1), of c]
  obtain rs' where "run_calls run_call cs (snd (run_call c m)) = (rs', m')"
    "rs = fst (run_call c m) # rs'"
    using Cons.prems(2) by (auto simp: case_prod_unfold apfst_def map_prod_def prod_eq_iff)
  with Cons.IH [OF step(2)] step show ?case by (simp add: case_prod_unfold)
qed simp

text \<open>
  C9. The linear-search table behaves as a finite map: every sequence of insertions and lookups on
  a new table (no allocation failing, whatever \<open>realloc\<close> leaves in the cells it adds) returns what
  the same sequence returns on a map, the code RPC_ERROR_NO_ERROR of every insertion included, and
  ends in a well-formed table that denotes the map the sequence ends with. This covers overwriting,
  growth past each seven entries and the use counters.
\<close>

theorem rpc_map_refines:
  assumes "rpc_map_new True = Some m" "run_calls run_call cs m = (rs, m')"
  shows "run_calls spec_call cs Map.empty = (rs, rpc_map_abs m') \<and> rpc_map_ok m'"
  using run_calls_refine [of m cs rs m'] rpc_map_new_ok [OF assms(1)] assms(2) by simp

text \<open>Nine keys, so that the array grows twice over dirty cells, and one of them overwritten.\<close>

definition sample_calls :: "nat map_call list" where
  "sample_calls =
     (let dirty = \<lparr>e_value = Some 9, e_key = 8, use_count = 3\<rparr>
      in [Insert dirty 1 5, Insert dirty 2 6, Insert dirty 3 6, Insert dirty 4 6, Insert dirty 5 6,
          Insert dirty 6 6, Insert dirty 7 6, Lookup 8, Insert dirty 9 4, Insert dirty 1 7,
          Lookup 1, Lookup 8, Lookup 9])"

theorem rpc_map_refines_witness:
  "\<exists>m'. run_calls spec_call sample_calls Map.empty =
      (map Code (replicate 7 0) @ [Value None, Code 0, Code 0, Value (Some 7), Value None,
       Value (Some 4)], rpc_map_abs m') \<and> rpc_map_ok m' \<and> n_entries_max m' = 14"
proof -
  let ?m = "the (rpc_map_new True) :: nat rpc_map"
  let ?m' = "snd (run_calls run_call sample_calls ?m)"
  have "rpc_map_new True = Some ?m" by (simp add: rpc_map_new_def)
  moreover have "run_calls run_call sample_calls ?m =
      (map Code (replicate 7 0) @ [Value None, Code 0, Code 0, Value (Some 7), Value None,
       Value (Some 4)], ?m')" "n_entries_max ?m' = 14"
    by code_simp+
  ultimately show ?thesis using rpc_map_refines by blast
qed

end
