(* ===== verification/Rpc_Message.thy ===== *)
theory Rpc_Message
  imports Rpc_Io Rpc_Map
begin

text \<open>
  Messages of \<^verbatim>\<open>rpc.c\<close>: the output buffer, the marshaling of scalars, strings and argument lists,
  and their unmarshaling. A call works on a pair of a local \<open>rpc_message_t\<close> and the state of the
  endpoint. The \<open>types\<close> and \<open>socket\<close> members of a message alias those of its connection, so
  they are read from the endpoint state.
\<close>

subsection \<open>The output buffer\<close>

definition BUFSIZ :: nat where
  "BUFSIZ = 8192"

record rpc_message =
  msg_offset :: nat
  msg_buffer :: "nat \<Rightarrow> byte"

definition on_io :: "('s, 'a) op \<Rightarrow> (rpc_message \<times> 's, 'a) op" where
  "on_io m = (\<lambda>(msg, s). case m s of (r, s') \<Rightarrow> (r, (msg, s')))"

text \<open>\<open>rpc_message_init\<close>; the buffer is uninitialised memory, read nowhere before it is written.\<close>

definition rpc_message_init :: rpc_message where
  "rpc_message_init = \<lparr>msg_offset = 0, msg_buffer = (\<lambda>_. 0)\<rparr>"

definition buffered :: "rpc_message \<Rightarrow> byte list" where
  "buffered msg = map (msg_buffer msg) [0..<msg_offset msg]"

definition rpc_message_flush :: "(rpc_message \<times> 'z io_state_scheme, unit) op" where
  "rpc_message_flush = (\<lambda>(msg, s).
     case rpc_message_send_bytes_1 (buffered msg) s of
       (r, s') \<Rightarrow> (r, (msg\<lparr>msg_offset := 0\<rparr>, s')))"

text \<open>\<open>memcpy\<close> to the buffer at the current offset; writing past its end is a crash.\<close>

definition memcpy_buffer :: "byte list \<Rightarrow> (rpc_message \<times> 's, unit) op" where
  "memcpy_buffer bytes = (\<lambda>(msg, s).
     if msg_offset msg + length bytes \<le> BUFSIZ
     then (Ok (),
           (msg\<lparr>msg_buffer := (\<lambda>i. if msg_offset msg \<le> i \<and> i < msg_offset msg + length bytes
                                    then bytes ! (i - msg_offset msg) else msg_buffer msg i)\<rparr>, s))
     else (Crash Out_of_bounds, (msg, s)))"

definition rpc_message_send_bytes :: "byte list \<Rightarrow> (rpc_message \<times> 'z io_state_scheme, unit) op"
where
  "rpc_message_send_bytes bytes = (\<lambda>(msg, s).
     if msg_offset msg + length bytes \<ge> BUFSIZ
     then then_op rpc_message_flush (on_io (rpc_message_send_bytes_1 bytes)) (msg, s)
     else then_op (memcpy_buffer bytes)
            (modify_state (\<lambda>(msg', s'). (msg'\<lparr>msg_offset := msg_offset msg' + length bytes\<rparr>, s')))
            (msg, s))"

subsection \<open>Sending scalars and strings\<close>

definition rpc_message_send_char :: "byte \<Rightarrow> (rpc_message \<times> 'z io_state_scheme, unit) op" where
  "rpc_message_send_char c = rpc_message_send_bytes [c]"

definition rpc_message_send_int32 :: "int32 \<Rightarrow> (rpc_message \<times> 'z io_state_scheme, unit) op" where
  "rpc_message_send_int32 v = rpc_message_send_bytes (htonl v)"

definition rpc_message_send_uint32 :: "uint32 \<Rightarrow> (rpc_message \<times> 'z io_state_scheme, unit) op" where
  "rpc_message_send_uint32 v = rpc_message_send_bytes (htonl v)"

definition rpc_message_send_uint64 :: "uint64 \<Rightarrow> (rpc_message \<times> 'z io_state_scheme, unit) op" where
  "rpc_message_send_uint64 v =
     then_op (rpc_message_send_uint32 (hi32 v)) (rpc_message_send_uint32 (lo32 v))"

text \<open>
  A \<open>double\<close> is its 64-bit IEEE 754 pattern; the members of \<open>ieee_double_shape_t.parts\<close> are its
  bit fields.
\<close>

definition dbl_negative :: "uint64 \<Rightarrow> uint32" where
  "dbl_negative d = ucast (drop_bit 63 d)"

definition dbl_exponent :: "uint64 \<Rightarrow> uint32" where
  "dbl_exponent d = ucast (take_bit 11 (drop_bit 52 d))"

definition dbl_mantissa0 :: "uint64 \<Rightarrow> uint32" where
  "dbl_mantissa0 d = ucast (take_bit 20 (drop_bit 32 d))"

definition dbl_mantissa1 :: "uint64 \<Rightarrow> uint32" where
  "dbl_mantissa1 d = ucast d"

definition dbl_of_parts :: "uint32 \<Rightarrow> uint32 \<Rightarrow> uint32 \<Rightarrow> uint32 \<Rightarrow> uint64" where
  "dbl_of_parts negative exponent mantissa0 mantissa1 =
     push_bit 63 (ucast (take_bit 1 negative)) OR push_bit 52 (ucast (take_bit 11 exponent)) OR
     push_bit 32 (ucast (take_bit 20 mantissa0)) OR ucast mantissa1"

definition rpc_message_send_double :: "uint64 \<Rightarrow> (rpc_message \<times> 'z io_state_scheme, unit) op" where
  "rpc_message_send_double d = run_all
     [rpc_message_send_uint32 (dbl_negative d), rpc_message_send_uint32 (dbl_exponent d),
      rpc_message_send_uint32 (dbl_mantissa0 d), rpc_message_send_uint32 (dbl_mantissa1 d)]"

text \<open>
  A C string is \<open>None\<close> (\<open>NULL\<close>) or the bytes before its terminating zero. The length is an \<open>int\<close>,
  \<open>-1\<close> for \<open>NULL\<close>.
\<close>

type_synonym c_string = "byte list option"

definition string_length :: "c_string \<Rightarrow> int32" where
  "string_length str = (case str of None \<Rightarrow> - 1 | Some b \<Rightarrow> word_of_nat (length b))"

definition rpc_message_send_string ::
  "c_string \<Rightarrow> (rpc_message \<times> 'z io_state_scheme, unit) op"
where
  "rpc_message_send_string str =
     (let len = string_length str
      in then_op (rpc_message_send_bytes (htonl len))
           (case str of
              Some b \<Rightarrow> if 0 < c_int len then rpc_message_send_bytes (take (nat (c_int len)) b) else ret ()
            | None \<Rightarrow> ret ()))"

subsection \<open>Receiving scalars and strings\<close>

definition rpc_message_recv_bytes ::
  "nat \<Rightarrow> (rpc_message \<times> 'z io_state_scheme, byte list) op"
where
  "rpc_message_recv_bytes count = on_io (rpc_message_recv_bytes_1 count)"

definition rpc_message_recv_char :: "(rpc_message \<times> 'z io_state_scheme, byte) op" where
  "rpc_message_recv_char = bind_op (rpc_message_recv_bytes 1) (\<lambda>bs. ret (hd bs))"

definition rpc_message_recv_int32 :: "(rpc_message \<times> 'z io_state_scheme, int32) op" where
  "rpc_message_recv_int32 = bind_op (rpc_message_recv_bytes 4) (\<lambda>bs. ret (ntohl bs))"

definition rpc_message_recv_uint32 :: "(rpc_message \<times> 'z io_state_scheme, uint32) op" where
  "rpc_message_recv_uint32 = bind_op (rpc_message_recv_bytes 4) (\<lambda>bs. ret (ntohl bs))"

definition rpc_message_recv_uint64 :: "(rpc_message \<times> 'z io_state_scheme, uint64) op" where
  "rpc_message_recv_uint64 =
     bind_op rpc_message_recv_uint32 (\<lambda>hi.
     bind_op rpc_message_recv_uint32 (\<lambda>lo. ret (join64 hi lo)))"

definition rpc_message_recv_double :: "(rpc_message \<times> 'z io_state_scheme, uint64) op" where
  "rpc_message_recv_double =
     bind_op rpc_message_recv_uint32 (\<lambda>negative.
     bind_op rpc_message_recv_uint32 (\<lambda>exponent.
     bind_op rpc_message_recv_uint32 (\<lambda>mantissa0.
     bind_op rpc_message_recv_uint32 (\<lambda>mantissa1.
       ret (dbl_of_parts negative exponent mantissa0 mantissa1)))))"

text \<open>
  The count of \<open>rpc_message_send_bytes\<close> and \<open>rpc_message_recv_bytes\<close> is an \<open>int\<close>. Callers pass
  unsigned 32-bit lengths: from \<open>2 ^ 31\<close> on they become negative, and the kernel is then handed a size
  that is not bounded by the block; this counts as an access out of bounds, as does sending more
  than the object holds.
\<close>

definition send_counted :: "uint32 \<Rightarrow> byte list \<Rightarrow> (rpc_message \<times> 'z io_state_scheme, unit) op" where
  "send_counted n bytes =
     (if c_int n < 0 \<or> length bytes < unat n then crash Out_of_bounds
      else rpc_message_send_bytes (take (unat n) bytes))"

definition recv_counted :: "uint32 \<Rightarrow> (rpc_message \<times> 'z io_state_scheme, byte list) op" where
  "recv_counted n = (if c_int n < 0 then crash Out_of_bounds else rpc_message_recv_bytes (unat n))"

text \<open>\<open>malloc (n)\<close> with the size already converted to \<open>size_t\<close>.\<close>

definition malloc_op :: "nat \<Rightarrow> (rpc_message \<times> 'z io_state_scheme, unit) op" where
  "malloc_op n = (\<lambda>(msg, s).
     (if malloc_ok s n then Ok () else Err RPC_ERROR_NO_MEMORY, (msg, s)))"

text \<open>An \<open>int\<close> argument of \<open>malloc\<close>: a negative one becomes a huge \<open>size_t\<close>.\<close>

definition size_of_int32 :: "int32 \<Rightarrow> nat" where
  "size_of_int32 w = unat (scast w :: uint64)"

text \<open>
  Receiving \<open>n\<close> bytes into a block of \<open>block\<close> bytes: the bytes that arrive are stored, also when the
  transfer fails half-way. Storing one byte at an \<open>int\<close> offset of a block.
\<close>

definition recv_in_block :: "nat \<Rightarrow> nat \<Rightarrow> (rpc_message \<times> 'z io_state_scheme, byte list) op" where
  "recv_in_block block n = (\<lambda>(msg, s).
     case rpc_message_recv_bytes n (msg, s) of
       (r, (msg', s')) \<Rightarrow>
         (if block < length (rx_queue s) - length (rx_queue s') then Crash Out_of_bounds else r, (msg', s')))"

definition store_byte :: "nat \<Rightarrow> int \<Rightarrow> ('s, unit) op" where
  "store_byte block i = (if 0 \<le> i \<and> i < int block then ret () else crash Out_of_bounds)"

text \<open>The block holds \<open>length + 1\<close> bytes: the string, and the zero stored behind it.\<close>

definition rpc_message_recv_string :: "(rpc_message \<times> 'z io_state_scheme, c_string) op" where
  "rpc_message_recv_string =
     bind_op (rpc_message_recv_bytes 4) (\<lambda>bs.
     let len = ntohl bs in
     let block = size_of_int32 (len + 1) in
     if len = - 1 then ret None
     else then_op (malloc_op block)
       (bind_op (if 0 < c_int len then recv_in_block block (nat (c_int len)) else ret []) (\<lambda>str.
        then_op (store_byte block (c_int len)) (ret (Some str)))))"

subsection \<open>User-defined marshalers\<close>

text \<open>
  \<open>rpc_message_descriptor_t\<close>. Function pointers are code addresses; what the code at an address
  does is given by the environment \<open>fptrs\<close>, whose values of user-defined types are of type \<open>'u\<close>.
\<close>

record rpc_message_descriptor =
  d_id :: int
  d_size :: nat
  d_send_callback :: code_ptr
  d_recv_callback :: code_ptr

record ('s, 'u) fptrs =
  call_send :: "code_ptr \<Rightarrow> 'u \<Rightarrow> (rpc_message \<times> 's, unit) op"
  call_recv :: "code_ptr \<Rightarrow> (rpc_message \<times> 's, 'u) op"

text \<open>The endpoint state with the table of marshalers of the connection (\<open>None\<close> for \<open>NULL\<close>).\<close>

record rpc_base = io_state +
  conn_types :: "rpc_message_descriptor rpc_map option"

definition rpc_message_descriptor_lookup ::
  "int \<Rightarrow> (rpc_message \<times> 'z rpc_base_scheme, rpc_message_descriptor option) op"
where
  "rpc_message_descriptor_lookup ident = (\<lambda>(msg, s).
     case conn_types s of
       None \<Rightarrow> (Ok None, (msg, s))
     | Some m \<Rightarrow>
         (case rpc_map_lookup m ident of
            (d, m') \<Rightarrow> (Ok d, (msg, s\<lparr>conn_types := Some m'\<rparr>))))"

subsection \<open>Argument lists\<close>

text \<open>
  The arguments of a variadic call, up to the terminating \<open>RPC_TYPE_INVALID\<close>: a type tag and a
  value of that type. An array argument has an element type, a size and a pointer, which may be
  \<open>NULL\<close> (\<open>C_null\<close>, with the declared element type).
\<close>

datatype 'u c_array =
    C_null int
  | C_char "byte list"
  | C_boolean "int32 list"
  | C_int32 "int32 list"
  | C_uint32 "uint32 list"
  | C_uint64 "uint64 list"
  | C_double "uint64 list"
  | C_string "c_string list"
  | C_user int "'u list"

datatype 'u rpc_arg =
    Char byte
  | Boolean int32
  | Int32 int32
  | Uint32 uint32
  | Uint64 uint64
  | Double uint64
  | Str c_string
  | Array uint32 "'u c_array"
  | User int 'u

fun array_type :: "'u c_array \<Rightarrow> int" where
  "array_type (C_null t) = t"
| "array_type (C_char _) = RPC_TYPE_CHAR"
| "array_type (C_boolean _) = RPC_TYPE_BOOLEAN"
| "array_type (C_int32 _) = RPC_TYPE_INT32"
| "array_type (C_uint32 _) = RPC_TYPE_UINT32"
| "array_type (C_uint64 _) = RPC_TYPE_UINT64"
| "array_type (C_double _) = RPC_TYPE_DOUBLE"
| "array_type (C_string _) = RPC_TYPE_STRING"
| "array_type (C_user t _) = t"

fun array_length :: "'u c_array \<Rightarrow> nat" where
  "array_length (C_null t) = 0"
| "array_length (C_char xs) = length xs"
| "array_length (C_boolean xs) = length xs"
| "array_length (C_int32 xs) = length xs"
| "array_length (C_uint32 xs) = length xs"
| "array_length (C_uint64 xs) = length xs"
| "array_length (C_double xs) = length xs"
| "array_length (C_string xs) = length xs"
| "array_length (C_user t xs) = length xs"

fun arg_type :: "'u rpc_arg \<Rightarrow> int" where
  "arg_type (Char _) = RPC_TYPE_CHAR"
| "arg_type (Boolean _) = RPC_TYPE_BOOLEAN"
| "arg_type (Int32 _) = RPC_TYPE_INT32"
| "arg_type (Uint32 _) = RPC_TYPE_UINT32"
| "arg_type (Uint64 _) = RPC_TYPE_UINT64"
| "arg_type (Double _) = RPC_TYPE_DOUBLE"
| "arg_type (Str _) = RPC_TYPE_STRING"
| "arg_type (Array _ _) = RPC_TYPE_ARRAY"
| "arg_type (User t _) = t"

text \<open>The built-in tags, for which the marshaler table is not consulted.\<close>

definition builtin_type :: "int \<Rightarrow> bool" where
  "builtin_type t \<longleftrightarrow> RPC_TYPE_ARRAY \<le> t \<and> t \<le> RPC_TYPE_CHAR"

subsection \<open>Sending arguments\<close>

text \<open>The \<open>default\<close> cases: look the marshaler up and call it, on one value or on each element.\<close>

definition send_user ::
  "('z rpc_base_scheme, 'u) fptrs \<Rightarrow> int \<Rightarrow> 'u list \<Rightarrow> (rpc_message \<times> 'z rpc_base_scheme, unit) op"
where
  "send_user E t us =
     bind_op (rpc_message_descriptor_lookup t) (\<lambda>desc.
       case desc of
         None \<Rightarrow> fail RPC_ERROR_MESSAGE_ARGUMENT_UNKNOWN
       | Some d \<Rightarrow> run_all (map (call_send E (d_send_callback d)) us))"

text \<open>
  The inner \<open>switch\<close> on the element type, for a valid array of \<open>n\<close> elements. Reading past the
  end of the caller's array is a crash.
\<close>

fun send_elements ::
  "('z rpc_base_scheme, 'u) fptrs \<Rightarrow> nat \<Rightarrow> 'u c_array \<Rightarrow> (rpc_message \<times> 'z rpc_base_scheme, unit) op"
where
  "send_elements E n (C_null t) = crash Out_of_bounds"
| "send_elements E n (C_char xs) = send_counted (word_of_nat n) xs"
| "send_elements E n (C_boolean xs) = run_all (map rpc_message_send_int32 (take n xs))"
| "send_elements E n (C_int32 xs) = run_all (map rpc_message_send_int32 (take n xs))"
| "send_elements E n (C_uint32 xs) = run_all (map rpc_message_send_uint32 (take n xs))"
| "send_elements E n (C_uint64 xs) = run_all (map rpc_message_send_uint64 (take n xs))"
| "send_elements E n (C_double xs) = run_all (map rpc_message_send_double (take n xs))"
| "send_elements E n (C_string xs) = run_all (map rpc_message_send_string (take n xs))"
| "send_elements E n (C_user t xs) = send_user E t (take n xs)"

definition is_null_array :: "'u c_array \<Rightarrow> bool" where
  "is_null_array a = (case a of C_null _ \<Rightarrow> True | _ \<Rightarrow> False)"

definition send_array ::
  "('z rpc_base_scheme, 'u) fptrs \<Rightarrow> uint32 \<Rightarrow> 'u c_array \<Rightarrow> (rpc_message \<times> 'z rpc_base_scheme, unit) op"
where
  "send_array E array_size a =
     (let is_valid_array = 0 < array_size \<and> \<not> is_null_array a
      in run_all
          [rpc_message_send_int32 (to_int32 (array_type a)),
           rpc_message_send_uint32 array_size,
           rpc_message_send_char (if is_valid_array then 1 else 0),
           (if \<not> is_valid_array then ret ()
            else if array_length a < unat array_size then crash Out_of_bounds
            else send_elements E (unat array_size) a)])"

fun send_arg ::
  "('z rpc_base_scheme, 'u) fptrs \<Rightarrow> 'u rpc_arg \<Rightarrow> (rpc_message \<times> 'z rpc_base_scheme, unit) op"
where
  "send_arg E (Char c) = rpc_message_send_char c"
| "send_arg E (Boolean v) = rpc_message_send_int32 v"
| "send_arg E (Int32 v) = rpc_message_send_int32 v"
| "send_arg E (Uint32 v) = rpc_message_send_uint32 v"
| "send_arg E (Uint64 v) = rpc_message_send_uint64 v"
| "send_arg E (Double v) = rpc_message_send_double v"
| "send_arg E (Str str) = rpc_message_send_string str"
| "send_arg E (Array n a) = send_array E n a"
| "send_arg E (User t u) = send_user E t [u]"

text \<open>The loop over the arguments, with the number of arguments seen so far.\<close>

fun send_args_loop ::
  "('z rpc_base_scheme, 'u) fptrs \<Rightarrow> nat \<Rightarrow> 'u rpc_arg list \<Rightarrow> (rpc_message \<times> 'z rpc_base_scheme, unit) op"
where
  "send_args_loop E nargs [] =
     (if 0 < nargs then rpc_message_send_int32 (to_int32 RPC_MESSAGE_END) else ret ())"
| "send_args_loop E nargs (a # as) =
     (if arg_type a = RPC_TYPE_INVALID then send_args_loop E nargs []
      else run_all
        [(if nargs = 0 then rpc_message_send_int32 (to_int32 RPC_MESSAGE_ARGS) else ret ()),
         rpc_message_send_int32 (to_int32 (arg_type a)),
         send_arg E a,
         send_args_loop E (nargs + 1) as])"

definition rpc_message_send_args ::
  "('z rpc_base_scheme, 'u) fptrs \<Rightarrow> 'u rpc_arg list \<Rightarrow> (rpc_message \<times> 'z rpc_base_scheme, unit) op"
where
  "rpc_message_send_args E args = send_args_loop E 0 args"

subsection \<open>Receiving arguments\<close>

text \<open>
  What a receiver passes for an argument: the expected type and, for an array, the expected
  element type (which the code does not look at) and two out-parameters.
\<close>

datatype rpc_param = P_type int | P_array int

fun expected_type :: "rpc_param \<Rightarrow> int" where
  "expected_type (P_type t) = t"
| "expected_type (P_array _) = RPC_TYPE_ARRAY"

definition recv_user ::
  "('z rpc_base_scheme, 'u) fptrs \<Rightarrow> int \<Rightarrow> (rpc_message \<times> 'z rpc_base_scheme, 'u) op"
where
  "recv_user E t =
     bind_op (rpc_message_descriptor_lookup t) (\<lambda>desc.
       case desc of
         None \<Rightarrow> fail RPC_ERROR_MESSAGE_ARGUMENT_UNKNOWN
       | Some d \<Rightarrow> call_recv E (d_recv_callback d))"

text \<open>
  An array of a user-defined type: the block is \<open>array_size * desc->size\<close> bytes, a product of
  32-bit unsigned integers. The callback stores element \<open>i\<close> at \<open>i * desc->size\<close> once it has received
  it; past the end of the block that is a crash.
\<close>

definition recv_element ::
  "('z rpc_base_scheme, 'u) fptrs \<Rightarrow> rpc_message_descriptor \<Rightarrow> nat \<Rightarrow> nat \<Rightarrow> (rpc_message \<times> 'z rpc_base_scheme, 'u) op"
where
  "recv_element E d block i =
     bind_op (call_recv E (d_recv_callback d)) (\<lambda>u.
       if i * d_size d + d_size d \<le> block then ret u else crash Out_of_bounds)"

definition recv_user_array ::
  "('z rpc_base_scheme, 'u) fptrs \<Rightarrow> int \<Rightarrow> nat \<Rightarrow> (rpc_message \<times> 'z rpc_base_scheme, 'u c_array) op"
where
  "recv_user_array E t n =
     bind_op (rpc_message_descriptor_lookup t) (\<lambda>desc.
       case desc of
         None \<Rightarrow> fail RPC_ERROR_MESSAGE_ARGUMENT_UNKNOWN
       | Some d \<Rightarrow>
           (let block = (n * d_size d) mod 2 ^ 32
            in then_op (malloc_op block)
                 (bind_op
                   (collect_all (map (recv_element E d block) [0..<n]))
                   (\<lambda>us. ret (C_user t us)))))"

definition recv_elements ::
  "('z rpc_base_scheme, 'u) fptrs \<Rightarrow> int \<Rightarrow> nat \<Rightarrow> (rpc_message \<times> 'z rpc_base_scheme, 'u c_array) op"
where
  "recv_elements E t n =
     (if t = RPC_TYPE_CHAR then
        then_op (malloc_op n) (bind_op (recv_counted (word_of_nat n)) (\<lambda>xs. ret (C_char xs)))
      else if t = RPC_TYPE_BOOLEAN then
        then_op (malloc_op (n * 4))
          (bind_op (collect_all (replicate n rpc_message_recv_int32)) (\<lambda>xs. ret (C_boolean xs)))
      else if t = RPC_TYPE_INT32 then
        then_op (malloc_op (n * 4))
          (bind_op (collect_all (replicate n rpc_message_recv_int32)) (\<lambda>xs. ret (C_int32 xs)))
      else if t = RPC_TYPE_UINT32 then
        then_op (malloc_op (n * 4))
          (bind_op (collect_all (replicate n rpc_message_recv_uint32)) (\<lambda>xs. ret (C_uint32 xs)))
      else if t = RPC_TYPE_UINT64 then
        then_op (malloc_op (n * 8))
          (bind_op (collect_all (replicate n rpc_message_recv_uint64)) (\<lambda>xs. ret (C_uint64 xs)))
      else if t = RPC_TYPE_DOUBLE then
        then_op (malloc_op (n * 8))
          (bind_op (collect_all (replicate n rpc_message_recv_double)) (\<lambda>xs. ret (C_double xs)))
      else if t = RPC_TYPE_STRING then
        then_op (malloc_op (n * 8))
          (bind_op (collect_all (replicate n rpc_message_recv_string)) (\<lambda>xs. ret (C_string xs)))
      else recv_user_array E t n)"

definition recv_array ::
  "('z rpc_base_scheme, 'u) fptrs \<Rightarrow> (rpc_message \<times> 'z rpc_base_scheme, 'u rpc_arg) op"
where
  "recv_array E =
     bind_op rpc_message_recv_int32 (\<lambda>elem_type.
     bind_op rpc_message_recv_uint32 (\<lambda>array_size.
     bind_op rpc_message_recv_char (\<lambda>is_valid_array.
       if is_valid_array = 0 then ret (Array array_size (C_null (c_int elem_type)))
       else then_op (assert_op (0 < array_size))
              (bind_op (recv_elements E (c_int elem_type) (unat array_size))
                (\<lambda>a. ret (Array array_size a))))))"

definition recv_arg ::
  "('z rpc_base_scheme, 'u) fptrs \<Rightarrow> int \<Rightarrow> (rpc_message \<times> 'z rpc_base_scheme, 'u rpc_arg) op"
where
  "recv_arg E t =
     (if t = RPC_TYPE_CHAR then bind_op rpc_message_recv_char (\<lambda>v. ret (Char v))
      else if t = RPC_TYPE_BOOLEAN then bind_op rpc_message_recv_int32 (\<lambda>v. ret (Boolean v))
      else if t = RPC_TYPE_INT32 then bind_op rpc_message_recv_int32 (\<lambda>v. ret (Int32 v))
      else if t = RPC_TYPE_UINT32 then bind_op rpc_message_recv_uint32 (\<lambda>v. ret (Uint32 v))
      else if t = RPC_TYPE_UINT64 then bind_op rpc_message_recv_uint64 (\<lambda>v. ret (Uint64 v))
      else if t = RPC_TYPE_DOUBLE then bind_op rpc_message_recv_double (\<lambda>v. ret (Double v))
      else if t = RPC_TYPE_STRING then bind_op rpc_message_recv_string (\<lambda>v. ret (Str v))
      else if t = RPC_TYPE_ARRAY then recv_array E
      else bind_op (recv_user E t) (\<lambda>u. ret (User t u)))"

definition recv_marker :: "int \<Rightarrow> (rpc_message \<times> 'z io_state_scheme, unit) op" where
  "recv_marker m = bind_op rpc_message_recv_int32 (\<lambda>v.
     if c_int v \<noteq> m then fail RPC_ERROR_MESSAGE_TRUNCATED else ret ())"

fun recv_args_loop ::
  "('z rpc_base_scheme, 'u) fptrs \<Rightarrow> nat \<Rightarrow> rpc_param list \<Rightarrow> (rpc_message \<times> 'z rpc_base_scheme, 'u rpc_arg list) op"
where
  "recv_args_loop E nargs [] =
     (if 0 < nargs then then_op (recv_marker RPC_MESSAGE_END) (ret []) else ret [])"
| "recv_args_loop E nargs (p # ps) =
     (if expected_type p = RPC_TYPE_INVALID then recv_args_loop E nargs []
      else then_op (if nargs = 0 then recv_marker RPC_MESSAGE_ARGS else ret ())
        (bind_op rpc_message_recv_int32 (\<lambda>t.
           if c_int t \<noteq> expected_type p then fail RPC_ERROR_MESSAGE_ARGUMENT_MISMATCH
           else bind_op (recv_arg E (c_int t)) (\<lambda>a.
                bind_op (recv_args_loop E (nargs + 1) ps) (\<lambda>as. ret (a # as))))))"

definition rpc_message_recv_args ::
  "('z rpc_base_scheme, 'u) fptrs \<Rightarrow> rpc_param list \<Rightarrow> (rpc_message \<times> 'z rpc_base_scheme, 'u rpc_arg list) op"
where
  "rpc_message_recv_args E ps = recv_args_loop E 0 ps"

end
