(* ===== verification/Rpc_Wire.thy ===== *)
theory Rpc_Wire
  imports Rpc_Message
begin

text \<open>
  What the marshaling calls put on the wire and what the unmarshaling calls make of it.
  \<open>sends I m bs\<close>: from any state with \<open>I\<close> and a script of delays, \<open>m\<close> returns without an error,
  keeps \<open>I\<close>, and the bytes sent and buffered grow by exactly \<open>bs\<close>. \<open>reads I m bs v\<close>: with \<open>bs\<close> at
  the front of the socket, \<open>m\<close> returns \<open>v\<close> and has consumed exactly \<open>bs\<close>. Both compose along the
  statements of the code. The encodings are the wire format of the protocol.
\<close>

subsection \<open>The wire format\<close>

definition enc_marker :: "int \<Rightarrow> byte list" where
  "enc_marker m = htonl (to_int32 m)"

definition enc_uint64 :: "uint64 \<Rightarrow> byte list" where
  "enc_uint64 v = htonl (hi32 v) @ htonl (lo32 v)"

definition enc_double :: "uint64 \<Rightarrow> byte list" where
  "enc_double d = htonl (dbl_negative d) @ htonl (dbl_exponent d) @
     htonl (dbl_mantissa0 d) @ htonl (dbl_mantissa1 d)"

definition enc_string :: "c_string \<Rightarrow> byte list" where
  "enc_string str = htonl (string_length str) @ (case str of None \<Rightarrow> [] | Some b \<Rightarrow> b)"

fun enc_elements :: "(int \<Rightarrow> 'u \<Rightarrow> byte list) \<Rightarrow> 'u c_array \<Rightarrow> byte list" where
  "enc_elements U (C_null t) = []"
| "enc_elements U (C_char xs) = xs"
| "enc_elements U (C_boolean xs) = concat (map htonl xs)"
| "enc_elements U (C_int32 xs) = concat (map htonl xs)"
| "enc_elements U (C_uint32 xs) = concat (map htonl xs)"
| "enc_elements U (C_uint64 xs) = concat (map enc_uint64 xs)"
| "enc_elements U (C_double xs) = concat (map enc_double xs)"
| "enc_elements U (C_string xs) = concat (map enc_string xs)"
| "enc_elements U (C_user t xs) = concat (map (U t) xs)"

definition enc_array :: "(int \<Rightarrow> 'u \<Rightarrow> byte list) \<Rightarrow> uint32 \<Rightarrow> 'u c_array \<Rightarrow> byte list" where
  "enc_array U n a = enc_marker (array_type a) @ htonl n @
     (if 0 < n \<and> \<not> is_null_array a then 1 # enc_elements U a else [0])"

fun enc_arg :: "(int \<Rightarrow> 'u \<Rightarrow> byte list) \<Rightarrow> 'u rpc_arg \<Rightarrow> byte list" where
  "enc_arg U (Char c) = [c]"
| "enc_arg U (Boolean v) = htonl v"
| "enc_arg U (Int32 v) = htonl v"
| "enc_arg U (Uint32 v) = htonl v"
| "enc_arg U (Uint64 v) = enc_uint64 v"
| "enc_arg U (Double v) = enc_double v"
| "enc_arg U (Str str) = enc_string str"
| "enc_arg U (Array n a) = enc_array U n a"
| "enc_arg U (User t u) = U t u"

definition enc_args :: "(int \<Rightarrow> 'u \<Rightarrow> byte list) \<Rightarrow> 'u rpc_arg list \<Rightarrow> byte list" where
  "enc_args U as =
     (if as = [] then []
      else enc_marker RPC_MESSAGE_ARGS @
           concat (map (\<lambda>a. enc_marker (arg_type a) @ enc_arg U a) as) @
           enc_marker RPC_MESSAGE_END)"

subsection \<open>The two predicates\<close>

definition msg_ok :: "rpc_message \<Rightarrow> bool" where
  "msg_ok msg \<longleftrightarrow> msg_offset msg < BUFSIZ"

definition sends ::
  "('z io_state_scheme \<Rightarrow> bool) \<Rightarrow> (rpc_message \<times> 'z io_state_scheme, unit) op \<Rightarrow> byte list \<Rightarrow> bool"
where
  "sends I m bs \<longleftrightarrow> (\<forall>msg s. msg_ok msg \<and> calm s \<and> I s \<longrightarrow>
     (\<exists>msg' s'. m (msg, s) = (Ok (), (msg', s')) \<and> msg_ok msg' \<and> calm s' \<and> I s' \<and>
        tx_wire s' @ buffered msg' = tx_wire s @ buffered msg @ bs \<and>
        rx_queue s' = rx_queue s \<and> rx_eof s' = rx_eof s))"

definition reads ::
  "('z io_state_scheme \<Rightarrow> bool) \<Rightarrow> (rpc_message \<times> 'z io_state_scheme, 'a) op \<Rightarrow> byte list \<Rightarrow> 'a \<Rightarrow> bool"
where
  "reads I m bs v \<longleftrightarrow> (\<forall>msg s rest. calm s \<and> I s \<and> rx_queue s = bs @ rest \<longrightarrow>
     (\<exists>s'. m (msg, s) = (Ok v, (msg, s')) \<and> calm s' \<and> I s' \<and> rx_queue s' = rest \<and>
        rx_eof s' = rx_eof s \<and> tx_wire s' = tx_wire s))"

text \<open>State predicates that transfers cannot falsify.\<close>

definition io_stable :: "('z io_state_scheme \<Rightarrow> bool) \<Rightarrow> bool" where
  "io_stable I \<longleftrightarrow> (\<forall>s a b c d. I s \<longrightarrow>
     I (s\<lparr>tx_wire := a, tx_script := b, rx_queue := c, rx_script := d\<rparr>))"

text \<open>Plenty of memory: every block the unmarshalers of built-in types can ask for is granted.\<close>

definition mem_ok :: "'z io_state_scheme \<Rightarrow> bool" where
  "mem_ok s \<longleftrightarrow> (\<forall>n < 2 ^ 36. malloc_ok s n)"

text \<open>Values of C type \<open>int\<close>, and strings whose length \<open>rpc_message_send_string\<close> can announce.\<close>

definition int32_range :: "int \<Rightarrow> bool" where
  "int32_range i \<longleftrightarrow> - (2 ^ 31) \<le> i \<and> i < 2 ^ 31"

definition wf_string :: "c_string \<Rightarrow> bool" where
  "wf_string str \<longleftrightarrow> (case str of None \<Rightarrow> True | Some b \<Rightarrow> length b < 2 ^ 31 - 1)"

lemma io_stableD_tx: "io_stable I \<Longrightarrow> I s \<Longrightarrow> I (s\<lparr>tx_wire := a, tx_script := b\<rparr>)"
  unfolding io_stable_def by (drule spec [of _ s], drule spec [of _ a], drule spec [of _ b],
      drule spec [of _ "rx_queue s"], drule spec [of _ "rx_script s"]) simp

lemma io_stableD_rx: "io_stable I \<Longrightarrow> I s \<Longrightarrow> I (s\<lparr>rx_queue := c, rx_script := d\<rparr>)"
  unfolding io_stable_def by (drule spec [of _ s], drule spec [of _ "tx_wire s"],
      drule spec [of _ "tx_script s"], drule spec [of _ c], drule spec [of _ d]) simp

text \<open>The marshaler table of the endpoint holds exactly the descriptors of \<open>T\<close>.\<close>

definition types_are ::
  "(int \<Rightarrow> rpc_message_descriptor option) \<Rightarrow> 'z rpc_base_scheme \<Rightarrow> bool"
where
  "types_are T s \<longleftrightarrow>
     (case conn_types s of
        None \<Rightarrow> T = Map.empty
      | Some m \<Rightarrow> rpc_map_ok m \<and> rpc_map_abs m = T)"

text \<open>
  Arguments that can be transmitted, given the marshaler table \<open>T\<close> and the acceptance predicate
  \<open>W\<close> of each user-defined type; and what a receiver sees of an argument.
\<close>

definition user_type_ok :: "(int \<Rightarrow> rpc_message_descriptor option) \<Rightarrow> int \<Rightarrow> nat \<Rightarrow> bool" where
  "user_type_ok T t n \<longleftrightarrow> \<not> builtin_type t \<and> t \<noteq> RPC_TYPE_INVALID \<and> int32_range t \<and>
     (case T t of None \<Rightarrow> False | Some d \<Rightarrow> n * d_size d < 2 ^ 32)"

fun wf_elements ::
  "(int \<Rightarrow> rpc_message_descriptor option) \<Rightarrow> (int \<Rightarrow> 'u \<Rightarrow> bool) \<Rightarrow> 'u c_array \<Rightarrow> bool"
where
  "wf_elements T W (C_char xs) = (length xs < 2 ^ 31)"
| "wf_elements T W (C_string xs) = list_all wf_string xs"
| "wf_elements T W (C_user t xs) = (user_type_ok T t (length xs) \<and> list_all (W t) xs)"
| "wf_elements T W _ = True"

definition wf_array ::
  "(int \<Rightarrow> rpc_message_descriptor option) \<Rightarrow> (int \<Rightarrow> 'u \<Rightarrow> bool) \<Rightarrow> uint32 \<Rightarrow> 'u c_array \<Rightarrow> bool"
where
  "wf_array T W n a \<longleftrightarrow> int32_range (array_type a) \<and>
     (0 < n \<and> \<not> is_null_array a \<longrightarrow> array_length a = unat n \<and> wf_elements T W a)"

fun wf_arg ::
  "(int \<Rightarrow> rpc_message_descriptor option) \<Rightarrow> (int \<Rightarrow> 'u \<Rightarrow> bool) \<Rightarrow> 'u rpc_arg \<Rightarrow> bool"
where
  "wf_arg T W (Str str) = wf_string str"
| "wf_arg T W (Array n a) = wf_array T W n a"
| "wf_arg T W (User t u) = (user_type_ok T t 0 \<and> W t u)"
| "wf_arg T W _ = True"

fun view_elements :: "(int \<Rightarrow> 'u \<Rightarrow> 'u) \<Rightarrow> 'u c_array \<Rightarrow> 'u c_array" where
  "view_elements V (C_user t xs) = C_user t (map (V t) xs)"
| "view_elements V a = a"

definition view_array :: "(int \<Rightarrow> 'u \<Rightarrow> 'u) \<Rightarrow> uint32 \<Rightarrow> 'u c_array \<Rightarrow> 'u c_array" where
  "view_array V n a =
     (if 0 < n \<and> \<not> is_null_array a then view_elements V a else C_null (array_type a))"

fun view_arg :: "(int \<Rightarrow> 'u \<Rightarrow> 'u) \<Rightarrow> 'u rpc_arg \<Rightarrow> 'u rpc_arg" where
  "view_arg V (Array n a) = Array n (view_array V n a)"
| "view_arg V (User t u) = User t (V t u)"
| "view_arg V a = a"

text \<open>The parameter list of a receiver that expects these arguments.\<close>

fun param_of :: "'u rpc_arg \<Rightarrow> rpc_param" where
  "param_of (Array n a) = P_array (array_type a)"
| "param_of a = P_type (arg_type a)"

definition types_inv ::
  "(int \<Rightarrow> rpc_message_descriptor option) \<Rightarrow> 'z rpc_base_scheme \<Rightarrow> bool"
where
  "types_inv T s \<longleftrightarrow> mem_ok s \<and> types_are T s"

lemma io_stableD_queue: "io_stable I \<Longrightarrow> I s \<Longrightarrow> I (s\<lparr>rx_queue := c\<rparr>)"
  using io_stableD_rx [of I s "rx_script s" c] by simp

subsection \<open>The contract of a marshaler\<close>

text \<open>
  A sending and a receiving routine for one type: on every value accepted by \<open>wf\<close> the sender
  emits \<open>enc\<close> and the receiver turns exactly those bytes into \<open>view\<close> (the value itself, or what
  the wire format preserves of it).
\<close>

locale marshaler =
  fixes I :: "'z io_state_scheme \<Rightarrow> bool"
    and snd_op :: "'a \<Rightarrow> (rpc_message \<times> 'z io_state_scheme, unit) op"
    and rcv_op :: "(rpc_message \<times> 'z io_state_scheme, 'b) op"
    and enc :: "'a \<Rightarrow> byte list"
    and view :: "'a \<Rightarrow> 'b"
    and wf :: "'a \<Rightarrow> bool"
  assumes send_law: "wf x \<Longrightarrow> sends I (snd_op x) (enc x)"
    and recv_law: "wf x \<Longrightarrow> reads I rcv_op (enc x) (view x)"

text \<open>A marshaler that works over any transport of the model, so that whole messages get through.\<close>

locale stable_marshaler = marshaler +
  assumes stable: "io_stable I"

text \<open>
  The contract between \<open>rpc_message_send_args\<close>/\<open>rpc_message_recv_args\<close> and the user-defined types
  registered on a connection: each descriptor in the table names a marshaler, and looking a
  descriptor up (which reorders the table) keeps the invariant.
\<close>

locale user_marshalers =
  fixes I :: "'z rpc_base_scheme \<Rightarrow> bool"
    and E :: "('z rpc_base_scheme, 'u) fptrs"
    and T :: "int \<Rightarrow> rpc_message_descriptor option"
    and U :: "int \<Rightarrow> 'u \<Rightarrow> byte list"
    and V :: "int \<Rightarrow> 'u \<Rightarrow> 'u"
    and W :: "int \<Rightarrow> 'u \<Rightarrow> bool"
  assumes stable: "io_stable I"
    and memory: "I s \<Longrightarrow> mem_ok s"
    and types: "I s \<Longrightarrow> types_are T s"
    and lookups: "I s \<Longrightarrow> conn_types s = Some m \<Longrightarrow>
      I (s\<lparr>conn_types := Some (snd (rpc_map_lookup m t))\<rparr>)"
    and user: "T t = Some d \<Longrightarrow>
      marshaler I (call_send E (d_send_callback d)) (call_recv E (d_recv_callback d)) (U t) (V t) (W t)"

subsection \<open>Composition\<close>

lemma sends_ret [wire_rules]: "sends I (ret ()) []"
  by (simp add: sends_def ret_def)

lemma sends_then [wire_rules]:
  assumes "sends I m a" "sends I n b"
  shows "sends I (then_op m n) (a @ b)"
  unfolding sends_def
proof (intro allI impI)
  fix msg s
  assume pre: "msg_ok msg \<and> calm s \<and> I s"
  with assms(1) obtain msg1 s1 where 1: "m (msg, s) = (Ok (), (msg1, s1))"
    "msg_ok msg1 \<and> calm s1 \<and> I s1" "tx_wire s1 @ buffered msg1 = tx_wire s @ buffered msg @ a"
    "rx_queue s1 = rx_queue s" "rx_eof s1 = rx_eof s"
    unfolding sends_def by metis
  with assms(2) obtain msg2 s2 where 2: "n (msg1, s1) = (Ok (), (msg2, s2))"
    "msg_ok msg2 \<and> calm s2 \<and> I s2" "tx_wire s2 @ buffered msg2 = tx_wire s1 @ buffered msg1 @ b"
    "rx_queue s2 = rx_queue s1" "rx_eof s2 = rx_eof s1"
    unfolding sends_def by metis
  have "tx_wire s2 @ buffered msg2 = tx_wire s @ buffered msg @ (a @ b)"
    using 1(3) 2(3) by (metis append.assoc)
  then show "\<exists>msg' s'. then_op m n (msg, s) = (Ok (), (msg', s')) \<and> msg_ok msg' \<and> calm s' \<and> I s' \<and>
      tx_wire s' @ buffered msg' = tx_wire s @ buffered msg @ (a @ b) \<and>
      rx_queue s' = rx_queue s \<and> rx_eof s' = rx_eof s"
    using 1 2 by (simp add: then_op_Ok)
qed

lemma sends_run_all_Nil [wire_rules]: "sends I (run_all []) []"
  by (simp add: sends_ret)

lemma sends_run_all_Cons [wire_rules]:
  "sends I m a \<Longrightarrow> sends I (run_all ms) b \<Longrightarrow> sends I (run_all (m # ms)) (a @ b)"
  by (simp add: sends_then)

lemma sends_run_all_map:
  "(\<And>x. x \<in> set xs \<Longrightarrow> sends I (f x) (g x)) \<Longrightarrow> sends I (run_all (map f xs)) (concat (map g xs))"
  by (induction xs) (auto intro: sends_ret sends_then)

lemma reads_ret: "reads I (ret v) [] v"
  by (simp add: reads_def ret_def)

lemma reads_bind:
  assumes "reads I m a x" "reads I (f x) b y"
  shows "reads I (bind_op m f) (a @ b) y"
  unfolding reads_def
proof (intro allI impI)
  fix msg s rest
  assume pre: "calm s \<and> I s \<and> rx_queue s = (a @ b) @ rest"
  with assms(1) obtain s1 where 1: "m (msg, s) = (Ok x, (msg, s1))"
    "calm s1 \<and> I s1 \<and> rx_queue s1 = b @ rest" "rx_eof s1 = rx_eof s" "tx_wire s1 = tx_wire s"
    unfolding reads_def by (metis append.assoc)
  with assms(2) obtain s2 where 2: "f x (msg, s1) = (Ok y, (msg, s2))"
    "calm s2 \<and> I s2 \<and> rx_queue s2 = rest" "rx_eof s2 = rx_eof s1" "tx_wire s2 = tx_wire s1"
    unfolding reads_def by metis
  with 1 show "\<exists>s'. bind_op m f (msg, s) = (Ok y, (msg, s')) \<and> calm s' \<and> I s' \<and>
      rx_queue s' = rest \<and> rx_eof s' = rx_eof s \<and> tx_wire s' = tx_wire s"
    by (simp add: bind_op_Ok)
qed

lemma reads_bind_ret: "reads I m a x \<Longrightarrow> g x = y \<Longrightarrow> reads I (bind_op m (\<lambda>x. ret (g x))) a y"
  using reads_bind [of I m a x "\<lambda>x. ret (g x)" "[]" y] by (simp add: reads_ret)

lemma reads_ret_eq: "v = w \<Longrightarrow> reads I (ret v) [] w"
  by (simp add: reads_ret)

lemma reads_bind_Nil: "reads I m [] x \<Longrightarrow> reads I (f x) b y \<Longrightarrow> reads I (bind_op m f) b y"
  using reads_bind [of I m "[]" x f b y] by simp

lemma reads_bind_last: "reads I m a x \<Longrightarrow> reads I (f x) [] y \<Longrightarrow> reads I (bind_op m f) a y"
  using reads_bind [of I m a x f "[]" y] by simp

lemma reads_then: "reads I m a x \<Longrightarrow> reads I n b y \<Longrightarrow> reads I (then_op m n) (a @ b) y"
  unfolding then_op_def by (rule reads_bind)

lemma reads_then_Nil: "reads I m [] x \<Longrightarrow> reads I n b y \<Longrightarrow> reads I (then_op m n) b y"
  using reads_then [of I m "[]" x n b y] by simp

lemma reads_collect_all:
  "list_all2 (\<lambda>m (b, v). reads I m b v) ms bvs \<Longrightarrow>
     reads I (collect_all ms) (concat (map fst bvs)) (map snd bvs)"
proof (induction ms bvs rule: list_all2_induct)
  case Nil
  then show ?case by (simp add: reads_ret)
next
  case (Cons m ms bv bvs)
  then show ?case
    by (cases bv) (auto intro!: reads_bind reads_bind_ret)
qed

lemma reads_replicate:
  assumes "\<And>x. x \<in> set xs \<Longrightarrow> reads I m (enc x) (view x)"
  shows "reads I (collect_all (replicate (length xs) m)) (concat (map enc xs)) (map view xs)"
proof -
  have "list_all2 (\<lambda>m (b, v). reads I m b v) (replicate (length xs) m)
      (map (\<lambda>x. (enc x, view x)) xs)"
    using assms by (simp add: list_all2_conv_all_nth)
  from reads_collect_all [OF this] show ?thesis by (simp add: comp_def)
qed

subsection \<open>Raw bytes\<close>

lemma buffered_flushed [simp]: "buffered (msg\<lparr>msg_offset := 0\<rparr>) = []"
  by (simp add: buffered_def)

lemma buffered_append:
  "buffered (msg\<lparr>msg_buffer := (\<lambda>i. if msg_offset msg \<le> i \<and> i < msg_offset msg + length bs
                        then bs ! (i - msg_offset msg) else msg_buffer msg i),
     msg_offset := msg_offset msg + length bs\<rparr>) =
   buffered msg @ bs"
  by (rule nth_equalityI) (auto simp: buffered_def nth_append)

lemma calm_tx: "calm s \<Longrightarrow> list_all delay_event evs \<Longrightarrow> calm (s\<lparr>tx_wire := w, tx_script := evs\<rparr>)"
  by (simp add: calm_def)

lemma calm_rx: "calm s \<Longrightarrow> list_all delay_event evs \<Longrightarrow> calm (s\<lparr>rx_queue := w, rx_script := evs\<rparr>)"
  by (simp add: calm_def)

lemma sends_flush: "io_stable I \<Longrightarrow> sends I rpc_message_flush []"
  unfolding sends_def
proof (intro allI impI)
  fix msg s
  assume st: "io_stable I" and pre: "msg_ok msg \<and> calm s \<and> I s"
  obtain evs where "rpc_message_send_bytes_1 (buffered msg) s =
      (Ok (), s\<lparr>tx_wire := tx_wire s @ buffered msg, tx_script := evs\<rparr>)" "list_all delay_event evs"
    using pre rpc_message_send_bytes_1_calm [of s "buffered msg"] by auto
  with st pre show "\<exists>msg' s'. rpc_message_flush (msg, s) = (Ok (), (msg', s')) \<and> msg_ok msg' \<and>
      calm s' \<and> I s' \<and> tx_wire s' @ buffered msg' = tx_wire s @ buffered msg @ [] \<and>
      rx_queue s' = rx_queue s \<and> rx_eof s' = rx_eof s"
    by (simp add: rpc_message_flush_def calm_tx io_stableD_tx msg_ok_def)
qed

text \<open>A flushed message holds nothing back.\<close>

lemma flush_empties:
  "rpc_message_flush (msg, s) = (r, (msg', s')) \<Longrightarrow> buffered msg' = []"
  by (auto simp: rpc_message_flush_def split: prod.splits)

lemma sends_raw: "io_stable I \<Longrightarrow> sends I (then_op rpc_message_flush (on_io (rpc_message_send_bytes_1 bs))) bs"
  unfolding sends_def
proof (intro allI impI)
  fix msg s
  assume st: "io_stable I" and pre: "msg_ok msg \<and> calm s \<and> I s"
  with sends_flush [OF st] obtain msg1 s1 where 1: "rpc_message_flush (msg, s) = (Ok (), (msg1, s1))"
    "msg_ok msg1" "calm s1" "I s1" "tx_wire s1 @ buffered msg1 = tx_wire s @ buffered msg"
    "rx_queue s1 = rx_queue s" "rx_eof s1 = rx_eof s"
    unfolding sends_def by (metis append_Nil2)
  obtain evs where "rpc_message_send_bytes_1 bs s1 =
      (Ok (), s1\<lparr>tx_wire := tx_wire s1 @ bs, tx_script := evs\<rparr>)" "list_all delay_event evs"
    using 1(3) rpc_message_send_bytes_1_calm [of s1 bs] by auto
  with st 1 flush_empties [OF 1(1)]
  show "\<exists>msg' s'. then_op rpc_message_flush (on_io (rpc_message_send_bytes_1 bs)) (msg, s) =
      (Ok (), (msg', s')) \<and> msg_ok msg' \<and> calm s' \<and> I s' \<and>
      tx_wire s' @ buffered msg' = tx_wire s @ buffered msg @ bs \<and>
      rx_queue s' = rx_queue s \<and> rx_eof s' = rx_eof s"
    by (simp add: then_op_def bind_op_def 1(1) on_io_def calm_tx io_stableD_tx)
qed

lemma sends_bytes: "io_stable I \<Longrightarrow> sends I (rpc_message_send_bytes bs) bs"
  unfolding sends_def
proof (intro allI impI)
  fix msg s
  assume st: "io_stable I" and pre: "msg_ok msg \<and> calm s \<and> I s"
  show "\<exists>msg' s'. rpc_message_send_bytes bs (msg, s) = (Ok (), (msg', s')) \<and> msg_ok msg' \<and>
      calm s' \<and> I s' \<and> tx_wire s' @ buffered msg' = tx_wire s @ buffered msg @ bs \<and>
      rx_queue s' = rx_queue s \<and> rx_eof s' = rx_eof s"
  proof (cases "msg_offset msg + length bs \<ge> BUFSIZ")
    case True
    with sends_raw [OF st, of bs] pre show ?thesis
      unfolding sends_def by (simp add: rpc_message_send_bytes_def)
  next
    case False
    then show ?thesis
      using pre buffered_append [of msg bs]
      by (simp add: rpc_message_send_bytes_def memcpy_buffer_def then_op_def bind_op_def
          modify_state_def msg_ok_def)
  qed
qed

text \<open>What a flushed message leaves on the wire, and what the receiver of those bytes makes of them.\<close>

lemma sends_flushed:
  assumes "io_stable I" "sends I m bs" "calm s" "I s"
  shows "\<exists>msg' s'. then_op m rpc_message_flush (rpc_message_init, s) = (Ok (), (msg', s')) \<and>
    tx_wire s' = tx_wire s @ bs"
proof -
  have "msg_ok rpc_message_init" "buffered rpc_message_init = []"
    by (simp_all add: msg_ok_def rpc_message_init_def BUFSIZ_def buffered_def)
  with sends_then [OF assms(2) sends_flush [OF assms(1)]] assms(3,4)
  obtain msg' s' where 1: "then_op m rpc_message_flush (rpc_message_init, s) = (Ok (), (msg', s'))"
    "tx_wire s' @ buffered msg' = tx_wire s @ bs"
    unfolding sends_def by fastforce
  moreover have "buffered msg' = []"
    using 1(1) by (auto simp: then_op_eq_Ok_iff dest: flush_empties)
  ultimately show ?thesis by auto
qed

lemma reads_delivered:
  assumes "io_stable I" "reads I m bs v" "calm r" "I r"
  shows "\<exists>r'. m (msg, r\<lparr>rx_queue := bs @ rest\<rparr>) = (Ok v, (msg, r')) \<and> rx_queue r' = rest"
proof -
  have "calm (r\<lparr>rx_queue := bs @ rest\<rparr>)" "I (r\<lparr>rx_queue := bs @ rest\<rparr>)"
    using assms io_stableD_queue [OF assms(1)] by (simp_all add: calm_def)
  with assms(2) show ?thesis unfolding reads_def by fastforce
qed

text \<open>A value that is sent, flushed and delivered is received as its view.\<close>

context stable_marshaler
begin

lemma round_trip:
  assumes wf: "wf x" and s: "calm s" "I s" "tx_wire s = []" and r: "calm r" "I r"
  shows "\<exists>msg' s' r'. then_op (snd_op x) rpc_message_flush (rpc_message_init, s) = (Ok (), (msg', s')) \<and>
    tx_wire s' = enc x \<and>
    rcv_op (msg, r\<lparr>rx_queue := tx_wire s' @ rest\<rparr>) = (Ok (view x), (msg, r')) \<and> rx_queue r' = rest"
  using sends_flushed [OF stable send_law [OF wf] s(1,2)] s(3)
    reads_delivered [OF stable recv_law [OF wf] r, of msg rest] by auto

end

lemma reads_bytes:
  assumes st: "io_stable I" and "bs \<noteq> []" and n: "n = length bs"
  shows "reads I (rpc_message_recv_bytes n) bs bs"
  unfolding reads_def
proof (intro allI impI)
  fix msg s rest
  assume pre: "calm s \<and> I s \<and> rx_queue s = bs @ rest"
  then obtain evs where "rpc_message_recv_bytes_1 (length bs) s =
      (Ok bs, s\<lparr>rx_queue := rest, rx_script := evs\<rparr>)" "list_all delay_event evs"
    using rpc_message_recv_bytes_1_calm [of s bs rest] \<open>bs \<noteq> []\<close> by auto
  with st pre show "\<exists>s'. rpc_message_recv_bytes n (msg, s) = (Ok bs, (msg, s')) \<and> calm s' \<and> I s' \<and>
      rx_queue s' = rest \<and> rx_eof s' = rx_eof s \<and> tx_wire s' = tx_wire s"
    by (simp add: n rpc_message_recv_bytes_def on_io_def calm_rx io_stableD_rx)
qed

text \<open>Lengths that are not negative as an \<open>int\<close>.\<close>

lemma counted_facts:
  assumes "n < 2 ^ 31"
  shows "\<not> c_int (word_of_nat n :: uint32) < 0" "unat (word_of_nat n :: uint32) = n"
proof -
  have "c_int (to_int32 (int n)) = int n"
    by (rule c_int_to_int32) (use assms in simp_all)
  then show "\<not> c_int (word_of_nat n :: uint32) < 0" by simp
  show "unat (word_of_nat n :: uint32) = n" using assms by (simp add: unat_of_nat)
qed

lemma sends_counted:
  "io_stable I \<Longrightarrow> length bs < 2 ^ 31 \<Longrightarrow> sends I (send_counted (word_of_nat (length bs)) bs) bs"
  by (simp add: send_counted_def counted_facts sends_bytes)

lemma reads_counted:
  "io_stable I \<Longrightarrow> bs \<noteq> [] \<Longrightarrow> length bs < 2 ^ 31 \<Longrightarrow> reads I (recv_counted (word_of_nat (length bs))) bs bs"
  by (simp add: recv_counted_def counted_facts reads_bytes)

subsection \<open>Scalars and strings\<close>

lemma odd_ucast: "odd (ucast (w :: uint64) :: uint32) \<longleftrightarrow> bit w 0"
  unfolding bit_0 [symmetric] by (simp add: bit_simps del: bit_0)

lemma dbl_of_parts_split [simp]:
  "dbl_of_parts (dbl_negative d) (dbl_exponent d) (dbl_mantissa0 d) (dbl_mantissa1 d) = d"
proof (rule bit_word_eqI)
  fix n
  assume "n < LENGTH(64)"
  then have n: "n < 64" by simp
  consider "n < 32" | "32 \<le> n" "n < 52" | "52 \<le> n" "n < 63" | "n = 63"
    using n by linarith
  then show "bit (dbl_of_parts (dbl_negative d) (dbl_exponent d) (dbl_mantissa0 d) (dbl_mantissa1 d)) n
      \<longleftrightarrow> bit d n"
    by cases (auto simp: dbl_of_parts_def dbl_negative_def dbl_exponent_def dbl_mantissa0_def
        dbl_mantissa1_def bit_simps odd_ucast)
qed

lemma marshaler_char:
  "io_stable I \<Longrightarrow> marshaler I rpc_message_send_char rpc_message_recv_char (\<lambda>c. [c]) id (\<lambda>_. True)"
  unfolding rpc_message_send_char_def rpc_message_recv_char_def
  by unfold_locales (auto intro!: sends_bytes reads_bind_ret [OF reads_bytes])

lemma marshaler_int32:
  "io_stable I \<Longrightarrow> marshaler I rpc_message_send_int32 rpc_message_recv_int32 htonl id (\<lambda>_. True)"
  unfolding rpc_message_send_int32_def rpc_message_recv_int32_def
  by unfold_locales (auto intro!: sends_bytes reads_bind_ret [OF reads_bytes])

lemma marshaler_uint32:
  "io_stable I \<Longrightarrow> marshaler I rpc_message_send_uint32 rpc_message_recv_uint32 htonl id (\<lambda>_. True)"
  unfolding rpc_message_send_uint32_def rpc_message_recv_uint32_def
  by unfold_locales (auto intro!: sends_bytes reads_bind_ret [OF reads_bytes])

lemmas sends_char = marshaler.send_law [OF marshaler_char, OF _ TrueI]
lemmas sends_int32 = marshaler.send_law [OF marshaler_int32, OF _ TrueI]
lemmas sends_uint32 = marshaler.send_law [OF marshaler_uint32, OF _ TrueI]
lemmas reads_char = marshaler.recv_law [OF marshaler_char, OF _ TrueI, unfolded id_apply]
lemmas reads_int32 = marshaler.recv_law [OF marshaler_int32, OF _ TrueI, unfolded id_apply]
lemmas reads_uint32 = marshaler.recv_law [OF marshaler_uint32, OF _ TrueI, unfolded id_apply]

lemma marshaler_uint64:
  "io_stable I \<Longrightarrow> marshaler I rpc_message_send_uint64 rpc_message_recv_uint64 enc_uint64 id (\<lambda>_. True)"
  unfolding rpc_message_send_uint64_def rpc_message_recv_uint64_def enc_uint64_def
  by unfold_locales (auto intro!: sends_then sends_uint32 reads_bind reads_bind_ret reads_uint32)

lemma marshaler_double:
  "io_stable I \<Longrightarrow> marshaler I rpc_message_send_double rpc_message_recv_double enc_double id (\<lambda>_. True)"
  unfolding rpc_message_send_double_def rpc_message_recv_double_def enc_double_def
  by unfold_locales
    (auto intro!: sends_then [where b = "a @ b" for a b] sends_then sends_uint32 sends_uint32
      [THEN sends_then, OF _ sends_ret, simplified] reads_bind reads_bind_ret reads_uint32)

lemmas sends_uint64 = marshaler.send_law [OF marshaler_uint64, OF _ TrueI]
lemmas sends_double = marshaler.send_law [OF marshaler_double, OF _ TrueI]
lemmas reads_uint64 = marshaler.recv_law [OF marshaler_uint64, OF _ TrueI, unfolded id_apply]
lemmas reads_double = marshaler.recv_law [OF marshaler_double, OF _ TrueI, unfolded id_apply]

lemma reads_malloc: "\<forall>s. I s \<longrightarrow> malloc_ok s n \<Longrightarrow> reads I (malloc_op n) [] ()"
  by (auto simp: reads_def malloc_op_def)

text \<open>A transfer that fits its block stays inside it.\<close>

lemma recv_in_block_fits:
  assumes "n \<le> block"
  shows "recv_in_block block n = rpc_message_recv_bytes n"
proof
  fix x :: "rpc_message \<times> 'a io_state_scheme"
  obtain r evs got where l:
    "recv_loop (rx_script (snd x)) (rx_eof (snd x)) n (rx_queue (snd x)) = (r, evs, got)"
    by (metis prod.exhaust)
  with recv_loop_result [OF l] assms show "recv_in_block block n x = rpc_message_recv_bytes n x"
    by (cases x) (auto simp: recv_in_block_def rpc_message_recv_bytes_def on_io_def
        rpc_message_recv_bytes_1_def)
qed

lemma store_byte_inside: "0 \<le> i \<Longrightarrow> i < int block \<Longrightarrow> store_byte block i = ret ()"
  by (simp add: store_byte_def)

lemma string_length_Some:
  assumes "length b < 2 ^ 31 - 1"
  shows "c_int (string_length (Some b)) = int (length b)"
    "size_of_int32 (string_length (Some b) + 1) = length b + 1"
    "string_length (Some b) \<noteq> - 1"
proof -
  have w: "string_length (Some b) = to_int32 (int (length b))"
    by (simp add: string_length_def)
  show s: "c_int (string_length (Some b)) = int (length b)"
    unfolding w using assms by (intro c_int_to_int32) simp_all
  have "string_length (Some b) + 1 = to_int32 (int (length b + 1))"
    unfolding w by simp
  moreover have "c_int (to_int32 (int (length b + 1))) = int (length b + 1)"
    using assms by (intro c_int_to_int32) simp_all
  ultimately have "scast (string_length (Some b) + 1) = (word_of_nat (length b + 1) :: uint64)"
    by (simp only: scast_eq of_int_of_nat_eq)
  then show "size_of_int32 (string_length (Some b) + 1) = length b + 1"
    using assms by (simp only: size_of_int32_def unat_of_nat) simp
  show "string_length (Some b) \<noteq> - 1"
    using s by (metis of_nat_less_0_iff sint_n1 zless_add1_eq add_0 add.left_inverse)
qed

lemma marshaler_string:
  assumes st: "io_stable I" and mem: "\<And>s. I s \<Longrightarrow> mem_ok s"
  shows "marshaler I rpc_message_send_string rpc_message_recv_string enc_string id wf_string"
proof
  fix str
  assume wf: "wf_string str"
  show "sends I (rpc_message_send_string str) (enc_string str)"
  proof (cases str)
    case None
    then show ?thesis
      using sends_then [OF sends_bytes [OF st] sends_ret]
      by (simp add: rpc_message_send_string_def enc_string_def Let_def)
  next
    case (Some b)
    with wf have len: "c_int (string_length (Some b)) = int (length b)"
      by (intro string_length_Some) (simp add: wf_string_def)
    show ?thesis
    proof (cases "b = []")
      case True
      with Some len show ?thesis
        using sends_then [OF sends_bytes [OF st] sends_ret]
        by (simp add: rpc_message_send_string_def enc_string_def Let_def)
    next
      case False
      with Some len show ?thesis
        by (simp add: rpc_message_send_string_def enc_string_def Let_def sends_then sends_bytes st)
    qed
  qed
  show "reads I rpc_message_recv_string (enc_string str) (id str)"
    unfolding rpc_message_recv_string_def enc_string_def
  proof (rule reads_bind [OF reads_bytes [OF st]], goal_cases)
    case 3
    show ?case
    proof (cases str)
      case None
      then show ?thesis by (simp add: string_length_def reads_ret)
    next
      case (Some b)
      with wf have b: "length b < 2 ^ 31 - 1" by (simp add: wf_string_def)
      have m: "reads I (malloc_op (length b + 1)) [] ()"
        using mem b by (intro reads_malloc) (auto simp: mem_ok_def)
      show ?thesis
        using Some string_length_Some [OF b] m
        by (cases "b = []")
          (auto simp: Let_def recv_in_block_fits store_byte_inside
            intro!: reads_then_Nil reads_ret reads_bind_ret reads_bytes st)
    qed
  qed simp_all
qed

lemmas sends_string = marshaler.send_law [OF marshaler_string]
lemmas reads_string = marshaler.recv_law [OF marshaler_string, unfolded id_apply]

subsection \<open>Argument lists\<close>

lemma int32_range_c_int: "int32_range i \<Longrightarrow> c_int (to_int32 i) = i"
  by (simp add: int32_range_def c_int_to_int32)

lemma types_are_lookup:
  assumes "types_are T s" "conn_types s = Some m"
  shows "fst (rpc_map_lookup m t) = T t"
    "types_are T (s\<lparr>conn_types := Some (snd (rpc_map_lookup m t))\<rparr>)"
  using assms rpc_map_lookup_correct [of m t] by (auto simp: types_are_def)

lemma reads_marker: "io_stable I \<Longrightarrow> int32_range m \<Longrightarrow> reads I (recv_marker m) (enc_marker m) ()"
  unfolding recv_marker_def enc_marker_def
  by (rule reads_bind_last [OF reads_int32]) (simp_all add: int32_range_c_int reads_ret)

lemma recv_element_inside:
  "i * d_size d + d_size d \<le> block \<Longrightarrow> recv_element E d block i = call_recv E (d_recv_callback d)"
  by (simp add: recv_element_def bind_ret_right)

context user_marshalers
begin

lemma lookup_desc:
  assumes "I s" "T t = Some d"
  shows "\<exists>s'. rpc_message_descriptor_lookup t (msg, s) = (Ok (Some d), (msg, s')) \<and> I s' \<and>
     (calm s \<longrightarrow> calm s') \<and> tx_wire s' = tx_wire s \<and> rx_queue s' = rx_queue s \<and> rx_eof s' = rx_eof s"
proof -
  obtain m where m: "conn_types s = Some m"
    using types [OF assms(1)] assms(2) by (auto simp: types_are_def split: option.splits)
  then show ?thesis
    using types_are_lookup [OF types [OF assms(1)] m, of t] lookups [OF assms(1) m, of t] assms(2)
    by (auto simp: rpc_message_descriptor_lookup_def calm_def split: prod.splits)
qed

lemma sends_lookup:
  assumes d: "T t = Some d" and f: "sends I (f (Some d)) bs"
  shows "sends I (bind_op (rpc_message_descriptor_lookup t) f) bs"
  unfolding sends_def
proof (intro allI impI)
  fix msg s
  assume pre: "msg_ok msg \<and> calm s \<and> I s"
  then obtain s1 where 1: "rpc_message_descriptor_lookup t (msg, s) = (Ok (Some d), (msg, s1))"
    "calm s1" "I s1" "tx_wire s1 = tx_wire s" "rx_queue s1 = rx_queue s" "rx_eof s1 = rx_eof s"
    using lookup_desc [of s, OF _ d] by blast
  with f [unfolded sends_def, rule_format, of msg s1] pre
  show "\<exists>msg' s'. bind_op (rpc_message_descriptor_lookup t) f (msg, s) = (Ok (), (msg', s')) \<and>
      msg_ok msg' \<and> calm s' \<and> I s' \<and> tx_wire s' @ buffered msg' = tx_wire s @ buffered msg @ bs \<and>
      rx_queue s' = rx_queue s \<and> rx_eof s' = rx_eof s"
    by (simp add: bind_op_def)
qed

lemma reads_lookup: "T t = Some d \<Longrightarrow> reads I (rpc_message_descriptor_lookup t) [] (Some d)"
  unfolding reads_def using lookup_desc [of _ t d] by (metis append_Nil)

lemma sends_send_user:
  "T t = Some d \<Longrightarrow> list_all (W t) us \<Longrightarrow> sends I (send_user E t us) (concat (map (U t) us))"
  unfolding send_user_def
  by (rule sends_lookup)
    (auto simp: list_all_iff intro!: sends_run_all_map marshaler.send_law [OF user])

lemma reads_recv_user: "T t = Some d \<Longrightarrow> W t u \<Longrightarrow> reads I (recv_user E t) (U t u) (V t u)"
  unfolding recv_user_def
  by (rule reads_bind_Nil [OF reads_lookup]) (auto intro: marshaler.recv_law [OF user])

lemma reads_memory: "n < 2 ^ 36 \<Longrightarrow> reads I (malloc_op n) [] ()"
  using memory by (intro reads_malloc) (auto simp: mem_ok_def)

lemma reads_user_array:
  assumes d: "T t = Some d" and us: "list_all (W t) us" and sz: "length us * d_size d < 2 ^ 32"
  shows "reads I (recv_user_array E t (length us)) (concat (map (U t) us)) (C_user t (map (V t) us))"
proof -
  have "(i + 1) * d_size d \<le> length us * d_size d" if "i < length us" for i
    using that by (intro mult_right_mono) auto
  with sz have eq: "map (recv_element E d ((length us * d_size d) mod 2 ^ 32)) [0..<length us] =
      replicate (length us) (call_recv E (d_recv_callback d))"
    by (intro nth_equalityI) (auto simp: recv_element_inside add.commute)
  have "reads I (collect_all (replicate (length us) (call_recv E (d_recv_callback d))))
      (concat (map (U t) us)) (map (V t) us)"
    using us by (intro reads_replicate marshaler.recv_law [OF user [OF d]]) (auto simp: list_all_iff)
  from reads_bind_ret [OF this] sz
  have "reads I (then_op (malloc_op ((length us * d_size d) mod 2 ^ 32))
      (bind_op (collect_all (replicate (length us) (call_recv E (d_recv_callback d))))
        (\<lambda>us. ret (C_user t us)))) (concat (map (U t) us)) (C_user t (map (V t) us))"
    by (intro reads_then_Nil [OF reads_memory]) auto
  then show ?thesis
    unfolding recv_user_array_def
    by (intro reads_bind_Nil [OF reads_lookup [OF d]]) (simp only: option.case Let_def eq)
qed

text \<open>Each element loop and its counterpart.\<close>

lemma sends_elements:
  assumes "wf_elements T W a" "array_length a = n" "\<not> is_null_array a"
  shows "sends I (send_elements E n a) (enc_elements U a)"
  using assms stable
  by (cases a) (auto simp: list_all_iff is_null_array_def user_type_ok_def split: option.splits
      intro!: sends_counted sends_run_all_map sends_int32 sends_uint32 sends_uint64 sends_double
        sends_string memory sends_send_user)

lemma reads_scalars:
  assumes "\<And>x. x \<in> set xs \<Longrightarrow> reads I m (e x) x" "length xs * k < 2 ^ 36" "g xs = a"
  shows "reads I (then_op (malloc_op (length xs * k))
           (bind_op (collect_all (replicate (length xs) m)) (\<lambda>xs. ret (g xs)))) (concat (map e xs)) a"
  using assms reads_replicate [of xs I m e "\<lambda>x. x"]
  by (intro reads_then_Nil [OF reads_memory] reads_bind_ret) simp_all

lemma reads_elements:
  assumes wf: "wf_elements T W a" "array_length a = n" "\<not> is_null_array a" "0 < n" "n < 2 ^ 32"
  shows "reads I (recv_elements E (array_type a) n) (enc_elements U a) (view_elements V a)"
proof (cases a)
  case (C_null t)
  then show ?thesis using wf by (simp add: is_null_array_def)
next
  case (C_char xs)
  with wf stable show ?thesis
    by (auto simp: recv_elements_def intro!: reads_then_Nil reads_memory reads_bind_ret reads_counted)
next
  case (C_user t us)
  then obtain d where d: "T t = Some d" "length us * d_size d < 2 ^ 32" "\<not> builtin_type t"
    "list_all (W t) us"
    using wf(1) by (auto simp: user_type_ok_def split: option.splits)
  then show ?thesis
    using C_user wf(2) reads_user_array [OF d(1,4,2)] by (auto simp: recv_elements_def builtin_type_def)
qed (use wf stable in \<open>auto simp: recv_elements_def list_all_iff
      intro!: reads_scalars reads_int32 reads_uint32 reads_uint64 reads_double reads_string memory\<close>)

lemma sends_array:
  assumes "wf_array T W n a"
  shows "sends I (send_array E n a) (enc_array U n a)"
proof -
  have "sends I (send_array E n a) (htonl (to_int32 (array_type a)) @ htonl n @
     [if 0 < n \<and> \<not> is_null_array a then 1 else 0] @
     (if 0 < n \<and> \<not> is_null_array a then enc_elements U a else []) @ [])"
    unfolding send_array_def Let_def using assms stable
    by (intro sends_run_all_Cons sends_run_all_Nil sends_int32 sends_uint32 sends_char)
      (auto simp: wf_array_def intro: sends_ret sends_elements)
  then show ?thesis by (auto simp: enc_array_def enc_marker_def)
qed

lemma reads_array:
  assumes "wf_array T W n a"
  shows "reads I (recv_array E) (enc_array U n a) (Array n (view_array V n a))"
proof -
  define valid where "valid \<longleftrightarrow> 0 < n \<and> \<not> is_null_array a"
  have t: "c_int (to_int32 (array_type a)) = array_type a"
    using assms by (simp add: wf_array_def int32_range_c_int)
  have "reads I (recv_array E) (htonl (to_int32 (array_type a)) @ htonl n @
     [if valid then 1 else 0] @ (if valid then enc_elements U a else [])) (Array n (view_array V n a))"
    unfolding recv_array_def
  proof (intro reads_bind [OF reads_int32 [OF stable]] reads_bind [OF reads_uint32 [OF stable]]
      reads_bind [OF reads_char [OF stable]])
    show "reads I (if (if valid then 1 else 0 :: byte) = 0
        then ret (Array n (C_null (c_int (to_int32 (array_type a)))))
        else then_op (assert_op (0 < n))
              (bind_op (recv_elements E (c_int (to_int32 (array_type a))) (unat n))
                (\<lambda>a. ret (Array n a)))) (if valid then enc_elements U a else [])
        (Array n (view_array V n a))"
      using assms unsigned_less [of n, where 'a = nat]
      by (auto simp: t valid_def view_array_def wf_array_def assert_op_def unat_gt_0 word_gt_0
          intro!: reads_ret reads_bind_ret reads_elements)
  qed
  then show ?thesis by (auto simp: enc_array_def enc_marker_def valid_def)
qed

lemma sends_arg: "wf_arg T W a \<Longrightarrow> sends I (send_arg E a) (enc_arg U a)"
proof (cases a)
  case (User t u)
  moreover assume "wf_arg T W a"
  ultimately obtain d where "T t = Some d" "W t u"
    by (auto simp: user_type_ok_def split: option.splits)
  with sends_send_user [of t d "[u]"] User show ?thesis by simp
qed (use stable in \<open>auto intro: sends_char sends_int32 sends_uint32 sends_uint64 sends_double
      sends_string memory sends_array\<close>)

lemma wf_arg_type: "wf_arg T W a \<Longrightarrow> int32_range (arg_type a) \<and> arg_type a \<noteq> RPC_TYPE_INVALID"
  by (cases a) (auto simp: user_type_ok_def int32_range_def)

lemma expected_param [simp]: "expected_type (param_of a) = arg_type a"
  by (cases a) simp_all

lemma reads_arg: "wf_arg T W a \<Longrightarrow> reads I (recv_arg E (arg_type a)) (enc_arg U a) (view_arg V a)"
proof (cases a)
  case (User t u)
  moreover assume "wf_arg T W a"
  ultimately obtain d where "T t = Some d" "W t u" "\<not> builtin_type t"
    by (auto simp: user_type_ok_def split: option.splits)
  with User show ?thesis
    by (auto simp: recv_arg_def builtin_type_def intro!: reads_bind_ret reads_recv_user)
qed (use stable in \<open>auto simp: recv_arg_def intro!: reads_bind_ret reads_char reads_int32 reads_uint32
      reads_uint64 reads_double reads_string memory reads_array\<close>)

lemma sends_args_loop:
  "list_all (wf_arg T W) as \<Longrightarrow> sends I (send_args_loop E k as)
     ((if k = 0 \<and> as \<noteq> [] then enc_marker RPC_MESSAGE_ARGS else []) @
      concat (map (\<lambda>a. enc_marker (arg_type a) @ enc_arg U a) as) @
      (if k = 0 \<and> as = [] then [] else enc_marker RPC_MESSAGE_END))"
proof (induction as arbitrary: k)
  case Nil
  then show ?case by (auto simp: enc_marker_def intro: sends_int32 [OF stable] sends_ret)
next
  case (Cons a as)
  then have "send_args_loop E k (a # as) = run_all
      [if k = 0 then rpc_message_send_int32 (to_int32 RPC_MESSAGE_ARGS) else ret (),
       rpc_message_send_int32 (to_int32 (arg_type a)), send_arg E a, send_args_loop E (k + 1) as]"
    using wf_arg_type [of a] by (simp del: run_all.simps)
  then have "sends I (send_args_loop E k (a # as))
    ((if k = 0 then enc_marker RPC_MESSAGE_ARGS else []) @ enc_marker (arg_type a) @ enc_arg U a @
      (concat (map (\<lambda>a. enc_marker (arg_type a) @ enc_arg U a) as) @ enc_marker RPC_MESSAGE_END) @ [])"
    using Cons.prems Cons.IH [of "k + 1"]
    by (elim ssubst, intro sends_run_all_Cons sends_run_all_Nil)
      (auto simp: enc_marker_def intro: sends_int32 [OF stable] sends_ret sends_arg)
  then show ?case by simp
qed

lemma reads_args_loop:
  "list_all (wf_arg T W) as \<Longrightarrow> reads I (recv_args_loop E k (map param_of as))
     ((if k = 0 \<and> as \<noteq> [] then enc_marker RPC_MESSAGE_ARGS else []) @
      concat (map (\<lambda>a. enc_marker (arg_type a) @ enc_arg U a) as) @
      (if k = 0 \<and> as = [] then [] else enc_marker RPC_MESSAGE_END)) (map (view_arg V) as)"
proof (induction as arbitrary: k)
  case Nil
  then show ?case
    using reads_then [OF reads_marker [OF stable] reads_ret, of RPC_MESSAGE_END]
    by (auto simp: int32_range_def intro: reads_ret)
next
  case (Cons a as)
  note a = wf_arg_type [of a] and IH = Cons.IH [of "k + 1"]
  have "reads I (recv_args_loop E k (map param_of (a # as)))
    ((if k = 0 then enc_marker RPC_MESSAGE_ARGS else []) @ enc_marker (arg_type a) @ enc_arg U a @
      (concat (map (\<lambda>a. enc_marker (arg_type a) @ enc_arg U a) as) @ enc_marker RPC_MESSAGE_END))
    (map (view_arg V) (a # as))"
    using Cons.prems a IH reads_arg [of a] reads_marker [OF stable, of RPC_MESSAGE_ARGS]
    by (auto simp: enc_marker_def int32_range_c_int int32_range_def
        intro!: reads_then reads_ret reads_bind [OF reads_int32 [OF stable]] reads_bind reads_bind_ret)
  then show ?case by simp
qed

lemma sends_args:
  "list_all (wf_arg T W) as \<Longrightarrow> sends I (rpc_message_send_args E as) (enc_args U as)"
  using sends_args_loop [of as 0]
  by (cases as) (simp_all add: rpc_message_send_args_def enc_args_def sends_ret)

lemma reads_args:
  "list_all (wf_arg T W) as \<Longrightarrow>
     reads I (rpc_message_recv_args E (map param_of as)) (enc_args U as) (map (view_arg V) as)"
  using reads_args_loop [of as 0]
  by (cases as) (simp_all add: rpc_message_recv_args_def enc_args_def reads_ret)

text \<open>A whole message: marshal, flush, deliver the bytes, unmarshal.\<close>

lemma transmit:
  assumes wf: "list_all (wf_arg T W) as"
    and s: "calm s" "I s" and r: "calm r" "I r"
  shows "\<exists>msg' s' r'.
    then_op (rpc_message_send_args E as) rpc_message_flush (rpc_message_init, s) = (Ok (), (msg', s')) \<and>
    tx_wire s' = tx_wire s @ enc_args U as \<and>
    rpc_message_recv_args E (map param_of as) (msg, r\<lparr>rx_queue := enc_args U as @ rest\<rparr>) =
      (Ok (map (view_arg V) as), (msg, r')) \<and> rx_queue r' = rest"
  using sends_flushed [OF stable sends_args [OF wf] s] reads_delivered [OF stable reads_args [OF wf] r]
  by blast

end

subsection \<open>Connections without user-defined types\<close>

lemma types_inv_stable: "io_stable (types_inv T)"
  by (simp add: io_stable_def types_inv_def mem_ok_def types_are_def)

lemma types_inv_lookups:
  "types_inv T s \<Longrightarrow> conn_types s = Some m \<Longrightarrow>
     types_inv T (s\<lparr>conn_types := Some (snd (rpc_map_lookup m t))\<rparr>)"
  using types_are_lookup(2) [of T s m t] by (simp add: types_inv_def mem_ok_def)

interpretation plain: user_marshalers "types_inv Map.empty" E Map.empty U V W for E U V W
  by unfold_locales (simp_all add: types_inv_stable types_inv_lookups, simp_all add: types_inv_def)

text \<open>
  C8. Argument lists survive the wire: for every marshaler environment that keeps the contract of
  \<open>user_marshalers\<close>, every list of well-formed arguments (scalars, strings, arrays and user-defined
  values, of any length and buffered or not) that \<open>rpc_message_send_args\<close> sends is received by
  \<open>rpc_message_recv_args\<close> as the list of its views, and exactly the bytes of the message are consumed.
\<close>

theorem rpc_message_args_round_trip:
  assumes "user_marshalers I E T U V W" "list_all (wf_arg T W) as"
    and "calm s" "I s" "tx_wire s = []" "calm r" "I r"
  shows "\<exists>msg' s' r'.
    then_op (rpc_message_send_args E as) rpc_message_flush (rpc_message_init, s) = (Ok (), (msg', s')) \<and>
    rpc_message_recv_args E (map param_of as) (rpc_message_init, r\<lparr>rx_queue := tx_wire s' @ rest\<rparr>) =
      (Ok (map (view_arg V) as), (rpc_message_init, r')) \<and> rx_queue r' = rest"
  using user_marshalers.transmit [OF assms(1-4,6,7), of rpc_message_init rest] assms(5) by auto

theorem rpc_message_args_round_trip_witness:
  "\<exists>msg' s' r'.
    then_op (rpc_message_send_args \<lparr>call_send = (\<lambda>_ _. ret ()), call_recv = (\<lambda>_. ret ())\<rparr>
        [Str (Some [104, 105]), Array 2 (C_int32 [7, 8]), Double 1, Array 0 (C_char [])]) rpc_message_flush
      (rpc_message_init, \<lparr>rx_queue = [], rx_eof = False, rx_script = [], tx_wire = [], tx_script = [Xfer 3],
         malloc_ok = (\<lambda>_. True), conn_types = None\<rparr>) = (Ok (), (msg', s')) \<and>
    rpc_message_recv_args \<lparr>call_send = (\<lambda>_ _. ret ()), call_recv = (\<lambda>_. ret ())\<rparr>
        [P_type RPC_TYPE_STRING, P_array RPC_TYPE_INT32, P_type RPC_TYPE_DOUBLE, P_array RPC_TYPE_CHAR]
      (rpc_message_init, \<lparr>rx_queue = tx_wire s' @ [], rx_eof = False, rx_script = [], tx_wire = [],
         tx_script = [], malloc_ok = (\<lambda>_. True), conn_types = None\<rparr>) =
      (Ok [Str (Some [104, 105]), Array 2 (C_int32 [7, 8]), Double 1, Array 0 (C_null RPC_TYPE_CHAR)],
       (rpc_message_init, r')) \<and> rx_queue r' = []"
proof -
  let ?as = "[Str (Some [104, 105]), Array 2 (C_int32 [7, 8]), Double 1, Array 0 (C_char [])] :: unit rpc_arg list"
  let ?s = "\<lparr>rx_queue = [], rx_eof = False, rx_script = [], tx_wire = [], tx_script = [Xfer 3],
         malloc_ok = (\<lambda>_. True), conn_types = None\<rparr> :: rpc_base"
  let ?r = "\<lparr>rx_queue = [], rx_eof = False, rx_script = [], tx_wire = [], tx_script = [],
         malloc_ok = (\<lambda>_. True), conn_types = None\<rparr> :: rpc_base"
  have wf: "list_all (wf_arg Map.empty (\<lambda>_ _. False)) ?as"
    by (simp add: wf_string_def wf_array_def int32_range_def is_null_array_def)
  have st: "calm ?s" "types_inv Map.empty ?s" "tx_wire ?s = []" "calm ?r" "types_inv Map.empty ?r"
    by (simp_all add: calm_def types_inv_def mem_ok_def types_are_def)
  show ?thesis
    using rpc_message_args_round_trip [OF plain.user_marshalers_axioms wf st,
        where E = "\<lparr>call_send = (\<lambda>_ _. ret ()), call_recv = (\<lambda>_. ret ())\<rparr>" and V = "\<lambda>_ u. u" and
          rest = "[]"]
    by (simp add: view_array_def is_null_array_def)
qed

end
