(* ===== verification/Rpc_Connection.thy ===== *)
theory Rpc_Connection
  imports Rpc_Wire
begin

text \<open>
  Connections of \<^verbatim>\<open>rpc.c\<close>: their creation, reference counting and destruction, the status and
  error callback, and the registration of marshalers and method handlers. The registries of
  marshalers and of methods share one contract, the locale \<open>registry\<close>.
\<close>

subsection \<open>The connection\<close>

datatype connection_type = RPC_CONNECTION_SERVER | RPC_CONNECTION_CLIENT

text \<open>Calls with an effect outside the process's memory, in the order they are made.\<close>

datatype os_call = is_Close: Close int | Unlink "byte list" | Cancel_thread | Join_thread

text \<open>
  \<open>struct rpc_connection\<close>, with the model's own \<open>freed\<close> (the memory was returned), the log of
  system calls and the outcomes of the coming \<open>select\<close> calls on the socket (\<open>Some e\<close>: fails).
\<close>

record rpc_connection = rpc_base +
  conn_type :: connection_type
  refcnt :: int
  status :: int
  socket :: int
  socket_path :: "byte list option"
  server_socket :: int
  server_thread_active :: bool
  methods :: "code_ptr rpc_map option"
  error_callback :: code_ptr
  error_callback_data :: ptr
  dispatch_depth :: int
  invoke_depth :: int
  handle_depth :: int
  is_sync :: bool
  pending_sync_depth :: int
  freed :: bool
  os_calls :: "os_call list"
  poll_script :: "errno option list"

text \<open>
  The code behind the function pointers of a connection: a method handler returns a C \<open>int\<close>, an
  error callback nothing.
\<close>

record ('s, 'u) rpc_env = "('s, 'u) fptrs" +
  call_method :: "code_ptr \<Rightarrow> ('s, int) op"
  call_error :: "code_ptr \<Rightarrow> ptr \<Rightarrow> ('s, unit) op"

text \<open>A call whose C result is \<open>void\<close>: the caller sees that it came back, and no value or code.\<close>

definition void_call :: "('s, unit) op \<Rightarrow> ('s, unit) op" where
  "void_call m s =
     (case m s of
        (Crash c, s') \<Rightarrow> (Crash c, s')
      | (_, s') \<Rightarrow> (Ok (), s'))"

text \<open>An access to a member of the connection.\<close>

definition read_conn ::
  "('z rpc_connection_scheme \<Rightarrow> 'a) \<Rightarrow> ('z rpc_connection_scheme, 'a) op"
where
  "read_conn f s = (if freed s then Crash Use_after_free else Ok (f s), s)"

definition write_conn ::
  "('z rpc_connection_scheme \<Rightarrow> 'z rpc_connection_scheme) \<Rightarrow> ('z rpc_connection_scheme, unit) op"
where
  "write_conn f s = (if freed s then (Crash Use_after_free, s) else (Ok (), f s))"

text \<open>\<open>if (connection == NULL) return e;\<close> in front of a function body.\<close>

definition check_null :: "int \<Rightarrow> ('s, 'a) op \<Rightarrow> ('s option, 'a) op" where
  "check_null e m c =
     (case c of None \<Rightarrow> (Err e, None) | Some s \<Rightarrow> (case m s of (r, s') \<Rightarrow> (r, Some s')))"

subsection \<open>Status and errors\<close>

definition rpc_connection_is_sync_mode :: "'z rpc_connection_scheme \<Rightarrow> bool" where
  "rpc_connection_is_sync_mode s = (conn_type s = RPC_CONNECTION_SERVER)"

definition rpc_connection_is_sync_allowed :: "'z rpc_connection_scheme \<Rightarrow> bool" where
  "rpc_connection_is_sync_allowed s =
     (if rpc_connection_is_sync_mode s then False else pending_sync_depth s = 0)"

definition rpc_connection_set_error_callback ::
  "code_ptr \<Rightarrow> ptr \<Rightarrow> 'z rpc_connection_scheme option \<Rightarrow> 'z rpc_connection_scheme option"
where
  "rpc_connection_set_error_callback callback callback_data c =
     (case c of
        None \<Rightarrow> None
      | Some s \<Rightarrow>
          if error_callback s \<noteq> NULL then Some s
          else Some (s\<lparr>error_callback := callback, error_callback_data := callback_data\<rparr>))"

definition rpc_connection_invoke_error_callback ::
  "('z rpc_connection_scheme, 'u, 'y) rpc_env_scheme \<Rightarrow> ('z rpc_connection_scheme, unit) op"
where
  "rpc_connection_invoke_error_callback E s =
     (if error_callback s \<noteq> NULL
      then void_call (call_error E (error_callback s) (error_callback_data s)) s
      else (Ok (), s))"

definition rpc_status :: "'z rpc_connection_scheme option \<Rightarrow> int" where
  "rpc_status c = (case c of None \<Rightarrow> RPC_STATUS_BROKEN | Some s \<Rightarrow> status s)"

definition rpc_set_status :: "int \<Rightarrow> 'z rpc_connection_scheme \<Rightarrow> 'z rpc_connection_scheme" where
  "rpc_set_status error s =
     (if status s = RPC_STATUS_ACTIVE
      then s\<lparr>status := if error = RPC_ERROR_NO_ERROR then RPC_STATUS_ACTIVE
                       else if error = RPC_ERROR_CONNECTION_CLOSED then RPC_STATUS_CLOSED
                       else RPC_STATUS_BROKEN\<rparr>
      else s)"

definition rpc_error ::
  "('z rpc_connection_scheme, 'u, 'y) rpc_env_scheme \<Rightarrow> int \<Rightarrow> ('z rpc_connection_scheme, 'a) op"
where
  "rpc_error E error =
     then_op (assert_op (error < 0))
       (then_op (write_conn (rpc_set_status error))
         (bind_op (read_conn status) (\<lambda>st.
            then_op (if st = RPC_STATUS_CLOSED \<or> st = RPC_STATUS_BROKEN
                     then rpc_connection_invoke_error_callback E else ret ())
              (fail error))))"

text \<open>\<open>if ((error = m) != RPC_ERROR_NO_ERROR) return rpc_error(connection, error);\<close>\<close>

definition or_rpc_error ::
  "('z rpc_connection_scheme, 'u, 'y) rpc_env_scheme \<Rightarrow> ('z rpc_connection_scheme, 'a) op \<Rightarrow>
     ('z rpc_connection_scheme, 'a) op"
where
  "or_rpc_error E m s =
     (case m s of
        (Ok x, s') \<Rightarrow> (Ok x, s')
      | (Err e, s') \<Rightarrow> rpc_error E e s'
      | (Crash c, s') \<Rightarrow> (Crash c, s'))"

definition rpc_socket :: "'z rpc_connection_scheme option \<Rightarrow> int" where
  "rpc_socket c = (case c of None \<Rightarrow> - 1 | Some s \<Rightarrow> socket s)"

subsection \<open>Creation and destruction\<close>

text \<open>
  The build option for anonymous sockets (Linux only, and not in the generic build), the outcomes
  of the calls made while a connection is set up: allocations, \<open>socket\<close> (negative:
  failure), \<open>fcntl\<close>, \<open>bind\<close>, \<open>listen\<close>; and the transport behind the socket.
\<close>

record os_env =
  os_anonymous :: bool
  os_calloc :: bool
  os_types_map :: bool
  os_methods_map :: bool
  os_socket :: int
  os_fcntl :: bool
  os_path_malloc :: bool
  os_bind :: bool
  os_listen :: bool
  os_io :: io_state

definition SUN_PATH_SIZE :: nat where
  "SUN_PATH_SIZE = 108"

text \<open>
  The path and its length without the terminating zero. With \<open>USE_ANONYMOUS_SOCKETS\<close>: a zero byte
  followed by the identifier; otherwise \<^verbatim>\<open>/tmp/\<close> followed by the identifier with each slash replaced
  by an underscore.
\<close>

definition slash :: byte where "slash = 47"

definition underscore :: byte where "underscore = 95"

definition tmpdir :: "byte list" where "tmpdir = [slash, 116, 109, 112]"

definition rpc_socket_path :: "bool \<Rightarrow> bool \<Rightarrow> byte list \<Rightarrow> byte list option \<times> nat" where
  "rpc_socket_path anonymous malloc_granted ident =
     (if \<not> malloc_granted then (None, 0)
      else
        (let path = (if anonymous then 0 # ident
                     else tmpdir @ slash # map (\<lambda>ch. if ch = slash then underscore else ch) ident)
         in (Some path, length path)))"

definition rpc_connection_destroy :: "('z rpc_connection_scheme, unit) op" where
  "rpc_connection_destroy s =
     (if freed s then (Crash Use_after_free, s)
      else (Ok (), s\<lparr>
        socket_path := None,
        socket := - 1,
        server_socket := if conn_type s = RPC_CONNECTION_SERVER then - 1 else server_socket s,
        conn_types := None,
        methods := None,
        freed := True,
        os_calls := os_calls s @
          (case socket_path s of
             None \<Rightarrow> []
           | Some p \<Rightarrow> if p \<noteq> [] \<and> hd p \<noteq> 0 then [Unlink p] else []) @
          (if conn_type s = RPC_CONNECTION_SERVER
           then (if server_thread_active s then [Cancel_thread, Join_thread] else []) @
                (if socket s \<noteq> - 1 then [Close (socket s)] else []) @
                (if server_socket s \<noteq> - 1 then [Close (server_socket s)] else [])
           else (if socket s \<noteq> - 1 then [Close (socket s)] else []))\<rparr>))"

definition rpc_exit :: "('z rpc_connection_scheme option, unit) op" where
  "rpc_exit = check_null RPC_ERROR_CONNECTION_NULL rpc_connection_destroy"

definition rpc_connection_ref ::
  "'z rpc_connection_scheme option \<Rightarrow> 'z rpc_connection_scheme option"
where
  "rpc_connection_ref = map_option (\<lambda>s. s\<lparr>refcnt := refcnt s + 1\<rparr>)"

definition rpc_connection_unref :: "('z rpc_connection_scheme option, unit) op" where
  "rpc_connection_unref c =
     (case c of
        None \<Rightarrow> (Ok (), None)
      | Some s \<Rightarrow>
          if freed s then (Crash Use_after_free, c)
          else (let s' = s\<lparr>refcnt := refcnt s - 1\<rparr>
                in if refcnt s' = 0 then rpc_exit (Some s') else (Ok (), Some s')))"

text \<open>A \<open>calloc\<close>ed connection with the members set by \<open>rpc_connection_new\<close> before anything can fail.\<close>

definition rpc_connection_fresh :: "connection_type \<Rightarrow> os_env \<Rightarrow> rpc_connection" where
  "rpc_connection_fresh ct env =
     \<lparr>rx_queue = rx_queue (os_io env), rx_eof = rx_eof (os_io env), rx_script = rx_script (os_io env),
      tx_wire = tx_wire (os_io env), tx_script = tx_script (os_io env),
      malloc_ok = malloc_ok (os_io env),
      conn_types = None,
      conn_type = ct, refcnt = 1, status = RPC_STATUS_CLOSED, socket = - 1, socket_path = None,
      server_socket = - 1, server_thread_active = False, methods = None,
      error_callback = NULL, error_callback_data = NULL,
      dispatch_depth = 0, invoke_depth = 0, handle_depth = 0,
      is_sync = False, pending_sync_depth = 0,
      freed = False, os_calls = [], poll_script = []\<rparr>"

text \<open>
  The result is the connection or \<open>NULL\<close>, and the destroyed connection when one was created and
  given up again. \<open>memcpy\<close> to \<open>sun_path\<close> with a path longer than the array is a crash.
\<close>

definition give_up :: "rpc_connection \<Rightarrow> rpc_connection option res \<times> rpc_connection option" where
  "give_up c =
     (case rpc_exit (Some c) of
        (Crash e, c') \<Rightarrow> (Crash e, c')
      | (_, c') \<Rightarrow> (Ok None, c'))"

definition rpc_connection_new ::
  "connection_type \<Rightarrow> byte list option \<Rightarrow> os_env \<Rightarrow> rpc_connection option res \<times> rpc_connection option"
where
  "rpc_connection_new ct ident env =
     (case ident of
        None \<Rightarrow> (Ok None, None)
      | Some name \<Rightarrow>
          if \<not> os_calloc env then (Ok None, None)
          else
            (let c0 = rpc_connection_fresh ct env;
                 c1 = c0\<lparr>conn_types := rpc_map_new_full (os_types_map env) 1\<rparr>;
                 c2 = c1\<lparr>methods := rpc_map_new (os_methods_map env)\<rparr>;
                 fd = os_socket env;
                 c3 = (if ct = RPC_CONNECTION_SERVER then c2\<lparr>server_socket := fd\<rparr>
                       else c2\<lparr>socket := fd\<rparr>)
             in if conn_types c1 = None then give_up c1
                else if methods c2 = None then give_up c2
                else if fd < 0 then give_up c2
                else if ct \<noteq> RPC_CONNECTION_SERVER \<and> \<not> os_fcntl env then give_up c3
                else (case rpc_socket_path (os_anonymous env) (os_path_malloc env) name of
                        (path, addr_len) \<Rightarrow>
                          if addr_len \<le> SUN_PATH_SIZE
                          then (Ok (Some (c3\<lparr>socket_path := path\<rparr>)), None)
                          else (Crash Out_of_bounds, None))))"

definition rpc_init_server ::
  "byte list option \<Rightarrow> os_env \<Rightarrow> rpc_connection option res \<times> rpc_connection option"
where
  "rpc_init_server ident env =
     (case rpc_connection_new RPC_CONNECTION_SERVER ident env of
        (Ok (Some c), _) \<Rightarrow>
          if \<not> os_bind env then give_up c
          else if \<not> os_listen env then give_up c
          else (Ok (Some (c\<lparr>status := RPC_STATUS_ACTIVE\<rparr>)), None)
      | r \<Rightarrow> r)"

text \<open>
  The loop of \<open>rpc_init_client\<close> around \<open>connect\<close>: \<open>connect_result k\<close> is the outcome of the \<open>k\<close>-th
  call (\<open>None\<close>: success, \<open>Some e\<close>: \<open>errno\<close>), \<open>n\<close> the attempts left.
\<close>

datatype connect_outcome = Connected nat | Connect_error | Attempts_exhausted

fun connect_loop :: "(nat \<Rightarrow> errno option) \<Rightarrow> nat \<Rightarrow> nat \<Rightarrow> connect_outcome" where
  "connect_loop connect_result k 0 = Attempts_exhausted"
| "connect_loop connect_result k (Suc n) =
     (case connect_result k of
        None \<Rightarrow> Connected k
      | Some e \<Rightarrow>
          if Suc n > 1 \<and> e \<noteq> ECONNREFUSED \<and> e \<noteq> ENOENT then Connect_error
          else connect_loop connect_result (Suc k) n)"

text \<open>\<open>(rpc_init_timeout() * 1000) / N_CONNECT_WAIT_DELAY\<close> in 32-bit \<open>int\<close>s, at least 1 unless negative.\<close>

definition connect_attempts :: "int \<Rightarrow> int" where
  "connect_attempts timeout =
     (let ms = c_int (to_int32 timeout * 1000);
          n = (if ms < 0 then - ((- ms) div 10) else ms div 10)
      in if n = 0 then 1 else n)"

text \<open>A negative number of attempts skips the loop and is not the zero tested for afterwards.\<close>

definition rpc_init_client ::
  "int \<Rightarrow> (nat \<Rightarrow> errno option) \<Rightarrow> byte list option \<Rightarrow> os_env \<Rightarrow>
     rpc_connection option res \<times> rpc_connection option"
where
  "rpc_init_client init_timeout connect_result ident env =
     (case rpc_connection_new RPC_CONNECTION_CLIENT ident env of
        (Ok (Some c), _) \<Rightarrow>
          (let n = connect_attempts init_timeout;
               active = (Ok (Some (c\<lparr>status := RPC_STATUS_ACTIVE\<rparr>)), None)
           in if n \<le> 0 then active
              else (case connect_loop connect_result 0 (nat n) of
                      Connected _ \<Rightarrow> active
                    | Connect_error \<Rightarrow> give_up c
                    | Attempts_exhausted \<Rightarrow> give_up c))
      | r \<Rightarrow> r)"

subsection \<open>Waiting and accepting\<close>

text \<open>\<open>select\<close> for reading: it fails, or reports whether a read would not block.\<close>

definition rpc_wait_dispatch_1 :: "('z rpc_connection_scheme, int) op" where
  "rpc_wait_dispatch_1 s =
     (let readable = (if rx_queue s \<noteq> [] \<or> rx_eof s then 1 else 0)
      in if freed s then (Crash Use_after_free, s)
         else (case poll_script s of
                 Some e # ps \<Rightarrow> (Ok RPC_ERROR_ERRNO_SET, s\<lparr>poll_script := ps\<rparr>)
               | None # ps \<Rightarrow> (Ok readable, s\<lparr>poll_script := ps\<rparr>)
               | [] \<Rightarrow> (Ok readable, s)))"

definition rpc_wait_dispatch :: "('z rpc_connection_scheme option, int) op" where
  "rpc_wait_dispatch = check_null RPC_ERROR_CONNECTION_NULL
     (\<lambda>s. if socket s < 0 then (Ok RPC_ERROR_GENERIC, s) else rpc_wait_dispatch_1 s)"

text \<open>\<open>fd\<close> is what \<open>accept\<close> returns.\<close>

definition rpc_listen_socket :: "int \<Rightarrow> bool \<Rightarrow> ('z rpc_connection_scheme option, int) op" where
  "rpc_listen_socket fd fcntl_ok = check_null RPC_ERROR_CONNECTION_NULL
     (\<lambda>s. if conn_type s \<noteq> RPC_CONNECTION_SERVER then (Err RPC_ERROR_CONNECTION_TYPE_MISMATCH, s)
          else if fd < 0 then (Err RPC_ERROR_ERRNO_SET, s\<lparr>socket := fd\<rparr>)
          else if \<not> fcntl_ok then (Err RPC_ERROR_ERRNO_SET, s\<lparr>socket := fd\<rparr>)
          else (Ok fd, s\<lparr>socket := fd\<rparr>))"

subsection \<open>Marshalers and methods\<close>

record rpc_method_descriptor =
  m_id :: int
  m_callback :: code_ptr

text \<open>The block \<open>rpc_map_insert\<close> asks for when the table is full: 16 bytes per entry.\<close>

definition map_block :: "'v rpc_map \<Rightarrow> nat" where
  "map_block m = (n_entries_max m + N_ENTRIES_ALLOC) * 16"

definition rpc_connection_add_message_descriptor ::
  "rpc_message_descriptor \<Rightarrow> ('z rpc_connection_scheme option, unit) op"
where
  "rpc_connection_add_message_descriptor idesc = check_null RPC_ERROR_CONNECTION_NULL
     (\<lambda>s. case conn_types s of
        None \<Rightarrow> (Crash Assertion_failed, s)
      | Some m \<Rightarrow>
          (case rpc_map_lookup m (d_id idesc) of
             (Some desc, m') \<Rightarrow>
               (if desc = idesc then Ok () else Err RPC_ERROR_GENERIC, s\<lparr>conn_types := Some m'\<rparr>)
           | (None, m') \<Rightarrow>
               if \<not> malloc_ok s 24 then (Err RPC_ERROR_NO_MEMORY, s\<lparr>conn_types := Some m'\<rparr>)
               else (case rpc_map_insert (malloc_ok s (map_block m')) zero_entry m' (d_id idesc) idesc of
                       (e, m'') \<Rightarrow>
                         (if e < 0 then Err e else Ok (), s\<lparr>conn_types := Some m''\<rparr>))))"

text \<open>The loop of \<open>rpc_connection_add_message_descriptors\<close> goes forward, the one for methods backward.\<close>

definition rpc_connection_add_message_descriptors ::
  "rpc_message_descriptor list \<Rightarrow> ('z rpc_connection_scheme option, unit) op"
where
  "rpc_connection_add_message_descriptors descs =
     run_all (map rpc_connection_add_message_descriptor descs)"

definition rpc_connection_add_method_descriptor ::
  "rpc_method_descriptor \<Rightarrow> ('z rpc_connection_scheme option, unit) op"
where
  "rpc_connection_add_method_descriptor idesc = check_null RPC_ERROR_CONNECTION_NULL
     (\<lambda>s. case methods s of
        None \<Rightarrow> (Crash Assertion_failed, s)
      | Some m \<Rightarrow>
          (case rpc_map_lookup m (m_id idesc) of
             (Some callback, m') \<Rightarrow>
               (if callback = m_callback idesc then Ok () else Err RPC_ERROR_GENERIC,
                s\<lparr>methods := Some m'\<rparr>)
           | (None, m') \<Rightarrow>
               if m_callback idesc = NULL then (Crash Assertion_failed, s\<lparr>methods := Some m'\<rparr>)
               else (case rpc_map_insert (malloc_ok s (map_block m')) zero_entry m' (m_id idesc)
                         (m_callback idesc) of
                       (e, m'') \<Rightarrow> (if e < 0 then Err e else Ok (), s\<lparr>methods := Some m''\<rparr>))))"

definition rpc_connection_add_method_descriptors ::
  "rpc_method_descriptor list \<Rightarrow> ('z rpc_connection_scheme option, unit) op"
where
  "rpc_connection_add_method_descriptors descs = check_null RPC_ERROR_CONNECTION_NULL
     (\<lambda>s. case run_all (map rpc_connection_add_method_descriptor (rev descs)) (Some s) of
        (r, Some s') \<Rightarrow> (r, s')
      | (r, None) \<Rightarrow> (r, s))"

subsection \<open>A concrete connection\<close>

text \<open>A connection as \<open>rpc_init_client\<close> leaves it, on an undisturbed transport.\<close>

definition sample_io :: io_state where
  "sample_io = \<lparr>rx_queue = [], rx_eof = False, rx_script = [], tx_wire = [], tx_script = [],
     malloc_ok = (\<lambda>_. True)\<rparr>"

definition sample_os :: os_env where
  "sample_os = \<lparr>os_anonymous = True, os_calloc = True, os_types_map = True, os_methods_map = True,
     os_socket = 5, os_fcntl = True, os_path_malloc = True, os_bind = True, os_listen = True,
     os_io = sample_io\<rparr>"

definition the_connection :: "rpc_connection option res \<times> rpc_connection option \<Rightarrow> rpc_connection" where
  "the_connection p = (case p of (Ok (Some c), _) \<Rightarrow> c | _ \<Rightarrow> rpc_connection_fresh RPC_CONNECTION_CLIENT sample_os)"

definition sample_client :: rpc_connection where
  "sample_client = the_connection (rpc_init_client 5 (\<lambda>_. None) (Some [1]) sample_os)"

lemmas sample_defs = sample_client_def sample_os_def sample_io_def the_connection_def
  rpc_init_client_def rpc_init_server_def rpc_connection_new_def rpc_connection_fresh_def
  rpc_map_new_def rpc_map_new_full_def connect_attempts_def rpc_socket_path_def SUN_PATH_SIZE_def

lemma connect_first: "0 < n \<Longrightarrow> connect_loop (\<lambda>_. None) k n = Connected k"
  by (cases n) simp_all

lemma empty_map_ok:
  "rpc_map_ok \<lparr>n_entries = 0, n_entries_max = 0, entries = None, destroy_func = d\<rparr>"
  "rpc_map_abs \<lparr>n_entries = 0, n_entries_max = 0, entries = None, destroy_func = d\<rparr> = Map.empty"
  by (auto simp: rpc_map_ok_def cells_def used_def rpc_map_abs_def rpc_map_lookup_entry_def)

subsection \<open>The contract of a registry\<close>

text \<open>No allocation fails.\<close>

definition alloc_ok :: "'z io_state_scheme \<Rightarrow> bool" where
  "alloc_ok s \<longleftrightarrow> (\<forall>n. malloc_ok s n)"

text \<open>A connection with a table of marshalers (of methods), everything else being as in \<open>R\<close>.\<close>

definition types_reg :: "'z rpc_connection_scheme \<Rightarrow> 'z rpc_connection_scheme option \<Rightarrow> bool" where
  "types_reg R c \<longleftrightarrow>
     (case c of
        None \<Rightarrow> False
      | Some s \<Rightarrow> alloc_ok s \<and> s\<lparr>conn_types := None\<rparr> = R \<and>
          (case conn_types s of None \<Rightarrow> False | Some m \<Rightarrow> rpc_map_ok m))"

definition methods_reg :: "'z rpc_connection_scheme \<Rightarrow> 'z rpc_connection_scheme option \<Rightarrow> bool" where
  "methods_reg R c \<longleftrightarrow>
     (case c of
        None \<Rightarrow> False
      | Some s \<Rightarrow> alloc_ok s \<and> s\<lparr>methods := None\<rparr> = R \<and>
          (case methods s of None \<Rightarrow> False | Some m \<Rightarrow> rpc_map_ok m))"

definition types_tbl :: "'z rpc_connection_scheme option \<Rightarrow> int \<Rightarrow> rpc_message_descriptor option" where
  "types_tbl c = (case c of None \<Rightarrow> Map.empty | Some s \<Rightarrow>
     (case conn_types s of None \<Rightarrow> Map.empty | Some m \<Rightarrow> rpc_map_abs m))"

definition methods_tbl :: "'z rpc_connection_scheme option \<Rightarrow> int \<Rightarrow> code_ptr option" where
  "methods_tbl c = (case c of None \<Rightarrow> Map.empty | Some s \<Rightarrow>
     (case methods s of None \<Rightarrow> Map.empty | Some m \<Rightarrow> rpc_map_abs m))"

text \<open>Entries that contradict neither a table nor one another.\<close>

definition agrees :: "(int \<times> 'p) list \<Rightarrow> (int \<Rightarrow> 'p option) \<Rightarrow> bool" where
  "agrees kps t \<longleftrightarrow> list_all (\<lambda>(k, p). (t k = None \<or> t k = Some p) \<and> map_of kps k = Some p) kps"

lemma agrees_ConsD:
  assumes "agrees ((k, p) # kps) t"
  shows "t k = None \<or> t k = Some p" "agrees kps (t(k \<mapsto> p))"
proof -
  have *: "(t k' = None \<or> t k' = Some p') \<and> (if k = k' then p = p' else map_of kps k' = Some p')"
    if "(k', p') \<in> set kps" for k' p'
    using assms that by (auto simp: agrees_def list_all_iff split: if_splits)
  have "map_of kps k' = Some p'" if "(k', p') \<in> set kps" for k' p'
  proof (cases "k = k'")
    case True
    from that obtain q where "map_of kps k' = Some q"
      by (meson weak_map_of_SomeI)
    with * [of k' q] * [OF that] True show ?thesis
      by (auto dest: map_of_SomeD)
  qed (use * that in auto)
  moreover have "(t(k \<mapsto> p)) k' = None \<or> (t(k \<mapsto> p)) k' = Some p'" if "(k', p') \<in> set kps" for k' p'
    using * [OF that] by auto
  ultimately show "agrees kps (t(k \<mapsto> p))"
    unfolding agrees_def list_all_iff by blast
  show "t k = None \<or> t k = Some p"
    using assms by (simp add: agrees_def)
qed

text \<open>
  What both registries promise of adding a descriptor: a new key is entered, adding the same
  descriptor again is accepted, a different one under the same key is refused, and the table and
  the rest of the connection are otherwise left alone.
\<close>

locale registry =
  fixes add :: "'d \<Rightarrow> ('c, unit) op"
    and key :: "'d \<Rightarrow> int"
    and payload :: "'d \<Rightarrow> 'p"
    and valid :: "'d \<Rightarrow> bool"
    and tbl :: "'c \<Rightarrow> int \<Rightarrow> 'p option"
    and inv :: "'c \<Rightarrow> bool"
  assumes add_new: "inv c \<Longrightarrow> valid d \<Longrightarrow> tbl c (key d) = None \<Longrightarrow>
      \<exists>c'. add d c = (Ok (), c') \<and> inv c' \<and> tbl c' = (tbl c)(key d \<mapsto> payload d)"
    and add_same: "inv c \<Longrightarrow> tbl c (key d) = Some (payload d) \<Longrightarrow>
      \<exists>c'. add d c = (Ok (), c') \<and> inv c' \<and> tbl c' = tbl c"
    and add_clash: "inv c \<Longrightarrow> tbl c (key d) = Some p \<Longrightarrow> p \<noteq> payload d \<Longrightarrow>
      \<exists>c'. add d c = (Err RPC_ERROR_GENERIC, c') \<and> inv c' \<and> tbl c' = tbl c"
begin

lemma add_compatible:
  assumes "inv c" "valid d" "tbl c (key d) = None \<or> tbl c (key d) = Some (payload d)"
  shows "\<exists>c'. add d c = (Ok (), c') \<and> inv c' \<and> tbl c' = (tbl c)(key d \<mapsto> payload d)"
proof (cases "tbl c (key d)")
  case None
  with assms add_new show ?thesis by blast
next
  case (Some p)
  with assms(3) have *: "tbl c (key d) = Some (payload d)" by simp
  then have "(tbl c)(key d \<mapsto> payload d) = tbl c" by (rule fun_upd_idem)
  with add_same [OF assms(1) *] show ?thesis by simp
qed

lemma add_all:
  "inv c \<Longrightarrow> list_all valid ds \<Longrightarrow> agrees (map (\<lambda>d. (key d, payload d)) ds) (tbl c) \<Longrightarrow>
   \<exists>c'. run_all (map add ds) c = (Ok (), c') \<and> inv c' \<and>
     tbl c' = tbl c ++ map_of (map (\<lambda>d. (key d, payload d)) (rev ds))"
proof (induction ds arbitrary: c)
  case Nil
  show ?case using Nil.prems(1) by (simp add: ret_def)
next
  case (Cons d ds)
  have a: "agrees ((key d, payload d) # map (\<lambda>d. (key d, payload d)) ds) (tbl c)"
    using Cons.prems(3) by simp
  obtain c1 where 1: "add d c = (Ok (), c1)" "inv c1" "tbl c1 = (tbl c)(key d \<mapsto> payload d)"
    using add_compatible [OF Cons.prems(1) _ agrees_ConsD(1) [OF a]] Cons.prems(2) by auto
  have "list_all valid ds" using Cons.prems(2) by simp
  from Cons.IH [OF 1(2) this agrees_ConsD(2) [OF a, folded 1(3)]]
  obtain c2 where 2: "run_all (map add ds) c1 = (Ok (), c2)" "inv c2"
     "tbl c2 = tbl c1 ++ map_of (map (\<lambda>d. (key d, payload d)) (rev ds))"
    by blast
  moreover have "run_all (map add (d # ds)) c = (Ok (), c2)"
    by (simp add: then_op_def bind_op_def 1(1) 2(1))
  ultimately show ?case using 1(3) by auto
qed

text \<open>Whatever the outcome, a registration never changes or drops an entry.\<close>

lemma add_keeps:
  assumes "inv c" "valid d" "add d c = (r, c')"
  shows "inv c' \<and> tbl c \<subseteq>\<^sub>m tbl c'"
proof (cases "tbl c (key d)")
  case None
  with add_new [OF assms(1,2)] assms(3) show ?thesis by (auto simp: map_le_def)
next
  case (Some p)
  with add_same [OF assms(1), of d] add_clash [OF assms(1) Some] assms(3) show ?thesis
    by (cases "p = payload d") auto
qed

lemma add_all_keeps:
  "inv c \<Longrightarrow> list_all valid ds \<Longrightarrow> run_all (map add ds) c = (r, c') \<Longrightarrow> inv c' \<and> tbl c \<subseteq>\<^sub>m tbl c'"
proof (induction ds arbitrary: c)
  case Nil
  then show ?case by (simp add: ret_def)
next
  case (Cons d ds)
  obtain r1 c1 where 1: "add d c = (r1, c1)" by fastforce
  with Cons.prems have k: "inv c1" "tbl c \<subseteq>\<^sub>m tbl c1"
    using add_keeps [of c d r1 c1] by auto
  show ?case
  proof (cases r1)
    case (Ok x)
    with 1 Cons.prems(3) have "run_all (map add ds) c1 = (r, c')"
      by (simp add: then_op_def bind_op_def)
    with Cons.IH [OF k(1)] Cons.prems(2) k(2) show ?thesis by (auto intro: map_le_trans)
  qed (use 1 k Cons.prems(3) in \<open>auto simp: then_op_def bind_op_def\<close>)
qed

end

subsection \<open>Both registries keep the contract\<close>

lemma types_regE:
  assumes "types_reg R c"
  obtains s m where "c = Some s" "conn_types s = Some m" "rpc_map_ok m" "alloc_ok s"
    "s\<lparr>conn_types := None\<rparr> = R"
  using assms that by (auto simp: types_reg_def split: option.splits)

lemma methods_regE:
  assumes "methods_reg R c"
  obtains s m where "c = Some s" "methods s = Some m" "rpc_map_ok m" "alloc_ok s"
    "s\<lparr>methods := None\<rparr> = R"
  using assms that by (auto simp: methods_reg_def split: option.splits)

text \<open>Looking a key up in a well-formed table, as the registration code does it.\<close>

lemma map_lookup_cases:
  assumes "rpc_map_ok m"
  obtains m' where "rpc_map_lookup m k = (rpc_map_abs m k, m')" "rpc_map_ok m'"
    "rpc_map_abs m' = rpc_map_abs m"
  using rpc_map_lookup_correct [OF assms, of k] that by (metis prod.collapse)

lemma map_insert_cases:
  assumes "rpc_map_ok m"
  obtains m' where "rpc_map_insert True junk m k v = (0, m')" "rpc_map_ok m'"
    "rpc_map_abs m' = (rpc_map_abs m)(k \<mapsto> v)"
  using rpc_map_insert_correct [OF assms, of junk k v] that by (metis prod.collapse)

interpretation types: registry rpc_connection_add_message_descriptor d_id id "\<lambda>_. True" types_tbl
  "types_reg R" for R :: "'z rpc_connection_scheme"
proof
  fix c :: "'z rpc_connection_scheme option" and d :: rpc_message_descriptor and p
  assume "types_reg R c"
  then obtain s m where s: "c = Some s" "conn_types s = Some m" "rpc_map_ok m" "alloc_ok s"
    "s\<lparr>conn_types := None\<rparr> = R"
    by (rule types_regE)
  obtain m1 where m1: "rpc_map_lookup m (d_id d) = (rpc_map_abs m (d_id d), m1)" "rpc_map_ok m1"
    "rpc_map_abs m1 = rpc_map_abs m"
    using s(3) by (rule map_lookup_cases)
  obtain m2 where m2: "rpc_map_insert True zero_entry m1 (d_id d) d = (0, m2)" "rpc_map_ok m2"
    "rpc_map_abs m2 = (rpc_map_abs m1)(d_id d \<mapsto> d)"
    using m1(2) by (rule map_insert_cases)
  note defs = rpc_connection_add_message_descriptor_def check_null_def types_reg_def types_tbl_def
  note facts = s m1 m2 defs alloc_ok_def
  show "types_tbl c (d_id d) = None \<Longrightarrow> \<exists>c'. rpc_connection_add_message_descriptor d c = (Ok (), c') \<and>
      types_reg R c' \<and> types_tbl c' = (types_tbl c)(d_id d \<mapsto> id d)"
    using s(4,5) by (simp add: facts)
  show "types_tbl c (d_id d) = Some (id d) \<Longrightarrow>
      \<exists>c'. rpc_connection_add_message_descriptor d c = (Ok (), c') \<and> types_reg R c' \<and>
        types_tbl c' = types_tbl c"
    using s(4,5) by (simp add: facts)
  show "types_tbl c (d_id d) = Some p \<Longrightarrow> p \<noteq> id d \<Longrightarrow>
      \<exists>c'. rpc_connection_add_message_descriptor d c = (Err RPC_ERROR_GENERIC, c') \<and> types_reg R c' \<and>
        types_tbl c' = types_tbl c"
    using s(4,5) by (simp add: facts)
qed

interpretation methods: registry rpc_connection_add_method_descriptor m_id m_callback
  "\<lambda>d. m_callback d \<noteq> NULL" methods_tbl "methods_reg R" for R :: "'z rpc_connection_scheme"
proof
  fix c :: "'z rpc_connection_scheme option" and d :: rpc_method_descriptor and p
  assume "methods_reg R c"
  then obtain s m where s: "c = Some s" "methods s = Some m" "rpc_map_ok m" "alloc_ok s"
    "s\<lparr>methods := None\<rparr> = R"
    by (rule methods_regE)
  obtain m1 where m1: "rpc_map_lookup m (m_id d) = (rpc_map_abs m (m_id d), m1)" "rpc_map_ok m1"
    "rpc_map_abs m1 = rpc_map_abs m"
    using s(3) by (rule map_lookup_cases)
  obtain m2 where m2: "rpc_map_insert True zero_entry m1 (m_id d) (m_callback d) = (0, m2)"
    "rpc_map_ok m2" "rpc_map_abs m2 = (rpc_map_abs m1)(m_id d \<mapsto> m_callback d)"
    using m1(2) by (rule map_insert_cases)
  note defs = rpc_connection_add_method_descriptor_def check_null_def methods_reg_def methods_tbl_def
  note facts = s m1 m2 defs alloc_ok_def
  show "m_callback d \<noteq> NULL \<Longrightarrow> methods_tbl c (m_id d) = None \<Longrightarrow>
      \<exists>c'. rpc_connection_add_method_descriptor d c = (Ok (), c') \<and>
        methods_reg R c' \<and> methods_tbl c' = (methods_tbl c)(m_id d \<mapsto> m_callback d)"
    using s(4,5) by (simp add: facts)
  show "methods_tbl c (m_id d) = Some (m_callback d) \<Longrightarrow>
      \<exists>c'. rpc_connection_add_method_descriptor d c = (Ok (), c') \<and> methods_reg R c' \<and>
        methods_tbl c' = methods_tbl c"
    using s(4,5) by (simp add: facts)
  show "methods_tbl c (m_id d) = Some p \<Longrightarrow> p \<noteq> m_callback d \<Longrightarrow>
      \<exists>c'. rpc_connection_add_method_descriptor d c = (Err RPC_ERROR_GENERIC, c') \<and> methods_reg R c' \<and>
        methods_tbl c' = methods_tbl c"
    using s(4,5) by (simp add: facts)
qed

subsection \<open>Life cycle and status\<close>

text \<open>
  \<open>rpc_error\<close> on a live connection returns the code it is given, moves an active connection to
  \<open>CLOSED\<close> exactly for \<open>RPC_ERROR_CONNECTION_CLOSED\<close> and to \<open>BROKEN\<close> otherwise, keeps a status that is
  already closed or broken, and then calls the error callback, if one is set, once with its data.
\<close>

theorem rpc_error_correct:
  assumes "error < 0" "\<not> freed s" "status s \<in> {RPC_STATUS_ACTIVE, RPC_STATUS_CLOSED, RPC_STATUS_BROKEN}"
  shows "rpc_error E error s =
    (let st = (if status s \<noteq> RPC_STATUS_ACTIVE then status s
               else if error = RPC_ERROR_CONNECTION_CLOSED then RPC_STATUS_CLOSED else RPC_STATUS_BROKEN);
         s1 = s\<lparr>status := st\<rparr>
     in if error_callback s = NULL then (Err error, s1)
        else (case call_error E (error_callback s) (error_callback_data s) s1 of
                (Crash c, s2) \<Rightarrow> (Crash c, s2)
              | (_, s2) \<Rightarrow> (Err error, s2)))"
  using assms
  by (auto simp: rpc_error_def then_op_def bind_op_def assert_op_def ret_def fail_def write_conn_def
      read_conn_def rpc_set_status_def rpc_connection_invoke_error_callback_def void_call_def Let_def
      split: prod.splits res.splits)

theorem rpc_error_correct_witness:
  "rpc_error \<lparr>call_send = (\<lambda>_ _. ret ()), call_recv = (\<lambda>_. ret ()), call_method = (\<lambda>_. ret 0),
      call_error = (\<lambda>_ d. modify_state (\<lambda>s. s\<lparr>error_callback_data := d + 1\<rparr>))\<rparr>
      RPC_ERROR_MESSAGE_TIMEOUT (sample_client\<lparr>error_callback := 9, error_callback_data := 4\<rparr>) =
    (Err RPC_ERROR_MESSAGE_TIMEOUT, sample_client\<lparr>error_callback := 9, status := RPC_STATUS_BROKEN,
       error_callback_data := 5\<rparr>)"
proof -
  have "status sample_client = RPC_STATUS_ACTIVE" "\<not> freed sample_client"
    by (simp_all add: sample_defs connect_first)
  then show ?thesis
    by (subst rpc_error_correct) (simp_all add: Let_def modify_state_def)
qed

primrec unref_times :: "nat \<Rightarrow> ('z rpc_connection_scheme option, unit) op" where
  "unref_times 0 = ret ()"
| "unref_times (Suc k) = then_op rpc_connection_unref (unref_times k)"

lemma unref_times_live:
  "\<not> freed s \<Longrightarrow> int k < refcnt s \<Longrightarrow>
     unref_times k (Some s) = (Ok (), Some (s\<lparr>refcnt := refcnt s - int k\<rparr>))"
proof (induction k arbitrary: s)
  case 0
  then show ?case by (simp add: ret_def)
next
  case (Suc k)
  then have "rpc_connection_unref (Some s) = (Ok (), Some (s\<lparr>refcnt := refcnt s - 1\<rparr>))"
    by (simp add: rpc_connection_unref_def Let_def)
  with Suc.IH [of "s\<lparr>refcnt := refcnt s - 1\<rparr>"] Suc.prems show ?case
    by (simp add: then_op_def bind_op_def diff_diff_eq)
qed

lemma unref_times_add: "unref_times (j + k) = then_op (unref_times j) (unref_times k)"
  by (induction j) (simp_all add: then_assoc)

text \<open>
  A client connection lives exactly as long as it is referenced: with \<open>n\<close> references held, fewer than
  \<open>n\<close> calls of \<open>rpc_connection_unref\<close> leave it alive, and the \<open>n\<close>-th frees it, closing each of its
  open sockets exactly once.
\<close>

theorem rpc_connection_unref_last:
  assumes "\<not> freed s" "refcnt s = int n" "0 < n" "conn_type s = RPC_CONNECTION_CLIENT"
    and "socket_path s = None \<or> socket_path s = Some (0 # name)"
  shows "(\<forall>k < n. \<exists>s'. unref_times k (Some s) = (Ok (), Some s') \<and> \<not> freed s' \<and> os_calls s' = os_calls s) \<and>
    (\<exists>s'. unref_times n (Some s) = (Ok (), Some s') \<and> freed s' \<and>
       os_calls s' = os_calls s @ (if socket s = - 1 then [] else [Close (socket s)]))"
proof (intro conjI allI impI)
  fix k assume "k < n"
  with assms unref_times_live [of s k]
  show "\<exists>s'. unref_times k (Some s) = (Ok (), Some s') \<and> \<not> freed s' \<and> os_calls s' = os_calls s" by simp
next
  have n: "n = (n - 1) + 1" using assms(3) by simp
  have "unref_times (n - 1) (Some s) = (Ok (), Some (s\<lparr>refcnt := 1\<rparr>))"
    using unref_times_live [of s "n - 1"] assms(1-3) by (simp add: of_nat_diff)
  moreover have "unref_times 1 (Some (s\<lparr>refcnt := 1\<rparr>)) = rpc_exit (Some (s\<lparr>refcnt := 0\<rparr>))"
    using assms(1) by (simp add: then_ret_unit rpc_connection_unref_def Let_def)
  ultimately have "unref_times n (Some s) = rpc_exit (Some (s\<lparr>refcnt := 0\<rparr>))"
    by (subst n) (simp only: unref_times_add then_op_def bind_op_def prod.case res.case)
  with assms show "\<exists>s'. unref_times n (Some s) = (Ok (), Some s') \<and> freed s' \<and>
       os_calls s' = os_calls s @ (if socket s = - 1 then [] else [Close (socket s)])"
    by (auto simp: rpc_exit_def check_null_def rpc_connection_destroy_def)
qed

theorem rpc_connection_unref_last_witness:
  "\<exists>s'. unref_times 2 (rpc_connection_ref (Some sample_client)) = (Ok (), Some s') \<and> freed s' \<and>
     os_calls s' = [Close 5]"
proof -
  let ?s = "sample_client\<lparr>refcnt := 2\<rparr>"
  have f: "\<not> freed ?s" "refcnt ?s = int 2" "conn_type ?s = RPC_CONNECTION_CLIENT" "socket ?s = 5"
    "socket_path ?s = Some (0 # [1])" "os_calls ?s = []"
    and r: "rpc_connection_ref (Some sample_client) = Some ?s"
    by (simp_all add: rpc_connection_ref_def sample_defs connect_first)
  show ?thesis
    using rpc_connection_unref_last [OF f(1,2) _ f(3), of "[1]"] f(4-6) r by simp
qed

text \<open>
  Once an error callback is set it stays: a later \<open>rpc_connection_set_error_callback\<close>, with
  \<open>NULL\<close> or another function, has no effect.
\<close>

theorem error_callback_sticky:
  assumes "error_callback s \<noteq> NULL"
  shows "rpc_connection_set_error_callback callback callback_data (Some s) = Some s"
  using assms by (simp add: rpc_connection_set_error_callback_def)

theorem error_callback_sticky_witness:
  "rpc_connection_set_error_callback NULL NULL (Some (sample_client\<lparr>error_callback := 7\<rparr>)) =
     Some (sample_client\<lparr>error_callback := 7\<rparr>)"
  by (rule error_callback_sticky) simp

lemma connect_loop_Connected:
  "connect_loop f k n = Connected j \<Longrightarrow>
     k \<le> j \<and> j < k + n \<and> f j = None \<and> (\<forall>i. k \<le> i \<and> i < j \<longrightarrow> f i = Some ECONNREFUSED \<or> f i = Some ENOENT)"
proof (induction n arbitrary: k)
  case 0
  then show ?case by simp
next
  case (Suc n)
  show ?case
  proof (cases "f k")
    case None
    with Suc.prems show ?thesis by auto
  next
    case (Some e)
    have rec: "connect_loop f (Suc k) n = Connected j"
      and e: "n = 0 \<or> e = ECONNREFUSED \<or> e = ENOENT"
      using Suc.prems Some by (auto split: if_splits)
    from Suc.IH [OF rec] have j: "Suc k \<le> j" "j < Suc k + n" "f j = None"
      "\<forall>i. Suc k \<le> i \<and> i < j \<longrightarrow> f i = Some ECONNREFUSED \<or> f i = Some ENOENT" by auto
    then have "e = ECONNREFUSED \<or> e = ENOENT" using e by auto
    then have "f i = Some ECONNREFUSED \<or> f i = Some ENOENT" if "k \<le> i" "i < j" for i
      using j(4) that Some by (cases "i = k") auto
    with j show ?thesis by auto
  qed
qed

lemma connect_attempts_value: "0 < t \<Longrightarrow> t \<le> 2147483 \<Longrightarrow> connect_attempts t = t * 100"
proof -
  assume t: "0 < t" "t \<le> 2147483"
  have "c_int (to_int32 (t * 1000)) = t * 1000"
    by (rule c_int_to_int32) (use t in simp_all)
  then have "c_int (to_int32 t * 1000) = t * 1000" by simp
  with t show ?thesis by (simp add: connect_attempts_def Let_def)
qed

text \<open>
  \<open>rpc_init_client\<close>, with a time-out of at most 2147483 seconds, returns an active connection only
  if \<open>connect\<close> succeeded within the allowed number of attempts (one per 10 ms), all earlier ones having
  failed because the server was not there yet; and when it gives up after the socket was created,
  the connection is freed and the socket closed exactly once.
\<close>

theorem rpc_init_client_correct:
  assumes "0 < timeout" "timeout \<le> 2147483"
  shows "(\<forall>c g. rpc_init_client timeout connect_result ident env = (Ok (Some c), g) \<longrightarrow>
       status c = RPC_STATUS_ACTIVE \<and> socket c = os_socket env \<and> refcnt c = 1 \<and> \<not> freed c \<and>
       (\<exists>j < nat (timeout * 100). connect_result j = None \<and>
          (\<forall>i < j. connect_result i = Some ECONNREFUSED \<or> connect_result i = Some ENOENT))) \<and>
     (\<forall>c'. rpc_init_client timeout connect_result ident env = (Ok None, Some c') \<longrightarrow>
       freed c' \<and> filter is_Close (os_calls c') =
         (if os_types_map env \<and> os_methods_map env \<and> 0 \<le> os_socket env then [Close (os_socket env)] else []))"
proof -
  have n: "connect_attempts timeout = timeout * 100" using assms by (rule connect_attempts_value)
  have "\<exists>j < nat (timeout * 100). connect_result j = None \<and>
      (\<forall>i < j. connect_result i = Some ECONNREFUSED \<or> connect_result i = Some ENOENT)"
    if "connect_loop connect_result 0 (nat (timeout * 100)) = Connected j" for j
    using connect_loop_Connected [OF that] by auto
  with assms n show ?thesis
    by (auto simp: rpc_init_client_def rpc_connection_new_def rpc_connection_fresh_def Let_def
        rpc_map_new_full_def rpc_map_new_def rpc_socket_path_def give_up_def rpc_exit_def check_null_def
        rpc_connection_destroy_def tmpdir_def slash_def
        split: option.splits if_splits connect_outcome.splits prod.splits)
qed

theorem rpc_init_client_correct_witness:
  "\<exists>c. rpc_init_client 5 (\<lambda>k. if k < 3 then Some ENOENT else None) (Some [1]) sample_os = (Ok (Some c), None) \<and>
     status c = RPC_STATUS_ACTIVE"
proof -
  let ?f = "\<lambda>k :: nat. if k < 3 then Some ENOENT else None"
  have "connect_loop ?f 0 500 = Connected 3"
    by (simp add: eval_nat_numeral(3) [of "Num.Bit0 x" for x] numeral_eq_Suc)
  then obtain c where c: "rpc_init_client 5 ?f (Some [1]) sample_os = (Ok (Some c), None)"
    by (simp add: rpc_init_client_def connect_attempts_value Let_def sample_os_def rpc_connection_new_def
        rpc_map_new_full_def rpc_map_new_def rpc_socket_path_def SUN_PATH_SIZE_def rpc_connection_fresh_def)
  with rpc_init_client_correct [of 5 ?f "Some [1]" sample_os] show ?thesis by auto
qed

text \<open>
  The file-system path of a named socket stays inside \<^verbatim>\<open>/tmp\<close>: after the prefix no slash is left,
  whatever the identifier; and the length returned is that of the path.
\<close>

theorem rpc_socket_path_confined:
  "rpc_socket_path False True ident = (Some (tmpdir @ slash # file), n) \<longrightarrow>
     slash \<notin> set file \<and> length file = length ident \<and> n = length tmpdir + 1 + length ident"
  by (auto simp: rpc_socket_path_def Let_def slash_def underscore_def tmpdir_def)

theorem rpc_socket_path_confined_witness:
  "slash \<notin> set [46, 46, underscore, 1]"
  using rpc_socket_path_confined [of "[46, 46, slash, 1]" "[46, 46, underscore, 1]" 9]
  by (simp add: rpc_socket_path_def tmpdir_def slash_def underscore_def)

subsection \<open>Registration\<close>

text \<open>
  \<open>rpc_connection_add_message_descriptors\<close> enters all descriptors of a list that contradicts
  neither the marshalers already registered nor itself: afterwards exactly the old and the new ones
  are found, and the rest of the connection is as it was.
\<close>

theorem add_message_descriptors_correct:
  assumes "types_reg R c" "agrees (map (\<lambda>d. (d_id d, d)) ds) (types_tbl c)"
  shows "\<exists>c'. rpc_connection_add_message_descriptors ds c = (Ok (), c') \<and> types_reg R c' \<and>
    types_tbl c' = types_tbl c ++ map_of (map (\<lambda>d. (d_id d, d)) (rev ds))"
  using types.add_all [OF assms(1), of ds] assms(2)
  by (simp add: rpc_connection_add_message_descriptors_def list_all_iff)

theorem add_message_descriptors_correct_witness:
  "\<exists>c'. rpc_connection_add_message_descriptors [\<lparr>d_id = 1, d_size = 4, d_send_callback = 2, d_recv_callback = 3\<rparr>,
      \<lparr>d_id = 1, d_size = 4, d_send_callback = 2, d_recv_callback = 3\<rparr>] (Some sample_client) = (Ok (), c') \<and>
    types_tbl c' 1 = Some \<lparr>d_id = 1, d_size = 4, d_send_callback = 2, d_recv_callback = 3\<rparr>"
proof -
  let ?d = "\<lparr>d_id = 1, d_size = 4, d_send_callback = 2, d_recv_callback = 3\<rparr>"
  have "types_reg (sample_client\<lparr>conn_types := None\<rparr>) (Some sample_client)"
    by (simp add: types_reg_def sample_defs connect_first alloc_ok_def empty_map_ok)
  moreover have "types_tbl (Some sample_client) = Map.empty"
    by (simp add: types_tbl_def sample_defs connect_first empty_map_ok)
  ultimately show ?thesis
    using add_message_descriptors_correct [of _ "Some sample_client" "[?d, ?d]"] by (fastforce simp: agrees_def)
qed

text \<open>
  Registering methods never changes or drops a handler that is already registered, whatever the
  list of descriptors is and even if the registration stops at a clash.
\<close>

theorem add_method_descriptors_keep:
  assumes "methods_reg R c" "list_all (\<lambda>d. m_callback d \<noteq> NULL) ds"
    and "rpc_connection_add_method_descriptors ds c = (r, c')"
  shows "methods_reg R c' \<and> methods_tbl c \<subseteq>\<^sub>m methods_tbl c'"
proof -
  obtain s where s: "c = Some s" using assms(1) by (auto simp: methods_reg_def split: option.splits)
  obtain r1 c1 where run: "run_all (map rpc_connection_add_method_descriptor (rev ds)) c = (r1, c1)"
    by (metis prod.exhaust)
  have keep: "methods_reg R c1 \<and> methods_tbl c \<subseteq>\<^sub>m methods_tbl c1"
    using methods.add_all_keeps [OF assms(1) _ run] assms(2) by simp
  then have "c1 \<noteq> None" by (auto simp: methods_reg_def split: option.splits)
  then have "c' = c1"
    using assms(3) s run by (auto simp: rpc_connection_add_method_descriptors_def check_null_def)
  with keep show ?thesis by simp
qed

theorem add_method_descriptors_keep_witness:
  "\<exists>r c'. rpc_connection_add_method_descriptors [\<lparr>m_id = 4, m_callback = 8\<rparr>, \<lparr>m_id = 4, m_callback = 9\<rparr>]
      (Some sample_client) = (r, c') \<and> methods_tbl (Some sample_client) \<subseteq>\<^sub>m methods_tbl c'"
proof -
  have reg: "methods_reg (sample_client\<lparr>methods := None\<rparr>) (Some sample_client)"
    by (simp add: methods_reg_def sample_defs connect_first alloc_ok_def empty_map_ok)
  obtain r c' where run: "rpc_connection_add_method_descriptors
      [\<lparr>m_id = 4, m_callback = 8\<rparr>, \<lparr>m_id = 4, m_callback = 9\<rparr>] (Some sample_client) = (r, c')"
    by (metis prod.exhaust)
  from add_method_descriptors_keep [OF reg _ run] run show ?thesis by auto
qed

end
