(* ===== verification/Rpc_Dispatch.thy ===== *)
theory Rpc_Dispatch
  imports Rpc_Connection
begin

text \<open>
  Remote calls of \<^verbatim>\<open>rpc.c\<close>: invoking a method, waiting for its reply while serving the calls the
  other end makes meanwhile, the dispatch of incoming messages, the synchronisation of the two
  ends, and the event-loop sources that drive them.
\<close>

subsection \<open>Local messages and C return codes\<close>

text \<open>A function body with a local \<open>rpc_message_t\<close>; what is left in its buffer is lost.\<close>

definition with_message :: "(rpc_message \<times> 's, 'a) op \<Rightarrow> ('s, 'a) op" where
  "with_message m s = (case m (rpc_message_init, s) of (r, (_, s')) \<Rightarrow> (r, s'))"

text \<open>A call whose negative return code is an error.\<close>

definition check_code :: "('s, int) op \<Rightarrow> ('s, int) op" where
  "check_code m = bind_op m (\<lambda>v. if v < 0 then fail v else ret v)"

text \<open>\<open>ret = m; f; return ret;\<close>: the access \<open>f\<close> follows errors too, but not a crash.\<close>

definition and_finally :: "('s, 'a) op \<Rightarrow> ('s, unit) op \<Rightarrow> ('s, 'a) op" where
  "and_finally m f s =
     (case m s of
        (Crash c, s') \<Rightarrow> (Crash c, s')
      | (r, s') \<Rightarrow> (case f s' of (Crash c, s'') \<Rightarrow> (Crash c, s'') | (_, s'') \<Rightarrow> (r, s'')))"

subsection \<open>Dispatching a call\<close>

definition rpc_lookup_callback :: "int \<Rightarrow> ('z rpc_connection_scheme, code_ptr option) op" where
  "rpc_lookup_callback mid s =
     (if freed s then (Crash Use_after_free, s)
      else (case methods s of
              None \<Rightarrow> (Crash Assertion_failed, s)
            | Some m \<Rightarrow> (case rpc_map_lookup m mid of (cb, m') \<Rightarrow> (Ok cb, s\<lparr>methods := Some m'\<rparr>))))"

text \<open>The codes that are reported to the caller with \<open>MESSAGE_FAILURE\<close>.\<close>

definition high_level_error :: "int \<Rightarrow> bool" where
  "high_level_error e \<longleftrightarrow> e = RPC_ERROR_GENERIC \<or> e = RPC_ERROR_ERRNO_SET \<or> e = RPC_ERROR_NO_MEMORY"

text \<open>
  The return code: the method number, a negative error code, or whatever else the handler returned.
\<close>

definition rpc_dispatch_1 ::
  "('z rpc_connection_scheme, 'u, 'y) rpc_env_scheme \<Rightarrow>
     (rpc_message \<times> 'z rpc_connection_scheme, int) op"
where
  "rpc_dispatch_1 E =
     bind_op rpc_message_recv_int32 (\<lambda>mid.
     bind_op rpc_message_recv_int32 (\<lambda>msg_tag.
       if c_int msg_tag \<noteq> RPC_MESSAGE_END then fail RPC_ERROR_MESSAGE_TYPE_INVALID
       else
         bind_op (on_io (rpc_lookup_callback (c_int mid))) (\<lambda>callback.
         bind_op (case callback of
                    Some cb \<Rightarrow> on_io (call_method E cb)
                  | None \<Rightarrow> ret RPC_ERROR_MESSAGE_HANDLER_INVALID) (\<lambda>error_code.
           if error_code \<noteq> RPC_ERROR_NO_ERROR then
             then_op
               (if high_level_error error_code
                then run_all [rpc_message_send_int32 (to_int32 RPC_MESSAGE_FAILURE),
                              rpc_message_send_int32 (to_int32 error_code),
                              rpc_message_flush]
                else ret ())
               (ret error_code)
           else ret (c_int mid)))))"

definition rpc_dispatch_msg ::
  "('z rpc_connection_scheme, 'u, 'y) rpc_env_scheme \<Rightarrow>
     (rpc_message \<times> 'z rpc_connection_scheme, int) op"
where
  "rpc_dispatch_msg E =
     then_op (on_io (write_conn (\<lambda>s. s\<lparr>dispatch_depth := dispatch_depth s + 1\<rparr>)))
       (and_finally (rpc_dispatch_1 E)
         (on_io (write_conn (\<lambda>s. s\<lparr>dispatch_depth := dispatch_depth s - 1\<rparr>))))"

text \<open>
  The loop of \<open>_rpc_dispatch_until\<close>, for at most \<open>fuel\<close> iterations; each one reads a tag of four
  bytes.
\<close>

fun dispatch_until_loop ::
  "('z rpc_connection_scheme, 'u, 'y) rpc_env_scheme \<Rightarrow> int \<Rightarrow> nat \<Rightarrow>
     (rpc_message \<times> 'z rpc_connection_scheme, unit) op"
where
  "dispatch_until_loop E expected_msg_tag 0 = crash No_return"
| "dispatch_until_loop E expected_msg_tag (Suc fuel) =
     bind_op rpc_message_recv_int32 (\<lambda>msg_tag.
       if c_int msg_tag = expected_msg_tag then ret ()
       else if c_int msg_tag = RPC_MESSAGE_SYNC then
         bind_op (on_io (read_conn rpc_connection_is_sync_allowed)) (\<lambda>allowed.
           if \<not> allowed then fail RPC_ERROR_MESSAGE_SYNC_NOT_ALLOWED
           else then_op (on_io (write_conn (\<lambda>s. s\<lparr>pending_sync_depth := invoke_depth s\<rparr>)))
                  (dispatch_until_loop E expected_msg_tag fuel))
       else if c_int msg_tag = RPC_MESSAGE_START then
         bind_op (check_code (rpc_dispatch_msg E)) (\<lambda>_. dispatch_until_loop E expected_msg_tag fuel)
       else fail RPC_ERROR_MESSAGE_TYPE_INVALID)"

definition rpc_dispatch_until ::
  "('z rpc_connection_scheme, 'u, 'y) rpc_env_scheme \<Rightarrow> int \<Rightarrow>
     (rpc_message \<times> 'z rpc_connection_scheme, unit) op"
where
  "rpc_dispatch_until E expected_msg_tag =
     then_op (assert_op (expected_msg_tag \<noteq> 0))
       (\<lambda>(msg, s). dispatch_until_loop E expected_msg_tag (Suc (length (rx_queue s))) (msg, s))"

definition rpc_dispatch_sync ::
  "('z rpc_connection_scheme, 'u, 'y) rpc_env_scheme \<Rightarrow> ('z rpc_connection_scheme, unit) op"
where
  "rpc_dispatch_sync E = with_message (run_all
     [rpc_message_send_int32 (to_int32 RPC_MESSAGE_SYNC_ACK),
      rpc_message_flush,
      rpc_dispatch_until E RPC_MESSAGE_SYNC_END])"

text \<open>
  The local message receives the tag before it is passed on; receiving leaves its buffer alone, so
  that the second part starts from a fresh one too.
\<close>

definition rpc_dispatch ::
  "('z rpc_connection_scheme, 'u, 'y) rpc_env_scheme \<Rightarrow> ('z rpc_connection_scheme, int) op"
where
  "rpc_dispatch E =
     bind_op (or_rpc_error E (with_message rpc_message_recv_int32)) (\<lambda>msg_tag.
       if c_int msg_tag = RPC_MESSAGE_SYNC then bind_op (rpc_dispatch_sync E) (\<lambda>_. ret RPC_ERROR_NO_ERROR)
       else if c_int msg_tag \<noteq> RPC_MESSAGE_START then
         rpc_error E RPC_ERROR_MESSAGE_TYPE_INVALID
       else or_rpc_error E (check_code (with_message (rpc_dispatch_msg E))))"

subsection \<open>Synchronisation\<close>

definition nested :: "'z rpc_connection_scheme \<Rightarrow> bool" where
  "nested s \<longleftrightarrow> invoke_depth s > 0 \<or> handle_depth s > 0"

definition rpc_has_pending_sync :: "'z rpc_connection_scheme \<Rightarrow> bool" where
  "rpc_has_pending_sync s = (if nested s then False else pending_sync_depth s \<noteq> 0)"

definition rpc_dispatch_pending_sync ::
  "('z rpc_connection_scheme, 'u, 'y) rpc_env_scheme \<Rightarrow> ('z rpc_connection_scheme, unit) op"
where
  "rpc_dispatch_pending_sync E = bind_op get_state (\<lambda>s.
     if nested s then ret ()
     else if pending_sync_depth s \<noteq> 0 then
       then_op (assert_op (pending_sync_depth s = 1))
         (bind_op rpc_wait_dispatch_1 (\<lambda>n.
            then_op (assert_op (n = 0))
              (then_op (write_conn (\<lambda>s. s\<lparr>pending_sync_depth := 0\<rparr>)) (rpc_dispatch_sync E))))
     else ret ())"

definition rpc_sync ::
  "('z rpc_connection_scheme, 'u, 'y) rpc_env_scheme \<Rightarrow> ('z rpc_connection_scheme, unit) op"
where
  "rpc_sync E = bind_op get_state (\<lambda>s.
     then_op (assert_op (\<not> is_sync s))
       (then_op
         (or_rpc_error E (with_message (run_all
            [rpc_message_send_int32 (to_int32 RPC_MESSAGE_SYNC),
             rpc_message_flush,
             rpc_dispatch_until E RPC_MESSAGE_SYNC_ACK])))
         (write_conn (\<lambda>s. s\<lparr>is_sync := True\<rparr>))))"

definition rpc_end_sync ::
  "('z rpc_connection_scheme, 'u, 'y) rpc_env_scheme \<Rightarrow> ('z rpc_connection_scheme, unit) op"
where
  "rpc_end_sync E = bind_op get_state (\<lambda>s.
     if \<not> is_sync s then rpc_error E RPC_ERROR_GENERIC
     else then_op
       (or_rpc_error E (with_message (run_all
          [rpc_message_send_int32 (to_int32 RPC_MESSAGE_SYNC_END), rpc_message_flush])))
       (write_conn (\<lambda>s. s\<lparr>is_sync := False\<rparr>)))"

subsection \<open>Remote procedure calls\<close>

definition rpc_method_invoke_possible :: "'z rpc_connection_scheme option \<Rightarrow> bool" where
  "rpc_method_invoke_possible c =
     (case c of
        None \<Rightarrow> False
      | Some s \<Rightarrow>
          if rpc_status c \<noteq> RPC_STATUS_ACTIVE then False else dispatch_depth s = handle_depth s)"

text \<open>
  \<open>if (connection == NULL) ...; if (_rpc_status(connection) == RPC_STATUS_CLOSED) ...\<close> in front of
  the four public calls.
\<close>

definition rpc_entry ::
  "('z rpc_connection_scheme, 'a) op \<Rightarrow> ('z rpc_connection_scheme option, 'a) op"
where
  "rpc_entry m = check_null RPC_ERROR_CONNECTION_NULL
     (bind_op (read_conn status) (\<lambda>st.
        if st = RPC_STATUS_CLOSED then fail RPC_ERROR_CONNECTION_CLOSED else m))"

definition no_args :: "'u rpc_arg list \<Rightarrow> bool" where
  "no_args as = (case as of [] \<Rightarrow> True | a # _ \<Rightarrow> arg_type a = RPC_TYPE_INVALID)"

definition no_params :: "rpc_param list \<Rightarrow> bool" where
  "no_params ps = (case ps of [] \<Rightarrow> True | p # _ \<Rightarrow> expected_type p = RPC_TYPE_INVALID)"

definition rpc_method_invoke_valist ::
  "('z rpc_connection_scheme, 'u, 'y) rpc_env_scheme \<Rightarrow> int \<Rightarrow> 'u rpc_arg list \<Rightarrow>
     ('z rpc_connection_scheme, unit) op"
where
  "rpc_method_invoke_valist E mid args = or_rpc_error E (with_message (run_all
     [rpc_message_send_int32 (to_int32 RPC_MESSAGE_START),
      rpc_message_send_int32 (to_int32 mid),
      rpc_message_send_int32 (to_int32 RPC_MESSAGE_END),
      rpc_message_flush,
      (if \<not> no_args args
       then then_op (rpc_message_send_args (fptrs.truncate E) args) rpc_message_flush
       else ret ())]))"

definition rpc_method_invoke ::
  "('z rpc_connection_scheme, 'u, 'y) rpc_env_scheme \<Rightarrow> int \<Rightarrow> 'u rpc_arg list \<Rightarrow>
     ('z rpc_connection_scheme option, unit) op"
where
  "rpc_method_invoke E mid args = rpc_entry
     (then_op (write_conn (\<lambda>s. s\<lparr>invoke_depth := invoke_depth s + 1\<rparr>))
       (rpc_method_invoke_valist E mid args))"

definition rpc_method_get_args ::
  "('z rpc_connection_scheme, 'u, 'y) rpc_env_scheme \<Rightarrow> rpc_param list \<Rightarrow>
     ('z rpc_connection_scheme option, 'u rpc_arg list) op"
where
  "rpc_method_get_args E ps = rpc_entry
     (then_op (write_conn (\<lambda>s. s\<lparr>handle_depth := handle_depth s + 1\<rparr>))
       (or_rpc_error E (with_message (rpc_message_recv_args (fptrs.truncate E) ps))))"

definition rpc_method_wait_for_reply_valist ::
  "('z rpc_connection_scheme, 'u, 'y) rpc_env_scheme \<Rightarrow> rpc_param list \<Rightarrow>
     ('z rpc_connection_scheme, 'u rpc_arg list) op"
where
  "rpc_method_wait_for_reply_valist E ps = or_rpc_error E (with_message
     (then_op (rpc_dispatch_until E RPC_MESSAGE_REPLY)
       (bind_op (if \<not> no_params ps then rpc_message_recv_args (fptrs.truncate E) ps else ret []) (\<lambda>as.
        bind_op rpc_message_recv_int32 (\<lambda>msg_tag.
          if c_int msg_tag \<noteq> RPC_MESSAGE_END then fail RPC_ERROR_MESSAGE_TYPE_INVALID
          else ret as)))))"

definition rpc_method_wait_for_reply ::
  "('z rpc_connection_scheme, 'u, 'y) rpc_env_scheme \<Rightarrow> rpc_param list \<Rightarrow>
     ('z rpc_connection_scheme option, 'u rpc_arg list) op"
where
  "rpc_method_wait_for_reply E ps = rpc_entry
     (and_finally (rpc_method_wait_for_reply_valist E ps)
       (write_conn (\<lambda>s. s\<lparr>invoke_depth := invoke_depth s - 1\<rparr>)))"

definition rpc_method_send_reply ::
  "('z rpc_connection_scheme, 'u, 'y) rpc_env_scheme \<Rightarrow> 'u rpc_arg list \<Rightarrow>
     ('z rpc_connection_scheme option, unit) op"
where
  "rpc_method_send_reply E args = rpc_entry
     (and_finally
       (or_rpc_error E (with_message (run_all
          [rpc_message_send_int32 (to_int32 RPC_MESSAGE_REPLY),
           rpc_message_send_args (fptrs.truncate E) args,
           rpc_message_send_int32 (to_int32 RPC_MESSAGE_END),
           rpc_message_flush])))
       (write_conn (\<lambda>s. s\<lparr>handle_depth := handle_depth s - 1\<rparr>)))"

subsection \<open>Event-loop sources and the server thread\<close>

text \<open>An \<open>RpcSource\<close>: the connection it refers to is the state; the descriptor it polls.\<close>

definition rpc_event_source_new ::
  "'z rpc_connection_scheme option \<Rightarrow> int \<times> 'z rpc_connection_scheme option"
where
  "rpc_event_source_new c = (rpc_socket (rpc_connection_ref c), rpc_connection_ref c)"

text \<open>\<open>prepare\<close> yields the poll time-out and whether the source is ready.\<close>

definition rpc_event_prepare :: "int \<times> bool" where
  "rpc_event_prepare = (- 1, False)"

definition rpc_event_check :: "('z rpc_connection_scheme option, bool) op" where
  "rpc_event_check c =
     (case rpc_wait_dispatch c of
        (Ok n, c') \<Rightarrow> (Ok (n > 0), c')
      | (Err e, c') \<Rightarrow> (Ok False, c')
      | (Crash x, c') \<Rightarrow> (Crash x, c'))"

text \<open>A source is removed from the loop when its \<open>dispatch\<close> yields \<open>False\<close>.\<close>

definition unless_closed :: "('s, 'a) op \<Rightarrow> ('s, bool) op" where
  "unless_closed m s =
     (case m s of
        (Ok _, s') \<Rightarrow> (Ok True, s')
      | (Err e, s') \<Rightarrow> (Ok (e \<noteq> RPC_ERROR_CONNECTION_CLOSED), s')
      | (Crash c, s') \<Rightarrow> (Crash c, s'))"

definition rpc_event_dispatch ::
  "('z rpc_connection_scheme, 'u, 'y) rpc_env_scheme \<Rightarrow> ('z rpc_connection_scheme, bool) op"
where
  "rpc_event_dispatch E = unless_closed (rpc_dispatch E)"

definition rpc_event_finalize :: "('z rpc_connection_scheme option, unit) op" where
  "rpc_event_finalize = rpc_connection_unref"

definition rpc_sync_source_new ::
  "'z rpc_connection_scheme option \<Rightarrow> 'z rpc_connection_scheme option"
where
  "rpc_sync_source_new c = rpc_connection_ref c"

definition rpc_sync_prepare :: "'z rpc_connection_scheme \<Rightarrow> int \<times> bool" where
  "rpc_sync_prepare s = (if rpc_has_pending_sync s then (0, True) else (- 1, False))"

definition rpc_sync_check :: "'z rpc_connection_scheme \<Rightarrow> bool" where
  "rpc_sync_check s = rpc_has_pending_sync s"

definition rpc_sync_dispatch ::
  "('z rpc_connection_scheme, 'u, 'y) rpc_env_scheme \<Rightarrow> ('z rpc_connection_scheme, bool) op"
where
  "rpc_sync_dispatch E = unless_closed (rpc_dispatch_pending_sync E)"

definition rpc_sync_finalize :: "('z rpc_connection_scheme option, unit) op" where
  "rpc_sync_finalize = rpc_connection_unref"

text \<open>The loop of \<open>rpc_server_func\<close>, cut off after \<open>fuel\<close> rounds; it ends when \<open>select\<close> fails.\<close>

fun server_loop ::
  "('z rpc_connection_scheme, 'u, 'y) rpc_env_scheme \<Rightarrow> nat \<Rightarrow> ('z rpc_connection_scheme, unit) op"
where
  "server_loop E 0 = crash No_return"
| "server_loop E (Suc fuel) =
     bind_op rpc_wait_dispatch_1 (\<lambda>n.
       if n = 0 then server_loop E fuel
       else if n < 0 then ret ()
       else (\<lambda>s. case rpc_dispatch E s of
                   (Crash c, s') \<Rightarrow> (Crash c, s')
                 | (_, s') \<Rightarrow> server_loop E fuel s'))"

definition rpc_server_func ::
  "('z rpc_connection_scheme, 'u, 'y) rpc_env_scheme \<Rightarrow> nat \<Rightarrow> int \<Rightarrow> bool \<Rightarrow>
     ('z rpc_connection_scheme, unit) op"
where
  "rpc_server_func E fuel fd fcntl_ok s =
     (case rpc_listen_socket fd fcntl_ok (Some s) of
        (Ok _, Some s') \<Rightarrow>
          run_all [write_conn (\<lambda>s. s\<lparr>server_thread_active := True\<rparr>),
                   server_loop E fuel,
                   write_conn (\<lambda>s. s\<lparr>server_thread_active := False\<rparr>)] s'
      | (Crash c, Some s') \<Rightarrow> (Crash c, s')
      | (_, Some s') \<Rightarrow> (Ok (), s')
      | (_, None) \<Rightarrow> (Ok (), s))"

end
