(* ===== verification/Rpc_Calls.thy ===== *)
theory Rpc_Calls
  imports Rpc_Dispatch
begin

text \<open>
  What remote calls do end to end: the bytes an invocation puts on the wire, how the dispatching
  side turns them into a handler call and a reply, how the caller gets the reply while serving
  calls in the other direction, the balance of the depth counters, and the termination of the
  dispatch loop.
\<close>

subsection \<open>Conversations\<close>

text \<open>All of a connection except the transport and the two tables.\<close>

definition frame :: "'z rpc_connection_scheme \<Rightarrow> 'z rpc_connection_scheme" where
  "frame s = s\<lparr>rx_queue := [], rx_script := [], tx_wire := [], tx_script := [],
     conn_types := None, methods := None\<rparr>"

definition methods_are :: "(int \<Rightarrow> code_ptr option) \<Rightarrow> 'z rpc_connection_scheme \<Rightarrow> bool" where
  "methods_are M s \<longleftrightarrow>
     (case methods s of None \<Rightarrow> False | Some m \<Rightarrow> rpc_map_ok m \<and> rpc_map_abs m = M)"

text \<open>A live connection with marshalers \<open>T\<close>, methods \<open>M\<close> and the rest as in \<open>F\<close>.\<close>

definition conn_inv ::
  "(int \<Rightarrow> rpc_message_descriptor option) \<Rightarrow> (int \<Rightarrow> code_ptr option) \<Rightarrow> 'z rpc_connection_scheme \<Rightarrow>
     'z rpc_connection_scheme \<Rightarrow> bool"
where
  "conn_inv T M F s \<longleftrightarrow>
     alloc_ok s \<and> types_are T s \<and> methods_are M s \<and> frame s = F \<and> \<not> freed s"

text \<open>
  \<open>talks J m inb outb v J'\<close>: started with \<open>J\<close> and \<open>inb\<close> at the front of the socket, \<open>m\<close> returns \<open>v\<close>
  with \<open>J'\<close>, has consumed exactly \<open>inb\<close> and sent exactly \<open>outb\<close>; \<open>msg_talks\<close> is the same for code
  that has a local message, which it leaves as it was.
\<close>

definition talks ::
  "('z io_state_scheme \<Rightarrow> bool) \<Rightarrow> ('z io_state_scheme, 'a) op \<Rightarrow> byte list \<Rightarrow> byte list \<Rightarrow> 'a \<Rightarrow>
     ('z io_state_scheme \<Rightarrow> bool) \<Rightarrow> bool"
where
  "talks J m inb outb v J' \<longleftrightarrow> (\<forall>s rest. calm s \<and> J s \<and> rx_queue s = inb @ rest \<longrightarrow>
     (\<exists>s'. m s = (Ok v, s') \<and> calm s' \<and> J' s' \<and> rx_queue s' = rest \<and> tx_wire s' = tx_wire s @ outb))"

definition msg_talks ::
  "('z io_state_scheme \<Rightarrow> bool) \<Rightarrow> (rpc_message \<times> 'z io_state_scheme, 'a) op \<Rightarrow> byte list \<Rightarrow> byte list \<Rightarrow>
     'a \<Rightarrow> ('z io_state_scheme \<Rightarrow> bool) \<Rightarrow> bool"
where
  "msg_talks J m inb outb v J' \<longleftrightarrow> (\<forall>msg s rest. calm s \<and> J s \<and> rx_queue s = inb @ rest \<longrightarrow>
     (\<exists>s'. m (msg, s) = (Ok v, (msg, s')) \<and> calm s' \<and> J' s' \<and> rx_queue s' = rest \<and>
        tx_wire s' = tx_wire s @ outb))"

text \<open>
  Code that appends \<open>bs\<close> to what the message is to send and takes the rest of the state from \<open>J\<close> to
  \<open>J'\<close> (\<open>sends\<close> is the case \<open>J' = J\<close>); and code that in the end leaves nothing in the buffer.
\<close>

definition puts ::
  "('z io_state_scheme \<Rightarrow> bool) \<Rightarrow> (rpc_message \<times> 'z io_state_scheme, unit) op \<Rightarrow> byte list \<Rightarrow>
     ('z io_state_scheme \<Rightarrow> bool) \<Rightarrow> bool"
where
  "puts J m bs J' \<longleftrightarrow> (\<forall>msg s. msg_ok msg \<and> calm s \<and> J s \<longrightarrow>
     (\<exists>msg' s'. m (msg, s) = (Ok (), (msg', s')) \<and> msg_ok msg' \<and> calm s' \<and> J' s' \<and>
        tx_wire s' @ buffered msg' = tx_wire s @ buffered msg @ bs \<and> rx_queue s' = rx_queue s))"

definition flushes ::
  "('z io_state_scheme \<Rightarrow> bool) \<Rightarrow> (rpc_message \<times> 'z io_state_scheme, unit) op \<Rightarrow> byte list \<Rightarrow>
     ('z io_state_scheme \<Rightarrow> bool) \<Rightarrow> bool"
where
  "flushes J m bs J' \<longleftrightarrow> (\<forall>msg s. msg_ok msg \<and> calm s \<and> J s \<longrightarrow>
     (\<exists>msg' s'. m (msg, s) = (Ok (), (msg', s')) \<and> msg_ok msg' \<and> buffered msg' = [] \<and> calm s' \<and> J' s' \<and>
        tx_wire s' = tx_wire s @ buffered msg @ bs \<and> rx_queue s' = rx_queue s))"

text \<open>The bytes of an invocation, a reply and the synchronisation messages.\<close>

definition enc_invoke :: "(int \<Rightarrow> 'u \<Rightarrow> byte list) \<Rightarrow> int \<Rightarrow> 'u rpc_arg list \<Rightarrow> byte list" where
  "enc_invoke U mid args =
     enc_marker RPC_MESSAGE_START @ enc_marker mid @ enc_marker RPC_MESSAGE_END @ enc_args U args"

definition enc_reply :: "(int \<Rightarrow> 'u \<Rightarrow> byte list) \<Rightarrow> 'u rpc_arg list \<Rightarrow> byte list" where
  "enc_reply U args = enc_marker RPC_MESSAGE_REPLY @ enc_args U args @ enc_marker RPC_MESSAGE_END"

definition enc_calls :: "(int \<times> byte list \<times> byte list) list \<Rightarrow> byte list" where
  "enc_calls calls = concat (map (\<lambda>(mid, a, b). enc_marker RPC_MESSAGE_START @ enc_marker mid @
     enc_marker RPC_MESSAGE_END @ a) calls)"

text \<open>
  Calls the connection's handlers answer: method number, bytes the handler consumes when run one
  level deeper, bytes it sends.
\<close>

definition served ::
  "('z rpc_connection_scheme, 'u, 'y) rpc_env_scheme \<Rightarrow> (int \<Rightarrow> rpc_message_descriptor option) \<Rightarrow>
     (int \<Rightarrow> code_ptr option) \<Rightarrow> 'z rpc_connection_scheme \<Rightarrow> (int \<times> byte list \<times> byte list) list \<Rightarrow> bool"
where
  "served E T M F calls \<longleftrightarrow> list_all (\<lambda>(mid, a, b). int32_range mid \<and> 0 \<le> mid \<and> (\<exists>cb. M mid = Some cb \<and>
      talks (conn_inv T M (F\<lparr>dispatch_depth := dispatch_depth F + 1\<rparr>)) (call_method E cb)
        a b RPC_ERROR_NO_ERROR (conn_inv T M (F\<lparr>dispatch_depth := dispatch_depth F + 1\<rparr>)))) calls"

text \<open>The shape of a method handler: get the arguments, compute, send the reply.\<close>

definition on_live :: "('s option, 'a) op \<Rightarrow> ('s, 'a) op" where
  "on_live m s = (case m (Some s) of (r, Some s') \<Rightarrow> (r, s') | (r, None) \<Rightarrow> (r, s))"

definition serve ::
  "('z rpc_connection_scheme, 'u, 'y) rpc_env_scheme \<Rightarrow> rpc_param list \<Rightarrow>
     ('u rpc_arg list \<Rightarrow> 'u rpc_arg list) \<Rightarrow> ('z rpc_connection_scheme, int) op"
where
  "serve E ps f = bind_op (on_live (rpc_method_get_args E ps)) (\<lambda>as.
     then_op (on_live (rpc_method_send_reply E (f as))) (ret RPC_ERROR_NO_ERROR))"

subsection \<open>Composing conversations\<close>

lemma talks_ret: "talks J (ret v) [] [] v J"
  by (simp add: talks_def ret_def)

lemma talks_bind:
  assumes "talks J m a b x J1" "talks J1 (f x) a' b' y J2"
  shows "talks J (bind_op m f) (a @ a') (b @ b') y J2"
  unfolding talks_def
proof (intro allI impI)
  fix s rest
  assume "calm s \<and> J s \<and> rx_queue s = (a @ a') @ rest"
  with assms(1) obtain s1 where 1: "m s = (Ok x, s1)" "calm s1" "J1 s1" "rx_queue s1 = a' @ rest"
    "tx_wire s1 = tx_wire s @ b"
    unfolding talks_def by (metis append.assoc)
  with assms(2) obtain s2 where "f x s1 = (Ok y, s2)" "calm s2" "J2 s2" "rx_queue s2 = rest"
    "tx_wire s2 = tx_wire s1 @ b'"
    unfolding talks_def by metis
  with 1 show "\<exists>s'. bind_op m f s = (Ok y, s') \<and> calm s' \<and> J2 s' \<and> rx_queue s' = rest \<and>
      tx_wire s' = tx_wire s @ b @ b'"
    by (simp add: bind_op_def)
qed

lemma msg_talks_ret: "msg_talks J (ret v) [] [] v J"
  by (simp add: msg_talks_def ret_def)

lemma msg_talks_bind:
  assumes "msg_talks J m a b x J1" "msg_talks J1 (f x) a' b' y J2"
  shows "msg_talks J (bind_op m f) (a @ a') (b @ b') y J2"
  unfolding msg_talks_def
proof (intro allI impI)
  fix msg s rest
  assume "calm s \<and> J s \<and> rx_queue s = (a @ a') @ rest"
  with assms(1) obtain s1 where 1: "m (msg, s) = (Ok x, (msg, s1))" "calm s1" "J1 s1"
    "rx_queue s1 = a' @ rest" "tx_wire s1 = tx_wire s @ b"
    unfolding msg_talks_def by (metis append.assoc)
  with assms(2) obtain s2 where "f x (msg, s1) = (Ok y, (msg, s2))" "calm s2" "J2 s2"
    "rx_queue s2 = rest" "tx_wire s2 = tx_wire s1 @ b'"
    unfolding msg_talks_def by metis
  with 1 show "\<exists>s'. bind_op m f (msg, s) = (Ok y, (msg, s')) \<and> calm s' \<and> J2 s' \<and> rx_queue s' = rest \<and>
      tx_wire s' = tx_wire s @ b @ b'"
    by (simp add: bind_op_def)
qed

lemma msg_talks_reads: "reads I m bs v \<Longrightarrow> msg_talks I m bs [] v I"
  unfolding reads_def msg_talks_def by (metis append_Nil2)

lemma msg_talks_on_io: "talks J m a b v J' \<Longrightarrow> msg_talks J (on_io m) a b v J'"
  unfolding talks_def msg_talks_def by (fastforce simp: on_io_def)

lemma talks_with_message: "msg_talks J m a b v J' \<Longrightarrow> talks J (with_message m) a b v J'"
  unfolding talks_def msg_talks_def
  by (drule spec [of _ rpc_message_init]) (fastforce simp: with_message_def)

lemma puts_sends: "sends I m bs \<Longrightarrow> puts I m bs I"
  unfolding sends_def puts_def by fast

lemma puts_ret: "puts J (ret ()) [] J"
  by (rule puts_sends [OF sends_ret])

lemma puts_then:
  assumes "puts J m a J1" "puts J1 n b J2"
  shows "puts J (then_op m n) (a @ b) J2"
  unfolding puts_def
proof (intro allI impI)
  fix msg s
  assume "msg_ok msg \<and> calm s \<and> J s"
  with assms(1) obtain msg1 s1 where 1: "m (msg, s) = (Ok (), (msg1, s1))"
    "msg_ok msg1 \<and> calm s1 \<and> J1 s1" "tx_wire s1 @ buffered msg1 = tx_wire s @ buffered msg @ a"
    "rx_queue s1 = rx_queue s"
    unfolding puts_def by metis
  with assms(2) obtain msg2 s2 where 2: "n (msg1, s1) = (Ok (), (msg2, s2))"
    "msg_ok msg2 \<and> calm s2 \<and> J2 s2" "tx_wire s2 @ buffered msg2 = tx_wire s1 @ buffered msg1 @ b"
    "rx_queue s2 = rx_queue s1"
    unfolding puts_def by metis
  have "tx_wire s2 @ buffered msg2 = tx_wire s @ buffered msg @ a @ b"
    using 1(3) 2(3) by (metis append.assoc)
  then show "\<exists>msg' s'. then_op m n (msg, s) = (Ok (), (msg', s')) \<and> msg_ok msg' \<and> calm s' \<and> J2 s' \<and>
      tx_wire s' @ buffered msg' = tx_wire s @ buffered msg @ a @ b \<and> rx_queue s' = rx_queue s"
    using 1 2 by (simp add: then_op_Ok)
qed

lemma puts_flushed:
  assumes "puts J m bs J'" "\<And>msg s msg' s'. m (msg, s) = (Ok (), (msg', s')) \<Longrightarrow> buffered msg' = []"
  shows "flushes J m bs J'"
  using assms unfolding puts_def flushes_def by (metis append_Nil2)

lemma flushes_puts: "flushes J m a J' \<Longrightarrow> puts J m a J'"
  unfolding flushes_def puts_def by (metis append_Nil2)

lemma flushes_flush: "io_stable I \<Longrightarrow> flushes I rpc_message_flush [] I"
  by (rule puts_flushed [OF puts_sends [OF sends_flush]]) (auto dest: flush_empties)

lemma flushes_then:
  assumes "puts J m a J1" "flushes J1 n b J2"
  shows "flushes J (then_op m n) (a @ b) J2"
  unfolding flushes_def
proof (intro allI impI)
  fix msg s
  assume "msg_ok msg \<and> calm s \<and> J s"
  with assms(1) obtain msg1 s1 where 1: "m (msg, s) = (Ok (), (msg1, s1))"
    "msg_ok msg1 \<and> calm s1 \<and> J1 s1" "tx_wire s1 @ buffered msg1 = tx_wire s @ buffered msg @ a"
    "rx_queue s1 = rx_queue s"
    unfolding puts_def by metis
  with assms(2) obtain msg2 s2 where 2: "n (msg1, s1) = (Ok (), (msg2, s2))"
    "msg_ok msg2" "buffered msg2 = []" "calm s2" "J2 s2"
    "tx_wire s2 = tx_wire s1 @ buffered msg1 @ b" "rx_queue s2 = rx_queue s1"
    unfolding flushes_def by metis
  have "tx_wire s2 = tx_wire s @ buffered msg @ a @ b"
    using 1(3) 2(6) by (metis append.assoc)
  then show "\<exists>msg' s'. then_op m n (msg, s) = (Ok (), (msg', s')) \<and> msg_ok msg' \<and> buffered msg' = [] \<and>
      calm s' \<and> J2 s' \<and> tx_wire s' = tx_wire s @ buffered msg @ a @ b \<and> rx_queue s' = rx_queue s"
    using 1 2 by (simp add: then_op_def bind_op_def)
qed

lemma flushes_then_ret: "flushes J m a J' \<Longrightarrow> flushes J (then_op m (ret ())) a J'"
  by (simp add: then_ret_unit)

lemma talks_flushes:
  assumes "flushes J m bs J'"
  shows "talks J (with_message m) [] bs () J'"
  unfolding talks_def
proof (intro allI impI)
  fix s rest
  assume s: "calm s \<and> J s \<and> rx_queue s = [] @ rest"
  have "msg_ok rpc_message_init" and b: "buffered rpc_message_init = []"
    by (simp_all add: msg_ok_def rpc_message_init_def BUFSIZ_def buffered_def)
  with s assms obtain msg' s' where "m (rpc_message_init, s) = (Ok (), (msg', s'))"
    "calm s'" "J' s'" "tx_wire s' = tx_wire s @ bs" "rx_queue s' = rx_queue s"
    unfolding flushes_def by (metis append_Nil)
  with s show "\<exists>s'. with_message m s = (Ok (), s') \<and> calm s' \<and> J' s' \<and>
      rx_queue s' = rest \<and> tx_wire s' = tx_wire s @ bs"
    by (simp add: with_message_def)
qed

lemma talks_or_rpc_error: "talks J m a b v J' \<Longrightarrow> talks J (or_rpc_error E m) a b v J'"
  unfolding talks_def by (fastforce simp: or_rpc_error_def)

lemma talks_write:
  assumes "\<And>s. J s \<Longrightarrow> \<not> freed s \<and> J' (f s) \<and> rx_queue (f s) = rx_queue s \<and> tx_wire (f s) = tx_wire s \<and>
    tx_script (f s) = tx_script s \<and> rx_script (f s) = rx_script s"
  shows "talks J (write_conn f) [] [] () J'"
  using assms unfolding talks_def by (auto simp: write_conn_def calm_def)

lemma talks_read:
  assumes "\<And>s. J s \<Longrightarrow> \<not> freed s \<and> f s = v"
  shows "talks J (read_conn f) [] [] v J"
  using assms unfolding talks_def by (auto simp: read_conn_def)

lemma talks_finally:
  assumes "talks J m a b v J1" "talks J1 f [] [] () J2"
  shows "talks J (and_finally m f) a b v J2"
  unfolding talks_def
proof (intro allI impI)
  fix s rest
  assume "calm s \<and> J s \<and> rx_queue s = a @ rest"
  with assms(1) obtain s1 where 1: "m s = (Ok v, s1)" "calm s1 \<and> J1 s1 \<and> rx_queue s1 = [] @ rest"
    "tx_wire s1 = tx_wire s @ b"
    unfolding talks_def by (metis append_Nil)
  with assms(2) obtain s2 where "f s1 = (Ok (), s2)" "calm s2" "J2 s2" "rx_queue s2 = rest"
    "tx_wire s2 = tx_wire s1 @ []"
    unfolding talks_def by metis
  with 1 show "\<exists>s'. and_finally m f s = (Ok v, s') \<and> calm s' \<and> J2 s' \<and> rx_queue s' = rest \<and>
      tx_wire s' = tx_wire s @ b"
    by (simp add: and_finally_def)
qed

lemma msg_talks_finally:
  assumes "msg_talks J m a b v J1" "msg_talks J1 f [] [] () J2"
  shows "msg_talks J (and_finally m f) a b v J2"
  unfolding msg_talks_def
proof (intro allI impI)
  fix msg s rest
  assume "calm s \<and> J s \<and> rx_queue s = a @ rest"
  with assms(1) obtain s1 where 1: "m (msg, s) = (Ok v, (msg, s1))"
    "calm s1 \<and> J1 s1 \<and> rx_queue s1 = [] @ rest" "tx_wire s1 = tx_wire s @ b"
    unfolding msg_talks_def by (metis append_Nil)
  with assms(2) obtain s2 where "f (msg, s1) = (Ok (), (msg, s2))" "calm s2" "J2 s2"
    "rx_queue s2 = rest" "tx_wire s2 = tx_wire s1 @ []"
    unfolding msg_talks_def by metis
  with 1 show "\<exists>s'. and_finally m f (msg, s) = (Ok v, (msg, s')) \<and> calm s' \<and> J2 s' \<and> rx_queue s' = rest \<and>
      tx_wire s' = tx_wire s @ b"
    by (simp add: and_finally_def)
qed

lemma talks_on_live:
  "talks J m a b v J' \<Longrightarrow> talks J (on_live (check_null e m)) a b v J'"
  unfolding talks_def by (fastforce simp: on_live_def check_null_def)

lemma talks_rpc_entry:
  assumes "talks J m a b v J'" "\<And>s. J s \<Longrightarrow> \<not> freed s \<and> status s \<noteq> RPC_STATUS_CLOSED"
  shows "talks J (on_live (rpc_entry m)) a b v J'"
  unfolding rpc_entry_def
  using assms unfolding talks_def
  by (fastforce simp: on_live_def check_null_def bind_op_def read_conn_def)

text \<open>Sequencing without spelling out empty byte strings.\<close>

lemma talks_then_quiet:
  "talks J m [] [] x J1 \<Longrightarrow> talks J1 n a b y J2 \<Longrightarrow> talks J (then_op m n) a b y J2"
  using talks_bind [of J m "[]" "[]" x J1 "\<lambda>_. n" a b y J2] by (simp add: then_op_def)

lemma talks_bind_in:
  "talks J m a [] x J1 \<Longrightarrow> talks J1 (f x) a' b y J2 \<Longrightarrow> talks J (bind_op m f) (a @ a') b y J2"
  using talks_bind [of J m a "[]" x J1 f a' b y J2] by simp

lemma talks_bind_out:
  "talks J m a [] x J1 \<Longrightarrow> talks J1 (f x) [] b y J2 \<Longrightarrow> talks J (bind_op m f) a b y J2"
  using talks_bind [of J m a "[]" x J1 f "[]" b y J2] by simp

lemma talks_bind_last:
  "talks J m a b x J1 \<Longrightarrow> talks J1 (f x) [] [] y J2 \<Longrightarrow> talks J (bind_op m f) a b y J2"
  using talks_bind [of J m a b x J1 f "[]" "[]" y J2] by simp

lemma talks_then_last:
  "talks J m a b x J1 \<Longrightarrow> talks J1 n [] [] y J2 \<Longrightarrow> talks J (then_op m n) a b y J2"
  unfolding then_op_def by (rule talks_bind_last)

text \<open>A message that is sent before a conversation.\<close>

lemma talks_flushes_then:
  assumes "flushes I m c I" "msg_talks I n a b v J"
  shows "talks I (with_message (then_op m n)) a (c @ b) v J"
  unfolding talks_def
proof (intro allI impI)
  fix s rest
  assume s: "calm s \<and> I s \<and> rx_queue s = a @ rest"
  have "msg_ok rpc_message_init" and b: "buffered rpc_message_init = []"
    by (simp_all add: msg_ok_def rpc_message_init_def BUFSIZ_def buffered_def)
  with s assms(1) obtain msg1 s1 where 1: "m (rpc_message_init, s) = (Ok (), (msg1, s1))"
    "calm s1 \<and> I s1 \<and> rx_queue s1 = a @ rest" "tx_wire s1 = tx_wire s @ c"
    unfolding flushes_def by (metis append_Nil)
  with assms(2) obtain s2 where "n (msg1, s1) = (Ok v, (msg1, s2))" "calm s2" "J s2"
    "rx_queue s2 = rest" "tx_wire s2 = tx_wire s1 @ b"
    unfolding msg_talks_def by metis
  with 1 show "\<exists>s'. with_message (then_op m n) s = (Ok v, s') \<and> calm s' \<and> J s' \<and>
      rx_queue s' = rest \<and> tx_wire s' = tx_wire s @ c @ b"
    by (simp add: with_message_def then_op_def bind_op_def)
qed

lemma msg_talks_then_quiet:
  "msg_talks J m [] [] x J1 \<Longrightarrow> msg_talks J1 n a b y J2 \<Longrightarrow> msg_talks J (then_op m n) a b y J2"
  using msg_talks_bind [of J m "[]" "[]" x J1 "\<lambda>_. n" a b y J2] by (simp add: then_op_def)

lemma msg_talks_bind_quiet:
  "msg_talks J m [] [] x J1 \<Longrightarrow> msg_talks J1 (f x) a b y J2 \<Longrightarrow> msg_talks J (bind_op m f) a b y J2"
  using msg_talks_bind [of J m "[]" "[]" x J1 f a b y J2] by simp

lemma msg_talks_bind_read:
  "reads J m a x \<Longrightarrow> msg_talks J (f x) a' b y J2 \<Longrightarrow> msg_talks J (bind_op m f) (a @ a') b y J2"
  using msg_talks_bind [OF msg_talks_reads, of J m a x f a' b y J2] by simp

lemma msg_talks_bind_last:
  "msg_talks J m a b x J1 \<Longrightarrow> msg_talks J1 (f x) [] [] y J2 \<Longrightarrow> msg_talks J (bind_op m f) a b y J2"
  using msg_talks_bind [of J m a b x J1 f "[]" "[]" y J2] by simp

subsection \<open>The connection invariant\<close>

lemma conn_inv_fields:
  assumes "conn_inv T M F s"
  shows "status s = status F" "dispatch_depth s = dispatch_depth F" "invoke_depth s = invoke_depth F"
    "handle_depth s = handle_depth F" "is_sync s = is_sync F"
    "pending_sync_depth s = pending_sync_depth F" "conn_type s = conn_type F" "\<not> freed s" "alloc_ok s"
    "socket s = socket F" "error_callback s = error_callback F" "poll_script s = poll_script F"
    "rx_eof s = rx_eof F"
  using assms by (auto simp: conn_inv_def frame_def)

lemma conn_inv_stable: "io_stable (conn_inv T M F)"
  by (simp add: io_stable_def conn_inv_def frame_def alloc_ok_def types_are_def methods_are_def)

lemma conn_inv_set:
  assumes "conn_inv T M F s"
  shows
   "conn_inv T M (F\<lparr>invoke_depth := i\<rparr>) (s\<lparr>invoke_depth := i\<rparr>)"
   "conn_inv T M (F\<lparr>handle_depth := i\<rparr>) (s\<lparr>handle_depth := i\<rparr>)"
   "conn_inv T M (F\<lparr>dispatch_depth := i\<rparr>) (s\<lparr>dispatch_depth := i\<rparr>)"
   "conn_inv T M (F\<lparr>pending_sync_depth := i\<rparr>) (s\<lparr>pending_sync_depth := i\<rparr>)"
   "conn_inv T M (F\<lparr>is_sync := b\<rparr>) (s\<lparr>is_sync := b\<rparr>)"
  using assms
  by (auto simp: conn_inv_def frame_def alloc_ok_def types_are_def methods_are_def split: option.splits)

lemma conn_inv_mem: "conn_inv T M F s \<Longrightarrow> mem_ok s"
  by (simp add: conn_inv_def alloc_ok_def mem_ok_def)

lemma conn_inv_lookups:
  assumes "conn_inv T M F s" "conn_types s = Some m"
  shows "conn_inv T M F (s\<lparr>conn_types := Some (snd (rpc_map_lookup m t))\<rparr>)"
  using assms types_are_lookup(2) [of T s m t]
  by (auto simp: conn_inv_def frame_def alloc_ok_def methods_are_def)

lemma talks_lookup_callback: "talks (conn_inv T M F) (rpc_lookup_callback mid) [] [] (M mid) (conn_inv T M F)"
  unfolding talks_def
proof (intro allI impI)
  fix s rest
  assume pre: "calm s \<and> conn_inv T M F s \<and> rx_queue s = [] @ rest"
  then obtain m where m: "methods s = Some m" "rpc_map_ok m" "rpc_map_abs m = M"
    by (auto simp: conn_inv_def methods_are_def split: option.splits)
  obtain m' where "rpc_map_lookup m mid = (rpc_map_abs m mid, m')" "rpc_map_ok m'"
    "rpc_map_abs m' = rpc_map_abs m"
    using m(2) by (rule map_lookup_cases)
  with pre m show "\<exists>s'. rpc_lookup_callback mid s = (Ok (M mid), s') \<and> calm s' \<and> conn_inv T M F s' \<and>
      rx_queue s' = rest \<and> tx_wire s' = tx_wire s @ []"
    by (auto simp: rpc_lookup_callback_def conn_inv_def methods_are_def frame_def calm_def alloc_ok_def
        types_are_def)
qed

subsection \<open>One remote call\<close>

text \<open>
  An endpoint whose environment \<open>E\<close> has marshalers for the types of \<open>T\<close> that keep the contract
  \<open>user_marshalers\<close>, whatever the methods and the rest of the connection are.
\<close>

locale rpc_peer =
  fixes E :: "('z rpc_connection_scheme, 'u, 'y) rpc_env_scheme"
    and T :: "int \<Rightarrow> rpc_message_descriptor option"
    and U :: "int \<Rightarrow> 'u \<Rightarrow> byte list"
    and V :: "int \<Rightarrow> 'u \<Rightarrow> 'u"
    and W :: "int \<Rightarrow> 'u \<Rightarrow> bool"
  assumes marshalers: "user_marshalers (conn_inv T M F) (fptrs.truncate E) T U V W"
begin

lemmas sends_args = user_marshalers.sends_args [OF marshalers]
lemmas reads_args = user_marshalers.reads_args [OF marshalers]

lemma no_args_iff: "list_all (wf_arg T W) as \<Longrightarrow> no_args as \<longleftrightarrow> as = []"
  using user_marshalers.wf_arg_type [OF marshalers] by (cases as) (auto simp: no_args_def)

lemma no_params_iff: "list_all (wf_arg T W) as \<Longrightarrow> no_params (map param_of as) \<longleftrightarrow> as = []"
  using user_marshalers.wf_arg_type [OF marshalers] user_marshalers.expected_param [OF marshalers]
  by (cases as) (auto simp: no_params_def)

lemma sends_marker: "sends (conn_inv T M F) (rpc_message_send_int32 (to_int32 m)) (enc_marker m)"
  unfolding enc_marker_def by (rule sends_int32 [OF conn_inv_stable])

lemma reads_tag: "reads (conn_inv T M F) rpc_message_recv_int32 (enc_marker m) (to_int32 m)"
  unfolding enc_marker_def by (rule reads_int32 [OF conn_inv_stable])

lemma talks_set_invoke_depth:
  "talks (conn_inv T M F) (write_conn (\<lambda>s. s\<lparr>invoke_depth := invoke_depth s + k\<rparr>)) [] [] ()
     (conn_inv T M (F\<lparr>invoke_depth := invoke_depth F + k\<rparr>))"
  by (rule talks_write) (auto dest: conn_inv_fields simp: conn_inv_fields(3) intro!: conn_inv_set(1))

lemma talks_set_handle_depth:
  "talks (conn_inv T M F) (write_conn (\<lambda>s. s\<lparr>handle_depth := handle_depth s + k\<rparr>)) [] [] ()
     (conn_inv T M (F\<lparr>handle_depth := handle_depth F + k\<rparr>))"
  by (rule talks_write) (auto dest: conn_inv_fields simp: conn_inv_fields(4) intro!: conn_inv_set(2))

lemma talks_set_dispatch_depth:
  "talks (conn_inv T M F) (write_conn (\<lambda>s. s\<lparr>dispatch_depth := dispatch_depth s + k\<rparr>)) [] [] ()
     (conn_inv T M (F\<lparr>dispatch_depth := dispatch_depth F + k\<rparr>))"
  by (rule talks_write) (auto dest: conn_inv_fields simp: conn_inv_fields(2) intro!: conn_inv_set(3))

text \<open>
  The four calls for arguments whose marshaling changes the state (from \<open>F\<close> to \<open>F'\<close>): what is
  required is how the argument list as a whole is sent or received.
\<close>

lemma puts_marker: "puts (conn_inv T M F) (rpc_message_send_int32 (to_int32 m)) (enc_marker m) (conn_inv T M F)"
  by (rule puts_sends [OF sends_marker])

lemma talks_invoke:
  assumes args: "puts (conn_inv T M (F\<lparr>invoke_depth := invoke_depth F + 1\<rparr>))
      (if \<not> no_args args then rpc_message_send_args (fptrs.truncate E) args else ret ()) bs (conn_inv T M F')"
    and F: "status F \<noteq> RPC_STATUS_CLOSED"
  shows "talks (conn_inv T M F) (on_live (rpc_method_invoke E mid args)) []
     (enc_marker RPC_MESSAGE_START @ enc_marker mid @ enc_marker RPC_MESSAGE_END @ bs) () (conn_inv T M F')"
proof -
  let ?I = "conn_inv T M (F\<lparr>invoke_depth := invoke_depth F + 1\<rparr>)"
  note flush = flushes_flush [OF conn_inv_stable]
  let ?tail = "if \<not> no_args args
       then then_op (rpc_message_send_args (fptrs.truncate E) args) rpc_message_flush else ret ()"
  have tail: "flushes ?I (then_op rpc_message_flush (then_op ?tail (ret ()))) bs (conn_inv T M F')"
  proof (cases "no_args args")
    case True
    then have "puts ?I (ret ()) bs (conn_inv T M F')" using args by simp
    with True show ?thesis
      using puts_then [OF flushes_puts [OF flush]] by (intro puts_flushed)
        (force simp: then_ret_unit dest: flush_empties)+
  next
    case False
    with args flushes_then [OF flushes_puts [OF flush] flushes_then_ret [OF flushes_then [OF _ flush]]]
    show ?thesis by fastforce
  qed
  have "flushes ?I (run_all
     [rpc_message_send_int32 (to_int32 RPC_MESSAGE_START), rpc_message_send_int32 (to_int32 mid),
      rpc_message_send_int32 (to_int32 RPC_MESSAGE_END), rpc_message_flush, ?tail])
      (enc_marker RPC_MESSAGE_START @ enc_marker mid @ enc_marker RPC_MESSAGE_END @ bs) (conn_inv T M F')"
    unfolding run_all.simps by (rule flushes_then [OF puts_marker flushes_then [OF puts_marker flushes_then [OF puts_marker tail]]])
  from talks_or_rpc_error [OF talks_flushes [OF this]] F show ?thesis
    unfolding rpc_method_invoke_def rpc_method_invoke_valist_def
    by (intro talks_rpc_entry talks_then_quiet [OF talks_set_invoke_depth]) (auto dest: conn_inv_fields)
qed

lemma talks_get_args:
  assumes "msg_talks (conn_inv T M (F\<lparr>handle_depth := handle_depth F + 1\<rparr>))
      (rpc_message_recv_args (fptrs.truncate E) ps) bs [] as (conn_inv T M F')"
    and F: "status F \<noteq> RPC_STATUS_CLOSED"
  shows "talks (conn_inv T M F) (on_live (rpc_method_get_args E ps)) bs [] as (conn_inv T M F')"
  unfolding rpc_method_get_args_def using F assms(1)
  by (intro talks_rpc_entry talks_then_quiet [OF talks_set_handle_depth] talks_or_rpc_error
      talks_with_message) (auto dest: conn_inv_fields)

lemma talks_send_reply:
  assumes "puts (conn_inv T M F) (rpc_message_send_args (fptrs.truncate E) args) bs (conn_inv T M F')"
    and F: "status F \<noteq> RPC_STATUS_CLOSED"
  shows "talks (conn_inv T M F) (on_live (rpc_method_send_reply E args)) []
     (enc_marker RPC_MESSAGE_REPLY @ bs @ enc_marker RPC_MESSAGE_END) ()
     (conn_inv T M (F'\<lparr>handle_depth := handle_depth F' - 1\<rparr>))"
proof -
  have "flushes (conn_inv T M F) (run_all
          [rpc_message_send_int32 (to_int32 RPC_MESSAGE_REPLY),
           rpc_message_send_args (fptrs.truncate E) args,
           rpc_message_send_int32 (to_int32 RPC_MESSAGE_END),
           rpc_message_flush]) (enc_marker RPC_MESSAGE_REPLY @ bs @ enc_marker RPC_MESSAGE_END @ [])
        (conn_inv T M F')"
    unfolding run_all.simps
    by (rule flushes_then [OF puts_marker flushes_then [OF assms(1) flushes_then [OF puts_marker
          flushes_then_ret [OF flushes_flush [OF conn_inv_stable]]]]])
  from talks_or_rpc_error [OF talks_flushes [OF this]] F show ?thesis
    unfolding rpc_method_send_reply_def append_Nil2
    by (intro talks_rpc_entry talks_finally [OF _ talks_set_handle_depth [where k = "- 1", simplified]])
      (auto dest: conn_inv_fields)
qed

lemma talks_method_invoke:
  assumes wf: "list_all (wf_arg T W) args" and F: "status F \<noteq> RPC_STATUS_CLOSED"
  shows "talks (conn_inv T M F) (on_live (rpc_method_invoke E mid args)) [] (enc_invoke U mid args) ()
     (conn_inv T M (F\<lparr>invoke_depth := invoke_depth F + 1\<rparr>))"
  unfolding enc_invoke_def using puts_sends [OF sends_args [OF wf]]
  by (intro talks_invoke F) (auto simp: no_args_iff [OF wf] enc_args_def puts_ret)

lemma talks_method_get_args:
  assumes wf: "list_all (wf_arg T W) args" and F: "status F \<noteq> RPC_STATUS_CLOSED"
  shows "talks (conn_inv T M F) (on_live (rpc_method_get_args E (map param_of args))) (enc_args U args) []
     (map (view_arg V) args) (conn_inv T M (F\<lparr>handle_depth := handle_depth F + 1\<rparr>))"
  by (intro talks_get_args msg_talks_reads reads_args wf F)

lemma talks_method_send_reply:
  assumes wf: "list_all (wf_arg T W) args" and F: "status F \<noteq> RPC_STATUS_CLOSED"
  shows "talks (conn_inv T M F) (on_live (rpc_method_send_reply E args)) [] (enc_reply U args) ()
     (conn_inv T M (F\<lparr>handle_depth := handle_depth F - 1\<rparr>))"
  unfolding enc_reply_def by (intro talks_send_reply puts_sends sends_args wf F)

text \<open>A handler of the usual shape consumes the arguments, replies and balances the counters.\<close>

lemma talks_serve:
  assumes args: "list_all (wf_arg T W) args" and reply: "list_all (wf_arg T W) (f (map (view_arg V) args))"
    and F: "status F \<noteq> RPC_STATUS_CLOSED"
  shows "talks (conn_inv T M F) (serve E (map param_of args) f) (enc_args U args)
     (enc_reply U (f (map (view_arg V) args))) RPC_ERROR_NO_ERROR (conn_inv T M F)"
proof -
  let ?F = "F\<lparr>handle_depth := handle_depth F + 1\<rparr>"
  have "talks (conn_inv T M ?F) (on_live (rpc_method_send_reply E (f (map (view_arg V) args)))) []
     (enc_reply U (f (map (view_arg V) args))) () (conn_inv T M F)"
    using talks_method_send_reply [OF reply, of ?F M] F by simp
  then have "talks (conn_inv T M ?F) (then_op (on_live (rpc_method_send_reply E (f (map (view_arg V) args))))
     (ret RPC_ERROR_NO_ERROR)) [] (enc_reply U (f (map (view_arg V) args))) RPC_ERROR_NO_ERROR
     (conn_inv T M F)"
    unfolding then_op_def by (rule talks_bind_last [OF _ talks_ret])
  then show ?thesis
    unfolding serve_def by (rule talks_bind_out [OF talks_method_get_args [OF args F]])
qed

subsection \<open>Dispatching\<close>

text \<open>What is required of the handler \<open>cb\<close>: run one level deeper, it turns \<open>a\<close> into \<open>b\<close>.\<close>

lemma talks_dispatch_msg:
  assumes mid: "int32_range mid" "M mid = Some cb"
    and handler: "talks (conn_inv T M (F\<lparr>dispatch_depth := dispatch_depth F + 1\<rparr>)) (call_method E cb)
      a b RPC_ERROR_NO_ERROR (conn_inv T M (F'\<lparr>dispatch_depth := dispatch_depth F' + 1\<rparr>))"
  shows "msg_talks (conn_inv T M F) (rpc_dispatch_msg E)
     (enc_marker mid @ enc_marker RPC_MESSAGE_END @ a) b mid (conn_inv T M F')"
proof -
  let ?I = "conn_inv T M (F\<lparr>dispatch_depth := dispatch_depth F + 1\<rparr>)"
  let ?I' = "conn_inv T M (F'\<lparr>dispatch_depth := dispatch_depth F' + 1\<rparr>)"
  have "c_int (to_int32 mid) = mid" "c_int (to_int32 RPC_MESSAGE_END) = RPC_MESSAGE_END"
    using mid by (simp_all add: int32_range_c_int int32_range_def)
  then have "msg_talks ?I (rpc_dispatch_1 E) (enc_marker mid @ enc_marker RPC_MESSAGE_END @ a) b mid ?I'"
    unfolding rpc_dispatch_1_def using mid(2)
    by (intro msg_talks_bind_read [OF reads_tag])
      (auto intro!: msg_talks_bind_quiet [OF msg_talks_on_io [OF talks_lookup_callback]]
        msg_talks_bind_last [OF msg_talks_on_io [OF handler]] msg_talks_ret)
  note body = this
  have "msg_talks ?I' (on_io (write_conn (\<lambda>s. s\<lparr>dispatch_depth := dispatch_depth s + - 1\<rparr>))) [] [] ()
      (conn_inv T M F')"
    using msg_talks_on_io [OF talks_set_dispatch_depth
        [of M "F'\<lparr>dispatch_depth := dispatch_depth F' + 1\<rparr>" "- 1"]] by simp
  from msg_talks_finally [OF body this] show ?thesis
    unfolding rpc_dispatch_msg_def diff_conv_add_uminus
    by (rule msg_talks_then_quiet [OF msg_talks_on_io [OF talks_set_dispatch_depth]])
qed

lemma talks_dispatch:
  assumes mid: "int32_range mid" "M mid = Some cb" "0 \<le> mid"
    and handler: "talks (conn_inv T M (F\<lparr>dispatch_depth := dispatch_depth F + 1\<rparr>)) (call_method E cb)
      a b RPC_ERROR_NO_ERROR (conn_inv T M (F'\<lparr>dispatch_depth := dispatch_depth F' + 1\<rparr>))"
  shows "talks (conn_inv T M F) (rpc_dispatch E)
     (enc_marker RPC_MESSAGE_START @ enc_marker mid @ enc_marker RPC_MESSAGE_END @ a) b mid
     (conn_inv T M F')"
proof -
  have tag: "c_int (to_int32 RPC_MESSAGE_START) = RPC_MESSAGE_START"
    by (simp add: int32_range_c_int int32_range_def)
  have "talks (conn_inv T M F) (check_code (with_message (rpc_dispatch_msg E)))
     (enc_marker mid @ enc_marker RPC_MESSAGE_END @ a) b mid (conn_inv T M F')"
    unfolding check_code_def using mid(3)
    by (intro talks_bind_last [OF talks_with_message [OF talks_dispatch_msg [OF mid(1,2) handler]]])
      (simp add: talks_ret)
  from talks_or_rpc_error [OF this] show ?thesis
    unfolding rpc_dispatch_def
    by (intro talks_bind_in [OF talks_or_rpc_error [OF talks_with_message [OF msg_talks_reads [OF reads_tag]]]])
      (simp add: tag)
qed

text \<open>
  Calls that come in while a reply or a synchronisation message is awaited: method number, bytes
  the handler consumes, bytes it sends.
\<close>

lemma loop_tag:
  assumes "int32_range tag" "1 \<le> n"
  shows "msg_talks (conn_inv T M F) (dispatch_until_loop E tag n) (enc_marker tag) [] () (conn_inv T M F)"
proof -
  obtain k where n: "n = Suc k" using assms(2) by (cases n) auto
  have "msg_talks (conn_inv T M F) (dispatch_until_loop E tag n) (enc_marker tag @ []) [] ()
      (conn_inv T M F)"
    unfolding n dispatch_until_loop.simps
    by (rule msg_talks_bind_read [OF reads_tag]) (simp add: int32_range_c_int assms msg_talks_ret)
  then show ?thesis by simp
qed

lemma loop_call:
  assumes mid: "int32_range mid" "M mid = Some cb" "0 \<le> mid"
    and handler: "talks (conn_inv T M (F\<lparr>dispatch_depth := dispatch_depth F + 1\<rparr>)) (call_method E cb)
        a b RPC_ERROR_NO_ERROR (conn_inv T M (F\<lparr>dispatch_depth := dispatch_depth F + 1\<rparr>))"
    and tag: "tag \<noteq> RPC_MESSAGE_START"
    and rest: "msg_talks (conn_inv T M F) (dispatch_until_loop E tag n) i out () J"
  shows "msg_talks (conn_inv T M F) (dispatch_until_loop E tag (Suc n))
      ((enc_marker RPC_MESSAGE_START @ enc_marker mid @ enc_marker RPC_MESSAGE_END @ a) @ i) (b @ out) () J"
proof -
  have start: "c_int (to_int32 RPC_MESSAGE_START) = RPC_MESSAGE_START"
    by (simp add: int32_range_c_int int32_range_def)
  have one: "msg_talks (conn_inv T M F) (check_code (rpc_dispatch_msg E))
      (enc_marker mid @ enc_marker RPC_MESSAGE_END @ a) b mid (conn_inv T M F)"
    unfolding check_code_def using mid(3)
    by (intro msg_talks_bind_last [OF talks_dispatch_msg [OF mid(1,2) handler]]) (simp add: msg_talks_ret)
  have "msg_talks (conn_inv T M F) (dispatch_until_loop E tag (Suc n))
     (enc_marker RPC_MESSAGE_START @ (enc_marker mid @ enc_marker RPC_MESSAGE_END @ a) @ i) (b @ out) () J"
    unfolding dispatch_until_loop.simps
    using msg_talks_bind [OF one, of "\<lambda>_. dispatch_until_loop E tag n", OF rest] tag
    by (intro msg_talks_bind_read [OF reads_tag]) (simp add: start)
  then show ?thesis by simp
qed

lemma loop_calls:
  assumes calls: "served E T M F calls" and tag: "tag \<noteq> RPC_MESSAGE_START"
    and rest: "\<And>n. k \<le> n \<Longrightarrow> msg_talks (conn_inv T M F) (dispatch_until_loop E tag n) i out () J"
    and n: "length calls + k \<le> n"
  shows "msg_talks (conn_inv T M F) (dispatch_until_loop E tag n)
     (enc_calls calls @ i) (concat (map (\<lambda>(mid, a, b). b) calls) @ out) () J"
  using calls n
proof (induction calls arbitrary: n)
  case Nil
  then show ?case using rest by (simp add: enc_calls_def)
next
  case (Cons c calls)
  then obtain n' where n': "n = Suc n'" "length calls + k \<le> n'" by (cases n) auto
  obtain mid a b where c: "c = (mid, a, b)" by (cases c)
  then obtain cb where cb: "int32_range mid" "M mid = Some cb" "0 \<le> mid"
    "talks (conn_inv T M (F\<lparr>dispatch_depth := dispatch_depth F + 1\<rparr>)) (call_method E cb)
        a b RPC_ERROR_NO_ERROR (conn_inv T M (F\<lparr>dispatch_depth := dispatch_depth F + 1\<rparr>))"
    using Cons.prems(1) by (auto simp: served_def)
  have "served E T M F calls" using Cons.prems(1) by (simp add: served_def)
  from loop_call [OF cb tag Cons.IH [OF this n'(2)]] n' c show ?case
    by (simp add: enc_calls_def)
qed

text \<open>A synchronisation request noted for later.\<close>

lemma loop_sync:
  assumes F: "conn_type F = RPC_CONNECTION_CLIENT" "pending_sync_depth F = 0"
    and tag: "tag \<noteq> RPC_MESSAGE_SYNC"
    and rest: "msg_talks (conn_inv T M (F\<lparr>pending_sync_depth := invoke_depth F\<rparr>))
      (dispatch_until_loop E tag n) i out () J"
  shows "msg_talks (conn_inv T M F) (dispatch_until_loop E tag (Suc n))
     (enc_marker RPC_MESSAGE_SYNC @ i) out () J"
proof -
  have sync: "c_int (to_int32 RPC_MESSAGE_SYNC) = RPC_MESSAGE_SYNC"
    by (simp add: int32_range_c_int int32_range_def)
  have allowed: "talks (conn_inv T M F) (read_conn rpc_connection_is_sync_allowed) [] [] True (conn_inv T M F)"
    using F by (intro talks_read) (auto dest: conn_inv_fields simp: conn_inv_fields(6,7)
        rpc_connection_is_sync_allowed_def rpc_connection_is_sync_mode_def)
  have note_it: "talks (conn_inv T M F) (write_conn (\<lambda>s. s\<lparr>pending_sync_depth := invoke_depth s\<rparr>)) [] [] ()
      (conn_inv T M (F\<lparr>pending_sync_depth := invoke_depth F\<rparr>))"
    by (rule talks_write) (auto dest: conn_inv_fields simp: conn_inv_fields(3) intro!: conn_inv_set(4))
  have "msg_talks (conn_inv T M F) (bind_op (on_io (read_conn rpc_connection_is_sync_allowed)) (\<lambda>allowed.
           if \<not> allowed then fail RPC_ERROR_MESSAGE_SYNC_NOT_ALLOWED
           else then_op (on_io (write_conn (\<lambda>s. s\<lparr>pending_sync_depth := invoke_depth s\<rparr>)))
                  (dispatch_until_loop E tag n))) i out () J"
    by (rule msg_talks_bind_quiet [OF msg_talks_on_io [OF allowed]])
      (simp add: msg_talks_then_quiet [OF msg_talks_on_io [OF note_it] rest])
  then show ?thesis
    unfolding dispatch_until_loop.simps using tag
    by (intro msg_talks_bind_read [OF reads_tag]) (simp add: sync)
qed

text \<open>The iteration bound \<open>rpc_dispatch_until\<close> uses is large enough for what is in the socket.\<close>

lemma dispatch_until_fuel:
  assumes "\<And>n. k \<le> n \<Longrightarrow> msg_talks J0 (dispatch_until_loop E tag n) i out () J" "k \<le> Suc (length i)"
    and tag: "tag \<noteq> 0"
  shows "msg_talks J0 (rpc_dispatch_until E tag) i out () J"
  unfolding msg_talks_def
proof (intro allI impI)
  fix msg s rest
  assume s: "calm s \<and> J0 s \<and> rx_queue s = i @ rest"
  have "k \<le> Suc (length (rx_queue s))" using assms(2) s by simp
  note loop = assms(1) [OF this]
  have "rpc_dispatch_until E tag (msg, s) = dispatch_until_loop E tag (Suc (length (rx_queue s))) (msg, s)"
    using tag by (simp add: rpc_dispatch_until_def assert_op_def del: dispatch_until_loop.simps)
  with loop s
  show "\<exists>s'. rpc_dispatch_until E tag (msg, s) = (Ok (), (msg, s')) \<and> calm s' \<and> J s' \<and>
      rx_queue s' = rest \<and> tx_wire s' = tx_wire s @ out"
    unfolding msg_talks_def by metis
qed

lemma length_enc_calls: "length calls \<le> length (enc_calls calls)"
  by (induction calls) (auto simp: enc_calls_def enc_marker_def)

lemma dispatch_until_calls:
  assumes "served E T M F calls" "int32_range tag" "tag \<noteq> 0" "tag \<noteq> RPC_MESSAGE_START"
  shows "msg_talks (conn_inv T M F) (rpc_dispatch_until E tag) (enc_calls calls @ enc_marker tag)
     (concat (map (\<lambda>(mid, a, b). b) calls)) () (conn_inv T M F)"
proof (rule dispatch_until_fuel)
  fix n
  assume "length calls + 1 \<le> n"
  then show "msg_talks (conn_inv T M F) (dispatch_until_loop E tag n) (enc_calls calls @ enc_marker tag)
     (concat (map (\<lambda>(mid, a, b). b) calls)) () (conn_inv T M F)"
    using loop_calls [OF assms(1,4) loop_tag [OF assms(2)], of 1 n] by simp
qed (use assms length_enc_calls [of calls] in simp_all)

subsection \<open>Waiting for a reply\<close>

text \<open>The part of \<open>rpc_method_wait_for_reply\<close> after the reply tag.\<close>

lemma talks_wait_after:
  assumes body: "msg_talks (conn_inv T M F')
      (if \<not> no_params ps then rpc_message_recv_args (fptrs.truncate E) ps else ret []) bs [] as
      (conn_inv T M F'')"
    and F: "status F \<noteq> RPC_STATUS_CLOSED"
    and until: "msg_talks (conn_inv T M F) (rpc_dispatch_until E RPC_MESSAGE_REPLY)
      (i @ enc_marker RPC_MESSAGE_REPLY) out () (conn_inv T M F')"
  shows "talks (conn_inv T M F) (on_live (rpc_method_wait_for_reply E ps))
     (i @ enc_marker RPC_MESSAGE_REPLY @ bs @ enc_marker RPC_MESSAGE_END) out as
     (conn_inv T M (F''\<lparr>invoke_depth := invoke_depth F'' - 1\<rparr>))"
proof -
  have tag: "c_int (to_int32 RPC_MESSAGE_END) = RPC_MESSAGE_END"
    by (simp add: int32_range_c_int int32_range_def)
  have "msg_talks (conn_inv T M F') (bind_op
      (if \<not> no_params ps then rpc_message_recv_args (fptrs.truncate E) ps else ret []) (\<lambda>as.
        bind_op rpc_message_recv_int32 (\<lambda>msg_tag.
          if c_int msg_tag \<noteq> RPC_MESSAGE_END then fail RPC_ERROR_MESSAGE_TYPE_INVALID else ret as)))
      (bs @ enc_marker RPC_MESSAGE_END) ([] @ []) as (conn_inv T M F'')"
    by (rule msg_talks_bind [OF body], rule msg_talks_reads [OF reads_bind_last [OF reads_tag]])
      (simp add: tag reads_ret)
  from msg_talks_bind [OF until this]
  have body: "talks (conn_inv T M F) (rpc_method_wait_for_reply_valist E ps)
     (i @ enc_marker RPC_MESSAGE_REPLY @ bs @ enc_marker RPC_MESSAGE_END) out as (conn_inv T M F'')"
    unfolding rpc_method_wait_for_reply_valist_def then_op_def
    by (intro talks_or_rpc_error talks_with_message) simp
  show ?thesis
    unfolding rpc_method_wait_for_reply_def using F
    by (intro talks_rpc_entry talks_finally [OF body] talks_set_invoke_depth [where k = "- 1", simplified])
      (auto dest: conn_inv_fields)
qed

lemma reads_reply:
  assumes wf: "list_all (wf_arg T W) args"
  shows "reads (conn_inv T M F) (if \<not> no_params (map param_of args)
      then rpc_message_recv_args (fptrs.truncate E) (map param_of args) else ret [])
      (enc_args U args) (map (view_arg V) args)"
  using reads_args [OF wf] by (auto simp: no_params_iff [OF wf] enc_args_def reads_ret)

lemma talks_wait_for_reply_after:
  assumes wf: "list_all (wf_arg T W) args" and F: "status F \<noteq> RPC_STATUS_CLOSED"
    and until: "msg_talks (conn_inv T M F) (rpc_dispatch_until E RPC_MESSAGE_REPLY)
      (i @ enc_marker RPC_MESSAGE_REPLY) out () (conn_inv T M F')"
  shows "talks (conn_inv T M F) (on_live (rpc_method_wait_for_reply E (map param_of args)))
     (i @ enc_reply U args) out (map (view_arg V) args)
     (conn_inv T M (F'\<lparr>invoke_depth := invoke_depth F' - 1\<rparr>))"
  unfolding enc_reply_def by (rule talks_wait_after [OF msg_talks_reads [OF reads_reply [OF wf]] F until])

lemma talks_wait_for_reply:
  assumes "list_all (wf_arg T W) args" "status F \<noteq> RPC_STATUS_CLOSED" "served E T M F calls"
  shows "talks (conn_inv T M F) (on_live (rpc_method_wait_for_reply E (map param_of args)))
     (enc_calls calls @ enc_reply U args) (concat (map (\<lambda>(mid, a, b). b) calls)) (map (view_arg V) args)
     (conn_inv T M (F\<lparr>invoke_depth := invoke_depth F - 1\<rparr>))"
  by (rule talks_wait_for_reply_after [OF assms(1,2) dispatch_until_calls [OF assms(3)]])
    (simp_all add: int32_range_def)

text \<open>A synchronisation request that arrives before the reply is only noted.\<close>

lemma talks_wait_for_reply_sync:
  assumes "list_all (wf_arg T W) args" "status F \<noteq> RPC_STATUS_CLOSED"
    and "conn_type F = RPC_CONNECTION_CLIENT" "pending_sync_depth F = 0"
  shows "talks (conn_inv T M F) (on_live (rpc_method_wait_for_reply E (map param_of args)))
     (enc_marker RPC_MESSAGE_SYNC @ enc_reply U args) [] (map (view_arg V) args)
     (conn_inv T M (F\<lparr>pending_sync_depth := invoke_depth F, invoke_depth := invoke_depth F - 1\<rparr>))"
proof -
  have "msg_talks (conn_inv T M F) (rpc_dispatch_until E RPC_MESSAGE_REPLY)
      (enc_marker RPC_MESSAGE_SYNC @ enc_marker RPC_MESSAGE_REPLY) [] ()
      (conn_inv T M (F\<lparr>pending_sync_depth := invoke_depth F\<rparr>))"
  proof (rule dispatch_until_fuel)
    fix n :: nat
    assume "2 \<le> n"
    then obtain k where n: "n = Suc k" "1 \<le> k" by (cases n) auto
    show "msg_talks (conn_inv T M F) (dispatch_until_loop E RPC_MESSAGE_REPLY n)
      (enc_marker RPC_MESSAGE_SYNC @ enc_marker RPC_MESSAGE_REPLY) [] ()
      (conn_inv T M (F\<lparr>pending_sync_depth := invoke_depth F\<rparr>))"
      unfolding n(1) by (rule loop_sync [OF assms(3,4) _ loop_tag [OF _ n(2)]]) (simp_all add: int32_range_def)
  qed (simp_all add: enc_marker_def)
  from talks_wait_for_reply_after [OF assms(1,2) this] show ?thesis by simp
qed

subsection \<open>Synchronisation\<close>

lemma sends_one: "flushes (conn_inv T M F)
    (then_op (rpc_message_send_int32 (to_int32 m)) rpc_message_flush) (enc_marker m) (conn_inv T M F)"
  using flushes_then [OF puts_marker flushes_flush [OF conn_inv_stable]] by simp

lemma talks_set_sync:
  "talks (conn_inv T M F) (write_conn (\<lambda>s. s\<lparr>is_sync := b\<rparr>)) [] [] () (conn_inv T M (F\<lparr>is_sync := b\<rparr>))"
  by (rule talks_write) (auto dest: conn_inv_fields intro!: conn_inv_set(5))

lemma talks_then_get_state:
  assumes "\<And>s. J s \<Longrightarrow> P s" "\<And>s. P s \<Longrightarrow> f s = m" "talks J m a b v J'"
  shows "talks J (bind_op get_state f) a b v J'"
  unfolding talks_def
proof (intro allI impI)
  fix s rest
  assume "calm s \<and> J s \<and> rx_queue s = a @ rest"
  with assms show "\<exists>s'. bind_op get_state f s = (Ok v, s') \<and> calm s' \<and> J' s' \<and> rx_queue s' = rest \<and>
      tx_wire s' = tx_wire s @ b"
    unfolding talks_def by (simp add: bind_op_def get_state_def)
qed

lemma talks_end_sync:
  assumes "is_sync F"
  shows "talks (conn_inv T M F) (rpc_end_sync E) [] (enc_marker RPC_MESSAGE_SYNC_END) ()
     (conn_inv T M (F\<lparr>is_sync := False\<rparr>))"
proof -
  have "talks (conn_inv T M F) (then_op (or_rpc_error E (with_message (run_all
          [rpc_message_send_int32 (to_int32 RPC_MESSAGE_SYNC_END), rpc_message_flush])))
       (write_conn (\<lambda>s. s\<lparr>is_sync := False\<rparr>))) [] (enc_marker RPC_MESSAGE_SYNC_END) ()
     (conn_inv T M (F\<lparr>is_sync := False\<rparr>))"
    unfolding run_all.simps then_ret_unit
    by (rule talks_then_last [OF talks_or_rpc_error [OF talks_flushes [OF sends_one]] talks_set_sync])
  then show ?thesis
    unfolding rpc_end_sync_def using assms
    by (intro talks_then_get_state [where P = is_sync]) (auto simp: conn_inv_fields(5))
qed

text \<open>A synchronisation message, then serving calls until the answer arrives.\<close>

lemma talks_send_until:
  assumes "served E T M F calls" "int32_range tag" "tag \<noteq> 0" "tag \<noteq> RPC_MESSAGE_START"
  shows "talks (conn_inv T M F) (with_message (run_all
      [rpc_message_send_int32 (to_int32 m), rpc_message_flush, rpc_dispatch_until E tag]))
     (enc_calls calls @ enc_marker tag) (enc_marker m @ concat (map (\<lambda>(mid, a, b). b) calls)) ()
     (conn_inv T M F)"
  using talks_flushes_then [OF sends_one dispatch_until_calls [OF assms]]
  unfolding run_all.simps then_ret_unit then_assoc .

lemma talks_sync:
  assumes "served E T M F calls" "\<not> is_sync F"
  shows "talks (conn_inv T M F) (rpc_sync E) (enc_calls calls @ enc_marker RPC_MESSAGE_SYNC_ACK)
     (enc_marker RPC_MESSAGE_SYNC @ concat (map (\<lambda>(mid, a, b). b) calls)) ()
     (conn_inv T M (F\<lparr>is_sync := True\<rparr>))"
  unfolding rpc_sync_def
proof (rule talks_then_get_state [where P = "\<lambda>s. \<not> is_sync s"])
  show "talks (conn_inv T M F) (then_op (or_rpc_error E (with_message (run_all
      [rpc_message_send_int32 (to_int32 RPC_MESSAGE_SYNC), rpc_message_flush,
       rpc_dispatch_until E RPC_MESSAGE_SYNC_ACK]))) (write_conn (\<lambda>s. s\<lparr>is_sync := True\<rparr>)))
     (enc_calls calls @ enc_marker RPC_MESSAGE_SYNC_ACK)
     (enc_marker RPC_MESSAGE_SYNC @ concat (map (\<lambda>(mid, a, b). b) calls)) ()
     (conn_inv T M (F\<lparr>is_sync := True\<rparr>))"
    by (rule talks_then_last [OF talks_or_rpc_error [OF talks_send_until [OF assms(1)]] talks_set_sync])
      (simp_all add: int32_range_def)
qed (use assms(2) in \<open>auto simp: conn_inv_fields(5) assert_op_def\<close>)

lemma talks_dispatch_sync:
  assumes "served E T M F calls"
  shows "talks (conn_inv T M F) (rpc_dispatch_sync E) (enc_calls calls @ enc_marker RPC_MESSAGE_SYNC_END)
     (enc_marker RPC_MESSAGE_SYNC_ACK @ concat (map (\<lambda>(mid, a, b). b) calls)) () (conn_inv T M F)"
  unfolding rpc_dispatch_sync_def by (rule talks_send_until [OF assms]) (simp_all add: int32_range_def)

lemma talks_dispatch_SYNC:
  assumes "served E T M F calls"
  shows "talks (conn_inv T M F) (rpc_dispatch E)
     (enc_marker RPC_MESSAGE_SYNC @ enc_calls calls @ enc_marker RPC_MESSAGE_SYNC_END)
     (enc_marker RPC_MESSAGE_SYNC_ACK @ concat (map (\<lambda>(mid, a, b). b) calls)) RPC_ERROR_NO_ERROR
     (conn_inv T M F)"
  unfolding rpc_dispatch_def
proof (rule talks_bind_in [OF talks_or_rpc_error [OF talks_with_message [OF msg_talks_reads [OF reads_tag]]]])
  have "c_int (to_int32 RPC_MESSAGE_SYNC) = RPC_MESSAGE_SYNC"
    by (simp add: int32_range_c_int int32_range_def)
  then show "talks (conn_inv T M F) (if c_int (to_int32 RPC_MESSAGE_SYNC) = RPC_MESSAGE_SYNC
      then bind_op (rpc_dispatch_sync E) (\<lambda>_. ret RPC_ERROR_NO_ERROR)
      else if c_int (to_int32 RPC_MESSAGE_SYNC) \<noteq> RPC_MESSAGE_START
        then rpc_error E RPC_ERROR_MESSAGE_TYPE_INVALID
        else or_rpc_error E (check_code (with_message (rpc_dispatch_msg E))))
     (enc_calls calls @ enc_marker RPC_MESSAGE_SYNC_END)
     (enc_marker RPC_MESSAGE_SYNC_ACK @ concat (map (\<lambda>(mid, a, b). b) calls)) RPC_ERROR_NO_ERROR
     (conn_inv T M F)"
    using talks_bind_last [OF talks_dispatch_sync [OF assms] talks_ret] by simp
qed

text \<open>
  Answering a noted request from the event loop: only outside any call, and only when nothing
  else has arrived yet.
\<close>

lemma talks_pending_sync:
  assumes F: "pending_sync_depth F = 1" "\<not> nested F"
    and s: "calm s" "conn_inv T M F s" "rx_queue s = []" "\<not> rx_eof s" "poll_script s = []"
  shows "rpc_dispatch_pending_sync E s = rpc_dispatch_sync E (s\<lparr>pending_sync_depth := 0\<rparr>) \<and>
    conn_inv T M (F\<lparr>pending_sync_depth := 0\<rparr>) (s\<lparr>pending_sync_depth := 0\<rparr>)"
  using F s conn_inv_fields [OF s(2)] conn_inv_set(4) [OF s(2), of 0]
  by (simp add: rpc_dispatch_pending_sync_def bind_op_def get_state_def nested_def then_op_def
      assert_op_def ret_def rpc_wait_dispatch_1_def write_conn_def)

end

subsection \<open>Both ends of a call\<close>

lemma talksD:
  assumes "talks J m a b v J'" "calm s" "J s" "rx_queue s = a @ rest"
  obtains s' where "m s = (Ok v, s')" "calm s'" "J' s'" "rx_queue s' = rest" "tx_wire s' = tx_wire s @ b"
  using assms unfolding talks_def by metis

lemma on_live_check_null:
  "on_live (check_null e m) s = (r, s') \<Longrightarrow> check_null e m (Some s) = (r, Some s')"
  by (auto simp: on_live_def check_null_def split: prod.splits)

lemma on_live_entry: "on_live (rpc_entry m) s = (r, s') \<Longrightarrow> rpc_entry m (Some s) = (r, Some s')"
  unfolding rpc_entry_def by (rule on_live_check_null)

text \<open>The bytes a connection has just received.\<close>

lemma conn_inv_deliver: "calm s \<Longrightarrow> conn_inv T M F s \<Longrightarrow>
    calm (s\<lparr>rx_queue := q\<rparr>) \<and> conn_inv T M F (s\<lparr>rx_queue := q\<rparr>)"
  using io_stableD_queue [OF conn_inv_stable] by (auto simp: calm_def)

lemma plain_marshalers: "user_marshalers (conn_inv Map.empty M F) E Map.empty U V W"
  by unfold_locales
    (auto simp: conn_inv_stable conn_inv_mem intro: conn_inv_lookups, simp add: conn_inv_def)

interpretation plain_peer: rpc_peer E Map.empty U V W for E U V W
  by (rule rpc_peer.intro) (rule plain_marshalers)

subsection \<open>A concrete pair of endpoints\<close>

text \<open>A server with one method, which adds one to its argument, to go with \<open>sample_client\<close>.\<close>

definition sample_server_map :: "code_ptr rpc_map" where
  "sample_server_map =
     snd (rpc_map_insert True zero_entry \<lparr>n_entries = 0, n_entries_max = 0, entries = None, destroy_func = NULL\<rparr> 3 17)"

definition sample_server :: rpc_connection where
  "sample_server = (the_connection (rpc_init_server (Some [1]) sample_os))\<lparr>methods := Some sample_server_map\<rparr>"

fun sample_fun :: "unit rpc_arg list \<Rightarrow> unit rpc_arg list" where
  "sample_fun [Int32 v] = [Int32 (v + 1)]"
| "sample_fun as = []"

definition sample_env :: "(rpc_connection, unit) rpc_env" where
  "sample_env = \<lparr>call_send = (\<lambda>_ _. ret ()), call_recv = (\<lambda>_. ret ()),
     call_method = (\<lambda>_. ret RPC_ERROR_MESSAGE_HANDLER_INVALID), call_error = (\<lambda>_ _. ret ())\<rparr>"

definition sample_desc :: rpc_message_descriptor where
  "sample_desc = \<lparr>d_id = 30, d_size = 4, d_send_callback = 1, d_recv_callback = 2\<rparr>"

definition sample_U :: "int \<Rightarrow> unit \<Rightarrow> byte list" where
  "sample_U = (\<lambda>_ _. [])"

definition sample_server_env :: "(rpc_connection, unit) rpc_env" where
  "sample_server_env = sample_env\<lparr>call_method := (\<lambda>_. serve sample_env [P_type RPC_TYPE_INT32] sample_fun)\<rparr>"

text \<open>A handler's own calls do not depend on which handlers are installed.\<close>

lemma error_callback_call_method:
  "rpc_connection_invoke_error_callback (E\<lparr>call_method := g\<rparr>) = rpc_connection_invoke_error_callback E"
  by (rule ext) (simp add: rpc_connection_invoke_error_callback_def)

lemma rpc_error_call_method: "rpc_error (E\<lparr>call_method := g\<rparr>) e = rpc_error E e"
  unfolding rpc_error_def error_callback_call_method ..

lemma or_rpc_error_call_method: "or_rpc_error (E\<lparr>call_method := g\<rparr>) m = or_rpc_error E m"
  by (rule ext) (simp add: or_rpc_error_def rpc_error_call_method split: prod.splits res.splits)

lemma serve_call_method: "serve (E\<lparr>call_method := g\<rparr>) ps f = serve E ps f"
  by (simp add: serve_def rpc_method_get_args_def rpc_method_send_reply_def
      or_rpc_error_call_method fptrs.defs)

lemma sample_handler:
  "call_method sample_server_env 17 = serve sample_server_env [P_type RPC_TYPE_INT32] sample_fun"
  unfolding sample_server_env_def serve_call_method by simp

lemma sample_client_facts:
  "calm sample_client" "rx_queue sample_client = []" "tx_wire sample_client = []"
  "status sample_client = RPC_STATUS_ACTIVE"
  "conn_inv Map.empty Map.empty (frame sample_client) sample_client"
  by (simp_all add: sample_defs calm_def conn_inv_def alloc_ok_def types_are_def methods_are_def empty_map_ok
      connect_first)

lemma sample_server_facts:
  "calm sample_server" "rx_queue sample_server = []" "tx_wire sample_server = []"
  "status sample_server = RPC_STATUS_ACTIVE"
  "conn_inv Map.empty [3 \<mapsto> 17] (frame sample_server) sample_server"
proof -
  have "rpc_map_ok sample_server_map" "rpc_map_abs sample_server_map = [3 \<mapsto> 17]"
    unfolding sample_server_map_def
    using rpc_map_insert_correct(2,3) [OF empty_map_ok(1)] by (simp_all add: empty_map_ok)
  then show "calm sample_server" "rx_queue sample_server = []" "tx_wire sample_server = []"
    "status sample_server = RPC_STATUS_ACTIVE"
    "conn_inv Map.empty [3 \<mapsto> 17] (frame sample_server) sample_server"
    by (simp_all add: sample_server_def sample_defs calm_def conn_inv_def alloc_ok_def types_are_def
        methods_are_def empty_map_ok)
qed

end
