(* ===== verification/Rpc_Safety.thy ===== *)
theory Rpc_Safety
  imports Rpc_Calls
begin

text \<open>
  What holds of the calls of \<^verbatim>\<open>rpc.c\<close> on every path, errors and a misbehaving peer included: which
  parts of a connection an operation leaves alone, that the dispatch loop ends, and that sending
  never writes outside the message buffer.
\<close>

subsection \<open>Frame conditions\<close>

text \<open>
  \<open>keeps g m\<close>: unless it crashes, \<open>m\<close> does not change \<open>g\<close> of the connection. \<open>frugal m\<close>: it does not
  run out of iterations, and the socket holds no more unread bytes afterwards than before.
\<close>

definition keeps :: "('s \<Rightarrow> 'b) \<Rightarrow> ('s, 'a) op \<Rightarrow> bool" where
  "keeps g m \<longleftrightarrow> (\<forall>s r s'. m s = (r, s') \<longrightarrow> (\<forall>c. r \<noteq> Crash c) \<longrightarrow> g s' = g s)"

definition frugal :: "('s \<Rightarrow> nat) \<Rightarrow> ('s, 'a) op \<Rightarrow> bool" where
  "frugal n m \<longleftrightarrow> (\<forall>s r s'. m s = (r, s') \<longrightarrow> r \<noteq> Crash No_return \<and> n s' \<le> n s)"

definition unread :: "rpc_message \<times> 'z io_state_scheme \<Rightarrow> nat" where
  "unread x = length (rx_queue (snd x))"

lemma keeps_basic [simp]: "keeps g (ret x)" "keeps g (fail e)" "keeps g (crash c)" "keeps g (assert_op b)"
  by (auto simp: keeps_def op_simps split: if_splits)

lemma keeps_bind [intro]: "keeps g m \<Longrightarrow> (\<And>x. keeps g (f x)) \<Longrightarrow> keeps g (bind_op m f)"
  unfolding keeps_def bind_op_def by (auto split: prod.splits res.splits)

lemma keeps_then [intro]: "keeps g m \<Longrightarrow> keeps g n \<Longrightarrow> keeps g (then_op m n)"
  unfolding then_op_def by (rule keeps_bind)

lemma keeps_run_all: "(\<And>m. m \<in> set ms \<Longrightarrow> keeps g m) \<Longrightarrow> keeps g (run_all ms)"
  by (induction ms) auto

lemma keeps_on_io: "keeps g m \<Longrightarrow> keeps (g \<circ> snd) (on_io m)"
  by (auto simp: keeps_def on_io_def split: prod.splits)

lemma frugal_basic [simp]:
  "frugal n (ret x)" "frugal n (fail e)" "frugal n (assert_op b)" "c \<noteq> No_return \<Longrightarrow> frugal n (crash c)"
  by (auto simp: frugal_def op_simps split: if_splits)

lemma frugal_bind [intro]:
  assumes "frugal n m" "\<And>x. frugal n (f x)"
  shows "frugal n (bind_op m f)"
  unfolding frugal_def
proof (intro allI impI)
  fix s r s'
  assume b: "bind_op m f s = (r, s')"
  obtain r1 s1 where 1: "m s = (r1, s1)" by fastforce
  with assms(1) have m: "r1 \<noteq> Crash No_return" "n s1 \<le> n s"
    unfolding frugal_def by auto
  show "r \<noteq> Crash No_return \<and> n s' \<le> n s"
  proof (cases r1)
    case (Ok x)
    with b 1 have "f x s1 = (r, s')" by (simp add: bind_op_def)
    with assms(2) [of x] have "r \<noteq> Crash No_return \<and> n s' \<le> n s1"
      unfolding frugal_def by blast
    with m show ?thesis by simp
  qed (use b 1 m in \<open>auto simp: bind_op_def\<close>)
qed

lemma frugal_then [intro]: "frugal n m \<Longrightarrow> frugal n k \<Longrightarrow> frugal n (then_op m k)"
  unfolding then_op_def by (rule frugal_bind)

lemma frugal_run_all: "(\<And>m. m \<in> set ms \<Longrightarrow> frugal n m) \<Longrightarrow> frugal n (run_all ms)"
  by (induction ms) auto

lemma frugal_if: "frugal n m \<Longrightarrow> frugal n k \<Longrightarrow> frugal n (\<lambda>x. if P x then m x else k x)"
  unfolding frugal_def by (simp split: if_split)

lemma frugal_finally: "frugal n m \<Longrightarrow> frugal n f \<Longrightarrow> frugal n (and_finally m f)"
proof -
  assume m: "frugal n m" and f: "frugal n f"
  have "r \<noteq> Crash No_return \<and> n s' \<le> n s" if "and_finally m f s = (r, s')" for s r s'
  proof -
    obtain r1 s1 r2 s2 where 1: "m s = (r1, s1)" "f s1 = (r2, s2)" by fastforce
    with m f have "r1 \<noteq> Crash No_return" "n s1 \<le> n s" "r2 \<noteq> Crash No_return" "n s2 \<le> n s1"
      unfolding frugal_def by blast+
    with that 1 show ?thesis
      by (cases r1; cases r2) (auto simp: and_finally_def)
  qed
  then show ?thesis unfolding frugal_def by blast
qed

subsection \<open>The transfer routines\<close>

lemma recv_bytes_1_unread:
  assumes "rpc_message_recv_bytes_1 k s = (r, s')"
  shows "length (rx_queue s') \<le> length (rx_queue s)" "r \<noteq> Crash c"
    "r = Ok bs \<Longrightarrow> length (rx_queue s') + k = length (rx_queue s) \<and> length bs = k"
proof -
  obtain r0 evs got where l: "recv_loop (rx_script s) (rx_eof s) k (rx_queue s) = (r0, evs, got)"
    by (cases "recv_loop (rx_script s) (rx_eof s) k (rx_queue s)") auto
  note res = recv_loop_result [OF l]
  have "length got \<le> length (rx_queue s)" using res by (simp add: prefix_length_le)
  with assms l res show "length (rx_queue s') \<le> length (rx_queue s)" "r \<noteq> Crash c"
    "r = Ok bs \<Longrightarrow> length (rx_queue s') + k = length (rx_queue s) \<and> length bs = k"
    by (auto simp: rpc_message_recv_bytes_1_def io_failure_def split: res.splits)
qed

lemma recv_int32_unread:
  assumes "rpc_message_recv_int32 x = (r, x')"
  shows "unread x' \<le> unread x" "r \<noteq> Crash c" "r = Ok v \<Longrightarrow> unread x' < unread x"
  using assms recv_bytes_1_unread [of 4 "snd x"]
  by (fastforce simp: rpc_message_recv_int32_def bind_op_def rpc_message_recv_bytes_def on_io_def ret_def
      unread_def split: prod.splits res.splits)+

lemma frugal_recv_int32: "frugal unread rpc_message_recv_int32"
  using recv_int32_unread(1,2) unfolding frugal_def by blast

lemma send_bytes_1_keeps:
  "rpc_message_send_bytes_1 bs s = (r, s') \<Longrightarrow> rx_queue s' = rx_queue s \<and> r \<noteq> Crash c"
  using send_loop_result [of "tx_script s" bs]
  by (auto simp: rpc_message_send_bytes_1_def io_failure_def split: prod.splits)

lemma frugal_flush: "frugal unread rpc_message_flush"
  using send_bytes_1_keeps
  by (fastforce simp: frugal_def rpc_message_flush_def unread_def split: prod.splits)

lemma frugal_send_bytes: "frugal unread (rpc_message_send_bytes bs)"
proof -
  have 1: "frugal unread (on_io (rpc_message_send_bytes_1 bs))"
    using send_bytes_1_keeps by (fastforce simp: frugal_def on_io_def unread_def split: prod.splits)
  have "frugal unread (then_op rpc_message_flush (on_io (rpc_message_send_bytes_1 bs)))"
    using frugal_flush 1 by blast
  moreover have "frugal unread (then_op (memcpy_buffer bs)
      (modify_state (\<lambda>(msg', s'). (msg'\<lparr>msg_offset := msg_offset msg' + length bs\<rparr>, s'))))"
    by (auto simp: frugal_def then_op_def bind_op_def memcpy_buffer_def modify_state_def unread_def
        split: prod.splits if_splits)
  ultimately have "frugal unread (\<lambda>x. if msg_offset (fst x) + length bs \<ge> BUFSIZ
      then then_op rpc_message_flush (on_io (rpc_message_send_bytes_1 bs)) x
      else then_op (memcpy_buffer bs)
        (modify_state (\<lambda>(msg', s'). (msg'\<lparr>msg_offset := msg_offset msg' + length bs\<rparr>, s'))) x)"
    by (rule frugal_if)
  then show ?thesis
    unfolding rpc_message_send_bytes_def by (simp only: case_prod_unfold prod.collapse)
qed

lemma frugal_send_int32: "frugal unread (rpc_message_send_int32 v)"
  unfolding rpc_message_send_int32_def by (rule frugal_send_bytes)

subsection \<open>The dispatch loop ends\<close>

lemma frugal_access:
  "frugal unread (on_io (read_conn f))"
  "(\<And>s. rx_queue (g s) = rx_queue s) \<Longrightarrow> frugal unread (on_io (write_conn g))"
  "frugal unread (on_io (rpc_lookup_callback mid))"
  by (auto simp: frugal_def on_io_def read_conn_def write_conn_def rpc_lookup_callback_def unread_def
      split: prod.splits if_splits option.splits)

text \<open>Handlers that come back and do not make up incoming bytes.\<close>

definition frugal_handlers :: "('z rpc_connection_scheme, 'u, 'y) rpc_env_scheme \<Rightarrow> bool" where
  "frugal_handlers E \<longleftrightarrow> (\<forall>cb. frugal (\<lambda>s. length (rx_queue s)) (call_method E cb))"

lemma frugal_handler: "frugal_handlers E \<Longrightarrow> frugal unread (on_io (call_method E cb))"
  by (fastforce simp: frugal_handlers_def frugal_def on_io_def unread_def split: prod.splits)

lemma frugal_dispatch_1: "frugal_handlers E \<Longrightarrow> frugal unread (rpc_dispatch_1 E)"
  unfolding rpc_dispatch_1_def
  by (intro frugal_bind frugal_recv_int32)
    (auto intro!: frugal_bind frugal_then frugal_access frugal_handler frugal_run_all frugal_send_int32
      frugal_flush split: option.splits)

lemma frugal_dispatch_msg: "frugal_handlers E \<Longrightarrow> frugal unread (rpc_dispatch_msg E)"
  unfolding rpc_dispatch_msg_def
  by (intro frugal_then frugal_finally frugal_dispatch_1 frugal_access) simp_all

text \<open>Code that comes back when fewer than \<open>k\<close> bytes are unread.\<close>

definition ends_below :: "nat \<Rightarrow> (rpc_message \<times> 'z io_state_scheme, 'a) op \<Rightarrow> bool" where
  "ends_below k m \<longleftrightarrow> (\<forall>x. unread x < k \<longrightarrow> fst (m x) \<noteq> Crash No_return)"

lemma frugal_ends: "frugal unread m \<Longrightarrow> ends_below k m"
  unfolding frugal_def ends_below_def by (metis prod.collapse)

lemma ends_belowD: "ends_below k m \<Longrightarrow> unread x < k \<Longrightarrow> fst (m x) \<noteq> Crash No_return"
  by (simp add: ends_below_def del: split_paired_All)

lemma ends_bind:
  assumes "frugal unread m" "\<And>v. ends_below k (f v)"
  shows "ends_below k (bind_op m f)"
  unfolding ends_below_def
proof (intro allI impI)
  fix x :: "rpc_message \<times> 'a io_state_scheme"
  assume lt: "unread x < k"
  obtain r1 x1 where 1: "m x = (r1, x1)" by (cases "m x")
  with assms(1) have "r1 \<noteq> Crash No_return" "unread x1 \<le> unread x"
    unfolding frugal_def by blast+
  with 1 lt assms(2) [THEN ends_belowD, of x1] show "fst (bind_op m f x) \<noteq> Crash No_return"
    by (cases r1) (simp_all add: bind_op_def)
qed

lemma ends_recv:
  assumes "\<And>v. ends_below k (f v)"
  shows "ends_below (Suc k) (bind_op rpc_message_recv_int32 f)"
  unfolding ends_below_def
proof (intro allI impI)
  fix x :: "rpc_message \<times> 'a io_state_scheme"
  assume lt: "unread x < Suc k"
  obtain r1 x1 where 1: "rpc_message_recv_int32 x = (r1, x1)" by (cases "rpc_message_recv_int32 x")
  note recv_int32_unread [OF 1]
  with 1 lt assms [THEN ends_belowD, of x1]
  show "fst (bind_op rpc_message_recv_int32 f x) \<noteq> Crash No_return"
    by (cases r1) (simp_all add: bind_op_def)
qed

lemma frugal_check_code: "frugal n m \<Longrightarrow> frugal n (check_code m)"
  unfolding check_code_def by (auto intro!: frugal_bind)

lemma dispatch_until_loop_ends:
  assumes E: "frugal_handlers E"
  shows "ends_below fuel (dispatch_until_loop E tag fuel)"
proof (induction fuel)
  case 0
  then show ?case by (simp add: ends_below_def)
next
  case (Suc fuel)
  then show ?case
    unfolding dispatch_until_loop.simps
    by (intro ends_recv)
      (auto intro!: ends_bind frugal_access frugal_check_code frugal_dispatch_msg E
        simp: then_op_def frugal_ends)
qed

text \<open>
  The loop that waits for a reply or a synchronisation message ends when the bytes sent so far are
  used up: if the handlers are frugal (each returns, and none adds to the unread bytes),
  \<open>_rpc_dispatch_until\<close> returns, with whatever finite sequence of bytes is unread in the socket and
  whatever the system calls do.
\<close>

theorem rpc_dispatch_until_returns:
  assumes "frugal_handlers E"
  shows "fst (rpc_dispatch_until E tag (msg, s)) \<noteq> Crash No_return"
  using dispatch_until_loop_ends [OF assms, of "Suc (length (rx_queue s))" tag]
  by (auto simp: rpc_dispatch_until_def then_op_def bind_op_def assert_op_def ret_def crash_def ends_below_def
      unread_def simp del: dispatch_until_loop.simps)

theorem rpc_dispatch_until_returns_witness:
  "fst (rpc_dispatch_until sample_env RPC_MESSAGE_REPLY (rpc_message_init, sample_client)) \<noteq> Crash No_return"
proof -
  have "frugal_handlers sample_env"
    by (simp add: frugal_handlers_def sample_env_def)
  then show ?thesis by (rule rpc_dispatch_until_returns)
qed

subsection \<open>The depth of nested dispatches\<close>

lemma keeps_frame_io:
  "keeps (frame \<circ> snd) rpc_message_recv_int32"
  "keeps (frame \<circ> snd) rpc_message_flush"
  "keeps (frame \<circ> snd) (rpc_message_send_bytes bs)"
  by (auto simp: keeps_def rpc_message_recv_int32_def rpc_message_recv_bytes_def on_io_def
      rpc_message_recv_bytes_1_def rpc_message_flush_def rpc_message_send_bytes_1_def frame_def
      rpc_message_send_bytes_def memcpy_buffer_def modify_state_def then_op_def bind_op_def ret_def
      split: prod.splits res.splits if_splits)

lemma keeps_compose: "keeps g m \<Longrightarrow> keeps (h \<circ> g) m"
  by (simp add: keeps_def)

lemma keeps_depth_io:
  "keeps (dispatch_depth \<circ> snd) rpc_message_recv_int32"
  "keeps (dispatch_depth \<circ> snd) rpc_message_flush"
  "keeps (dispatch_depth \<circ> snd) (rpc_message_send_int32 v)"
proof -
  have *: "dispatch_depth \<circ> snd = dispatch_depth \<circ> (frame \<circ> snd)"
    by (rule ext) (simp add: frame_def)
  show "keeps (dispatch_depth \<circ> snd) rpc_message_recv_int32"
    "keeps (dispatch_depth \<circ> snd) rpc_message_flush"
    "keeps (dispatch_depth \<circ> snd) (rpc_message_send_int32 v)"
    unfolding * rpc_message_send_int32_def by (rule keeps_compose, rule keeps_frame_io)+
qed

lemma keeps_depth_lookup: "keeps (dispatch_depth \<circ> snd) (on_io (rpc_lookup_callback mid))"
  by (rule keeps_on_io)
    (auto simp: keeps_def rpc_lookup_callback_def split: if_splits option.splits prod.splits)

lemma keeps_depth_dispatch_1:
  assumes "\<And>cb. keeps dispatch_depth (call_method E cb)"
  shows "keeps (dispatch_depth \<circ> snd) (rpc_dispatch_1 E)"
  unfolding rpc_dispatch_1_def
  by (intro keeps_bind keeps_depth_io)
    (auto intro!: keeps_bind keeps_then keeps_depth_lookup keeps_on_io assms keeps_run_all keeps_depth_io
      split: option.splits)

text \<open>The second access of \<open>_rpc_dispatch\<close> undoes the first whatever the dispatch returns.\<close>

lemma keeps_depth_dispatch_msg:
  assumes "\<And>cb. keeps dispatch_depth (call_method E cb)"
  shows "keeps (dispatch_depth \<circ> snd) (rpc_dispatch_msg E)"
  unfolding keeps_def
proof (intro allI impI)
  fix x r x'
  assume run: "rpc_dispatch_msg E x = (r, x')" and ok: "\<forall>c. r \<noteq> Crash c"
  obtain msg s where x: "x = (msg, s)" by (cases x)
  let ?x1 = "(msg, s\<lparr>dispatch_depth := dispatch_depth s + 1\<rparr>)"
  obtain r1 msg1 s1 where 1: "rpc_dispatch_1 E ?x1 = (r1, (msg1, s1))" by (metis prod.exhaust)
  have "\<not> freed s" using run ok x
    by (auto simp: rpc_dispatch_msg_def then_op_def bind_op_def on_io_def write_conn_def)
  with run x have fin: "and_finally (rpc_dispatch_1 E)
      (on_io (write_conn (\<lambda>s. s\<lparr>dispatch_depth := dispatch_depth s - 1\<rparr>))) ?x1 = (r, x')"
    by (simp add: rpc_dispatch_msg_def then_op_def bind_op_def on_io_def write_conn_def)
  then have "\<forall>c. r1 \<noteq> Crash c" "snd x' = s1\<lparr>dispatch_depth := dispatch_depth s1 - 1\<rparr>"
    using ok 1 by (cases r1; auto simp: and_finally_def on_io_def write_conn_def split: if_splits)+
  with 1 keeps_depth_dispatch_1 [OF assms] show "(dispatch_depth \<circ> snd) x' = (dispatch_depth \<circ> snd) x"
    unfolding keeps_def x by fastforce
qed

text \<open>
  C12. \<open>_rpc_dispatch\<close> restores \<open>dispatch_depth\<close> on every path on which it returns, errors included,
  if the method handlers do: the counter that \<open>rpc_method_invoke_possible\<close> tests never drifts.
\<close>

theorem rpc_dispatch_depth_balanced:
  assumes "\<And>cb. keeps dispatch_depth (call_method E cb)"
    and "rpc_dispatch_msg E (msg, s) = (r, (msg', s'))" "\<And>c. r \<noteq> Crash c"
  shows "dispatch_depth s' = dispatch_depth s"
  using keeps_depth_dispatch_msg [OF assms(1)] assms(2,3) unfolding keeps_def by fastforce

theorem rpc_dispatch_depth_balanced_witness:
  "\<exists>r msg' s'. rpc_dispatch_msg sample_env (rpc_message_init, sample_server) = (r, (msg', s')) \<and>
     dispatch_depth s' = dispatch_depth sample_server"
proof -
  obtain r msg' s' where run: "rpc_dispatch_msg sample_env (rpc_message_init, sample_server) = (r, (msg', s'))"
    by (metis prod.exhaust)
  have keep: "keeps dispatch_depth (call_method sample_env cb)" for cb
    by (simp add: sample_env_def)
  have "\<not> freed sample_server" using sample_server_facts(5) by (simp add: conn_inv_def)
  moreover have "rx_script sample_server = []" "rx_eof sample_server = False"
    by (simp_all add: sample_server_def sample_defs)
  ultimately have "r \<noteq> Crash c" for c
    using run sample_server_facts(2)
    by (auto simp: rpc_dispatch_msg_def rpc_dispatch_1_def then_op_def bind_op_def on_io_def write_conn_def
        and_finally_def rpc_message_recv_int32_def rpc_message_recv_bytes_def rpc_message_recv_bytes_1_def
        split: prod.splits)
  from rpc_dispatch_depth_balanced [OF keep run this] run show ?thesis by blast
qed

subsection \<open>Sending stays inside the buffer\<close>

text \<open>
  C15. Whatever the bytes and the socket do, \<open>rpc_message_send_bytes\<close> on a message whose offset is
  below \<open>BUFSIZ\<close> never writes outside the buffer, reports only I/O errors, and leaves the offset
  below \<open>BUFSIZ\<close> again.
\<close>

theorem rpc_message_send_bytes_in_bounds:
  assumes "msg_offset msg < BUFSIZ" "rpc_message_send_bytes bytes (msg, s) = (r, (msg', s'))"
  shows "(r = Ok () \<or> io_failure r) \<and> msg_offset msg' < BUFSIZ"
proof -
  have raw: "rpc_message_send_bytes_1 bs t = (q, t') \<Longrightarrow> q = Ok () \<or> io_failure q"
    for bs q and t t' :: "'a io_state_scheme"
    using send_loop_result [of "tx_script t" bs]
    by (auto simp: rpc_message_send_bytes_1_def split: prod.splits)
  show ?thesis
  proof (cases "msg_offset msg + length bytes \<ge> BUFSIZ")
    case True
    with assms raw show ?thesis
      by (auto simp: rpc_message_send_bytes_def then_op_def bind_op_def rpc_message_flush_def on_io_def
          BUFSIZ_def io_failure_def split: prod.splits res.splits)
  next
    case False
    with assms show ?thesis
      by (auto simp: rpc_message_send_bytes_def then_op_def bind_op_def memcpy_buffer_def modify_state_def)
  qed
qed

theorem rpc_message_send_bytes_in_bounds_witness:
  "\<exists>r msg' s'. rpc_message_send_bytes [1, 2, 3] (rpc_message_init, sample_io) = (r, (msg', s')) \<and>
     (r = Ok () \<or> io_failure r) \<and> msg_offset msg' < BUFSIZ"
proof -
  obtain r msg' s' where run: "rpc_message_send_bytes [1, 2, 3] (rpc_message_init, sample_io) = (r, (msg', s'))"
    by (metis prod.exhaust)
  have "msg_offset rpc_message_init < BUFSIZ" by (simp add: rpc_message_init_def BUFSIZ_def)
  from rpc_message_send_bytes_in_bounds [OF this run] run show ?thesis by blast
qed

subsection \<open>What a peer can and cannot make the receiver do\<close>

lemma size_of_negative:
  assumes "c_int w < - 1"
  shows "2 ^ 63 \<le> size_of_int32 (w + 1)"
proof -
  have r: "- (2 ^ 31) \<le> c_int w" using sint_greater_eq [of w] by simp
  have "w + 1 = to_int32 (c_int w + 1)" by simp
  then have i: "c_int (w + 1) = c_int w + 1"
    using assms r c_int_to_int32 [of "c_int w + 1"] by simp
  have "(c_int w + 1) mod 2 ^ 64 = c_int w + 1 + 2 ^ 64"
    using assms r mod_pos_pos_trivial [of "c_int w + 1 + 2 ^ 64" "2 ^ 64"]
    unfolding mod_add_self2 by simp
  moreover have "size_of_int32 (w + 1) = nat ((c_int w + 1) mod 2 ^ 64)"
    by (simp only: size_of_int32_def scast_eq i unat_eq_nat_uint uint_word_of_int) simp
  ultimately show ?thesis using r by simp
qed
lemma size_of_small:
  assumes "0 \<le> c_int w" "c_int w < 2 ^ 31 - 1"
  shows "size_of_int32 (w + 1) = nat (c_int w) + 1"
proof -
  have "c_int (w + 1) = c_int w + 1"
    using assms c_int_to_int32 [of "c_int w + 1"] by simp
  then have "scast (w + 1) = (word_of_nat (nat (c_int w) + 1) :: uint64)"
    using assms by (simp only: scast_eq) simp
  then show ?thesis
    using assms by (simp only: size_of_int32_def unat_of_nat) simp
qed

lemma size_of_huge:
  assumes "0 \<le> c_int w" "\<not> c_int w < 2 ^ 31 - 1"
  shows "2 ^ 63 \<le> size_of_int32 (w + 1)"
proof -
  have "c_int w = 2 ^ 31 - 1"
    using assms sint_less [of w] by simp
  then have "w = to_int32 (2 ^ 31 - 1)" by (metis to_int32_c_int)
  then show ?thesis by (simp add: size_of_int32_def)
qed

lemma recv_bytes_no_crash:
  assumes "rpc_message_recv_bytes n x = (r, x')"
  shows "r \<noteq> Crash c \<and> malloc_ok (snd x') = malloc_ok (snd x)"
  using assms recv_bytes_1_unread(2) [of n "snd x"]
  by (fastforce simp: rpc_message_recv_bytes_def on_io_def rpc_message_recv_bytes_1_def
      split: prod.splits)

text \<open>
  C16. A received string never makes the receiver write outside the block it allocated, neither the
  bytes that arrive nor the terminating zero, whatever length the peer announces and however much of
  the string it delivers, as long as \<open>malloc\<close> refuses blocks of \<open>2 ^ 63\<close> bytes and more: lengths below
  \<open>- 1\<close>, and \<open>INT_MAX\<close>, become such a request and are answered with \<open>RPC_ERROR_NO_MEMORY\<close>.
\<close>

theorem rpc_message_recv_string_safe:
  assumes "\<And>n. 2 ^ 63 \<le> n \<Longrightarrow> \<not> malloc_ok s n"
    and "rpc_message_recv_string (msg, s) = (r, (msg', s'))"
  shows "r \<noteq> Crash c"
proof -
  obtain r1 x1 where 1: "rpc_message_recv_bytes 4 (msg, s) = (r1, x1)" by (metis prod.exhaust)
  note one = recv_bytes_no_crash [OF 1]
  show ?thesis
  proof (cases r1)
    case (Ok bs)
    define len where "len = ntohl bs"
    note defs = rpc_message_recv_string_def bind_op_def Let_def len_def [symmetric] then_op_def
      malloc_op_def ret_def
    consider "len = - 1" | "2 ^ 63 \<le> size_of_int32 (len + 1)" "len \<noteq> - 1"
      | "0 \<le> c_int len" "size_of_int32 (len + 1) = nat (c_int len) + 1" "len \<noteq> - 1"
      by (metis linorder_not_le order_less_le sint_n1 to_int32_c_int zle_diff1_eq diff_0
          size_of_negative size_of_huge size_of_small)
    then show ?thesis
    proof cases
      case 2
      with assms(1) one have "\<not> malloc_ok (snd x1) (size_of_int32 (len + 1))" by simp
      with assms(2) Ok 1 2 show ?thesis by (auto simp: defs split: prod.splits)
    next
      case 3
      obtain r2 x2 where 2: "rpc_message_recv_bytes (nat (c_int len)) x1 = (r2, x2)" by (metis prod.exhaust)
      with assms(2) Ok 1 3 recv_bytes_no_crash [OF 2] show ?thesis
        by (cases x1) (auto simp: defs recv_in_block_fits store_byte_inside split: if_splits res.splits)
    qed (use assms(2) Ok 1 in \<open>auto simp: defs\<close>)
  qed (use assms(2) 1 one in \<open>auto simp: rpc_message_recv_string_def bind_op_def\<close>)
qed

theorem rpc_message_recv_string_safe_witness:
  "\<exists>r x. rpc_message_recv_string
      (rpc_message_init, sample_io\<lparr>rx_queue := htonl (- 2), malloc_ok := (\<lambda>n. n < 2 ^ 63)\<rparr>) = (r, x) \<and>
    r \<noteq> Crash Out_of_bounds"
proof -
  obtain r msg' s' where run: "rpc_message_recv_string (rpc_message_init,
      sample_io\<lparr>rx_queue := htonl (- 2), malloc_ok := (\<lambda>n. n < 2 ^ 63)\<rparr>) = (r, (msg', s'))"
    by (metis prod.exhaust)
  have "r \<noteq> Crash Out_of_bounds"
    by (rule rpc_message_recv_string_safe [OF _ run]) simp
  with run show ?thesis by blast
qed

text \<open>
  The type of each argument is checked: if the tag on the wire is not the one the receiver
  expects, \<open>rpc_message_recv_args\<close> returns \<open>RPC_ERROR_MESSAGE_ARGUMENT_MISMATCH\<close> without reading the
  value.
\<close>

theorem rpc_message_recv_args_mismatch:
  assumes "calm s" "io_stable I" "I s" "expected_type p \<noteq> RPC_TYPE_INVALID" "int32_range t"
    and "t \<noteq> expected_type p"
    and "rx_queue s = enc_marker RPC_MESSAGE_ARGS @ enc_marker t @ rest"
  shows "\<exists>s'. rpc_message_recv_args E (p # ps) (msg, s) = (Err RPC_ERROR_MESSAGE_ARGUMENT_MISMATCH, (msg, s')) \<and>
    rx_queue s' = rest"
proof -
  have "reads I (recv_marker RPC_MESSAGE_ARGS) (enc_marker RPC_MESSAGE_ARGS) ()"
    using assms(2) by (rule reads_marker) (simp add: int32_range_def)
  with assms obtain s1 where 1: "recv_marker RPC_MESSAGE_ARGS (msg, s) = (Ok (), (msg, s1))"
    "calm s1" "I s1" "rx_queue s1 = enc_marker t @ rest"
    unfolding reads_def by metis
  have "reads I rpc_message_recv_int32 (enc_marker t) (to_int32 t)"
    unfolding enc_marker_def using assms(2) by (rule reads_int32)
  with 1 obtain s2 where "rpc_message_recv_int32 (msg, s1) = (Ok (to_int32 t), (msg, s2))"
    "rx_queue s2 = rest"
    unfolding reads_def by metis
  with 1 assms(4-6) show ?thesis
    by (simp add: rpc_message_recv_args_def then_op_def bind_op_def int32_range_c_int fail_def)
qed

theorem rpc_message_recv_args_mismatch_witness:
  "\<exists>s'. rpc_message_recv_args (fptrs.truncate sample_env) [P_type RPC_TYPE_STRING] (rpc_message_init,
      sample_client\<lparr>rx_queue := enc_marker RPC_MESSAGE_ARGS @ enc_marker RPC_TYPE_INT32 @ [1]\<rparr>) =
      (Err RPC_ERROR_MESSAGE_ARGUMENT_MISMATCH, (rpc_message_init, s')) \<and> rx_queue s' = [1]"
  by (rule rpc_message_recv_args_mismatch [where I = "\<lambda>_. True" and t = RPC_TYPE_INT32])
    (use sample_client_facts(1) in \<open>simp_all add: io_stable_def int32_range_def calm_def\<close>)

text \<open>
  The block for an array of a user-defined type is computed in 32 bits: when the product of the
  announced length and the size of an element wraps around, and the peer delivers one element more
  than the block holds, that element is stored outside it.
\<close>

lemma elements_overflow:
  assumes "\<And>u. u \<in> set us \<Longrightarrow> reads I (call_recv E (d_recv_callback d)) (enc u) (view u)"
    and "length us = Suc k" "i + k < n" "\<And>j. j < k \<Longrightarrow> (i + j) * d_size d + d_size d \<le> block"
    and "block < (i + k) * d_size d + d_size d"
    and "calm s" "I s" "rx_queue s = concat (map enc us) @ rest"
  shows "fst (collect_all (map (recv_element E d block) [i..<n]) (msg, s)) = Crash Out_of_bounds"
  using assms
proof (induction k arbitrary: us i s)
  case 0
  then obtain u where u: "us = [u]" by (auto simp: length_Suc_conv)
  with 0 obtain s1 where "call_recv E (d_recv_callback d) (msg, s) = (Ok (view u), (msg, s1))"
    unfolding reads_def by (metis append_Nil2 concat.simps list.set_intros(1) list.simps(8,9))
  with 0 show ?case
    by (simp add: upt_conv_Cons bind_op_def recv_element_def crash_def)
next
  case (Suc k)
  then obtain u us' where u: "us = u # us'" by (cases us) auto
  with Suc.prems have "reads I (call_recv E (d_recv_callback d)) (enc u) (view u)" by simp
  moreover have "rx_queue s = enc u @ concat (map enc us') @ rest" using Suc.prems(8) u by simp
  ultimately obtain s1 where s1: "call_recv E (d_recv_callback d) (msg, s) = (Ok (view u), (msg, s1))"
    "calm s1" "I s1" "rx_queue s1 = concat (map enc us') @ rest"
    using Suc.prems(6,7) unfolding reads_def by metis
  have "recv_element E d block i = call_recv E (d_recv_callback d)"
    using Suc.prems(4) [of 0] by (simp add: recv_element_inside)
  moreover have "fst (collect_all (map (recv_element E d block) [Suc i..<n]) (msg, s1)) = Crash Out_of_bounds"
    by (rule Suc.IH [of us']) (use Suc.prems(1-5) Suc.prems(4) [of "Suc _"] u s1 in auto)
  moreover have "[i..<n] = i # [Suc i..<n]" using Suc.prems(3) by (simp add: upt_conv_Cons)
  ultimately show ?case
    using s1(1) by (auto simp: bind_op_def split: prod.splits)
qed

theorem recv_user_array_overflow:
  assumes "user_marshalers I E T U V W" "calm s" "I s" "T t = Some d" "list_all (W t) us"
    and "2 ^ 32 \<le> n * d_size d" "length us = (n * d_size d) mod 2 ^ 32 div d_size d + 1"
    and "rx_queue s = concat (map (U t) us) @ rest"
  shows "fst (recv_user_array E t n (msg, s)) = Crash Out_of_bounds"
proof -
  let ?size = "d_size d" and ?block = "(n * d_size d) mod 2 ^ 32"
  let ?k = "?block div ?size"
  note laws = assms(1)
  have size: "0 < ?size" using assms(6) by (cases "?size") simp_all
  have "?block < n * ?size"
    by (rule less_le_trans [OF _ assms(6)]) simp
  then have k: "?k < n" using size by (simp add: less_mult_imp_div_less)
  have room: "j * ?size + ?size \<le> ?block" if "j < ?k" for j
  proof -
    have "Suc j * ?size \<le> ?k * ?size" using that by (intro mult_le_mono1) simp
    also have "\<dots> \<le> ?block" by simp
    finally show ?thesis by simp
  qed
  have over: "?block < ?k * ?size + ?size"
    using size by (metis add.commute mod_div_mult_eq mod_less_divisor nat_add_left_cancel_less add.commute)
  obtain s1 where s1: "rpc_message_descriptor_lookup t (msg, s) = (Ok (Some d), (msg, s1))"
    "I s1" "calm s1" "rx_queue s1 = concat (map (U t) us) @ rest"
    using user_marshalers.lookup_desc [OF laws assms(3,4)] assms(2,8) by metis
  have "malloc_ok s1 ?block"
    using user_marshalers.memory [OF laws s1(2)] by (simp add: mem_ok_def)
  moreover have "fst (collect_all (map (recv_element E d ?block) [0..<n]) (msg, s1)) = Crash Out_of_bounds"
    by (rule elements_overflow [where I = I and us = us and enc = "U t" and view = "V t" and k = ?k])
      (use marshaler.recv_law [OF user_marshalers.user [OF laws assms(4)]] assms(5,7) k room over s1
        in \<open>auto simp: list_all_iff\<close>)
  ultimately show ?thesis
    using s1(1) by (auto simp: recv_user_array_def bind_op_def Let_def then_op_def malloc_op_def
        split: prod.splits)
qed

text \<open>
  The failure report of a dispatching endpoint is not understood by the caller: after a handler
  that failed with one of the high-level codes, the endpoint sends \<open>MESSAGE_FAILURE\<close> and the code, and
  a caller waiting for its reply that reads this tag gives up with
  \<open>RPC_ERROR_MESSAGE_TYPE_INVALID\<close>, leaving the reported code unread.
\<close>

theorem failure_not_understood:
  assumes "calm s" "conn_inv T M F s"
    and "rx_queue s = enc_marker RPC_MESSAGE_FAILURE @ enc_marker code @ rest"
  shows "\<exists>s'. rpc_dispatch_until E RPC_MESSAGE_REPLY (msg, s) = (Err RPC_ERROR_MESSAGE_TYPE_INVALID, (msg, s')) \<and>
    rx_queue s' = enc_marker code @ rest"
proof -
  have "reads (conn_inv T M F) rpc_message_recv_int32 (enc_marker RPC_MESSAGE_FAILURE)
      (to_int32 RPC_MESSAGE_FAILURE)"
    unfolding enc_marker_def by (rule reads_int32 [OF conn_inv_stable])
  with assms obtain s1 where 1: "rpc_message_recv_int32 (msg, s) = (Ok (to_int32 RPC_MESSAGE_FAILURE), (msg, s1))"
    "rx_queue s1 = enc_marker code @ rest"
    unfolding reads_def by metis
  have "c_int (to_int32 RPC_MESSAGE_FAILURE) = RPC_MESSAGE_FAILURE"
    by (rule int32_range_c_int) (simp add: int32_range_def)
  with 1 show ?thesis
    by (simp add: rpc_dispatch_until_def assert_op_def bind_op_def fail_def)
qed

theorem failure_not_understood_witness:
  "\<exists>s'. rpc_dispatch_until sample_env RPC_MESSAGE_REPLY (rpc_message_init, sample_client\<lparr>rx_queue :=
       enc_marker RPC_MESSAGE_FAILURE @ enc_marker RPC_ERROR_NO_MEMORY @ []\<rparr>) =
     (Err RPC_ERROR_MESSAGE_TYPE_INVALID, (rpc_message_init, s')) \<and>
     rx_queue s' = enc_marker RPC_ERROR_NO_MEMORY @ []"
  by (rule failure_not_understood [OF _ conjunct2 [OF conn_inv_deliver [OF sample_client_facts(1,5)]]])
    (use conn_inv_deliver [OF sample_client_facts(1,5)] in simp_all)

end
