(* ===== verification/Rpc_Typed.thy ===== *)
theory Rpc_Typed
  imports Rpc_Safety
begin

text \<open>
  What a receiver may rely on: whatever bytes come in, arguments that are received have the types the
  receiver asked for, and arrays the number of elements they are said to have. The type of the elements
  of an array is the sender's word.
\<close>

text \<open>\<open>m\<close> only ever returns values that have \<open>P\<close>.\<close>

definition returns :: "('a \<Rightarrow> bool) \<Rightarrow> ('s, 'a) op \<Rightarrow> bool" where
  "returns P m \<longleftrightarrow> (\<forall>s v s'. m s = (Ok v, s') \<longrightarrow> P v)"

lemma returns_any: "returns (\<lambda>_. True) m"
  by (simp add: returns_def)

lemma returns_ret: "P x \<Longrightarrow> returns P (ret x)"
  by (simp add: returns_def ret_def)

lemma returns_stop: "returns P (fail e)" "returns P (crash c)"
  by (simp_all add: returns_def fail_def crash_def)

lemma returns_bind: "returns Q m \<Longrightarrow> (\<And>x. Q x \<Longrightarrow> returns P (f x)) \<Longrightarrow> returns P (bind_op m f)"
  unfolding returns_def bind_op_def by (fastforce split: prod.splits res.splits)

lemma returns_bind_any: "(\<And>x. returns P (f x)) \<Longrightarrow> returns P (bind_op m f)"
  by (rule returns_bind [OF returns_any])

lemma returns_then: "returns P n \<Longrightarrow> returns P (then_op m n)"
  unfolding then_op_def by (rule returns_bind_any)

lemma returns_if: "(b \<Longrightarrow> returns P m) \<Longrightarrow> (\<not> b \<Longrightarrow> returns P n) \<Longrightarrow> returns P (if b then m else n)"
  by simp

lemma returns_assert: "(b \<Longrightarrow> returns P n) \<Longrightarrow> returns P (then_op (assert_op b) n)"
  by (auto simp: returns_def then_op_def bind_op_def assert_apply)

lemma returns_collect: "returns (\<lambda>xs. length xs = length ms) (collect_all ms)"
proof (induction ms)
  case (Cons m ms)
  then show ?case
    unfolding collect_all.simps by (intro returns_bind_any returns_bind [OF Cons.IH] returns_ret) simp
qed (simp add: returns_ret)

lemma returns_counted: "returns (\<lambda>bs. length bs = unat n) (recv_counted n)"
  using recv_bytes_1_unread(3)
  by (fastforce simp: returns_def recv_counted_def rpc_message_recv_bytes_def on_io_def crash_def split: prod.splits)

text \<open>An array with as many elements as its count says; \<open>NULL\<close> may have any count.\<close>

fun well_counted :: "'u rpc_arg \<Rightarrow> bool" where
  "well_counted (Array n (C_null t)) = True"
| "well_counted (Array n a) = (0 < n \<and> array_length a = unat n)"
| "well_counted a = True"

lemma well_counted_array: "0 < n \<Longrightarrow> array_length a = unat n \<Longrightarrow> well_counted (Array n a)"
  by (cases a) simp_all

lemma returns_collected:
  assumes "length ms = n" "\<And>xs. array_length (f xs) = length xs"
  shows "returns (\<lambda>a. array_length a = n) (bind_op (collect_all ms) (\<lambda>xs. ret (f xs)))"
  by (rule returns_bind [OF returns_collect returns_ret]) (simp add: assms)

lemma returns_user_array: "returns (\<lambda>a. array_length a = n) (recv_user_array E t n)"
  unfolding recv_user_array_def
  by (intro returns_bind_any) (auto intro!: returns_stop returns_then returns_collected simp: Let_def split: option.split)

lemma returns_elements: "n < 2 ^ 32 \<Longrightarrow> returns (\<lambda>a. array_length a = n) (recv_elements E t n)"
proof -
  assume n: "n < 2 ^ 32"
  have "returns (\<lambda>a. array_length a = n) (bind_op (recv_counted (word_of_nat n)) (\<lambda>xs. ret (C_char xs)))"
    by (rule returns_bind [OF returns_counted returns_ret]) (use n in \<open>simp add: unat_of_nat\<close>)
  then show ?thesis
    unfolding recv_elements_def
    by (intro returns_if returns_then returns_collected returns_user_array) simp_all
qed

lemma returns_array: "returns (\<lambda>a. arg_type a = RPC_TYPE_ARRAY \<and> well_counted a) (recv_array E)"
  unfolding recv_array_def
proof (rule returns_bind_any, rule returns_bind_any, rule returns_bind_any, intro returns_if returns_assert)
  fix t n assume "(0 :: uint32) < n"
  then show "returns (\<lambda>a. arg_type a = RPC_TYPE_ARRAY \<and> well_counted a)
      (bind_op (recv_elements E (c_int t) (unat n)) (\<lambda>a. ret (Array n a)))"
    by (intro returns_bind [OF returns_elements] returns_ret)
      (use unsigned_less [of n] in \<open>auto intro: well_counted_array\<close>)
qed (simp add: returns_ret)

lemma returns_arg: "returns (\<lambda>a. arg_type a = t \<and> well_counted a) (recv_arg E t)"
proof -
  have "t = RPC_TYPE_ARRAY \<Longrightarrow> returns (\<lambda>a. arg_type a = t \<and> well_counted a) (recv_array E)"
    using returns_array [of E] by simp
  then show ?thesis
    unfolding recv_arg_def by (intro returns_if returns_bind_any returns_ret) simp_all
qed

lemma returns_args_loop:
  "returns (\<lambda>as. map arg_type as = map expected_type (takeWhile (\<lambda>p. expected_type p \<noteq> RPC_TYPE_INVALID) ps) \<and>
     list_all well_counted as) (recv_args_loop E k ps)"
proof (induction ps arbitrary: k)
  case Nil
  show ?case unfolding recv_args_loop.simps by (intro returns_if returns_then returns_ret) simp_all
next
  case (Cons p ps)
  have "returns (\<lambda>as. map arg_type as = expected_type p # map expected_type (takeWhile (\<lambda>p. expected_type p \<noteq> RPC_TYPE_INVALID) ps) \<and>
      list_all well_counted as) (bind_op (recv_arg E (c_int t)) (\<lambda>a. bind_op (recv_args_loop E (k + 1) ps) (\<lambda>as. ret (a # as))))"
    if "c_int t = expected_type p" for t
    by (rule returns_bind [OF returns_arg returns_bind [OF Cons.IH returns_ret]]) (simp add: that)
  then show ?case
    by (cases "expected_type p = RPC_TYPE_INVALID")
      (auto intro!: returns_then returns_bind_any returns_stop returns_ret)
qed

text \<open>
  C34. Received arguments are typed, whatever the sender sent: when \<open>rpc_message_recv_args\<close> returns
  arguments at all, they are exactly of the types asked for, in order, up to \<open>RPC_TYPE_INVALID\<close>, and every
  array that is not \<open>NULL\<close> has a positive count and that many elements.
\<close>

theorem rpc_message_recv_args_typed:
  assumes "rpc_message_recv_args E ps (msg, s) = (Ok as, s')"
  shows "map arg_type as = map expected_type (takeWhile (\<lambda>p. expected_type p \<noteq> RPC_TYPE_INVALID) ps) \<and>
    list_all well_counted as"
  using returns_args_loop [of ps E 0] assms unfolding returns_def rpc_message_recv_args_def by blast

text \<open>Bytes that say "an array of two characters" where an array of integers was asked for.\<close>

theorem rpc_message_recv_args_typed_witness:
  "\<exists>(s :: rpc_connection) as s'. rpc_message_recv_args (fptrs.truncate sample_env) [P_array RPC_TYPE_INT32]
     (rpc_message_init, s) = (Ok as, s') \<and> map arg_type as = [RPC_TYPE_ARRAY] \<and> as = [Array 2 (C_char [7, 8])]"
proof -
  let ?as = "[Array 2 (C_char [7, 8])] :: unit rpc_arg list"
  have "types_inv Map.empty sample_client"
    using sample_client_facts(5) by (simp add: types_inv_def conn_inv_def mem_ok_def alloc_ok_def)
  moreover have "list_all (wf_arg Map.empty (\<lambda>_ _. True)) ?as"
    by (simp add: wf_array_def int32_range_def)
  ultimately obtain s :: rpc_connection and s' where
    "rpc_message_recv_args (fptrs.truncate sample_env) (map param_of ?as) (rpc_message_init, s) = (Ok ?as, s')"
    using reads_delivered [OF types_inv_stable plain.reads_args [of "\<lambda>_ _. True" ?as "fptrs.truncate sample_env"
          "\<lambda>_ _. []" "\<lambda>_ u. u"] sample_client_facts(1), of rpc_message_init "[]"]
    by (auto simp: view_array_def is_null_array_def)
  then have run: "rpc_message_recv_args (fptrs.truncate sample_env) [P_array RPC_TYPE_INT32] (rpc_message_init, s) = (Ok ?as, s')"
    by (simp add: rpc_message_recv_args_def)
  from rpc_message_recv_args_typed [OF run] have "map arg_type ?as = [RPC_TYPE_ARRAY]" by simp
  with run show ?thesis by (intro exI [of _ s] exI [of _ ?as] exI [of _ s'] conjI) simp_all
qed

end
