(* ===== verification/Np_Names.thy ===== *)
theory Np_Names
  imports Npw_Prelude
begin

text \<open>
  The names \<^verbatim>\<open>utils.c\<close> prints for NPAPI codes. Each function is a \<open>switch\<close> whose labels come from
  \<^verbatim>\<open>npapi.h\<close> and \<^verbatim>\<open>X.h\<close>, written as the list of its cases.
\<close>

definition switch_name :: "(int \<times> string) list \<Rightarrow> string \<Rightarrow> int \<Rightarrow> string" where
  "switch_name labels other v = (case map_of labels v of Some name \<Rightarrow> name | None \<Rightarrow> other)"

text \<open>\<open>NPError\<close> and \<open>NPReason\<close> are 16-bit signed integers, to which the argument is cast.\<close>

definition to_int16 :: "int \<Rightarrow> int" where
  "to_int16 i = signed_take_bit 15 i"

definition string_of_NPError :: "int \<Rightarrow> string" where
  "string_of_NPError error = switch_name
     [(0, ''NPERR_NO_ERROR''), (1, ''NPERR_GENERIC_ERROR''),
      (2, ''NPERR_INVALID_INSTANCE_ERROR''), (3, ''NPERR_INVALID_FUNCTABLE_ERROR''),
      (4, ''NPERR_MODULE_LOAD_FAILED_ERROR''), (5, ''NPERR_OUT_OF_MEMORY_ERROR''),
      (6, ''NPERR_INVALID_PLUGIN_ERROR''), (7, ''NPERR_INVALID_PLUGIN_DIR_ERROR''),
      (8, ''NPERR_INCOMPATIBLE_VERSION_ERROR''), (9, ''NPERR_INVALID_PARAM''),
      (10, ''NPERR_INVALID_URL''), (11, ''NPERR_FILE_NOT_FOUND''), (12, ''NPERR_NO_DATA''),
      (13, ''NPERR_STREAM_NOT_SEEKABLE''), (14, ''NPERR_TIME_RANGE_NOT_SUPPORTED''),
      (15, ''NPERR_MALFORMED_SITE'')]
     ''<unknown error>'' (to_int16 error)"

definition string_of_NPReason :: "int \<Rightarrow> string" where
  "string_of_NPReason reason = switch_name
     [(0, ''NPRES_DONE''), (1, ''NPRES_NETWORK_ERR''), (2, ''NPRES_USER_BREAK'')]
     ''<unknown reason>'' (to_int16 reason)"

definition string_of_NPStreamType :: "int \<Rightarrow> string" where
  "string_of_NPStreamType stype = switch_name
     [(1, ''NP_NORMAL''), (2, ''NP_SEEK''), (3, ''NP_ASFILE''), (4, ''NP_ASFILEONLY'')]
     ''<unknown stream type>'' stype"

definition string_of_NPEvent_type :: "int \<Rightarrow> string" where
  "string_of_NPEvent_type type = switch_name
     [(2, ''KeyPress''), (3, ''KeyRelease''), (4, ''ButtonPress''), (5, ''ButtonRelease''),
      (6, ''MotionNotify''), (7, ''EnterNotify''), (8, ''LeaveNotify''), (9, ''FocusIn''),
      (10, ''FocusOut''), (11, ''KeymapNotify''), (12, ''Expose''), (13, ''GraphicsExpose''),
      (14, ''NoExpose''), (15, ''VisibilityNotify''), (16, ''CreateNotify''),
      (17, ''DestroyNotify''), (18, ''UnmapNotify''), (19, ''MapNotify''),
      (20, ''MapRequest''), (21, ''ReparentNotify''), (22, ''ConfigureNotify''),
      (23, ''ConfigureRequest''), (24, ''GravityNotify''), (25, ''ResizeRequest''),
      (26, ''CirculateNotify''), (27, ''CirculateRequest''), (28, ''PropertyNotify''),
      (29, ''SelectionClear''), (30, ''SelectionRequest''), (31, ''SelectionNotify''),
      (32, ''ColormapNotify''), (33, ''ClientMessage''), (34, ''MappingNotify'')]
     ''<unknown type>'' type"

text \<open>Variables are looked up as they are and then by their low byte, without the ABI mask.\<close>

definition string_of_NPPVariable :: "int \<Rightarrow> string" where
  "string_of_NPPVariable variable = switch_name
     [(1, ''NPPVpluginNameString''), (2, ''NPPVpluginDescriptionString''),
      (3, ''NPPVpluginWindowBool''), (4, ''NPPVpluginTransparentBool''),
      (5, ''NPPVjavaClass''), (6, ''NPPVpluginWindowSize''), (7, ''NPPVpluginTimerInterval''),
      (268435466, ''NPPVpluginScriptableInstance''), (11, ''NPPVpluginScriptableIID''),
      (12, ''NPPVjavascriptPushCallerBool''), (13, ''NPPVpluginKeepLibraryInMemory''),
      (14, ''NPPVpluginNeedsXEmbed''), (15, ''NPPVpluginScriptableNPObject''),
      (16, ''NPPVformValue''), (17, ''NPPVpluginUrlRequestsDisplayedBool''),
      (18, ''NPPVpluginWantsAllNetworkStreams''),
      (19, ''NPPVpluginNativeAccessibleAtkPlugId''), (20, ''NPPVpluginCancelSrcStream''),
      (21, ''NPPVsupportsAdvancedKeyHandling''), (22, ''NPPVpluginUsesDOMForCursorBool'')]
     (switch_name [(10, ''NPPVpluginScriptableInstance'')] ''<unknown variable>'' (variable AND 255)) variable"

definition string_of_NPNVariable :: "int \<Rightarrow> string" where
  "string_of_NPNVariable variable = switch_name
     [(1, ''NPNVxDisplay''), (2, ''NPNVxtAppContext''), (3, ''NPNVnetscapeWindow''),
      (4, ''NPNVjavascriptEnabledBool''), (5, ''NPNVasdEnabledBool''),
      (6, ''NPNVisOfflineBool''), (268435466, ''NPNVserviceManager''),
      (268435467, ''NPNVDOMElement''), (268435468, ''NPNVDOMWindow''),
      (268435469, ''NPNVToolkit''), (14, ''NPNVSupportsXEmbedBool''),
      (15, ''NPNVWindowNPObject''), (16, ''NPNVPluginElementNPObject''),
      (17, ''NPNVSupportsWindowless''), (18, ''NPNVprivateModeBool''),
      (21, ''NPNVsupportsAdvancedKeyHandling''), (22, ''NPNVdocumentOrigin'')]
     (switch_name [(10, ''NPNVserviceManager''), (11, ''NPNVDOMElement''), (12, ''NPNVDOMWindow''),
        (13, ''NPNVToolkit'')] ''<unknown variable>'' (variable AND 255)) variable"

definition string_of_NPNURLVariable :: "int \<Rightarrow> string" where
  "string_of_NPNURLVariable variable = switch_name
     [(501, ''NPNURLVCookie''), (502, ''NPNURLVProxy'')] ''<unknown variable>'' variable"

definition string_of_NPWindowType :: "int \<Rightarrow> string" where
  "string_of_NPWindowType type = switch_name
     [(1, ''NPWindowTypeWindow''), (2, ''NPWindowTypeDrawable'')] ''<unknown type>'' type"

text \<open>
  The name of a browser variable does not depend on the ABI bits: a variable whose low byte is one of
  the four codes that carry the mask has the name of that code, whatever its other bits.
\<close>

theorem string_of_NPNVariable_abi:
  assumes "code \<in> {10, 11, 12, 13}" "variable AND 255 = code"
  shows "string_of_NPNVariable variable = string_of_NPNVariable code"
  using assms by (auto simp: string_of_NPNVariable_def switch_name_def)

theorem string_of_NPNVariable_abi_witness:
  "string_of_NPNVariable (2 ^ 24 + 13) = string_of_NPNVariable 13 \<and> string_of_NPNVariable 13 = ''NPNVToolkit''"
  using string_of_NPNVariable_abi [of 13 "2 ^ 24 + 13"]
  by (simp add: string_of_NPNVariable_def switch_name_def)

end
