(* ===== verification/Np_Ids.thy ===== *)
theory Np_Ids
  imports Npw_Prelude
begin

text \<open>
  Hash tables and the identifier table of \<^verbatim>\<open>utils.c\<close>. GLib's \<open>GHashTable\<close> is a parameter of the
  model: a record of its operations on keys and values that are pointers (compared as such, which is
  what \<open>g_hash_table_new (NULL, NULL)\<close> asks for). What the code relies on is the locale
  \<open>hash_table\<close>.
\<close>

subsection \<open>Hash tables\<close>

record 'h ghash =
  gh_new :: 'h
  gh_insert :: "cptr \<Rightarrow> cptr \<Rightarrow> 'h \<Rightarrow> 'h"
  gh_remove :: "cptr \<Rightarrow> 'h \<Rightarrow> bool \<times> 'h"
  gh_lookup :: "cptr \<Rightarrow> 'h \<Rightarrow> cptr"
  gh_contains :: "cptr \<Rightarrow> 'h \<Rightarrow> bool"
  gh_find :: "(cptr \<Rightarrow> cptr \<Rightarrow> bool) \<Rightarrow> 'h \<Rightarrow> (cptr \<times> cptr) option"
  gh_entries :: "'h \<Rightarrow> (cptr \<times> cptr) list"

text \<open>
  The documented behaviour, over the finite map \<open>tbl h\<close> a table stands for: a missing key is looked
  up as \<open>NULL\<close>, \<open>g_hash_table_remove\<close> tells whether the key was there, and \<open>g_hash_table_find\<close>
  finds an entry for which the predicate holds if there is one. \<open>gh_entries\<close> are the entries in the
  order in which \<open>g_hash_table_foreach\<close> visits them.
\<close>

locale hash_table =
  fixes G :: "'h ghash"
    and tbl :: "'h \<Rightarrow> cptr \<Rightarrow> cptr option"
  assumes new_law: "tbl (gh_new G) = Map.empty"
    and insert_law: "tbl (gh_insert G k v h) = (tbl h)(k \<mapsto> v)"
    and remove_law: "gh_remove G k h = (b, h') \<Longrightarrow> (b \<longleftrightarrow> tbl h k \<noteq> None) \<and> tbl h' = (tbl h)(k := None)"
    and lookup_law: "gh_lookup G k h = (case tbl h k of None \<Rightarrow> 0 | Some v \<Rightarrow> v)"
    and contains_law: "gh_contains G k h \<longleftrightarrow> tbl h k \<noteq> None"
    and find_Some: "gh_find G P h = Some (k, v) \<Longrightarrow> tbl h k = Some v \<and> P k v"
    and find_None: "gh_find G P h = None \<Longrightarrow> tbl h k = Some v \<Longrightarrow> \<not> P k v"
    and entries_law: "map_of (gh_entries G h) = tbl h" "distinct (map fst (gh_entries G h))"

text \<open>Tables as lists of entries.\<close>

definition alist_hash :: "(cptr \<times> cptr) list ghash" where
  "alist_hash = \<lparr>gh_new = [],
     gh_insert = (\<lambda>k v h. (k, v) # h),
     gh_remove = (\<lambda>k h. (map_of h k \<noteq> None, filter (\<lambda>(k', v). k' \<noteq> k) h)),
     gh_lookup = (\<lambda>k h. case map_of h k of None \<Rightarrow> 0 | Some v \<Rightarrow> v),
     gh_contains = (\<lambda>k h. map_of h k \<noteq> None),
     gh_find = (\<lambda>P h. List.find (\<lambda>(k, v). map_of h k = Some v \<and> P k v) h),
     gh_entries = (\<lambda>h. map (\<lambda>k. (k, the (map_of h k))) (remdups (map fst h)))\<rparr>"

lemma map_of_filter_key: "map_of (filter (\<lambda>(k', v). k' \<noteq> k) h) = (map_of h)(k := None)"
  by (induction h) (auto simp: fun_eq_iff)

interpretation alist: hash_table alist_hash map_of
proof
  fix P :: "cptr \<Rightarrow> cptr \<Rightarrow> bool" and h k v
  show "gh_find alist_hash P h = Some (k, v) \<Longrightarrow> map_of h k = Some v \<and> P k v"
    by (auto simp: alist_hash_def find_Some_iff case_prod_unfold) (metis fst_conv snd_conv)+
  show "gh_find alist_hash P h = None \<Longrightarrow> map_of h k = Some v \<Longrightarrow> \<not> P k v"
    by (auto simp: alist_hash_def find_None_iff dest: map_of_SomeD)
  show "map_of (gh_entries alist_hash h) = map_of h"
    by (auto simp: alist_hash_def map_of_map_restrict restrict_map_def fun_eq_iff comp_def map_of_eq_None_iff)
      (metis map_of_eq_None_iff not_None_eq option.sel)
  show "distinct (map fst (gh_entries alist_hash h))"
    by (simp add: alist_hash_def comp_def)
qed (auto simp: alist_hash_def map_of_filter_key)

text \<open>The operations on a table pointer: GLib's argument checks answer a \<open>NULL\<close> table.\<close>

definition tab_lookup :: "'h ghash \<Rightarrow> cptr \<Rightarrow> 'h option \<Rightarrow> cptr" where
  "tab_lookup G k t = (case t of None \<Rightarrow> 0 | Some h \<Rightarrow> gh_lookup G k h)"

definition tab_contains :: "'h ghash \<Rightarrow> cptr \<Rightarrow> 'h option \<Rightarrow> bool" where
  "tab_contains G k t = (case t of None \<Rightarrow> False | Some h \<Rightarrow> gh_contains G k h)"

definition tab_insert :: "'h ghash \<Rightarrow> cptr \<Rightarrow> cptr \<Rightarrow> 'h option \<Rightarrow> 'h option" where
  "tab_insert G k v t = map_option (gh_insert G k v) t"

definition tab_remove :: "'h ghash \<Rightarrow> cptr \<Rightarrow> 'h option \<Rightarrow> bool \<times> 'h option" where
  "tab_remove G k t =
     (case t of None \<Rightarrow> (False, None) | Some h \<Rightarrow> (case gh_remove G k h of (b, h') \<Rightarrow> (b, Some h')))"

subsection \<open>The identifier table\<close>

text \<open>The static variables \<open>g_ids\<close> and \<open>id\<close>.\<close>

record 'h id_table =
  g_ids :: "'h option"
  last_id :: int32

definition id_key :: "uint32 \<Rightarrow> cptr" where
  "id_key i = ucast i"

definition id_init :: "'h ghash \<Rightarrow> 'h id_table \<Rightarrow> bool \<times> 'h id_table" where
  "id_init G t =
     (let t' = (if g_ids t = None then t\<lparr>g_ids := Some (gh_new G)\<rparr> else t)
      in (g_ids t' \<noteq> None, t'))"

definition id_kill :: "'h id_table \<Rightarrow> 'h id_table" where
  "id_kill t = t\<lparr>g_ids := None\<rparr>"

definition id_link :: "'h ghash \<Rightarrow> int32 \<Rightarrow> cptr \<Rightarrow> 'h id_table \<Rightarrow> 'h id_table" where
  "id_link G i p t = t\<lparr>g_ids := tab_insert G (id_key i) p (g_ids t)\<rparr>"

definition id_create :: "'h ghash \<Rightarrow> cptr \<Rightarrow> 'h id_table \<Rightarrow> int32 \<times> 'h id_table" where
  "id_create G p t =
     (let i = last_id t + 1 in (i, id_link G i p (t\<lparr>last_id := i\<rparr>)))"

definition id_remove :: "'h ghash \<Rightarrow> int32 \<Rightarrow> 'h id_table \<Rightarrow> bool \<times> 'h id_table" where
  "id_remove G i t = (case tab_remove G (id_key i) (g_ids t) of (b, g) \<Rightarrow> (b, t\<lparr>g_ids := g\<rparr>))"

definition id_lookup :: "'h ghash \<Rightarrow> int32 \<Rightarrow> 'h id_table \<Rightarrow> cptr" where
  "id_lookup G i t = tab_lookup G (id_key i) (g_ids t)"

text \<open>
  The search stores the key it finds, cut to an \<open>int\<close>, over the low half of the pointer searched for;
  that half is what is returned.
\<close>

definition id_match_value :: "cptr \<Rightarrow> cptr \<Rightarrow> cptr \<Rightarrow> bool" where
  "id_match_value p k v \<longleftrightarrow> v = p"

definition id_lookup_value :: "'h ghash \<Rightarrow> cptr \<Rightarrow> 'h id_table \<Rightarrow> int" where
  "id_lookup_value G p t =
     (case g_ids t of
        None \<Rightarrow> - 1
      | Some h \<Rightarrow>
          (case gh_find G (id_match_value p) h of
             None \<Rightarrow> - 1
           | Some (k, v) \<Rightarrow> c_int (ucast k)))"

subsection \<open>Specification\<close>

text \<open>
  The table as a map from identifiers to pointers, and the invariant of a process that only creates
  identifiers: those in use are positive and not above the last one handed out.
\<close>

definition id_abs :: "('h \<Rightarrow> cptr \<Rightarrow> cptr option) \<Rightarrow> 'h id_table \<Rightarrow> int32 \<Rightarrow> cptr option" where
  "id_abs tbl t i = (case g_ids t of None \<Rightarrow> None | Some h \<Rightarrow> tbl h (id_key i))"

definition ids_ok :: "('h \<Rightarrow> cptr \<Rightarrow> cptr option) \<Rightarrow> 'h id_table \<Rightarrow> bool" where
  "ids_ok tbl t \<longleftrightarrow> 0 \<le> c_int (last_id t) \<and>
     (case g_ids t of None \<Rightarrow> True | Some h \<Rightarrow>
        \<forall>k \<in> dom (tbl h). \<exists>i. k = id_key i \<and> 0 < c_int i \<and> c_int i \<le> c_int (last_id t))"

lemma id_key_down [simp]: "ucast (id_key i) = i"
  unfolding id_key_def by (rule bit_word_eqI) (simp add: bit_simps)

lemma id_key_inj [simp]: "id_key i = id_key j \<longleftrightarrow> i = j"
  by (metis id_key_down)

lemma c_int_succ:
  assumes "0 \<le> c_int i" "c_int i < 2 ^ 31 - 1"
  shows "c_int (i + 1) = c_int i + 1"
proof -
  have *: "i + 1 = to_int32 (c_int i + 1)" by simp
  show ?thesis unfolding * by (rule c_int_to_int32) (use assms in simp_all)
qed

context hash_table
begin

lemma lookup_abs: "id_lookup G i t = (case id_abs tbl t i of None \<Rightarrow> 0 | Some p \<Rightarrow> p)"
  by (simp add: id_lookup_def id_abs_def tab_lookup_def lookup_law split: option.splits)

lemma link_abs: "g_ids t \<noteq> None \<Longrightarrow> id_abs tbl (id_link G i p t) = (id_abs tbl t)(i \<mapsto> p)"
  by (auto simp: id_link_def id_abs_def tab_insert_def insert_law fun_eq_iff)

lemma remove_abs:
  "id_remove G i t = (b, t') \<Longrightarrow> (b \<longleftrightarrow> id_abs tbl t i \<noteq> None) \<and> id_abs tbl t' = (id_abs tbl t)(i := None)"
  using remove_law by (auto simp: id_remove_def id_abs_def tab_remove_def fun_eq_iff split: option.splits prod.splits)

text \<open>A new identifier is not in use.\<close>

lemma ids_ok_link:
  assumes "ids_ok tbl t" "g_ids t = Some h" "0 < c_int i" "c_int (last_id t) \<le> c_int i"
  shows "ids_ok tbl (id_link G i p (t\<lparr>last_id := i\<rparr>))"
proof -
  have "\<exists>j. k = id_key j \<and> 0 < c_int j \<and> c_int j \<le> c_int i" if "k \<in> dom (tbl (gh_insert G (id_key i) p h))" for k
  proof (cases "k = id_key i")
    case False
    then have "k \<in> dom (tbl h)" using that by (simp add: insert_law)
    then obtain j where "k = id_key j" "0 < c_int j" "c_int j \<le> c_int (last_id t)"
      using assms(1,2) by (auto simp: ids_ok_def)
    then show ?thesis using assms(4) by (intro exI [of _ j]) linarith
  qed (use assms(3) in blast)
  then show ?thesis
    using assms(2,3) by (simp add: ids_ok_def id_link_def tab_insert_def)
qed

lemma create_abs:
  assumes ok: "ids_ok tbl t" "g_ids t \<noteq> None" "c_int (last_id t) < 2 ^ 31 - 1"
    and run: "id_create G p t = (i, t')"
  shows "0 < c_int i" "id_abs tbl t i = None" "id_abs tbl t' = (id_abs tbl t)(i \<mapsto> p)" "ids_ok tbl t'"
    "g_ids t' \<noteq> None"
proof -
  obtain h where h: "g_ids t = Some h" using ok(2) by auto
  have i: "i = last_id t + 1" and t': "t' = id_link G i p (t\<lparr>last_id := i\<rparr>)"
    using run by (auto simp: id_create_def Let_def)
  have c: "c_int i = c_int (last_id t) + 1" "0 \<le> c_int (last_id t)"
    unfolding i using ok(1,3) c_int_succ [of "last_id t"] by (simp_all add: ids_ok_def)
  then show "0 < c_int i" by simp
  show "id_abs tbl t i = None"
  proof (rule ccontr)
    assume "id_abs tbl t i \<noteq> None"
    then have "id_key i \<in> dom (tbl h)" by (auto simp: id_abs_def h)
    then obtain j where "id_key i = id_key j" "c_int j \<le> c_int (last_id t)"
      using ok(1) unfolding ids_ok_def h option.case by blast
    with c show False by simp
  qed
  show "ids_ok tbl t'" unfolding t' using c by (intro ids_ok_link [OF ok(1) h]) simp_all
  show "id_abs tbl t' = (id_abs tbl t)(i \<mapsto> p)"
    unfolding t' using link_abs [of "t\<lparr>last_id := i\<rparr>" i p] h by (simp add: id_abs_def [abs_def])
  show "g_ids t' \<noteq> None" by (simp add: t' id_link_def tab_insert_def h)
qed

lemma lookup_value_found:
  assumes "ids_ok tbl t" "id_abs tbl t j = Some p"
  shows "0 < id_lookup_value G p t" "id_abs tbl t (to_int32 (id_lookup_value G p t)) = Some p"
proof -
  obtain h where h: "g_ids t = Some h" "tbl h (id_key j) = Some p"
    using assms(2) by (auto simp: id_abs_def split: option.splits)
  obtain k v where f: "gh_find G (id_match_value p) h = Some (k, v)"
    using find_None [OF _ h(2), of "id_match_value p"]
    by (cases "gh_find G (id_match_value p) h") (auto simp: id_match_value_def)
  then have k: "tbl h k = Some p"
    using find_Some [OF f] by (simp add: id_match_value_def)
  then obtain i where i: "k = id_key i" "0 < c_int i"
    using assms(1) h(1) by (auto simp: ids_ok_def)
  then have "id_lookup_value G p t = c_int i"
    by (simp add: id_lookup_value_def h f)
  with i k h show "0 < id_lookup_value G p t" "id_abs tbl t (to_int32 (id_lookup_value G p t)) = Some p"
    by (simp_all add: id_abs_def)
qed

lemma lookup_value_missing:
  assumes "\<And>h k. g_ids t = Some h \<Longrightarrow> tbl h k \<noteq> Some p"
  shows "id_lookup_value G p t = - 1"
  using assms find_Some [of "id_match_value p"]
  by (fastforce simp: id_lookup_value_def id_match_value_def split: option.splits)

end

text \<open>
  C19. The identifier table hands out fresh identifiers: as long as fewer than \<open>2\<^sup>3\<^sup>1 - 1\<close> have been created,
  \<open>id_create\<close> returns a positive identifier that was not in use and enters it for the pointer; every
  other identifier keeps its pointer, and both \<open>id_lookup\<close> and \<open>id_lookup_value\<close> find the new entry.
\<close>

theorem id_create_correct:
  assumes "hash_table G tbl" "ids_ok tbl t" "g_ids t \<noteq> None" "c_int (last_id t) < 2 ^ 31 - 1"
    and "id_create G p t = (i, t')"
  shows "0 < c_int i \<and> id_abs tbl t i = None \<and> id_abs tbl t' = (id_abs tbl t)(i \<mapsto> p) \<and> ids_ok tbl t' \<and>
    id_lookup G i t' = p \<and> (\<forall>j. j \<noteq> i \<longrightarrow> id_lookup G j t' = id_lookup G j t) \<and>
    id_lookup G (to_int32 (id_lookup_value G p t')) t' = p"
proof -
  note facts = hash_table.create_abs [OF assms]
  have "id_abs tbl t' i = Some p" by (simp add: facts)
  with hash_table.lookup_value_found [OF assms(1) facts(4) this] facts show ?thesis
    by (simp add: hash_table.lookup_abs [OF assms(1)])
qed

theorem id_create_correct_witness:
  "\<exists>t'. id_create alist_hash 4096 \<lparr>g_ids = Some [(1, 256)], last_id = 1\<rparr> = (2, t') \<and>
     id_lookup alist_hash 2 t' = 4096 \<and> id_lookup alist_hash 1 t' = 256"
proof -
  let ?t = "\<lparr>g_ids = Some [(1, 256)], last_id = 1\<rparr> :: (cptr \<times> cptr) list id_table"
  obtain i t' where run: "id_create alist_hash 4096 ?t = (i, t')" by (metis prod.exhaust)
  then have i: "i = 2" by (simp add: id_create_def)
  have "ids_ok map_of ?t" by (auto simp: ids_ok_def id_key_def intro!: exI [of _ 1])
  note c = id_create_correct [OF alist.hash_table_axioms this _ _ run]
  then have "id_lookup alist_hash 2 t' = 4096" "id_lookup alist_hash 1 t' = id_lookup alist_hash 1 ?t"
    by (simp_all add: i)
  moreover have "id_lookup alist_hash 1 ?t = 256"
    by (simp add: id_lookup_def tab_lookup_def alist_hash_def id_key_def)
  ultimately show ?thesis using run i by auto
qed

end
