(* ===== verification/Np_Process.thy ===== *)
theory Np_Process
  imports Rpc_Connection Np_Ids
begin

text \<open>
  The state of one of the two processes as the NPAPI layer sees it: the connection of \<^verbatim>\<open>rpc.c\<close>, the
  identifier table, and the stores of plugin instances, streams, scriptable objects and stubs, each a
  partial map from addresses (\<open>0\<close> is \<open>NULL\<close>). Reading through an address that holds no object is a
  crash. The code of \<^verbatim>\<open>npw-common.c\<close> and \<^verbatim>\<open>npw-common.h\<close> on plugin and stream instances is here;
  scriptable objects are in \<open>Np_Objects\<close>.
\<close>

subsection \<open>Data\<close>

text \<open>
  A plugin instance; \<open>pi_npobjects\<close> is the member the viewer's \<open>PluginInstance\<close> adds to it.
\<close>

record 'h NPW_PluginInstance =
  pi_klass :: cptr
  pi_refcount :: int
  pi_instance :: cptr
  pi_instance_id :: uint32
  pi_is_valid :: bool
  pi_npobjects :: "'h option"

text \<open>The function pointers of a class of instances; \<open>0\<close> is \<open>NULL\<close>.\<close>

record NPW_PluginInstanceClass =
  pc_allocate :: code_ptr
  pc_deallocate :: code_ptr
  pc_finalize :: code_ptr
  pc_invalidate :: code_ptr

record NPW_StreamInstance =
  si_stream :: cptr
  si_stream_id :: uint32
  si_is_plugin_stream :: int32

text \<open>
  A scriptable object. The last two members are those of \<open>NPObjectProxy\<close>, which the bridge allocates
  for objects of its own class; other objects do not have them.
\<close>

record NPObject =
  obj_class :: cptr
  obj_refcount :: uint32
  proxy_id :: uint32
  proxy_valid :: bool

record NPObjectStub =
  stub_npobject :: cptr
  stub_id :: uint32

text \<open>
  \<open>npps\<close> and \<open>np_streams\<close> map an \<open>NPP\<close> and an \<open>NPStream\<close> to its private data, the member the side
  that runs the code uses (\<open>pdata\<close> in the browser, \<open>ndata\<close> in the plugin process).
\<close>

record 'h np_process = rpc_connection +
  ids :: "'h id_table"
  plugins :: "cptr \<Rightarrow> 'h NPW_PluginInstance option"
  klasses :: "cptr \<Rightarrow> NPW_PluginInstanceClass option"
  npps :: "cptr \<Rightarrow> cptr option"
  np_streams :: "cptr \<Rightarrow> cptr option"
  stream_instances :: "cptr \<Rightarrow> NPW_StreamInstance option"
  objects :: "cptr \<Rightarrow> NPObject option"
  stubs :: "cptr \<Rightarrow> NPObjectStub option"
  g_stubs :: "'h option"
  stub_next_id :: uint32
  g_proxies :: "'h option"
  g_npobj_owners :: "'h option"

text \<open>
  What the code calls outside the repository, for one side: GLib's tables, the functions of the
  browser (in the plugin process, those of the viewer), the addresses the allocator picks, and the
  function pointers of the classes of instances.
\<close>

record ('s, 'h) np_env =
  hash :: "'h ghash"
  is_plugin :: bool
  npclass_bridge :: cptr
  stub_addr :: "'s \<Rightarrow> cptr"
  instance_addr :: "'s \<Rightarrow> cptr"
  NPN_CreateObject :: "cptr \<Rightarrow> cptr \<Rightarrow> ('s, cptr) op"
  NPN_RetainObject :: "cptr \<Rightarrow> ('s, cptr) op"
  NPN_ReleaseObject :: "cptr \<Rightarrow> ('s, unit) op"
  call_allocate :: "code_ptr \<Rightarrow> ('s, cptr) op"
  call_instance :: "code_ptr \<Rightarrow> cptr \<Rightarrow> ('s, unit) op"

subsection \<open>Memory accesses\<close>

definition deref :: "('s \<Rightarrow> cptr \<Rightarrow> 'a option) \<Rightarrow> cptr \<Rightarrow> ('s, 'a) op" where
  "deref store p s = (case store s p of Some x \<Rightarrow> (Ok x, s) | None \<Rightarrow> (Crash Use_after_free, s))"

definition gets :: "('s \<Rightarrow> 'a) \<Rightarrow> ('s, 'a) op" where
  "gets f s = (Ok (f s), s)"

text \<open>Stores into the heaps; \<open>None\<close> frees the object.\<close>

definition put_plugin ::
  "cptr \<Rightarrow> 'h NPW_PluginInstance option \<Rightarrow> ('h, 'z) np_process_scheme \<Rightarrow> ('h, 'z) np_process_scheme"
where
  "put_plugin p x s = s\<lparr>plugins := (plugins s)(p := x)\<rparr>"

definition put_object ::
  "cptr \<Rightarrow> NPObject option \<Rightarrow> ('h, 'z) np_process_scheme \<Rightarrow> ('h, 'z) np_process_scheme"
where
  "put_object p x s = s\<lparr>objects := (objects s)(p := x)\<rparr>"

definition put_stub ::
  "cptr \<Rightarrow> NPObjectStub option \<Rightarrow> ('h, 'z) np_process_scheme \<Rightarrow> ('h, 'z) np_process_scheme"
where
  "put_stub p x s = s\<lparr>stubs := (stubs s)(p := x)\<rparr>"

lemma put_plugin_simps [simp]:
  "plugins (put_plugin p x s) = (plugins s)(p := x)" "put_plugin p y (put_plugin p x s) = put_plugin p y s"
  "objects (put_plugin p x s) = objects s" "stubs (put_plugin p x s) = stubs s"
  "klasses (put_plugin p x s) = klasses s" "npps (put_plugin p x s) = npps s"
  by (simp_all add: put_plugin_def cong: if_cong)

lemma put_plugin_same: "plugins s p = x \<Longrightarrow> put_plugin p x s = s"
  by (simp add: put_plugin_def fun_upd_idem)

lemma put_object_simps [simp]:
  "objects (put_object p x s) = (objects s)(p := x)" "put_object p y (put_object p x s) = put_object p y s"
  "plugins (put_object p x s) = plugins s" "stubs (put_object p x s) = stubs s"
  "g_stubs (put_object p x s) = g_stubs s" "g_proxies (put_object p x s) = g_proxies s"
  "g_npobj_owners (put_object p x s) = g_npobj_owners s" "stub_next_id (put_object p x s) = stub_next_id s"
  by (simp_all add: put_object_def cong: if_cong)

lemma put_object_same: "objects s p = x \<Longrightarrow> put_object p x s = s"
  by (simp add: put_object_def fun_upd_idem)

lemma put_stub_simps [simp]:
  "stubs (put_stub p x s) = (stubs s)(p := x)" "put_stub p y (put_stub p x s) = put_stub p y s"
  "plugins (put_stub p x s) = plugins s" "objects (put_stub p x s) = objects s"
  "g_stubs (put_stub p x s) = g_stubs s" "g_proxies (put_stub p x s) = g_proxies s"
  "g_npobj_owners (put_stub p x s) = g_npobj_owners s" "stub_next_id (put_stub p x s) = stub_next_id s"
  by (simp_all add: put_stub_def cong: if_cong)

lemma deref_Some [simp]: "store s p = Some x \<Longrightarrow> deref store p s = (Ok x, s)"
  by (simp add: deref_def)

lemma deref_None [simp]: "store s p = None \<Longrightarrow> deref store p s = (Crash Use_after_free, s)"
  by (simp add: deref_def)

lemma gets_apply [op_simps]: "gets f s = (Ok (f s), s)"
  by (simp add: gets_def)

subsection \<open>Plugin instances\<close>

text \<open>
  A new instance is zeroed by its allocator (\<open>NPW_MemNew0\<close> unless the class has its own) and then
  filled in; an allocator that fails returns \<open>NULL\<close>.
\<close>

definition alloc_instance ::
  "(('h, 'z) np_process_scheme, 'h) np_env \<Rightarrow> (('h, 'z) np_process_scheme, cptr) op"
where
  "alloc_instance E = bind_op (gets (instance_addr E)) (\<lambda>p.
     if p = 0 then ret 0
     else then_op (modify_state (put_plugin p (Some (\<lparr>pi_klass = 0, pi_refcount = 0, pi_instance = 0, pi_instance_id = 0, pi_is_valid = False,
          pi_npobjects = None\<rparr>)))) (ret p))"

definition klass_member :: "(NPW_PluginInstanceClass \<Rightarrow> code_ptr) \<Rightarrow> cptr \<Rightarrow>
  (('h, 'z) np_process_scheme, code_ptr) op"
where
  "klass_member f klass = (if klass = 0 then ret NULL else bind_op (deref klasses klass) (\<lambda>k. ret (f k)))"

definition npw_plugin_instance_new ::
  "(('h, 'z) np_process_scheme, 'h) np_env \<Rightarrow> cptr \<Rightarrow> (('h, 'z) np_process_scheme, cptr) op"
where
  "npw_plugin_instance_new E klass =
     bind_op (klass_member pc_allocate klass) (\<lambda>f.
     bind_op (if f \<noteq> NULL then call_allocate E f else alloc_instance E) (\<lambda>p.
       if p = 0 then ret 0
       else bind_op (deref plugins p) (\<lambda>pl.
         then_op (modify_state (put_plugin p (Some (pl\<lparr>pi_klass := klass, pi_refcount := 1, pi_is_valid := True\<rparr>)))) (ret p))))"

definition npw_plugin_instance_ref :: "cptr \<Rightarrow> (('h, 'z) np_process_scheme, cptr) op" where
  "npw_plugin_instance_ref p =
     (if p = 0 then ret 0
      else bind_op (deref plugins p) (\<lambda>pl.
        then_op (modify_state (put_plugin p (Some (pl\<lparr>pi_refcount := pi_refcount pl + 1\<rparr>))))
          (ret p)))"

definition npw_plugin_instance_unref ::
  "(('h, 'z) np_process_scheme, 'h) np_env \<Rightarrow> cptr \<Rightarrow> (('h, 'z) np_process_scheme, unit) op"
where
  "npw_plugin_instance_unref E p =
     (if p = 0 then ret ()
      else bind_op (deref plugins p) (\<lambda>pl.
        then_op (modify_state (put_plugin p (Some (pl\<lparr>pi_refcount := pi_refcount pl - 1\<rparr>))))
          (if pi_refcount pl - 1 \<noteq> 0 then ret ()
           else
             bind_op (klass_member pc_finalize (pi_klass pl)) (\<lambda>fin.
             then_op (if fin \<noteq> NULL then call_instance E fin p else ret ())
             (bind_op (klass_member pc_deallocate (pi_klass pl)) (\<lambda>dealloc.
                if dealloc \<noteq> NULL then call_instance E dealloc p
                else modify_state (put_plugin p None)))))))"

definition npw_plugin_instance_invalidate ::
  "(('h, 'z) np_process_scheme, 'h) np_env \<Rightarrow> cptr \<Rightarrow> (('h, 'z) np_process_scheme, unit) op"
where
  "npw_plugin_instance_invalidate E p =
     (if p = 0 then ret ()
      else bind_op (deref plugins p) (\<lambda>pl.
        bind_op (klass_member pc_invalidate (pi_klass pl)) (\<lambda>inv.
        then_op (if inv \<noteq> NULL then call_instance E inv p else ret ())
        (bind_op (deref plugins p) (\<lambda>pl'.
          modify_state (put_plugin p (Some (pl'\<lparr>pi_is_valid := False\<rparr>))))))))"

definition npw_plugin_instance_is_valid :: "cptr \<Rightarrow> (('h, 'z) np_process_scheme, bool) op" where
  "npw_plugin_instance_is_valid p =
     (if p = 0 then ret False else bind_op (deref plugins p) (\<lambda>pl. ret (pi_is_valid pl)))"

text \<open>
  \<open>NPW_PLUGIN_INSTANCE\<close>: from an \<open>NPP\<close> to its instance. The plugin side tolerates a copy of the
  \<open>NPP\<close> whose original still refers to the instance.
\<close>

definition npw_get_plugin_instance_1 :: "cptr \<Rightarrow> (('h, 'z) np_process_scheme, cptr) op" where
  "npw_get_plugin_instance_1 i = (if i = 0 then ret 0 else deref npps i)"

definition npw_get_plugin_instance ::
  "(('h, 'z) np_process_scheme, 'h) np_env \<Rightarrow> cptr \<Rightarrow> (('h, 'z) np_process_scheme, cptr) op"
where
  "npw_get_plugin_instance E i =
     (if i = 0 then ret 0
      else bind_op (npw_get_plugin_instance_1 i) (\<lambda>p.
        if p = 0 then ret 0
        else bind_op (deref plugins p) (\<lambda>pl.
          if pi_instance pl = i then ret p
          else bind_op (if is_plugin E then npw_get_plugin_instance_1 (pi_instance pl) else ret 0) (\<lambda>q.
            if is_plugin E \<and> q = p then ret p else crash Assertion_failed))))"

definition npw_get_plugin_instance_npp :: "cptr \<Rightarrow> (('h, 'z) np_process_scheme, cptr) op" where
  "npw_get_plugin_instance_npp p =
     (if p = 0 then ret 0 else bind_op (deref plugins p) (\<lambda>pl. ret (pi_instance pl)))"

text \<open>\<open>NPW_STREAM_INSTANCE\<close>.\<close>

definition npw_get_stream_instance :: "cptr \<Rightarrow> (('h, 'z) np_process_scheme, cptr) op" where
  "npw_get_stream_instance st =
     (if st = 0 then ret 0
      else bind_op (deref np_streams st) (\<lambda>p.
        if p = 0 then ret 0
        else bind_op (deref stream_instances p) (\<lambda>si.
          then_op (assert_op (si_stream si = st)) (ret p))))"

subsection \<open>Life of a plugin instance\<close>

text \<open>Taking and dropping references, \<open>n\<close> times.\<close>

primrec ref_times :: "nat \<Rightarrow> cptr \<Rightarrow> (('h, 'z) np_process_scheme, unit) op" where
  "ref_times 0 p = ret ()"
| "ref_times (Suc n) p = then_op (npw_plugin_instance_ref p) (ref_times n p)"

primrec unref_n ::
  "nat \<Rightarrow> (('h, 'z) np_process_scheme, 'h) np_env \<Rightarrow> cptr \<Rightarrow> (('h, 'z) np_process_scheme, unit) op"
where
  "unref_n 0 E p = ret ()"
| "unref_n (Suc n) E p = then_op (npw_plugin_instance_unref E p) (unref_n n E p)"

lemma ref_times_run:
  "plugins s p = Some pl \<Longrightarrow> p \<noteq> 0 \<Longrightarrow>
     ref_times n p s = (Ok (), put_plugin p (Some (pl\<lparr>pi_refcount := pi_refcount pl + int n\<rparr>)) s)"
proof (induction n arbitrary: s pl)
  case 0
  then show ?case by (simp add: ret_apply put_plugin_same)
next
  case (Suc n)
  let ?s = "put_plugin p (Some (pl\<lparr>pi_refcount := pi_refcount pl + 1\<rparr>)) s"
  have "npw_plugin_instance_ref p s = (Ok p, ?s)"
    using Suc.prems by (simp add: npw_plugin_instance_ref_def op_simps)
  then show ?case
    using Suc.IH [of ?s "pl\<lparr>pi_refcount := pi_refcount pl + 1\<rparr>"] Suc.prems
    by (simp add: then_op_Ok add.assoc)
qed

lemma unref_n_run:
  "plugins s p = Some pl \<Longrightarrow> p \<noteq> 0 \<Longrightarrow> int n < pi_refcount pl \<Longrightarrow>
     unref_n n E p s = (Ok (), put_plugin p (Some (pl\<lparr>pi_refcount := pi_refcount pl - int n\<rparr>)) s)"
proof (induction n arbitrary: s pl)
  case 0
  then show ?case by (simp add: ret_apply put_plugin_same)
next
  case (Suc n)
  let ?s = "put_plugin p (Some (pl\<lparr>pi_refcount := pi_refcount pl - 1\<rparr>)) s"
  have "npw_plugin_instance_unref E p s = (Ok (), ?s)"
    using Suc.prems by (simp add: npw_plugin_instance_unref_def op_simps)
  then show ?case
    using Suc.IH [of ?s "pl\<lparr>pi_refcount := pi_refcount pl - 1\<rparr>"] Suc.prems
    by (simp add: then_op_Ok diff_diff_eq)
qed

lemma unref_n_add: "unref_n (n + m) E p = then_op (unref_n n E p) (unref_n m E p)"
  by (induction n) (simp_all add: then_assoc)

text \<open>
  The last release: the finalizer and the deallocator of the class run, in this order. Both classes of
  the repository have both.
\<close>

lemma unref_last:
  assumes "p \<noteq> 0" "plugins s p = Some pl" "pi_refcount pl = 1"
    and k: "pi_klass pl \<noteq> 0" "klasses s (pi_klass pl) = Some k" "pc_finalize k \<noteq> NULL" "pc_deallocate k \<noteq> NULL"
    and fin: "call_instance E (pc_finalize k) p (put_plugin p (Some (pl\<lparr>pi_refcount := 0\<rparr>)) s) = (Ok (), s1)"
      "klasses s1 = klasses s"
    and dealloc: "call_instance E (pc_deallocate k) p s1 = (Ok (), s2)"
  shows "npw_plugin_instance_unref E p s = (Ok (), s2)"
  using assms by (simp add: npw_plugin_instance_unref_def klass_member_def op_simps)

text \<open>
  Starting from the one reference \<open>npw_plugin_instance_new\<close> returns, after \<open>n\<close> further references and
  any \<open>m \<le> n\<close> releases the instance is still there with the references that are left, and one more than
  \<open>n\<close> releases do what the last one does.
\<close>

lemma instance_lifetime:
  assumes p: "p \<noteq> 0" "plugins s p = Some pl" "pi_refcount pl = 1" "m \<le> n"
    and last: "npw_plugin_instance_unref E p s = (Ok (), s2)"
  shows "then_op (ref_times n p) (unref_n m E p) s =
      (Ok (), put_plugin p (Some (pl\<lparr>pi_refcount := 1 + int (n - m)\<rparr>)) s)"
    "then_op (ref_times n p) (unref_n (n + 1) E p) s = (Ok (), s2)"
proof -
  let ?s = "put_plugin p (Some (pl\<lparr>pi_refcount := 1 + int n\<rparr>)) s"
  have up: "ref_times n p s = (Ok (), ?s)"
    using ref_times_run [OF p(2,1), of n] p(3) by simp
  have down: "unref_n j E p ?s = (Ok (), put_plugin p (Some (pl\<lparr>pi_refcount := 1 + int (n - j)\<rparr>)) s)"
    if "j \<le> n" for j
    using unref_n_run [of ?s p "pl\<lparr>pi_refcount := 1 + int n\<rparr>" j E] p(1) that by (simp add: of_nat_diff add_diff_eq)
  have "unref_n n E p ?s = (Ok (), s)"
    using down [of n] p(2,3) by (simp add: put_plugin_same)
  then have "unref_n (n + 1) E p ?s = (Ok (), s2)"
    unfolding unref_n_add using last by (simp add: then_op_Ok then_ret_unit)
  with up down [OF p(4)] show "then_op (ref_times n p) (unref_n m E p) s =
      (Ok (), put_plugin p (Some (pl\<lparr>pi_refcount := 1 + int (n - m)\<rparr>)) s)"
    "then_op (ref_times n p) (unref_n (n + 1) E p) s = (Ok (), s2)"
    by (simp_all add: then_op_Ok)
qed

text \<open>A process with nothing in it, on the sample connection, and an environment of dummies.\<close>

definition empty_process :: "(cptr \<times> cptr) list np_process" where
  "empty_process = rpc_connection.extend sample_client
     \<lparr>ids = \<lparr>g_ids = Some [], last_id = 0\<rparr>, plugins = Map.empty, klasses = Map.empty, npps = Map.empty,
      np_streams = Map.empty, stream_instances = Map.empty, objects = Map.empty, stubs = Map.empty,
      g_stubs = Some [], stub_next_id = 0, g_proxies = Some [], g_npobj_owners = Some []\<rparr>"

definition dummy_env :: "((cptr \<times> cptr) list np_process, (cptr \<times> cptr) list) np_env" where
  "dummy_env = \<lparr>hash = alist_hash, is_plugin = True, npclass_bridge = 16, stub_addr = (\<lambda>_. 4096),
     instance_addr = (\<lambda>_. 8192), NPN_CreateObject = (\<lambda>_ _. ret 0), NPN_RetainObject = ret,
     NPN_ReleaseObject = (\<lambda>_. ret ()), call_allocate = (\<lambda>_. ret 0), call_instance = (\<lambda>_ _. ret ())\<rparr>"

end
