(* ===== verification/Np_Objects.thy ===== *)
theory Np_Objects
  imports Np_Process
begin

text \<open>
  The bridge for scriptable objects of \<^verbatim>\<open>npruntime.c\<close>: stubs, which hold a reference to a local object
  on behalf of the other process, and proxies, the local objects that stand for remote ones; and the
  object functions the viewer gives to plugins (\<^verbatim>\<open>npw-viewer.c\<close>), which do the reference counting
  that the browser does on the other side.
\<close>

subsection \<open>Registration of objects (plugin side)\<close>

definition npobject_is_registered ::
  "(('h, 'z) np_process_scheme, 'h) np_env \<Rightarrow> cptr \<Rightarrow> (('h, 'z) np_process_scheme, bool) op"
where
  "npobject_is_registered E p = gets (\<lambda>s. tab_contains (hash E) p (g_npobj_owners s))"

definition npobject_register ::
  "(('h, 'z) np_process_scheme, 'h) np_env \<Rightarrow> cptr \<Rightarrow> cptr \<Rightarrow> (('h, 'z) np_process_scheme, unit) op"
where
  "npobject_register E p plugin = bind_op (npobject_is_registered E p) (\<lambda>b.
     then_op (assert_op (\<not> b))
       (modify_state (\<lambda>s. s\<lparr>g_npobj_owners := tab_insert (hash E) p plugin (g_npobj_owners s)\<rparr>)))"

definition npobject_get_owner ::
  "(('h, 'z) np_process_scheme, 'h) np_env \<Rightarrow> cptr \<Rightarrow> (('h, 'z) np_process_scheme, cptr) op"
where
  "npobject_get_owner E p = gets (\<lambda>s. tab_lookup (hash E) p (g_npobj_owners s))"

definition npobject_unregister ::
  "(('h, 'z) np_process_scheme, 'h) np_env \<Rightarrow> cptr \<Rightarrow> (('h, 'z) np_process_scheme, unit) op"
where
  "npobject_unregister E p =
     modify_state (\<lambda>s. s\<lparr>g_npobj_owners := snd (tab_remove (hash E) p (g_npobj_owners s))\<rparr>)"

subsection \<open>Stubs\<close>

text \<open>\<open>GINT_TO_POINTER\<close> of an unsigned identifier.\<close>

abbreviation stub_key :: "uint32 \<Rightarrow> cptr" where
  "stub_key i \<equiv> id_key i"

definition npobject_create_stub ::
  "(('h, 'z) np_process_scheme, 'h) np_env \<Rightarrow> cptr \<Rightarrow> (('h, 'z) np_process_scheme, uint32) op"
where
  "npobject_create_stub E npobj =
     (if npobj = 0 then ret 0
      else
        then_op (modify_state (\<lambda>s. s\<lparr>stub_next_id := stub_next_id s + 1\<rparr>))
        (bind_op (gets stub_next_id) (\<lambda>i.
         bind_op (gets (stub_addr E)) (\<lambda>a.
         then_op (modify_state (put_stub a (Some \<lparr>stub_npobject = 0, stub_id = 0\<rparr>)))
         (bind_op (NPN_RetainObject E npobj) (\<lambda>obj.
         then_op (modify_state (put_stub a (Some \<lparr>stub_npobject = obj, stub_id = i\<rparr>)))
         (then_op (modify_state (\<lambda>s. s\<lparr>g_stubs := tab_insert (hash E) (stub_key i) a (g_stubs s)\<rparr>))
           (ret i))))))))"

definition npobject_lookup_stub ::
  "(('h, 'z) np_process_scheme, 'h) np_env \<Rightarrow> uint32 \<Rightarrow> (('h, 'z) np_process_scheme, cptr) op"
where
  "npobject_lookup_stub E i = gets (\<lambda>s. tab_lookup (hash E) (stub_key i) (g_stubs s))"

definition npobject_lookup_local ::
  "(('h, 'z) np_process_scheme, 'h) np_env \<Rightarrow> uint32 \<Rightarrow> (('h, 'z) np_process_scheme, cptr) op"
where
  "npobject_lookup_local E i = bind_op (npobject_lookup_stub E i) (\<lambda>a.
     if a = 0 then ret 0 else bind_op (deref stubs a) (\<lambda>st. ret (stub_npobject st)))"

definition npobject_destroy_stub_obj ::
  "(('h, 'z) np_process_scheme, 'h) np_env \<Rightarrow> cptr \<Rightarrow> (('h, 'z) np_process_scheme, unit) op"
where
  "npobject_destroy_stub_obj E a = bind_op (deref stubs a) (\<lambda>st.
     then_op (modify_state (\<lambda>s. s\<lparr>g_stubs := snd (tab_remove (hash E) (stub_key (stub_id st)) (g_stubs s))\<rparr>))
     (then_op (NPN_ReleaseObject E (stub_npobject st))
       (modify_state (put_stub a None))))"

definition npobject_destroy_stub ::
  "(('h, 'z) np_process_scheme, 'h) np_env \<Rightarrow> uint32 \<Rightarrow> (('h, 'z) np_process_scheme, unit) op"
where
  "npobject_destroy_stub E i = bind_op (npobject_lookup_stub E i) (\<lambda>a.
     then_op (assert_op (a \<noteq> 0)) (npobject_destroy_stub_obj E a))"

subsection \<open>Proxies\<close>

definition npobject_get_proxy ::
  "(('h, 'z) np_process_scheme, 'h) np_env \<Rightarrow> cptr \<Rightarrow> (('h, 'z) np_process_scheme, NPObject option) op"
where
  "npobject_get_proxy E p = bind_op (deref objects p) (\<lambda>obj.
     ret (if obj_class obj \<noteq> npclass_bridge E then None else Some obj))"

text \<open>Writing to the members of what is not a proxy (or of \<open>NULL\<close>) is an invalid access.\<close>

definition npobject_create_proxy ::
  "(('h, 'z) np_process_scheme, 'h) np_env \<Rightarrow> cptr \<Rightarrow> uint32 \<Rightarrow> (('h, 'z) np_process_scheme, cptr) op"
where
  "npobject_create_proxy E npp i =
     bind_op (NPN_CreateObject E npp (npclass_bridge E)) (\<lambda>p.
     bind_op (npobject_get_proxy E p) (\<lambda>proxy.
       case proxy of
         None \<Rightarrow> crash Out_of_bounds
       | Some obj \<Rightarrow>
           then_op (modify_state (put_object p (Some (obj\<lparr>proxy_id := i, proxy_valid := True\<rparr>))))
           (then_op (modify_state (\<lambda>s. s\<lparr>g_proxies := tab_insert (hash E) (stub_key i) p (g_proxies s)\<rparr>))
             (ret p))))"

definition npobject_is_proxy ::
  "(('h, 'z) np_process_scheme, 'h) np_env \<Rightarrow> cptr \<Rightarrow> (('h, 'z) np_process_scheme, bool) op"
where
  "npobject_is_proxy E p = bind_op (npobject_get_proxy E p) (\<lambda>proxy. ret (proxy \<noteq> None))"

definition npobject_get_proxy_id ::
  "(('h, 'z) np_process_scheme, 'h) np_env \<Rightarrow> cptr \<Rightarrow> (('h, 'z) np_process_scheme, uint32) op"
where
  "npobject_get_proxy_id E p = bind_op (npobject_get_proxy E p) (\<lambda>proxy.
     ret (case proxy of None \<Rightarrow> 0 | Some obj \<Rightarrow> proxy_id obj))"

text \<open>\<open>invoke_Deallocate\<close> is the remote call that releases the stub of the proxy it is given.\<close>

definition npobject_destroy_proxy ::
  "(('h, 'z) np_process_scheme, 'h) np_env \<Rightarrow> (uint32 \<Rightarrow> (('h, 'z) np_process_scheme, unit) op) \<Rightarrow>
     cptr \<Rightarrow> bool \<Rightarrow> (('h, 'z) np_process_scheme, unit) op"
where
  "npobject_destroy_proxy E invoke_Deallocate p release_stub =
     bind_op (npobject_get_proxy E p) (\<lambda>proxy.
       case proxy of
         None \<Rightarrow> crash Assertion_failed
       | Some obj \<Rightarrow>
           then_op (if release_stub \<and> proxy_valid obj then invoke_Deallocate (proxy_id obj) else ret ())
           (bind_op (deref objects p) (\<lambda>obj'.
            then_op (modify_state (\<lambda>s. s\<lparr>g_proxies := snd (tab_remove (hash E) (stub_key (proxy_id obj')) (g_proxies s))\<rparr>))
             (modify_state (put_object p None)))))"

definition is_valid_npobject_proxy ::
  "(('h, 'z) np_process_scheme, 'h) np_env \<Rightarrow> cptr \<Rightarrow> (('h, 'z) np_process_scheme, bool) op"
where
  "is_valid_npobject_proxy E p =
     (if p = 0 then ret False
      else bind_op (npobject_get_proxy E p) (\<lambda>proxy.
        ret (case proxy of None \<Rightarrow> False | Some obj \<Rightarrow> proxy_valid obj)))"

definition is_valid_npobject_class ::
  "(('h, 'z) np_process_scheme, 'h) np_env \<Rightarrow> cptr \<Rightarrow> (('h, 'z) np_process_scheme, bool) op"
where
  "is_valid_npobject_class E p =
     (if p = 0 then ret False
      else bind_op (deref objects p) (\<lambda>obj.
        if obj_class obj = 0 then ret False
        else if is_plugin E then npobject_is_registered E p
        else ret True))"

subsection \<open>Set-up and shut-down of the bridge\<close>

definition npobject_bridge_new ::
  "(('h, 'z) np_process_scheme, 'h) np_env \<Rightarrow> ('h, 'z) np_process_scheme \<Rightarrow> ('h, 'z) np_process_scheme"
where
  "npobject_bridge_new E s =
     (let s' = s\<lparr>g_stubs := Some (gh_new (hash E)), g_proxies := Some (gh_new (hash E))\<rparr>
      in if is_plugin E then s'\<lparr>g_npobj_owners := Some (gh_new (hash E))\<rparr> else s')"

definition npobject_bridge_destroy ::
  "(('h, 'z) np_process_scheme, 'h) np_env \<Rightarrow> ('h, 'z) np_process_scheme \<Rightarrow> ('h, 'z) np_process_scheme"
where
  "npobject_bridge_destroy E s =
     (let s' = s\<lparr>g_stubs := None, g_proxies := None\<rparr>
      in if is_plugin E then s'\<lparr>g_npobj_owners := None\<rparr> else s')"

subsection \<open>The viewer's object functions\<close>

text \<open>
  \<open>thread_ok\<close> is the result of \<open>thread_check\<close>; \<open>class_allocate\<close> and \<open>class_deallocate\<close> are the
  members of the \<open>NPClass\<close> at an address (\<open>None\<close>: \<open>NULL\<close>), and \<open>object_addr\<close> is where \<open>malloc\<close> puts a
  new object.
\<close>

record 's npclass_env =
  thread_ok :: bool
  class_allocate :: "cptr \<Rightarrow> (cptr \<Rightarrow> cptr \<Rightarrow> ('s, cptr) op) option"
  class_deallocate :: "cptr \<Rightarrow> (cptr \<Rightarrow> ('s, unit) op) option"
  object_addr :: "'s \<Rightarrow> cptr"

text \<open>\<open>malloc\<close> of an object; its members are not initialised.\<close>

definition malloc_object ::
  "('h, 'z) np_process_scheme npclass_env \<Rightarrow> (('h, 'z) np_process_scheme, cptr) op"
where
  "malloc_object K = bind_op (gets (object_addr K)) (\<lambda>p.
     if p = 0 then ret 0
     else then_op (modify_state (put_object p (Some
         \<lparr>obj_class = 0, obj_refcount = 0, proxy_id = 0, proxy_valid = False\<rparr>))) (ret p))"

definition g_NPClass_Allocate ::
  "('h, 'z) np_process_scheme npclass_env \<Rightarrow> cptr \<Rightarrow> cptr \<Rightarrow> (('h, 'z) np_process_scheme, cptr) op"
where
  "g_NPClass_Allocate K npp aclass = malloc_object K"

definition register_new_object ::
  "(('h, 'z) np_process_scheme, 'h) np_env \<Rightarrow> cptr \<Rightarrow> cptr \<Rightarrow> (('h, 'z) np_process_scheme, unit) op"
where
  "register_new_object E p plugin =
     then_op (npobject_register E p plugin)
       (if plugin = 0 then ret ()
        else bind_op (deref plugins plugin) (\<lambda>pl.
          modify_state (put_plugin plugin (Some (pl\<lparr>pi_npobjects := tab_insert (hash E) p p (pi_npobjects pl)\<rparr>)))))"

definition g_NPN_CreateObject ::
  "('h, 'z) np_process_scheme npclass_env \<Rightarrow> (('h, 'z) np_process_scheme, 'h) np_env \<Rightarrow>
     cptr \<Rightarrow> cptr \<Rightarrow> (('h, 'z) np_process_scheme, cptr) op"
where
  "g_NPN_CreateObject K E npp cls =
     (if \<not> thread_ok K then ret 0
      else if cls = 0 then ret 0
      else
        bind_op (npw_get_plugin_instance E npp) (\<lambda>plugin.
        bind_op (case class_allocate K cls of Some f \<Rightarrow> f npp cls | None \<Rightarrow> malloc_object K) (\<lambda>p.
          if p = 0 then ret 0
          else
            bind_op (deref objects p) (\<lambda>obj.
            then_op (modify_state (put_object p (Some (obj\<lparr>obj_class := cls, obj_refcount := 1\<rparr>))))
            (bind_op (npobject_is_proxy E p) (\<lambda>proxy.
             then_op (if proxy then ret () else register_new_object E p plugin)
               (ret p)))))))"

definition g_NPN_RetainObject ::
  "('h, 'z) np_process_scheme npclass_env \<Rightarrow> cptr \<Rightarrow> (('h, 'z) np_process_scheme, cptr) op"
where
  "g_NPN_RetainObject K p =
     (if \<not> thread_ok K then ret 0
      else if p = 0 then ret 0
      else bind_op (deref objects p) (\<lambda>obj.
        then_op (modify_state (put_object p (Some (obj\<lparr>obj_refcount := obj_refcount obj + 1\<rparr>)))) (ret p)))"

definition destroy_object ::
  "('h, 'z) np_process_scheme npclass_env \<Rightarrow> (('h, 'z) np_process_scheme, 'h) np_env \<Rightarrow>
     cptr \<Rightarrow> (('h, 'z) np_process_scheme, unit) op"
where
  "destroy_object K E p =
     bind_op (npobject_get_owner E p) (\<lambda>plugin.
     then_op (if plugin = 0 then ret ()
              else bind_op (deref plugins plugin) (\<lambda>pl.
                modify_state (put_plugin plugin (Some
                  (pl\<lparr>pi_npobjects := snd (tab_remove (hash E) p (pi_npobjects pl))\<rparr>)))))
     (then_op (npobject_unregister E p)
     (bind_op (deref objects p) (\<lambda>obj.
        case (if obj_class obj = 0 then None else class_deallocate K (obj_class obj)) of
          Some f \<Rightarrow> f p
        | None \<Rightarrow> modify_state (put_object p None)))))"

definition g_NPN_ReleaseObject ::
  "('h, 'z) np_process_scheme npclass_env \<Rightarrow> (('h, 'z) np_process_scheme, 'h) np_env \<Rightarrow>
     cptr \<Rightarrow> (('h, 'z) np_process_scheme, unit) op"
where
  "g_NPN_ReleaseObject K E p =
     (if \<not> thread_ok K then ret ()
      else if p = 0 then ret ()
      else bind_op (deref objects p) (\<lambda>obj.
        then_op (modify_state (put_object p (Some (obj\<lparr>obj_refcount := obj_refcount obj - 1\<rparr>))))
          (if obj_refcount obj - 1 = 0 then destroy_object K E p else ret ())))"

definition viewer_env ::
  "('h, 'z) np_process_scheme npclass_env \<Rightarrow> (('h, 'z) np_process_scheme, 'h) np_env \<Rightarrow>
     (('h, 'z) np_process_scheme, 'h) np_env"
where
  "viewer_env K E = E\<lparr>NPN_CreateObject := g_NPN_CreateObject K E, NPN_RetainObject := g_NPN_RetainObject K,
     NPN_ReleaseObject := g_NPN_ReleaseObject K E\<rparr>"

subsection \<open>What the bridge relies on\<close>

text \<open>
  The NPAPI contract for object references, as the bridge uses it on either side: retaining counts up
  and returns the object, releasing counts down while other references are left, and creating an
  object of the bridge's class (where \<open>can_create\<close> says it can be created) gives a new one with one
  reference. None of these touches anything else of the process.
\<close>

locale object_host =
  fixes E :: "(('h, 'z) np_process_scheme, 'h) np_env"
    and can_create :: "cptr \<Rightarrow> ('h, 'z) np_process_scheme \<Rightarrow> bool"
  assumes retain_law: "p \<noteq> 0 \<Longrightarrow> objects s p = Some obj \<Longrightarrow>
      NPN_RetainObject E p s = (Ok p, put_object p (Some (obj\<lparr>obj_refcount := obj_refcount obj + 1\<rparr>)) s)"
    and release_law: "p \<noteq> 0 \<Longrightarrow> objects s p = Some obj \<Longrightarrow> obj_refcount obj \<noteq> 1 \<Longrightarrow>
      NPN_ReleaseObject E p s = (Ok (), put_object p (Some (obj\<lparr>obj_refcount := obj_refcount obj - 1\<rparr>)) s)"
    and create_law: "can_create npp s \<Longrightarrow>
      \<exists>p obj. NPN_CreateObject E npp (npclass_bridge E) s = (Ok p, put_object p (Some obj) s) \<and> p \<noteq> 0 \<and>
        objects s p = None \<and> obj_class obj = npclass_bridge E \<and> obj_refcount obj = 1"

text \<open>On the plugin side the contract holds of the viewer's functions, called on the main thread.\<close>

definition viewer_can_create ::
  "('h, 'z) np_process_scheme npclass_env \<Rightarrow> (('h, 'z) np_process_scheme, 'h) np_env \<Rightarrow>
     cptr \<Rightarrow> ('h, 'z) np_process_scheme \<Rightarrow> bool"
where
  "viewer_can_create K E npp s \<longleftrightarrow> npclass_bridge E \<noteq> 0 \<and>
     class_allocate K (npclass_bridge E) = Some (g_NPClass_Allocate K) \<and>
     object_addr K s \<noteq> 0 \<and> objects s (object_addr K s) = None \<and>
     (\<exists>plugin. npw_get_plugin_instance E npp s = (Ok plugin, s))"

lemma viewer_retain:
  "thread_ok K \<Longrightarrow> p \<noteq> 0 \<Longrightarrow> objects s p = Some obj \<Longrightarrow>
     g_NPN_RetainObject K p s = (Ok p, put_object p (Some (obj\<lparr>obj_refcount := obj_refcount obj + 1\<rparr>)) s)"
  by (simp add: g_NPN_RetainObject_def op_simps)

lemma viewer_release:
  "thread_ok K \<Longrightarrow> p \<noteq> 0 \<Longrightarrow> objects s p = Some obj \<Longrightarrow> obj_refcount obj \<noteq> 1 \<Longrightarrow>
     g_NPN_ReleaseObject K E p s = (Ok (), put_object p (Some (obj\<lparr>obj_refcount := obj_refcount obj - 1\<rparr>)) s)"
  by (simp add: g_NPN_ReleaseObject_def op_simps)

lemma viewer_create:
  assumes "thread_ok K" "viewer_can_create K E npp s"
  shows "g_NPN_CreateObject K E npp (npclass_bridge E) s = (Ok (object_addr K s), put_object (object_addr K s)
     (Some \<lparr>obj_class = npclass_bridge E, obj_refcount = 1, proxy_id = 0, proxy_valid = False\<rparr>) s)"
proof -
  obtain plugin where "npw_get_plugin_instance E npp s = (Ok plugin, s)"
    using assms(2) by (auto simp: viewer_can_create_def)
  with assms show ?thesis
    by (simp add: viewer_can_create_def g_NPN_CreateObject_def g_NPClass_Allocate_def malloc_object_def
        npobject_is_proxy_def npobject_get_proxy_def op_simps)
qed

interpretation viewer: object_host "viewer_env (K\<lparr>thread_ok := True\<rparr>) E"
  "viewer_can_create (K\<lparr>thread_ok := True\<rparr>) E" for K E
proof
  fix npp s
  assume *: "viewer_can_create (K\<lparr>thread_ok := True\<rparr>) E npp s"
  then show "\<exists>p obj. NPN_CreateObject (viewer_env (K\<lparr>thread_ok := True\<rparr>) E) npp
        (npclass_bridge (viewer_env (K\<lparr>thread_ok := True\<rparr>) E)) s = (Ok p, put_object p (Some obj) s) \<and> p \<noteq> 0 \<and>
      objects s p = None \<and> obj_class obj = npclass_bridge (viewer_env (K\<lparr>thread_ok := True\<rparr>) E) \<and>
      obj_refcount obj = 1"
    using viewer_create [OF _ *] by (auto simp: viewer_env_def viewer_can_create_def)
qed (simp_all add: viewer_env_def viewer_retain viewer_release)

end
