(* ===== verification/Np_Values.thy ===== *)
theory Np_Values
  imports Rpc_Wire
begin

text \<open>
  The marshalers of \<^verbatim>\<open>npw-rpc.c\<close> for NPAPI values that do not refer to objects of the two processes:
  geometry and windows, X events, printing, byte ranges, saved data, strings. Fields are of the
  width they have in a 64-bit process; on the wire most are 32 bits wide, so each type comes with
  the \<open>view\<close> a receiver gets of a value. Every pair of routines is an interpretation of
  \<open>stable_marshaler\<close>.
\<close>

subsection \<open>Types of NPAPI variables\<close>

abbreviation (input) RPC_TYPE_NP_OBJECT :: int where "RPC_TYPE_NP_OBJECT \<equiv> 13"

text \<open>The variables the code distinguishes; \<open>NPNVToolkit\<close> carries the ABI mask of gcc 3 and later.\<close>

abbreviation (input) NPNVnetscapeWindow :: int where "NPNVnetscapeWindow \<equiv> 3"
abbreviation (input) NPNVjavascriptEnabledBool :: int where "NPNVjavascriptEnabledBool \<equiv> 4"
abbreviation (input) NPNVasdEnabledBool :: int where "NPNVasdEnabledBool \<equiv> 5"
abbreviation (input) NPNVisOfflineBool :: int where "NPNVisOfflineBool \<equiv> 6"
abbreviation (input) NPNVToolkit :: int where "NPNVToolkit \<equiv> 268435469"
abbreviation (input) NPNVSupportsXEmbedBool :: int where "NPNVSupportsXEmbedBool \<equiv> 14"
abbreviation (input) NPNVWindowNPObject :: int where "NPNVWindowNPObject \<equiv> 15"
abbreviation (input) NPNVPluginElementNPObject :: int where "NPNVPluginElementNPObject \<equiv> 16"
abbreviation (input) NPNVSupportsWindowless :: int where "NPNVSupportsWindowless \<equiv> 17"
abbreviation (input) NPNVprivateModeBool :: int where "NPNVprivateModeBool \<equiv> 18"
abbreviation (input) NPNVsupportsAdvancedKeyHandling :: int where "NPNVsupportsAdvancedKeyHandling \<equiv> 21"
abbreviation (input) NPNVdocumentOrigin :: int where "NPNVdocumentOrigin \<equiv> 22"

definition rpc_type_of_NPNVariable :: "int \<Rightarrow> int" where
  "rpc_type_of_NPNVariable variable =
     (if variable \<in> {NPNVjavascriptEnabledBool, NPNVasdEnabledBool, NPNVisOfflineBool,
           NPNVSupportsXEmbedBool, NPNVSupportsWindowless, NPNVprivateModeBool,
           NPNVsupportsAdvancedKeyHandling} then RPC_TYPE_BOOLEAN
      else if variable \<in> {NPNVToolkit, NPNVnetscapeWindow} then RPC_TYPE_UINT32
      else if variable = NPNVdocumentOrigin then RPC_TYPE_STRING
      else if variable \<in> {NPNVWindowNPObject, NPNVPluginElementNPObject} then RPC_TYPE_NP_OBJECT
      else RPC_ERROR_GENERIC)"

abbreviation (input) NPPVpluginNameString :: int where "NPPVpluginNameString \<equiv> 1"
abbreviation (input) NPPVpluginDescriptionString :: int where "NPPVpluginDescriptionString \<equiv> 2"
abbreviation (input) NPPVpluginWindowBool :: int where "NPPVpluginWindowBool \<equiv> 3"
abbreviation (input) NPPVpluginTransparentBool :: int where "NPPVpluginTransparentBool \<equiv> 4"
abbreviation (input) NPPVpluginWindowSize :: int where "NPPVpluginWindowSize \<equiv> 6"
abbreviation (input) NPPVpluginTimerInterval :: int where "NPPVpluginTimerInterval \<equiv> 7"
abbreviation (input) NPPVjavascriptPushCallerBool :: int where "NPPVjavascriptPushCallerBool \<equiv> 12"
abbreviation (input) NPPVpluginKeepLibraryInMemory :: int where "NPPVpluginKeepLibraryInMemory \<equiv> 13"
abbreviation (input) NPPVpluginNeedsXEmbed :: int where "NPPVpluginNeedsXEmbed \<equiv> 14"
abbreviation (input) NPPVpluginScriptableNPObject :: int where "NPPVpluginScriptableNPObject \<equiv> 15"
abbreviation (input) NPPVformValue :: int where "NPPVformValue \<equiv> 16"
abbreviation (input) NPPVpluginUrlRequestsDisplayedBool :: int where "NPPVpluginUrlRequestsDisplayedBool \<equiv> 17"
abbreviation (input) NPPVpluginWantsAllNetworkStreams :: int where "NPPVpluginWantsAllNetworkStreams \<equiv> 18"
abbreviation (input) NPPVpluginNativeAccessibleAtkPlugId :: int where "NPPVpluginNativeAccessibleAtkPlugId \<equiv> 19"
abbreviation (input) NPPVpluginCancelSrcStream :: int where "NPPVpluginCancelSrcStream \<equiv> 20"
abbreviation (input) NPPVsupportsAdvancedKeyHandling :: int where "NPPVsupportsAdvancedKeyHandling \<equiv> 21"
abbreviation (input) NPPVpluginUsesDOMForCursorBool :: int where "NPPVpluginUsesDOMForCursorBool \<equiv> 22"

definition rpc_type_of_NPPVariable :: "int \<Rightarrow> int" where
  "rpc_type_of_NPPVariable variable =
     (if variable \<in> {NPPVpluginNameString, NPPVpluginDescriptionString, NPPVformValue,
           NPPVpluginNativeAccessibleAtkPlugId} then RPC_TYPE_STRING
      else if variable \<in> {NPPVpluginWindowSize, NPPVpluginTimerInterval} then RPC_TYPE_INT32
      else if variable \<in> {NPPVpluginNeedsXEmbed, NPPVpluginWindowBool, NPPVpluginTransparentBool,
           NPPVjavascriptPushCallerBool, NPPVpluginKeepLibraryInMemory,
           NPPVpluginUrlRequestsDisplayedBool, NPPVpluginWantsAllNetworkStreams,
           NPPVpluginCancelSrcStream, NPPVsupportsAdvancedKeyHandling,
           NPPVpluginUsesDOMForCursorBool} then RPC_TYPE_BOOLEAN
      else if variable = NPPVpluginScriptableNPObject then RPC_TYPE_NP_OBJECT
      else RPC_ERROR_GENERIC)"

subsection \<open>Byte ranges\<close>

text \<open>A linked list of ranges, in order.\<close>

record NPByteRange =
  range_offset :: int32
  range_length :: uint32

fun do_send_NPByteRange :: "NPByteRange list \<Rightarrow> (rpc_message \<times> 'z io_state_scheme, unit) op" where
  "do_send_NPByteRange [] = rpc_message_send_uint32 0"
| "do_send_NPByteRange (r # rs) = run_all
     [rpc_message_send_uint32 1,
      rpc_message_send_int32 (range_offset r),
      rpc_message_send_uint32 (range_length r),
      do_send_NPByteRange rs]"

text \<open>The receiving loop, for at most \<open>fuel\<close> iterations; each reads at least the tag.\<close>

fun recv_ranges_loop :: "nat \<Rightarrow> (rpc_message \<times> 'z io_state_scheme, NPByteRange list) op" where
  "recv_ranges_loop 0 = crash No_return"
| "recv_ranges_loop (Suc fuel) =
     bind_op rpc_message_recv_uint32 (\<lambda>cont.
       if cont = 0 then ret []
       else then_op (malloc_op 16)
         (bind_op rpc_message_recv_int32 (\<lambda>off.
          bind_op rpc_message_recv_uint32 (\<lambda>len.
          bind_op (recv_ranges_loop fuel) (\<lambda>rs.
            ret (\<lparr>range_offset = off, range_length = len\<rparr> # rs))))))"

definition do_recv_NPByteRange :: "(rpc_message \<times> 'z io_state_scheme, NPByteRange list) op" where
  "do_recv_NPByteRange = (\<lambda>(msg, s). recv_ranges_loop (Suc (length (rx_queue s))) (msg, s))"

subsection \<open>Saved data\<close>

record NPSavedData =
  saved_len :: int32
  saved_buf :: "byte list"

definition do_send_NPSavedData :: "NPSavedData option \<Rightarrow> (rpc_message \<times> 'z io_state_scheme, unit) op" where
  "do_send_NPSavedData save_area =
     (case save_area of
        None \<Rightarrow> rpc_message_send_int32 0
      | Some d \<Rightarrow> run_all [rpc_message_send_int32 (saved_len d), send_counted (saved_len d) (saved_buf d)])"

definition do_recv_NPSavedData :: "(rpc_message \<times> 'z io_state_scheme, NPSavedData option) op" where
  "do_recv_NPSavedData =
     bind_op rpc_message_recv_int32 (\<lambda>len.
       if len = 0 then ret None
       else then_op (malloc_op 16) (then_op (malloc_op (unat len))
         (bind_op (recv_counted len) (\<lambda>buf. ret (Some \<lparr>saved_len = len, saved_buf = buf\<rparr>)))))"

subsection \<open>Notification data\<close>

text \<open>An opaque pointer of the plugin side; \<open>ptr32\<close>: the receiving process has 32-bit pointers.\<close>

definition do_send_NotifyData :: "cptr \<Rightarrow> (rpc_message \<times> 'z io_state_scheme, unit) op" where
  "do_send_NotifyData notifyData = rpc_message_send_uint64 notifyData"

definition do_recv_NotifyData :: "bool \<Rightarrow> (rpc_message \<times> 'z io_state_scheme, cptr) op" where
  "do_recv_NotifyData ptr32 =
     bind_op rpc_message_recv_uint64 (\<lambda>ident.
       if ptr32 \<and> hi32 ident \<noteq> 0 then crash Aborted else ret ident)"

subsection \<open>Rectangles and windows\<close>

record NPRect =
  rect_top :: uint16
  rect_left :: uint16
  rect_bottom :: uint16
  rect_right :: uint16

definition do_send_NPRect :: "NPRect \<Rightarrow> (rpc_message \<times> 'z io_state_scheme, unit) op" where
  "do_send_NPRect rect = run_all
     [rpc_message_send_uint32 (ucast (rect_top rect)),
      rpc_message_send_uint32 (ucast (rect_left rect)),
      rpc_message_send_uint32 (ucast (rect_bottom rect)),
      rpc_message_send_uint32 (ucast (rect_right rect))]"

definition do_recv_NPRect :: "(rpc_message \<times> 'z io_state_scheme, NPRect) op" where
  "do_recv_NPRect =
     bind_op rpc_message_recv_uint32 (\<lambda>t.
     bind_op rpc_message_recv_uint32 (\<lambda>l.
     bind_op rpc_message_recv_uint32 (\<lambda>b.
     bind_op rpc_message_recv_uint32 (\<lambda>r.
       ret \<lparr>rect_top = ucast t, rect_left = ucast l, rect_bottom = ucast b, rect_right = ucast r\<rparr>))))"

text \<open>The \<open>display\<close> member is not transmitted; a receiver has it zeroed by \<open>calloc\<close>.\<close>

record NPSetWindowCallbackStruct =
  ws_type :: int32
  ws_display :: cptr
  ws_visual :: cptr
  ws_colormap :: ulong
  ws_depth :: uint32

text \<open>\<open>visualid\<close> is Xlib's \<open>XVisualIDFromVisual\<close>.\<close>

definition do_send_NPSetWindowCallbackStruct ::
  "(cptr \<Rightarrow> ulong) \<Rightarrow> NPSetWindowCallbackStruct option \<Rightarrow> (rpc_message \<times> 'z io_state_scheme, unit) op"
where
  "do_send_NPSetWindowCallbackStruct visualid ws_info =
     (case ws_info of
        Some w \<Rightarrow> run_all
          [rpc_message_send_uint32 1,
           rpc_message_send_int32 (ws_type w),
           rpc_message_send_uint32 (if ws_visual w \<noteq> 0 then ucast (visualid (ws_visual w)) else 0),
           rpc_message_send_uint32 (ucast (ws_colormap w)),
           rpc_message_send_uint32 (ws_depth w)]
      | None \<Rightarrow> rpc_message_send_uint32 0)"

definition do_recv_NPSetWindowCallbackStruct ::
  "(rpc_message \<times> 'z io_state_scheme, NPSetWindowCallbackStruct option) op"
where
  "do_recv_NPSetWindowCallbackStruct =
     bind_op rpc_message_recv_uint32 (\<lambda>has_ws_info.
       if has_ws_info = 0 then ret None
       else
         bind_op rpc_message_recv_int32 (\<lambda>t.
         bind_op rpc_message_recv_uint32 (\<lambda>visual_id.
         bind_op rpc_message_recv_uint32 (\<lambda>colormap.
         bind_op rpc_message_recv_uint32 (\<lambda>depth.
           then_op (malloc_op 40)
             (ret (Some \<lparr>ws_type = t, ws_display = 0, ws_visual = ucast visual_id,
                ws_colormap = ucast colormap, ws_depth = depth\<rparr>)))))))"

record NPWindow =
  win_window :: cptr
  win_x :: int32
  win_y :: int32
  win_width :: uint32
  win_height :: uint32
  win_clipRect :: NPRect
  win_ws_info :: "NPSetWindowCallbackStruct option"
  win_type :: int32

text \<open>An error of the last call is answered with \<open>return 0\<close>.\<close>

definition drop_error :: "('s, unit) op \<Rightarrow> ('s, unit) op" where
  "drop_error m s = (case m s of (Err _, s') \<Rightarrow> (Ok (), s') | r \<Rightarrow> r)"

definition do_send_NPWindowData ::
  "(cptr \<Rightarrow> ulong) \<Rightarrow> NPWindow option \<Rightarrow> (rpc_message \<times> 'z io_state_scheme, unit) op"
where
  "do_send_NPWindowData visualid window =
     (case window of
        None \<Rightarrow> fail RPC_ERROR_MESSAGE_ARGUMENT_INVALID
      | Some w \<Rightarrow> run_all
          [rpc_message_send_uint32 (ucast (win_window w)),
           rpc_message_send_int32 (win_x w),
           rpc_message_send_int32 (win_y w),
           rpc_message_send_uint32 (win_width w),
           rpc_message_send_uint32 (win_height w),
           do_send_NPRect (win_clipRect w),
           rpc_message_send_int32 (win_type w),
           drop_error (do_send_NPSetWindowCallbackStruct visualid (win_ws_info w))])"

text \<open>The \<open>NULL\<close> test of the destination is left out: the callers pass the address of a local.\<close>

definition do_recv_NPWindowData :: "(rpc_message \<times> 'z io_state_scheme, NPWindow) op" where
  "do_recv_NPWindowData =
     bind_op rpc_message_recv_uint32 (\<lambda>window_id.
     bind_op rpc_message_recv_int32 (\<lambda>x.
     bind_op rpc_message_recv_int32 (\<lambda>y.
     bind_op rpc_message_recv_uint32 (\<lambda>width.
     bind_op rpc_message_recv_uint32 (\<lambda>height.
     bind_op do_recv_NPRect (\<lambda>clipRect.
     bind_op rpc_message_recv_int32 (\<lambda>window_type.
     bind_op do_recv_NPSetWindowCallbackStruct (\<lambda>ws_info.
       ret \<lparr>win_window = ucast window_id, win_x = x, win_y = y, win_width = width,
            win_height = height, win_clipRect = clipRect, win_ws_info = ws_info,
            win_type = window_type\<rparr>))))))))"

definition do_send_NPWindow ::
  "(cptr \<Rightarrow> ulong) \<Rightarrow> NPWindow option \<Rightarrow> (rpc_message \<times> 'z io_state_scheme, unit) op"
where
  "do_send_NPWindow visualid window =
     (case window of
        None \<Rightarrow> rpc_message_send_uint32 0
      | Some w \<Rightarrow> run_all [rpc_message_send_uint32 1, do_send_NPWindowData visualid (Some w)])"

definition do_recv_NPWindow :: "(rpc_message \<times> 'z io_state_scheme, NPWindow option) op" where
  "do_recv_NPWindow =
     bind_op rpc_message_recv_uint32 (\<lambda>window_valid.
       if window_valid = 0 then ret None
       else then_op (malloc_op 48) (bind_op do_recv_NPWindowData (\<lambda>w. ret (Some w))))"

subsection \<open>X events\<close>

text \<open>
  The members of the \<open>XEvent\<close> union that are transmitted. The structures of crossing, motion, button
  and key events begin alike, and all begin with those of \<open>XAnyEvent\<close>. Identifiers, serials and times
  are \<open>unsigned long\<close>.
\<close>

record XAnyEvent =
  xserial :: ulong
  xsend_event :: int32
  xwindow :: ulong

record XGraphicsExposeEvent = XAnyEvent +
  g_x :: int32
  g_y :: int32
  g_width :: int32
  g_height :: int32

record XPointerEvent = XAnyEvent +
  xroot :: ulong
  xsubwindow :: ulong
  xtime :: ulong
  xx :: int32
  xy :: int32
  xx_root :: int32
  xy_root :: int32

record XCrossingEvent = XPointerEvent +
  c_mode :: int32
  c_detail :: int32
  c_same_screen :: int32
  c_focus :: int32
  c_state :: uint32

record XMotionEvent = XPointerEvent +
  m_state :: uint32
  m_is_hint :: byte
  m_same_screen :: int32

record XButtonEvent = XPointerEvent +
  b_state :: uint32
  b_button :: uint32
  b_same_screen :: int32

record XKeyEvent = XPointerEvent +
  k_state :: uint32
  k_keycode :: uint32
  k_same_screen :: int32

text \<open>An event with its type code; the flag tells the two types of a structure apart.\<close>

datatype NPEvent =
    GraphicsExpose XGraphicsExposeEvent
  | FocusChange bool XAnyEvent
  | Crossing bool XCrossingEvent
  | Motion XMotionEvent
  | Button bool XButtonEvent
  | Key bool XKeyEvent
  | Other_event int32

fun event_type :: "NPEvent \<Rightarrow> int32" where
  "event_type (GraphicsExpose _) = 13"
| "event_type (FocusChange focus_in _) = (if focus_in then 9 else 10)"
| "event_type (Crossing enter _) = (if enter then 7 else 8)"
| "event_type (Motion _) = 6"
| "event_type (Button press _) = (if press then 4 else 5)"
| "event_type (Key press _) = (if press then 2 else 3)"
| "event_type (Other_event t) = t"

definition is_valid_NPEvent_type :: "NPEvent \<Rightarrow> bool" where
  "is_valid_NPEvent_type event \<longleftrightarrow> event_type event \<in> {13, 9, 10, 7, 8, 6, 4, 5, 2, 3}"

definition do_send_XAnyEvent ::
  "'e XAnyEvent_scheme \<Rightarrow> (rpc_message \<times> 'z io_state_scheme, unit) op"
where
  "do_send_XAnyEvent e = run_all
     [rpc_message_send_uint32 (ucast (xserial e)),
      rpc_message_send_uint32 (xsend_event e),
      rpc_message_send_uint32 (ucast (xwindow e))]"

definition do_send_XGraphicsExposeEvent ::
  "XGraphicsExposeEvent \<Rightarrow> (rpc_message \<times> 'z io_state_scheme, unit) op"
where
  "do_send_XGraphicsExposeEvent e = run_all
     [do_send_XAnyEvent e,
      rpc_message_send_int32 (g_x e),
      rpc_message_send_int32 (g_y e),
      rpc_message_send_uint32 (g_width e),
      rpc_message_send_uint32 (g_height e)]"

definition do_send_XFocusChangeEvent :: "XAnyEvent \<Rightarrow> (rpc_message \<times> 'z io_state_scheme, unit) op" where
  "do_send_XFocusChangeEvent e = ret ()"

text \<open>The calls the four pointer-event senders begin with.\<close>

definition send_pointer_part ::
  "'e XPointerEvent_scheme \<Rightarrow> (rpc_message \<times> 'z io_state_scheme, unit) op"
where
  "send_pointer_part e = run_all
     [do_send_XAnyEvent e,
      rpc_message_send_uint32 (ucast (xroot e)),
      rpc_message_send_uint32 (ucast (xsubwindow e)),
      rpc_message_send_uint32 (ucast (xtime e)),
      rpc_message_send_int32 (xx e),
      rpc_message_send_int32 (xy e),
      rpc_message_send_int32 (xx_root e),
      rpc_message_send_int32 (xy_root e)]"

definition do_send_XCrossingEvent :: "XCrossingEvent \<Rightarrow> (rpc_message \<times> 'z io_state_scheme, unit) op" where
  "do_send_XCrossingEvent e = run_all
     [send_pointer_part e,
      rpc_message_send_int32 (c_mode e),
      rpc_message_send_int32 (c_detail e),
      rpc_message_send_int32 (c_same_screen e),
      rpc_message_send_int32 (c_focus e),
      rpc_message_send_uint32 (c_state e)]"

definition do_send_XMotionEvent :: "XMotionEvent \<Rightarrow> (rpc_message \<times> 'z io_state_scheme, unit) op" where
  "do_send_XMotionEvent e = run_all
     [send_pointer_part e,
      rpc_message_send_uint32 (m_state e),
      rpc_message_send_char (m_is_hint e),
      rpc_message_send_int32 (m_same_screen e)]"

definition do_send_XButtonEvent :: "XButtonEvent \<Rightarrow> (rpc_message \<times> 'z io_state_scheme, unit) op" where
  "do_send_XButtonEvent e = run_all
     [send_pointer_part e,
      rpc_message_send_uint32 (b_state e),
      rpc_message_send_uint32 (b_button e),
      rpc_message_send_int32 (b_same_screen e)]"

definition do_send_XKeyEvent :: "XKeyEvent \<Rightarrow> (rpc_message \<times> 'z io_state_scheme, unit) op" where
  "do_send_XKeyEvent e = run_all
     [send_pointer_part e,
      rpc_message_send_uint32 (k_state e),
      rpc_message_send_uint32 (k_keycode e),
      rpc_message_send_int32 (k_same_screen e)]"

definition do_send_NPEvent :: "NPEvent option \<Rightarrow> (rpc_message \<times> 'z io_state_scheme, unit) op" where
  "do_send_NPEvent event =
     (case event of
        None \<Rightarrow> fail RPC_ERROR_MESSAGE_ARGUMENT_INVALID
      | Some ev \<Rightarrow>
          if \<not> is_valid_NPEvent_type ev then fail RPC_ERROR_MESSAGE_ARGUMENT_INVALID
          else run_all
            [rpc_message_send_int32 (event_type ev),
             (case ev of
                GraphicsExpose e \<Rightarrow> do_send_XGraphicsExposeEvent e
              | FocusChange _ e \<Rightarrow> do_send_XFocusChangeEvent e
              | Crossing _ e \<Rightarrow> do_send_XCrossingEvent e
              | Motion e \<Rightarrow> do_send_XMotionEvent e
              | Button _ e \<Rightarrow> do_send_XButtonEvent e
              | Key _ e \<Rightarrow> do_send_XKeyEvent e
              | Other_event _ \<Rightarrow> fail RPC_ERROR_GENERIC)])"

text \<open>The receivers store what they read into an event that was zeroed.\<close>

definition do_recv_XAnyEvent :: "(rpc_message \<times> 'z io_state_scheme, XAnyEvent) op" where
  "do_recv_XAnyEvent =
     bind_op rpc_message_recv_uint32 (\<lambda>serial.
     bind_op rpc_message_recv_uint32 (\<lambda>send_event.
     bind_op rpc_message_recv_uint32 (\<lambda>window.
       ret \<lparr>xserial = ucast serial, xsend_event = send_event, xwindow = ucast window\<rparr>)))"

definition do_recv_XGraphicsExposeEvent :: "(rpc_message \<times> 'z io_state_scheme, XGraphicsExposeEvent) op" where
  "do_recv_XGraphicsExposeEvent =
     bind_op do_recv_XAnyEvent (\<lambda>a.
     bind_op rpc_message_recv_int32 (\<lambda>x.
     bind_op rpc_message_recv_int32 (\<lambda>y.
     bind_op rpc_message_recv_uint32 (\<lambda>width.
     bind_op rpc_message_recv_uint32 (\<lambda>height.
       ret (XAnyEvent.extend a \<lparr>g_x = x, g_y = y, g_width = width, g_height = height\<rparr>))))))"

definition recv_pointer_part :: "(rpc_message \<times> 'z io_state_scheme, XPointerEvent) op" where
  "recv_pointer_part =
     bind_op do_recv_XAnyEvent (\<lambda>a.
     bind_op rpc_message_recv_uint32 (\<lambda>root.
     bind_op rpc_message_recv_uint32 (\<lambda>subwindow.
     bind_op rpc_message_recv_uint32 (\<lambda>time.
     bind_op rpc_message_recv_int32 (\<lambda>x.
     bind_op rpc_message_recv_int32 (\<lambda>y.
     bind_op rpc_message_recv_int32 (\<lambda>x_root.
     bind_op rpc_message_recv_int32 (\<lambda>y_root.
       ret (XAnyEvent.extend a
         \<lparr>xroot = ucast root, xsubwindow = ucast subwindow, xtime = ucast time,
          xx = x, xy = y, xx_root = x_root, xy_root = y_root\<rparr>)))))))))"

definition do_recv_XFocusChangeEvent :: "(rpc_message \<times> 'z io_state_scheme, XAnyEvent) op" where
  "do_recv_XFocusChangeEvent = ret \<lparr>xserial = 0, xsend_event = 0, xwindow = 0\<rparr>"

definition do_recv_XCrossingEvent :: "(rpc_message \<times> 'z io_state_scheme, XCrossingEvent) op" where
  "do_recv_XCrossingEvent =
     bind_op recv_pointer_part (\<lambda>p.
     bind_op rpc_message_recv_int32 (\<lambda>mode.
     bind_op rpc_message_recv_int32 (\<lambda>detail.
     bind_op rpc_message_recv_int32 (\<lambda>same_screen.
     bind_op rpc_message_recv_int32 (\<lambda>focus.
     bind_op rpc_message_recv_uint32 (\<lambda>state.
       ret (XPointerEvent.extend p \<lparr>c_mode = mode, c_detail = detail, c_same_screen = same_screen,
         c_focus = focus, c_state = state\<rparr>)))))))"

definition do_recv_XMotionEvent :: "(rpc_message \<times> 'z io_state_scheme, XMotionEvent) op" where
  "do_recv_XMotionEvent =
     bind_op recv_pointer_part (\<lambda>p.
     bind_op rpc_message_recv_uint32 (\<lambda>state.
     bind_op rpc_message_recv_char (\<lambda>is_hint.
     bind_op rpc_message_recv_int32 (\<lambda>same_screen.
       ret (XPointerEvent.extend p \<lparr>m_state = state, m_is_hint = is_hint, m_same_screen = same_screen\<rparr>)))))"

definition do_recv_XButtonEvent :: "(rpc_message \<times> 'z io_state_scheme, XButtonEvent) op" where
  "do_recv_XButtonEvent =
     bind_op recv_pointer_part (\<lambda>p.
     bind_op rpc_message_recv_uint32 (\<lambda>state.
     bind_op rpc_message_recv_uint32 (\<lambda>button.
     bind_op rpc_message_recv_int32 (\<lambda>same_screen.
       ret (XPointerEvent.extend p \<lparr>b_state = state, b_button = button, b_same_screen = same_screen\<rparr>)))))"

definition do_recv_XKeyEvent :: "(rpc_message \<times> 'z io_state_scheme, XKeyEvent) op" where
  "do_recv_XKeyEvent =
     bind_op recv_pointer_part (\<lambda>p.
     bind_op rpc_message_recv_uint32 (\<lambda>state.
     bind_op rpc_message_recv_uint32 (\<lambda>keycode.
     bind_op rpc_message_recv_int32 (\<lambda>same_screen.
       ret (XPointerEvent.extend p \<lparr>k_state = state, k_keycode = keycode, k_same_screen = same_screen\<rparr>)))))"

definition do_recv_NPEvent :: "(rpc_message \<times> 'z io_state_scheme, NPEvent) op" where
  "do_recv_NPEvent =
     bind_op rpc_message_recv_int32 (\<lambda>t.
       if t = 13 then bind_op do_recv_XGraphicsExposeEvent (\<lambda>e. ret (GraphicsExpose e))
       else if t = 9 \<or> t = 10 then bind_op do_recv_XFocusChangeEvent (\<lambda>e. ret (FocusChange (t = 9) e))
       else if t = 7 \<or> t = 8 then bind_op do_recv_XCrossingEvent (\<lambda>e. ret (Crossing (t = 7) e))
       else if t = 6 then bind_op do_recv_XMotionEvent (\<lambda>e. ret (Motion e))
       else if t = 4 \<or> t = 5 then bind_op do_recv_XButtonEvent (\<lambda>e. ret (Button (t = 4) e))
       else if t = 2 \<or> t = 3 then bind_op do_recv_XKeyEvent (\<lambda>e. ret (Key (t = 2) e))
       else fail RPC_ERROR_GENERIC)"

subsection \<open>Printing\<close>

text \<open>\<open>NPBool\<close> is an unsigned char; the platform part is not transmitted.\<close>

record NPFullPrint =
  pluginPrinted :: byte
  printOne :: byte
  full_platformPrint :: cptr

record NPEmbedPrint =
  embed_window :: NPWindow
  embed_platformPrint :: cptr

definition do_send_NPFullPrint :: "NPFullPrint \<Rightarrow> (rpc_message \<times> 'z io_state_scheme, unit) op" where
  "do_send_NPFullPrint p = run_all
     [rpc_message_send_uint32 (ucast (pluginPrinted p)), rpc_message_send_uint32 (ucast (printOne p))]"

definition do_recv_NPFullPrint :: "(rpc_message \<times> 'z io_state_scheme, NPFullPrint) op" where
  "do_recv_NPFullPrint =
     bind_op rpc_message_recv_uint32 (\<lambda>printed.
     bind_op rpc_message_recv_uint32 (\<lambda>one.
       ret \<lparr>pluginPrinted = ucast printed, printOne = ucast one, full_platformPrint = 0\<rparr>))"

definition do_send_NPEmbedPrint ::
  "(cptr \<Rightarrow> ulong) \<Rightarrow> NPEmbedPrint \<Rightarrow> (rpc_message \<times> 'z io_state_scheme, unit) op"
where
  "do_send_NPEmbedPrint visualid p = do_send_NPWindowData visualid (Some (embed_window p))"

definition do_recv_NPEmbedPrint :: "(rpc_message \<times> 'z io_state_scheme, NPEmbedPrint) op" where
  "do_recv_NPEmbedPrint =
     bind_op do_recv_NPWindowData (\<lambda>w. ret \<lparr>embed_window = w, embed_platformPrint = 0\<rparr>)"

text \<open>\<open>NPPrint\<close>: the union with its \<open>mode\<close> (\<open>NP_EMBED\<close> is 1, \<open>NP_FULL\<close> is 2).\<close>

datatype NPPrint = Full_print NPFullPrint | Embed_print NPEmbedPrint | Other_print uint16

fun print_mode :: "NPPrint \<Rightarrow> uint16" where
  "print_mode (Full_print _) = 2"
| "print_mode (Embed_print _) = 1"
| "print_mode (Other_print m) = m"

definition do_send_NPPrint ::
  "(cptr \<Rightarrow> ulong) \<Rightarrow> NPPrint \<Rightarrow> (rpc_message \<times> 'z io_state_scheme, unit) op"
where
  "do_send_NPPrint visualid p = run_all
     [rpc_message_send_uint32 (ucast (print_mode p)),
      (case p of
         Full_print f \<Rightarrow> do_send_NPFullPrint f
       | Embed_print e \<Rightarrow> do_send_NPEmbedPrint visualid e
       | Other_print _ \<Rightarrow> fail RPC_ERROR_GENERIC)]"

definition do_recv_NPPrint :: "(rpc_message \<times> 'z io_state_scheme, NPPrint) op" where
  "do_recv_NPPrint =
     bind_op rpc_message_recv_uint32 (\<lambda>mode.
       if mode = 2 then bind_op do_recv_NPFullPrint (\<lambda>f. ret (Full_print f))
       else if mode = 1 then bind_op do_recv_NPEmbedPrint (\<lambda>e. ret (Embed_print e))
       else fail RPC_ERROR_GENERIC)"

text \<open>\<open>NPPrintData\<close> holds at most 4096 bytes; storing more is an access out of bounds.\<close>

definition PRINT_DATA_SIZE :: nat where
  "PRINT_DATA_SIZE = 4096"

record NPPrintData =
  pd_size :: uint32
  pd_data :: "byte list"

definition do_send_NPPrintData :: "NPPrintData \<Rightarrow> (rpc_message \<times> 'z io_state_scheme, unit) op" where
  "do_send_NPPrintData p = run_all
     [rpc_message_send_uint32 (pd_size p), send_counted (pd_size p) (pd_data p)]"

text \<open>Receiving into an object of \<open>limit\<close> bytes.\<close>

definition recv_into :: "nat \<Rightarrow> uint32 \<Rightarrow> (rpc_message \<times> 'z io_state_scheme, byte list) op" where
  "recv_into limit n = (\<lambda>(msg, s).
     case recv_counted n (msg, s) of
       (r, (msg', s')) \<Rightarrow>
         (if limit < length (rx_queue s) - length (rx_queue s') then Crash Out_of_bounds else r, (msg', s')))"

definition do_recv_NPPrintData :: "(rpc_message \<times> 'z io_state_scheme, NPPrintData) op" where
  "do_recv_NPPrintData =
     bind_op rpc_message_recv_uint32 (\<lambda>n.
     bind_op (recv_into PRINT_DATA_SIZE n) (\<lambda>bytes. ret \<lparr>pd_size = n, pd_data = bytes\<rparr>))"

subsection \<open>Strings\<close>

text \<open>
  \<open>NPUTF8\<close>: a C string, sent with its terminating zero. The receiver gets the bytes of the block.
\<close>

definition do_send_NPUTF8 :: "c_string \<Rightarrow> (rpc_message \<times> 'z io_state_scheme, unit) op" where
  "do_send_NPUTF8 string =
     (case string of
        None \<Rightarrow> fail RPC_ERROR_MESSAGE_ARGUMENT_INVALID
      | Some b \<Rightarrow>
          (let len = word_of_nat (length b + 1) :: int32
           in then_op (rpc_message_send_uint32 len)
                (if 0 < c_int len then send_counted len (b @ [0]) else ret ())))"

definition do_recv_NPUTF8 :: "(rpc_message \<times> 'z io_state_scheme, byte list) op" where
  "do_recv_NPUTF8 =
     bind_op rpc_message_recv_uint32 (\<lambda>len.
       then_op (malloc_op (unat len))
         (if 0 < len then recv_counted len else ret []))"

text \<open>
  \<open>NPString\<close>: a length and characters, which may be \<open>NULL\<close>. The receiver always allocates one byte
  more (computed in 32 bits) and terminates the characters with a zero.
\<close>

record NPString =
  UTF8Characters :: "byte list option"
  UTF8Length :: uint32

definition do_send_NPString :: "NPString option \<Rightarrow> (rpc_message \<times> 'z io_state_scheme, unit) op" where
  "do_send_NPString string =
     (case string of
        None \<Rightarrow> fail RPC_ERROR_MESSAGE_ARGUMENT_INVALID
      | Some str \<Rightarrow>
          then_op (rpc_message_send_uint32 (UTF8Length str))
            (case UTF8Characters str of
               Some cs \<Rightarrow> if UTF8Length str \<noteq> 0 then send_counted (UTF8Length str) cs else ret ()
             | None \<Rightarrow> ret ()))"

definition do_recv_NPString :: "(rpc_message \<times> 'z io_state_scheme, NPString) op" where
  "do_recv_NPString =
     bind_op rpc_message_recv_uint32 (\<lambda>len.
       then_op (malloc_op (unat (len + 1)))
         (bind_op (if 0 < len then recv_counted len else ret []) (\<lambda>cs.
            ret \<lparr>UTF8Characters = Some (cs @ [0]), UTF8Length = len\<rparr>)))"

end
