(* ===== verification/Np_Marshalers.thy ===== *)
theory Np_Marshalers
  imports Np_Objects Np_Values
begin

text \<open>
  The marshalers of \<^verbatim>\<open>npw-rpc.c\<close> for values that refer to objects of the two processes: plugin
  instances and streams travel as identifiers of the table both sides keep, scriptable objects as the
  identifiers of stubs, browser identifiers as numbers that mean something to the browser side only.
  The table of all marshalers is in \<open>Np_Table\<close>.
\<close>

subsection \<open>Instances and streams\<close>

definition do_send_NPW_PluginInstance ::
  "cptr \<Rightarrow> (rpc_message \<times> ('h, 'z) np_process_scheme, unit) op"
where
  "do_send_NPW_PluginInstance plugin =
     bind_op (on_io (if plugin = 0 then ret 0
                     else bind_op (deref plugins plugin) (\<lambda>pl. ret (pi_instance_id pl))))
       rpc_message_send_uint32"

text \<open>The members of the instance found are read, to report an instance that is not usable.\<close>

definition do_recv_NPW_PluginInstance ::
  "(('h, 'z) np_process_scheme, 'h) np_env \<Rightarrow> (rpc_message \<times> ('h, 'z) np_process_scheme, cptr) op"
where
  "do_recv_NPW_PluginInstance E =
     bind_op rpc_message_recv_uint32 (\<lambda>i.
     bind_op (on_io (gets (\<lambda>s. id_lookup (hash E) i (ids s)))) (\<lambda>plugin.
     then_op (on_io (if plugin = 0 then ret () else then_op (deref plugins plugin) (ret ())))
       (ret plugin)))"

definition do_send_NPP ::
  "(('h, 'z) np_process_scheme, 'h) np_env \<Rightarrow> cptr \<Rightarrow> (rpc_message \<times> ('h, 'z) np_process_scheme, unit) op"
where
  "do_send_NPP E npp = bind_op (on_io (npw_get_plugin_instance E npp)) do_send_NPW_PluginInstance"

definition do_recv_NPP ::
  "(('h, 'z) np_process_scheme, 'h) np_env \<Rightarrow> (rpc_message \<times> ('h, 'z) np_process_scheme, cptr) op"
where
  "do_recv_NPP E = bind_op (do_recv_NPW_PluginInstance E) (\<lambda>plugin. on_io (npw_get_plugin_instance_npp plugin))"

definition do_send_NPStream :: "cptr \<Rightarrow> (rpc_message \<times> ('h, 'z) np_process_scheme, unit) op" where
  "do_send_NPStream st =
     bind_op (on_io (bind_op (npw_get_stream_instance st) (\<lambda>p.
       if p = 0 then ret 0 else bind_op (deref stream_instances p) (\<lambda>si. ret (si_stream_id si)))))
     rpc_message_send_uint32"

definition do_recv_NPStream ::
  "(('h, 'z) np_process_scheme, 'h) np_env \<Rightarrow> (rpc_message \<times> ('h, 'z) np_process_scheme, cptr) op"
where
  "do_recv_NPStream E =
     bind_op rpc_message_recv_uint32 (\<lambda>i.
     on_io (bind_op (gets (\<lambda>s. id_lookup (hash E) i (ids s))) (\<lambda>p.
       if p = 0 then ret 0 else bind_op (deref stream_instances p) (\<lambda>si. ret (si_stream si)))))"

subsection \<open>Scriptable objects\<close>

abbreviation (input) NPOBJECT_NULL :: uint32 where "NPOBJECT_NULL \<equiv> 0"
abbreviation (input) NPOBJECT_SENDER_OWNED :: uint32 where "NPOBJECT_SENDER_OWNED \<equiv> 1"
abbreviation (input) NPOBJECT_RECEIVER_OWNED :: uint32 where "NPOBJECT_RECEIVER_OWNED \<equiv> 2"

text \<open>
  What \<open>do_send_NPObject_helper\<close> does before it sends anything: a local object gets a stub, a proxy
  gives its identifier, and with \<open>pass_ref\<close> the sender's reference is given up. The result is the kind
  of object, its owner, its identifier and whether the receiver is to drop the stub.
\<close>

definition export_NPObject ::
  "(('h, 'z) np_process_scheme, 'h) np_env \<Rightarrow> cptr \<Rightarrow> bool \<Rightarrow>
     (('h, 'z) np_process_scheme, uint32 \<times> cptr \<times> uint32 \<times> bool) op"
where
  "export_NPObject E npobj pass_ref =
     (if npobj = 0 then ret (NPOBJECT_NULL, 0, 0, False)
      else
        bind_op (npobject_get_proxy_id E npobj) (\<lambda>proxy_id.
        bind_op
          (if proxy_id = 0 then
             bind_op (npobject_create_stub E npobj) (\<lambda>npobj_id.
             then_op (if pass_ref then NPN_ReleaseObject E npobj else ret ())
             (bind_op (if is_plugin E then npobject_get_owner E npobj else ret 0) (\<lambda>plugin.
               ret (NPOBJECT_SENDER_OWNED, plugin, npobj_id, False))))
           else if pass_ref then
             bind_op (deref objects npobj) (\<lambda>obj.
               if obj_refcount obj = 1
               then then_op (npobject_destroy_proxy E (\<lambda>_. ret ()) npobj False)
                      (ret (NPOBJECT_RECEIVER_OWNED, 0, proxy_id, True))
               else then_op (NPN_ReleaseObject E npobj)
                      (ret (NPOBJECT_RECEIVER_OWNED, 0, proxy_id, False)))
           else ret (NPOBJECT_RECEIVER_OWNED, 0, proxy_id, False))
        (\<lambda>(kind, plugin, npobj_id, release_stub).
          then_op (assert_op (npobj_id \<noteq> 0)) (ret (kind, plugin, npobj_id, release_stub)))))"

definition do_send_NPObject_helper ::
  "(('h, 'z) np_process_scheme, 'h) np_env \<Rightarrow> cptr \<Rightarrow> bool \<Rightarrow>
     (rpc_message \<times> ('h, 'z) np_process_scheme, unit) op"
where
  "do_send_NPObject_helper E npobj pass_ref =
     bind_op (on_io (export_NPObject E npobj pass_ref)) (\<lambda>(kind, plugin, npobj_id, release_stub).
       run_all
         [rpc_message_send_uint32 kind,
          do_send_NPW_PluginInstance plugin,
          rpc_message_send_uint32 npobj_id,
          (if pass_ref then rpc_message_send_uint32 (if release_stub then 1 else 0) else ret ())])"

text \<open>What the receiver makes of these.\<close>

definition import_NPObject ::
  "(('h, 'z) np_process_scheme, 'h) np_env \<Rightarrow> uint32 \<Rightarrow> cptr \<Rightarrow> uint32 \<Rightarrow> uint32 \<Rightarrow>
     (('h, 'z) np_process_scheme, cptr) op"
where
  "import_NPObject E kind plugin npobj_id release_stub =
     (if kind = NPOBJECT_NULL then ret 0
      else if kind = NPOBJECT_SENDER_OWNED then
        bind_op (npw_get_plugin_instance_npp plugin) (\<lambda>npp.
        bind_op (npobject_create_proxy E npp npobj_id) (\<lambda>npobj.
          if release_stub \<noteq> 0 then fail RPC_ERROR_GENERIC else ret npobj))
      else if kind = NPOBJECT_RECEIVER_OWNED then
        bind_op (npobject_lookup_local E npobj_id) (\<lambda>npobj.
        then_op (assert_op (npobj \<noteq> 0))
        (then_op (NPN_RetainObject E npobj)
        (then_op (if release_stub \<noteq> 0 then npobject_destroy_stub E npobj_id else ret ())
          (ret npobj))))
      else fail RPC_ERROR_GENERIC)"

definition do_recv_NPObject_helper ::
  "(('h, 'z) np_process_scheme, 'h) np_env \<Rightarrow> bool \<Rightarrow> (rpc_message \<times> ('h, 'z) np_process_scheme, cptr) op"
where
  "do_recv_NPObject_helper E pass_ref =
     bind_op rpc_message_recv_uint32 (\<lambda>kind.
     bind_op (do_recv_NPW_PluginInstance E) (\<lambda>plugin.
     bind_op rpc_message_recv_uint32 (\<lambda>npobj_id.
     bind_op (if pass_ref then rpc_message_recv_uint32 else ret 0) (\<lambda>release_stub.
       on_io (import_NPObject E kind plugin npobj_id release_stub)))))"

definition do_send_NPObject ::
  "(('h, 'z) np_process_scheme, 'h) np_env \<Rightarrow> cptr \<Rightarrow> (rpc_message \<times> ('h, 'z) np_process_scheme, unit) op"
where
  "do_send_NPObject E npobj = do_send_NPObject_helper E npobj False"

definition do_recv_NPObject ::
  "(('h, 'z) np_process_scheme, 'h) np_env \<Rightarrow> (rpc_message \<times> ('h, 'z) np_process_scheme, cptr) op"
where
  "do_recv_NPObject E = do_recv_NPObject_helper E False"

definition do_send_NPObject_pass_ref ::
  "(('h, 'z) np_process_scheme, 'h) np_env \<Rightarrow> cptr \<Rightarrow> (rpc_message \<times> ('h, 'z) np_process_scheme, unit) op"
where
  "do_send_NPObject_pass_ref E npobj = do_send_NPObject_helper E npobj True"

definition do_recv_NPObject_pass_ref ::
  "(('h, 'z) np_process_scheme, 'h) np_env \<Rightarrow> (rpc_message \<times> ('h, 'z) np_process_scheme, cptr) op"
where
  "do_recv_NPObject_pass_ref E = do_recv_NPObject_helper E True"

subsection \<open>Identifiers\<close>

text \<open>The browser side numbers its identifiers; the plugin side uses the numbers as pointers.\<close>

definition export_NPIdentifier ::
  "(('h, 'z) np_process_scheme, 'h) np_env \<Rightarrow> cptr \<Rightarrow> (('h, 'z) np_process_scheme, int32) op"
where
  "export_NPIdentifier E ident =
     (if ident = 0 then ret 0
      else
        bind_op
          (if is_plugin E then ret (ucast ident)
           else bind_op (gets (\<lambda>s. id_lookup_value (hash E) ident (ids s))) (\<lambda>i.
             if i < 0
             then bind_op (gets (\<lambda>s. id_create (hash E) ident (ids s))) (\<lambda>(j, t).
               then_op (modify_state (\<lambda>s. s\<lparr>ids := t\<rparr>)) (ret j))
             else ret (to_int32 i)))
        (\<lambda>i. then_op (assert_op (i \<noteq> 0)) (ret i)))"

definition do_send_NPIdentifier ::
  "(('h, 'z) np_process_scheme, 'h) np_env \<Rightarrow> cptr \<Rightarrow> (rpc_message \<times> ('h, 'z) np_process_scheme, unit) op"
where
  "do_send_NPIdentifier E ident = bind_op (on_io (export_NPIdentifier E ident)) rpc_message_send_uint32"

definition do_recv_NPIdentifier ::
  "(('h, 'z) np_process_scheme, 'h) np_env \<Rightarrow> (rpc_message \<times> ('h, 'z) np_process_scheme, cptr) op"
where
  "do_recv_NPIdentifier E =
     bind_op rpc_message_recv_uint32 (\<lambda>i.
       if i = 0 then ret 0
       else
         bind_op (if is_plugin E then ret (ucast i) else on_io (gets (\<lambda>s. id_lookup (hash E) i (ids s)))) (\<lambda>ident.
           then_op (assert_op (ident \<noteq> 0)) (ret ident)))"

subsection \<open>Variants\<close>

datatype NPVariant =
    V_void | V_null | V_bool bool | V_int32 int32 | V_double uint64 | V_string NPString | V_object cptr
  | V_other uint32

fun variant_type :: "NPVariant \<Rightarrow> uint32" where
  "variant_type V_void = 0"
| "variant_type V_null = 1"
| "variant_type (V_bool _) = 2"
| "variant_type (V_int32 _) = 3"
| "variant_type (V_double _) = 4"
| "variant_type (V_string _) = 5"
| "variant_type (V_object _) = 6"
| "variant_type (V_other t) = t"

record ('s, 'h) npv_env = "('s, 'h) np_env" +
  NPN_ReleaseVariantValue :: "NPVariant \<Rightarrow> ('s, unit) op"

definition is_object :: "NPVariant \<Rightarrow> bool" where
  "is_object v = (case v of V_object _ \<Rightarrow> True | _ \<Rightarrow> False)"

definition do_send_NPVariant_helper ::
  "(('h, 'z) np_process_scheme, 'h) npv_env \<Rightarrow> NPVariant option \<Rightarrow> bool \<Rightarrow>
     (rpc_message \<times> ('h, 'z) np_process_scheme, unit) op"
where
  "do_send_NPVariant_helper E variant pass_ref =
     (case variant of
        None \<Rightarrow> fail RPC_ERROR_MESSAGE_ARGUMENT_INVALID
      | Some v \<Rightarrow> run_all
          [rpc_message_send_uint32 (variant_type v),
           (case v of
              V_bool b \<Rightarrow> rpc_message_send_uint32 (if b then 1 else 0)
            | V_int32 i \<Rightarrow> rpc_message_send_int32 i
            | V_double d \<Rightarrow> rpc_message_send_double d
            | V_string str \<Rightarrow> do_send_NPString (Some str)
            | V_object p \<Rightarrow> do_send_NPObject_helper (np_env.truncate E) p pass_ref
            | _ \<Rightarrow> ret ()),
           (if pass_ref \<and> \<not> is_object v then on_io (NPN_ReleaseVariantValue E v) else ret ())])"

text \<open>A value of unknown type is stored with that type and no value.\<close>

definition do_recv_NPVariant_helper ::
  "(('h, 'z) np_process_scheme, 'h) npv_env \<Rightarrow> bool \<Rightarrow> (rpc_message \<times> ('h, 'z) np_process_scheme, NPVariant) op"
where
  "do_recv_NPVariant_helper E pass_ref =
     bind_op rpc_message_recv_uint32 (\<lambda>t.
       if t = 0 then ret V_void
       else if t = 1 then ret V_null
       else if t = 2 then bind_op rpc_message_recv_uint32 (\<lambda>b. ret (V_bool (b \<noteq> 0)))
       else if t = 3 then bind_op rpc_message_recv_int32 (\<lambda>i. ret (V_int32 i))
       else if t = 4 then bind_op rpc_message_recv_double (\<lambda>d. ret (V_double d))
       else if t = 5 then bind_op do_recv_NPString (\<lambda>str. ret (V_string str))
       else if t = 6 then bind_op (do_recv_NPObject_helper (np_env.truncate E) pass_ref) (\<lambda>p. ret (V_object p))
       else ret (V_other t))"

definition do_send_NPVariant ::
  "(('h, 'z) np_process_scheme, 'h) npv_env \<Rightarrow> NPVariant option \<Rightarrow>
     (rpc_message \<times> ('h, 'z) np_process_scheme, unit) op"
where
  "do_send_NPVariant E variant = do_send_NPVariant_helper E variant False"

definition do_recv_NPVariant ::
  "(('h, 'z) np_process_scheme, 'h) npv_env \<Rightarrow> (rpc_message \<times> ('h, 'z) np_process_scheme, NPVariant) op"
where
  "do_recv_NPVariant E = do_recv_NPVariant_helper E False"

definition do_send_NPVariant_pass_ref ::
  "(('h, 'z) np_process_scheme, 'h) npv_env \<Rightarrow> NPVariant option \<Rightarrow>
     (rpc_message \<times> ('h, 'z) np_process_scheme, unit) op"
where
  "do_send_NPVariant_pass_ref E variant = do_send_NPVariant_helper E variant True"

definition do_recv_NPVariant_pass_ref ::
  "(('h, 'z) np_process_scheme, 'h) npv_env \<Rightarrow> (rpc_message \<times> ('h, 'z) np_process_scheme, NPVariant) op"
where
  "do_recv_NPVariant_pass_ref E = do_recv_NPVariant_helper E True"

end
