(* ===== verification/Np_Wire.thy ===== *)
theory Np_Wire
  imports Np_Values Rpc_Safety
begin

text \<open>
  The wire format of the NPAPI values and the proof that the marshalers of \<^verbatim>\<open>npw-rpc.c\<close> keep the
  contract \<open>stable_marshaler\<close>, one interpretation per type.
\<close>

subsection \<open>Wire format and views\<close>

definition enc_NPByteRange :: "NPByteRange list \<Rightarrow> byte list" where
  "enc_NPByteRange rs =
     concat (map (\<lambda>r. htonl 1 @ htonl (range_offset r) @ htonl (range_length r)) rs) @ htonl 0"

definition wf_NPSavedData :: "NPSavedData option \<Rightarrow> bool" where
  "wf_NPSavedData d = (case d of None \<Rightarrow> True | Some d \<Rightarrow>
     length (saved_buf d) < 2 ^ 31 \<and> saved_len d = word_of_nat (length (saved_buf d)))"

definition enc_NPSavedData :: "NPSavedData option \<Rightarrow> byte list" where
  "enc_NPSavedData d = (case d of None \<Rightarrow> htonl 0 | Some d \<Rightarrow> htonl (saved_len d) @ saved_buf d)"

text \<open>Empty saved data arrive as \<open>NULL\<close>.\<close>

definition view_NPSavedData :: "NPSavedData option \<Rightarrow> NPSavedData option" where
  "view_NPSavedData d = (case d of None \<Rightarrow> None | Some d \<Rightarrow> if saved_buf d = [] then None else Some d)"

definition enc_NPRect :: "NPRect \<Rightarrow> byte list" where
  "enc_NPRect r = concat [htonl (ucast (rect_top r)), htonl (ucast (rect_left r)),
     htonl (ucast (rect_bottom r)), htonl (ucast (rect_right r))]"

definition enc_ws_info :: "(cptr \<Rightarrow> ulong) \<Rightarrow> NPSetWindowCallbackStruct option \<Rightarrow> byte list" where
  "enc_ws_info visualid ws = (case ws of None \<Rightarrow> htonl 0 | Some w \<Rightarrow> concat
     [htonl 1, htonl (ws_type w),
      htonl (if ws_visual w \<noteq> 0 then ucast (visualid (ws_visual w)) else 0),
      htonl (ucast (ws_colormap w)), htonl (ws_depth w)])"

text \<open>The low 32 bits of a 64-bit value, widened again.\<close>

definition low32 :: "uint64 \<Rightarrow> uint64" where
  "low32 v = ucast (ucast v :: uint32)"

text \<open>
  The visual arrives as its identifier in the place of the pointer, the display as \<open>NULL\<close>; the
  plugin side fills both in.
\<close>

definition view_ws_info ::
  "(cptr \<Rightarrow> ulong) \<Rightarrow> NPSetWindowCallbackStruct option \<Rightarrow> NPSetWindowCallbackStruct option"
where
  "view_ws_info visualid = map_option (\<lambda>w. w\<lparr>ws_display := 0,
     ws_visual := (if ws_visual w \<noteq> 0 then low32 (visualid (ws_visual w)) else 0),
     ws_colormap := low32 (ws_colormap w)\<rparr>)"

definition enc_NPWindowData :: "(cptr \<Rightarrow> ulong) \<Rightarrow> NPWindow \<Rightarrow> byte list" where
  "enc_NPWindowData visualid w = concat
     [htonl (ucast (win_window w)), htonl (win_x w), htonl (win_y w), htonl (win_width w),
      htonl (win_height w), enc_NPRect (win_clipRect w), htonl (win_type w),
      enc_ws_info visualid (win_ws_info w)]"

definition view_NPWindow :: "(cptr \<Rightarrow> ulong) \<Rightarrow> NPWindow \<Rightarrow> NPWindow" where
  "view_NPWindow visualid w = w\<lparr>win_window := low32 (win_window w),
     win_ws_info := view_ws_info visualid (win_ws_info w)\<rparr>"

definition enc_NPWindow :: "(cptr \<Rightarrow> ulong) \<Rightarrow> NPWindow option \<Rightarrow> byte list" where
  "enc_NPWindow visualid w = (case w of None \<Rightarrow> htonl 0 | Some w \<Rightarrow> htonl 1 @ enc_NPWindowData visualid w)"

definition enc_XAnyEvent :: "'e XAnyEvent_scheme \<Rightarrow> byte list" where
  "enc_XAnyEvent e = concat [htonl (ucast (xserial e)), htonl (xsend_event e), htonl (ucast (xwindow e))]"

definition view_XAnyEvent :: "'e XAnyEvent_scheme \<Rightarrow> 'e XAnyEvent_scheme" where
  "view_XAnyEvent e = e\<lparr>xserial := low32 (xserial e), xwindow := low32 (xwindow e)\<rparr>"

definition enc_pointer_part :: "'e XPointerEvent_scheme \<Rightarrow> byte list" where
  "enc_pointer_part e = concat
     [enc_XAnyEvent e, htonl (ucast (xroot e)), htonl (ucast (xsubwindow e)), htonl (ucast (xtime e)),
      htonl (xx e), htonl (xy e), htonl (xx_root e), htonl (xy_root e)]"

definition view_pointer_part :: "'e XPointerEvent_scheme \<Rightarrow> 'e XPointerEvent_scheme" where
  "view_pointer_part e = (view_XAnyEvent e)\<lparr>xroot := low32 (xroot e), xsubwindow := low32 (xsubwindow e),
     xtime := low32 (xtime e)\<rparr>"

fun enc_event_body :: "NPEvent \<Rightarrow> byte list" where
  "enc_event_body (GraphicsExpose e) = concat
     [enc_XAnyEvent e, htonl (g_x e), htonl (g_y e), htonl (g_width e), htonl (g_height e)]"
| "enc_event_body (FocusChange _ e) = []"
| "enc_event_body (Crossing _ e) = concat
     [enc_pointer_part e, htonl (c_mode e), htonl (c_detail e), htonl (c_same_screen e),
      htonl (c_focus e), htonl (c_state e)]"
| "enc_event_body (Motion e) = concat
     [enc_pointer_part e, htonl (m_state e), [m_is_hint e], htonl (m_same_screen e)]"
| "enc_event_body (Button _ e) = concat
     [enc_pointer_part e, htonl (b_state e), htonl (b_button e), htonl (b_same_screen e)]"
| "enc_event_body (Key _ e) = concat
     [enc_pointer_part e, htonl (k_state e), htonl (k_keycode e), htonl (k_same_screen e)]"
| "enc_event_body (Other_event _) = []"

definition enc_NPEvent :: "NPEvent \<Rightarrow> byte list" where
  "enc_NPEvent ev = htonl (event_type ev) @ enc_event_body ev"

text \<open>A focus event arrives without the common members.\<close>

fun view_NPEvent :: "NPEvent \<Rightarrow> NPEvent" where
  "view_NPEvent (GraphicsExpose e) = GraphicsExpose (view_XAnyEvent e)"
| "view_NPEvent (FocusChange b e) = FocusChange b \<lparr>xserial = 0, xsend_event = 0, xwindow = 0\<rparr>"
| "view_NPEvent (Crossing b e) = Crossing b (view_pointer_part e)"
| "view_NPEvent (Motion e) = Motion (view_pointer_part e)"
| "view_NPEvent (Button b e) = Button b (view_pointer_part e)"
| "view_NPEvent (Key b e) = Key b (view_pointer_part e)"
| "view_NPEvent (Other_event t) = Other_event t"

definition wf_NPEvent :: "NPEvent \<Rightarrow> bool" where
  "wf_NPEvent ev = (case ev of Other_event _ \<Rightarrow> False | _ \<Rightarrow> True)"

definition enc_NPFullPrint :: "NPFullPrint \<Rightarrow> byte list" where
  "enc_NPFullPrint p = concat [htonl (ucast (pluginPrinted p)), htonl (ucast (printOne p))]"

fun enc_NPPrint :: "(cptr \<Rightarrow> ulong) \<Rightarrow> NPPrint \<Rightarrow> byte list" where
  "enc_NPPrint visualid (Full_print p) = htonl 2 @ enc_NPFullPrint p"
| "enc_NPPrint visualid (Embed_print p) = htonl 1 @ enc_NPWindowData visualid (embed_window p)"
| "enc_NPPrint visualid (Other_print m) = []"

fun view_NPPrint :: "(cptr \<Rightarrow> ulong) \<Rightarrow> NPPrint \<Rightarrow> NPPrint" where
  "view_NPPrint visualid (Full_print p) = Full_print (p\<lparr>full_platformPrint := 0\<rparr>)"
| "view_NPPrint visualid (Embed_print p) =
     Embed_print \<lparr>embed_window = view_NPWindow visualid (embed_window p), embed_platformPrint = 0\<rparr>"
| "view_NPPrint visualid (Other_print m) = Other_print m"

definition wf_NPPrint :: "NPPrint \<Rightarrow> bool" where
  "wf_NPPrint p = (case p of Other_print _ \<Rightarrow> False | _ \<Rightarrow> True)"

definition wf_NPPrintData :: "NPPrintData \<Rightarrow> bool" where
  "wf_NPPrintData p \<longleftrightarrow> pd_data p \<noteq> [] \<and> length (pd_data p) \<le> PRINT_DATA_SIZE \<and>
     pd_size p = word_of_nat (length (pd_data p))"

definition enc_NPPrintData :: "NPPrintData \<Rightarrow> byte list" where
  "enc_NPPrintData p = htonl (pd_size p) @ pd_data p"

definition wf_NPUTF8 :: "c_string \<Rightarrow> bool" where
  "wf_NPUTF8 str = (case str of None \<Rightarrow> False | Some b \<Rightarrow> length b < 2 ^ 31 - 1)"

definition enc_NPUTF8 :: "c_string \<Rightarrow> byte list" where
  "enc_NPUTF8 str = (case str of None \<Rightarrow> [] | Some b \<Rightarrow> htonl (word_of_nat (length b + 1)) @ b @ [0])"

definition view_NPUTF8 :: "c_string \<Rightarrow> byte list" where
  "view_NPUTF8 str = (case str of None \<Rightarrow> [] | Some b \<Rightarrow> b @ [0])"

text \<open>Strings whose characters and length agree; \<open>NULL\<close> characters only for the empty string.\<close>

definition chars_of :: "NPString \<Rightarrow> byte list" where
  "chars_of str = (case UTF8Characters str of None \<Rightarrow> [] | Some cs \<Rightarrow> cs)"

definition wf_NPString :: "NPString \<Rightarrow> bool" where
  "wf_NPString str \<longleftrightarrow> length (chars_of str) < 2 ^ 31 \<and> UTF8Length str = word_of_nat (length (chars_of str))"

definition enc_NPString :: "NPString \<Rightarrow> byte list" where
  "enc_NPString str = htonl (UTF8Length str) @ chars_of str"

definition view_NPString :: "NPString \<Rightarrow> NPString" where
  "view_NPString str = \<lparr>UTF8Characters = Some (chars_of str @ [0]), UTF8Length = UTF8Length str\<rparr>"

lemma reads_by:
  assumes "\<And>s rest. rx_queue s = bs @ rest \<Longrightarrow> reads I (m s) bs v"
    and "\<And>msg s. n (msg, s) = m s (msg, s)"
  shows "reads I n bs v"
  unfolding reads_def assms(2) using assms(1) unfolding reads_def by blast

lemma ucast_widened [simp]:
  "ucast (ucast (x :: uint16) :: uint32) = x" "ucast (ucast (b :: byte) :: uint32) = b"
  by (rule bit_word_eqI, simp add: bit_simps)+

subsection \<open>The marshalers keep the contract\<close>

text \<open>
  The contract is proved for any invariant of the endpoint that transfers keep and that grants
  memory; the marshalers of values ask for nothing more.
\<close>

locale roomy =
  fixes I :: "'z io_state_scheme \<Rightarrow> bool"
  assumes stable: "io_stable I"
    and memory: "I s \<Longrightarrow> mem_ok s"
begin

lemmas send_rules = sends_run_all_Cons sends_run_all_Nil sends_ret sends_int32 [OF stable]
  sends_uint32 [OF stable] sends_char [OF stable] sends_uint64 [OF stable]

lemmas recv_rules = reads_bind [OF reads_int32 [OF stable]] reads_bind [OF reads_uint32 [OF stable]]
  reads_bind [OF reads_char [OF stable]]

lemma reads_alloc: "n < 2 ^ 36 \<Longrightarrow> reads I (malloc_op n) [] ()"
  by (rule reads_malloc) (use memory in \<open>auto simp: mem_ok_def\<close>)

lemma reads_alloc_word: "reads I (malloc_op (unat (n :: uint32))) [] ()"
  using unsigned_less [of n, where 'a = nat] by (intro reads_alloc) simp

lemma marshaler_NPRect:
  "marshaler I do_send_NPRect do_recv_NPRect enc_NPRect (\<lambda>r. r) (\<lambda>_. True)"
  unfolding do_send_NPRect_def do_recv_NPRect_def enc_NPRect_def concat.simps
  by (rule marshaler.intro; intro send_rules recv_rules reads_ret_eq) simp

lemma marshaler_NotifyData:
  "marshaler I do_send_NotifyData (do_recv_NotifyData ptr32) enc_uint64 (\<lambda>p. p)
     (\<lambda>p. ptr32 \<longrightarrow> hi32 p = 0)"
  unfolding do_send_NotifyData_def do_recv_NotifyData_def
  by unfold_locales (auto intro!: send_rules reads_bind_last [OF reads_uint64 [OF stable]] reads_ret)

lemma marshaler_ws_info:
  "marshaler I (do_send_NPSetWindowCallbackStruct visualid) do_recv_NPSetWindowCallbackStruct
     (enc_ws_info visualid) (view_ws_info visualid) (\<lambda>_. True)"
proof
  fix ws
  show "sends I (do_send_NPSetWindowCallbackStruct visualid ws) (enc_ws_info visualid ws)"
    unfolding do_send_NPSetWindowCallbackStruct_def enc_ws_info_def concat.simps
    by (cases ws) (simp_all only: option.case, (intro send_rules)+)
  show "reads I do_recv_NPSetWindowCallbackStruct (enc_ws_info visualid ws) (view_ws_info visualid ws)"
  proof (cases ws)
    case None
    have "reads I do_recv_NPSetWindowCallbackStruct (htonl 0 @ []) (view_ws_info visualid ws)"
      unfolding do_recv_NPSetWindowCallbackStruct_def
      by (intro recv_rules) (simp add: None view_ws_info_def reads_ret)
    then show ?thesis by (simp add: None enc_ws_info_def)
  next
    case (Some w)
    show ?thesis
      unfolding do_recv_NPSetWindowCallbackStruct_def enc_ws_info_def Some option.case concat.simps
      by (rule recv_rules, simp only: one_neq_zero if_False)
        (intro recv_rules reads_then_Nil [OF reads_alloc] reads_ret_eq,
          simp_all add: view_ws_info_def low32_def)
  qed
qed

lemma sends_drop_error: "sends I m b \<Longrightarrow> sends I (drop_error m) b"
  unfolding sends_def drop_error_def by fastforce

lemmas ws_laws = marshaler.send_law [OF marshaler_ws_info TrueI]
  marshaler.recv_law [OF marshaler_ws_info TrueI]
lemmas rect_laws = marshaler.send_law [OF marshaler_NPRect TrueI]
  marshaler.recv_law [OF marshaler_NPRect TrueI]

lemma marshaler_NPWindowData:
  "marshaler I (\<lambda>w. do_send_NPWindowData visualid (Some w)) do_recv_NPWindowData
     (enc_NPWindowData visualid) (view_NPWindow visualid) (\<lambda>_. True)"
  unfolding do_send_NPWindowData_def do_recv_NPWindowData_def enc_NPWindowData_def concat.simps option.case
  by (rule marshaler.intro;
      intro send_rules sends_drop_error ws_laws rect_laws recv_rules reads_ret_eq
        reads_bind [OF rect_laws(2)] reads_bind [OF ws_laws(2)])
    (simp add: view_NPWindow_def low32_def)

lemmas window_laws = marshaler.send_law [OF marshaler_NPWindowData TrueI]
  marshaler.recv_law [OF marshaler_NPWindowData TrueI]

lemma marshaler_NPWindow:
  "marshaler I (do_send_NPWindow visualid) do_recv_NPWindow (enc_NPWindow visualid)
     (map_option (view_NPWindow visualid)) (\<lambda>_. True)"
proof (rule marshaler.intro)
  fix w
  have "sends I (do_send_NPWindow visualid (Some v)) (htonl 1 @ enc_NPWindowData visualid v @ [])" for v
    unfolding do_send_NPWindow_def option.case by (intro send_rules window_laws)
  then show "sends I (do_send_NPWindow visualid w) (enc_NPWindow visualid w)"
    by (cases w) (simp_all add: enc_NPWindow_def do_send_NPWindow_def send_rules)
  have "reads I do_recv_NPWindow (htonl 0 @ []) None"
    unfolding do_recv_NPWindow_def by (intro recv_rules) (simp add: reads_ret)
  moreover have "reads I do_recv_NPWindow (htonl 1 @ enc_NPWindowData visualid v)
      (Some (view_NPWindow visualid v))" for v
    unfolding do_recv_NPWindow_def
    by (intro recv_rules)
      (auto intro!: reads_then_Nil [OF reads_alloc] reads_bind_ret [OF window_laws(2)])
  ultimately show "reads I do_recv_NPWindow (enc_NPWindow visualid w) (map_option (view_NPWindow visualid) w)"
    by (cases w) (simp_all add: enc_NPWindow_def)
qed

subsubsection \<open>Events\<close>

lemma any_event_laws:
  "sends I (do_send_XAnyEvent e) (enc_XAnyEvent e)"
  "reads I do_recv_XAnyEvent (enc_XAnyEvent e)
     \<lparr>xserial = low32 (xserial e), xsend_event = xsend_event e, xwindow = low32 (xwindow e)\<rparr>"
  unfolding do_send_XAnyEvent_def do_recv_XAnyEvent_def enc_XAnyEvent_def concat.simps
  by (intro send_rules recv_rules reads_ret_eq; simp add: low32_def)+

lemma pointer_part_laws:
  "sends I (send_pointer_part e) (enc_pointer_part e)"
  "reads I recv_pointer_part (enc_pointer_part e) (XPointerEvent.truncate (view_pointer_part e))"
  unfolding send_pointer_part_def recv_pointer_part_def enc_pointer_part_def concat.simps
  by (intro send_rules any_event_laws reads_bind [OF any_event_laws(2)] recv_rules reads_ret_eq;
      simp add: low32_def view_pointer_part_def view_XAnyEvent_def XPointerEvent.defs XAnyEvent.defs)+

lemmas event_view_defs = low32_def view_pointer_part_def view_XAnyEvent_def XPointerEvent.defs
  XAnyEvent.defs

lemma event_body_laws:
  "sends I (do_send_XGraphicsExposeEvent g) (enc_event_body (GraphicsExpose g))"
  "reads I do_recv_XGraphicsExposeEvent (enc_event_body (GraphicsExpose g)) (view_XAnyEvent g)"
  "sends I (do_send_XFocusChangeEvent a) (enc_event_body (FocusChange t a))"
  "reads I do_recv_XFocusChangeEvent (enc_event_body (FocusChange t a))
     \<lparr>xserial = 0, xsend_event = 0, xwindow = 0\<rparr>"
  "sends I (do_send_XCrossingEvent c) (enc_event_body (Crossing t c))"
  "reads I do_recv_XCrossingEvent (enc_event_body (Crossing t c)) (view_pointer_part c)"
  "sends I (do_send_XMotionEvent m) (enc_event_body (Motion m))"
  "reads I do_recv_XMotionEvent (enc_event_body (Motion m)) (view_pointer_part m)"
  "sends I (do_send_XButtonEvent b) (enc_event_body (Button t b))"
  "reads I do_recv_XButtonEvent (enc_event_body (Button t b)) (view_pointer_part b)"
  "sends I (do_send_XKeyEvent k) (enc_event_body (Key t k))"
  "reads I do_recv_XKeyEvent (enc_event_body (Key t k)) (view_pointer_part k)"
  unfolding do_send_XGraphicsExposeEvent_def do_recv_XGraphicsExposeEvent_def do_send_XCrossingEvent_def
    do_recv_XCrossingEvent_def do_send_XMotionEvent_def do_recv_XMotionEvent_def
    do_send_XFocusChangeEvent_def do_recv_XFocusChangeEvent_def do_send_XButtonEvent_def do_recv_XButtonEvent_def do_send_XKeyEvent_def do_recv_XKeyEvent_def
    enc_event_body.simps concat.simps
  by (intro send_rules any_event_laws pointer_part_laws reads_bind [OF any_event_laws(2)]
      reads_bind [OF pointer_part_laws(2)] recv_rules reads_ret_eq; simp add: event_view_defs)+

lemma marshaler_NPEvent:
  "marshaler I (\<lambda>ev. do_send_NPEvent (Some ev)) do_recv_NPEvent enc_NPEvent view_NPEvent wf_NPEvent"
proof (rule marshaler.intro)
  fix ev
  assume wf: "wf_NPEvent ev"
  then have valid: "is_valid_NPEvent_type ev"
    by (auto simp: wf_NPEvent_def is_valid_NPEvent_type_def split: NPEvent.splits)
  have "sends I (do_send_NPEvent (Some ev)) (htonl (event_type ev) @ enc_event_body ev @ [])"
    unfolding do_send_NPEvent_def option.case using valid
    by (simp only: not_True_eq_False if_False) (intro send_rules,
      use wf in \<open>auto simp: wf_NPEvent_def simp del: enc_event_body.simps
        intro: event_body_laws sends_ret split: NPEvent.splits\<close>)
  then show "sends I (do_send_NPEvent (Some ev)) (enc_NPEvent ev)"
    by (simp add: enc_NPEvent_def)
  show "reads I do_recv_NPEvent (enc_NPEvent ev) (view_NPEvent ev)"
    unfolding do_recv_NPEvent_def enc_NPEvent_def
    by (intro recv_rules, use wf in \<open>cases ev\<close>)
      (auto simp: wf_NPEvent_def simp del: enc_event_body.simps
        intro!: reads_bind_ret event_body_laws reads_ret)
qed

subsubsection \<open>Printing\<close>

lemma marshaler_NPFullPrint:
  "marshaler I do_send_NPFullPrint do_recv_NPFullPrint enc_NPFullPrint
     (\<lambda>p. p\<lparr>full_platformPrint := 0\<rparr>) (\<lambda>_. True)"
  unfolding do_send_NPFullPrint_def do_recv_NPFullPrint_def enc_NPFullPrint_def concat.simps
  by (rule marshaler.intro; intro send_rules recv_rules reads_ret_eq) simp

lemma marshaler_NPPrint:
  "marshaler I (do_send_NPPrint visualid) do_recv_NPPrint (enc_NPPrint visualid)
     (view_NPPrint visualid) wf_NPPrint"
proof (rule marshaler.intro)
  note full = marshaler.send_law [OF marshaler_NPFullPrint TrueI]
    marshaler.recv_law [OF marshaler_NPFullPrint TrueI]
  fix p
  assume wf: "wf_NPPrint p"
  show "sends I (do_send_NPPrint visualid p) (enc_NPPrint visualid p)"
  proof (cases p)
    case (Full_print f)
    have "sends I (do_send_NPPrint visualid p) (htonl (ucast (2 :: uint16)) @ enc_NPFullPrint f @ [])"
      unfolding do_send_NPPrint_def Full_print print_mode.simps NPPrint.case by (intro send_rules full)
    then show ?thesis by (simp add: Full_print)
  next
    case (Embed_print e)
    have "sends I (do_send_NPPrint visualid p)
        (htonl (ucast (1 :: uint16)) @ enc_NPWindowData visualid (embed_window e) @ [])"
      unfolding do_send_NPPrint_def Embed_print print_mode.simps NPPrint.case do_send_NPEmbedPrint_def
      by (intro send_rules window_laws)
    then show ?thesis by (simp add: Embed_print)
  qed (use wf in \<open>simp add: wf_NPPrint_def\<close>)
  show "reads I do_recv_NPPrint (enc_NPPrint visualid p) (view_NPPrint visualid p)"
    using wf unfolding do_recv_NPPrint_def do_recv_NPEmbedPrint_def
    by (cases p) (auto simp: wf_NPPrint_def intro!: recv_rules reads_bind_ret full
        reads_bind_ret [OF reads_bind_ret [OF window_laws(2)]])
qed

lemma reads_into:
  assumes "bs \<noteq> []" "length bs \<le> limit" "length bs < 2 ^ 31"
  shows "reads I (recv_into limit (word_of_nat (length bs))) bs bs"
  unfolding reads_def
proof (intro allI impI)
  fix msg s rest
  assume pre: "calm s \<and> I s \<and> rx_queue s = bs @ rest"
  with reads_counted [OF stable assms(1,3)] obtain s' where
    "recv_counted (word_of_nat (length bs)) (msg, s) = (Ok bs, (msg, s'))" "calm s'" "I s'"
    "rx_queue s' = rest" "rx_eof s' = rx_eof s" "tx_wire s' = tx_wire s"
    unfolding reads_def by blast
  with pre assms(2) show "\<exists>s'. recv_into limit (word_of_nat (length bs)) (msg, s) = (Ok bs, (msg, s')) \<and>
      calm s' \<and> I s' \<and> rx_queue s' = rest \<and> rx_eof s' = rx_eof s \<and> tx_wire s' = tx_wire s"
    by (simp add: recv_into_def)
qed

lemma marshaler_NPPrintData:
  "marshaler I do_send_NPPrintData do_recv_NPPrintData enc_NPPrintData (\<lambda>p. p) wf_NPPrintData"
proof (rule marshaler.intro)
  fix p
  assume wf: "wf_NPPrintData p"
  then have n: "length (pd_data p) < 2 ^ 31" "pd_size p = word_of_nat (length (pd_data p))"
    by (simp_all add: wf_NPPrintData_def PRINT_DATA_SIZE_def)
  have "sends I (do_send_NPPrintData p) (htonl (pd_size p) @ pd_data p @ [])"
    unfolding do_send_NPPrintData_def n(2)
    by (intro send_rules sends_counted [OF stable n(1)])
  then show "sends I (do_send_NPPrintData p) (enc_NPPrintData p)"
    by (simp add: enc_NPPrintData_def)
  show "reads I do_recv_NPPrintData (enc_NPPrintData p) p"
    unfolding do_recv_NPPrintData_def enc_NPPrintData_def
    by (intro recv_rules reads_bind_ret)
      (use wf n in \<open>auto simp: wf_NPPrintData_def n(2) intro!: reads_into\<close>)
qed

subsubsection \<open>Counted bytes and lists\<close>

lemma marshaler_NPSavedData:
  "marshaler I do_send_NPSavedData do_recv_NPSavedData enc_NPSavedData view_NPSavedData wf_NPSavedData"
proof (rule marshaler.intro)
  fix d
  assume wf: "wf_NPSavedData d"
  have none: "reads I do_recv_NPSavedData (htonl 0 @ []) None"
    unfolding do_recv_NPSavedData_def by (intro recv_rules) (simp add: reads_ret)
  have some: "sends I (do_send_NPSavedData (Some e)) (htonl (saved_len e) @ saved_buf e @ [])"
    "saved_buf e \<noteq> [] \<Longrightarrow> reads I do_recv_NPSavedData (htonl (saved_len e) @ saved_buf e) (Some e)"
    if n: "length (saved_buf e) < 2 ^ 31" "saved_len e = word_of_nat (length (saved_buf e))" for e
  proof -
    show "sends I (do_send_NPSavedData (Some e)) (htonl (saved_len e) @ saved_buf e @ [])"
      unfolding do_send_NPSavedData_def option.case n(2)
      by (intro send_rules sends_counted [OF stable n(1)])
    assume ne: "saved_buf e \<noteq> []"
    then have "saved_len e \<noteq> 0"
      using n counted_facts(2) [OF n(1)] by (metis length_0_conv unat_0)
    then show "reads I do_recv_NPSavedData (htonl (saved_len e) @ saved_buf e) (Some e)"
      unfolding do_recv_NPSavedData_def
      by (intro recv_rules)
        (use ne n reads_counted [OF stable ne n(1)] in \<open>auto intro!: reads_then_Nil [OF reads_alloc]
          reads_then_Nil [OF reads_alloc_word] reads_bind_ret\<close>)
  qed
  show "sends I (do_send_NPSavedData d) (enc_NPSavedData d)"
    using wf some(1) by (cases d)
      (auto simp: wf_NPSavedData_def enc_NPSavedData_def do_send_NPSavedData_def intro: send_rules)
  show "reads I do_recv_NPSavedData (enc_NPSavedData d) (view_NPSavedData d)"
    using wf some(2) none
    by (cases d) (auto simp: wf_NPSavedData_def enc_NPSavedData_def view_NPSavedData_def)
qed

lemma sends_ranges: "sends I (do_send_NPByteRange rs) (enc_NPByteRange rs)"
proof (induction rs)
  case Nil
  then show ?case by (simp add: enc_NPByteRange_def send_rules)
next
  case (Cons r rs)
  have "sends I (do_send_NPByteRange (r # rs))
      (htonl 1 @ htonl (range_offset r) @ htonl (range_length r) @ enc_NPByteRange rs @ [])"
    unfolding do_send_NPByteRange.simps by (intro send_rules Cons.IH)
  then show ?case by (simp add: enc_NPByteRange_def)
qed

lemma reads_ranges_loop:
  "length rs < fuel \<Longrightarrow> reads I (recv_ranges_loop fuel) (enc_NPByteRange rs) rs"
proof (induction rs arbitrary: fuel)
  case Nil
  then obtain f where f: "fuel = Suc f" by (cases fuel) auto
  have "reads I (recv_ranges_loop fuel) (htonl 0 @ []) []"
    unfolding f recv_ranges_loop.simps by (intro recv_rules) (simp add: reads_ret)
  then show ?case by (simp add: enc_NPByteRange_def)
next
  case (Cons r rs)
  then obtain f where f: "fuel = Suc f" "length rs < f" by (cases fuel) auto
  have "reads I (recv_ranges_loop fuel)
      (htonl 1 @ htonl (range_offset r) @ htonl (range_length r) @ enc_NPByteRange rs) (r # rs)"
    unfolding f recv_ranges_loop.simps
    by (rule recv_rules, simp only: one_neq_zero if_False)
      (intro recv_rules reads_then_Nil [OF reads_alloc] reads_bind_ret [OF Cons.IH [OF f(2)]], simp_all)
  then show ?case by (simp add: enc_NPByteRange_def)
qed

text \<open>The fuel is one more than the number of bytes waiting, and every range takes at least four.\<close>

lemma length_enc_ranges: "length rs < length (enc_NPByteRange rs)"
  by (induction rs) (simp_all add: enc_NPByteRange_def)

lemma marshaler_NPByteRange:
  "marshaler I do_send_NPByteRange do_recv_NPByteRange enc_NPByteRange (\<lambda>rs. rs) (\<lambda>_. True)"
proof (rule marshaler.intro)
  fix rs
  show "sends I (do_send_NPByteRange rs) (enc_NPByteRange rs)" by (rule sends_ranges)
  show "reads I do_recv_NPByteRange (enc_NPByteRange rs) rs"
    by (rule reads_by [where m = "\<lambda>s. recv_ranges_loop (Suc (length (rx_queue s)))"])
      (use length_enc_ranges [of rs] in \<open>auto simp: do_recv_NPByteRange_def simp del: recv_ranges_loop.simps intro: reads_ranges_loop\<close>)
qed

lemma marshaler_NPUTF8:
  "marshaler I do_send_NPUTF8 do_recv_NPUTF8 enc_NPUTF8 view_NPUTF8 wf_NPUTF8"
proof (rule marshaler.intro)
  fix str
  assume "wf_NPUTF8 str"
  then obtain b where b: "str = Some b" "length (b @ [0]) < 2 ^ 31"
    by (auto simp: wf_NPUTF8_def split: option.splits)
  define n where "n = (word_of_nat (length b + 1) :: uint32)"
  have n: "n = word_of_nat (length (b @ [0]))" by (simp add: n_def)
  have "c_int n = int (length (b @ [0]))"
    unfolding n using c_int_to_int32 [of "int (length (b @ [0]))"] b(2) by simp
  then have len: "0 < c_int n" by simp
  have pos: "0 < n"
    unfolding n using counted_facts(2) [OF b(2)] by (simp only: word_less_nat_alt) simp
  have "sends I (do_send_NPUTF8 str) (htonl n @ (b @ [0]))"
    unfolding do_send_NPUTF8_def b(1) option.case Let_def n_def [symmetric]
    by (intro sends_then send_rules) (use len sends_counted [OF stable b(2)] n in simp)
  then show "sends I (do_send_NPUTF8 str) (enc_NPUTF8 str)"
    by (simp add: b enc_NPUTF8_def n_def)
  have "reads I do_recv_NPUTF8 (htonl n @ (b @ [0])) (b @ [0])"
    unfolding do_recv_NPUTF8_def
    by (intro recv_rules reads_then_Nil [OF reads_alloc_word])
      (use pos reads_counted [OF stable _ b(2)] n in simp)
  then show "reads I do_recv_NPUTF8 (enc_NPUTF8 str) (view_NPUTF8 str)"
    by (simp add: b enc_NPUTF8_def view_NPUTF8_def n_def)
qed

lemma marshaler_NPString:
  "marshaler I (\<lambda>str. do_send_NPString (Some str)) do_recv_NPString enc_NPString view_NPString wf_NPString"
proof (rule marshaler.intro)
  fix str
  assume "wf_NPString str"
  then have n: "length (chars_of str) < 2 ^ 31" "UTF8Length str = word_of_nat (length (chars_of str))"
    by (simp_all add: wf_NPString_def)
  have u: "unat (UTF8Length str) = length (chars_of str)"
    unfolding n(2) by (rule counted_facts(2) [OF n(1)])
  have nz: "UTF8Length str = 0 \<longleftrightarrow> chars_of str = []"
    unfolding length_0_conv [symmetric] u [symmetric] by (simp add: unat_eq_zero)
  have "sends I (case UTF8Characters str of
        Some cs \<Rightarrow> if UTF8Length str \<noteq> 0 then send_counted (UTF8Length str) cs else ret ()
      | None \<Rightarrow> ret ()) (chars_of str)"
    using sends_counted [OF stable n(1)] nz unfolding n(2)
    by (auto simp: chars_of_def sends_ret split: option.splits)
  then show "sends I (do_send_NPString (Some str)) (enc_NPString str)"
    by (simp add: do_send_NPString_def enc_NPString_def sends_then send_rules)
  have "reads I (if 0 < UTF8Length str then recv_counted (UTF8Length str) else ret []) (chars_of str)
      (chars_of str)"
    using nz reads_counted [OF stable _ n(1)] n(2) by (auto simp: word_gt_0 reads_ret)
  then show "reads I do_recv_NPString (enc_NPString str) (view_NPString str)"
    unfolding do_recv_NPString_def enc_NPString_def
    by (intro recv_rules reads_then_Nil [OF reads_alloc_word] reads_bind_ret) (simp_all add: view_NPString_def)
qed

end

subsection \<open>Interpretations\<close>

lemma mem_ok_stable: "io_stable mem_ok"
  by (simp add: io_stable_def mem_ok_def)

interpretation io: roomy mem_ok
  by unfold_locales (simp_all add: mem_ok_stable)

lemma stable_marshalerI:
  "marshaler mem_ok a b c d e \<Longrightarrow> stable_marshaler mem_ok a b c d e"
  by (simp add: stable_marshaler_def stable_marshaler_axioms_def mem_ok_stable)

interpretation rect: stable_marshaler mem_ok do_send_NPRect do_recv_NPRect enc_NPRect "\<lambda>r. r" "\<lambda>_. True"
  by (rule stable_marshalerI, rule io.marshaler_NPRect)

interpretation notify_data: stable_marshaler mem_ok do_send_NotifyData "do_recv_NotifyData ptr32" enc_uint64
  "\<lambda>p. p" "\<lambda>p. ptr32 \<longrightarrow> hi32 p = 0" for ptr32
  by (rule stable_marshalerI, rule io.marshaler_NotifyData)

interpretation window: stable_marshaler mem_ok "do_send_NPWindow visualid" do_recv_NPWindow
  "enc_NPWindow visualid" "map_option (view_NPWindow visualid)" "\<lambda>_. True" for visualid
  by (rule stable_marshalerI, rule io.marshaler_NPWindow)

interpretation event: stable_marshaler mem_ok "\<lambda>ev. do_send_NPEvent (Some ev)" do_recv_NPEvent enc_NPEvent
  view_NPEvent wf_NPEvent
  by (rule stable_marshalerI, rule io.marshaler_NPEvent)

interpretation full_print: stable_marshaler mem_ok do_send_NPFullPrint do_recv_NPFullPrint enc_NPFullPrint
  "\<lambda>p. p\<lparr>full_platformPrint := 0\<rparr>" "\<lambda>_. True"
  by (rule stable_marshalerI, rule io.marshaler_NPFullPrint)

interpretation print: stable_marshaler mem_ok "do_send_NPPrint visualid" do_recv_NPPrint
  "enc_NPPrint visualid" "view_NPPrint visualid" wf_NPPrint for visualid
  by (rule stable_marshalerI, rule io.marshaler_NPPrint)

interpretation print_data: stable_marshaler mem_ok do_send_NPPrintData do_recv_NPPrintData enc_NPPrintData
  "\<lambda>p. p" wf_NPPrintData
  by (rule stable_marshalerI, rule io.marshaler_NPPrintData)

interpretation saved_data: stable_marshaler mem_ok do_send_NPSavedData do_recv_NPSavedData enc_NPSavedData
  view_NPSavedData wf_NPSavedData
  by (rule stable_marshalerI, rule io.marshaler_NPSavedData)

interpretation ranges: stable_marshaler mem_ok do_send_NPByteRange do_recv_NPByteRange enc_NPByteRange
  "\<lambda>rs. rs" "\<lambda>_. True"
  by (rule stable_marshalerI, rule io.marshaler_NPByteRange)

interpretation utf8: stable_marshaler mem_ok do_send_NPUTF8 do_recv_NPUTF8 enc_NPUTF8 view_NPUTF8 wf_NPUTF8
  by (rule stable_marshalerI, rule io.marshaler_NPUTF8)

interpretation np_string: stable_marshaler mem_ok "\<lambda>str. do_send_NPString (Some str)" do_recv_NPString
  enc_NPString view_NPString wf_NPString
  by (rule stable_marshalerI, rule io.marshaler_NPString)

subsection \<open>Properties\<close>

text \<open>Two ends of a socket on which every transfer takes several system calls.\<close>

definition slow_end :: io_state where
  "slow_end = \<lparr>rx_queue = [], rx_eof = False, rx_script = [Xfer 1, Sys_errno EINTR, Xfer 2], tx_wire = [],
     tx_script = [Xfer 3, Would_block Poll_ready], malloc_ok = (\<lambda>_. True)\<rparr>"

lemma slow_end_facts: "calm slow_end" "mem_ok slow_end" "tx_wire slow_end = []"
  by (simp_all add: slow_end_def calm_def mem_ok_def)

text \<open>
  C17. Windows survive the wire: whatever \<open>NPWindow\<close> (or \<open>NULL\<close>) \<open>do_send_NPWindow\<close> sends, with or
  without window-system information, \<open>do_recv_NPWindow\<close> rebuilds with the same geometry, clip rectangle
  and type, the window identifier and colormap cut to 32 bits, the visual replaced by its identifier
  and the display \<open>NULL\<close>; it consumes exactly the bytes sent.
\<close>

theorem NPWindow_round_trip:
  fixes s r :: "'z io_state_scheme"
  assumes "calm s" "mem_ok s" "tx_wire s = []" "calm r" "mem_ok r"
  shows "\<exists>msg' s' r'.
    then_op (do_send_NPWindow visualid w) rpc_message_flush (rpc_message_init, s) = (Ok (), (msg', s')) \<and>
    do_recv_NPWindow (msg, r\<lparr>rx_queue := tx_wire s' @ rest\<rparr>) =
      (Ok (map_option (view_NPWindow visualid) w), (msg, r')) \<and> rx_queue r' = rest"
  using window.round_trip [OF TrueI assms] by blast

theorem NPWindow_round_trip_witness:
  "\<exists>w msg' s' r'. w = \<lparr>win_window = 2 ^ 32 + 5, win_x = 1, win_y = - 1, win_width = 640, win_height = 480,
      win_clipRect = \<lparr>rect_top = 0, rect_left = 0, rect_bottom = 480, rect_right = 640\<rparr>,
      win_ws_info = None, win_type = 1\<rparr> \<and>
    then_op (do_send_NPWindow (\<lambda>v. v) (Some w)) rpc_message_flush (rpc_message_init, slow_end) = (Ok (), (msg', s')) \<and>
    do_recv_NPWindow (rpc_message_init, slow_end\<lparr>rx_queue := tx_wire s' @ [7]\<rparr>) =
      (Ok (Some (w\<lparr>win_window := 5\<rparr>)), (rpc_message_init, r')) \<and> rx_queue r' = [7]"
  using NPWindow_round_trip [OF slow_end_facts slow_end_facts(1,2), of "\<lambda>v. v" "Some \<lparr>win_window = 2 ^ 32 + 5,
      win_x = 1, win_y = - 1, win_width = 640, win_height = 480,
      win_clipRect = \<lparr>rect_top = 0, rect_left = 0, rect_bottom = 480, rect_right = 640\<rparr>,
      win_ws_info = None, win_type = 1\<rparr>" rpc_message_init "[7]"]
  by (simp add: view_NPWindow_def view_ws_info_def low32_def)

text \<open>
  X events survive the wire: every graphics-expose, crossing, motion, button or key event that
  \<open>do_send_NPEvent\<close> sends is received as an event of the same type with the same coordinates, state
  and detail, its identifiers, serial and time cut to 32 bits; a focus event arrives as its type
  alone. Exactly the bytes sent are consumed.
\<close>

theorem NPEvent_round_trip:
  fixes s r :: "'z io_state_scheme"
  assumes "wf_NPEvent ev" "calm s" "mem_ok s" "tx_wire s = []" "calm r" "mem_ok r"
  shows "\<exists>msg' s' r'.
    then_op (do_send_NPEvent (Some ev)) rpc_message_flush (rpc_message_init, s) = (Ok (), (msg', s')) \<and>
    do_recv_NPEvent (msg, r\<lparr>rx_queue := tx_wire s' @ rest\<rparr>) = (Ok (view_NPEvent ev), (msg, r')) \<and>
    rx_queue r' = rest"
  using event.round_trip [OF assms] by blast

theorem NPEvent_round_trip_witness:
  "\<exists>e msg' s' r'. e = \<lparr>xserial = 9, xsend_event = 1, xwindow = 2 ^ 32 + 6, xroot = 3, xsubwindow = 0,
      xtime = 77, xx = 10, xy = 20, xx_root = 110, xy_root = - 120, k_state = 4, k_keycode = 38,
      k_same_screen = 1\<rparr> \<and>
    then_op (do_send_NPEvent (Some (Key True e))) rpc_message_flush (rpc_message_init, slow_end) =
      (Ok (), (msg', s')) \<and>
    do_recv_NPEvent (rpc_message_init, slow_end\<lparr>rx_queue := tx_wire s' @ []\<rparr>) =
      (Ok (Key True (e\<lparr>xwindow := 6\<rparr>)), (rpc_message_init, r')) \<and> rx_queue r' = []"
  using NPEvent_round_trip [OF _ slow_end_facts slow_end_facts(1,2), where rest = "[]" and
      msg = rpc_message_init and ev = "Key True \<lparr>xserial = 9, xsend_event = 1, xwindow = 2 ^ 32 + 6, xroot = 3,
      xsubwindow = 0, xtime = 77, xx = 10, xy = 20, xx_root = 110, xy_root = - 120, k_state = 4, k_keycode = 38,
      k_same_screen = 1\<rparr>"]
  by (simp add: wf_NPEvent_def view_pointer_part_def view_XAnyEvent_def low32_def)

text \<open>
  Print requests survive the wire: a full-page or embedded \<open>NPPrint\<close> is received in the same mode
  with the same flags or the view of the same window, and no platform part; exactly the bytes sent are
  consumed.
\<close>

theorem NPPrint_round_trip:
  fixes s r :: "'z io_state_scheme"
  assumes "wf_NPPrint p" "calm s" "mem_ok s" "tx_wire s = []" "calm r" "mem_ok r"
  shows "\<exists>msg' s' r'.
    then_op (do_send_NPPrint visualid p) rpc_message_flush (rpc_message_init, s) = (Ok (), (msg', s')) \<and>
    do_recv_NPPrint (msg, r\<lparr>rx_queue := tx_wire s' @ rest\<rparr>) = (Ok (view_NPPrint visualid p), (msg, r')) \<and>
    rx_queue r' = rest"
  using print.round_trip [OF assms] by blast

theorem NPPrint_round_trip_witness:
  "\<exists>msg' s' r'.
    then_op (do_send_NPPrint (\<lambda>v. v) (Full_print \<lparr>pluginPrinted = 1, printOne = 0, full_platformPrint = 4096\<rparr>))
      rpc_message_flush (rpc_message_init, slow_end) = (Ok (), (msg', s')) \<and>
    do_recv_NPPrint (rpc_message_init, slow_end\<lparr>rx_queue := tx_wire s' @ []\<rparr>) =
      (Ok (Full_print \<lparr>pluginPrinted = 1, printOne = 0, full_platformPrint = 0\<rparr>), (rpc_message_init, r')) \<and>
    rx_queue r' = []"
  using NPPrint_round_trip [OF _ slow_end_facts slow_end_facts(1,2), where rest = "[]" and
      msg = rpc_message_init and visualid = "\<lambda>v. v" and
      p = "Full_print \<lparr>pluginPrinted = 1, printOne = 0, full_platformPrint = 4096\<rparr>"]
  by (simp add: wf_NPPrint_def)

text \<open>
  Lists of byte ranges survive the wire whatever their length: \<open>do_recv_NPByteRange\<close> rebuilds the
  list \<open>do_send_NPByteRange\<close> walked, in order, and stops after its end mark.
\<close>

theorem NPByteRange_round_trip:
  fixes s r :: "'z io_state_scheme"
  assumes "calm s" "mem_ok s" "tx_wire s = []" "calm r" "mem_ok r"
  shows "\<exists>msg' s' r'.
    then_op (do_send_NPByteRange rs) rpc_message_flush (rpc_message_init, s) = (Ok (), (msg', s')) \<and>
    do_recv_NPByteRange (msg, r\<lparr>rx_queue := tx_wire s' @ rest\<rparr>) = (Ok rs, (msg, r')) \<and>
    rx_queue r' = rest"
  using ranges.round_trip [OF TrueI assms] by blast

theorem NPByteRange_round_trip_witness:
  "\<exists>msg' s' r'.
    then_op (do_send_NPByteRange [\<lparr>range_offset = 0, range_length = 16\<rparr>, \<lparr>range_offset = - 4, range_length = 4\<rparr>])
      rpc_message_flush (rpc_message_init, slow_end) = (Ok (), (msg', s')) \<and>
    do_recv_NPByteRange (rpc_message_init, slow_end\<lparr>rx_queue := tx_wire s' @ [1]\<rparr>) =
      (Ok [\<lparr>range_offset = 0, range_length = 16\<rparr>, \<lparr>range_offset = - 4, range_length = 4\<rparr>],
       (rpc_message_init, r')) \<and> rx_queue r' = [1]"
  by (rule NPByteRange_round_trip [OF slow_end_facts slow_end_facts(1,2)])

text \<open>
  Saved data survive the wire: a save area whose length is that of its buffer is received with the
  same bytes, an empty or absent one as \<open>NULL\<close>.
\<close>

theorem NPSavedData_round_trip:
  fixes s r :: "'z io_state_scheme"
  assumes "wf_NPSavedData d" "calm s" "mem_ok s" "tx_wire s = []" "calm r" "mem_ok r"
  shows "\<exists>msg' s' r'.
    then_op (do_send_NPSavedData d) rpc_message_flush (rpc_message_init, s) = (Ok (), (msg', s')) \<and>
    do_recv_NPSavedData (msg, r\<lparr>rx_queue := tx_wire s' @ rest\<rparr>) = (Ok (view_NPSavedData d), (msg, r')) \<and>
    rx_queue r' = rest"
  using saved_data.round_trip [OF assms] by blast

theorem NPSavedData_round_trip_witness:
  "\<exists>msg' s' r'.
    then_op (do_send_NPSavedData (Some \<lparr>saved_len = 3, saved_buf = [1, 2, 3]\<rparr>)) rpc_message_flush
      (rpc_message_init, slow_end) = (Ok (), (msg', s')) \<and>
    do_recv_NPSavedData (rpc_message_init, slow_end\<lparr>rx_queue := tx_wire s' @ []\<rparr>) =
      (Ok (Some \<lparr>saved_len = 3, saved_buf = [1, 2, 3]\<rparr>), (rpc_message_init, r'))"
  using NPSavedData_round_trip [OF _ slow_end_facts slow_end_facts(1,2), where rest = "[]" and
      msg = rpc_message_init and d = "Some \<lparr>saved_len = 3, saved_buf = [1, 2, 3]\<rparr>"]
  by (auto simp add: wf_NPSavedData_def view_NPSavedData_def)

text \<open>
  Strings survive the wire: an \<open>NPString\<close> whose length is that of its characters (which may be
  \<open>NULL\<close> only when it is empty) is received with the same length and characters, followed by the zero
  byte the receiver adds.
\<close>

theorem NPString_round_trip:
  fixes s r :: "'z io_state_scheme"
  assumes "wf_NPString str" "calm s" "mem_ok s" "tx_wire s = []" "calm r" "mem_ok r"
  shows "\<exists>msg' s' r'.
    then_op (do_send_NPString (Some str)) rpc_message_flush (rpc_message_init, s) = (Ok (), (msg', s')) \<and>
    do_recv_NPString (msg, r\<lparr>rx_queue := tx_wire s' @ rest\<rparr>) = (Ok (view_NPString str), (msg, r')) \<and>
    rx_queue r' = rest"
  using np_string.round_trip [OF assms] by blast

theorem NPString_round_trip_witness:
  "\<exists>msg' s' r'.
    then_op (do_send_NPString (Some \<lparr>UTF8Characters = Some [104, 105], UTF8Length = 2\<rparr>)) rpc_message_flush
      (rpc_message_init, slow_end) = (Ok (), (msg', s')) \<and>
    do_recv_NPString (rpc_message_init, slow_end\<lparr>rx_queue := tx_wire s' @ []\<rparr>) =
      (Ok \<lparr>UTF8Characters = Some [104, 105, 0], UTF8Length = 2\<rparr>, (rpc_message_init, r'))"
  using NPString_round_trip [OF _ slow_end_facts slow_end_facts(1,2), where rest = "[]" and
      msg = rpc_message_init and str = "\<lparr>UTF8Characters = Some [104, 105], UTF8Length = 2\<rparr>"]
  by (auto simp add: wf_NPString_def view_NPString_def chars_of_def)

subsection \<open>Limits\<close>

lemma recv_uint32_is_int32: "rpc_message_recv_uint32 = rpc_message_recv_int32"
  by (simp add: rpc_message_recv_uint32_def rpc_message_recv_int32_def fun_eq_iff)

lemma frugal_malloc: "frugal unread (malloc_op n)"
  by (auto simp: frugal_def malloc_op_def)

lemma ends_map:
  assumes "ends_below k m"
  shows "ends_below k (bind_op m (\<lambda>x. ret (g x)))"
  unfolding ends_below_def
proof (intro allI impI)
  fix x :: "rpc_message \<times> 'a io_state_scheme"
  assume "unread x < k"
  with assms have "fst (m x) \<noteq> Crash No_return" by (rule ends_belowD)
  then show "fst (bind_op m (\<lambda>x. ret (g x)) x) \<noteq> Crash No_return"
    by (cases "m x"; cases "fst (m x)") (auto simp: bind_op_def ret_def)
qed

lemma recv_ranges_loop_ends: "ends_below fuel (recv_ranges_loop fuel)"
proof (induction fuel)
  case 0
  then show ?case by (simp add: ends_below_def)
next
  case (Suc fuel)
  then show ?case
    unfolding recv_ranges_loop.simps recv_uint32_is_int32 then_op_def
    by (intro ends_recv) (auto intro!: ends_bind frugal_malloc frugal_recv_int32 ends_map simp: frugal_ends)
qed

text \<open>
  Receiving a list of byte ranges always ends, whatever the other end sends: every iteration of the
  loop that continues has consumed bytes, so the loop cannot outlast the bytes that arrive.
\<close>

theorem do_recv_NPByteRange_returns: "fst (do_recv_NPByteRange (msg, s)) \<noteq> Crash No_return"
  using recv_ranges_loop_ends [of "Suc (length (rx_queue s))"]
  by (auto simp: do_recv_NPByteRange_def ends_below_def unread_def simp del: recv_ranges_loop.simps)

lemma bind_reads:
  assumes "reads I m b v" "calm s" "I s" "rx_queue s = b @ rest"
  shows "\<exists>s'. bind_op m f (msg, s) = f v (msg, s') \<and> calm s' \<and> I s' \<and> rx_queue s' = rest"
proof -
  obtain s' where "m (msg, s) = (Ok v, (msg, s'))" "calm s'" "I s'" "rx_queue s' = rest"
    using assms unfolding reads_def by blast
  then show ?thesis by (intro exI [of _ s']) (simp add: bind_op_def)
qed

text \<open>
  \<open>do_recv_NPPrintData\<close> trusts the size it receives: with more than the 4096 bytes of the
  destination announced and sent, it writes past the end of the structure.
\<close>

theorem NPPrintData_overflow:
  assumes "PRINT_DATA_SIZE < length bs" "length bs < 2 ^ 31" "calm r" "mem_ok r"
    and "rx_queue r = htonl (word_of_nat (length bs)) @ bs @ rest"
  shows "fst (do_recv_NPPrintData (msg, r)) = Crash Out_of_bounds"
proof -
  let ?n = "word_of_nat (length bs) :: uint32"
  obtain r1 where 1: "do_recv_NPPrintData (msg, r) = bind_op (recv_into PRINT_DATA_SIZE ?n)
      (\<lambda>bytes. ret \<lparr>pd_size = ?n, pd_data = bytes\<rparr>) (msg, r1)" "calm r1" "mem_ok r1" "rx_queue r1 = bs @ rest"
    unfolding do_recv_NPPrintData_def
    using bind_reads [OF reads_uint32 [OF mem_ok_stable] assms(3-5)] by blast
  have "bs \<noteq> []" using assms(1) by auto
  with reads_counted [OF mem_ok_stable this assms(2)] 1 obtain r2 where
    "recv_counted ?n (msg, r1) = (Ok bs, (msg, r2))" "rx_queue r2 = rest"
    unfolding reads_def by blast
  with 1 assms(1) show ?thesis
    by (simp add: recv_into_def bind_op_def)
qed

theorem NPPrintData_overflow_witness:
  "fst (do_recv_NPPrintData (rpc_message_init, slow_end\<lparr>rx_queue := htonl (word_of_nat 4097) @ replicate 4097 0 @ []\<rparr>))
     = Crash Out_of_bounds"
proof -
  have "calm (slow_end\<lparr>rx_queue := q\<rparr>)" "mem_ok (slow_end\<lparr>rx_queue := q\<rparr>)" for q
    using slow_end_facts by (simp_all add: calm_def mem_ok_def)
  with NPPrintData_overflow [of "replicate 4097 0" "slow_end\<lparr>rx_queue := htonl (word_of_nat 4097) @
      replicate 4097 0 @ []\<rparr>" "[]" rpc_message_init] show ?thesis
    by (simp add: PRINT_DATA_SIZE_def)
qed

text \<open>
  A string with a length but no characters derails the protocol: \<open>do_send_NPString\<close> announces the
  length and sends nothing more, so the receiver takes the bytes of whatever follows for the string.
\<close>

theorem NPString_null_desync:
  fixes s r :: "'z io_state_scheme"
  assumes "UTF8Characters str = None" "UTF8Length str = word_of_nat (length more_bytes)" "more_bytes \<noteq> []"
      "length more_bytes < 2 ^ 31"
    and "calm s" "mem_ok s" "tx_wire s = []" "calm r" "mem_ok r"
  shows "\<exists>msg' s' r'.
    then_op (do_send_NPString (Some str)) rpc_message_flush (rpc_message_init, s) = (Ok (), (msg', s')) \<and>
    do_recv_NPString (msg, r\<lparr>rx_queue := tx_wire s' @ more_bytes @ rest\<rparr>) =
      (Ok \<lparr>UTF8Characters = Some (more_bytes @ [0]), UTF8Length = UTF8Length str\<rparr>, (msg, r')) \<and>
    rx_queue r' = rest"
proof -
  have "sends mem_ok (do_send_NPString (Some str)) (htonl (UTF8Length str))"
    using sends_then [OF sends_uint32 [OF mem_ok_stable] sends_ret] assms(1)
    by (simp add: do_send_NPString_def)
  note sent = sends_flushed [OF mem_ok_stable this assms(5,6)]
  let ?str = "\<lparr>UTF8Characters = Some more_bytes, UTF8Length = UTF8Length str\<rparr>"
  have wf: "wf_NPString ?str" and enc: "enc_NPString ?str = htonl (UTF8Length str) @ more_bytes"
    and view: "view_NPString ?str = \<lparr>UTF8Characters = Some (more_bytes @ [0]), UTF8Length = UTF8Length str\<rparr>"
    using assms(2,4) by (simp_all add: wf_NPString_def enc_NPString_def view_NPString_def chars_of_def)
  from reads_delivered [OF mem_ok_stable np_string.recv_law [OF wf] assms(8,9), of msg rest] sent assms(7)
  show ?thesis unfolding enc view by auto
qed

theorem NPString_null_desync_witness:
  "\<exists>msg' s' r'.
    then_op (do_send_NPString (Some \<lparr>UTF8Characters = None, UTF8Length = word_of_nat (length [5, 6 :: byte])\<rparr>))
      rpc_message_flush (rpc_message_init, slow_end) = (Ok (), (msg', s')) \<and>
    do_recv_NPString (rpc_message_init, slow_end\<lparr>rx_queue := tx_wire s' @ [5, 6] @ [7]\<rparr>) =
      (Ok \<lparr>UTF8Characters = Some ([5, 6] @ [0]), UTF8Length = word_of_nat (length [5, 6 :: byte])\<rparr>,
       (rpc_message_init, r')) \<and> rx_queue r' = [7]"
  using NPString_null_desync [OF _ _ _ _ slow_end_facts slow_end_facts(1,2), where more_bytes = "[5, 6]" and
      rest = "[7]" and msg = rpc_message_init and
      str = "\<lparr>UTF8Characters = None, UTF8Length = word_of_nat (length [5, 6 :: byte])\<rparr>"] by simp

end
