(* ===== verification/Rpc_Chain.thy ===== *)
theory Rpc_Chain
  imports Rpc_Calls
begin

text \<open>
  Argument lists whose marshaling changes the state of the process, as that of object references
  does: the state predicate is passed from one argument to the next. The results feed the lemmas on
  calls of \<open>Rpc_Calls\<close> (\<open>talks_invoke\<close>, \<open>talks_get_args\<close>, \<open>talks_send_reply\<close>, \<open>talks_wait_after\<close>).
\<close>

subsection \<open>Chains\<close>

inductive arg_chain ::
  "('z rpc_base_scheme, 'u) fptrs \<Rightarrow> ('z rpc_base_scheme \<Rightarrow> bool) \<Rightarrow> 'u rpc_arg list \<Rightarrow> byte list \<Rightarrow>
     ('z rpc_base_scheme \<Rightarrow> bool) \<Rightarrow> bool"
  for E
where
  arg_Nil: "io_stable J \<Longrightarrow> arg_chain E J [] [] J"
| arg_Cons: "io_stable J \<Longrightarrow> int32_range (arg_type a) \<Longrightarrow> arg_type a \<noteq> RPC_TYPE_INVALID \<Longrightarrow>
    puts J (send_arg E a) b J1 \<Longrightarrow> arg_chain E J1 as bs J2 \<Longrightarrow>
    arg_chain E J (a # as) (enc_marker (arg_type a) @ b @ bs) J2"

inductive param_chain ::
  "('z rpc_base_scheme, 'u) fptrs \<Rightarrow> ('z rpc_base_scheme \<Rightarrow> bool) \<Rightarrow> rpc_param list \<Rightarrow> byte list \<Rightarrow>
     'u rpc_arg list \<Rightarrow> ('z rpc_base_scheme \<Rightarrow> bool) \<Rightarrow> bool"
  for E
where
  param_Nil: "io_stable J \<Longrightarrow> param_chain E J [] [] [] J"
| param_Cons: "io_stable J \<Longrightarrow> int32_range (expected_type p) \<Longrightarrow> expected_type p \<noteq> RPC_TYPE_INVALID \<Longrightarrow>
    msg_talks J (recv_arg E (expected_type p)) b [] a J1 \<Longrightarrow> param_chain E J1 ps bs as J2 \<Longrightarrow>
    param_chain E J (p # ps) (enc_marker (expected_type p) @ b @ bs) (a # as) J2"

text \<open>The bytes of a whole argument list.\<close>

definition enc_list :: "byte list \<Rightarrow> byte list" where
  "enc_list bs = enc_marker RPC_MESSAGE_ARGS @ bs @ enc_marker RPC_MESSAGE_END"

lemma puts_int32: "io_stable J \<Longrightarrow> puts J (rpc_message_send_int32 (to_int32 m)) (enc_marker m) J"
  unfolding enc_marker_def by (intro puts_sends sends_int32)

lemma puts_args_loop:
  "arg_chain E J as bs J' \<Longrightarrow> 0 < k \<Longrightarrow> puts J (send_args_loop E k as) (bs @ enc_marker RPC_MESSAGE_END) J'"
proof (induction arbitrary: k rule: arg_chain.induct)
  case (arg_Nil J)
  then show ?case using puts_int32 [of J RPC_MESSAGE_END] by simp
next
  case (arg_Cons J a b J1 as bs J2)
  from arg_Cons.IH [of "k + 1"] arg_Cons.prems
  have "puts J (run_all [ret (), rpc_message_send_int32 (to_int32 (arg_type a)), send_arg E a,
      send_args_loop E (k + 1) as]) ([] @ enc_marker (arg_type a) @ b @ (bs @ enc_marker RPC_MESSAGE_END) @ []) J2"
    unfolding run_all.simps
    by (intro puts_then [OF puts_ret puts_then [OF puts_int32 [OF arg_Cons.hyps(1)]
          puts_then [OF arg_Cons.hyps(4) puts_then [OF _ puts_ret]]]]) simp
  with arg_Cons.prems arg_Cons.hyps(3) show ?case by simp
qed

lemma puts_args:
  assumes "arg_chain E J as bs J'" "as \<noteq> []"
  shows "puts J (rpc_message_send_args E as) (enc_list bs) J'"
  using assms(1)
proof cases
  case arg_Nil
  with assms(2) show ?thesis by simp
next
  case (arg_Cons a b J1 xs ys)
  have "puts J (run_all [rpc_message_send_int32 (to_int32 RPC_MESSAGE_ARGS),
      rpc_message_send_int32 (to_int32 (arg_type a)), send_arg E a, send_args_loop E 1 xs])
      (enc_marker RPC_MESSAGE_ARGS @ enc_marker (arg_type a) @ b @ (ys @ enc_marker RPC_MESSAGE_END) @ []) J'"
    unfolding run_all.simps
    by (rule puts_then [OF puts_int32 [OF arg_Cons(3)] puts_then [OF puts_int32 [OF arg_Cons(3)]
          puts_then [OF arg_Cons(6) puts_then [OF puts_args_loop [OF arg_Cons(7)] puts_ret]]]]) simp
  with arg_Cons show ?thesis by (simp add: rpc_message_send_args_def enc_list_def)
qed

lemma msg_talks_marker:
  "io_stable J \<Longrightarrow> int32_range m \<Longrightarrow> msg_talks J (recv_marker m) (enc_marker m) [] () J"
  by (intro msg_talks_reads reads_marker)

lemma msg_talks_args_loop:
  "param_chain E J ps bs as J' \<Longrightarrow> 0 < k \<Longrightarrow>
     msg_talks J (recv_args_loop E k ps) (bs @ enc_marker RPC_MESSAGE_END) [] as J'"
proof (induction arbitrary: k rule: param_chain.induct)
  case (param_Nil J)
  have "msg_talks J (then_op (recv_marker RPC_MESSAGE_END) (ret [])) (enc_marker RPC_MESSAGE_END) [] [] J"
    unfolding then_op_def using param_Nil(1)
    by (intro msg_talks_bind_last [OF msg_talks_marker msg_talks_ret]) (simp_all add: int32_range_def)
  with param_Nil show ?case by simp
next
  case (param_Cons J p b a J1 ps bs as J2)
  note t = int32_range_c_int [OF param_Cons.hyps(2)]
  have "msg_talks J (bind_op rpc_message_recv_int32 (\<lambda>t.
           if c_int t \<noteq> expected_type p then fail RPC_ERROR_MESSAGE_ARGUMENT_MISMATCH
           else bind_op (recv_arg E (c_int t)) (\<lambda>a.
                bind_op (recv_args_loop E (k + 1) ps) (\<lambda>as. ret (a # as)))))
      (enc_marker (expected_type p) @ (b @ bs @ enc_marker RPC_MESSAGE_END)) [] (a # as) J2"
    unfolding enc_marker_def [of "expected_type p"]
    using msg_talks_bind [OF param_Cons.hyps(4), of "\<lambda>a. bind_op (recv_args_loop E (k + 1) ps) (\<lambda>as. ret (a # as))"]
      msg_talks_bind_last [OF param_Cons.IH [of "k + 1"] msg_talks_ret]
    by (intro msg_talks_bind_read [OF reads_int32 [OF param_Cons.hyps(1)]]) (fastforce simp: t)
  with param_Cons.prems param_Cons.hyps(3) show ?case by simp
qed

lemma recv_args_loop_count: "recv_args_loop E (Suc k) ps = recv_args_loop E (Suc k') ps"
proof (induction ps arbitrary: k k')
  case (Cons p ps)
  have "recv_args_loop E (Suc k + 1) ps = recv_args_loop E (Suc k' + 1) ps"
    using Cons.IH [of "Suc k" "Suc k'"] by simp
  then show ?case by (simp cong: if_cong)
qed simp

lemma msg_talks_args:
  assumes "param_chain E J ps bs as J'" "ps \<noteq> []"
  shows "msg_talks J (rpc_message_recv_args E ps) (enc_list bs) [] as J'"
  using assms(1)
proof cases
  case param_Nil
  with assms(2) show ?thesis by simp
next
  case (param_Cons p b a J1 qs ys xs)
  have "recv_args_loop E 0 (p # qs) = then_op (recv_marker RPC_MESSAGE_ARGS) (recv_args_loop E 1 (p # qs))"
    using param_Cons(6) recv_args_loop_count [of E 0 qs 1] by (simp cong: if_cong)
  moreover have "msg_talks J (recv_args_loop E 1 (p # qs)) (bs @ enc_marker RPC_MESSAGE_END) [] as J'"
    using msg_talks_args_loop [OF assms(1), of 1] param_Cons(1) by simp
  ultimately show ?thesis
    using msg_talks_bind [OF msg_talks_marker [OF param_Cons(4), of RPC_MESSAGE_ARGS], of "\<lambda>_. recv_args_loop E 1 (p # qs)"]
      param_Cons(1)
    by (simp add: rpc_message_recv_args_def enc_list_def then_op_def int32_range_def)
qed

subsection \<open>Arguments of registered types\<close>

context rpc_peer
begin

lemma puts_user:
  assumes "T t = Some d" "puts (conn_inv T M F) (call_send (fptrs.truncate E) (d_send_callback d) u) bs J'"
  shows "puts (conn_inv T M F) (send_arg (fptrs.truncate E) (User t u)) bs J'"
  unfolding puts_def
proof (intro allI impI)
  fix msg s
  assume pre: "msg_ok msg \<and> calm s \<and> conn_inv T M F s"
  then obtain s1 where 1: "rpc_message_descriptor_lookup t (msg, s) = (Ok (Some d), (msg, s1))"
    "calm s1" "conn_inv T M F s1" "tx_wire s1 = tx_wire s" "rx_queue s1 = rx_queue s"
    using user_marshalers.lookup_desc [OF marshalers, of M F s, OF _ assms(1)] by blast
  with assms(2) [unfolded puts_def, rule_format, of msg s1] pre
  show "\<exists>msg' s'. send_arg (fptrs.truncate E) (User t u) (msg, s) = (Ok (), (msg', s')) \<and>
      msg_ok msg' \<and> calm s' \<and> J' s' \<and> tx_wire s' @ buffered msg' = tx_wire s @ buffered msg @ bs \<and>
      rx_queue s' = rx_queue s"
    by (simp add: send_user_def bind_op_def then_ret_unit)
qed

lemma recv_user_arg:
  assumes "T t = Some d" "\<not> builtin_type t"
    and "msg_talks (conn_inv T M F) (call_recv (fptrs.truncate E) (d_recv_callback d)) bs [] u J'"
  shows "msg_talks (conn_inv T M F) (recv_arg (fptrs.truncate E) t) bs [] (User t u) J'"
proof -
  have "msg_talks (conn_inv T M F) (recv_user (fptrs.truncate E) t) bs [] u J'"
    unfolding recv_user_def
    by (rule msg_talks_bind_quiet [OF msg_talks_reads [OF user_marshalers.reads_lookup [OF marshalers assms(1)]]])
      (simp add: assms(3))
  from msg_talks_bind_last [OF this msg_talks_ret, of "User t"] assms(2) show ?thesis
    by (auto simp: recv_arg_def builtin_type_def)
qed

lemma puts_uint32: "puts (conn_inv T M F) (send_arg E' (Uint32 w)) (htonl w) (conn_inv T M F)"
  by (simp add: puts_sends sends_uint32 conn_inv_stable)

lemma recv_uint32_arg:
  "msg_talks (conn_inv T M F) (recv_arg E' RPC_TYPE_UINT32) (htonl w) [] (Uint32 w) (conn_inv T M F)"
proof -
  have "reads (conn_inv T M F) (bind_op rpc_message_recv_uint32 (\<lambda>v. ret (Uint32 v))) (htonl w) (Uint32 w)"
    by (rule reads_bind_ret [OF reads_uint32 [OF conn_inv_stable]]) simp
  then show ?thesis by (auto simp: recv_arg_def intro: msg_talks_reads)
qed

end

end
