(* ===== verification/Np_Table.thy ===== *)
theory Np_Table
  imports Np_Marshalers Np_Wire Rpc_Chain
begin

text \<open>
  The table of NPAPI marshalers that both processes register on their connection, and the proof that
  it keeps the contract of argument lists (\<open>user_marshalers\<close>) for the types whose values mean the same
  on both sides. Every theorem on calls then holds of NPAPI calls with such arguments.
\<close>

subsection \<open>The table\<close>

abbreviation (input) RPC_TYPE_NPP :: int where "RPC_TYPE_NPP \<equiv> 1"
abbreviation (input) RPC_TYPE_NP_STREAM :: int where "RPC_TYPE_NP_STREAM \<equiv> 2"
abbreviation (input) RPC_TYPE_NP_BYTE_RANGE :: int where "RPC_TYPE_NP_BYTE_RANGE \<equiv> 3"
abbreviation (input) RPC_TYPE_NP_SAVED_DATA :: int where "RPC_TYPE_NP_SAVED_DATA \<equiv> 4"
abbreviation (input) RPC_TYPE_NP_NOTIFY_DATA :: int where "RPC_TYPE_NP_NOTIFY_DATA \<equiv> 5"
abbreviation (input) RPC_TYPE_NP_RECT :: int where "RPC_TYPE_NP_RECT \<equiv> 6"
abbreviation (input) RPC_TYPE_NP_WINDOW :: int where "RPC_TYPE_NP_WINDOW \<equiv> 7"
abbreviation (input) RPC_TYPE_NP_EVENT :: int where "RPC_TYPE_NP_EVENT \<equiv> 8"
abbreviation (input) RPC_TYPE_NP_PRINT :: int where "RPC_TYPE_NP_PRINT \<equiv> 9"
abbreviation (input) RPC_TYPE_NP_FULL_PRINT :: int where "RPC_TYPE_NP_FULL_PRINT \<equiv> 10"
abbreviation (input) RPC_TYPE_NP_EMBED_PRINT :: int where "RPC_TYPE_NP_EMBED_PRINT \<equiv> 11"
abbreviation (input) RPC_TYPE_NP_PRINT_DATA :: int where "RPC_TYPE_NP_PRINT_DATA \<equiv> 12"
abbreviation (input) RPC_TYPE_NP_IDENTIFIER :: int where "RPC_TYPE_NP_IDENTIFIER \<equiv> 14"
abbreviation (input) RPC_TYPE_NP_STRING :: int where "RPC_TYPE_NP_STRING \<equiv> 15"
abbreviation (input) RPC_TYPE_NP_VARIANT :: int where "RPC_TYPE_NP_VARIANT \<equiv> 16"
abbreviation (input) RPC_TYPE_NP_UTF8 :: int where "RPC_TYPE_NP_UTF8 \<equiv> 17"
abbreviation (input) RPC_TYPE_NP_OBJECT_PASS_REF :: int where "RPC_TYPE_NP_OBJECT_PASS_REF \<equiv> 18"
abbreviation (input) RPC_TYPE_NP_VARIANT_PASS_REF :: int where "RPC_TYPE_NP_VARIANT_PASS_REF \<equiv> 19"
abbreviation (input) RPC_TYPE_NPW_PLUGIN_INSTANCE :: int where "RPC_TYPE_NPW_PLUGIN_INSTANCE \<equiv> 20"

text \<open>
  The code addresses of the routines \<open>do_send_X\<close> and \<open>do_recv_X\<close> of a type; \<open>np_send\<close> and \<open>np_recv\<close>
  below are the code at these addresses.
\<close>

definition send_ptr :: "int \<Rightarrow> code_ptr" where "send_ptr t = nat (2 * t)"
definition recv_ptr :: "int \<Rightarrow> code_ptr" where "recv_ptr t = nat (2 * t + 1)"

definition np_desc :: "int \<Rightarrow> nat \<Rightarrow> code_ptr \<Rightarrow> code_ptr \<Rightarrow> rpc_message_descriptor" where
  "np_desc t n send recv = \<lparr>d_id = t, d_size = n, d_send_callback = send, d_recv_callback = recv\<rparr>"

text \<open>
  The rows name a type, the size of its values in a 64-bit process (\<open>NPEvent\<close> is \<open>XEvent\<close>, 24 longs)
  and the two routines.
\<close>

definition message_descs :: "rpc_message_descriptor list" where
  "message_descs =
     [np_desc RPC_TYPE_NPP 8 (send_ptr RPC_TYPE_NPP) (recv_ptr RPC_TYPE_NPP),
      np_desc RPC_TYPE_NPW_PLUGIN_INSTANCE 8 (send_ptr RPC_TYPE_NPW_PLUGIN_INSTANCE) (recv_ptr RPC_TYPE_NPW_PLUGIN_INSTANCE),
      np_desc RPC_TYPE_NP_STREAM 8 (send_ptr RPC_TYPE_NP_STREAM) (recv_ptr RPC_TYPE_NP_STREAM),
      np_desc RPC_TYPE_NP_BYTE_RANGE 8 (send_ptr RPC_TYPE_NP_BYTE_RANGE) (recv_ptr RPC_TYPE_NP_BYTE_RANGE),
      np_desc RPC_TYPE_NP_SAVED_DATA 8 (send_ptr RPC_TYPE_NP_SAVED_DATA) (recv_ptr RPC_TYPE_NP_SAVED_DATA),
      np_desc RPC_TYPE_NP_NOTIFY_DATA 8 (send_ptr RPC_TYPE_NP_NOTIFY_DATA) (recv_ptr RPC_TYPE_NP_NOTIFY_DATA),
      np_desc RPC_TYPE_NP_RECT 8 (send_ptr RPC_TYPE_NP_RECT) (recv_ptr RPC_TYPE_NP_RECT),
      np_desc RPC_TYPE_NP_WINDOW 8 (send_ptr RPC_TYPE_NP_WINDOW) (recv_ptr RPC_TYPE_NP_WINDOW),
      np_desc RPC_TYPE_NP_EVENT 192 (send_ptr RPC_TYPE_NP_EVENT) (recv_ptr RPC_TYPE_NP_EVENT),
      np_desc RPC_TYPE_NP_PRINT 64 (send_ptr RPC_TYPE_NP_PRINT) (recv_ptr RPC_TYPE_NP_PRINT),
      np_desc RPC_TYPE_NP_FULL_PRINT 16 (send_ptr RPC_TYPE_NP_FULL_PRINT) (recv_ptr RPC_TYPE_NP_FULL_PRINT),
      np_desc RPC_TYPE_NP_EMBED_PRINT 56 (send_ptr RPC_TYPE_NP_EMBED_PRINT) (recv_ptr RPC_TYPE_NP_EMBED_PRINT),
      np_desc RPC_TYPE_NP_PRINT_DATA 4100 (send_ptr RPC_TYPE_NP_PRINT_DATA) (recv_ptr RPC_TYPE_NP_PRINT_DATA),
      np_desc RPC_TYPE_NP_OBJECT 8 (send_ptr RPC_TYPE_NP_OBJECT) (recv_ptr RPC_TYPE_NP_OBJECT),
      np_desc RPC_TYPE_NP_OBJECT_PASS_REF 8 (send_ptr RPC_TYPE_NP_OBJECT_PASS_REF) (recv_ptr RPC_TYPE_NP_OBJECT_PASS_REF),
      np_desc RPC_TYPE_NP_IDENTIFIER 8 (send_ptr RPC_TYPE_NP_IDENTIFIER) (recv_ptr RPC_TYPE_NP_IDENTIFIER),
      np_desc RPC_TYPE_NP_UTF8 8 (send_ptr RPC_TYPE_NP_UTF8) (recv_ptr RPC_TYPE_NP_UTF8),
      np_desc RPC_TYPE_NP_STRING 16 (send_ptr RPC_TYPE_NP_STRING) (recv_ptr RPC_TYPE_NP_STRING),
      np_desc RPC_TYPE_NP_VARIANT 24 (send_ptr RPC_TYPE_NP_VARIANT) (recv_ptr RPC_TYPE_NP_VARIANT),
      np_desc RPC_TYPE_NP_VARIANT_PASS_REF 24 (send_ptr RPC_TYPE_NP_VARIANT_PASS_REF) (recv_ptr RPC_TYPE_NP_VARIANT_PASS_REF)]"

definition rpc_add_np_marshalers :: "('z rpc_connection_scheme option, unit) op" where
  "rpc_add_np_marshalers = rpc_connection_add_message_descriptors message_descs"

definition np_types :: "int \<Rightarrow> rpc_message_descriptor option" where
  "np_types = map_of (map (\<lambda>d. (d_id d, d)) message_descs)"

text \<open>
  The values of NPAPI arguments. A \<open>NPUTF8\<close> string is received as the block that holds it.
\<close>

datatype np_value =
    NV_npp cptr | NV_instance cptr | NV_stream cptr | NV_ranges "NPByteRange list"
  | NV_saved "NPSavedData option" | NV_notify cptr | NV_rect NPRect | NV_window "NPWindow option"
  | NV_event NPEvent | NV_print NPPrint | NV_full_print NPFullPrint | NV_embed_print NPEmbedPrint
  | NV_print_data NPPrintData | NV_object cptr | NV_identifier cptr | NV_utf8 c_string
  | NV_utf8_block "byte list" | NV_string NPString | NV_variant NPVariant

text \<open>A routine that is given a value of another type misreads it.\<close>

definition misread :: "('s, 'a) op" where
  "misread = crash Out_of_bounds"

fun np_send ::
  "(('h, 'z) np_process_scheme, 'h) npv_env \<Rightarrow> (cptr \<Rightarrow> ulong) \<Rightarrow> int \<Rightarrow> np_value \<Rightarrow>
     (rpc_message \<times> ('h, 'z) np_process_scheme, unit) op"
where
  "np_send E visualid t (NV_npp p) =
     (if t = RPC_TYPE_NPP then do_send_NPP (np_env.truncate E) p else misread)"
| "np_send E visualid t (NV_instance p) =
     (if t = RPC_TYPE_NPW_PLUGIN_INSTANCE then do_send_NPW_PluginInstance p else misread)"
| "np_send E visualid t (NV_stream p) = (if t = RPC_TYPE_NP_STREAM then do_send_NPStream p else misread)"
| "np_send E visualid t (NV_ranges rs) = (if t = RPC_TYPE_NP_BYTE_RANGE then do_send_NPByteRange rs else misread)"
| "np_send E visualid t (NV_saved d) = (if t = RPC_TYPE_NP_SAVED_DATA then do_send_NPSavedData d else misread)"
| "np_send E visualid t (NV_notify p) = (if t = RPC_TYPE_NP_NOTIFY_DATA then do_send_NotifyData p else misread)"
| "np_send E visualid t (NV_rect r) = (if t = RPC_TYPE_NP_RECT then do_send_NPRect r else misread)"
| "np_send E visualid t (NV_window w) = (if t = RPC_TYPE_NP_WINDOW then do_send_NPWindow visualid w else misread)"
| "np_send E visualid t (NV_event e) = (if t = RPC_TYPE_NP_EVENT then do_send_NPEvent (Some e) else misread)"
| "np_send E visualid t (NV_print p) = (if t = RPC_TYPE_NP_PRINT then do_send_NPPrint visualid p else misread)"
| "np_send E visualid t (NV_full_print p) = (if t = RPC_TYPE_NP_FULL_PRINT then do_send_NPFullPrint p else misread)"
| "np_send E visualid t (NV_embed_print p) =
     (if t = RPC_TYPE_NP_EMBED_PRINT then do_send_NPEmbedPrint visualid p else misread)"
| "np_send E visualid t (NV_print_data p) = (if t = RPC_TYPE_NP_PRINT_DATA then do_send_NPPrintData p else misread)"
| "np_send E visualid t (NV_object p) =
     (if t = RPC_TYPE_NP_OBJECT then do_send_NPObject (np_env.truncate E) p
      else if t = RPC_TYPE_NP_OBJECT_PASS_REF then do_send_NPObject_pass_ref (np_env.truncate E) p else misread)"
| "np_send E visualid t (NV_identifier p) =
     (if t = RPC_TYPE_NP_IDENTIFIER then do_send_NPIdentifier (np_env.truncate E) p else misread)"
| "np_send E visualid t (NV_utf8 str) = (if t = RPC_TYPE_NP_UTF8 then do_send_NPUTF8 str else misread)"
| "np_send E visualid t (NV_utf8_block b) = misread"
| "np_send E visualid t (NV_string str) = (if t = RPC_TYPE_NP_STRING then do_send_NPString (Some str) else misread)"
| "np_send E visualid t (NV_variant v) =
     (if t = RPC_TYPE_NP_VARIANT then do_send_NPVariant E (Some v)
      else if t = RPC_TYPE_NP_VARIANT_PASS_REF then do_send_NPVariant_pass_ref E (Some v) else misread)"

definition then_make :: "('a \<Rightarrow> np_value) \<Rightarrow> ('s, 'a) op \<Rightarrow> ('s, np_value) op" where
  "then_make C m = bind_op m (\<lambda>x. ret (C x))"

definition np_recv ::
  "(('h, 'z) np_process_scheme, 'h) npv_env \<Rightarrow> bool \<Rightarrow> int \<Rightarrow>
     (rpc_message \<times> ('h, 'z) np_process_scheme, np_value) op"
where
  "np_recv E ptr32 t =
     (if t = RPC_TYPE_NPP then then_make NV_npp (do_recv_NPP (np_env.truncate E))
      else if t = RPC_TYPE_NPW_PLUGIN_INSTANCE then then_make NV_instance (do_recv_NPW_PluginInstance (np_env.truncate E))
      else if t = RPC_TYPE_NP_STREAM then then_make NV_stream (do_recv_NPStream (np_env.truncate E))
      else if t = RPC_TYPE_NP_BYTE_RANGE then then_make NV_ranges do_recv_NPByteRange
      else if t = RPC_TYPE_NP_SAVED_DATA then then_make NV_saved do_recv_NPSavedData
      else if t = RPC_TYPE_NP_NOTIFY_DATA then then_make NV_notify (do_recv_NotifyData ptr32)
      else if t = RPC_TYPE_NP_RECT then then_make NV_rect do_recv_NPRect
      else if t = RPC_TYPE_NP_WINDOW then then_make NV_window do_recv_NPWindow
      else if t = RPC_TYPE_NP_EVENT then then_make NV_event do_recv_NPEvent
      else if t = RPC_TYPE_NP_PRINT then then_make NV_print do_recv_NPPrint
      else if t = RPC_TYPE_NP_FULL_PRINT then then_make NV_full_print do_recv_NPFullPrint
      else if t = RPC_TYPE_NP_EMBED_PRINT then then_make NV_embed_print do_recv_NPEmbedPrint
      else if t = RPC_TYPE_NP_PRINT_DATA then then_make NV_print_data do_recv_NPPrintData
      else if t = RPC_TYPE_NP_OBJECT then then_make NV_object (do_recv_NPObject (np_env.truncate E))
      else if t = RPC_TYPE_NP_OBJECT_PASS_REF then then_make NV_object (do_recv_NPObject_pass_ref (np_env.truncate E))
      else if t = RPC_TYPE_NP_IDENTIFIER then then_make NV_identifier (do_recv_NPIdentifier (np_env.truncate E))
      else if t = RPC_TYPE_NP_UTF8 then then_make NV_utf8_block do_recv_NPUTF8
      else if t = RPC_TYPE_NP_STRING then then_make NV_string do_recv_NPString
      else if t = RPC_TYPE_NP_VARIANT then then_make NV_variant (do_recv_NPVariant E)
      else if t = RPC_TYPE_NP_VARIANT_PASS_REF then then_make NV_variant (do_recv_NPVariant_pass_ref E)
      else misread)"

definition np_fptrs ::
  "(('h, 'z) np_process_scheme, 'h) npv_env \<Rightarrow> (cptr \<Rightarrow> ulong) \<Rightarrow> bool \<Rightarrow>
     (('h, 'z) np_process_scheme, np_value) fptrs"
where
  "np_fptrs E visualid ptr32 =
     \<lparr>call_send = (\<lambda>c. np_send E visualid (int c div 2)), call_recv = (\<lambda>c. np_recv E ptr32 (int c div 2))\<rparr>"

subsection \<open>Wire format and views\<close>

fun wf_variant :: "NPVariant \<Rightarrow> bool" where
  "wf_variant (V_string str) = wf_NPString str"
| "wf_variant (V_object p) = False"
| "wf_variant (V_other t) = (6 < t)"
| "wf_variant v = True"

fun enc_variant :: "NPVariant \<Rightarrow> byte list" where
  "enc_variant (V_bool b) = htonl 2 @ htonl (if b then 1 else 0)"
| "enc_variant (V_int32 i) = htonl 3 @ htonl i"
| "enc_variant (V_double d) = htonl 4 @ enc_double d"
| "enc_variant (V_string str) = htonl 5 @ enc_NPString str"
| "enc_variant v = htonl (variant_type v)"

fun view_variant :: "NPVariant \<Rightarrow> NPVariant" where
  "view_variant (V_string str) = V_string (view_NPString str)"
| "view_variant v = v"

fun np_wf :: "bool \<Rightarrow> int \<Rightarrow> np_value \<Rightarrow> bool" where
  "np_wf ptr32 t (NV_ranges rs) = (t = RPC_TYPE_NP_BYTE_RANGE)"
| "np_wf ptr32 t (NV_saved d) = (t = RPC_TYPE_NP_SAVED_DATA \<and> wf_NPSavedData d)"
| "np_wf ptr32 t (NV_notify p) = (t = RPC_TYPE_NP_NOTIFY_DATA \<and> (ptr32 \<longrightarrow> hi32 p = 0))"
| "np_wf ptr32 t (NV_rect r) = (t = RPC_TYPE_NP_RECT)"
| "np_wf ptr32 t (NV_window w) = (t = RPC_TYPE_NP_WINDOW)"
| "np_wf ptr32 t (NV_event e) = (t = RPC_TYPE_NP_EVENT \<and> wf_NPEvent e)"
| "np_wf ptr32 t (NV_print p) = (t = RPC_TYPE_NP_PRINT \<and> wf_NPPrint p)"
| "np_wf ptr32 t (NV_full_print p) = (t = RPC_TYPE_NP_FULL_PRINT)"
| "np_wf ptr32 t (NV_embed_print p) = (t = RPC_TYPE_NP_EMBED_PRINT)"
| "np_wf ptr32 t (NV_print_data p) = (t = RPC_TYPE_NP_PRINT_DATA \<and> wf_NPPrintData p)"
| "np_wf ptr32 t (NV_identifier p) = (t = RPC_TYPE_NP_IDENTIFIER \<and> p = 0)"
| "np_wf ptr32 t (NV_utf8 str) = (t = RPC_TYPE_NP_UTF8 \<and> wf_NPUTF8 str)"
| "np_wf ptr32 t (NV_string str) = (t = RPC_TYPE_NP_STRING \<and> wf_NPString str)"
| "np_wf ptr32 t (NV_variant v) = (t = RPC_TYPE_NP_VARIANT \<and> wf_variant v)"
| "np_wf ptr32 t v = False"

fun np_enc :: "(cptr \<Rightarrow> ulong) \<Rightarrow> int \<Rightarrow> np_value \<Rightarrow> byte list" where
  "np_enc visualid t (NV_ranges rs) = enc_NPByteRange rs"
| "np_enc visualid t (NV_saved d) = enc_NPSavedData d"
| "np_enc visualid t (NV_notify p) = enc_uint64 p"
| "np_enc visualid t (NV_rect r) = enc_NPRect r"
| "np_enc visualid t (NV_window w) = enc_NPWindow visualid w"
| "np_enc visualid t (NV_event e) = enc_NPEvent e"
| "np_enc visualid t (NV_print p) = enc_NPPrint visualid p"
| "np_enc visualid t (NV_full_print p) = enc_NPFullPrint p"
| "np_enc visualid t (NV_embed_print p) = enc_NPWindowData visualid (embed_window p)"
| "np_enc visualid t (NV_print_data p) = enc_NPPrintData p"
| "np_enc visualid t (NV_utf8 str) = enc_NPUTF8 str"
| "np_enc visualid t (NV_string str) = enc_NPString str"
| "np_enc visualid t (NV_variant v) = enc_variant v"
| "np_enc visualid t v = htonl 0"

fun np_view :: "(cptr \<Rightarrow> ulong) \<Rightarrow> int \<Rightarrow> np_value \<Rightarrow> np_value" where
  "np_view visualid t (NV_saved d) = NV_saved (view_NPSavedData d)"
| "np_view visualid t (NV_window w) = NV_window (map_option (view_NPWindow visualid) w)"
| "np_view visualid t (NV_event e) = NV_event (view_NPEvent e)"
| "np_view visualid t (NV_print p) = NV_print (view_NPPrint visualid p)"
| "np_view visualid t (NV_full_print p) = NV_full_print (p\<lparr>full_platformPrint := 0\<rparr>)"
| "np_view visualid t (NV_embed_print p) =
     NV_embed_print \<lparr>embed_window = view_NPWindow visualid (embed_window p), embed_platformPrint = 0\<rparr>"
| "np_view visualid t (NV_utf8 str) = NV_utf8_block (view_NPUTF8 str)"
| "np_view visualid t (NV_string str) = NV_string (view_NPString str)"
| "np_view visualid t (NV_variant v) = NV_variant (view_variant v)"
| "np_view visualid t v = v"

subsection \<open>The table keeps the contract\<close>

text \<open>A routine for one kind of value, seen as a routine for all of them.\<close>

lemma marshaler_wrap:
  assumes "marshaler I sop rop enc view ok"
    and "R = then_make D rop"
    and "\<And>v. W v \<Longrightarrow> \<exists>x. ok x \<and> S v = sop x \<and> e v = enc x \<and> vw v = D (view x)"
  shows "marshaler I S R e vw W"
proof (rule marshaler.intro)
  fix v
  assume "W v"
  then obtain x where x: "ok x" "S v = sop x" "e v = enc x" "vw v = D (view x)"
    using assms(3) by blast
  show "sends I (S v) (e v)"
    unfolding x(2,3) by (rule marshaler.send_law [OF assms(1) x(1)])
  show "reads I R (e v) (vw v)"
    unfolding assms(2) x(3,4) then_make_def
    by (rule reads_bind_ret [OF marshaler.recv_law [OF assms(1) x(1)]]) simp
qed

lemma marshaler_none: "(\<And>v. \<not> W v) \<Longrightarrow> marshaler I S R e vw W"
  by (rule marshaler.intro) auto

lemma marshaler_NPEmbedPrint:
  assumes "roomy I"
  shows "marshaler I (do_send_NPEmbedPrint visualid) do_recv_NPEmbedPrint
     (\<lambda>p. enc_NPWindowData visualid (embed_window p))
     (\<lambda>p. \<lparr>embed_window = view_NPWindow visualid (embed_window p), embed_platformPrint = 0\<rparr>) (\<lambda>_. True)"
  unfolding do_send_NPEmbedPrint_def do_recv_NPEmbedPrint_def
  by (rule marshaler.intro) (auto intro: roomy.window_laws [OF assms] reads_bind_ret [OF roomy.window_laws(2) [OF assms]])

lemma sends_pure: "(\<And>s. I s \<Longrightarrow> m s = (Ok v, s)) \<Longrightarrow> sends I (f v) b \<Longrightarrow> sends I (bind_op (on_io m) f) b"
  unfolding sends_def by (simp add: bind_op_def on_io_def)

lemma marshaler_null_identifier:
  assumes "roomy I"
  shows "marshaler I (do_send_NPIdentifier E) (do_recv_NPIdentifier E) (\<lambda>_. htonl 0) (\<lambda>p. p) (\<lambda>p. p = 0)"
proof (rule marshaler.intro)
  fix p :: cptr
  assume p: "p = 0"
  show "sends I (do_send_NPIdentifier E p) (htonl 0)"
    unfolding do_send_NPIdentifier_def
    by (rule sends_pure [where v = 0]) (simp_all add: p export_NPIdentifier_def ret_apply roomy.send_rules [OF assms])
  have "reads I (do_recv_NPIdentifier E) (htonl 0 @ []) p"
    unfolding do_recv_NPIdentifier_def
    by (rule roomy.recv_rules [OF assms]) (simp add: p reads_ret)
  then show "reads I (do_recv_NPIdentifier E) (htonl 0) p" by simp
qed

lemma marshaler_NPVariant:
  assumes "roomy I"
  shows "marshaler I (\<lambda>v. do_send_NPVariant E (Some v)) (do_recv_NPVariant E) enc_variant view_variant wf_variant"
proof (rule marshaler.intro)
  fix v
  assume wf: "wf_variant v"
  note stable = roomy.stable [OF assms]
  note string = roomy.marshaler_NPString [OF assms]
  obtain b where enc: "enc_variant v = htonl (variant_type v) @ b"
    and body: "sends I (case v of V_bool b \<Rightarrow> rpc_message_send_uint32 (if b then 1 else 0)
            | V_int32 i \<Rightarrow> rpc_message_send_int32 i
            | V_double d \<Rightarrow> rpc_message_send_double d
            | V_string str \<Rightarrow> do_send_NPString (Some str)
            | V_object p \<Rightarrow> do_send_NPObject_helper (np_env.truncate E) p False
            | _ \<Rightarrow> ret ()) b"
    using wf marshaler.send_law [OF string] that
    by (cases v) (fastforce intro: roomy.send_rules [OF assms] sends_double [OF stable])+
  have "sends I (do_send_NPVariant E (Some v)) (htonl (variant_type v) @ b @ [] @ [])"
    unfolding do_send_NPVariant_def do_send_NPVariant_helper_def option.case
    by (intro roomy.send_rules [OF assms] body) (simp add: sends_ret)
  then show "sends I (do_send_NPVariant E (Some v)) (enc_variant v)"
    by (simp add: enc)
  have last: "reads I (do_recv_NPVariant E) (htonl t @ c) w"
    if "reads I (if t = 0 then ret V_void else if t = 1 then ret V_null
       else if t = 2 then bind_op rpc_message_recv_uint32 (\<lambda>b. ret (V_bool (b \<noteq> 0)))
       else if t = 3 then bind_op rpc_message_recv_int32 (\<lambda>i. ret (V_int32 i))
       else if t = 4 then bind_op rpc_message_recv_double (\<lambda>d. ret (V_double d))
       else if t = 5 then bind_op do_recv_NPString (\<lambda>str. ret (V_string str))
       else if t = 6 then bind_op (do_recv_NPObject_helper (np_env.truncate E) False) (\<lambda>p. ret (V_object p))
       else ret (V_other t)) c w" for t c w
    unfolding do_recv_NPVariant_def do_recv_NPVariant_helper_def
    by (rule roomy.recv_rules [OF assms]) (rule that)
  show "reads I (do_recv_NPVariant E) (enc_variant v) (view_variant v)"
  proof (cases v)
    case (V_bool x)
    then show ?thesis by (auto intro!: last reads_bind_ret reads_uint32 [OF stable])
  next
    case (V_int32 x)
    then show ?thesis by (auto intro!: last reads_bind_ret reads_int32 [OF stable])
  next
    case (V_double x)
    then show ?thesis by (auto intro!: last reads_bind_ret reads_double [OF stable])
  next
    case (V_string x)
    then show ?thesis using wf by (auto intro!: last reads_bind_ret marshaler.recv_law [OF string])
  next
    case (V_other t)
    with wf have "t \<notin> {0, 1, 2, 3, 4, 5, 6}" by auto
    then show ?thesis using V_other last [of t "[]"] by (simp add: reads_ret)
  qed (use wf last [where c = "[]"] in \<open>auto simp: reads_ret\<close>)
qed

lemma np_recv_simps:
  "np_recv E ptr32 3 = then_make NV_ranges do_recv_NPByteRange"
  "np_recv E ptr32 4 = then_make NV_saved do_recv_NPSavedData"
  "np_recv E ptr32 5 = then_make NV_notify (do_recv_NotifyData ptr32)"
  "np_recv E ptr32 6 = then_make NV_rect do_recv_NPRect"
  "np_recv E ptr32 7 = then_make NV_window do_recv_NPWindow"
  "np_recv E ptr32 8 = then_make NV_event do_recv_NPEvent"
  "np_recv E ptr32 9 = then_make NV_print do_recv_NPPrint"
  "np_recv E ptr32 10 = then_make NV_full_print do_recv_NPFullPrint"
  "np_recv E ptr32 11 = then_make NV_embed_print do_recv_NPEmbedPrint"
  "np_recv E ptr32 12 = then_make NV_print_data do_recv_NPPrintData"
  "np_recv E ptr32 14 = then_make NV_identifier (do_recv_NPIdentifier (np_env.truncate E))"
  "np_recv E ptr32 15 = then_make NV_string do_recv_NPString"
  "np_recv E ptr32 16 = then_make NV_variant (do_recv_NPVariant E)"
  "np_recv E ptr32 17 = then_make NV_utf8_block do_recv_NPUTF8"
  by (simp_all add: np_recv_def)

text \<open>The fourteen kinds of value that mean the same on both sides.\<close>

definition shared_types :: "int set" where
  "shared_types = {3, 4, 5, 6, 7, 8, 9, 10, 11, 12, 14, 15, 16, 17}"

lemma np_wf_shared: "np_wf ptr32 t v \<Longrightarrow> t \<in> shared_types"
  by (cases v) (auto simp: shared_types_def)

lemma np_marshaler:
  assumes R: "roomy I"
  shows "marshaler I (np_send E visualid t) (np_recv E ptr32 t) (np_enc visualid t) (np_view visualid t) (np_wf ptr32 t)"
proof (cases "t \<in> shared_types")
  case False
  then show ?thesis by (intro marshaler_none) (auto dest: np_wf_shared)
next
  case True
  consider "t = 3" | "t = 4" | "t = 5" | "t = 6" | "t = 7" | "t = 8" | "t = 9" | "t = 10" | "t = 11"
    | "t = 12" | "t = 14" | "t = 15" | "t = 16" | "t = 17"
    using True by (auto simp: shared_types_def)
  then show ?thesis
  proof cases
    case 1
    show ?thesis unfolding 1
      by (rule marshaler_wrap [OF roomy.marshaler_NPByteRange [OF R] np_recv_simps(1)]) (auto elim!: np_wf.elims(2))
  next
    case 2
    show ?thesis unfolding 2
      by (rule marshaler_wrap [OF roomy.marshaler_NPSavedData [OF R] np_recv_simps(2)]) (auto elim!: np_wf.elims(2))
  next
    case 3
    show ?thesis unfolding 3
      by (rule marshaler_wrap [OF roomy.marshaler_NotifyData [OF R] np_recv_simps(3)]) (auto elim!: np_wf.elims(2))
  next
    case 4
    show ?thesis unfolding 4
      by (rule marshaler_wrap [OF roomy.marshaler_NPRect [OF R] np_recv_simps(4)]) (auto elim!: np_wf.elims(2))
  next
    case 5
    show ?thesis unfolding 5
      by (rule marshaler_wrap [OF roomy.marshaler_NPWindow [OF R] np_recv_simps(5)]) (auto elim!: np_wf.elims(2))
  next
    case 6
    show ?thesis unfolding 6
      by (rule marshaler_wrap [OF roomy.marshaler_NPEvent [OF R] np_recv_simps(6)]) (auto elim!: np_wf.elims(2))
  next
    case 7
    show ?thesis unfolding 7
      by (rule marshaler_wrap [OF roomy.marshaler_NPPrint [OF R] np_recv_simps(7)]) (auto elim!: np_wf.elims(2))
  next
    case 8
    show ?thesis unfolding 8
      by (rule marshaler_wrap [OF roomy.marshaler_NPFullPrint [OF R] np_recv_simps(8)]) (auto elim!: np_wf.elims(2))
  next
    case 9
    show ?thesis unfolding 9
      by (rule marshaler_wrap [OF marshaler_NPEmbedPrint [OF R] np_recv_simps(9)]) (auto elim!: np_wf.elims(2))
  next
    case 10
    show ?thesis unfolding 10
      by (rule marshaler_wrap [OF roomy.marshaler_NPPrintData [OF R] np_recv_simps(10)]) (auto elim!: np_wf.elims(2))
  next
    case 11
    show ?thesis unfolding 11
      by (rule marshaler_wrap [OF marshaler_null_identifier [OF R] np_recv_simps(11)]) (auto elim!: np_wf.elims(2))
  next
    case 12
    show ?thesis unfolding 12
      by (rule marshaler_wrap [OF roomy.marshaler_NPString [OF R] np_recv_simps(12)]) (auto elim!: np_wf.elims(2))
  next
    case 13
    show ?thesis unfolding 13
      by (rule marshaler_wrap [OF marshaler_NPVariant [OF R] np_recv_simps(13)]) (auto elim!: np_wf.elims(2))
  next
    case 14
    show ?thesis unfolding 14
      by (rule marshaler_wrap [OF roomy.marshaler_NPUTF8 [OF R] np_recv_simps(14)]) (auto elim!: np_wf.elims(2))
  qed
qed

lemma np_types_Some:
  assumes "np_types t = Some d"
  shows "d_send_callback d = send_ptr t" "d_recv_callback d = recv_ptr t" "0 \<le> t"
proof -
  have "d \<in> set message_descs" "d_id d = t"
    using assms by (auto simp: np_types_def dest: map_of_SomeD)
  moreover have "list_all (\<lambda>d. d_send_callback d = send_ptr (d_id d) \<and>
      d_recv_callback d = recv_ptr (d_id d) \<and> 0 \<le> d_id d) message_descs"
    by (simp add: message_descs_def np_desc_def)
  ultimately show "d_send_callback d = send_ptr t" "d_recv_callback d = recv_ptr t" "0 \<le> t"
    by (auto simp: list_all_iff)
qed

lemma ptr_div: "0 \<le> t \<Longrightarrow> int (send_ptr t) div 2 = t" "0 \<le> t \<Longrightarrow> int (recv_ptr t) div 2 = t"
  by (simp_all add: send_ptr_def recv_ptr_def)

lemma np_user_marshalers:
  "user_marshalers (conn_inv np_types M F) (np_fptrs E visualid ptr32) np_types (np_enc visualid) (np_view visualid)
     (np_wf ptr32)"
proof (rule user_marshalers.intro)
  fix t d
  assume d: "np_types t = Some d"
  have "roomy (conn_inv np_types M F)"
    by (rule roomy.intro) (simp_all add: conn_inv_stable conn_inv_mem)
  from np_marshaler [OF this, of E visualid t ptr32]
  show "marshaler (conn_inv np_types M F) (call_send (np_fptrs E visualid ptr32) (d_send_callback d))
     (call_recv (np_fptrs E visualid ptr32) (d_recv_callback d)) (np_enc visualid t) (np_view visualid t) (np_wf ptr32 t)"
    using np_types_Some [OF d] by (simp add: np_fptrs_def ptr_div)
qed (auto simp: conn_inv_stable conn_inv_mem intro: conn_inv_lookups, simp add: conn_inv_def)

text \<open>An endpoint with the NPAPI marshalers, whatever its methods and error callbacks are.\<close>

definition np_rpc_env ::
  "(('h, 'z) np_process_scheme, 'h) npv_env \<Rightarrow> (cptr \<Rightarrow> ulong) \<Rightarrow> bool \<Rightarrow>
     (code_ptr \<Rightarrow> (('h, 'z) np_process_scheme, int) op) \<Rightarrow>
     (code_ptr \<Rightarrow> ptr \<Rightarrow> (('h, 'z) np_process_scheme, unit) op) \<Rightarrow>
     (('h, 'z) np_process_scheme, np_value) rpc_env"
where
  "np_rpc_env E visualid ptr32 cm ce =
     fptrs.extend (np_fptrs E visualid ptr32) \<lparr>call_method = cm, call_error = ce\<rparr>"

lemma truncate_np_rpc_env: "fptrs.truncate (np_rpc_env E visualid ptr32 cm ce) = np_fptrs E visualid ptr32"
  by (simp add: np_rpc_env_def np_fptrs_def fptrs.defs)

interpretation np_peer: rpc_peer "np_rpc_env E visualid ptr32 cm ce" np_types "np_enc visualid"
  "np_view visualid" "np_wf ptr32" for E visualid ptr32 cm ce
  by (rule rpc_peer.intro) (simp add: truncate_np_rpc_env np_user_marshalers)

subsection \<open>Properties\<close>

lemma map_of_rev_distinct: "distinct (map fst xs) \<Longrightarrow> map_of (rev xs) = map_of xs"
  by (subst map_of_inject_set) (simp_all add: rev_map [symmetric] del: map_map)

lemma np_types_id: "np_types t = Some d \<Longrightarrow> d_id d = t"
  by (auto simp: np_types_def dest: map_of_SomeD)

lemma dom_np_types: "dom np_types = {1..20}"
proof -
  have "{1..20} = set (map d_id message_descs)"
    by (auto simp: message_descs_def np_desc_def) presburger
  then show ?thesis by (simp add: np_types_def dom_map_of_conv_image_fst image_image)
qed

lemma add_np_marshalers_run:
  assumes "types_reg R c" "types_tbl c = Map.empty"
  shows "\<exists>c'. rpc_add_np_marshalers c = (Ok (), c') \<and> types_reg R c' \<and> types_tbl c' = np_types"
proof -
  have "agrees (map (\<lambda>d. (d_id d, d)) message_descs) Map.empty"
    by (simp add: agrees_def message_descs_def np_desc_def)
  with types.add_all [OF assms(1), of message_descs] assms(2) obtain c' where
    c': "rpc_add_np_marshalers c = (Ok (), c')" "types_reg R c'"
    "types_tbl c' = map_of (map (\<lambda>d. (d_id d, d)) (rev message_descs))"
    by (auto simp: rpc_add_np_marshalers_def rpc_connection_add_message_descriptors_def list_all_iff)
  have "distinct (map fst (map (\<lambda>d. (d_id d, d)) message_descs))"
    by (simp add: message_descs_def np_desc_def)
  then have "types_tbl c' = np_types"
    unfolding c'(3) np_types_def rev_map [symmetric] by (rule map_of_rev_distinct)
  with c'(1,2) show ?thesis by blast
qed

text \<open>
  \<open>rpc_add_np_marshalers\<close> on a connection without marshalers succeeds and registers exactly the
  twenty NPAPI types, each with the routines of its own type.
\<close>

theorem rpc_add_np_marshalers_correct:
  assumes "types_reg R c" "types_tbl c = Map.empty"
  shows "\<exists>c'. rpc_add_np_marshalers c = (Ok (), c') \<and> types_reg R c' \<and> types_tbl c' = np_types \<and>
    (\<forall>t d. np_types t = Some d \<longrightarrow> d_id d = t \<and> d_send_callback d = send_ptr t \<and> d_recv_callback d = recv_ptr t) \<and>
    dom np_types = {1..20}"
  using add_np_marshalers_run [OF assms] np_types_id np_types_Some dom_np_types by blast

theorem rpc_add_np_marshalers_correct_witness:
  "\<exists>c'. rpc_add_np_marshalers (Some sample_client) = (Ok (), c') \<and> types_tbl c' = np_types"
proof -
  have "types_reg (sample_client\<lparr>conn_types := None\<rparr>) (Some sample_client)"
    by (simp add: types_reg_def sample_defs connect_first alloc_ok_def empty_map_ok)
  moreover have "types_tbl (Some sample_client) = Map.empty"
    by (simp add: types_tbl_def sample_defs connect_first empty_map_ok)
  ultimately show ?thesis
    using rpc_add_np_marshalers_correct by blast
qed

text \<open>A process on the sample connection with the NPAPI types registered.\<close>

lemma np_process_exists:
  obtains s :: "(cptr \<times> cptr) list np_process" where "calm s" "conn_inv np_types Map.empty (frame s) s" "tx_wire s = []"
    "rx_queue s = []" "frame s = frame empty_process"
proof -
  note defs = empty_process_def rpc_connection.defs sample_defs connect_first
  have "types_reg (empty_process\<lparr>conn_types := None\<rparr>) (Some empty_process)"
    "types_tbl (Some empty_process) = Map.empty"
    by (simp_all add: types_reg_def types_tbl_def defs alloc_ok_def empty_map_ok)
  from add_np_marshalers_run [OF this] obtain c' where
    "types_reg (empty_process\<lparr>conn_types := None\<rparr>) c'" "types_tbl c' = np_types"
    by blast
  then obtain s m where m: "conn_types s = Some m" "rpc_map_ok m" "rpc_map_abs m = np_types"
    and eq: "s\<lparr>conn_types := None\<rparr> = empty_process\<lparr>conn_types := None\<rparr>"
    by (auto simp: types_reg_def types_tbl_def split: option.splits)
  have "s = (s\<lparr>conn_types := None\<rparr>)\<lparr>conn_types := Some m\<rparr>" using m(1) by simp
  then have "s = empty_process\<lparr>conn_types := Some m\<rparr>" unfolding eq by simp
  with m(2,3) show thesis
    by (intro that [of s])
      (simp_all add: defs calm_def conn_inv_def frame_def alloc_ok_def types_are_def methods_are_def empty_map_ok)
qed

text \<open>
  C18. NPAPI argument lists survive the wire between the two processes: every list of built-in arguments
  and of windows, events, print requests, byte ranges, saved data, strings, rectangles, notification
  data, \<open>NULL\<close> identifiers and variants that hold no object, sent by \<open>rpc_message_send_args\<close> through
  the registered table, is received by \<open>rpc_message_recv_args\<close> as the list of its views.
\<close>

theorem np_args_round_trip:
  fixes s r :: "('h, 'z) np_process_scheme"
  assumes "list_all (wf_arg np_types (np_wf ptr32)) as"
    and "calm s" "conn_inv np_types M F s" "tx_wire s = []" "calm r" "conn_inv np_types M F r"
  shows "\<exists>msg' s' r'.
    then_op (rpc_message_send_args (np_fptrs E visualid ptr32) as) rpc_message_flush (rpc_message_init, s) =
      (Ok (), (msg', s')) \<and>
    rpc_message_recv_args (np_fptrs E visualid ptr32) (map param_of as)
      (rpc_message_init, r\<lparr>rx_queue := tx_wire s' @ rest\<rparr>) =
      (Ok (map (view_arg (np_view visualid)) as), (rpc_message_init, r')) \<and> rx_queue r' = rest"
proof -
  note T = user_marshalers.transmit [OF np_user_marshalers [where E = E and visualid = visualid]
    assms(1,2,3,5,6), where msg = rpc_message_init and rest = rest]
  from T assms(4) obtain msg' s' r' where
    "then_op (rpc_message_send_args (np_fptrs E visualid ptr32) as) rpc_message_flush (rpc_message_init, s) =
      (Ok (), (msg', s'))" "tx_wire s' = enc_args (np_enc visualid) as"
    "rpc_message_recv_args (np_fptrs E visualid ptr32) (map param_of as)
      (rpc_message_init, r\<lparr>rx_queue := enc_args (np_enc visualid) as @ rest\<rparr>) =
      (Ok (map (view_arg (np_view visualid)) as), (rpc_message_init, r'))" "rx_queue r' = rest"
    by auto
  then show ?thesis by auto
qed


theorem np_args_round_trip_witness:
  "\<exists>(E :: ((cptr \<times> cptr) list np_process, (cptr \<times> cptr) list) npv_env) visualid s msg' s' r'.
    then_op (rpc_message_send_args (np_fptrs E visualid False)
      [Int32 7, User RPC_TYPE_NP_VARIANT (NV_variant (V_bool True))]) rpc_message_flush
      (rpc_message_init, s) = (Ok (), (msg', s')) \<and>
    rpc_message_recv_args (np_fptrs E visualid False) [P_type RPC_TYPE_INT32, P_type RPC_TYPE_NP_VARIANT]
      (rpc_message_init, s\<lparr>rx_queue := tx_wire s' @ []\<rparr>) =
      (Ok [Int32 7, User RPC_TYPE_NP_VARIANT (NV_variant (V_bool True))], (rpc_message_init, r'))"
proof -
  let ?as = "[Int32 7, User RPC_TYPE_NP_VARIANT (NV_variant (V_bool True))]"
  have "RPC_TYPE_NP_VARIANT \<in> dom np_types" unfolding dom_np_types by simp
  then have wf: "list_all (wf_arg np_types (np_wf False)) ?as"
    by (auto simp: user_type_ok_def builtin_type_def int32_range_def)
  obtain s :: "(cptr \<times> cptr) list np_process" where
    s: "calm s" "conn_inv np_types Map.empty (frame s) s" "tx_wire s = []"
    by (rule np_process_exists)
  show ?thesis
    using np_args_round_trip [OF wf s s(1,2), where rest = "[]"] by fastforce
qed

end
