(* ===== verification/Np_Calls.thy ===== *)
theory Np_Calls
  imports Rpc_Calls Np_Table
begin

text \<open>
  What the remote calls of the NPAPI layer have in common: the method numbers of \<^verbatim>\<open>npw-rpc.h\<close>, the
  sequence of checks around \<open>rpc_method_invoke\<close> and \<open>rpc_method_wait_for_reply\<close> that every
  \<open>invoke_...\<close> function of the three programs has, and the reading of received arguments.
\<close>

subsection \<open>Method numbers\<close>

abbreviation (input) RPC_METHOD_NP_GET_VALUE :: int where "RPC_METHOD_NP_GET_VALUE \<equiv> 1"
abbreviation (input) RPC_METHOD_NP_GET_MIME_DESCRIPTION :: int where "RPC_METHOD_NP_GET_MIME_DESCRIPTION \<equiv> 2"
abbreviation (input) RPC_METHOD_NP_INITIALIZE :: int where "RPC_METHOD_NP_INITIALIZE \<equiv> 3"
abbreviation (input) RPC_METHOD_NP_SHUTDOWN :: int where "RPC_METHOD_NP_SHUTDOWN \<equiv> 4"
abbreviation (input) RPC_METHOD_NPN_USER_AGENT :: int where "RPC_METHOD_NPN_USER_AGENT \<equiv> 5"
abbreviation (input) RPC_METHOD_NPN_GET_VALUE :: int where "RPC_METHOD_NPN_GET_VALUE \<equiv> 6"
abbreviation (input) RPC_METHOD_NPN_SET_VALUE :: int where "RPC_METHOD_NPN_SET_VALUE \<equiv> 7"
abbreviation (input) RPC_METHOD_NPN_GET_URL :: int where "RPC_METHOD_NPN_GET_URL \<equiv> 8"
abbreviation (input) RPC_METHOD_NPN_GET_URL_NOTIFY :: int where "RPC_METHOD_NPN_GET_URL_NOTIFY \<equiv> 9"
abbreviation (input) RPC_METHOD_NPN_POST_URL :: int where "RPC_METHOD_NPN_POST_URL \<equiv> 10"
abbreviation (input) RPC_METHOD_NPN_POST_URL_NOTIFY :: int where "RPC_METHOD_NPN_POST_URL_NOTIFY \<equiv> 11"
abbreviation (input) RPC_METHOD_NPN_STATUS :: int where "RPC_METHOD_NPN_STATUS \<equiv> 12"
abbreviation (input) RPC_METHOD_NPN_PRINT_DATA :: int where "RPC_METHOD_NPN_PRINT_DATA \<equiv> 13"
abbreviation (input) RPC_METHOD_NPN_REQUEST_READ :: int where "RPC_METHOD_NPN_REQUEST_READ \<equiv> 14"
abbreviation (input) RPC_METHOD_NPN_NEW_STREAM :: int where "RPC_METHOD_NPN_NEW_STREAM \<equiv> 15"
abbreviation (input) RPC_METHOD_NPN_DESTROY_STREAM :: int where "RPC_METHOD_NPN_DESTROY_STREAM \<equiv> 16"
abbreviation (input) RPC_METHOD_NPN_WRITE :: int where "RPC_METHOD_NPN_WRITE \<equiv> 17"
abbreviation (input) RPC_METHOD_NPN_PUSH_POPUPS_ENABLED_STATE :: int where "RPC_METHOD_NPN_PUSH_POPUPS_ENABLED_STATE \<equiv> 18"
abbreviation (input) RPC_METHOD_NPN_POP_POPUPS_ENABLED_STATE :: int where "RPC_METHOD_NPN_POP_POPUPS_ENABLED_STATE \<equiv> 19"
abbreviation (input) RPC_METHOD_NPN_FORCE_REDRAW :: int where "RPC_METHOD_NPN_FORCE_REDRAW \<equiv> 20"
abbreviation (input) RPC_METHOD_NPN_INVALIDATE_RECT :: int where "RPC_METHOD_NPN_INVALIDATE_RECT \<equiv> 21"
abbreviation (input) RPC_METHOD_NPN_INVALIDATE_REGION :: int where "RPC_METHOD_NPN_INVALIDATE_REGION \<equiv> 22"
abbreviation (input) RPC_METHOD_NPN_GET_VALUE_FOR_URL :: int where "RPC_METHOD_NPN_GET_VALUE_FOR_URL \<equiv> 23"
abbreviation (input) RPC_METHOD_NPN_SET_VALUE_FOR_URL :: int where "RPC_METHOD_NPN_SET_VALUE_FOR_URL \<equiv> 24"
abbreviation (input) RPC_METHOD_NPN_GET_AUTHENTICATION_INFO :: int where "RPC_METHOD_NPN_GET_AUTHENTICATION_INFO \<equiv> 25"
abbreviation (input) RPC_METHOD_NPN_POP_UP_CONTEXT_MENU :: int where "RPC_METHOD_NPN_POP_UP_CONTEXT_MENU \<equiv> 26"
abbreviation (input) RPC_METHOD_NPN_HANDLE_EVENT :: int where "RPC_METHOD_NPN_HANDLE_EVENT \<equiv> 27"
abbreviation (input) RPC_METHOD_NPN_UNFOCUS_INSTANCE :: int where "RPC_METHOD_NPN_UNFOCUS_INSTANCE \<equiv> 28"
abbreviation (input) RPC_METHOD_NPN_URL_REDIRECT_RESPONSE :: int where "RPC_METHOD_NPN_URL_REDIRECT_RESPONSE \<equiv> 29"
abbreviation (input) RPC_METHOD_NPP_NEW :: int where "RPC_METHOD_NPP_NEW \<equiv> 30"
abbreviation (input) RPC_METHOD_NPP_DESTROY :: int where "RPC_METHOD_NPP_DESTROY \<equiv> 31"
abbreviation (input) RPC_METHOD_NPP_SET_WINDOW :: int where "RPC_METHOD_NPP_SET_WINDOW \<equiv> 32"
abbreviation (input) RPC_METHOD_NPP_HANDLE_EVENT :: int where "RPC_METHOD_NPP_HANDLE_EVENT \<equiv> 33"
abbreviation (input) RPC_METHOD_NPP_GET_VALUE :: int where "RPC_METHOD_NPP_GET_VALUE \<equiv> 34"
abbreviation (input) RPC_METHOD_NPP_SET_VALUE :: int where "RPC_METHOD_NPP_SET_VALUE \<equiv> 35"
abbreviation (input) RPC_METHOD_NPP_URL_NOTIFY :: int where "RPC_METHOD_NPP_URL_NOTIFY \<equiv> 36"
abbreviation (input) RPC_METHOD_NPP_NEW_STREAM :: int where "RPC_METHOD_NPP_NEW_STREAM \<equiv> 37"
abbreviation (input) RPC_METHOD_NPP_DESTROY_STREAM :: int where "RPC_METHOD_NPP_DESTROY_STREAM \<equiv> 38"
abbreviation (input) RPC_METHOD_NPP_WRITE_READY :: int where "RPC_METHOD_NPP_WRITE_READY \<equiv> 39"
abbreviation (input) RPC_METHOD_NPP_WRITE :: int where "RPC_METHOD_NPP_WRITE \<equiv> 40"
abbreviation (input) RPC_METHOD_NPP_STREAM_AS_FILE :: int where "RPC_METHOD_NPP_STREAM_AS_FILE \<equiv> 41"
abbreviation (input) RPC_METHOD_NPP_PRINT :: int where "RPC_METHOD_NPP_PRINT \<equiv> 42"
abbreviation (input) RPC_METHOD_NPP_GOT_FOCUS :: int where "RPC_METHOD_NPP_GOT_FOCUS \<equiv> 43"
abbreviation (input) RPC_METHOD_NPP_LOST_FOCUS :: int where "RPC_METHOD_NPP_LOST_FOCUS \<equiv> 44"
abbreviation (input) RPC_METHOD_NPP_URL_REDIRECT_NOTIFY :: int where "RPC_METHOD_NPP_URL_REDIRECT_NOTIFY \<equiv> 45"
abbreviation (input) RPC_METHOD_NPP_CLEAR_SITE_DATA :: int where "RPC_METHOD_NPP_CLEAR_SITE_DATA \<equiv> 46"
abbreviation (input) RPC_METHOD_NPP_GET_SITES_WITH_DATA :: int where "RPC_METHOD_NPP_GET_SITES_WITH_DATA \<equiv> 47"
abbreviation (input) RPC_METHOD_NPN_CREATE_OBJECT :: int where "RPC_METHOD_NPN_CREATE_OBJECT \<equiv> 48"
abbreviation (input) RPC_METHOD_NPN_RETAIN_OBJECT :: int where "RPC_METHOD_NPN_RETAIN_OBJECT \<equiv> 49"
abbreviation (input) RPC_METHOD_NPN_RELEASE_OBJECT :: int where "RPC_METHOD_NPN_RELEASE_OBJECT \<equiv> 50"
abbreviation (input) RPC_METHOD_NPN_INVOKE :: int where "RPC_METHOD_NPN_INVOKE \<equiv> 51"
abbreviation (input) RPC_METHOD_NPN_INVOKE_DEFAULT :: int where "RPC_METHOD_NPN_INVOKE_DEFAULT \<equiv> 52"
abbreviation (input) RPC_METHOD_NPN_EVALUATE :: int where "RPC_METHOD_NPN_EVALUATE \<equiv> 53"
abbreviation (input) RPC_METHOD_NPN_GET_PROPERTY :: int where "RPC_METHOD_NPN_GET_PROPERTY \<equiv> 54"
abbreviation (input) RPC_METHOD_NPN_SET_PROPERTY :: int where "RPC_METHOD_NPN_SET_PROPERTY \<equiv> 55"
abbreviation (input) RPC_METHOD_NPN_REMOVE_PROPERTY :: int where "RPC_METHOD_NPN_REMOVE_PROPERTY \<equiv> 56"
abbreviation (input) RPC_METHOD_NPN_HAS_PROPERTY :: int where "RPC_METHOD_NPN_HAS_PROPERTY \<equiv> 57"
abbreviation (input) RPC_METHOD_NPN_HAS_METHOD :: int where "RPC_METHOD_NPN_HAS_METHOD \<equiv> 58"
abbreviation (input) RPC_METHOD_NPN_SET_EXCEPTION :: int where "RPC_METHOD_NPN_SET_EXCEPTION \<equiv> 59"
abbreviation (input) RPC_METHOD_NPN_ENUMERATE :: int where "RPC_METHOD_NPN_ENUMERATE \<equiv> 60"
abbreviation (input) RPC_METHOD_NPN_CONSTRUCT :: int where "RPC_METHOD_NPN_CONSTRUCT \<equiv> 61"
abbreviation (input) RPC_METHOD_NPN_GET_STRING_IDENTIFIER :: int where "RPC_METHOD_NPN_GET_STRING_IDENTIFIER \<equiv> 62"
abbreviation (input) RPC_METHOD_NPN_GET_STRING_IDENTIFIERS :: int where "RPC_METHOD_NPN_GET_STRING_IDENTIFIERS \<equiv> 63"
abbreviation (input) RPC_METHOD_NPN_GET_INT_IDENTIFIER :: int where "RPC_METHOD_NPN_GET_INT_IDENTIFIER \<equiv> 64"
abbreviation (input) RPC_METHOD_NPN_IDENTIFIER_IS_STRING :: int where "RPC_METHOD_NPN_IDENTIFIER_IS_STRING \<equiv> 65"
abbreviation (input) RPC_METHOD_NPN_UTF8_FROM_IDENTIFIER :: int where "RPC_METHOD_NPN_UTF8_FROM_IDENTIFIER \<equiv> 66"
abbreviation (input) RPC_METHOD_NPN_INT_FROM_IDENTIFIER :: int where "RPC_METHOD_NPN_INT_FROM_IDENTIFIER \<equiv> 67"
abbreviation (input) RPC_METHOD_NPCLASS_INVALIDATE :: int where "RPC_METHOD_NPCLASS_INVALIDATE \<equiv> 68"
abbreviation (input) RPC_METHOD_NPCLASS_HAS_METHOD :: int where "RPC_METHOD_NPCLASS_HAS_METHOD \<equiv> 69"
abbreviation (input) RPC_METHOD_NPCLASS_INVOKE :: int where "RPC_METHOD_NPCLASS_INVOKE \<equiv> 70"
abbreviation (input) RPC_METHOD_NPCLASS_INVOKE_DEFAULT :: int where "RPC_METHOD_NPCLASS_INVOKE_DEFAULT \<equiv> 71"
abbreviation (input) RPC_METHOD_NPCLASS_HAS_PROPERTY :: int where "RPC_METHOD_NPCLASS_HAS_PROPERTY \<equiv> 72"
abbreviation (input) RPC_METHOD_NPCLASS_GET_PROPERTY :: int where "RPC_METHOD_NPCLASS_GET_PROPERTY \<equiv> 73"
abbreviation (input) RPC_METHOD_NPCLASS_SET_PROPERTY :: int where "RPC_METHOD_NPCLASS_SET_PROPERTY \<equiv> 74"
abbreviation (input) RPC_METHOD_NPCLASS_REMOVE_PROPERTY :: int where "RPC_METHOD_NPCLASS_REMOVE_PROPERTY \<equiv> 75"
abbreviation (input) RPC_METHOD_NPCLASS_ENUMERATE :: int where "RPC_METHOD_NPCLASS_ENUMERATE \<equiv> 76"
abbreviation (input) RPC_METHOD_NPCLASS_CONSTRUCT :: int where "RPC_METHOD_NPCLASS_CONSTRUCT \<equiv> 77"
abbreviation (input) RPC_METHOD_NPCLASS_DEALLOCATE :: int where "RPC_METHOD_NPCLASS_DEALLOCATE \<equiv> 78"

subsection \<open>Calls\<close>

text \<open>
  The global \<open>g_rpc_connection\<close>, which both programs set to \<open>NULL\<close> when they drop the connection.
\<close>

definition g_rpc_connection :: "'z rpc_connection_scheme \<Rightarrow> 'z rpc_connection_scheme option" where
  "g_rpc_connection s = (if freed s then None else Some s)"

text \<open>\<open>error != RPC_ERROR_NO_ERROR\<close> is reported and the caller gets its default.\<close>

definition attempt :: "('s, 'a) op \<Rightarrow> ('s, 'a option) op" where
  "attempt m s =
     (case m s of
        (Ok x, s') \<Rightarrow> (Ok (Some x), s')
      | (Err e, s') \<Rightarrow> (Ok None, s')
      | (Crash c, s') \<Rightarrow> (Crash c, s'))"

text \<open>
  \<open>npw_return_val_if_fail (rpc_method_invoke_possible (g_rpc_connection), ...)\<close>, the invocation and
  the wait for the reply; \<open>None\<close> when one of them fails. The variables a failed wait was to fill keep
  the values they had.
\<close>

definition remote_call ::
  "('z rpc_connection_scheme, 'u, 'y) rpc_env_scheme \<Rightarrow> int \<Rightarrow> 'u rpc_arg list \<Rightarrow> rpc_param list \<Rightarrow>
     ('z rpc_connection_scheme, 'u rpc_arg list option) op"
where
  "remote_call R mid args ps = bind_op (gets g_rpc_connection) (\<lambda>c.
     if \<not> rpc_method_invoke_possible c then ret None
     else attempt (then_op (on_live (rpc_method_invoke R mid args)) (on_live (rpc_method_wait_for_reply R ps))))"

text \<open>The code a handler returns to \<open>_rpc_dispatch_1\<close>.\<close>

definition return_code :: "('s, 'a) op \<Rightarrow> ('s, int) op" where
  "return_code m s =
     (case m s of
        (Ok x, s') \<Rightarrow> (Ok RPC_ERROR_NO_ERROR, s')
      | (Err e, s') \<Rightarrow> (Ok e, s')
      | (Crash c, s') \<Rightarrow> (Crash c, s'))"

subsection \<open>Arguments\<close>

abbreviation np_object :: "cptr \<Rightarrow> np_value rpc_arg" where
  "np_object p \<equiv> User RPC_TYPE_NP_OBJECT (NV_object p)"

abbreviation np_identifier :: "cptr \<Rightarrow> np_value rpc_arg" where
  "np_identifier p \<equiv> User RPC_TYPE_NP_IDENTIFIER (NV_identifier p)"

abbreviation np_variant :: "NPVariant \<Rightarrow> np_value rpc_arg" where
  "np_variant v \<equiv> User RPC_TYPE_NP_VARIANT (NV_variant v)"

abbreviation np_variant_pass_ref :: "NPVariant \<Rightarrow> np_value rpc_arg" where
  "np_variant_pass_ref v \<equiv> User RPC_TYPE_NP_VARIANT_PASS_REF (NV_variant v)"

text \<open>An array and its length; a \<open>NULL\<close> array can come with a length.\<close>

definition np_array :: "int \<Rightarrow> ('a \<Rightarrow> np_value) \<Rightarrow> uint32 \<Rightarrow> 'a list option \<Rightarrow> np_value rpc_arg" where
  "np_array t C n xs = Array n (case xs of None \<Rightarrow> C_null t | Some ys \<Rightarrow> C_user t (map C ys))"

text \<open>The variables the arguments of the expected types are received in.\<close>

fun as_object :: "np_value rpc_arg \<Rightarrow> cptr" where
  "as_object (User t (NV_object p)) = p"
| "as_object a = 0"

fun as_identifier :: "np_value rpc_arg \<Rightarrow> cptr" where
  "as_identifier (User t (NV_identifier p)) = p"
| "as_identifier a = 0"

fun as_variant :: "np_value rpc_arg \<Rightarrow> NPVariant" where
  "as_variant (User t (NV_variant v)) = v"
| "as_variant a = V_void"

fun as_uint32 :: "np_value rpc_arg \<Rightarrow> uint32" where
  "as_uint32 (Uint32 w) = w"
| "as_uint32 a = 0"

fun as_count :: "np_value rpc_arg \<Rightarrow> uint32" where
  "as_count (Array n a) = n"
| "as_count a = 0"

fun array_values :: "np_value rpc_arg \<Rightarrow> np_value list option" where
  "array_values (Array n (C_user t vs)) = Some vs"
| "array_values a = None"

definition as_variants :: "np_value rpc_arg \<Rightarrow> NPVariant list option" where
  "as_variants a = map_option (map (\<lambda>v. case v of NV_variant x \<Rightarrow> x | _ \<Rightarrow> V_void)) (array_values a)"

definition as_identifiers :: "np_value rpc_arg \<Rightarrow> cptr list option" where
  "as_identifiers a = map_option (map (\<lambda>v. case v of NV_identifier x \<Rightarrow> x | _ \<Rightarrow> 0)) (array_values a)"

definition truth :: "bool \<Rightarrow> uint32" where
  "truth b = (if b then 1 else 0)"

end
