(* ===== verification/Np_Class.thy ===== *)
theory Np_Class
  imports Np_Calls
begin

text \<open>
  The class of proxies of \<^verbatim>\<open>npruntime.c\<close>: every member function of \<open>npclass_bridge\<close> sends the call to
  the process that owns the object, whose handler calls the member of the object's own class. For
  each call there are the three functions of the source: the handler (\<open>npclass_handle_...\<close>), the
  remote call (\<open>npclass_invoke_...\<close>) and the member (\<open>g_NPClass_...\<close>).
\<close>

subsection \<open>Classes of objects\<close>

text \<open>
  The members of the \<open>NPClass\<close> structure at an address; \<open>None\<close> is \<open>NULL\<close>. A function with a result
  parameter returns what is in it afterwards; it is void before.
\<close>

record 's NPClass =
  structVersion :: uint32
  hasMethod :: "(cptr \<Rightarrow> cptr \<Rightarrow> ('s, bool) op) option"
  invoke :: "(cptr \<Rightarrow> cptr \<Rightarrow> NPVariant list option \<Rightarrow> uint32 \<Rightarrow> ('s, bool \<times> NPVariant) op) option"
  invokeDefault :: "(cptr \<Rightarrow> NPVariant list option \<Rightarrow> uint32 \<Rightarrow> ('s, bool \<times> NPVariant) op) option"
  hasProperty :: "(cptr \<Rightarrow> cptr \<Rightarrow> ('s, bool) op) option"
  getProperty :: "(cptr \<Rightarrow> cptr \<Rightarrow> ('s, bool \<times> NPVariant) op) option"
  setProperty :: "(cptr \<Rightarrow> cptr \<Rightarrow> NPVariant \<Rightarrow> ('s, bool) op) option"
  removeProperty :: "(cptr \<Rightarrow> cptr \<Rightarrow> ('s, bool) op) option"
  enumerate :: "(cptr \<Rightarrow> ('s, bool \<times> uint32 \<times> cptr list option) op) option"
  construct :: "(cptr \<Rightarrow> NPVariant list option \<Rightarrow> uint32 \<Rightarrow> ('s, bool \<times> NPVariant) op) option"

type_synonym 's np_classes = "cptr \<Rightarrow> 's NPClass"

text \<open>
  \<open>if (npobj && is_valid_npobject_class (npobj) && npobj->_class->member) ...\<close>, with the value the
  result variables have otherwise.
\<close>

definition if_member ::
  "(('h, 'z) np_process_scheme, 'h) np_env \<Rightarrow> ('h, 'z) np_process_scheme np_classes \<Rightarrow> cptr \<Rightarrow>
     (('h, 'z) np_process_scheme NPClass \<Rightarrow> 'f option) \<Rightarrow> 'a \<Rightarrow> ('f \<Rightarrow> (('h, 'z) np_process_scheme, 'a) op) \<Rightarrow>
     (('h, 'z) np_process_scheme, 'a) op"
where
  "if_member E C npobj sel otherwise f =
     (if npobj = 0 then ret otherwise
      else bind_op (is_valid_npobject_class E npobj) (\<lambda>valid.
        if \<not> valid then ret otherwise
        else bind_op (deref objects npobj) (\<lambda>obj.
          case sel (C (obj_class obj)) of None \<Rightarrow> ret otherwise | Some g \<Rightarrow> f g)))"

text \<open>
  \<open>print_npvariant_args\<close> formats the arguments even when nothing is printed: an element of a
  \<open>NULL\<close> array, other than the first, is read through an invalid address.
\<close>

definition print_npvariant_args :: "NPVariant list option \<Rightarrow> uint32 \<Rightarrow> ('s, unit) op" where
  "print_npvariant_args args nargs =
     (case args of None \<Rightarrow> if 1 < nargs then crash Out_of_bounds else ret () | Some _ \<Rightarrow> ret ())"

text \<open>\<open>npw_return_if_fail\<close> apart, a received object is released when it is not \<open>NULL\<close>.\<close>

definition release_object ::
  "('s, 'h, 'y) np_env_scheme \<Rightarrow> cptr \<Rightarrow> ('s, unit) op"
where
  "release_object E npobj = (if npobj \<noteq> 0 then NPN_ReleaseObject E npobj else ret ())"

definition release_variants ::
  "('s, 'h, 'y) npv_env_scheme \<Rightarrow> NPVariant list option \<Rightarrow> ('s, unit) op"
where
  "release_variants E args =
     (case args of None \<Rightarrow> ret () | Some vs \<Rightarrow> run_all (map (NPN_ReleaseVariantValue E) vs))"

subsection \<open>Handlers\<close>

text \<open>
  What a handler needs: the objects of the process \<open>E\<close>, their classes \<open>C\<close> and the connection \<open>R\<close>.
\<close>

definition npclass_handle_Deallocate ::
  "(('h, 'z) np_process_scheme, 'h) npv_env \<Rightarrow> (('h, 'z) np_process_scheme, np_value, 'y) rpc_env_scheme \<Rightarrow>
     (('h, 'z) np_process_scheme, int) op"
where
  "npclass_handle_Deallocate E R = return_code
     (bind_op (on_live (rpc_method_get_args R [P_type RPC_TYPE_UINT32])) (\<lambda>as.
        case as of
          [a1] \<Rightarrow>
            bind_op (npobject_lookup_stub (np_env.truncate E) (as_uint32 a1)) (\<lambda>stub.
            then_op (if stub \<noteq> 0 then npobject_destroy_stub_obj (np_env.truncate E) stub else ret ())
              (on_live (rpc_method_send_reply R [])))
        | _ \<Rightarrow> misread))"

definition npclass_handle_HasMethod ::
  "(('h, 'z) np_process_scheme, 'h) npv_env \<Rightarrow> ('h, 'z) np_process_scheme np_classes \<Rightarrow>
     (('h, 'z) np_process_scheme, np_value, 'y) rpc_env_scheme \<Rightarrow> (('h, 'z) np_process_scheme, int) op"
where
  "npclass_handle_HasMethod E C R = return_code
     (bind_op (on_live (rpc_method_get_args R [P_type RPC_TYPE_NP_OBJECT, P_type RPC_TYPE_NP_IDENTIFIER])) (\<lambda>as.
        case as of
          [a1, a2] \<Rightarrow>
            bind_op (if_member (np_env.truncate E) C (as_object a1) hasMethod False
              (\<lambda>f. f (as_object a1) (as_identifier a2))) (\<lambda>r.
            then_op (release_object E (as_object a1))
              (on_live (rpc_method_send_reply R [Uint32 (truth r)])))
        | _ \<Rightarrow> misread))"

definition npclass_handle_Invoke ::
  "(('h, 'z) np_process_scheme, 'h) npv_env \<Rightarrow> ('h, 'z) np_process_scheme np_classes \<Rightarrow>
     (('h, 'z) np_process_scheme, np_value, 'y) rpc_env_scheme \<Rightarrow> (('h, 'z) np_process_scheme, int) op"
where
  "npclass_handle_Invoke E C R = return_code
     (bind_op (on_live (rpc_method_get_args R
        [P_type RPC_TYPE_NP_OBJECT, P_type RPC_TYPE_NP_IDENTIFIER, P_array RPC_TYPE_NP_VARIANT])) (\<lambda>as.
        case as of
          [a1, a2, a3] \<Rightarrow>
            bind_op (if_member (np_env.truncate E) C (as_object a1) invoke (False, V_void)
              (\<lambda>f. then_op (print_npvariant_args (as_variants a3) (as_count a3))
                 (f (as_object a1) (as_identifier a2) (as_variants a3) (as_count a3)))) (\<lambda>(r, result).
            then_op (release_object E (as_object a1))
            (then_op (release_variants E (as_variants a3))
              (on_live (rpc_method_send_reply R [Uint32 (truth r), np_variant_pass_ref result]))))
        | _ \<Rightarrow> misread))"

definition npclass_handle_InvokeDefault ::
  "(('h, 'z) np_process_scheme, 'h) npv_env \<Rightarrow> ('h, 'z) np_process_scheme np_classes \<Rightarrow>
     (('h, 'z) np_process_scheme, np_value, 'y) rpc_env_scheme \<Rightarrow> (('h, 'z) np_process_scheme, int) op"
where
  "npclass_handle_InvokeDefault E C R = return_code
     (bind_op (on_live (rpc_method_get_args R [P_type RPC_TYPE_NP_OBJECT, P_array RPC_TYPE_NP_VARIANT])) (\<lambda>as.
        case as of
          [a1, a2] \<Rightarrow>
            bind_op (if_member (np_env.truncate E) C (as_object a1) invokeDefault (False, V_void)
              (\<lambda>f. then_op (print_npvariant_args (as_variants a2) (as_count a2))
                 (f (as_object a1) (as_variants a2) (as_count a2)))) (\<lambda>(r, result).
            then_op (release_object E (as_object a1))
            (then_op (release_variants E (as_variants a2))
              (on_live (rpc_method_send_reply R [Uint32 (truth r), np_variant_pass_ref result]))))
        | _ \<Rightarrow> misread))"

definition npclass_handle_HasProperty ::
  "(('h, 'z) np_process_scheme, 'h) npv_env \<Rightarrow> ('h, 'z) np_process_scheme np_classes \<Rightarrow>
     (('h, 'z) np_process_scheme, np_value, 'y) rpc_env_scheme \<Rightarrow> (('h, 'z) np_process_scheme, int) op"
where
  "npclass_handle_HasProperty E C R = return_code
     (bind_op (on_live (rpc_method_get_args R [P_type RPC_TYPE_NP_OBJECT, P_type RPC_TYPE_NP_IDENTIFIER])) (\<lambda>as.
        case as of
          [a1, a2] \<Rightarrow>
            bind_op (if_member (np_env.truncate E) C (as_object a1) hasProperty False
              (\<lambda>f. f (as_object a1) (as_identifier a2))) (\<lambda>r.
            then_op (release_object E (as_object a1))
              (on_live (rpc_method_send_reply R [Uint32 (truth r)])))
        | _ \<Rightarrow> misread))"

definition npclass_handle_GetProperty ::
  "(('h, 'z) np_process_scheme, 'h) npv_env \<Rightarrow> ('h, 'z) np_process_scheme np_classes \<Rightarrow>
     (('h, 'z) np_process_scheme, np_value, 'y) rpc_env_scheme \<Rightarrow> (('h, 'z) np_process_scheme, int) op"
where
  "npclass_handle_GetProperty E C R = return_code
     (bind_op (on_live (rpc_method_get_args R [P_type RPC_TYPE_NP_OBJECT, P_type RPC_TYPE_NP_IDENTIFIER])) (\<lambda>as.
        case as of
          [a1, a2] \<Rightarrow>
            bind_op (if_member (np_env.truncate E) C (as_object a1) getProperty (False, V_void)
              (\<lambda>f. f (as_object a1) (as_identifier a2))) (\<lambda>(r, result).
            then_op (release_object E (as_object a1))
              (on_live (rpc_method_send_reply R [Uint32 (truth r), np_variant_pass_ref result])))
        | _ \<Rightarrow> misread))"

definition npclass_handle_SetProperty ::
  "(('h, 'z) np_process_scheme, 'h) npv_env \<Rightarrow> ('h, 'z) np_process_scheme np_classes \<Rightarrow>
     (('h, 'z) np_process_scheme, np_value, 'y) rpc_env_scheme \<Rightarrow> (('h, 'z) np_process_scheme, int) op"
where
  "npclass_handle_SetProperty E C R = return_code
     (bind_op (on_live (rpc_method_get_args R
        [P_type RPC_TYPE_NP_OBJECT, P_type RPC_TYPE_NP_IDENTIFIER, P_type RPC_TYPE_NP_VARIANT])) (\<lambda>as.
        case as of
          [a1, a2, a3] \<Rightarrow>
            bind_op (if_member (np_env.truncate E) C (as_object a1) setProperty False
              (\<lambda>f. f (as_object a1) (as_identifier a2) (as_variant a3))) (\<lambda>r.
            then_op (release_object E (as_object a1))
            (then_op (NPN_ReleaseVariantValue E (as_variant a3))
              (on_live (rpc_method_send_reply R [Uint32 (truth r)]))))
        | _ \<Rightarrow> misread))"

definition npclass_handle_RemoveProperty ::
  "(('h, 'z) np_process_scheme, 'h) npv_env \<Rightarrow> ('h, 'z) np_process_scheme np_classes \<Rightarrow>
     (('h, 'z) np_process_scheme, np_value, 'y) rpc_env_scheme \<Rightarrow> (('h, 'z) np_process_scheme, int) op"
where
  "npclass_handle_RemoveProperty E C R = return_code
     (bind_op (on_live (rpc_method_get_args R [P_type RPC_TYPE_NP_OBJECT, P_type RPC_TYPE_NP_IDENTIFIER])) (\<lambda>as.
        case as of
          [a1, a2] \<Rightarrow>
            bind_op (if_member (np_env.truncate E) C (as_object a1) removeProperty False
              (\<lambda>f. f (as_object a1) (as_identifier a2))) (\<lambda>r.
            then_op (release_object E (as_object a1))
              (on_live (rpc_method_send_reply R [Uint32 (truth r)])))
        | _ \<Rightarrow> misread))"

text \<open>\<open>NP_CLASS_STRUCT_VERSION_HAS_ENUM\<close>: a class of version 2 or later has \<open>enumerate\<close>.\<close>

definition enumerate_member :: "'s NPClass \<Rightarrow> (cptr \<Rightarrow> ('s, bool \<times> uint32 \<times> cptr list option) op) option" where
  "enumerate_member c = (if 2 \<le> structVersion c then enumerate c else None)"

definition npclass_handle_Enumerate ::
  "(('h, 'z) np_process_scheme, 'h) npv_env \<Rightarrow> ('h, 'z) np_process_scheme np_classes \<Rightarrow>
     (('h, 'z) np_process_scheme, np_value, 'y) rpc_env_scheme \<Rightarrow> (('h, 'z) np_process_scheme, int) op"
where
  "npclass_handle_Enumerate E C R = return_code
     (bind_op (on_live (rpc_method_get_args R [P_type RPC_TYPE_NP_OBJECT])) (\<lambda>as.
        case as of
          [a1] \<Rightarrow>
            bind_op (if_member (np_env.truncate E) C (as_object a1) enumerate_member (False, 0, None)
              (\<lambda>f. f (as_object a1))) (\<lambda>(r, argCount, idents).
            then_op (release_object E (as_object a1))
              (on_live (rpc_method_send_reply R
                [Uint32 (truth r), np_array RPC_TYPE_NP_IDENTIFIER NV_identifier argCount idents])))
        | _ \<Rightarrow> misread))"

text \<open>
  \<open>construct\<close> is read without that check: in a class of a version before 3, whose structure ends
  before the member, what follows it is called.
\<close>

definition construct_member ::
  "'s NPClass \<Rightarrow> (cptr \<Rightarrow> NPVariant list option \<Rightarrow> uint32 \<Rightarrow> ('s, bool \<times> NPVariant) op) option"
where
  "construct_member c = (if structVersion c < 3 then Some (\<lambda>_ _ _. crash Out_of_bounds) else construct c)"

definition npclass_handle_Construct ::
  "(('h, 'z) np_process_scheme, 'h) npv_env \<Rightarrow> ('h, 'z) np_process_scheme np_classes \<Rightarrow>
     (('h, 'z) np_process_scheme, np_value, 'y) rpc_env_scheme \<Rightarrow> (('h, 'z) np_process_scheme, int) op"
where
  "npclass_handle_Construct E C R = return_code
     (bind_op (on_live (rpc_method_get_args R [P_type RPC_TYPE_NP_OBJECT, P_array RPC_TYPE_NP_VARIANT])) (\<lambda>as.
        case as of
          [a1, a2] \<Rightarrow>
            bind_op (if_member (np_env.truncate E) C (as_object a1) construct_member (False, V_void)
              (\<lambda>f. then_op (print_npvariant_args (as_variants a2) (as_count a2))
                 (f (as_object a1) (as_variants a2) (as_count a2)))) (\<lambda>(r, result).
            then_op (release_object E (as_object a1))
            (then_op (release_variants E (as_variants a2))
              (on_live (rpc_method_send_reply R [Uint32 (truth r), np_variant_pass_ref result]))))
        | _ \<Rightarrow> misread))"

subsection \<open>Remote calls\<close>

text \<open>What the caller makes of a reply, or of the lack of one: the result stays void.\<close>

definition answer :: "np_value rpc_arg list option \<Rightarrow> bool" where
  "answer r = (case r of Some [a] \<Rightarrow> as_uint32 a \<noteq> 0 | _ \<Rightarrow> False)"

definition answer_variant :: "np_value rpc_arg list option \<Rightarrow> bool \<times> NPVariant" where
  "answer_variant r = (case r of Some [a, b] \<Rightarrow> (as_uint32 a \<noteq> 0, as_variant b) | _ \<Rightarrow> (False, V_void))"

definition npclass_invoke_Deallocate ::
  "(('h, 'z) np_process_scheme, np_value, 'y) rpc_env_scheme \<Rightarrow> uint32 \<Rightarrow> (('h, 'z) np_process_scheme, unit) op"
where
  "npclass_invoke_Deallocate R i =
     then_op (remote_call R RPC_METHOD_NPCLASS_DEALLOCATE [Uint32 i] []) (ret ())"

definition npclass_invoke_HasMethod ::
  "(('h, 'z) np_process_scheme, np_value, 'y) rpc_env_scheme \<Rightarrow> cptr \<Rightarrow> cptr \<Rightarrow> (('h, 'z) np_process_scheme, bool) op"
where
  "npclass_invoke_HasMethod R npobj name =
     bind_op (remote_call R RPC_METHOD_NPCLASS_HAS_METHOD
       [np_object npobj, np_identifier name] [P_type RPC_TYPE_UINT32]) (\<lambda>r. ret (answer r))"

definition npclass_invoke_Invoke ::
  "(('h, 'z) np_process_scheme, np_value, 'y) rpc_env_scheme \<Rightarrow> cptr \<Rightarrow> cptr \<Rightarrow> NPVariant list option \<Rightarrow> uint32 \<Rightarrow>
     (('h, 'z) np_process_scheme, bool \<times> NPVariant) op"
where
  "npclass_invoke_Invoke R npobj name args argCount =
     bind_op (remote_call R RPC_METHOD_NPCLASS_INVOKE
       [np_object npobj, np_identifier name, np_array RPC_TYPE_NP_VARIANT NV_variant argCount args]
       [P_type RPC_TYPE_UINT32, P_type RPC_TYPE_NP_VARIANT_PASS_REF]) (\<lambda>r. ret (answer_variant r))"

definition npclass_invoke_InvokeDefault ::
  "(('h, 'z) np_process_scheme, np_value, 'y) rpc_env_scheme \<Rightarrow> cptr \<Rightarrow> NPVariant list option \<Rightarrow> uint32 \<Rightarrow>
     (('h, 'z) np_process_scheme, bool \<times> NPVariant) op"
where
  "npclass_invoke_InvokeDefault R npobj args argCount =
     bind_op (remote_call R RPC_METHOD_NPCLASS_INVOKE_DEFAULT
       [np_object npobj, np_array RPC_TYPE_NP_VARIANT NV_variant argCount args]
       [P_type RPC_TYPE_UINT32, P_type RPC_TYPE_NP_VARIANT_PASS_REF]) (\<lambda>r. ret (answer_variant r))"

definition npclass_invoke_HasProperty ::
  "(('h, 'z) np_process_scheme, np_value, 'y) rpc_env_scheme \<Rightarrow> cptr \<Rightarrow> cptr \<Rightarrow> (('h, 'z) np_process_scheme, bool) op"
where
  "npclass_invoke_HasProperty R npobj name =
     bind_op (remote_call R RPC_METHOD_NPCLASS_HAS_PROPERTY
       [np_object npobj, np_identifier name] [P_type RPC_TYPE_UINT32]) (\<lambda>r. ret (answer r))"

definition npclass_invoke_GetProperty ::
  "(('h, 'z) np_process_scheme, np_value, 'y) rpc_env_scheme \<Rightarrow> cptr \<Rightarrow> cptr \<Rightarrow>
     (('h, 'z) np_process_scheme, bool \<times> NPVariant) op"
where
  "npclass_invoke_GetProperty R npobj name =
     bind_op (remote_call R RPC_METHOD_NPCLASS_GET_PROPERTY
       [np_object npobj, np_identifier name]
       [P_type RPC_TYPE_UINT32, P_type RPC_TYPE_NP_VARIANT_PASS_REF]) (\<lambda>r. ret (answer_variant r))"

definition npclass_invoke_SetProperty ::
  "(('h, 'z) np_process_scheme, np_value, 'y) rpc_env_scheme \<Rightarrow> cptr \<Rightarrow> cptr \<Rightarrow> NPVariant \<Rightarrow> (('h, 'z) np_process_scheme, bool) op"
where
  "npclass_invoke_SetProperty R npobj name v =
     bind_op (remote_call R RPC_METHOD_NPCLASS_SET_PROPERTY
       [np_object npobj, np_identifier name, np_variant v] [P_type RPC_TYPE_UINT32]) (\<lambda>r. ret (answer r))"

definition npclass_invoke_RemoveProperty ::
  "(('h, 'z) np_process_scheme, np_value, 'y) rpc_env_scheme \<Rightarrow> cptr \<Rightarrow> cptr \<Rightarrow> (('h, 'z) np_process_scheme, bool) op"
where
  "npclass_invoke_RemoveProperty R npobj name =
     bind_op (remote_call R RPC_METHOD_NPCLASS_REMOVE_PROPERTY
       [np_object npobj, np_identifier name] [P_type RPC_TYPE_UINT32]) (\<lambda>r. ret (answer r))"

text \<open>
  \<open>NPW_ReallocData\<close> for a block of pointers: a copy in memory of the browser, of a size that is
  computed in 32 bits. \<open>mem_alloc\<close> tells whether \<open>NPN_MemAlloc\<close> gives a block of that size.
\<close>

definition NPW_ReallocData :: "(uint32 \<Rightarrow> bool) \<Rightarrow> cptr list option \<Rightarrow> uint32 \<Rightarrow> (cptr list option) option" where
  "NPW_ReallocData mem_alloc p n =
     (case p of
        None \<Rightarrow> Some None
      | Some xs \<Rightarrow> if mem_alloc n then Some (Some (take (unat n div 8) xs)) else None)"

text \<open>
  The result is the answer, what is stored in \<open>*count\<close> and what is stored in \<open>*idents\<close>, where \<open>None\<close>
  means nothing is.
\<close>

definition npclass_invoke_Enumerate ::
  "(('h, 'z) np_process_scheme, np_value, 'y) rpc_env_scheme \<Rightarrow> (uint32 \<Rightarrow> bool) \<Rightarrow> cptr \<Rightarrow>
     (('h, 'z) np_process_scheme, bool \<times> uint32 option \<times> cptr list option option) op"
where
  "npclass_invoke_Enumerate R mem_alloc npobj =
     bind_op (remote_call R RPC_METHOD_NPCLASS_ENUMERATE [np_object npobj]
       [P_type RPC_TYPE_UINT32, P_array RPC_TYPE_NP_IDENTIFIER]) (\<lambda>r.
       ret (case r of
              Some [a, b] \<Rightarrow>
                if as_uint32 a \<noteq> 0
                then (case NPW_ReallocData mem_alloc (as_identifiers b) (8 * as_count b) of
                        None \<Rightarrow> (False, Some (as_count b), Some None)
                      | Some p \<Rightarrow> (True, Some (as_count b), Some p))
                else (False, Some (as_count b), None)
            | _ \<Rightarrow> (False, None, None)))"

definition npclass_invoke_Construct ::
  "(('h, 'z) np_process_scheme, np_value, 'y) rpc_env_scheme \<Rightarrow> cptr \<Rightarrow> NPVariant list option \<Rightarrow> uint32 \<Rightarrow>
     (('h, 'z) np_process_scheme, bool \<times> NPVariant) op"
where
  "npclass_invoke_Construct R npobj args argCount =
     bind_op (remote_call R RPC_METHOD_NPCLASS_CONSTRUCT
       [np_object npobj, np_array RPC_TYPE_NP_VARIANT NV_variant argCount args]
       [P_type RPC_TYPE_UINT32, P_type RPC_TYPE_NP_VARIANT_PASS_REF]) (\<lambda>r. ret (answer_variant r))"

subsection \<open>The members of the class of proxies\<close>

text \<open>\<open>main_thread\<close> is the answer of \<open>thread_check\<close>, always true in the browser.\<close>

definition on_valid_proxy ::
  "(('h, 'z) np_process_scheme, 'h) np_env \<Rightarrow> bool \<Rightarrow> cptr \<Rightarrow> 'a \<Rightarrow> (('h, 'z) np_process_scheme, 'a) op \<Rightarrow>
     (('h, 'z) np_process_scheme, 'a) op"
where
  "on_valid_proxy E main_thread npobj otherwise m =
     bind_op (is_valid_npobject_proxy E npobj) (\<lambda>valid.
       if \<not> valid then ret otherwise else if \<not> main_thread then ret otherwise else m)"

definition g_NPClass_Deallocate ::
  "(('h, 'z) np_process_scheme, 'h) np_env \<Rightarrow> (('h, 'z) np_process_scheme, np_value, 'y) rpc_env_scheme \<Rightarrow>
     cptr \<Rightarrow> (('h, 'z) np_process_scheme, unit) op"
where
  "g_NPClass_Deallocate E R npobj = npobject_destroy_proxy E (npclass_invoke_Deallocate R) npobj True"

definition g_NPClass_Invalidate ::
  "(('h, 'z) np_process_scheme, 'h) np_env \<Rightarrow> (('h, 'z) np_process_scheme, np_value, 'y) rpc_env_scheme \<Rightarrow>
     bool \<Rightarrow> cptr \<Rightarrow> (('h, 'z) np_process_scheme, unit) op"
where
  "g_NPClass_Invalidate E R main_thread npobj = on_valid_proxy E main_thread npobj ()
     (bind_op (deref objects npobj) (\<lambda>obj.
      then_op (modify_state (put_object npobj (Some (obj\<lparr>proxy_valid := False\<rparr>))))
        (npclass_invoke_Deallocate R (proxy_id obj))))"

definition g_NPClass_HasMethod ::
  "(('h, 'z) np_process_scheme, 'h) np_env \<Rightarrow> (('h, 'z) np_process_scheme, np_value, 'y) rpc_env_scheme \<Rightarrow>
     bool \<Rightarrow> cptr \<Rightarrow> cptr \<Rightarrow> (('h, 'z) np_process_scheme, bool) op"
where
  "g_NPClass_HasMethod E R main_thread npobj name =
     on_valid_proxy E main_thread npobj False (npclass_invoke_HasMethod R npobj name)"

text \<open>\<open>result\<close> is the variable the caller passes, \<open>None\<close> for \<open>NULL\<close>.\<close>

definition g_NPClass_Invoke ::
  "(('h, 'z) np_process_scheme, 'h) np_env \<Rightarrow> (('h, 'z) np_process_scheme, np_value, 'y) rpc_env_scheme \<Rightarrow>
     bool \<Rightarrow> cptr \<Rightarrow> cptr \<Rightarrow> NPVariant list option \<Rightarrow> uint32 \<Rightarrow> NPVariant option \<Rightarrow>
     (('h, 'z) np_process_scheme, bool \<times> NPVariant option) op"
where
  "g_NPClass_Invoke E R main_thread npobj name args argCount result =
     (if result = None then ret (False, None)
      else bind_op (on_valid_proxy E main_thread npobj (False, V_void)
        (then_op (print_npvariant_args args argCount) (npclass_invoke_Invoke R npobj name args argCount)))
        (\<lambda>(r, v). ret (r, Some v)))"

definition g_NPClass_InvokeDefault ::
  "(('h, 'z) np_process_scheme, 'h) np_env \<Rightarrow> (('h, 'z) np_process_scheme, np_value, 'y) rpc_env_scheme \<Rightarrow>
     bool \<Rightarrow> cptr \<Rightarrow> NPVariant list option \<Rightarrow> uint32 \<Rightarrow> NPVariant option \<Rightarrow>
     (('h, 'z) np_process_scheme, bool \<times> NPVariant option) op"
where
  "g_NPClass_InvokeDefault E R main_thread npobj args argCount result =
     (if result = None then ret (False, None)
      else bind_op (on_valid_proxy E main_thread npobj (False, V_void)
        (then_op (print_npvariant_args args argCount) (npclass_invoke_InvokeDefault R npobj args argCount)))
        (\<lambda>(r, v). ret (r, Some v)))"

definition g_NPClass_HasProperty ::
  "(('h, 'z) np_process_scheme, 'h) np_env \<Rightarrow> (('h, 'z) np_process_scheme, np_value, 'y) rpc_env_scheme \<Rightarrow>
     bool \<Rightarrow> cptr \<Rightarrow> cptr \<Rightarrow> (('h, 'z) np_process_scheme, bool) op"
where
  "g_NPClass_HasProperty E R main_thread npobj name =
     on_valid_proxy E main_thread npobj False (npclass_invoke_HasProperty R npobj name)"

definition g_NPClass_GetProperty ::
  "(('h, 'z) np_process_scheme, 'h) np_env \<Rightarrow> (('h, 'z) np_process_scheme, np_value, 'y) rpc_env_scheme \<Rightarrow>
     bool \<Rightarrow> cptr \<Rightarrow> cptr \<Rightarrow> NPVariant option \<Rightarrow>
     (('h, 'z) np_process_scheme, bool \<times> NPVariant option) op"
where
  "g_NPClass_GetProperty E R main_thread npobj name result =
     (if result = None then ret (False, None)
      else bind_op (on_valid_proxy E main_thread npobj (False, V_void)
        (npclass_invoke_GetProperty R npobj name))
        (\<lambda>(r, v). ret (r, Some v)))"

definition g_NPClass_SetProperty ::
  "(('h, 'z) np_process_scheme, 'h) np_env \<Rightarrow> (('h, 'z) np_process_scheme, np_value, 'y) rpc_env_scheme \<Rightarrow>
     bool \<Rightarrow> cptr \<Rightarrow> cptr \<Rightarrow> NPVariant option \<Rightarrow> (('h, 'z) np_process_scheme, bool) op"
where
  "g_NPClass_SetProperty E R main_thread npobj name v =
     (case v of
        None \<Rightarrow> ret False
      | Some x \<Rightarrow> on_valid_proxy E main_thread npobj False (npclass_invoke_SetProperty R npobj name x))"

definition g_NPClass_RemoveProperty ::
  "(('h, 'z) np_process_scheme, 'h) np_env \<Rightarrow> (('h, 'z) np_process_scheme, np_value, 'y) rpc_env_scheme \<Rightarrow>
     bool \<Rightarrow> cptr \<Rightarrow> cptr \<Rightarrow> (('h, 'z) np_process_scheme, bool) op"
where
  "g_NPClass_RemoveProperty E R main_thread npobj name =
     on_valid_proxy E main_thread npobj False (npclass_invoke_RemoveProperty R npobj name)"

text \<open>\<open>out\<close>: both result parameters are there.\<close>

definition g_NPClass_Enumerate ::
  "(('h, 'z) np_process_scheme, 'h) np_env \<Rightarrow> (('h, 'z) np_process_scheme, np_value, 'y) rpc_env_scheme \<Rightarrow>
     bool \<Rightarrow> (uint32 \<Rightarrow> bool) \<Rightarrow> cptr \<Rightarrow> bool \<Rightarrow>
     (('h, 'z) np_process_scheme, bool \<times> uint32 option \<times> cptr list option option) op"
where
  "g_NPClass_Enumerate E R main_thread mem_alloc npobj out =
     (if \<not> out then ret (False, None, None)
      else on_valid_proxy E main_thread npobj (False, None, None) (npclass_invoke_Enumerate R mem_alloc npobj))"

definition g_NPClass_Construct ::
  "(('h, 'z) np_process_scheme, 'h) np_env \<Rightarrow> (('h, 'z) np_process_scheme, np_value, 'y) rpc_env_scheme \<Rightarrow>
     bool \<Rightarrow> cptr \<Rightarrow> NPVariant list option \<Rightarrow> uint32 \<Rightarrow> NPVariant option \<Rightarrow>
     (('h, 'z) np_process_scheme, bool \<times> NPVariant option) op"
where
  "g_NPClass_Construct E R main_thread npobj args argCount result =
     (if result = None then ret (False, None)
      else bind_op (on_valid_proxy E main_thread npobj (False, V_void)
        (then_op (print_npvariant_args args argCount) (npclass_invoke_Construct R npobj args argCount)))
        (\<lambda>(r, v). ret (r, Some v)))"

subsection \<open>Registration of the handlers\<close>

text \<open>The address of the handler of a method is its number.\<close>

definition method_ptr :: "int \<Rightarrow> code_ptr" where
  "method_ptr mid = nat mid"

definition npclass_vtable :: "rpc_method_descriptor list" where
  "npclass_vtable = map (\<lambda>mid. \<lparr>m_id = mid, m_callback = method_ptr mid\<rparr>)
     [RPC_METHOD_NPCLASS_HAS_METHOD, RPC_METHOD_NPCLASS_INVOKE, RPC_METHOD_NPCLASS_INVOKE_DEFAULT,
      RPC_METHOD_NPCLASS_HAS_PROPERTY, RPC_METHOD_NPCLASS_GET_PROPERTY, RPC_METHOD_NPCLASS_SET_PROPERTY,
      RPC_METHOD_NPCLASS_REMOVE_PROPERTY, RPC_METHOD_NPCLASS_ENUMERATE, RPC_METHOD_NPCLASS_CONSTRUCT,
      RPC_METHOD_NPCLASS_DEALLOCATE]"

definition npclass_add_method_descriptors :: "('z rpc_connection_scheme option, unit) op" where
  "npclass_add_method_descriptors = rpc_connection_add_method_descriptors npclass_vtable"

definition npclass_handler ::
  "(('h, 'z) np_process_scheme, 'h) npv_env \<Rightarrow> ('h, 'z) np_process_scheme np_classes \<Rightarrow>
     (('h, 'z) np_process_scheme, np_value, 'y) rpc_env_scheme \<Rightarrow> int \<Rightarrow> (('h, 'z) np_process_scheme, int) op"
where
  "npclass_handler E C R mid =
     (if mid = RPC_METHOD_NPCLASS_HAS_METHOD then npclass_handle_HasMethod E C R
      else if mid = RPC_METHOD_NPCLASS_INVOKE then npclass_handle_Invoke E C R
      else if mid = RPC_METHOD_NPCLASS_INVOKE_DEFAULT then npclass_handle_InvokeDefault E C R
      else if mid = RPC_METHOD_NPCLASS_HAS_PROPERTY then npclass_handle_HasProperty E C R
      else if mid = RPC_METHOD_NPCLASS_GET_PROPERTY then npclass_handle_GetProperty E C R
      else if mid = RPC_METHOD_NPCLASS_SET_PROPERTY then npclass_handle_SetProperty E C R
      else if mid = RPC_METHOD_NPCLASS_REMOVE_PROPERTY then npclass_handle_RemoveProperty E C R
      else if mid = RPC_METHOD_NPCLASS_ENUMERATE then npclass_handle_Enumerate E C R
      else if mid = RPC_METHOD_NPCLASS_CONSTRUCT then npclass_handle_Construct E C R
      else if mid = RPC_METHOD_NPCLASS_DEALLOCATE then npclass_handle_Deallocate E R
      else misread)"

subsection \<open>End of the viewer, variants\<close>

definition proxy_deactivate_func :: "cptr \<times> cptr \<Rightarrow> (('h, 'z) np_process_scheme, unit) op" where
  "proxy_deactivate_func kv = bind_op (deref objects (snd kv)) (\<lambda>obj.
     modify_state (put_object (snd kv) (Some (obj\<lparr>proxy_valid := False\<rparr>))))"

definition stub_destroy_func ::
  "(('h, 'z) np_process_scheme, 'h) np_env \<Rightarrow> cptr \<times> cptr \<Rightarrow> (('h, 'z) np_process_scheme, unit) op"
where
  "stub_destroy_func E kv = npobject_destroy_stub_obj E (snd kv)"

text \<open>\<open>g_hash_table_foreach\<close>, over the entries the table has when it starts.\<close>

definition tab_foreach ::
  "'h ghash \<Rightarrow> (cptr \<times> cptr \<Rightarrow> ('s, unit) op) \<Rightarrow> 'h option \<Rightarrow> ('s, unit) op"
where
  "tab_foreach G f t = (case t of None \<Rightarrow> ret () | Some h \<Rightarrow> run_all (map f (gh_entries G h)))"

definition npruntime_deactivate ::
  "(('h, 'z) np_process_scheme, 'h) np_env \<Rightarrow> (('h, 'z) np_process_scheme, unit) op"
where
  "npruntime_deactivate E = run_all
     [bind_op (gets g_proxies) (tab_foreach (hash E) proxy_deactivate_func),
      bind_op (gets g_stubs) (tab_foreach (hash E) (stub_destroy_func E)),
      modify_state (npobject_bridge_destroy E),
      modify_state (npobject_bridge_new E)]"

text \<open>\<open>mem_free\<close> is \<open>NPN_MemFree\<close> of the characters of a string; the variant is void afterwards.\<close>

definition npvariant_clear ::
  "(('h, 'z) np_process_scheme, 'h) np_env \<Rightarrow> (NPString \<Rightarrow> (('h, 'z) np_process_scheme, unit) op) \<Rightarrow>
     NPVariant \<Rightarrow> (('h, 'z) np_process_scheme, NPVariant) op"
where
  "npvariant_clear E mem_free variant =
     then_op
       (case variant of
          V_string str \<Rightarrow> if UTF8Characters str \<noteq> None then mem_free str else ret ()
        | V_object npobj \<Rightarrow> if npobj \<noteq> 0 then NPN_ReleaseObject E npobj else ret ()
        | _ \<Rightarrow> ret ())
       (ret V_void)"

end
