(* ===== verification/Np_Bridge.thy ===== *)
theory Np_Bridge
  imports Np_Class
begin

text \<open>
  The object protocol at work: how references to scriptable objects travel between the two
  processes, and that a call on a proxy reaches the object it stands for.
\<close>

subsection \<open>Changes of the heap\<close>

text \<open>
  A process with the NPAPI marshalers registered, methods \<open>M\<close> and everything but the transfer state
  and the two tables of the connection as in \<open>F\<close>.
\<close>

abbreviation np_inv ::
  "(int \<Rightarrow> code_ptr option) \<Rightarrow> ('h, 'z) np_process_scheme \<Rightarrow> ('h, 'z) np_process_scheme \<Rightarrow> bool"
where
  "np_inv \<equiv> conn_inv np_types"

lemma np_inv_heap:
  assumes "conn_inv T M F s"
  shows "objects s = objects F" "stubs s = stubs F" "g_stubs s = g_stubs F" "g_proxies s = g_proxies F"
    "g_npobj_owners s = g_npobj_owners F" "stub_next_id s = stub_next_id F" "ids s = ids F"
    "plugins s = plugins F" "npps s = npps F"
  using assms by (auto simp: conn_inv_def frame_def)

text \<open>Updates that touch neither the connection nor what \<open>frame\<close> forgets.\<close>

definition heap_only :: "(('h, 'z) np_process_scheme \<Rightarrow> ('h, 'z) np_process_scheme) \<Rightarrow> bool" where
  "heap_only g \<longleftrightarrow> (\<forall>s. frame (g s) = g (frame s) \<and> rpc_connection.truncate (g s) = rpc_connection.truncate s)"

lemma heap_onlyI:
  "(\<And>s. frame (g s) = g (frame s)) \<Longrightarrow> (\<And>s. rpc_connection.truncate (g s) = rpc_connection.truncate s) \<Longrightarrow>
     heap_only g"
  by (simp add: heap_only_def)

lemma heap_only_updates [intro, simp]:
  "heap_only (put_object p x)" "heap_only (put_stub a y)" "heap_only (put_plugin q z)"
  "heap_only (\<lambda>s. s\<lparr>g_stubs := f (g_stubs s)\<rparr>)" "heap_only (\<lambda>s. s\<lparr>g_proxies := f (g_proxies s)\<rparr>)"
  "heap_only (\<lambda>s. s\<lparr>g_npobj_owners := f (g_npobj_owners s)\<rparr>)" "heap_only (\<lambda>s. s\<lparr>ids := t\<rparr>)"
  "heap_only (\<lambda>s. s)"
  by (auto intro!: heap_onlyI simp: frame_def put_object_def put_stub_def put_plugin_def rpc_connection.defs)

lemma heap_only_comp: "heap_only g \<Longrightarrow> heap_only h \<Longrightarrow> heap_only (\<lambda>s. g (h s))"
  by (simp add: heap_only_def)

lemma heap_only_fields:
  assumes "heap_only g"
  shows "rx_queue (g s) = rx_queue s" "tx_wire (g s) = tx_wire s" "calm (g s) = calm s" "freed (g s) = freed s"
    "status (g s) = status s" "handle_depth (g s) = handle_depth s" "dispatch_depth (g s) = dispatch_depth s"
    "invoke_depth (g s) = invoke_depth s"
  using assms [unfolded heap_only_def, rule_format, of s]
  by (auto simp: rpc_connection.defs calm_def)

lemma put_connection [simp]:
  "status (put_object p x s) = status s" "status (put_stub a y s) = status s"
  "handle_depth (put_object p x s) = handle_depth s" "dispatch_depth (put_object p x s) = dispatch_depth s"
  "ids (put_object p x s) = ids s" "ids (put_stub a y s) = ids s"
  by (simp_all add: put_object_def put_stub_def)

lemma conn_inv_heap:
  assumes g: "heap_only g" and s: "conn_inv T M F s"
  shows "conn_inv T M (g F) (g s)"
  using s g [unfolded heap_only_def, rule_format, of s]
  by (auto simp: conn_inv_def rpc_connection.defs alloc_ok_def types_are_def methods_are_def)

lemma talks_heap:
  assumes g: "heap_only g" and m: "\<And>s. conn_inv T M F s \<Longrightarrow> m s = (Ok v, g s)"
  shows "talks (conn_inv T M F) m [] [] v (conn_inv T M (g F))"
  unfolding talks_def using heap_only_fields [OF g] conn_inv_heap [OF g] by (auto simp: m)

lemmas talks_pure = talks_heap [OF heap_only_updates(8)]

lemma msg_talks_bind_in:
  "msg_talks J m a [] x J1 \<Longrightarrow> msg_talks J1 (f x) a' b y J2 \<Longrightarrow> msg_talks J (bind_op m f) (a @ a') b y J2"
  using msg_talks_bind [of J m a "[]" x J1 f a' b y J2] by simp

lemma talks_bind_answer:
  "talks J m a b x J1 \<Longrightarrow> talks J1 (f x) [] b' y J2 \<Longrightarrow> talks J (bind_op m f) a (b @ b') y J2"
  using talks_bind [of J m a b x J1 f "[]" b' y J2] by simp

lemma puts_on_io_bind:
  assumes "talks J m [] [] x J1" "puts J1 (f x) bs J2"
  shows "puts J (bind_op (on_io m) f) bs J2"
  unfolding puts_def
proof (intro allI impI)
  fix msg s
  assume pre: "msg_ok msg \<and> calm s \<and> J s"
  with assms(1) obtain s1 where 1: "m s = (Ok x, s1)" "calm s1" "J1 s1" "rx_queue s1 = rx_queue s"
    "tx_wire s1 = tx_wire s"
    unfolding talks_def by (metis append_Nil append_Nil2)
  with assms(2) [unfolded puts_def, rule_format, of msg s1] pre
  show "\<exists>msg' s'. bind_op (on_io m) f (msg, s) = (Ok (), (msg', s')) \<and> msg_ok msg' \<and> calm s' \<and> J2 s' \<and>
      tx_wire s' @ buffered msg' = tx_wire s @ buffered msg @ bs \<and> rx_queue s' = rx_queue s"
    by (simp add: bind_op_def on_io_def)
qed

lemma puts_word: "puts (conn_inv T M F) (rpc_message_send_uint32 w) (htonl w) (conn_inv T M F)"
  by (intro puts_sends sends_uint32 conn_inv_stable)

subsection \<open>References to objects on the wire\<close>

text \<open>The proxy at \<open>p\<close> stands for the object with stub \<open>i\<close> in the other process.\<close>

definition proxy_at :: "('s, 'h, 'y) np_env_scheme \<Rightarrow> ('h, 'z) np_process_scheme \<Rightarrow> cptr \<Rightarrow> uint32 \<Rightarrow> NPObject \<Rightarrow> bool" where
  "proxy_at E F p i obj \<longleftrightarrow> p \<noteq> 0 \<and> i \<noteq> 0 \<and> objects F p = Some obj \<and> obj_class obj = npclass_bridge E \<and>
     proxy_id obj = i \<and> proxy_valid obj"

text \<open>Stub \<open>i\<close> holds the object at \<open>p\<close>.\<close>

definition stub_at ::
  "('h \<Rightarrow> cptr \<Rightarrow> cptr option) \<Rightarrow> ('h, 'z) np_process_scheme \<Rightarrow> uint32 \<Rightarrow> cptr \<Rightarrow> NPObject \<Rightarrow> bool"
where
  "stub_at tbl F i p obj \<longleftrightarrow> (\<exists>h a. g_stubs F = Some h \<and> tbl h (stub_key i) = Some a \<and> a \<noteq> 0 \<and>
     stubs F a = Some \<lparr>stub_npobject = p, stub_id = i\<rparr> \<and> p \<noteq> 0 \<and> objects F p = Some obj)"

text \<open>No instance has the identifier \<open>0\<close>, which stands for \<open>NULL\<close>.\<close>

definition no_id_0 :: "'h ghash \<Rightarrow> ('h, 'z) np_process_scheme \<Rightarrow> bool" where
  "no_id_0 G F \<longleftrightarrow> id_lookup G 0 (ids F) = 0"

lemma puts_no_instance:
  "puts (conn_inv T M F) (do_send_NPW_PluginInstance 0) (htonl 0) (conn_inv T M F)"
  unfolding do_send_NPW_PluginInstance_def
  by (rule puts_on_io_bind [OF talks_pure [of T M F _ 0]]) (simp_all add: ret_apply puts_word)

lemma puts_proxy:
  assumes "proxy_at E F p i obj"
  shows "puts (conn_inv T M F) (do_send_NPObject E p) (htonl 2 @ htonl 0 @ htonl i) (conn_inv T M F)"
proof -
  have "talks (conn_inv T M F) (export_NPObject E p False) [] [] (NPOBJECT_RECEIVER_OWNED, 0, i, False)
      (conn_inv T M F)"
    using assms by (intro talks_pure)
      (auto simp: proxy_at_def export_NPObject_def npobject_get_proxy_id_def npobject_get_proxy_def np_inv_heap
        op_simps)
  moreover have "puts (conn_inv T M F) (run_all [rpc_message_send_uint32 2, do_send_NPW_PluginInstance 0,
      rpc_message_send_uint32 i, ret ()]) (htonl 2 @ htonl 0 @ htonl i @ [] @ []) (conn_inv T M F)"
    unfolding run_all.simps
    by (rule puts_then [OF puts_word puts_then [OF puts_no_instance puts_then [OF puts_word
          puts_then [OF puts_ret puts_ret]]]])
  ultimately show ?thesis
    unfolding do_send_NPObject_def do_send_NPObject_helper_def
    by (intro puts_on_io_bind [where x = "(NPOBJECT_RECEIVER_OWNED, 0, i, False)"]) simp_all
qed

lemma recv_no_instance:
  assumes "no_id_0 (hash E) F"
  shows "msg_talks (conn_inv T M F) (do_recv_NPW_PluginInstance E) (htonl 0) [] 0 (conn_inv T M F)"
  unfolding do_recv_NPW_PluginInstance_def using assms
  by (intro msg_talks_bind_last [OF msg_talks_reads [OF reads_uint32 [OF conn_inv_stable]]]
      msg_talks_bind_quiet [where x = 0, OF msg_talks_on_io [OF talks_pure]]
      msg_talks_then_quiet [OF msg_talks_on_io [OF talks_pure]] msg_talks_ret)
    (auto simp: op_simps no_id_0_def np_inv_heap)

text \<open>The owner of an object finds it under its stub and takes a reference for the receiver.\<close>

lemma recv_own_object:
  assumes H: "hash_table (hash E) tbl" and O: "object_host E can_create"
    and F: "stub_at tbl F i p obj" "no_id_0 (hash E) F"
  shows "msg_talks (conn_inv T M F) (do_recv_NPObject E) (htonl 2 @ htonl 0 @ htonl i) [] p
     (conn_inv T M (put_object p (Some (obj\<lparr>obj_refcount := obj_refcount obj + 1\<rparr>)) F))"
proof -
  have import: "talks (conn_inv T M F) (import_NPObject E 2 0 i 0) [] [] p
      (conn_inv T M (put_object p (Some (obj\<lparr>obj_refcount := obj_refcount obj + 1\<rparr>)) F))"
  proof (rule talks_heap)
    fix s
    assume s: "conn_inv T M F s"
    obtain h a where h: "g_stubs s = Some h" "tbl h (stub_key i) = Some a" "a \<noteq> 0"
      "stubs s a = Some \<lparr>stub_npobject = p, stub_id = i\<rparr>" "p \<noteq> 0" "objects s p = Some obj"
      using F(1) np_inv_heap [OF s] by (auto simp: stub_at_def)
    then have "npobject_lookup_local E i s = (Ok p, s)"
      by (simp add: npobject_lookup_local_def npobject_lookup_stub_def tab_lookup_def
          hash_table.lookup_law [OF H] op_simps)
    then show "import_NPObject E 2 0 i 0 s =
        (Ok p, put_object p (Some (obj\<lparr>obj_refcount := obj_refcount obj + 1\<rparr>)) s)"
      using h by (simp add: import_NPObject_def object_host.retain_law [OF O] op_simps)
  qed simp
  have "msg_talks (conn_inv T M F) (do_recv_NPObject E) (htonl 2 @ htonl 0 @ htonl i @ []) [] p
     (conn_inv T M (put_object p (Some (obj\<lparr>obj_refcount := obj_refcount obj + 1\<rparr>)) F))"
    unfolding do_recv_NPObject_def do_recv_NPObject_helper_def
    by (rule msg_talks_bind_read [OF reads_uint32 [OF conn_inv_stable]],
        rule msg_talks_bind_in [OF recv_no_instance [OF F(2)]],
        rule msg_talks_bind_read [OF reads_uint32 [OF conn_inv_stable]])
      (simp add: msg_talks_on_io [OF import])
  then show ?thesis by simp
qed


subsection \<open>Calls\<close>

lemma np_types_exist: "1 \<le> t \<Longrightarrow> t \<le> 20 \<Longrightarrow> \<exists>d. np_types t = Some d"
  using dom_np_types by (auto simp: set_eq_iff dom_def)

lemma np_send_ptr: "1 \<le> t \<Longrightarrow> int (send_ptr t) div 2 = t" "1 \<le> t \<Longrightarrow> int (recv_ptr t) div 2 = t"
  by (rule ptr_div, simp)+

text \<open>An argument of an NPAPI type is sent and received by the routines of that type.\<close>

lemma puts_np:
  assumes "1 \<le> t" "t \<le> 20" "puts (np_inv M F) (np_send E visualid t u) bs J"
  shows "puts (np_inv M F) (send_arg (fptrs.truncate (np_rpc_env E visualid ptr32 cm ce)) (User t u)) bs J"
proof -
  obtain d where d: "np_types t = Some d" using np_types_exist [OF assms(1,2)] by auto
  from np_types_Some [OF d] assms show ?thesis
    by (intro np_peer.puts_user [OF d]) (simp add: truncate_np_rpc_env np_fptrs_def np_send_ptr)
qed

lemma recv_np:
  assumes "1 \<le> t" "t \<le> 20" "msg_talks (np_inv M F) (np_recv E ptr32 t) bs [] u J"
  shows "msg_talks (np_inv M F) (recv_arg (fptrs.truncate (np_rpc_env E visualid ptr32 cm ce)) t) bs [] (User t u) J"
proof -
  obtain d where d: "np_types t = Some d" using np_types_exist [OF assms(1,2)] by auto
  from np_types_Some [OF d] assms show ?thesis
    by (intro np_peer.recv_user_arg [OF d])
      (simp_all add: truncate_np_rpc_env np_fptrs_def np_send_ptr builtin_type_def)
qed

text \<open>A call with its reply, when no other call comes in between.\<close>

definition enc_request :: "int \<Rightarrow> byte list \<Rightarrow> byte list" where
  "enc_request mid bs = enc_marker RPC_MESSAGE_START @ enc_marker mid @ enc_marker RPC_MESSAGE_END @ bs"

definition enc_answer :: "byte list \<Rightarrow> byte list" where
  "enc_answer bs = enc_marker RPC_MESSAGE_REPLY @ bs @ enc_marker RPC_MESSAGE_END"

definition may_call :: "'z rpc_connection_scheme \<Rightarrow> bool" where
  "may_call F \<longleftrightarrow> status F = RPC_STATUS_ACTIVE \<and> dispatch_depth F = handle_depth F"

lemma talks_attempt: "talks J m a b v J' \<Longrightarrow> talks J (attempt m) a b (Some v) J'"
  unfolding talks_def by (fastforce simp: attempt_def)

lemma talks_return_code: "talks J m a b v J' \<Longrightarrow> talks J (return_code m) a b RPC_ERROR_NO_ERROR J'"
  unfolding talks_def by (fastforce simp: return_code_def)

lemma talks_remote_call:
  assumes R: "R = np_rpc_env E visualid ptr32 cm ce"
    and F: "may_call F" "status F1 \<noteq> RPC_STATUS_CLOSED"
    and args: "puts (np_inv M (F\<lparr>invoke_depth := invoke_depth F + 1\<rparr>))
      (if \<not> no_args args then rpc_message_send_args (fptrs.truncate R) args else ret ()) bs (np_inv M F1)"
    and reply: "msg_talks (np_inv M F1)
      (if \<not> no_params ps then rpc_message_recv_args (fptrs.truncate R) ps else ret []) rbs [] as (np_inv M F2)"
  shows "talks (np_inv M F) (remote_call R mid args ps) (enc_answer rbs) (enc_request mid bs) (Some as)
     (np_inv M (F2\<lparr>invoke_depth := invoke_depth F2 - 1\<rparr>))"
proof -
  have F': "status F \<noteq> RPC_STATUS_CLOSED" using F(1) by (simp add: may_call_def)
  have "msg_talks (np_inv M F1) (rpc_dispatch_until R RPC_MESSAGE_REPLY)
      ([] @ enc_marker RPC_MESSAGE_REPLY) [] () (np_inv M F1)"
    using np_peer.dispatch_until_calls [of E visualid ptr32 cm ce M F1 "[]" RPC_MESSAGE_REPLY]
    by (simp add: served_def enc_calls_def int32_range_def R)
  note wait = np_peer.talks_wait_after [OF reply [unfolded R] F(2) this [unfolded R]]
  have "talks (np_inv M F) (then_op (on_live (rpc_method_invoke R mid args)) (on_live (rpc_method_wait_for_reply R ps)))
      (enc_answer rbs) (enc_request mid bs) as (np_inv M (F2\<lparr>invoke_depth := invoke_depth F2 - 1\<rparr>))"
    using talks_bind [OF np_peer.talks_invoke [OF args [unfolded R] F', of mid],
        of "\<lambda>_. on_live (rpc_method_wait_for_reply R ps)", OF wait [folded R]]
    by (simp add: then_op_def enc_answer_def enc_request_def R)
  from talks_attempt [OF this]
  have call: "talks (np_inv M F) (attempt (then_op (on_live (rpc_method_invoke R mid args)) (on_live (rpc_method_wait_for_reply R ps))))
      (enc_answer rbs) (enc_request mid bs) (Some as) (np_inv M (F2\<lparr>invoke_depth := invoke_depth F2 - 1\<rparr>))" .
  show ?thesis
    unfolding talks_def
  proof (intro allI impI)
    fix s rest
    assume s: "calm s \<and> np_inv M F s \<and> rx_queue s = enc_answer rbs @ rest"
    then have "rpc_method_invoke_possible (g_rpc_connection s)"
      using F(1) conn_inv_fields [of np_types M F s]
      by (auto simp: rpc_method_invoke_possible_def g_rpc_connection_def may_call_def rpc_status_def)
    then have "remote_call R mid args ps s =
        attempt (then_op (on_live (rpc_method_invoke R mid args)) (on_live (rpc_method_wait_for_reply R ps))) s"
      by (simp add: remote_call_def op_simps)
    with call s show "\<exists>s'. remote_call R mid args ps s = (Ok (Some as), s') \<and> calm s' \<and>
        np_inv M (F2\<lparr>invoke_depth := invoke_depth F2 - 1\<rparr>) s' \<and> rx_queue s' = rest \<and>
        tx_wire s' = tx_wire s @ enc_request mid bs"
      unfolding talks_def by metis
  qed
qed


subsection \<open>Identifiers and results\<close>

text \<open>The browser has the identifier \<open>name\<close> in its table, and its first entry there is \<open>i\<close>.\<close>

definition ident_at :: "'h ghash \<Rightarrow> ('h, 'z) np_process_scheme \<Rightarrow> cptr \<Rightarrow> uint32 \<Rightarrow> bool" where
  "ident_at G F name i \<longleftrightarrow> name \<noteq> 0 \<and> 0 < c_int i \<and> id_lookup_value G name (ids F) = c_int i"

lemma puts_known_identifier:
  assumes "\<not> is_plugin E" "ident_at (hash E) F name i"
  shows "puts (conn_inv T M F) (do_send_NPIdentifier E name) (htonl i) (conn_inv T M F)"
proof -
  have "i \<noteq> 0" using assms(2) by (auto simp: ident_at_def)
  then have "talks (conn_inv T M F) (export_NPIdentifier E name) [] [] i (conn_inv T M F)"
    using assms by (intro talks_pure) (simp add: ident_at_def export_NPIdentifier_def np_inv_heap op_simps)
  then show ?thesis
    unfolding do_send_NPIdentifier_def by (rule puts_on_io_bind [OF _ puts_word])
qed

lemma recv_plugin_identifier:
  assumes "is_plugin E" "i \<noteq> 0"
  shows "msg_talks (conn_inv T M F) (do_recv_NPIdentifier E) (htonl i) [] (id_key i) (conn_inv T M F)"
proof -
  have "id_key i \<noteq> 0" using assms(2) by (metis id_key_down unsigned_0)
  then show ?thesis
    unfolding do_recv_NPIdentifier_def using assms
    by (intro msg_talks_bind_last [OF msg_talks_reads [OF reads_uint32 [OF conn_inv_stable]]])
      (simp add: id_key_def [symmetric] then_op_def assert_op_def msg_talks_ret)
qed

text \<open>Variants that are not objects are received in the same way whether the reference is passed or not.\<close>

lemma recv_variant_pass_ref:
  assumes "calm s" "rx_queue s = htonl t @ rest" "t \<noteq> 6"
  shows "do_recv_NPVariant_pass_ref E (msg, s) = do_recv_NPVariant E (msg, s)"
proof -
  have "io_stable (\<lambda>_. True)" by (simp add: io_stable_def)
  from reads_uint32 [OF this, of t] assms(1,2)
  obtain s1 where "rpc_message_recv_uint32 (msg, s) = (Ok t, (msg, s1))"
    unfolding reads_def by metis
  with assms(3) show ?thesis
    by (simp add: do_recv_NPVariant_pass_ref_def do_recv_NPVariant_def do_recv_NPVariant_helper_def bind_op_def)
qed

lemma enc_variant_prefix: "wf_variant v \<Longrightarrow> \<exists>t r. enc_variant v = htonl t @ r \<and> t \<noteq> 6"
proof (cases v)
  case (V_other t)
  assume "wf_variant v"
  with V_other show ?thesis by (intro exI [of _ t] exI [of _ "[]"]) auto
qed (fastforce+)

lemma roomy_conn_inv: "roomy (conn_inv T M F)"
  by (rule roomy.intro) (simp_all add: conn_inv_stable conn_inv_mem)

lemma recv_result:
  assumes "wf_variant v"
  shows "msg_talks (conn_inv T M F) (do_recv_NPVariant_pass_ref E) (enc_variant v) [] (view_variant v) (conn_inv T M F)"
  unfolding msg_talks_def
proof (intro allI impI)
  fix msg and s rest
  assume s: "calm s \<and> conn_inv T M F s \<and> rx_queue s = enc_variant v @ rest"
  obtain t r where t: "enc_variant v = htonl t @ r" "t \<noteq> 6"
    using enc_variant_prefix [OF assms] by blast
  have "do_recv_NPVariant_pass_ref E (msg, s) = do_recv_NPVariant E (msg, s)"
    by (rule recv_variant_pass_ref [of s t "r @ rest"]) (use s t in simp_all)
  with s msg_talks_reads [OF marshaler.recv_law [OF marshaler_NPVariant [OF roomy_conn_inv, where E = E] assms]]
  show "\<exists>s'. do_recv_NPVariant_pass_ref E (msg, s) = (Ok (view_variant v), (msg, s')) \<and> calm s' \<and>
      conn_inv T M F s' \<and> rx_queue s' = rest \<and> tx_wire s' = tx_wire s @ []"
    unfolding msg_talks_def by metis
qed

text \<open>Releasing such a variant frees its memory and does nothing else.\<close>

definition releases_quietly :: "('s, 'h, 'y) npv_env_scheme \<Rightarrow> bool" where
  "releases_quietly E \<longleftrightarrow> (\<forall>v s. \<not> is_object v \<longrightarrow> NPN_ReleaseVariantValue E v s = (Ok (), s))"

lemma wf_variant_no_object: "wf_variant v \<Longrightarrow> \<not> is_object v"
  by (cases v) (simp_all add: is_object_def)

lemma puts_result:
  assumes "wf_variant v" "releases_quietly E"
  shows "puts (conn_inv T M F) (do_send_NPVariant_pass_ref E (Some v)) (enc_variant v) (conn_inv T M F)"
proof -
  note v = wf_variant_no_object [OF assms(1)]
  have "do_send_NPVariant_pass_ref E (Some v) =
      then_op (do_send_NPVariant E (Some v)) (bind_op (on_io (NPN_ReleaseVariantValue E v)) (\<lambda>_. ret ()))"
    using v by (cases v) (auto simp: do_send_NPVariant_pass_ref_def do_send_NPVariant_def
        do_send_NPVariant_helper_def is_object_def then_assoc then_op_def [of "on_io _"])
  moreover have "talks (conn_inv T M F) (NPN_ReleaseVariantValue E v) [] [] () (conn_inv T M F)"
    using assms(2) v by (intro talks_pure) (simp add: releases_quietly_def)
  then have "puts (conn_inv T M F) (bind_op (on_io (NPN_ReleaseVariantValue E v)) (\<lambda>_. ret ())) [] (conn_inv T M F)"
    by (rule puts_on_io_bind) (rule puts_ret)
  from puts_then [OF puts_sends [OF marshaler.send_law [OF marshaler_NPVariant [OF roomy_conn_inv, where E = E] assms(1)]] this]
  have "puts (conn_inv T M F) (then_op (do_send_NPVariant E (Some v))
      (bind_op (on_io (NPN_ReleaseVariantValue E v)) (\<lambda>_. ret ()))) (enc_variant v) (conn_inv T M F)" by simp
  ultimately show ?thesis by simp
qed


subsection \<open>A call on a proxy\<close>

text \<open>What the receiver gets of an array of variants.\<close>

definition seen_args :: "uint32 \<Rightarrow> NPVariant list option \<Rightarrow> NPVariant list option" where
  "seen_args n args = (if 0 < n then map_option (map view_variant) args else None)"

abbreviation (input) variants :: "uint32 \<Rightarrow> NPVariant list option \<Rightarrow> np_value rpc_arg" where
  "variants n args \<equiv> np_array RPC_TYPE_NP_VARIANT NV_variant n args"

text \<open>Arguments a call can have: as many variants as announced, none of them an object.\<close>

definition good_args :: "uint32 \<Rightarrow> NPVariant list option \<Rightarrow> bool" where
  "good_args n args \<longleftrightarrow> (case args of
       None \<Rightarrow> n \<le> 1
     | Some vs \<Rightarrow> length vs = unat n \<and> unat n * 24 < 2 ^ 32 \<and> list_all wf_variant vs)"

lemma np_types_variant: "np_types RPC_TYPE_NP_VARIANT = Some (np_desc RPC_TYPE_NP_VARIANT 24
    (send_ptr RPC_TYPE_NP_VARIANT) (recv_ptr RPC_TYPE_NP_VARIANT))"
  by (simp add: np_types_def message_descs_def np_desc_def)

lemma good_args_wf: "good_args n args \<Longrightarrow> wf_arg np_types (np_wf ptr32) (variants n args)"
  by (auto simp: good_args_def np_array_def wf_array_def user_type_ok_def np_types_variant np_desc_def
      builtin_type_def int32_range_def is_null_array_def list_all_iff split: option.splits)

lemma good_args_print: "good_args n args \<Longrightarrow> print_npvariant_args args n = ret ()"
  "good_args n args \<Longrightarrow> print_npvariant_args (seen_args n args) n = ret ()"
  by (auto simp: good_args_def print_npvariant_args_def seen_args_def not_le [symmetric] split: option.splits)

lemma as_seen_args:
  "as_variants (view_arg (np_view visualid) (variants n args)) = seen_args n args"
  "as_count (view_arg (np_view visualid) (variants n args)) = n"
  by (auto simp: np_array_def view_array_def seen_args_def as_variants_def comp_def is_null_array_def
      split: option.splits)

lemma seen_args_quiet:
  "good_args n args \<Longrightarrow> seen_args n args = Some vs \<Longrightarrow> list_all (\<lambda>v. \<not> is_object v) vs"
proof -
  have "is_object (view_variant v) = is_object v" for v by (cases v) (simp_all add: is_object_def)
  then show "good_args n args \<Longrightarrow> seen_args n args = Some vs \<Longrightarrow> list_all (\<lambda>v. \<not> is_object v) vs"
    by (auto simp: good_args_def seen_args_def list_all_iff wf_variant_no_object split: if_splits option.splits)
qed

lemma release_variants_quiet:
  assumes "releases_quietly E" "case args of None \<Rightarrow> True | Some vs \<Rightarrow> list_all (\<lambda>v. \<not> is_object v) vs"
  shows "release_variants E args s = (Ok (), s)"
proof -
  have "list_all (\<lambda>v. \<not> is_object v) vs \<Longrightarrow> run_all (map (NPN_ReleaseVariantValue E) vs) s = (Ok (), s)" for vs
    using assms(1) by (induction vs) (simp_all add: releases_quietly_def op_simps)
  with assms(2) show ?thesis
    by (simp add: release_variants_def op_simps split: option.splits)
qed

lemma types_in_range:
  "1 \<le> t \<Longrightarrow> t \<le> 20 \<Longrightarrow> int32_range t" "int32_range RPC_TYPE_UINT32" "int32_range RPC_TYPE_ARRAY"
  by (simp_all add: int32_range_def)

lemma wf_array_arg:
  assumes "wf_arg np_types (np_wf ptr32) a"
  shows "puts (np_inv M F) (send_arg (fptrs.truncate (np_rpc_env E visualid ptr32 cm ce)) a)
      (enc_arg (np_enc visualid) a) (np_inv M F)"
    and "msg_talks (np_inv M F) (recv_arg (fptrs.truncate (np_rpc_env E visualid ptr32 cm ce)) (arg_type a))
      (enc_arg (np_enc visualid) a) [] (view_arg (np_view visualid) a) (np_inv M F)"
  by (rule puts_sends [OF user_marshalers.sends_arg [OF np_peer.marshalers assms]])
    (rule msg_talks_reads [OF user_marshalers.reads_arg [OF np_peer.marshalers assms]])


text \<open>Building argument lists: an argument of an NPAPI type, or one whose marshaling changes nothing.\<close>

abbreviation (input) np_ptrs ::
  "(('h, 'z) np_process_scheme, 'h) npv_env \<Rightarrow> (cptr \<Rightarrow> ulong) \<Rightarrow> bool \<Rightarrow>
     (code_ptr \<Rightarrow> (('h, 'z) np_process_scheme, int) op) \<Rightarrow>
     (code_ptr \<Rightarrow> ptr \<Rightarrow> (('h, 'z) np_process_scheme, unit) op) \<Rightarrow> (('h, 'z) np_process_scheme, np_value) fptrs"
where
  "np_ptrs E visualid ptr32 cm ce \<equiv> fptrs.truncate (np_rpc_env E visualid ptr32 cm ce)"

lemma args_end: "arg_chain E (np_inv M F) [] [] (np_inv M F)"
  by (rule arg_Nil [OF conn_inv_stable])

lemma args_user:
  assumes "puts (np_inv M F) (np_send E visualid t u) b (np_inv M F1)" "1 \<le> t" "t \<le> 20"
    and "arg_chain (np_ptrs E visualid ptr32 cm ce) (np_inv M F1) as bs J"
  shows "arg_chain (np_ptrs E visualid ptr32 cm ce) (np_inv M F) (User t u # as) (enc_marker t @ b @ bs) J"
  using arg_Cons [OF conn_inv_stable _ _ puts_np [OF assms(2,3,1)] assms(4)] assms(2,3)
  by (simp add: int32_range_def)

lemma args_plain:
  assumes "wf_arg np_types (np_wf ptr32) a" "arg_chain (np_ptrs E visualid ptr32 cm ce) (np_inv M F) as bs J"
  shows "arg_chain (np_ptrs E visualid ptr32 cm ce) (np_inv M F) (a # as)
    (enc_marker (arg_type a) @ enc_arg (np_enc visualid) a @ bs) J"
  using arg_Cons [OF conn_inv_stable _ _ wf_array_arg(1) [OF assms(1)] assms(2)]
    user_marshalers.wf_arg_type [OF np_peer.marshalers assms(1)] by blast

lemma params_end: "param_chain E (np_inv M F) [] [] [] (np_inv M F)"
  by (rule param_Nil [OF conn_inv_stable])

lemma params_user:
  assumes "msg_talks (np_inv M F) (np_recv E ptr32 t) b [] u (np_inv M F1)" "1 \<le> t" "t \<le> 20"
    and "param_chain (np_ptrs E visualid ptr32 cm ce) (np_inv M F1) ps bs as J"
  shows "param_chain (np_ptrs E visualid ptr32 cm ce) (np_inv M F) (P_type t # ps) (enc_marker t @ b @ bs)
    (User t u # as) J"
  using param_Cons [OF conn_inv_stable _ _ _ assms(4), of "P_type t" np_types M F b "User t u"]
    recv_np [OF assms(2,3,1)] assms(2,3) by (simp add: int32_range_def)

lemma params_plain:
  assumes "wf_arg np_types (np_wf ptr32) a" "expected_type p = arg_type a"
    "param_chain (np_ptrs E visualid ptr32 cm ce) (np_inv M F) ps bs as J"
  shows "param_chain (np_ptrs E visualid ptr32 cm ce) (np_inv M F) (p # ps)
    (enc_marker (arg_type a) @ enc_arg (np_enc visualid) a @ bs) (view_arg (np_view visualid) a # as) J"
  using param_Cons [OF conn_inv_stable _ _ _ assms(3), of p np_types M F] wf_array_arg(2) [OF assms(1)]
    user_marshalers.wf_arg_type [OF np_peer.marshalers assms(1)] unfolding assms(2) by blast

text \<open>The request and the answer of \<open>NPClass::Invoke\<close>.\<close>

definition invoke_request :: "(cptr \<Rightarrow> ulong) \<Rightarrow> uint32 \<Rightarrow> uint32 \<Rightarrow> uint32 \<Rightarrow> NPVariant list option \<Rightarrow> byte list" where
  "invoke_request visualid i k n args = enc_list
     (enc_marker RPC_TYPE_NP_OBJECT @ (htonl 2 @ htonl 0 @ htonl i) @
      enc_marker RPC_TYPE_NP_IDENTIFIER @ htonl k @
      enc_marker RPC_TYPE_ARRAY @ enc_arg (np_enc visualid) (variants n args) @ [])"

definition invoke_answer :: "bool \<Rightarrow> NPVariant \<Rightarrow> byte list" where
  "invoke_answer b v = enc_list
     (enc_marker RPC_TYPE_UINT32 @ htonl (truth b) @ enc_marker RPC_TYPE_NP_VARIANT_PASS_REF @ enc_variant v @ [])"

lemma puts_invoke_request:
  assumes "proxy_at E F p i obj" "ident_at (hash E) F name k" "\<not> is_plugin E" and args: "good_args n args"
  shows "puts (np_inv M F)
    (rpc_message_send_args (np_ptrs E visualid ptr32 cm ce) [np_object p, np_identifier name, variants n args])
    (invoke_request visualid i k n args) (np_inv M F)"
proof -
  have F': "proxy_at (np_env.truncate E) F p i obj" "ident_at (hash (np_env.truncate E)) F name k"
    "\<not> is_plugin (np_env.truncate E)"
    using assms(1-3) by (simp_all add: proxy_at_def ident_at_def np_env.defs)
  have obj: "puts (np_inv M F) (np_send E visualid RPC_TYPE_NP_OBJECT (NV_object p))
      (htonl 2 @ htonl 0 @ htonl i) (np_inv M F)"
    using puts_proxy [OF F'(1)] by simp
  have ident: "puts (np_inv M F) (np_send E visualid RPC_TYPE_NP_IDENTIFIER (NV_identifier name)) (htonl k) (np_inv M F)"
    using puts_known_identifier [OF F'(3,2)] by simp
  have "arg_chain (np_ptrs E visualid ptr32 cm ce) (np_inv M F) [np_object p, np_identifier name, variants n args]
     (enc_marker RPC_TYPE_NP_OBJECT @ (htonl 2 @ htonl 0 @ htonl i) @
      enc_marker RPC_TYPE_NP_IDENTIFIER @ htonl k @
      enc_marker (arg_type (variants n args)) @ enc_arg (np_enc visualid) (variants n args) @ []) (np_inv M F)"
    by (rule args_user [OF obj _ _ args_user [OF ident _ _ args_plain [OF good_args_wf [OF args] args_end]]]) simp_all
  from puts_args [OF this] show ?thesis
    by (simp add: invoke_request_def np_array_def)
qed

lemma recv_invoke_answer:
  assumes "wf_variant v"
  shows "msg_talks (np_inv M F)
    (rpc_message_recv_args (np_ptrs E visualid ptr32 cm ce)
      [P_type RPC_TYPE_UINT32, P_type RPC_TYPE_NP_VARIANT_PASS_REF])
    (invoke_answer b v) [] [Uint32 (truth b), np_variant_pass_ref (view_variant v)] (np_inv M F)"
proof -
  have var: "msg_talks (np_inv M F) (np_recv E ptr32 RPC_TYPE_NP_VARIANT_PASS_REF) (enc_variant v) []
      (NV_variant (view_variant v)) (np_inv M F)"
    using msg_talks_bind_last [OF recv_result [OF assms] msg_talks_ret, of np_types M F E NV_variant]
    by (simp add: np_recv_def then_make_def)
  have "param_chain (np_ptrs E visualid ptr32 cm ce) (np_inv M F)
      [P_type RPC_TYPE_UINT32, P_type RPC_TYPE_NP_VARIANT_PASS_REF]
      (enc_marker (arg_type (Uint32 (truth b) :: np_value rpc_arg)) @ enc_arg (np_enc visualid) (Uint32 (truth b)) @
       enc_marker RPC_TYPE_NP_VARIANT_PASS_REF @ enc_variant v @ [])
      [view_arg (np_view visualid) (Uint32 (truth b)), np_variant_pass_ref (view_variant v)] (np_inv M F)"
    by (rule params_plain [OF _ _ params_user [OF var _ _ params_end]]) simp_all
  from msg_talks_args [OF this] show ?thesis by (simp add: invoke_answer_def)
qed

lemma talks_on_valid_proxy:
  assumes "proxy_at E F p i obj" "talks (np_inv M F) m a b v J"
  shows "talks (np_inv M F) (on_valid_proxy E True p otherwise m) a b v J"
proof -
  have "talks (np_inv M F) (is_valid_npobject_proxy E p) [] [] True (np_inv M F)"
    using assms(1) by (intro talks_pure) (auto simp: is_valid_npobject_proxy_def npobject_get_proxy_def proxy_at_def
        np_inv_heap op_simps)
  from talks_bind [OF this, of "\<lambda>valid. if \<not> valid then ret otherwise else if \<not> True then ret otherwise else m"] assms(2)
  show ?thesis unfolding on_valid_proxy_def by simp
qed

text \<open>The caller's half of the call.\<close>

lemma talks_g_Invoke:
  assumes R: "R = np_rpc_env E visualid ptr32 cm ce"
    and F: "may_call F" "proxy_at E F p i obj" "ident_at (hash E) F name k" and browser: "\<not> is_plugin E"
    and args: "good_args n args" and v: "wf_variant v"
  shows "talks (np_inv M F) (g_NPClass_Invoke (np_env.truncate E) R True p name args n (Some v0))
    (enc_answer (invoke_answer b v)) (enc_request RPC_METHOD_NPCLASS_INVOKE (invoke_request visualid i k n args))
    (b, Some (view_variant v)) (np_inv M F)"
proof -
  let ?F = "F\<lparr>invoke_depth := invoke_depth F + 1\<rparr>"
  let ?args = "[np_object p, np_identifier name, variants n args]"
  let ?ps = "[P_type RPC_TYPE_UINT32, P_type RPC_TYPE_NP_VARIANT_PASS_REF]"
  have F': "proxy_at E ?F p i obj" "ident_at (hash E) ?F name k" "proxy_at (np_env.truncate E) F p i obj"
    using F(2,3) by (simp_all add: proxy_at_def ident_at_def np_env.defs)
  have request: "puts (np_inv M ?F)
      (if \<not> no_args ?args then rpc_message_send_args (fptrs.truncate R) ?args else ret ())
      (invoke_request visualid i k n args) (np_inv M ?F)"
    using puts_invoke_request [OF F'(1,2) browser args] by (simp add: R no_args_def)
  have answer: "msg_talks (np_inv M ?F)
      (if \<not> no_params ?ps then rpc_message_recv_args (fptrs.truncate R) ?ps else ret []) (invoke_answer b v) []
      [Uint32 (truth b), np_variant_pass_ref (view_variant v)] (np_inv M ?F)"
    using recv_invoke_answer [OF v] by (simp add: R no_params_def)
  have "talks (np_inv M F) (remote_call R RPC_METHOD_NPCLASS_INVOKE ?args ?ps) (enc_answer (invoke_answer b v))
      (enc_request RPC_METHOD_NPCLASS_INVOKE (invoke_request visualid i k n args))
      (Some [Uint32 (truth b), np_variant_pass_ref (view_variant v)]) (np_inv M F)"
    using talks_remote_call [OF R F(1) _ request answer, of RPC_METHOD_NPCLASS_INVOKE] F(1)
    by (simp add: may_call_def)
  then have "talks (np_inv M F) (npclass_invoke_Invoke R p name args n) (enc_answer (invoke_answer b v))
      (enc_request RPC_METHOD_NPCLASS_INVOKE (invoke_request visualid i k n args)) (b, view_variant v) (np_inv M F)"
    unfolding npclass_invoke_Invoke_def
    by (rule talks_bind_last) (cases b; simp add: answer_variant_def truth_def talks_ret)
  then have "talks (np_inv M F)
      (then_op (print_npvariant_args args n) (npclass_invoke_Invoke R p name args n)) (enc_answer (invoke_answer b v))
      (enc_request RPC_METHOD_NPCLASS_INVOKE (invoke_request visualid i k n args)) (b, view_variant v) (np_inv M F)"
    by (simp add: good_args_print [OF args])
  from talks_bind_last [OF talks_on_valid_proxy [OF F'(3) this], of "\<lambda>(r, v). ret (r, Some v)"] show ?thesis
    unfolding g_NPClass_Invoke_def by (simp add: talks_ret)
qed

text \<open>The owner's half: the handler, with whatever the member function does between \<open>F1\<close> and \<open>F2\<close>.\<close>

abbreviation (input) with_ref :: "cptr \<Rightarrow> NPObject \<Rightarrow> ('h, 'z) np_process_scheme \<Rightarrow> ('h, 'z) np_process_scheme" where
  "with_ref q obj F \<equiv> put_object q (Some (obj\<lparr>obj_refcount := obj_refcount obj + 1\<rparr>)) F"

lemma recv_invoke_request:
  assumes H: "hash_table (hash E) tbl" and O: "object_host (np_env.truncate E) can_create"
    and F: "stub_at tbl F i q obj" "no_id_0 (hash E) F"
    and plugin: "is_plugin E" and k: "k \<noteq> 0" and args: "good_args n args"
  shows "msg_talks (np_inv M F)
    (rpc_message_recv_args (np_ptrs E visualid ptr32 cm ce)
      [P_type RPC_TYPE_NP_OBJECT, P_type RPC_TYPE_NP_IDENTIFIER, P_array RPC_TYPE_NP_VARIANT])
    (invoke_request visualid i k n args) []
    [np_object q, np_identifier (id_key k), view_arg (np_view visualid) (variants n args)]
    (np_inv M (with_ref q obj F))"
proof -
  have E': "hash_table (hash (np_env.truncate E)) tbl" "no_id_0 (hash (np_env.truncate E)) F"
    "is_plugin (np_env.truncate E)"
    using H F(2) plugin by (simp_all add: np_env.defs)
  have obj: "msg_talks (np_inv M F) (np_recv E ptr32 RPC_TYPE_NP_OBJECT) (htonl 2 @ htonl 0 @ htonl i) []
      (NV_object q) (np_inv M (with_ref q obj F))"
    using msg_talks_bind_last [OF recv_own_object [OF E'(1) O F(1) E'(2)] msg_talks_ret, of np_types M NV_object]
    by (simp add: np_recv_def then_make_def)
  have ident: "msg_talks (np_inv M F') (np_recv E ptr32 RPC_TYPE_NP_IDENTIFIER) (htonl k) []
      (NV_identifier (id_key k)) (np_inv M F')" for F'
    using msg_talks_bind_last [OF recv_plugin_identifier [OF E'(3) k] msg_talks_ret, of np_types M F' NV_identifier]
    by (simp add: np_recv_def then_make_def)
  have "param_chain (np_ptrs E visualid ptr32 cm ce) (np_inv M F)
      [P_type RPC_TYPE_NP_OBJECT, P_type RPC_TYPE_NP_IDENTIFIER, P_array RPC_TYPE_NP_VARIANT]
     (enc_marker RPC_TYPE_NP_OBJECT @ (htonl 2 @ htonl 0 @ htonl i) @
      enc_marker RPC_TYPE_NP_IDENTIFIER @ htonl k @
      enc_marker (arg_type (variants n args)) @ enc_arg (np_enc visualid) (variants n args) @ [])
     [np_object q, np_identifier (id_key k), view_arg (np_view visualid) (variants n args)]
     (np_inv M (with_ref q obj F))"
    by (rule params_user [OF obj _ _ params_user [OF ident _ _ params_plain [OF good_args_wf [OF args] _ params_end]]])
      (simp_all add: np_array_def)
  from msg_talks_args [OF this] show ?thesis by (simp add: invoke_request_def np_array_def)
qed

lemma puts_invoke_answer:
  assumes "wf_variant v" "releases_quietly E"
  shows "puts (np_inv M F) (rpc_message_send_args (np_ptrs E visualid ptr32 cm ce)
      [Uint32 (truth b), np_variant_pass_ref v]) (invoke_answer b v) (np_inv M F)"
proof -
  have var: "puts (np_inv M F) (np_send E visualid RPC_TYPE_NP_VARIANT_PASS_REF (NV_variant v)) (enc_variant v) (np_inv M F)"
    using puts_result [OF assms] by simp
  have "arg_chain (np_ptrs E visualid ptr32 cm ce) (np_inv M F) [Uint32 (truth b), np_variant_pass_ref v]
      (enc_marker (arg_type (Uint32 (truth b) :: np_value rpc_arg)) @ enc_arg (np_enc visualid) (Uint32 (truth b)) @
       enc_marker RPC_TYPE_NP_VARIANT_PASS_REF @ enc_variant v @ []) (np_inv M F)"
    by (rule args_plain [OF _ args_user [OF var _ _ args_end]]) simp_all
  from puts_args [OF this] show ?thesis by (simp add: invoke_answer_def)
qed

lemma talks_if_member:
  assumes F: "q \<noteq> 0" "objects F q = Some obj" "obj_class obj \<noteq> 0"
    "is_plugin E \<Longrightarrow> tab_contains (hash E) q (g_npobj_owners F)"
    and f: "sel (C (obj_class obj)) = Some f" "talks (np_inv M F) (body f) a b v J"
  shows "talks (np_inv M F) (if_member E C q sel otherwise body) a b v J"
proof -
  have "talks (np_inv M F) (is_valid_npobject_class E q) [] [] True (np_inv M F)"
    using F by (intro talks_pure) (auto simp: is_valid_npobject_class_def npobject_is_registered_def np_inv_heap op_simps)
  moreover have "talks (np_inv M F) (deref objects q) [] [] obj (np_inv M F)"
    using F by (intro talks_pure) (simp add: np_inv_heap)
  ultimately show ?thesis
    unfolding if_member_def using F f
    by (auto intro!: talks_bind [where a = "[]" and b = "[]", simplified])
qed

lemma talks_handle_Invoke:
  assumes R: "R = np_rpc_env E visualid ptr32 cm ce"
    and H: "hash_table (hash E) tbl" and O: "object_host (np_env.truncate E) can_create"
    and F: "status F \<noteq> RPC_STATUS_CLOSED" "stub_at tbl F i q obj" "no_id_0 (hash E) F"
      "tab_contains (hash E) q (g_npobj_owners F)" "obj_class obj \<noteq> 0"
    and plugin: "is_plugin E" and k: "k \<noteq> 0" and args: "good_args n args"
    and f: "invoke (C (obj_class obj)) = Some f"
      "talks (np_inv M (with_ref q obj (F\<lparr>handle_depth := handle_depth F + 1\<rparr>)))
        (f q (id_key k) (seen_args n args) n) i_in i_out (b, v) (np_inv M F2)"
    and F2: "status F2 \<noteq> RPC_STATUS_CLOSED" "objects F2 q = Some obj2" "obj_refcount obj2 \<noteq> 1"
    and v: "wf_variant v" "releases_quietly E"
  shows "talks (np_inv M F) (npclass_handle_Invoke E C R) (invoke_request visualid i k n args @ i_in)
    (i_out @ enc_answer (invoke_answer b v)) RPC_ERROR_NO_ERROR
    (np_inv M ((put_object q (Some (obj2\<lparr>obj_refcount := obj_refcount obj2 - 1\<rparr>)) F2)
      \<lparr>handle_depth := handle_depth F2 - 1\<rparr>))"
proof -
  let ?F = "F\<lparr>handle_depth := handle_depth F + 1\<rparr>"
  let ?F1 = "with_ref q obj ?F"
  let ?F3 = "put_object q (Some (obj2\<lparr>obj_refcount := obj_refcount obj2 - 1\<rparr>)) F2"
  have q: "q \<noteq> 0" using F(2) by (auto simp: stub_at_def)
  have "stub_at tbl ?F i q obj" "no_id_0 (hash E) ?F" using F(2,3) by (simp_all add: stub_at_def no_id_0_def)
  from np_peer.talks_get_args [OF recv_invoke_request [OF H O this plugin k args] F(1)]
  have get: "talks (np_inv M F) (on_live (rpc_method_get_args R
        [P_type RPC_TYPE_NP_OBJECT, P_type RPC_TYPE_NP_IDENTIFIER, P_array RPC_TYPE_NP_VARIANT]))
      (invoke_request visualid i k n args) []
      [np_object q, np_identifier (id_key k), view_arg (np_view visualid) (variants n args)] (np_inv M ?F1)"
    unfolding R .
  have member: "talks (np_inv M ?F1) (if_member (np_env.truncate E) C q invoke (False, V_void)
      (\<lambda>f. then_op (print_npvariant_args (seen_args n args) n) (f q (id_key k) (seen_args n args) n)))
      i_in i_out (b, v) (np_inv M F2)"
    by (rule talks_if_member [where obj = "obj\<lparr>obj_refcount := obj_refcount obj + 1\<rparr>", OF q])
      (use F f in \<open>auto simp: np_env.defs good_args_print(2) [OF args]\<close>)
  have release: "talks (np_inv M F2) (release_object E q) [] [] () (np_inv M ?F3)"
    using q F2 object_host.release_law [OF O q]
    by (intro talks_heap) (auto simp: release_object_def np_inv_heap np_env.defs)
  have variants: "talks (np_inv M ?F3) (release_variants E (seen_args n args)) [] [] () (np_inv M ?F3)"
    using release_variants_quiet [OF v(2)] seen_args_quiet [OF args]
    by (intro talks_pure) (auto split: option.splits)
  have reply: "talks (np_inv M ?F3) (on_live (rpc_method_send_reply R [Uint32 (truth b), np_variant_pass_ref v])) []
      (enc_answer (invoke_answer b v)) () (np_inv M (?F3\<lparr>handle_depth := handle_depth F2 - 1\<rparr>))"
    using np_peer.talks_send_reply [OF puts_invoke_answer [OF v], where M = M and F = ?F3] F2(1)
    by (simp add: R enc_answer_def put_object_def)
  show ?thesis
    unfolding npclass_handle_Invoke_def
    by (intro talks_return_code talks_bind_in [OF get])
      (simp add: as_seen_args talks_bind_answer [OF member] talks_then_quiet [OF release talks_then_quiet [OF variants reply]])
qed

text \<open>A member function that leaves the process as it is.\<close>

lemma talks_handle_Invoke_same:
  assumes "R = np_rpc_env E visualid ptr32 cm ce" "hash_table (hash E) tbl" "object_host (np_env.truncate E) can_create"
    and F: "status F \<noteq> RPC_STATUS_CLOSED" "stub_at tbl F i q obj" "no_id_0 (hash E) F"
      "tab_contains (hash E) q (g_npobj_owners F)" "obj_class obj \<noteq> 0"
    and "is_plugin E" "k \<noteq> 0" "good_args n args" "invoke (C (obj_class obj)) = Some f"
    and f: "\<And>s. f q (id_key k) (seen_args n args) n s = (Ok (b, v), s)"
    and "obj_refcount obj \<noteq> 0" "wf_variant v" "releases_quietly E"
  shows "talks (np_inv M F) (npclass_handle_Invoke E C R) (invoke_request visualid i k n args)
    (enc_answer (invoke_answer b v)) RPC_ERROR_NO_ERROR (np_inv M F)"
proof -
  let ?F = "with_ref q obj (F\<lparr>handle_depth := handle_depth F + 1\<rparr>)"
  let ?obj = "obj\<lparr>obj_refcount := obj_refcount obj + 1\<rparr>"
  have q: "objects F q = Some obj" using F(2) by (auto simp: stub_at_def)
  have member: "talks (np_inv M ?F) (f q (id_key k) (seen_args n args) n) [] [] (b, v) (np_inv M ?F)"
    by (rule talks_pure) (simp add: f)
  have "talks (np_inv M F) (npclass_handle_Invoke E C R) (invoke_request visualid i k n args @ [])
      ([] @ enc_answer (invoke_answer b v)) RPC_ERROR_NO_ERROR
      (np_inv M ((put_object q (Some (?obj\<lparr>obj_refcount := obj_refcount ?obj - 1\<rparr>)) ?F)
        \<lparr>handle_depth := handle_depth ?F - 1\<rparr>))"
    by (rule talks_handle_Invoke [where F = F and ?F2.0 = "with_ref q obj (F\<lparr>handle_depth := handle_depth F + 1\<rparr>)" and obj = obj and f = f])
      (use assms member in \<open>simp_all add: put_object_def\<close>)
  moreover have "(put_object q (Some (?obj\<lparr>obj_refcount := obj_refcount ?obj - 1\<rparr>)) ?F)
      \<lparr>handle_depth := handle_depth ?F - 1\<rparr> = F"
    using q by (simp add: put_object_def fun_upd_idem)
  ultimately show ?thesis by simp
qed

subsection \<open>Properties\<close>

text \<open>
  C2. A script call reaches the plugin's object: \<open>NPClass::Invoke\<close> on a proxy in the browser, for an object
  that the viewer holds under the proxy's stub, sends a request which, dispatched in the viewer, runs the
  \<open>invoke\<close> member of that object's own class with the method identifier and the arguments of the
  caller; the answer the viewer sends gives the caller the truth value and the result of the member.
  Both processes end as they were, the reference taken for the call included, and nothing is left
  unread on either side.
\<close>

theorem proxy_Invoke_correct:
  assumes Rc: "Rc = np_rpc_env Ec visualid ptr32 cmc cec" and Rs: "Rs = np_rpc_env Es visualid ptr32 cms ces"
    and sides: "\<not> is_plugin Ec" "is_plugin Es"
    and host: "hash_table (hash Es) tbl" "object_host (np_env.truncate Es) can_create" "releases_quietly Es"
    and c: "calm c" "np_inv Mc F c" "tx_wire c = []" "may_call F" "proxy_at Ec F p i proxy"
      "ident_at (hash Ec) F name k"
    and s: "calm s" "np_inv Ms G s" "tx_wire s = []" "status G \<noteq> RPC_STATUS_CLOSED" "stub_at tbl G i q obj"
      "obj_refcount obj \<noteq> 0" "no_id_0 (hash Es) G" "tab_contains (hash Es) q (g_npobj_owners G)" "obj_class obj \<noteq> 0"
    and handler: "Ms RPC_METHOD_NPCLASS_INVOKE = Some cb" "cms cb = npclass_handle_Invoke Es C Rs"
    and call: "good_args n args" "invoke (C (obj_class obj)) = Some f"
      "\<And>s'. f q (id_key k) (seen_args n args) n s' = (Ok (b, v), s')" "wf_variant v"
  shows "\<exists>request answer c' s'.
    g_NPClass_Invoke (np_env.truncate Ec) Rc True p name args n (Some v0) (c\<lparr>rx_queue := answer\<rparr>) =
      (Ok (b, Some (view_variant v)), c') \<and>
    tx_wire c' = request \<and> rx_queue c' = [] \<and> np_inv Mc F c' \<and>
    rpc_dispatch Rs (s\<lparr>rx_queue := request\<rparr>) = (Ok RPC_METHOD_NPCLASS_INVOKE, s') \<and>
    tx_wire s' = answer \<and> rx_queue s' = [] \<and> np_inv Ms G s'"
proof -
  let ?G = "G\<lparr>dispatch_depth := dispatch_depth G + 1\<rparr>"
  have k: "k \<noteq> 0" using c(6) by (auto simp: ident_at_def)
  have G: "stub_at tbl ?G i q obj" "no_id_0 (hash Es) ?G" using s(5,7) by (simp_all add: stub_at_def no_id_0_def)
  have "talks (np_inv Ms ?G) (npclass_handle_Invoke Es C Rs) (invoke_request visualid i k n args)
      (enc_answer (invoke_answer b v)) RPC_ERROR_NO_ERROR (np_inv Ms ?G)"
    by (rule talks_handle_Invoke_same [where q = q and obj = obj and f = f])
      (use Rs sides host s G k call in simp_all)
  then have "talks (np_inv Ms ?G) (call_method Rs cb) (invoke_request visualid i k n args)
    (enc_answer (invoke_answer b v)) RPC_ERROR_NO_ERROR (np_inv Ms ?G)"
    using handler(2) by (simp add: Rs np_rpc_env_def fptrs.defs)
  then have server: "talks (np_inv Ms G) (rpc_dispatch Rs)
      (enc_request RPC_METHOD_NPCLASS_INVOKE (invoke_request visualid i k n args)) (enc_answer (invoke_answer b v))
      RPC_METHOD_NPCLASS_INVOKE (np_inv Ms G)"
    unfolding Rs enc_request_def using handler(1)
    by (intro np_peer.talks_dispatch [where cb = cb and M = Ms]) (simp_all add: int32_range_def)
  note caller = talks_g_Invoke [OF Rc c(4-6) sides(1) call(1,4), where M = Mc and b = b and ?v0.0 = v0]
  let ?request = "enc_request RPC_METHOD_NPCLASS_INVOKE (invoke_request visualid i k n args)"
  let ?answer = "enc_answer (invoke_answer b v)"
  obtain c' where "g_NPClass_Invoke (np_env.truncate Ec) Rc True p name args n (Some v0) (c\<lparr>rx_queue := ?answer\<rparr>) =
      (Ok (b, Some (view_variant v)), c')" "tx_wire c' = ?request" "rx_queue c' = []" "np_inv Mc F c'"
    using talksD [OF caller, of "c\<lparr>rx_queue := ?answer\<rparr>" "[]"]
      conn_inv_deliver [OF c(1,2)] c(3) by auto
  moreover obtain s' where "rpc_dispatch Rs (s\<lparr>rx_queue := ?request\<rparr>) = (Ok RPC_METHOD_NPCLASS_INVOKE, s')"
    "tx_wire s' = ?answer" "rx_queue s' = []" "np_inv Ms G s'"
    using talksD [OF server, of "s\<lparr>rx_queue := ?request\<rparr>" "[]"] conn_inv_deliver [OF s(1,2)] s(3) by auto
  ultimately show ?thesis by blast
qed


text \<open>
  Two sample processes: a browser with a proxy for stub 1 and an identifier, and a viewer that holds
  an object under this stub whose class answers every call with 42.
\<close>

definition sample_object :: NPObject where
  "sample_object = \<lparr>obj_class = 32, obj_refcount = 1, proxy_id = 0, proxy_valid = False\<rparr>"

definition sample_proxy :: NPObject where
  "sample_proxy = \<lparr>obj_class = 16, obj_refcount = 1, proxy_id = 1, proxy_valid = True\<rparr>"

definition browser_env :: "((cptr \<times> cptr) list np_process, (cptr \<times> cptr) list) npv_env" where
  "browser_env = np_env.extend (dummy_env\<lparr>is_plugin := False\<rparr>) \<lparr>NPN_ReleaseVariantValue = (\<lambda>_. ret ())\<rparr>"

definition no_classes :: "(cptr \<times> cptr) list np_process npclass_env" where
  "no_classes = \<lparr>thread_ok = True, class_allocate = (\<lambda>_. None), class_deallocate = (\<lambda>_. None), object_addr = (\<lambda>_. 0)\<rparr>"

definition plugin_env :: "((cptr \<times> cptr) list np_process, (cptr \<times> cptr) list) npv_env" where
  "plugin_env = np_env.extend (viewer_env no_classes dummy_env) \<lparr>NPN_ReleaseVariantValue = (\<lambda>_. ret ())\<rparr>"

definition answer_42 :: "(cptr \<times> cptr) list np_process NPClass" where
  "answer_42 = \<lparr>structVersion = 3, hasMethod = None, invoke = Some (\<lambda>_ _ _ _. ret (True, V_int32 42)),
     invokeDefault = None, hasProperty = None, getProperty = None, setProperty = None, removeProperty = None,
     enumerate = None, construct = None\<rparr>"

definition with_proxy :: "(cptr \<times> cptr) list np_process \<Rightarrow> (cptr \<times> cptr) list np_process" where
  "with_proxy s = (put_object 4096 (Some sample_proxy) s)\<lparr>ids := \<lparr>g_ids = Some [(1, 256)], last_id = 1\<rparr>\<rparr>"

definition with_stub :: "(cptr \<times> cptr) list np_process \<Rightarrow> (cptr \<times> cptr) list np_process" where
  "with_stub s = (put_stub 8 (Some \<lparr>stub_npobject = 512, stub_id = 1\<rparr>) (put_object 512 (Some sample_object) s))
     \<lparr>g_stubs := Some [(1, 8)], g_npobj_owners := Some [(512, 0)]\<rparr>"

lemma heap_only_samples: "heap_only with_proxy" "heap_only with_stub"
  by (auto intro!: heap_onlyI simp: with_proxy_def with_stub_def frame_def put_object_def put_stub_def
      rpc_connection.defs)

lemma call_method_irrelevant:
  "rpc_method_get_args (R\<lparr>call_method := cm\<rparr>) ps = rpc_method_get_args R ps"
  "rpc_method_send_reply (R\<lparr>call_method := cm\<rparr>) as = rpc_method_send_reply R as"
  by (simp_all add: rpc_method_get_args_def rpc_method_send_reply_def or_rpc_error_call_method fptrs.defs)

lemma handle_Invoke_call_method:
  "npclass_handle_Invoke E C (np_rpc_env E visualid ptr32 cm ce) =
   npclass_handle_Invoke E C (np_rpc_env E visualid ptr32 cm' ce)"
proof -
  have eq: "np_rpc_env E visualid ptr32 cm ce = (np_rpc_env E visualid ptr32 cm' ce)\<lparr>call_method := cm\<rparr>"
    by (simp add: np_rpc_env_def fptrs.defs)
  show ?thesis unfolding npclass_handle_Invoke_def eq call_method_irrelevant ..
qed

lemma methods_changed:
  assumes "conn_inv T M F s" "rpc_map_ok m" "rpc_map_abs m = M'"
  shows "conn_inv T M' F (s\<lparr>methods := Some m\<rparr>)"
  using assms by (auto simp: conn_inv_def frame_def alloc_ok_def types_are_def methods_are_def)

lemma truncate_extend_env: "np_env.truncate (np_env.extend E x) = (E :: ('s, 'h) np_env)"
  by (cases E) (simp add: np_env.defs)

lemma plugin_env_facts:
  "is_plugin plugin_env" "hash plugin_env = alist_hash" "releases_quietly plugin_env"
  "object_host (np_env.truncate plugin_env) (viewer_can_create no_classes dummy_env)"
proof -
  have "no_classes\<lparr>thread_ok := True\<rparr> = no_classes" by (simp add: no_classes_def)
  then show "object_host (np_env.truncate plugin_env) (viewer_can_create no_classes dummy_env)"
    using viewer.object_host_axioms [of no_classes dummy_env] by (simp add: plugin_env_def truncate_extend_env)
qed (simp_all add: plugin_env_def viewer_env_def dummy_env_def np_env.defs releases_quietly_def ret_apply)

theorem proxy_Invoke_correct_witness:
  "\<exists>(c :: (cptr \<times> cptr) list np_process) (s :: (cptr \<times> cptr) list np_process)
      (Rc :: ((cptr \<times> cptr) list np_process, np_value) rpc_env)
      (Rs :: ((cptr \<times> cptr) list np_process, np_value) rpc_env) request answer c' s'.
    g_NPClass_Invoke (np_env.truncate browser_env) Rc True 4096 256 None 0 (Some V_null) (c\<lparr>rx_queue := answer\<rparr>) =
      (Ok (True, Some (V_int32 42)), c') \<and> tx_wire c' = request \<and>
    rpc_dispatch Rs (s\<lparr>rx_queue := request\<rparr>) = (Ok RPC_METHOD_NPCLASS_INVOKE, s') \<and> tx_wire s' = answer \<and>
    objects s' 512 = Some sample_object"
proof -
  obtain s0 :: "(cptr \<times> cptr) list np_process" where
    s0: "calm s0" "conn_inv np_types Map.empty (frame s0) s0" "tx_wire s0 = []" "frame s0 = frame empty_process"
    by (rule np_process_exists)
  define m where "m = snd (rpc_map_insert True zero_entry
    \<lparr>n_entries = 0, n_entries_max = 0, entries = None, destroy_func = NULL\<rparr> RPC_METHOD_NPCLASS_INVOKE (70 :: code_ptr))"
  have m: "rpc_map_ok m" "rpc_map_abs m = [RPC_METHOD_NPCLASS_INVOKE \<mapsto> 70]"
    unfolding m_def using rpc_map_insert_correct(2,3) [OF empty_map_ok(1)] by (simp_all add: empty_map_ok)
  let ?F = "frame empty_process"
  let ?c = "with_proxy s0" and ?s = "with_stub (s0\<lparr>methods := Some m\<rparr>)"
  have inv: "np_inv Map.empty (with_proxy ?F) ?c" "np_inv [RPC_METHOD_NPCLASS_INVOKE \<mapsto> 70] (with_stub ?F) ?s"
    using conn_inv_heap [OF heap_only_samples(1) s0(2)]
      conn_inv_heap [OF heap_only_samples(2) methods_changed [OF s0(2) m]] by (simp_all add: s0(4))
  have io: "calm ?c" "tx_wire ?c = []" "calm ?s" "tx_wire ?s = []"
    using s0(1,3) by (simp_all add: heap_only_fields [OF heap_only_samples(1)] heap_only_fields [OF heap_only_samples(2)])
      (simp add: calm_def)
  have st: "status ?F = RPC_STATUS_ACTIVE" "dispatch_depth ?F = 0" "handle_depth ?F = 0" "ids ?F = \<lparr>g_ids = Some [], last_id = 0\<rparr>"
    by (simp_all add: frame_def empty_process_def rpc_connection.defs sample_defs connect_first)
  have F: "may_call (with_proxy ?F)" "proxy_at browser_env (with_proxy ?F) 4096 1 sample_proxy"
    "ident_at (hash browser_env) (with_proxy ?F) 256 1"
    using st by (simp_all add: may_call_def proxy_at_def ident_at_def
        with_proxy_def browser_env_def dummy_env_def np_env.defs sample_proxy_def id_lookup_value_def alist_hash_def
        id_match_value_def)
  have G: "status (with_stub ?F) \<noteq> RPC_STATUS_CLOSED" "stub_at map_of (with_stub ?F) 1 512 sample_object"
    "no_id_0 (hash plugin_env) (with_stub ?F)" "tab_contains (hash plugin_env) 512 (g_npobj_owners (with_stub ?F))"
    using st by (simp_all add: stub_at_def no_id_0_def with_stub_def
        id_key_def plugin_env_facts tab_contains_def alist_hash_def
        id_lookup_def tab_lookup_def)
  let ?ce = "\<lambda>_ _. ret ()" and ?C = "\<lambda>_. answer_42"
  let ?cm = "\<lambda>_. npclass_handle_Invoke plugin_env ?C (np_rpc_env plugin_env (\<lambda>_. 0) False (\<lambda>_. ret 0) ?ce)"
  let ?Rs = "np_rpc_env plugin_env (\<lambda>_. 0) False ?cm ?ce"
  have handler: "?cm 70 = npclass_handle_Invoke plugin_env ?C ?Rs" by (rule handle_Invoke_call_method)
  have side: "\<not> is_plugin browser_env" "hash_table (hash plugin_env) map_of" "obj_refcount sample_object \<noteq> 0"
    "obj_class sample_object \<noteq> 0" "good_args 0 None" "wf_variant (V_int32 42)"
    "invoke (?C (obj_class sample_object)) = Some (\<lambda>_ _ _ _. ret (True, V_int32 42))"
    using alist.hash_table_axioms
    by (simp_all add: browser_env_def dummy_env_def np_env.defs plugin_env_facts sample_object_def good_args_def answer_42_def)
  note run = proxy_Invoke_correct [OF refl refl side(1) plugin_env_facts(1) side(2) plugin_env_facts(4,3) io(1) inv(1)
      io(2) F io(3) inv(2) io(4) G(1,2) side(3) G(3,4) side(4) _ handler side(5,7) ret_apply side(6),
      where cec = ?ce and cmc = "\<lambda>_. ret 0" and ?v0.0 = V_null]
  from run obtain request answer c' s' where r: "g_NPClass_Invoke (np_env.truncate browser_env)
      (np_rpc_env browser_env (\<lambda>_. 0) False (\<lambda>_. ret 0) ?ce) True 4096 256 None 0 (Some V_null) (?c\<lparr>rx_queue := answer\<rparr>) =
      (Ok (True, Some (V_int32 42)), c')" "tx_wire c' = request"
    "rpc_dispatch ?Rs (?s\<lparr>rx_queue := request\<rparr>) = (Ok RPC_METHOD_NPCLASS_INVOKE, s')" "tx_wire s' = answer"
    "np_inv [RPC_METHOD_NPCLASS_INVOKE \<mapsto> 70] (with_stub ?F) s'"
    unfolding view_variant.simps by auto
  moreover from r(5) have "objects s' 512 = Some sample_object"
    by (simp add: np_inv_heap with_stub_def)
  ultimately show ?thesis
    by (intro exI [of _ ?c] exI [of _ ?s] exI [of _ "np_rpc_env browser_env (\<lambda>_. 0) False (\<lambda>_. ret 0) ?ce"]
        exI [of _ ?Rs] exI [of _ request] exI [of _ answer] exI [of _ c'] exI [of _ s'] conjI)
qed

end
