(* ===== verification/Np_Refs.thy ===== *)
theory Np_Refs
  imports Np_Bridge
begin

text \<open>
  Passing references to scriptable objects back and forth: what the two processes count and keep, on
  the level of the objects (\<open>export_NPObject\<close> is what the sender does, \<open>import_NPObject\<close> what the
  receiver does with the four values the message carries).
\<close>

subsection \<open>Steps\<close>

lemma put_object_stub: "put_object q x (put_stub a y t) = put_stub a y (put_object q x t)"
  by (simp add: put_object_def put_stub_def)

text \<open>Exporting a local object creates its stub.\<close>

lemma export_local:
  assumes O: "object_host E can_create"
    and s: "q \<noteq> 0" "objects s q = Some obj" "obj_class obj \<noteq> npclass_bridge E"
      "i = stub_next_id s + 1" "i \<noteq> 0" "a = stub_addr E (s\<lparr>stub_next_id := i\<rparr>)"
  shows "export_NPObject E q False s =
    (Ok (NPOBJECT_SENDER_OWNED, if is_plugin E then tab_lookup (hash E) q (g_npobj_owners s) else 0, i, False),
     (put_stub a (Some \<lparr>stub_npobject = q, stub_id = i\<rparr>)
       (put_object q (Some (obj\<lparr>obj_refcount := obj_refcount obj + 1\<rparr>)) (s\<lparr>stub_next_id := i\<rparr>)))
     \<lparr>g_stubs := tab_insert (hash E) (stub_key i) a (g_stubs s)\<rparr>)"
proof -
  show ?thesis
    using s object_host.retain_law [OF O s(1)]
    by (simp add: export_NPObject_def npobject_get_proxy_id_def npobject_get_proxy_def npobject_create_stub_def
        npobject_get_owner_def op_simps put_object_stub)
qed

text \<open>Importing it in the other process creates a proxy.\<close>

lemma import_stub:
  assumes O: "object_host E can_create"
    and s: "npw_get_plugin_instance_npp plugin s = (Ok npp, s)" "can_create npp s"
  shows "\<exists>p obj. import_NPObject E NPOBJECT_SENDER_OWNED plugin i 0 s =
      (Ok p, (put_object p (Some (obj\<lparr>proxy_id := i, proxy_valid := True\<rparr>)) s)
        \<lparr>g_proxies := tab_insert (hash E) (stub_key i) p (g_proxies s)\<rparr>) \<and>
    p \<noteq> 0 \<and> objects s p = None \<and> obj_class obj = npclass_bridge E \<and> obj_refcount obj = 1"
proof -
  obtain p obj where c: "NPN_CreateObject E npp (npclass_bridge E) s = (Ok p, put_object p (Some obj) s)" "p \<noteq> 0"
    "objects s p = None" "obj_class obj = npclass_bridge E" "obj_refcount obj = 1"
    using object_host.create_law [OF O s(2)] by blast
  with s(1) show ?thesis
    by (intro exI [of _ p] exI [of _ obj])
      (simp add: import_NPObject_def npobject_create_proxy_def npobject_get_proxy_def op_simps)
qed

text \<open>Handing over the last reference to a proxy frees it and asks the owner to drop the stub.\<close>

lemma export_last_proxy:
  assumes "p \<noteq> 0" "objects s p = Some obj" "obj_class obj = npclass_bridge E" "obj_refcount obj = 1"
    "proxy_id obj = i" "i \<noteq> 0"
  shows "export_NPObject E p True s = (Ok (NPOBJECT_RECEIVER_OWNED, 0, i, True),
    put_object p None (s\<lparr>g_proxies := snd (tab_remove (hash E) (stub_key i) (g_proxies s))\<rparr>))"
  using assms
  by (simp add: export_NPObject_def npobject_get_proxy_id_def npobject_get_proxy_def npobject_destroy_proxy_def op_simps)

text \<open>The owner finds its object again and drops the stub in the process.\<close>

lemma import_back:
  assumes H: "hash_table (hash E) tbl" and O: "object_host E can_create"
    and s: "stub_at tbl s i q obj" "obj_refcount obj + 1 \<noteq> 1" 
      "tbl (the (g_stubs s)) (stub_key i) = Some a"
  shows "import_NPObject E NPOBJECT_RECEIVER_OWNED plugin i 1 s =
    (Ok q, put_stub a None (s\<lparr>g_stubs := snd (tab_remove (hash E) (stub_key i) (g_stubs s))\<rparr>))"
proof -
  obtain h where h: "g_stubs s = Some h" "tbl h (stub_key i) = Some a" "a \<noteq> 0"
    "stubs s a = Some \<lparr>stub_npobject = q, stub_id = i\<rparr>" "q \<noteq> 0" "objects s q = Some obj"
    using s(1,3) by (auto simp: stub_at_def)
  have restored: "put_object q (Some obj) (put_object q x s\<lparr>g_stubs := g\<rparr>) = s\<lparr>g_stubs := g\<rparr>" for x g
    using h(6) by (simp add: put_object_def fun_upd_idem)
  show ?thesis
    using h s(2) object_host.retain_law [OF O h(5)] object_host.release_law [OF O h(5)]
    by (simp add: import_NPObject_def npobject_lookup_local_def npobject_lookup_stub_def tab_lookup_def
        npobject_destroy_stub_def npobject_destroy_stub_obj_def hash_table.lookup_law [OF H] restored op_simps)
qed

lemma count_free: "unat (w :: uint32) + 2 < 2 ^ 32 \<Longrightarrow> w + 1 + 1 \<noteq> 1"
proof
  assume w: "unat w + 2 < 2 ^ 32" "w + 1 + 1 = 1"
  then have "w + 1 = 0" by (simp add: add.commute)
  moreover have "unat (w + 1) = unat w + unat (1 :: uint32)"
    using w(1) by (intro iffD1 [OF unat_add_lem]) simp
  ultimately show False by simp
qed
subsection \<open>Properties\<close>

text \<open>
  C4. A reference that goes to the other process and comes back is the same object, and every count is
  right at each point. Sent from \<open>A\<close>, a local object gains one reference, held by its new stub, and
  \<open>B\<close> has one new proxy with that stub's identifier; when \<open>B\<close> hands its only reference back, its proxy
  is gone and its table as before, and \<open>A\<close> gets the object it sent, the stub dropped, with exactly one
  reference more than at the start: the one the receiver now owns.
\<close>

theorem object_there_and_back:
  fixes A :: "('h, 'z) np_process_scheme" and B :: "('k, 'y) np_process_scheme"
  assumes EA: "hash_table (hash EA) ta" "object_host EA canA" and EB: "hash_table (hash EB) tb" "object_host EB canB"
    and A: "q \<noteq> 0" "objects A q = Some obj" "obj_class obj \<noteq> npclass_bridge EA" "g_stubs A = Some h"
      "i = stub_next_id A + 1" "i \<noteq> 0" "ta h (stub_key i) = None"
      "a = stub_addr EA (A\<lparr>stub_next_id := i\<rparr>)" "a \<noteq> 0" "stubs A a = None" "unat (obj_refcount obj) + 2 < 2 ^ 32"
    and B: "npw_get_plugin_instance_npp plugin B = (Ok npp, B)" "canB npp B" "g_proxies B = Some hb"
      "tb hb (stub_key i) = None"
  shows "\<exists>owner A1 p B1 B2 A2.
    export_NPObject EA q False A = (Ok (NPOBJECT_SENDER_OWNED, owner, i, False), A1) \<and>
    stub_at ta A1 i q (obj\<lparr>obj_refcount := obj_refcount obj + 1\<rparr>) \<and>
    import_NPObject EB NPOBJECT_SENDER_OWNED plugin i 0 B = (Ok p, B1) \<and>
    (\<exists>proxy. proxy_at EB B1 p i proxy \<and> obj_refcount proxy = 1) \<and>
    export_NPObject EB p True B1 = (Ok (NPOBJECT_RECEIVER_OWNED, 0, i, True), B2) \<and>
    objects B2 = objects B \<and> tb (the (g_proxies B2)) = tb hb \<and>
    import_NPObject EA NPOBJECT_RECEIVER_OWNED 0 i 1 A1 = (Ok q, A2) \<and>
    objects A2 = (objects A)(q \<mapsto> obj\<lparr>obj_refcount := obj_refcount obj + 1\<rparr>) \<and>
    stubs A2 = stubs A \<and> ta (the (g_stubs A2)) = ta h"
proof -
  let ?obj = "obj\<lparr>obj_refcount := obj_refcount obj + 1\<rparr>"
  obtain owner A1 where e1: "export_NPObject EA q False A = (Ok (NPOBJECT_SENDER_OWNED, owner, i, False), A1)"
    and A1: "objects A1 = (objects A)(q \<mapsto> ?obj)" "stubs A1 = (stubs A)(a \<mapsto> \<lparr>stub_npobject = q, stub_id = i\<rparr>)"
      "g_stubs A1 = Some (gh_insert (hash EA) (stub_key i) a h)"
    using export_local [OF EA(2) A(1-3,5,6,8)] A(4) by (auto simp: tab_insert_def)
  note ta = hash_table.insert_law [OF EA(1)]
  have stub: "stub_at ta A1 i q ?obj" using A(1,9) A1 by (simp add: stub_at_def ta)
  obtain p pobj where i1: "import_NPObject EB NPOBJECT_SENDER_OWNED plugin i 0 B =
      (Ok p, (put_object p (Some (pobj\<lparr>proxy_id := i, proxy_valid := True\<rparr>)) B)
        \<lparr>g_proxies := tab_insert (hash EB) (stub_key i) p (g_proxies B)\<rparr>)"
    and p: "p \<noteq> 0" "objects B p = None" "obj_class pobj = npclass_bridge EB" "obj_refcount pobj = 1"
    using import_stub [OF EB(2) B(1,2), of i] by blast
  let ?B1 = "(put_object p (Some (pobj\<lparr>proxy_id := i, proxy_valid := True\<rparr>)) B)
        \<lparr>g_proxies := tab_insert (hash EB) (stub_key i) p (g_proxies B)\<rparr>"
  have proxy: "proxy_at EB ?B1 p i (pobj\<lparr>proxy_id := i, proxy_valid := True\<rparr>)"
    using p A(6) by (simp add: proxy_at_def)
  let ?B2 = "put_object p None (?B1\<lparr>g_proxies := snd (tab_remove (hash EB) (stub_key i) (g_proxies ?B1))\<rparr>)"
  have e2: "export_NPObject EB p True ?B1 = (Ok (NPOBJECT_RECEIVER_OWNED, 0, i, True), ?B2)"
    by (rule export_last_proxy [where obj = "pobj\<lparr>proxy_id := i, proxy_valid := True\<rparr>"]) (use p A(6) in simp_all)
  obtain b hb' where rem: "gh_remove (hash EB) (stub_key i) (gh_insert (hash EB) (stub_key i) p hb) = (b, hb')"
    by (metis prod.exhaust)
  have B2: "objects ?B2 = objects B" "tb (the (g_proxies ?B2)) = tb hb"
    using p(2) B(3,4) rem hash_table.remove_law [OF EB(1) rem] hash_table.insert_law [OF EB(1)]
    by (auto simp: tab_insert_def tab_remove_def fun_upd_idem)
  from count_free [OF A(11)] have i2: "import_NPObject EA NPOBJECT_RECEIVER_OWNED 0 i 1 A1 =
      (Ok q, put_stub a None (A1\<lparr>g_stubs := snd (tab_remove (hash EA) (stub_key i) (g_stubs A1))\<rparr>))"
    by (intro import_back [OF EA stub]) (simp_all add: A1 ta)
  obtain b' h' where rem': "gh_remove (hash EA) (stub_key i) (gh_insert (hash EA) (stub_key i) a h) = (b', h')"
    by (metis prod.exhaust)
  let ?A2 = "put_stub a None (A1\<lparr>g_stubs := snd (tab_remove (hash EA) (stub_key i) (g_stubs A1))\<rparr>)"
  have "objects ?A2 = (objects A)(q \<mapsto> ?obj)" "stubs ?A2 = stubs A" "ta (the (g_stubs ?A2)) = ta h"
    using A1 A(7,10) rem' hash_table.remove_law [OF EA(1) rem'] by (auto simp: tab_remove_def ta fun_upd_idem)
  moreover have "\<exists>proxy. proxy_at EB ?B1 p i proxy \<and> obj_refcount proxy = 1" using proxy p(4) by auto
  ultimately show ?thesis using e1 stub i1 e2 B2 i2
    by (intro exI [of _ owner] exI [of _ A1] exI [of _ p] exI [of _ ?B1] exI [of _ ?B2] exI [of _ ?A2] conjI)
qed

text \<open>A process that can create proxies: the viewer's functions, with the class of proxies at address 16.\<close>

definition proxy_classes :: "(cptr \<times> cptr) list np_process npclass_env" where
  "proxy_classes = no_classes\<lparr>object_addr := (\<lambda>_. 4096),
     class_allocate := (\<lambda>_. Some (g_NPClass_Allocate (no_classes\<lparr>object_addr := (\<lambda>_. 4096)\<rparr>)))\<rparr>"

lemma proxy_host:
  "object_host (viewer_env proxy_classes dummy_env) (viewer_can_create proxy_classes dummy_env)"
  "object_host (viewer_env no_classes dummy_env) (viewer_can_create no_classes dummy_env)"
  "viewer_can_create proxy_classes dummy_env 0 empty_process"
proof -
  have "proxy_classes\<lparr>thread_ok := True\<rparr> = proxy_classes" "no_classes\<lparr>thread_ok := True\<rparr> = no_classes"
    by (simp_all add: proxy_classes_def no_classes_def)
  then show "object_host (viewer_env proxy_classes dummy_env) (viewer_can_create proxy_classes dummy_env)"
    "object_host (viewer_env no_classes dummy_env) (viewer_can_create no_classes dummy_env)"
    using viewer.object_host_axioms [of proxy_classes dummy_env] viewer.object_host_axioms [of no_classes dummy_env] by simp_all
  have "g_NPClass_Allocate proxy_classes = g_NPClass_Allocate (no_classes\<lparr>object_addr := (\<lambda>_. 4096)\<rparr>)"
    by (intro ext) (simp add: g_NPClass_Allocate_def malloc_object_def proxy_classes_def)
  then show "viewer_can_create proxy_classes dummy_env 0 empty_process"
    by (simp add: viewer_can_create_def dummy_env_def proxy_classes_def no_classes_def empty_process_def
        npw_get_plugin_instance_def op_simps rpc_connection.defs)
qed

theorem object_there_and_back_witness:
  "\<exists>A1 p B1 B2 A2.
    export_NPObject (viewer_env no_classes dummy_env) 512 False (put_object 512 (Some sample_object) empty_process) =
      (Ok (NPOBJECT_SENDER_OWNED, 0, 1, False), A1) \<and>
    import_NPObject (viewer_env proxy_classes dummy_env) NPOBJECT_SENDER_OWNED 0 1 0 empty_process = (Ok p, B1) \<and>
    export_NPObject (viewer_env proxy_classes dummy_env) p True B1 = (Ok (NPOBJECT_RECEIVER_OWNED, 0, 1, True), B2) \<and>
    objects B2 = Map.empty \<and>
    import_NPObject (viewer_env no_classes dummy_env) NPOBJECT_RECEIVER_OWNED 0 1 1 A1 = (Ok 512, A2) \<and>
    objects A2 512 = Some (sample_object\<lparr>obj_refcount := 2\<rparr>)"
proof -
  let ?A = "put_object 512 (Some sample_object) empty_process"
  let ?EA = "viewer_env no_classes dummy_env" and ?EB = "viewer_env proxy_classes dummy_env"
  have env: "hash ?EA = alist_hash" "hash ?EB = alist_hash" "npclass_bridge ?EA = 16" "stub_addr ?EA = (\<lambda>_. 4096)"
    by (simp_all add: viewer_env_def dummy_env_def)
  have A: "(512 :: cptr) \<noteq> 0" "objects ?A 512 = Some sample_object" "obj_class sample_object \<noteq> npclass_bridge ?EA"
    "g_stubs ?A = Some []" "1 = stub_next_id ?A + 1" "(1 :: uint32) \<noteq> 0" "map_of [] (stub_key 1) = None"
    "4096 = stub_addr ?EA (?A\<lparr>stub_next_id := 1\<rparr>)" "(4096 :: cptr) \<noteq> 0" "stubs ?A 4096 = None"
    "unat (obj_refcount sample_object) + 2 < 2 ^ 32"
    by (simp_all add: env sample_object_def empty_process_def rpc_connection.defs)
  have B: "npw_get_plugin_instance_npp 0 empty_process = (Ok 0, empty_process)"
    "g_proxies empty_process = Some []" "map_of ([] :: (cptr \<times> cptr) list) (stub_key 1) = None"
    by (simp_all add: npw_get_plugin_instance_npp_def ret_apply empty_process_def rpc_connection.defs)
  have H: "hash_table (hash ?EA) map_of" "hash_table (hash ?EB) map_of"
    by (simp_all add: env alist.hash_table_axioms)
  obtain owner A1 p B1 B2 A2 where r:
    "export_NPObject ?EA 512 False ?A = (Ok (NPOBJECT_SENDER_OWNED, owner, 1, False), A1)"
    "import_NPObject ?EB NPOBJECT_SENDER_OWNED 0 1 0 empty_process = (Ok p, B1)"
    "export_NPObject ?EB p True B1 = (Ok (NPOBJECT_RECEIVER_OWNED, 0, 1, True), B2)" "objects B2 = objects empty_process"
    "import_NPObject ?EA NPOBJECT_RECEIVER_OWNED 0 1 1 A1 = (Ok 512, A2)"
    "objects A2 = (objects ?A)(512 \<mapsto> sample_object\<lparr>obj_refcount := obj_refcount sample_object + 1\<rparr>)"
    using object_there_and_back [OF H(1) proxy_host(2) H(2) proxy_host(1) A B(1) proxy_host(3) B(2,3)] by blast
  have "owner = 0"
    using r(1) export_local [OF proxy_host(2) A(1-3,5,6,8)]
    by (simp add: env viewer_env_def dummy_env_def tab_lookup_def empty_process_def rpc_connection.defs alist_hash_def)
  with r show ?thesis
    by (intro exI [of _ A1] exI [of _ p] exI [of _ B1] exI [of _ B2] exI [of _ A2])
      (simp add: sample_object_def empty_process_def rpc_connection.defs)
qed

end
