(* ===== verification/Np_Identifiers.thy ===== *)
theory Np_Identifiers
  imports Np_Bridge
begin

text \<open>
  Identifiers of properties and methods: the functions of \<^verbatim>\<open>npw-common.c\<close> and \<^verbatim>\<open>npruntime.c\<close> on them,
  the viewer's calls (\<open>NPN_GetStringIdentifier\<close> and its relatives in \<^verbatim>\<open>npw-viewer.c\<close>) with the cache
  in front of them, and the handlers of the wrapper (\<^verbatim>\<open>npw-wrapper.c\<close>).
\<close>

subsection \<open>\<open>NPW_Identifier\<close>\<close>

text \<open>An identifier of \<^verbatim>\<open>npw-common.c\<close>; \<open>NPW_MemAlloc0\<close> zeroes it.\<close>

datatype NPW_IdentifierValue = IV_int int32 | IV_string "byte list option"

record NPW_Identifier =
  ident_type :: uint32
  ident_id :: uint32
  ident_value :: NPW_IdentifierValue

abbreviation (input) NPW_IdentifierType_Integer :: uint32 where "NPW_IdentifierType_Integer \<equiv> 1"
abbreviation (input) NPW_IdentifierType_String :: uint32 where "NPW_IdentifierType_String \<equiv> 2"

text \<open>\<open>mem\<close>: \<open>NPW_MemAlloc0\<close> finds memory.\<close>

definition NPW_CreateIntIdentifier :: "bool \<Rightarrow> int32 \<Rightarrow> NPW_Identifier option" where
  "NPW_CreateIntIdentifier mem i =
     (if mem then Some \<lparr>ident_type = NPW_IdentifierType_Integer, ident_id = 0, ident_value = IV_int i\<rparr> else None)"

definition NPW_CreateStringIdentifierSink :: "bool \<Rightarrow> byte list option \<Rightarrow> NPW_Identifier option" where
  "NPW_CreateStringIdentifierSink mem str =
     (if mem then Some \<lparr>ident_type = NPW_IdentifierType_String, ident_id = 0, ident_value = IV_string str\<rparr> else None)"

text \<open>\<open>copied\<close>: \<open>strdup\<close> finds memory. The second component tells whether the copy is freed again.\<close>

definition NPW_CreateStringIdentifier :: "bool \<Rightarrow> bool \<Rightarrow> byte list \<Rightarrow> NPW_Identifier option \<times> bool" where
  "NPW_CreateStringIdentifier mem copied str =
     (let str_copy = (if copied then Some str else None);
          ident = NPW_CreateStringIdentifierSink mem str_copy
      in (ident, ident = None))"

definition NPW_IsIntIdentifier :: "NPW_Identifier option \<Rightarrow> bool" where
  "NPW_IsIntIdentifier ident =
     (case ident of None \<Rightarrow> False | Some x \<Rightarrow> ident_type x = NPW_IdentifierType_Integer)"

definition NPW_IsStringIdentifier :: "NPW_Identifier option \<Rightarrow> bool" where
  "NPW_IsStringIdentifier ident =
     (case ident of None \<Rightarrow> False | Some x \<Rightarrow> ident_type x = NPW_IdentifierType_String)"

definition NPW_GetIntIdentifierValue :: "NPW_Identifier option \<Rightarrow> int32" where
  "NPW_GetIntIdentifierValue ident =
     (if NPW_IsIntIdentifier ident then (case ident_value (the ident) of IV_int i \<Rightarrow> i | IV_string _ \<Rightarrow> 0) else 0)"

definition NPW_GetStringIdentifierValue :: "NPW_Identifier option \<Rightarrow> byte list option" where
  "NPW_GetStringIdentifierValue ident =
     (if NPW_IsStringIdentifier ident then (case ident_value (the ident) of IV_int _ \<Rightarrow> None | IV_string s \<Rightarrow> s) else None)"

text \<open>What is freed: the string and the identifier.\<close>

definition NPW_DestroyIdentifier :: "NPW_Identifier option \<Rightarrow> byte list option \<times> bool" where
  "NPW_DestroyIdentifier ident =
     (case ident of
        None \<Rightarrow> (None, False)
      | Some x \<Rightarrow>
          (case ident_value x of IV_string (Some s) \<Rightarrow> if NPW_IsStringIdentifier ident then Some s else None | _ \<Rightarrow> None,
           True))"

subsection \<open>The cache of the viewer\<close>

text \<open>
  An entry: an integer, or the bytes of a string with their terminating zero, whose number is
  \<open>string_len\<close>. The table owns its entries (it has a destructor for them), so they are modelled by value.
\<close>

datatype npi_value = NPI_string "byte list" | NPI_int int32

record NPIdentifierInfo =
  string_len :: uint32
  npi_u :: npi_value

text \<open>
  GLib's table for the cache, with its documented behaviour as a locale: \<open>ic_find\<close> is
  \<open>g_hash_table_find\<close>, \<open>ic_entries\<close> are the entries in the order of \<open>g_hash_table_foreach\<close>.
\<close>

record 'c ident_table =
  ic_new :: 'c
  ic_insert :: "cptr \<Rightarrow> NPIdentifierInfo \<Rightarrow> 'c \<Rightarrow> 'c"
  ic_lookup :: "cptr \<Rightarrow> 'c \<Rightarrow> NPIdentifierInfo option"
  ic_find :: "(cptr \<Rightarrow> NPIdentifierInfo \<Rightarrow> bool) \<Rightarrow> 'c \<Rightarrow> (cptr \<times> NPIdentifierInfo) option"
  ic_entries :: "'c \<Rightarrow> (cptr \<times> NPIdentifierInfo) list"
  ic_count :: "'c \<Rightarrow> nat"
  ic_remove_all :: "'c \<Rightarrow> 'c"

locale ident_table =
  fixes T :: "'c ident_table"
    and tbl :: "'c \<Rightarrow> cptr \<Rightarrow> NPIdentifierInfo option"
  assumes new_law: "tbl (ic_new T) = Map.empty"
    and insert_law: "tbl (ic_insert T k v h) = (tbl h)(k \<mapsto> v)"
    and lookup_law: "ic_lookup T k h = tbl h k"
    and find_Some: "ic_find T P h = Some (k, v) \<Longrightarrow> tbl h k = Some v \<and> P k v"
    and find_None: "ic_find T P h = None \<Longrightarrow> tbl h k = Some v \<Longrightarrow> \<not> P k v"
    and entries_law: "map_of (ic_entries T h) = tbl h" "distinct (map fst (ic_entries T h))"
    and remove_all_law: "tbl (ic_remove_all T h) = Map.empty"

definition alist_idents :: "(cptr \<times> NPIdentifierInfo) list ident_table" where
  "alist_idents = \<lparr>ic_new = [], ic_insert = (\<lambda>k v h. (k, v) # filter (\<lambda>e. fst e \<noteq> k) h), ic_lookup = (\<lambda>k h. map_of h k),
     ic_find = (\<lambda>P h. List.find (\<lambda>(k, v). map_of h k = Some v \<and> P k v) h),
     ic_entries = (\<lambda>h. map (\<lambda>k. (k, the (map_of h k))) (remdups (map fst h))),
     ic_count = length, ic_remove_all = (\<lambda>h. [])\<rparr>"

interpretation alist_idents: ident_table alist_idents map_of
proof
  fix P :: "cptr \<Rightarrow> NPIdentifierInfo \<Rightarrow> bool" and h k v
  show "ic_find alist_idents P h = Some (k, v) \<Longrightarrow> map_of h k = Some v \<and> P k v"
    by (auto simp: alist_idents_def find_Some_iff case_prod_unfold) (metis fst_conv snd_conv)+
  show "ic_find alist_idents P h = None \<Longrightarrow> map_of h k = Some v \<Longrightarrow> \<not> P k v"
    by (auto simp: alist_idents_def find_None_iff dest: map_of_SomeD)
  show "map_of (ic_entries alist_idents h) = map_of h"
    by (auto simp: alist_idents_def map_of_map_restrict restrict_map_def fun_eq_iff comp_def map_of_eq_None_iff)
      (metis map_of_eq_None_iff not_None_eq option.sel)
  show "distinct (map fst (ic_entries alist_idents h))"
    by (simp add: alist_idents_def comp_def)
  show "map_of (ic_insert alist_idents k v h) = (map_of h)(k \<mapsto> v)"
    using map_of_filter_key [of k h] by (simp add: alist_idents_def case_prod_unfold)
qed (auto simp: alist_idents_def)

text \<open>
  The viewer: the static flag of \<open>npruntime_use_cache\<close> and the cache. \<open>viewer_env\<close> holds what the
  cache needs from outside: GLib's table, whether GLib has \<open>g_hash_table_find\<close> and
  \<open>g_hash_table_remove_all\<close> (and the build uses them), the environment, whether the
  allocator has memory for so many bytes, the thread that runs and the main thread.
\<close>

record ('h, 'c) viewer = "'h np_process" +
  use_cache :: int
  g_npidentifier_cache :: "'c option"

record ('s, 'c) viewer_env =
  idents :: "'c ident_table"
  have_table_find :: bool
  have_table_remove_all :: bool
  v_getenv :: "string \<Rightarrow> string option"
  has_memory :: "'s \<Rightarrow> uint32 \<Rightarrow> bool"
  thread_check :: bool

abbreviation (input) NPIDENTIFIER_CACHE_SIZE :: nat where "NPIDENTIFIER_CACHE_SIZE \<equiv> 256"

definition get_use_npruntime_cache_env :: "(string \<Rightarrow> string option) \<Rightarrow> bool" where
  "get_use_npruntime_cache_env getenv =
     (case getenv ''NPW_NPRUNTIME_CACHE'' of None \<Rightarrow> True | Some env \<Rightarrow> env \<noteq> ''no'' \<and> env \<noteq> ''0'')"

definition npruntime_use_cache :: "('s, 'c, 'y) viewer_env_scheme \<Rightarrow> (('h, 'c, 'z) viewer_scheme, bool) op" where
  "npruntime_use_cache V s =
     (if use_cache s < 0
      then let b = get_use_npruntime_cache_env (v_getenv V) in (Ok b, s\<lparr>use_cache := if b then 1 else 0\<rparr>)
      else (Ok (use_cache s \<noteq> 0), s))"

definition use_npidentifier_cache :: "('s, 'c, 'y) viewer_env_scheme \<Rightarrow> (('h, 'c, 'z) viewer_scheme, bool) op" where
  "use_npidentifier_cache V = npruntime_use_cache V"

definition put_cache :: "'c option \<Rightarrow> (('h, 'c, 'z) viewer_scheme, unit) op" where
  "put_cache t = modify_state (\<lambda>s. s\<lparr>g_npidentifier_cache := t\<rparr>)"

definition npidentifier_cache_create :: "('s, 'c, 'y) viewer_env_scheme \<Rightarrow> (('h, 'c, 'z) viewer_scheme, unit) op" where
  "npidentifier_cache_create V = put_cache (Some (ic_new (idents V)))"

definition npidentifier_cache_destroy :: "(('h, 'c, 'z) viewer_scheme, unit) op" where
  "npidentifier_cache_destroy = put_cache None"

definition npidentifier_cache_invalidate :: "('s, 'c, 'y) viewer_env_scheme \<Rightarrow> (('h, 'c, 'z) viewer_scheme, unit) op" where
  "npidentifier_cache_invalidate V =
     (if have_table_remove_all V
      then bind_op (gets g_npidentifier_cache) (\<lambda>t.
        case t of None \<Rightarrow> ret () | Some h \<Rightarrow> put_cache (Some (ic_remove_all (idents V) h)))
      else then_op npidentifier_cache_destroy (npidentifier_cache_create V))"

definition npidentifier_cache_reserve :: "('s, 'c, 'y) viewer_env_scheme \<Rightarrow> nat \<Rightarrow> (('h, 'c, 'z) viewer_scheme, unit) op" where
  "npidentifier_cache_reserve V n =
     bind_op (gets g_npidentifier_cache) (\<lambda>t.
     then_op (if t = None then npidentifier_cache_create V else ret ())
     (bind_op (gets g_npidentifier_cache) (\<lambda>t.
        case t of
          None \<Rightarrow> ret ()
        | Some h \<Rightarrow>
            if ic_count (idents V) h + n > NPIDENTIFIER_CACHE_SIZE
            then npidentifier_cache_invalidate V else ret ())))"

definition npidentifier_cache_lookup ::
  "('s, 'c, 'y) viewer_env_scheme \<Rightarrow> cptr \<Rightarrow> (('h, 'c, 'z) viewer_scheme, NPIdentifierInfo option) op"
where
  "npidentifier_cache_lookup V ident =
     gets (\<lambda>s. case g_npidentifier_cache s of None \<Rightarrow> None | Some h \<Rightarrow> ic_lookup (idents V) ident h)"

definition npidentifier_info_new ::
  "(('h, 'c, 'z) viewer_scheme, 'c, 'y) viewer_env_scheme \<Rightarrow> (('h, 'c, 'z) viewer_scheme, bool) op"
where
  "npidentifier_info_new V = gets (\<lambda>s. has_memory V s 16)"

definition insert_info ::
  "('s, 'c, 'y) viewer_env_scheme \<Rightarrow> cptr \<Rightarrow> NPIdentifierInfo \<Rightarrow> (('h, 'c, 'z) viewer_scheme, unit) op"
where
  "insert_info V ident npi = modify_state (\<lambda>s.
     s\<lparr>g_npidentifier_cache := map_option (ic_insert (idents V) ident npi) (g_npidentifier_cache s)\<rparr>)"

definition npidentifier_cache_add_int ::
  "(('h, 'c, 'z) viewer_scheme, 'c, 'y) viewer_env_scheme \<Rightarrow> cptr \<Rightarrow> int32 \<Rightarrow> (('h, 'c, 'z) viewer_scheme, unit) op"
where
  "npidentifier_cache_add_int V ident i =
     bind_op (gets g_npidentifier_cache) (\<lambda>t.
       if t = None then ret ()
       else bind_op (npidentifier_info_new V) (\<lambda>npi.
         if \<not> npi then ret ()
         else insert_info V ident \<lparr>string_len = 0, npi_u = NPI_int i\<rparr>))"

text \<open>\<open>str\<close> is a pointer to characters; \<open>strlen\<close> of \<open>NULL\<close> is a crash.\<close>

definition npidentifier_cache_add_string ::
  "(('h, 'c, 'z) viewer_scheme, 'c, 'y) viewer_env_scheme \<Rightarrow> cptr \<Rightarrow> c_string \<Rightarrow> (('h, 'c, 'z) viewer_scheme, unit) op"
where
  "npidentifier_cache_add_string V ident str =
     bind_op (gets g_npidentifier_cache) (\<lambda>t.
       if t = None then ret ()
       else bind_op (npidentifier_info_new V) (\<lambda>npi.
         if \<not> npi then ret ()
         else
           (case str of
              None \<Rightarrow> crash Out_of_bounds
            | Some cs \<Rightarrow>
                (let len = of_nat (length cs) + 1 in
                 bind_op (gets (\<lambda>s. has_memory V s len)) (\<lambda>mem.
                   if \<not> mem then ret ()
                   else insert_info V ident \<lparr>string_len = len, npi_u = NPI_string (cs @ [0])\<rparr>)))))"

text \<open>
  The comparison of an entry with what is looked for, and the search: with \<open>g_hash_table_find\<close> the
  first match ends it, without, an entry is passed over once an identifier other than \<open>NULL\<close> is found.
\<close>

definition npidentifier_cache_find_info :: "NPIdentifierInfo \<Rightarrow> NPIdentifierInfo \<Rightarrow> bool" where
  "npidentifier_cache_find_info info npi =
     (if string_len npi \<noteq> string_len info then False
      else
        (case (npi_u info, npi_u npi) of
           (NPI_string a, NPI_string b) \<Rightarrow>
             string_len info \<noteq> 0 \<and> take (unat (string_len info)) a = take (unat (string_len info)) b
         | (NPI_int i, NPI_int j) \<Rightarrow> string_len info = 0 \<and> i = j
         | _ \<Rightarrow> False))"

definition npidentifier_cache_find ::
  "('s, 'c, 'y) viewer_env_scheme \<Rightarrow> NPIdentifierInfo \<Rightarrow> 'c \<Rightarrow> cptr option"
where
  "npidentifier_cache_find V info h =
     (if have_table_find V then map_option fst (ic_find (idents V) (\<lambda>_. npidentifier_cache_find_info info) h)
      else
        (let ident = foldl (\<lambda>found (k, npi). if found \<noteq> 0 then found
                              else if npidentifier_cache_find_info info npi then k else found) 0 (ic_entries (idents V) h)
         in if ident = 0 then None else Some ident))"

definition npidentifier_cache_has_int ::
  "('s, 'c, 'y) viewer_env_scheme \<Rightarrow> int32 \<Rightarrow> (('h, 'c, 'z) viewer_scheme, cptr option) op"
where
  "npidentifier_cache_has_int V i = gets (\<lambda>s.
     case g_npidentifier_cache s of
       None \<Rightarrow> None
     | Some h \<Rightarrow> npidentifier_cache_find V \<lparr>string_len = 0, npi_u = NPI_int i\<rparr> h)"

definition npidentifier_cache_has_string ::
  "('s, 'c, 'y) viewer_env_scheme \<Rightarrow> byte list \<Rightarrow> (('h, 'c, 'z) viewer_scheme, cptr option) op"
where
  "npidentifier_cache_has_string V cs = gets (\<lambda>s.
     case g_npidentifier_cache s of
       None \<Rightarrow> None
     | Some h \<Rightarrow> npidentifier_cache_find V \<lparr>string_len = of_nat (length cs) + 1, npi_u = NPI_string (cs @ [0])\<rparr> h)"

definition npidentifier_cache_get_int ::
  "('s, 'c, 'y) viewer_env_scheme \<Rightarrow> cptr \<Rightarrow> (('h, 'c, 'z) viewer_scheme, int32) op"
where
  "npidentifier_cache_get_int V ident =
     bind_op (npidentifier_cache_lookup V ident) (\<lambda>npi. ret
       (case npi of
          None \<Rightarrow> 0
        | Some x \<Rightarrow> if string_len x > 0 then 0 else (case npi_u x of NPI_int i \<Rightarrow> i | NPI_string _ \<Rightarrow> 0)))"

text \<open>The block that holds the copy, with its terminating zero.\<close>

definition npidentifier_cache_get_string_copy ::
  "(('h, 'c, 'z) viewer_scheme, 'c, 'y) viewer_env_scheme \<Rightarrow> cptr \<Rightarrow> (('h, 'c, 'z) viewer_scheme, byte list option) op"
where
  "npidentifier_cache_get_string_copy V ident =
     bind_op (npidentifier_cache_lookup V ident) (\<lambda>npi.
       case npi of
         None \<Rightarrow> ret None
       | Some x \<Rightarrow>
           (if string_len x = 0 then ret None
            else bind_op (gets (\<lambda>s. has_memory V s (string_len x))) (\<lambda>mem. ret
              (if \<not> mem then None
               else (case npi_u x of NPI_string bs \<Rightarrow> Some (take (unat (string_len x)) bs) | NPI_int _ \<Rightarrow> None)))))"

subsection \<open>The calls of the viewer\<close>

text \<open>What the arguments of the expected types are received as.\<close>

fun as_string :: "np_value rpc_arg \<Rightarrow> c_string" where
  "as_string (Str s) = s"
| "as_string a = None"

fun as_int32 :: "np_value rpc_arg \<Rightarrow> int32" where
  "as_int32 (Int32 w) = w"
| "as_int32 a = 0"

fun as_utf8_block :: "np_value rpc_arg \<Rightarrow> byte list option" where
  "as_utf8_block (User t (NV_utf8_block bs)) = Some bs"
| "as_utf8_block a = None"

text \<open>The C string in a block of memory.\<close>

definition block_string :: "byte list option \<Rightarrow> ('s, c_string) op" where
  "block_string b =
     (case b of
        None \<Rightarrow> ret None
      | Some bs \<Rightarrow> if 0 \<in> set bs then ret (Some (takeWhile (\<lambda>c. c \<noteq> 0) bs)) else crash Out_of_bounds)"

definition invoke_NPN_GetStringIdentifier ::
  "(('h, 'z) np_process_scheme, np_value, 'y) rpc_env_scheme \<Rightarrow> byte list \<Rightarrow> (('h, 'z) np_process_scheme, cptr) op"
where
  "invoke_NPN_GetStringIdentifier R name =
     bind_op (remote_call R RPC_METHOD_NPN_GET_STRING_IDENTIFIER [Str (Some name)] [P_type RPC_TYPE_NP_IDENTIFIER])
       (\<lambda>r. ret (case r of Some [a] \<Rightarrow> as_identifier a | _ \<Rightarrow> 0))"

definition cached_NPN_GetStringIdentifier ::
  "(('h, 'c, 'z) viewer_scheme, 'c, 'y) viewer_env_scheme \<Rightarrow> (('h, 'c, 'z) viewer_scheme, np_value, 'x) rpc_env_scheme \<Rightarrow>
     byte list \<Rightarrow> (('h, 'c, 'z) viewer_scheme, cptr) op"
where
  "cached_NPN_GetStringIdentifier V R name =
     bind_op (use_npidentifier_cache V) (\<lambda>b.
       if \<not> b then invoke_NPN_GetStringIdentifier R name
       else bind_op (npidentifier_cache_has_string V name) (\<lambda>found.
         case found of
           Some ident \<Rightarrow> ret ident
         | None \<Rightarrow>
             bind_op (invoke_NPN_GetStringIdentifier R name) (\<lambda>ident.
             then_op (npidentifier_cache_reserve V 1)
             (then_op (npidentifier_cache_add_string V ident (Some name)) (ret ident)))))"

definition g_NPN_GetStringIdentifier ::
  "(('h, 'c, 'z) viewer_scheme, 'c, 'y) viewer_env_scheme \<Rightarrow> (('h, 'c, 'z) viewer_scheme, np_value, 'x) rpc_env_scheme \<Rightarrow>
     c_string \<Rightarrow> (('h, 'c, 'z) viewer_scheme, cptr) op"
where
  "g_NPN_GetStringIdentifier V R name =
     (if \<not> thread_check V then ret 0
      else (case name of None \<Rightarrow> ret 0 | Some cs \<Rightarrow> cached_NPN_GetStringIdentifier V R cs))"

text \<open>
  An array of names in the caller's memory and the array for the answers: the result is what the
  latter holds afterwards. An answer with fewer identifiers fills a part of it.
\<close>

definition invoke_NPN_GetStringIdentifiers ::
  "(('h, 'z) np_process_scheme, np_value, 'y) rpc_env_scheme \<Rightarrow> c_string list \<Rightarrow> int32 \<Rightarrow> cptr list \<Rightarrow>
     (('h, 'z) np_process_scheme, cptr list) op"
where
  "invoke_NPN_GetStringIdentifiers R names nameCount identifiers =
     bind_op (remote_call R RPC_METHOD_NPN_GET_STRING_IDENTIFIERS [Array nameCount (C_string names)]
         [P_array RPC_TYPE_NP_IDENTIFIER]) (\<lambda>r.
       case r of
         Some [a] \<Rightarrow>
           (let n = min (as_count a) nameCount;
                got = (case as_identifiers a of None \<Rightarrow> [] | Some xs \<Rightarrow> xs)
            in if unat n \<le> length identifiers \<and> unat n \<le> length got
               then ret (take (unat n) got @ drop (unat n) identifiers) else crash Out_of_bounds)
       | _ \<Rightarrow> ret identifiers)"

text \<open>The loop over the answers; \<open>nameCount\<close> is signed.\<close>

fun cache_names ::
  "(('h, 'c, 'z) viewer_scheme, 'c, 'y) viewer_env_scheme \<Rightarrow> (cptr \<times> c_string) list \<Rightarrow> (('h, 'c, 'z) viewer_scheme, unit) op"
where
  "cache_names V [] = ret ()"
| "cache_names V ((ident, name) # rest) =
     bind_op (npidentifier_cache_lookup V ident) (\<lambda>npi.
     then_op
       (if npi = None
        then then_op (npidentifier_cache_reserve V 1) (npidentifier_cache_add_string V ident name) else ret ())
       (cache_names V rest))"

definition cached_NPN_GetStringIdentifiers ::
  "(('h, 'c, 'z) viewer_scheme, 'c, 'y) viewer_env_scheme \<Rightarrow> (('h, 'c, 'z) viewer_scheme, np_value, 'x) rpc_env_scheme \<Rightarrow>
     c_string list \<Rightarrow> int32 \<Rightarrow> cptr list \<Rightarrow> (('h, 'c, 'z) viewer_scheme, cptr list) op"
where
  "cached_NPN_GetStringIdentifiers V R names nameCount identifiers =
     bind_op (invoke_NPN_GetStringIdentifiers R names nameCount identifiers) (\<lambda>idents.
     bind_op (use_npidentifier_cache V) (\<lambda>b.
       if \<not> b then ret idents
       else (let n = nat (c_int nameCount) in
         if n \<le> length idents \<and> n \<le> length names
         then then_op (cache_names V (zip (take n idents) (take n names))) (ret idents)
         else crash Out_of_bounds)))"

definition g_NPN_GetStringIdentifiers ::
  "(('h, 'c, 'z) viewer_scheme, 'c, 'y) viewer_env_scheme \<Rightarrow> (('h, 'c, 'z) viewer_scheme, np_value, 'x) rpc_env_scheme \<Rightarrow>
     c_string list option \<Rightarrow> int32 \<Rightarrow> cptr list option \<Rightarrow> (('h, 'c, 'z) viewer_scheme, cptr list option) op"
where
  "g_NPN_GetStringIdentifiers V R names nameCount identifiers =
     (if \<not> thread_check V then ret identifiers
      else (case (names, identifiers) of
              (Some ns, Some buf) \<Rightarrow>
                bind_op (cached_NPN_GetStringIdentifiers V R ns nameCount buf) (\<lambda>buf'. ret (Some buf'))
            | _ \<Rightarrow> ret identifiers))"

definition invoke_NPN_GetIntIdentifier ::
  "(('h, 'z) np_process_scheme, np_value, 'y) rpc_env_scheme \<Rightarrow> int32 \<Rightarrow> (('h, 'z) np_process_scheme, cptr) op"
where
  "invoke_NPN_GetIntIdentifier R intid =
     bind_op (remote_call R RPC_METHOD_NPN_GET_INT_IDENTIFIER [Int32 intid] [P_type RPC_TYPE_NP_IDENTIFIER])
       (\<lambda>r. ret (case r of Some [a] \<Rightarrow> as_identifier a | _ \<Rightarrow> 0))"

definition cached_NPN_GetIntIdentifier ::
  "(('h, 'c, 'z) viewer_scheme, 'c, 'y) viewer_env_scheme \<Rightarrow> (('h, 'c, 'z) viewer_scheme, np_value, 'x) rpc_env_scheme \<Rightarrow>
     int32 \<Rightarrow> (('h, 'c, 'z) viewer_scheme, cptr) op"
where
  "cached_NPN_GetIntIdentifier V R intid =
     bind_op (use_npidentifier_cache V) (\<lambda>b.
       if \<not> b then invoke_NPN_GetIntIdentifier R intid
       else bind_op (npidentifier_cache_has_int V intid) (\<lambda>found.
         case found of
           Some ident \<Rightarrow> ret ident
         | None \<Rightarrow>
             bind_op (invoke_NPN_GetIntIdentifier R intid) (\<lambda>ident.
             then_op (npidentifier_cache_reserve V 1)
             (then_op (npidentifier_cache_add_int V ident intid) (ret ident)))))"

definition g_NPN_GetIntIdentifier ::
  "(('h, 'c, 'z) viewer_scheme, 'c, 'y) viewer_env_scheme \<Rightarrow> (('h, 'c, 'z) viewer_scheme, np_value, 'x) rpc_env_scheme \<Rightarrow>
     int32 \<Rightarrow> (('h, 'c, 'z) viewer_scheme, cptr) op"
where
  "g_NPN_GetIntIdentifier V R intid =
     (if \<not> thread_check V then ret 0 else cached_NPN_GetIntIdentifier V R intid)"

definition invoke_NPN_IdentifierIsString ::
  "(('h, 'z) np_process_scheme, np_value, 'y) rpc_env_scheme \<Rightarrow> cptr \<Rightarrow> (('h, 'z) np_process_scheme, bool) op"
where
  "invoke_NPN_IdentifierIsString R ident =
     bind_op (remote_call R RPC_METHOD_NPN_IDENTIFIER_IS_STRING [np_identifier ident] [P_type RPC_TYPE_UINT32])
       (\<lambda>r. ret (answer r))"

definition cached_NPN_IdentifierIsString ::
  "(('h, 'c, 'z) viewer_scheme, 'c, 'y) viewer_env_scheme \<Rightarrow> (('h, 'c, 'z) viewer_scheme, np_value, 'x) rpc_env_scheme \<Rightarrow>
     cptr \<Rightarrow> (('h, 'c, 'z) viewer_scheme, bool) op"
where
  "cached_NPN_IdentifierIsString V R ident =
     bind_op (use_npidentifier_cache V) (\<lambda>b.
     bind_op (if b then npidentifier_cache_lookup V ident else ret None) (\<lambda>npi.
       case npi of
         Some x \<Rightarrow> ret (string_len x > 0)
       | None \<Rightarrow> invoke_NPN_IdentifierIsString R ident))"

definition g_NPN_IdentifierIsString ::
  "(('h, 'c, 'z) viewer_scheme, 'c, 'y) viewer_env_scheme \<Rightarrow> (('h, 'c, 'z) viewer_scheme, np_value, 'x) rpc_env_scheme \<Rightarrow>
     cptr \<Rightarrow> (('h, 'c, 'z) viewer_scheme, bool) op"
where
  "g_NPN_IdentifierIsString V R ident =
     (if \<not> thread_check V then ret False else cached_NPN_IdentifierIsString V R ident)"

definition invoke_NPN_UTF8FromIdentifier ::
  "(('h, 'z) np_process_scheme, np_value, 'y) rpc_env_scheme \<Rightarrow> cptr \<Rightarrow> (('h, 'z) np_process_scheme, byte list option) op"
where
  "invoke_NPN_UTF8FromIdentifier R ident =
     bind_op (remote_call R RPC_METHOD_NPN_UTF8_FROM_IDENTIFIER [np_identifier ident] [P_type RPC_TYPE_NP_UTF8])
       (\<lambda>r. ret (case r of Some [a] \<Rightarrow> as_utf8_block a | _ \<Rightarrow> None))"

definition cached_NPN_UTF8FromIdentifier ::
  "(('h, 'c, 'z) viewer_scheme, 'c, 'y) viewer_env_scheme \<Rightarrow> (('h, 'c, 'z) viewer_scheme, np_value, 'x) rpc_env_scheme \<Rightarrow>
     cptr \<Rightarrow> (('h, 'c, 'z) viewer_scheme, byte list option) op"
where
  "cached_NPN_UTF8FromIdentifier V R ident =
     bind_op (use_npidentifier_cache V) (\<lambda>b.
       if \<not> b then invoke_NPN_UTF8FromIdentifier R ident
       else bind_op (npidentifier_cache_get_string_copy V ident) (\<lambda>str.
         case str of
           Some bs \<Rightarrow> ret (Some bs)
         | None \<Rightarrow>
             bind_op (invoke_NPN_UTF8FromIdentifier R ident) (\<lambda>str.
             then_op (npidentifier_cache_reserve V 1)
             (bind_op (block_string str) (\<lambda>cs.
              then_op (npidentifier_cache_add_string V ident cs) (ret str))))))"

definition g_NPN_UTF8FromIdentifier ::
  "(('h, 'c, 'z) viewer_scheme, 'c, 'y) viewer_env_scheme \<Rightarrow> (('h, 'c, 'z) viewer_scheme, np_value, 'x) rpc_env_scheme \<Rightarrow>
     cptr \<Rightarrow> (('h, 'c, 'z) viewer_scheme, byte list option) op"
where
  "g_NPN_UTF8FromIdentifier V R ident =
     (if \<not> thread_check V then ret None else cached_NPN_UTF8FromIdentifier V R ident)"

definition invoke_NPN_IntFromIdentifier ::
  "(('h, 'z) np_process_scheme, np_value, 'y) rpc_env_scheme \<Rightarrow> cptr \<Rightarrow> (('h, 'z) np_process_scheme, int32) op"
where
  "invoke_NPN_IntFromIdentifier R ident =
     bind_op (remote_call R RPC_METHOD_NPN_INT_FROM_IDENTIFIER [np_identifier ident] [P_type RPC_TYPE_INT32])
       (\<lambda>r. ret (case r of Some [a] \<Rightarrow> as_int32 a | _ \<Rightarrow> - 1))"

definition cached_NPN_IntFromIdentifier ::
  "(('h, 'c, 'z) viewer_scheme, 'c, 'y) viewer_env_scheme \<Rightarrow> (('h, 'c, 'z) viewer_scheme, np_value, 'x) rpc_env_scheme \<Rightarrow>
     cptr \<Rightarrow> (('h, 'c, 'z) viewer_scheme, int32) op"
where
  "cached_NPN_IntFromIdentifier V R ident =
     bind_op (use_npidentifier_cache V) (\<lambda>b.
       if \<not> b then invoke_NPN_IntFromIdentifier R ident
       else bind_op (npidentifier_cache_lookup V ident) (\<lambda>npi.
         case npi of
           Some x \<Rightarrow> then_op (assert_op (string_len x = 0)) (ret (case npi_u x of NPI_int i \<Rightarrow> i | NPI_string _ \<Rightarrow> 0))
         | None \<Rightarrow>
             bind_op (invoke_NPN_IntFromIdentifier R ident) (\<lambda>i.
             then_op (npidentifier_cache_reserve V 1)
             (then_op (npidentifier_cache_add_int V ident i) (ret i)))))"

definition g_NPN_IntFromIdentifier ::
  "(('h, 'c, 'z) viewer_scheme, 'c, 'y) viewer_env_scheme \<Rightarrow> (('h, 'c, 'z) viewer_scheme, np_value, 'x) rpc_env_scheme \<Rightarrow>
     cptr \<Rightarrow> (('h, 'c, 'z) viewer_scheme, int32) op"
where
  "g_NPN_IntFromIdentifier V R ident =
     (if \<not> thread_check V then ret 0 else cached_NPN_IntFromIdentifier V R ident)"

subsection \<open>The handlers of the wrapper\<close>

text \<open>
  The functions of the browser on identifiers, \<open>mozilla_funcs\<close>; \<open>b_memfree\<close> is \<open>NPN_MemFree\<close> of a
  string.
\<close>

record 's browser_idents =
  b_getstringidentifier :: "c_string \<Rightarrow> ('s, cptr) op"
  b_getstringidentifiers :: "c_string list \<Rightarrow> int32 \<Rightarrow> ('s, cptr list) op"
  b_getintidentifier :: "int32 \<Rightarrow> ('s, cptr) op"
  b_identifierisstring :: "cptr \<Rightarrow> ('s, bool) op"
  b_utf8fromidentifier :: "cptr \<Rightarrow> ('s, c_string) op"
  b_intfromidentifier :: "cptr \<Rightarrow> ('s, int32) op"
  b_memfree :: "c_string \<Rightarrow> ('s, unit) op"
  b_has_memory :: "'s \<Rightarrow> uint32 \<Rightarrow> bool"

definition handle_NPN_GetStringIdentifier ::
  "(('h, 'z) np_process_scheme, 'b) browser_idents_scheme \<Rightarrow> (('h, 'z) np_process_scheme, np_value, 'y) rpc_env_scheme \<Rightarrow>
     (('h, 'z) np_process_scheme, int) op"
where
  "handle_NPN_GetStringIdentifier B R = return_code
     (bind_op (on_live (rpc_method_get_args R [P_type RPC_TYPE_STRING])) (\<lambda>as.
        case as of
          [a1] \<Rightarrow>
            bind_op (b_getstringidentifier B (as_string a1)) (\<lambda>ident.
              on_live (rpc_method_send_reply R [np_identifier ident]))
        | _ \<Rightarrow> misread))"

fun as_strings :: "np_value rpc_arg \<Rightarrow> c_string list option" where
  "as_strings (Array n (C_string xs)) = Some xs"
| "as_strings a = None"

text \<open>\<open>NPW_MemNew0\<close> of \<open>nameCount\<close> pointers; the size is computed in 32 bits.\<close>

definition handle_NPN_GetStringIdentifiers ::
  "(('h, 'z) np_process_scheme, 'b) browser_idents_scheme \<Rightarrow> (('h, 'z) np_process_scheme, np_value, 'y) rpc_env_scheme \<Rightarrow>
     (('h, 'z) np_process_scheme, int) op"
where
  "handle_NPN_GetStringIdentifiers B R = return_code
     (bind_op (on_live (rpc_method_get_args R [P_array RPC_TYPE_STRING])) (\<lambda>as.
        case as of
          [a1] \<Rightarrow>
            bind_op (gets (\<lambda>s. b_has_memory B s (8 * as_count a1))) (\<lambda>mem.
            bind_op
              (if mem then bind_op (b_getstringidentifiers B (case as_strings a1 of None \<Rightarrow> [] | Some xs \<Rightarrow> xs) (as_count a1))
                              (\<lambda>xs. ret (Some xs))
               else ret None) (\<lambda>idents.
              on_live (rpc_method_send_reply R [np_array RPC_TYPE_NP_IDENTIFIER NV_identifier (as_count a1) idents])))
        | _ \<Rightarrow> misread))"

definition handle_NPN_GetIntIdentifier ::
  "(('h, 'z) np_process_scheme, 'b) browser_idents_scheme \<Rightarrow> (('h, 'z) np_process_scheme, np_value, 'y) rpc_env_scheme \<Rightarrow>
     (('h, 'z) np_process_scheme, int) op"
where
  "handle_NPN_GetIntIdentifier B R = return_code
     (bind_op (on_live (rpc_method_get_args R [P_type RPC_TYPE_INT32])) (\<lambda>as.
        case as of
          [a1] \<Rightarrow>
            bind_op (b_getintidentifier B (as_int32 a1)) (\<lambda>ident.
              on_live (rpc_method_send_reply R [np_identifier ident]))
        | _ \<Rightarrow> misread))"

definition handle_NPN_IdentifierIsString ::
  "(('h, 'z) np_process_scheme, 'b) browser_idents_scheme \<Rightarrow> (('h, 'z) np_process_scheme, np_value, 'y) rpc_env_scheme \<Rightarrow>
     (('h, 'z) np_process_scheme, int) op"
where
  "handle_NPN_IdentifierIsString B R = return_code
     (bind_op (on_live (rpc_method_get_args R [P_type RPC_TYPE_NP_IDENTIFIER])) (\<lambda>as.
        case as of
          [a1] \<Rightarrow>
            bind_op (b_identifierisstring B (as_identifier a1)) (\<lambda>r.
              on_live (rpc_method_send_reply R [Uint32 (truth r)]))
        | _ \<Rightarrow> misread))"

text \<open>The string is freed whether the reply could be sent or not.\<close>

definition handle_NPN_UTF8FromIdentifier ::
  "(('h, 'z) np_process_scheme, 'b) browser_idents_scheme \<Rightarrow> (('h, 'z) np_process_scheme, np_value, 'y) rpc_env_scheme \<Rightarrow>
     (('h, 'z) np_process_scheme, int) op"
where
  "handle_NPN_UTF8FromIdentifier B R = return_code
     (bind_op (on_live (rpc_method_get_args R [P_type RPC_TYPE_NP_IDENTIFIER])) (\<lambda>as.
        case as of
          [a1] \<Rightarrow>
            bind_op (b_utf8fromidentifier B (as_identifier a1)) (\<lambda>str.
              and_finally (on_live (rpc_method_send_reply R [User RPC_TYPE_NP_UTF8 (NV_utf8 str)]))
                (b_memfree B str))
        | _ \<Rightarrow> misread))"

definition handle_NPN_IntFromIdentifier ::
  "(('h, 'z) np_process_scheme, 'b) browser_idents_scheme \<Rightarrow> (('h, 'z) np_process_scheme, np_value, 'y) rpc_env_scheme \<Rightarrow>
     (('h, 'z) np_process_scheme, int) op"
where
  "handle_NPN_IntFromIdentifier B R = return_code
     (bind_op (on_live (rpc_method_get_args R [P_type RPC_TYPE_NP_IDENTIFIER])) (\<lambda>as.
        case as of
          [a1] \<Rightarrow>
            bind_op (b_intfromidentifier B (as_identifier a1)) (\<lambda>r.
              on_live (rpc_method_send_reply R [Int32 r]))
        | _ \<Rightarrow> misread))"

end
