(* ===== verification/Np_Exchange.thy ===== *)
theory Np_Exchange
  imports Np_Identifiers
begin

text \<open>
  One exchange between the two processes: a remote call in one, its request dispatched in the other, and
  the answer. The rules compose an exchange from the arguments sent and received on either side; with
  them, identifiers made by the browser reach the plugin as numbers the browser can read back.
\<close>

subsection \<open>Exchanges\<close>

text \<open>
  \<open>m\<close>, run in \<open>c\<close> with the answer of the other process at hand, returns \<open>v\<close>; the other process, given
  the request, dispatches a call of \<open>mid\<close> and sends that answer. Nothing is left unread.
\<close>

definition exchange ::
  "(('h, 'y) np_process_scheme, 'u, 'x) rpc_env_scheme \<Rightarrow> int \<Rightarrow> (('h, 'z) np_process_scheme, 'a) op \<Rightarrow>
     ('h, 'z) np_process_scheme \<Rightarrow> ('h, 'y) np_process_scheme \<Rightarrow> 'a \<Rightarrow>
     ('h, 'z) np_process_scheme \<Rightarrow> ('h, 'y) np_process_scheme \<Rightarrow> bool"
where
  "exchange R mid m c s v c' s' \<longleftrightarrow> (\<exists>request answer.
     m (c\<lparr>rx_queue := answer\<rparr>) = (Ok v, c') \<and> tx_wire c' = request \<and> rx_queue c' = [] \<and>
     rpc_dispatch R (s\<lparr>rx_queue := request\<rparr>) = (Ok mid, s') \<and> tx_wire s' = answer \<and> rx_queue s' = [])"

lemma exchange_calls:
  assumes Rs: "Rs = np_rpc_env Es visualid ptr32 cms ces"
    and c: "calm c" "np_inv Mc F c" "tx_wire c = []" and s: "calm s" "np_inv Ms G s" "tx_wire s = []"
    and client: "talks (np_inv Mc F) m ans (enc_request mid req) v (np_inv Mc F')"
    and handler: "Ms mid = Some cb" "int32_range mid" "0 \<le> mid"
      "talks (np_inv Ms (G\<lparr>dispatch_depth := dispatch_depth G + 1\<rparr>)) (cms cb) req ans RPC_ERROR_NO_ERROR
         (np_inv Ms (G'\<lparr>dispatch_depth := dispatch_depth G' + 1\<rparr>))"
  shows "\<exists>c' s'. exchange Rs mid m c s v c' s' \<and> np_inv Mc F' c' \<and> np_inv Ms G' s'"
proof -
  have "call_method Rs cb = cms cb" by (simp add: Rs np_rpc_env_def fptrs.defs)
  with handler(4) have "talks (np_inv Ms (G\<lparr>dispatch_depth := dispatch_depth G + 1\<rparr>)) (call_method Rs cb) req ans
      RPC_ERROR_NO_ERROR (np_inv Ms (G'\<lparr>dispatch_depth := dispatch_depth G' + 1\<rparr>))" by simp
  then have server: "talks (np_inv Ms G) (rpc_dispatch Rs) (enc_request mid req) ans mid (np_inv Ms G')"
    unfolding Rs enc_request_def using handler(1-3)
    by (intro np_peer.talks_dispatch [where cb = cb and M = Ms])
  obtain c' where "m (c\<lparr>rx_queue := ans\<rparr>) = (Ok v, c')" "tx_wire c' = enc_request mid req" "rx_queue c' = []"
    "np_inv Mc F' c'"
    using talksD [OF client, of "c\<lparr>rx_queue := ans\<rparr>" "[]"] conn_inv_deliver [OF c(1,2)] c(3) by auto
  moreover obtain s' where "rpc_dispatch Rs (s\<lparr>rx_queue := enc_request mid req\<rparr>) = (Ok mid, s')"
    "tx_wire s' = ans" "rx_queue s' = []" "np_inv Ms G' s'"
    using talksD [OF server, of "s\<lparr>rx_queue := enc_request mid req\<rparr>" "[]"] conn_inv_deliver [OF s(1,2)] s(3)
    by auto
  ultimately show ?thesis unfolding exchange_def by blast
qed

lemma chain_not_empty:
  "arg_chain E J as bs J' \<Longrightarrow> as \<noteq> [] \<Longrightarrow> \<not> no_args as"
  "param_chain E J ps rbs rs J' \<Longrightarrow> ps \<noteq> [] \<Longrightarrow> \<not> no_params ps"
  by (auto elim: arg_chain.cases param_chain.cases simp: no_args_def no_params_def)

text \<open>The caller's side of an exchange whose arguments and results change nothing but the connection.\<close>

lemma talks_remote_call_plain:
  assumes R: "R = np_rpc_env E visualid ptr32 cm ce" and F: "may_call F"
    and args: "arg_chain (np_ptrs E visualid ptr32 cm ce) (np_inv M (F\<lparr>invoke_depth := invoke_depth F + 1\<rparr>)) args bs
      (np_inv M (F\<lparr>invoke_depth := invoke_depth F + 1\<rparr>))" "args \<noteq> []"
    and reply: "param_chain (np_ptrs E visualid ptr32 cm ce) (np_inv M (F\<lparr>invoke_depth := invoke_depth F + 1\<rparr>)) ps rbs as
      (np_inv M (F\<lparr>invoke_depth := invoke_depth F + 1\<rparr>))" "ps \<noteq> []"
  shows "talks (np_inv M F) (remote_call R mid args ps) (enc_answer (enc_list rbs)) (enc_request mid (enc_list bs))
     (Some as) (np_inv M F)"
proof -
  have "talks (np_inv M F) (remote_call R mid args ps) (enc_answer (enc_list rbs)) (enc_request mid (enc_list bs))
     (Some as) (np_inv M ((F\<lparr>invoke_depth := invoke_depth F + 1\<rparr>)
        \<lparr>invoke_depth := invoke_depth (F\<lparr>invoke_depth := invoke_depth F + 1\<rparr>) - 1\<rparr>))"
    by (rule talks_remote_call [OF R F])
      (use puts_args [OF args] msg_talks_args [OF reply] F chain_not_empty(1) [OF args] chain_not_empty(2) [OF reply]
        in \<open>simp_all add: R may_call_def\<close>)
  then show ?thesis by simp
qed

text \<open>The handler's side: the arguments, the body and the reply.\<close>

lemma talks_handler:
  assumes R: "R = np_rpc_env E visualid ptr32 cm ce" and F: "status F \<noteq> RPC_STATUS_CLOSED"
    and args: "param_chain (np_ptrs E visualid ptr32 cm ce) (np_inv M (F\<lparr>handle_depth := handle_depth F + 1\<rparr>)) ps bs as
      (np_inv M F1)" "ps \<noteq> []"
    and body: "talks (np_inv M F1) (f as) a b () (np_inv M F2)"
  shows "talks (np_inv M F) (return_code (bind_op (on_live (rpc_method_get_args R ps)) f)) (enc_list bs @ a) b
     RPC_ERROR_NO_ERROR (np_inv M F2)"
  unfolding R
  by (rule talks_return_code, rule talks_bind_in [where f = f, OF np_peer.talks_get_args [OF msg_talks_args [OF args] F] body])

lemma talks_reply:
  assumes R: "R = np_rpc_env E visualid ptr32 cm ce" and F: "status F \<noteq> RPC_STATUS_CLOSED"
    and args: "arg_chain (np_ptrs E visualid ptr32 cm ce) (np_inv M F) args bs (np_inv M F')" "args \<noteq> []"
  shows "talks (np_inv M F) (on_live (rpc_method_send_reply R args)) [] (enc_answer (enc_list bs)) ()
     (np_inv M (F'\<lparr>handle_depth := handle_depth F' - 1\<rparr>))"
  using np_peer.talks_send_reply [OF puts_args [OF args] F] by (simp add: R enc_answer_def)

subsection \<open>Identifiers\<close>

text \<open>Sending an identifier gives it a number, a new one the first time.\<close>

lemma export_identifier:
  assumes H: "hash_table (hash E) tbl" and E: "\<not> is_plugin E" "name \<noteq> 0"
    and ids: "ids_ok tbl (ids F)" "g_ids (ids F) \<noteq> None" "c_int (last_id (ids F)) < 2 ^ 31 - 1"
  obtains k t where "k \<noteq> 0" "id_abs tbl t k = Some name" "ids_ok tbl t"
    "\<forall>j p. id_abs tbl (ids F) j = Some p \<longrightarrow> id_abs tbl t j = Some p"
    "\<And>s. ids s = ids F \<Longrightarrow> export_NPIdentifier E name s = (Ok k, s\<lparr>ids := t\<rparr>)"
proof (cases "\<exists>j. id_abs tbl (ids F) j = Some name")
  case True
  then obtain j where j: "id_abs tbl (ids F) j = Some name" by blast
  let ?i = "id_lookup_value (hash E) name (ids F)"
  have i: "0 < ?i" "id_abs tbl (ids F) (to_int32 ?i) = Some name"
    using hash_table.lookup_value_found [OF H ids(1) j] by simp_all
  have "to_int32 ?i \<noteq> 0"
  proof
    assume "to_int32 ?i = 0"
    with i(2) obtain h where h: "g_ids (ids F) = Some h" "id_key 0 \<in> dom (tbl h)"
      by (auto simp: id_abs_def split: option.splits)
    with ids(1) have "\<forall>k\<in>dom (tbl h). \<exists>i. k = id_key i \<and> 0 < c_int i" by (auto simp: ids_ok_def)
    with h(2) obtain j where "id_key 0 = id_key j" "0 < c_int j" by blast
    then show False unfolding id_key_inj by auto
  qed
  with E i show thesis
    by (intro that [of "to_int32 ?i" "ids F"]) (simp_all add: ids export_NPIdentifier_def op_simps)
next
  case False
  have miss: "id_lookup_value (hash E) name (ids F) = - 1"
  proof (rule hash_table.lookup_value_missing [OF H])
    fix h k
    assume h: "g_ids (ids F) = Some h"
    show "tbl h k \<noteq> Some name"
    proof
      assume k: "tbl h k = Some name"
      with ids(1) h obtain i where "k = id_key i" unfolding ids_ok_def by auto
      with False h k show False by (simp add: id_abs_def)
    qed
  qed
  obtain k t where run: "id_create (hash E) name (ids F) = (k, t)" by (metis prod.exhaust)
  note new = hash_table.create_abs [OF H ids run]
  have "k \<noteq> 0" using new(1) by auto
  with E new miss run show thesis
    by (intro that [of k t]) (auto simp: export_NPIdentifier_def op_simps)
qed

text \<open>A call that asks the browser for an identifier: the request has one built-in argument \<open>a\<close>.\<close>

definition one_arg :: "(cptr \<Rightarrow> ulong) \<Rightarrow> np_value rpc_arg \<Rightarrow> byte list" where
  "one_arg visualid a = enc_marker (arg_type a) @ enc_arg (np_enc visualid) a @ []"

definition one_ident :: "uint32 \<Rightarrow> byte list" where
  "one_ident k = enc_marker RPC_TYPE_NP_IDENTIFIER @ htonl k @ []"

lemma talks_ask_identifier:
  assumes R: "R = np_rpc_env E visualid ptr32 cm ce" and F: "may_call F" and E: "is_plugin E" "k \<noteq> 0"
    and a: "wf_arg np_types (np_wf ptr32) a"
  shows "talks (np_inv M F) (bind_op (remote_call R mid [a] [P_type RPC_TYPE_NP_IDENTIFIER])
      (\<lambda>r. ret (case r of Some [a] \<Rightarrow> as_identifier a | _ \<Rightarrow> 0)))
    (enc_answer (enc_list (one_ident k))) (enc_request mid (enc_list (one_arg visualid a))) (id_key k) (np_inv M F)"
proof -
  let ?F = "F\<lparr>invoke_depth := invoke_depth F + 1\<rparr>"
  have E': "is_plugin (np_env.truncate E)" using E(1) by (simp add: np_env.defs)
  have ident: "msg_talks (np_inv M ?F) (np_recv E ptr32 RPC_TYPE_NP_IDENTIFIER) (htonl k) []
      (NV_identifier (id_key k)) (np_inv M ?F)"
    using msg_talks_bind_last [OF recv_plugin_identifier [OF E' E(2)] msg_talks_ret, of np_types M ?F NV_identifier]
    by (simp add: np_recv_def then_make_def)
  have "talks (np_inv M F) (remote_call R mid [a] [P_type RPC_TYPE_NP_IDENTIFIER])
      (enc_answer (enc_list (one_ident k))) (enc_request mid (enc_list (one_arg visualid a)))
      (Some [np_identifier (id_key k)]) (np_inv M F)"
    unfolding one_ident_def one_arg_def
    by (rule talks_remote_call_plain [OF R F args_plain [OF a args_end] _ params_user [OF ident _ _ params_end]]) simp_all
  then show ?thesis by (rule talks_bind_last) (simp add: talks_ret)
qed

lemma talks_give_identifier:
  assumes R: "R = np_rpc_env E visualid ptr32 cm ce" and F: "status F \<noteq> RPC_STATUS_CLOSED"
    and p: "expected_type p = arg_type a" and a: "wf_arg np_types (np_wf ptr32) a"
    and g: "\<And>s. g (view_arg (np_view visualid) a) s = (Ok name, s)"
    and ident: "\<And>M F'. ids F' = ids F \<Longrightarrow>
      puts (np_inv M F') (do_send_NPIdentifier (np_env.truncate E) name) (htonl k) (np_inv M (F'\<lparr>ids := t\<rparr>))"
  shows "talks (np_inv M F)
    (return_code (bind_op (on_live (rpc_method_get_args R [p])) (\<lambda>as. case as of
        [a1] \<Rightarrow> bind_op (g a1) (\<lambda>ident. on_live (rpc_method_send_reply R [np_identifier ident])) | _ \<Rightarrow> misread)))
    (enc_list (one_arg visualid a)) (enc_answer (enc_list (one_ident k))) RPC_ERROR_NO_ERROR (np_inv M (F\<lparr>ids := t\<rparr>))"
proof -
  let ?F = "F\<lparr>handle_depth := handle_depth F + 1\<rparr>"
  have "talks (np_inv M ?F) (g (view_arg (np_view visualid) a)) [] [] name (np_inv M ?F)"
    by (rule talks_pure) (simp add: g)
  moreover have send: "puts (np_inv M ?F) (np_send E visualid RPC_TYPE_NP_IDENTIFIER (NV_identifier name)) (htonl k)
      (np_inv M (?F\<lparr>ids := t\<rparr>))"
    using ident [of ?F M] by simp
  have "talks (np_inv M ?F) (on_live (rpc_method_send_reply R [np_identifier name])) []
      (enc_answer (enc_list (one_ident k))) () (np_inv M ((?F\<lparr>ids := t\<rparr>)\<lparr>handle_depth := handle_depth (?F\<lparr>ids := t\<rparr>) - 1\<rparr>))"
    unfolding one_ident_def
    by (rule talks_reply [OF R _ args_user [OF send _ _ args_end]]) (use F in simp_all)
  ultimately have body: "talks (np_inv M ?F) (bind_op (g (view_arg (np_view visualid) a))
      (\<lambda>ident. on_live (rpc_method_send_reply R [np_identifier ident]))) ([] @ []) ([] @ enc_answer (enc_list (one_ident k))) ()
      (np_inv M (F\<lparr>ids := t\<rparr>))"
    by (intro talks_bind [where ?J1.0 = "np_inv M ?F" and x = name]) simp_all
  have "talks (np_inv M F)
    (return_code (bind_op (on_live (rpc_method_get_args R [p])) (\<lambda>as. case as of
        [a1] \<Rightarrow> bind_op (g a1) (\<lambda>ident. on_live (rpc_method_send_reply R [np_identifier ident])) | _ \<Rightarrow> misread)))
    (enc_list (enc_marker (arg_type a) @ enc_arg (np_enc visualid) a @ []) @ []) (enc_answer (enc_list (one_ident k)))
    RPC_ERROR_NO_ERROR (np_inv M (F\<lparr>ids := t\<rparr>))"
    by (rule talks_handler [OF R F params_plain [OF a p params_end]]) (use body in simp_all)
  then show ?thesis by (simp add: one_arg_def)
qed

lemma ask_identifier_exchange:
  assumes Rc: "Rc = np_rpc_env Ec visualid ptr32 cmc cec" and Rs: "Rs = np_rpc_env Es visualid ptr32 cms ces"
    and sides: "is_plugin Ec" "\<not> is_plugin Es" "hash_table (hash Es) tbl"
    and c: "calm c" "np_inv Mc F c" "tx_wire c = []" "may_call F"
    and s: "calm s" "np_inv Ms G s" "tx_wire s = []" "status G \<noteq> RPC_STATUS_CLOSED" "ids_ok tbl (ids G)"
      "g_ids (ids G) \<noteq> None" "c_int (last_id (ids G)) < 2 ^ 31 - 1"
    and handler: "Ms mid = Some cb" "int32_range mid" "0 \<le> mid" "cms cb =
      return_code (bind_op (on_live (rpc_method_get_args Rs [p])) (\<lambda>as. case as of
        [a1] \<Rightarrow> bind_op (g a1) (\<lambda>ident. on_live (rpc_method_send_reply Rs [np_identifier ident])) | _ \<Rightarrow> misread))"
    and a: "expected_type p = arg_type a" "wf_arg np_types (np_wf ptr32) a"
    and g: "\<And>s'. g (view_arg (np_view visualid) a) s' = (Ok name, s')" "name \<noteq> 0"
  shows "\<exists>k c' s'.
    exchange Rs mid (bind_op (remote_call Rc mid [a] [P_type RPC_TYPE_NP_IDENTIFIER])
      (\<lambda>r. ret (case r of Some [a] \<Rightarrow> as_identifier a | _ \<Rightarrow> 0))) c s (id_key k) c' s' \<and>
    k \<noteq> 0 \<and> id_lookup (hash Es) k (ids s') = name \<and> ids_ok tbl (ids s') \<and>
    (\<forall>j q. id_abs tbl (ids G) j = Some q \<longrightarrow> id_abs tbl (ids s') j = Some q) \<and> np_inv Mc F c'"
proof -
  have Es: "hash (np_env.truncate Es) = hash Es" "\<not> is_plugin (np_env.truncate Es)"
    using sides(2) by (simp_all add: np_env.defs)
  obtain k t where kt: "k \<noteq> 0" "id_abs tbl t k = Some name" "ids_ok tbl t"
    "\<forall>j q. id_abs tbl (ids G) j = Some q \<longrightarrow> id_abs tbl t j = Some q"
    and run: "\<And>s. ids s = ids G \<Longrightarrow> export_NPIdentifier (np_env.truncate Es) name s = (Ok k, s\<lparr>ids := t\<rparr>)"
    using export_identifier [OF sides(3) [folded Es(1)] Es(2) g(2) s(5-7)] by metis
  let ?G = "G\<lparr>dispatch_depth := dispatch_depth G + 1\<rparr>"
  have puts: "puts (np_inv M F') (do_send_NPIdentifier (np_env.truncate Es) name) (htonl k) (np_inv M (F'\<lparr>ids := t\<rparr>))"
    if "ids F' = ids ?G" for M F'
  proof -
    have "talks (np_inv M F') (export_NPIdentifier (np_env.truncate Es) name) [] [] k (np_inv M (F'\<lparr>ids := t\<rparr>))"
      by (rule talks_heap [OF heap_only_updates(7)]) (use run that in \<open>simp add: np_inv_heap\<close>)
    from puts_on_io_bind [OF this puts_word] show ?thesis by (simp add: do_send_NPIdentifier_def)
  qed
  have server: "talks (np_inv Ms ?G) (cms cb) (enc_list (one_arg visualid a)) (enc_answer (enc_list (one_ident k)))
      RPC_ERROR_NO_ERROR (np_inv Ms (?G\<lparr>ids := t\<rparr>))"
    unfolding handler(4)
    by (rule talks_give_identifier [where g = g and a = a and name = name and k = k and t = t, OF Rs])
      (use s(4) a g(1) puts in simp_all)
  let ?G' = "G\<lparr>ids := t\<rparr>"
  have upd: "?G\<lparr>ids := t\<rparr> = ?G'\<lparr>dispatch_depth := dispatch_depth ?G' + 1\<rparr>" by simp
  from exchange_calls [OF Rs c(1-3) s(1-3) talks_ask_identifier [OF Rc c(4) sides(1) kt(1) a(2), of Mc mid]
      handler(1-3) server [unfolded upd]]
  obtain c' s' where x: "exchange Rs mid (bind_op (remote_call Rc mid [a] [P_type RPC_TYPE_NP_IDENTIFIER])
      (\<lambda>r. ret (case r of Some [a] \<Rightarrow> as_identifier a | _ \<Rightarrow> 0))) c s (id_key k) c' s'"
    "np_inv Mc F c'" "np_inv Ms (G\<lparr>ids := t\<rparr>) s'" by blast
  from x(3) have "ids s' = t" by (simp add: np_inv_heap)
  with x(1,2) kt show ?thesis
    by (intro exI [of _ k] exI [of _ c'] exI [of _ s']) (simp add: hash_table.lookup_abs [OF sides(3)])
qed

text \<open>
  C11. \<open>NPN_GetStringIdentifier\<close> gives the plugin a name for the browser's identifier: the remote call,
  dispatched in the browser, asks the browser for the identifier of the same string and answers with a
  number, made on the first use and kept afterwards; when the plugin sends the identifier it got back, the
  browser finds the identifier it had meant, and earlier numbers still mean what they meant.
\<close>

theorem NPN_GetStringIdentifier_correct:
  assumes Rc: "Rc = np_rpc_env Ec visualid ptr32 cmc cec" and Rs: "Rs = np_rpc_env Es visualid ptr32 cms ces"
    and sides: "is_plugin Ec" "\<not> is_plugin Es" "hash_table (hash Es) tbl"
    and c: "calm c" "np_inv Mc F c" "tx_wire c = []" "may_call F"
    and s: "calm s" "np_inv Ms G s" "tx_wire s = []" "status G \<noteq> RPC_STATUS_CLOSED" "ids_ok tbl (ids G)"
      "g_ids (ids G) \<noteq> None" "c_int (last_id (ids G)) < 2 ^ 31 - 1"
    and handler: "Ms RPC_METHOD_NPN_GET_STRING_IDENTIFIER = Some cb" "cms cb = handle_NPN_GetStringIdentifier B Rs"
    and browser: "\<And>s'. b_getstringidentifier B (Some str) s' = (Ok name, s')" "name \<noteq> 0" "length str < 2 ^ 31 - 1"
  shows "\<exists>k c' s'.
    exchange Rs RPC_METHOD_NPN_GET_STRING_IDENTIFIER (invoke_NPN_GetStringIdentifier Rc str) c s (id_key k) c' s' \<and>
    k \<noteq> 0 \<and> id_lookup (hash Es) k (ids s') = name \<and> ids_ok tbl (ids s') \<and>
    (\<forall>j q. id_abs tbl (ids G) j = Some q \<longrightarrow> id_abs tbl (ids s') j = Some q) \<and> np_inv Mc F c'"
  unfolding invoke_NPN_GetStringIdentifier_def
  by (rule ask_identifier_exchange [where a = "Str (Some str)" and name = name and
        g = "\<lambda>a. b_getstringidentifier B (as_string a)",
        OF Rc Rs sides c s handler(1) _ _ handler(2) [unfolded handle_NPN_GetStringIdentifier_def]])
    (use browser in \<open>simp_all add: int32_range_def wf_string_def\<close>)

text \<open>A process with one method, at address 70.\<close>

lemma np_server_exists:
  obtains s :: "(cptr \<times> cptr) list np_process" where "calm s" "np_inv [mid \<mapsto> 70] (frame empty_process) s"
    "tx_wire s = []"
proof -
  obtain s0 :: "(cptr \<times> cptr) list np_process" where
    s0: "calm s0" "conn_inv np_types Map.empty (frame s0) s0" "tx_wire s0 = []" "frame s0 = frame empty_process"
    by (rule np_process_exists)
  define m where "m = snd (rpc_map_insert True zero_entry
    \<lparr>n_entries = 0, n_entries_max = 0, entries = None, destroy_func = NULL\<rparr> mid (70 :: code_ptr))"
  have m: "rpc_map_ok m" "rpc_map_abs m = [mid \<mapsto> 70]"
    unfolding m_def using rpc_map_insert_correct(2,3) [OF empty_map_ok(1)] by (simp_all add: empty_map_ok)
  show thesis
    by (rule that [of "s0\<lparr>methods := Some m\<rparr>"]) (use s0 methods_changed [OF s0(2) m] in \<open>simp_all add: calm_def\<close>)
qed

lemma np_frame_facts:
  "may_call (frame empty_process)" "status (frame empty_process) = RPC_STATUS_ACTIVE"
  "ids (frame empty_process) = \<lparr>g_ids = Some [], last_id = 0\<rparr>"
  by (simp_all add: may_call_def frame_def empty_process_def rpc_connection.defs sample_defs connect_first)

lemma np_rpc_env_call_method:
  "np_rpc_env E visualid ptr32 cm ce = (np_rpc_env E visualid ptr32 cm' ce)\<lparr>call_method := cm\<rparr>"
  by (simp add: np_rpc_env_def fptrs.defs)

lemma browser_env_facts: "\<not> is_plugin browser_env" "hash_table (hash browser_env) map_of"
  using alist.hash_table_axioms by (simp_all add: browser_env_def dummy_env_def np_env.defs)

definition browser_with_ident :: "(cptr \<times> cptr) list np_process browser_idents" where
  "browser_with_ident = \<lparr>b_getstringidentifier = (\<lambda>_. ret 256), b_getstringidentifiers = (\<lambda>_ _. ret []),
     b_getintidentifier = (\<lambda>_. ret 512), b_identifierisstring = (\<lambda>_. ret True), b_utf8fromidentifier = (\<lambda>_. ret None),
     b_intfromidentifier = (\<lambda>_. ret 0), b_memfree = (\<lambda>_. ret ()), b_has_memory = (\<lambda>_ _. True)\<rparr>"

theorem NPN_GetStringIdentifier_correct_witness:
  "\<exists>(c :: (cptr \<times> cptr) list np_process) (s :: (cptr \<times> cptr) list np_process)
      (Rc :: ((cptr \<times> cptr) list np_process, np_value) rpc_env)
      (Rs :: ((cptr \<times> cptr) list np_process, np_value) rpc_env) k c' s'.
    exchange Rs RPC_METHOD_NPN_GET_STRING_IDENTIFIER (invoke_NPN_GetStringIdentifier Rc [102, 111, 111]) c s (id_key k) c' s' \<and>
    k \<noteq> 0 \<and> id_lookup (hash browser_env) k (ids s') = 256"
proof -
  obtain c :: "(cptr \<times> cptr) list np_process" where
    c: "calm c" "conn_inv np_types Map.empty (frame c) c" "tx_wire c = []" "frame c = frame empty_process"
    by (rule np_process_exists)
  obtain s :: "(cptr \<times> cptr) list np_process" where
    s: "calm s" "np_inv [RPC_METHOD_NPN_GET_STRING_IDENTIFIER \<mapsto> 70] (frame empty_process) s" "tx_wire s = []"
    by (rule np_server_exists)
  let ?ce = "\<lambda>_ _. ret ()" and ?v = "\<lambda>_. 0"
  let ?cm = "\<lambda>_. handle_NPN_GetStringIdentifier browser_with_ident (np_rpc_env browser_env ?v False (\<lambda>_. ret 0) ?ce)"
  let ?Rs = "np_rpc_env browser_env ?v False ?cm ?ce" and ?Rc = "np_rpc_env plugin_env ?v False (\<lambda>_. ret 0) ?ce"
  have handler: "?cm 70 = handle_NPN_GetStringIdentifier browser_with_ident ?Rs"
    unfolding np_rpc_env_call_method [of browser_env ?v False ?cm ?ce "\<lambda>_. ret 0"]
    by (simp only: handle_NPN_GetStringIdentifier_def call_method_irrelevant)
  have ok: "ids_ok map_of (ids (frame empty_process))" "g_ids (ids (frame empty_process)) \<noteq> None"
    "c_int (last_id (ids (frame empty_process))) < 2 ^ 31 - 1"
    by (simp_all add: np_frame_facts ids_ok_def)
  have browser: "b_getstringidentifier browser_with_ident (Some [102, 111, 111]) s' = (Ok 256, s')" for s'
    by (simp add: browser_with_ident_def ret_apply)
  have "\<exists>k c' s'. exchange ?Rs RPC_METHOD_NPN_GET_STRING_IDENTIFIER (invoke_NPN_GetStringIdentifier ?Rc [102, 111, 111])
        c s (id_key k) c' s' \<and>
    k \<noteq> 0 \<and> id_lookup (hash browser_env) k (ids s') = 256 \<and> ids_ok map_of (ids s') \<and>
    (\<forall>j q. id_abs map_of (ids (frame empty_process)) j = Some q \<longrightarrow> id_abs map_of (ids s') j = Some q) \<and>
    np_inv Map.empty (frame empty_process) c'"
    by (rule NPN_GetStringIdentifier_correct [OF refl refl plugin_env_facts(1) browser_env_facts c(1) _ c(3) np_frame_facts(1)
          s _ ok _ handler browser])
      (use c(2,4) np_frame_facts in simp_all)
  then show ?thesis by blast
qed

end
