(* ===== verification/Np_Idcache.thy ===== *)
theory Np_Idcache
  imports Np_Exchange
begin

text \<open>
  The identifier cache of the viewer gives the answers the browser would give: as long as its entries
  are true of the browser's identifiers, a cached call is equivalent to the remote call it saves, and
  the entries stay true. Where the browser has no answer, the cache is not harmless.
\<close>

subsection \<open>Truth of the cache\<close>

text \<open>
  \<open>means\<close> is the browser's assignment of identifiers to strings (with their terminating zero) and
  integers. An entry is true if it says what its key means, with the length to match.
\<close>

definition true_info :: "(cptr \<Rightarrow> npi_value option) \<Rightarrow> cptr \<Rightarrow> NPIdentifierInfo \<Rightarrow> bool" where
  "true_info means k npi \<longleftrightarrow> means k = Some (npi_u npi) \<and>
     (case npi_u npi of
        NPI_int i \<Rightarrow> string_len npi = 0
      | NPI_string bs \<Rightarrow> bs \<noteq> [] \<and> length bs < 2 ^ 32 \<and> string_len npi = of_nat (length bs))"

definition coherent ::
  "('c \<Rightarrow> cptr \<Rightarrow> NPIdentifierInfo option) \<Rightarrow> (cptr \<Rightarrow> npi_value option) \<Rightarrow> ('h, 'c, 'z) viewer_scheme \<Rightarrow> bool"
where
  "coherent tbl means s \<longleftrightarrow>
     (case g_npidentifier_cache s of
        None \<Rightarrow> True
      | Some h \<Rightarrow> \<forall>k npi. tbl h k = Some npi \<longrightarrow> true_info means k npi)"

text \<open>The static flag of \<open>npruntime_use_cache\<close>, set at the first call.\<close>

definition settle_cache :: "('s, 'c, 'y) viewer_env_scheme \<Rightarrow> ('h, 'c, 'z) viewer_scheme \<Rightarrow> ('h, 'c, 'z) viewer_scheme" where
  "settle_cache V s = (if use_cache s < 0
     then s\<lparr>use_cache := if get_use_npruntime_cache_env (v_getenv V) then 1 else 0\<rparr> else s)"

lemma settle_cache_simps [simp]:
  "g_npidentifier_cache (settle_cache V s) = g_npidentifier_cache s"
  "coherent tbl means (settle_cache V s) = coherent tbl means s"
  by (simp_all add: settle_cache_def coherent_def)

lemma use_npidentifier_cache_run:
  "use_npidentifier_cache V s = (Ok (use_cache (settle_cache V s) \<noteq> 0), settle_cache V s)"
  by (simp add: use_npidentifier_cache_def npruntime_use_cache_def settle_cache_def Let_def)

lemma coherent_cong: "g_npidentifier_cache s' = g_npidentifier_cache s \<Longrightarrow> coherent tbl means s' = coherent tbl means s"
  by (simp add: coherent_def)

lemma coherentD:
  "coherent tbl means s \<Longrightarrow> g_npidentifier_cache s = Some h \<Longrightarrow> tbl h k = Some npi \<Longrightarrow> true_info means k npi"
  by (simp add: coherent_def)

lemma true_int: "means k = Some (NPI_int i) \<Longrightarrow> true_info means k \<lparr>string_len = 0, npi_u = NPI_int i\<rparr>"
  by (simp add: true_info_def)

lemma true_string:
  "means k = Some (NPI_string (cs @ [0])) \<Longrightarrow> length cs + 1 < 2 ^ 32 \<Longrightarrow>
     true_info means k \<lparr>string_len = of_nat (length cs) + 1, npi_u = NPI_string (cs @ [0])\<rparr>"
  by (simp add: true_info_def)

context ident_table
begin

lemma put_cache_run: "put_cache t s = (Ok (), s\<lparr>g_npidentifier_cache := t\<rparr>)"
  by (simp add: put_cache_def op_simps)

lemma put_fresh_coherent:
  "tbl h = Map.empty \<Longrightarrow> \<exists>s'. put_cache (Some h) s = (Ok (), s') \<and> coherent tbl means s'"
  by (simp add: put_cache_run coherent_def)

lemma create_coherent:
  "T = idents V \<Longrightarrow> \<exists>s'. npidentifier_cache_create V s = (Ok (), s') \<and> coherent tbl means s'"
  unfolding npidentifier_cache_create_def by (rule put_fresh_coherent) (use new_law in simp)

lemma invalidate_coherent:
  assumes "T = idents V" "g_npidentifier_cache s = Some h"
  shows "\<exists>s'. npidentifier_cache_invalidate V s = (Ok (), s') \<and> coherent tbl means s'"
proof (cases "have_table_remove_all V")
  case True
  have "tbl (ic_remove_all (idents V) h) = Map.empty" using remove_all_law assms(1) by simp
  from put_fresh_coherent [OF this] True assms(2) show ?thesis
    by (simp add: npidentifier_cache_invalidate_def op_simps)
next
  case False
  then show ?thesis
    using create_coherent [OF assms(1)]
    by (simp add: npidentifier_cache_invalidate_def npidentifier_cache_destroy_def put_cache_run then_op_Ok)
qed

lemma reserve_some:
  assumes "T = idents V" "coherent tbl means s" "g_npidentifier_cache s = Some h"
  shows "\<exists>s'. (if ic_count (idents V) h + n > NPIDENTIFIER_CACHE_SIZE then npidentifier_cache_invalidate V else ret ()) s =
    (Ok (), s') \<and> coherent tbl means s'"
  using invalidate_coherent [OF assms(1,3)] assms(2) by (simp add: op_simps)

lemma reserve_coherent:
  assumes "T = idents V" "coherent tbl means s"
  shows "\<exists>s'. npidentifier_cache_reserve V n s = (Ok (), s') \<and> coherent tbl means s'"
proof (cases "g_npidentifier_cache s")
  case (Some h)
  with reserve_some [OF assms Some, of n] show ?thesis
    by (simp add: npidentifier_cache_reserve_def op_simps)
next
  case None
  let ?s = "s\<lparr>g_npidentifier_cache := Some (ic_new (idents V))\<rparr>"
  have "coherent tbl means ?s" using assms(1) new_law by (simp add: coherent_def)
  from reserve_some [OF assms(1) this, of "ic_new (idents V)" n] None show ?thesis
    by (simp add: npidentifier_cache_reserve_def npidentifier_cache_create_def put_cache_run then_op_Ok bind_op_Ok gets_apply)
qed

lemma reserve_makes:
  assumes "T = idents V"
  shows "\<exists>s' h. npidentifier_cache_reserve V n s = (Ok (), s') \<and> g_npidentifier_cache s' = Some h"
proof (cases "g_npidentifier_cache s")
  case None
  then show ?thesis
    by (auto simp: npidentifier_cache_reserve_def npidentifier_cache_invalidate_def npidentifier_cache_create_def
        npidentifier_cache_destroy_def put_cache_run then_op_Ok op_simps)
next
  case (Some h)
  then show ?thesis
    by (auto simp: npidentifier_cache_reserve_def npidentifier_cache_invalidate_def npidentifier_cache_create_def
        npidentifier_cache_destroy_def put_cache_run then_op_Ok op_simps)
qed

lemma insert_coherent:
  assumes "T = idents V" "coherent tbl means s" "true_info means k npi"
  shows "\<exists>s'. insert_info V k npi s = (Ok (), s') \<and> coherent tbl means s'"
  using assms(2,3) insert_law [unfolded assms(1)]
  by (auto simp: insert_info_def op_simps coherent_def split: option.splits if_splits)

lemma add_int_coherent:
  assumes "T = idents V" "coherent tbl means s" "means k = Some (NPI_int i)"
  shows "\<exists>s'. npidentifier_cache_add_int V k i s = (Ok (), s') \<and> coherent tbl means s'"
  using assms insert_coherent [OF assms(1,2) true_int [of means k i]]
  by (cases "has_memory V s 16") (auto simp: npidentifier_cache_add_int_def npidentifier_info_new_def op_simps)

lemma add_string_coherent:
  assumes "T = idents V" "coherent tbl means s" "means k = Some (NPI_string (cs @ [0]))" "length cs + 1 < 2 ^ 32"
  shows "\<exists>s'. npidentifier_cache_add_string V k (Some cs) s = (Ok (), s') \<and> coherent tbl means s'"
  using assms insert_coherent [OF assms(1,2) true_string [of means k cs]]
  by (cases "has_memory V s 16"; cases "has_memory V s (of_nat (length cs) + 1)")
    (auto simp: npidentifier_cache_add_string_def npidentifier_info_new_def op_simps Let_def)

lemma unat_len32: "n < 2 ^ 32 \<Longrightarrow> unat (of_nat n :: uint32) = n"
  by (simp add: unat_of_nat)

lemma same_length:
  assumes "length (xs :: byte list) < 2 ^ 32" "length (ys :: byte list) < 2 ^ 32"
    and "(of_nat (length xs) :: uint32) = of_nat (length ys)"
  shows "length xs = length ys"
proof -
  have "unat (of_nat (length xs) :: uint32) = unat (of_nat (length ys) :: uint32)" using assms(3) by (rule arg_cong)
  with assms(1,2) show ?thesis by (simp only: unat_len32)
qed

lemma find_info_cases:
  assumes "npidentifier_cache_find_info info npi"
  shows "(\<exists>i. npi_u info = NPI_int i \<and> npi_u npi = NPI_int i) \<or>
    (\<exists>as bs. npi_u info = NPI_string as \<and> npi_u npi = NPI_string bs \<and> string_len npi = string_len info \<and>
       take (unat (string_len info)) as = take (unat (string_len info)) bs)"
  using assms unfolding npidentifier_cache_find_info_def
  by (cases "npi_u info"; cases "npi_u npi"; cases "string_len npi = string_len info") simp_all

lemma find_info_true:
  assumes "npidentifier_cache_find_info info npi" "true_info means k npi" "true_info means' k' info"
  shows "npi_u npi = npi_u info"
  using find_info_cases [OF assms(1)]
proof (elim disjE exE conjE)
  fix as bs
  assume u: "npi_u info = NPI_string as" "npi_u npi = NPI_string bs" "string_len npi = string_len info"
    "take (unat (string_len info)) as = take (unat (string_len info)) bs"
  have len: "length as < 2 ^ 32" "length bs < 2 ^ 32" "string_len info = of_nat (length as)" "string_len npi = of_nat (length bs)"
    using assms(2,3) u(1,2) by (simp_all add: true_info_def)
  then have "unat (string_len info) = length as" by (simp only: unat_len32)
  moreover have "length as = length bs"
    by (rule same_length [OF len(1,2)]) (use u(3) len(3,4) in simp)
  ultimately show ?thesis using u by simp
qed simp

lemma foldl_found:
  "foldl (\<lambda>found (k, npi). if found \<noteq> 0 then found else if P npi then k else found) acc es = r \<Longrightarrow>
     r = acc \<or> (\<exists>npi. (r, npi) \<in> set es \<and> P npi)"
  by (induction es arbitrary: acc) (fastforce split: if_splits)+

lemma find_true:
  assumes "T = idents V" "npidentifier_cache_find V info h = Some k"
  shows "\<exists>npi. tbl h k = Some npi \<and> npidentifier_cache_find_info info npi"
proof (cases "have_table_find V")
  case True
  with assms find_Some show ?thesis by (fastforce simp: npidentifier_cache_find_def)
next
  case False
  with assms obtain npi where "(k, npi) \<in> set (ic_entries T h)" "npidentifier_cache_find_info info npi"
    using foldl_found [of "npidentifier_cache_find_info info" 0 "ic_entries T h" k]
    by (auto simp: npidentifier_cache_find_def Let_def split: if_splits)
  with entries_law [of h] show ?thesis by (metis map_of_is_SomeI)
qed

lemma found_means:
  assumes "T = idents V" "coherent tbl means s" "g_npidentifier_cache s = Some h" "true_info means' k' info"
    and "npidentifier_cache_find V info h = Some k"
  shows "means k = Some (npi_u info)"
proof -
  obtain npi where npi: "tbl h k = Some npi" "npidentifier_cache_find_info info npi"
    using find_true [OF assms(1,5)] by blast
  then have "true_info means k npi" using coherentD [OF assms(2,3)] by blast
  with find_info_true [OF npi(2) this assms(4)] show ?thesis by (simp add: true_info_def)
qed

end

subsection \<open>Calls and answers\<close>

text \<open>The five calls, with and without the cache, and the answers the browser's identifiers determine.\<close>

datatype ident_call = Get_string "byte list" | Get_int int32 | Is_string cptr | Text_of cptr | Int_of cptr

datatype ident_answer = A_ident cptr | A_bool bool | A_text "byte list option" | A_int int32

fun direct_call ::
  "(('h, 'z) np_process_scheme, np_value, 'x) rpc_env_scheme \<Rightarrow> ident_call \<Rightarrow> (('h, 'z) np_process_scheme, ident_answer) op"
where
  "direct_call R (Get_string cs) = bind_op (invoke_NPN_GetStringIdentifier R cs) (\<lambda>a. ret (A_ident a))"
| "direct_call R (Get_int i) = bind_op (invoke_NPN_GetIntIdentifier R i) (\<lambda>a. ret (A_ident a))"
| "direct_call R (Is_string k) = bind_op (invoke_NPN_IdentifierIsString R k) (\<lambda>b. ret (A_bool b))"
| "direct_call R (Text_of k) = bind_op (invoke_NPN_UTF8FromIdentifier R k) (\<lambda>t. ret (A_text t))"
| "direct_call R (Int_of k) = bind_op (invoke_NPN_IntFromIdentifier R k) (\<lambda>i. ret (A_int i))"

fun cached_call ::
  "(('h, 'c, 'z) viewer_scheme, 'c, 'y) viewer_env_scheme \<Rightarrow> (('h, 'c, 'z) viewer_scheme, np_value, 'x) rpc_env_scheme \<Rightarrow>
     ident_call \<Rightarrow> (('h, 'c, 'z) viewer_scheme, ident_answer) op"
where
  "cached_call V R (Get_string cs) = bind_op (cached_NPN_GetStringIdentifier V R cs) (\<lambda>a. ret (A_ident a))"
| "cached_call V R (Get_int i) = bind_op (cached_NPN_GetIntIdentifier V R i) (\<lambda>a. ret (A_ident a))"
| "cached_call V R (Is_string k) = bind_op (cached_NPN_IdentifierIsString V R k) (\<lambda>b. ret (A_bool b))"
| "cached_call V R (Text_of k) = bind_op (cached_NPN_UTF8FromIdentifier V R k) (\<lambda>t. ret (A_text t))"
| "cached_call V R (Int_of k) = bind_op (cached_NPN_IntFromIdentifier V R k) (\<lambda>i. ret (A_int i))"

fun true_answer :: "(cptr \<Rightarrow> npi_value option) \<Rightarrow> ident_call \<Rightarrow> ident_answer \<Rightarrow> bool" where
  "true_answer means (Get_string cs) (A_ident k) \<longleftrightarrow> means k = Some (NPI_string (cs @ [0])) \<and> length cs + 1 < 2 ^ 32"
| "true_answer means (Get_int i) (A_ident k) \<longleftrightarrow> means k = Some (NPI_int i)"
| "true_answer means (Is_string k) (A_bool b) \<longleftrightarrow>
     (case means k of None \<Rightarrow> False | Some (NPI_string _) \<Rightarrow> b | Some (NPI_int _) \<Rightarrow> \<not> b)"
| "true_answer means (Text_of k) (A_text (Some bs)) \<longleftrightarrow>
     means k = Some (NPI_string bs) \<and> length bs < 2 ^ 32 \<and> (\<exists>cs. bs = cs @ [0] \<and> 0 \<notin> set cs)"
| "true_answer means (Int_of k) (A_int i) \<longleftrightarrow> means k = Some (NPI_int i)"
| "true_answer means c a \<longleftrightarrow> False"

lemma block_string_terminated: "0 \<notin> set cs \<Longrightarrow> block_string (Some (cs @ [0])) s = (Ok (Some cs), s)"
proof -
  assume a: "0 \<notin> set cs"
  then have "takeWhile (\<lambda>c. c \<noteq> 0) (cs @ [0]) = cs" by (induction cs) auto
  then show ?thesis by (simp add: block_string_def op_simps)
qed

context ident_table
begin

lemma cached_get_string:
  assumes T: "T = idents V" "use_cache (settle_cache V s) \<noteq> 0"
    and inj: "\<And>i j v. means i = Some v \<Longrightarrow> means j = Some v \<Longrightarrow> i = j"
    and co: "coherent tbl means s" and m: "means k = Some (NPI_string (cs @ [0]))" "length cs + 1 < 2 ^ 32"
    and inv: "invoke_NPN_GetStringIdentifier R cs (settle_cache V s) = (Ok k, s1)" "coherent tbl means s1"
  shows "\<exists>s'. cached_NPN_GetStringIdentifier V R cs s = (Ok k, s') \<and> coherent tbl means s'"
proof -
  let ?s = "settle_cache V s" and ?info = "\<lparr>string_len = of_nat (length cs) + 1, npi_u = NPI_string (cs @ [0])\<rparr>"
  have co': "coherent tbl means ?s" using co by simp
  obtain found where found: "npidentifier_cache_has_string V cs ?s = (Ok found, ?s)"
    by (simp add: npidentifier_cache_has_string_def gets_apply)
  show ?thesis
  proof (cases found)
    case (Some j)
    then obtain h where "g_npidentifier_cache ?s = Some h" "npidentifier_cache_find V ?info h = Some j"
      using found by (auto simp: npidentifier_cache_has_string_def gets_apply split: option.splits)
    with found_means [OF T(1) co' _ true_string [of means k cs, OF m]] have "means j = Some (NPI_string (cs @ [0]))" by simp
    with inj m(1) have "j = k" by blast
    with found Some co' T(2) show ?thesis
      by (simp add: cached_NPN_GetStringIdentifier_def use_npidentifier_cache_run op_simps)
  next
    case None
    obtain s2 where s2: "npidentifier_cache_reserve V 1 s1 = (Ok (), s2)" "coherent tbl means s2"
      using reserve_coherent [OF T(1) inv(2)] by blast
    obtain s3 where s3: "npidentifier_cache_add_string V k (Some cs) s2 = (Ok (), s3)" "coherent tbl means s3"
      using add_string_coherent [OF T(1) s2(2) m] by blast
    show ?thesis
      using found None T(2) inv(1) s2(1) s3
      by (simp add: cached_NPN_GetStringIdentifier_def use_npidentifier_cache_run op_simps)
  qed
qed

lemma cached_get_int:
  assumes T: "T = idents V" "use_cache (settle_cache V s) \<noteq> 0"
    and inj: "\<And>i j v. means i = Some v \<Longrightarrow> means j = Some v \<Longrightarrow> i = j"
    and co: "coherent tbl means s" and m: "means k = Some (NPI_int i)"
    and inv: "invoke_NPN_GetIntIdentifier R i (settle_cache V s) = (Ok k, s1)" "coherent tbl means s1"
  shows "\<exists>s'. cached_NPN_GetIntIdentifier V R i s = (Ok k, s') \<and> coherent tbl means s'"
proof -
  let ?s = "settle_cache V s" and ?info = "\<lparr>string_len = 0, npi_u = NPI_int i\<rparr>"
  have co': "coherent tbl means ?s" using co by simp
  obtain found where found: "npidentifier_cache_has_int V i ?s = (Ok found, ?s)"
    by (simp add: npidentifier_cache_has_int_def gets_apply)
  show ?thesis
  proof (cases found)
    case (Some j)
    then obtain h where "g_npidentifier_cache ?s = Some h" "npidentifier_cache_find V ?info h = Some j"
      using found by (auto simp: npidentifier_cache_has_int_def gets_apply split: option.splits)
    with found_means [OF T(1) co' _ true_int [of means k i, OF m]] have "means j = Some (NPI_int i)" by simp
    with inj m(1) have "j = k" by blast
    with found Some co' T(2) show ?thesis
      by (simp add: cached_NPN_GetIntIdentifier_def use_npidentifier_cache_run op_simps)
  next
    case None
    obtain s2 where s2: "npidentifier_cache_reserve V 1 s1 = (Ok (), s2)" "coherent tbl means s2"
      using reserve_coherent [OF T(1) inv(2)] by blast
    obtain s3 where s3: "npidentifier_cache_add_int V k i s2 = (Ok (), s3)" "coherent tbl means s3"
      using add_int_coherent [OF T(1) s2(2) m] by blast
    show ?thesis
      using found None T(2) inv(1) s2(1) s3
      by (simp add: cached_NPN_GetIntIdentifier_def use_npidentifier_cache_run op_simps)
  qed
qed

lemma lookup_run: "npidentifier_cache_lookup V k s =
    (Ok (case g_npidentifier_cache s of None \<Rightarrow> None | Some h \<Rightarrow> ic_lookup (idents V) k h), s)"
  by (simp add: npidentifier_cache_lookup_def gets_apply)

lemma looked_up_true:
  assumes "T = idents V" "coherent tbl means s" "npidentifier_cache_lookup V k s = (Ok (Some npi), s)"
  shows "true_info means k npi"
  using assms lookup_law [unfolded assms(1)] by (auto simp: lookup_run coherent_def split: option.splits)

lemma lookup_obtain:
  obtains npi where "npidentifier_cache_lookup V k s = (Ok npi, s)"
  by (simp add: lookup_run)

lemma cached_is_string:
  assumes T: "T = idents V" "use_cache (settle_cache V s) \<noteq> 0"
    and co: "coherent tbl means s" and m: "true_answer means (Is_string k) (A_bool b)"
    and inv: "invoke_NPN_IdentifierIsString R k (settle_cache V s) = (Ok b, s1)" "coherent tbl means s1"
  shows "\<exists>s'. cached_NPN_IdentifierIsString V R k s = (Ok b, s') \<and> coherent tbl means s'"
proof -
  let ?s = "settle_cache V s"
  have co': "coherent tbl means ?s" using co by simp
  obtain found where found: "npidentifier_cache_lookup V k ?s = (Ok found, ?s)" by (rule lookup_obtain)
  show ?thesis
  proof (cases found)
    case (Some npi)
    with found have "true_info means k npi" using looked_up_true [OF T(1) co'] by simp
    with m have "string_len npi > 0 \<longleftrightarrow> b"
      by (auto simp: true_info_def word_gt_0 unat_eq_zero [symmetric] unat_len32 split: npi_value.splits)
    with found Some co' T(2) show ?thesis
      by (simp add: cached_NPN_IdentifierIsString_def use_npidentifier_cache_run op_simps)
  next
    case None
    with found T(2) inv show ?thesis
      by (simp add: cached_NPN_IdentifierIsString_def use_npidentifier_cache_run op_simps)
  qed
qed

lemma cached_int_of:
  assumes T: "T = idents V" "use_cache (settle_cache V s) \<noteq> 0"
    and co: "coherent tbl means s" and m: "means k = Some (NPI_int i)"
    and inv: "invoke_NPN_IntFromIdentifier R k (settle_cache V s) = (Ok i, s1)" "coherent tbl means s1"
  shows "\<exists>s'. cached_NPN_IntFromIdentifier V R k s = (Ok i, s') \<and> coherent tbl means s'"
proof -
  let ?s = "settle_cache V s"
  have co': "coherent tbl means ?s" using co by simp
  obtain found where found: "npidentifier_cache_lookup V k ?s = (Ok found, ?s)" by (rule lookup_obtain)
  show ?thesis
  proof (cases found)
    case (Some npi)
    with found have "true_info means k npi" using looked_up_true [OF T(1) co'] by simp
    with m have "npi_u npi = NPI_int i" "string_len npi = 0"
      by (auto simp: true_info_def split: npi_value.splits)
    with found Some co' T(2) show ?thesis
      by (simp add: cached_NPN_IntFromIdentifier_def use_npidentifier_cache_run op_simps)
  next
    case None
    obtain s2 where s2: "npidentifier_cache_reserve V 1 s1 = (Ok (), s2)" "coherent tbl means s2"
      using reserve_coherent [OF T(1) inv(2)] by blast
    obtain s3 where s3: "npidentifier_cache_add_int V k i s2 = (Ok (), s3)" "coherent tbl means s3"
      using add_int_coherent [OF T(1) s2(2) m] by blast
    show ?thesis
      using found None T(2) inv(1) s2(1) s3
      by (simp add: cached_NPN_IntFromIdentifier_def use_npidentifier_cache_run op_simps)
  qed
qed

lemma get_string_copy_true:
  assumes "T = idents V" "coherent tbl means s" "means k = Some (NPI_string bs)"
  shows "\<exists>t. npidentifier_cache_get_string_copy V k s = (Ok t, s) \<and> (t = None \<or> t = Some bs)"
proof -
  obtain found where found: "npidentifier_cache_lookup V k s = (Ok found, s)" by (rule lookup_obtain)
  show ?thesis
  proof (cases found)
    case (Some npi)
    with found have "true_info means k npi" using looked_up_true [OF assms(1,2)] by simp
    with assms(3) have npi: "npi_u npi = NPI_string bs" "unat (string_len npi) = length bs"
      by (auto simp: true_info_def unat_len32 split: npi_value.splits)
    show ?thesis
      using found Some npi by (simp add: npidentifier_cache_get_string_copy_def op_simps)
  qed (use found in \<open>simp add: npidentifier_cache_get_string_copy_def op_simps\<close>)
qed

lemma cached_text_of:
  assumes T: "T = idents V" "use_cache (settle_cache V s) \<noteq> 0"
    and co: "coherent tbl means s" and m: "means k = Some (NPI_string bs)" "length bs < 2 ^ 32" "bs = cs @ [0]" "0 \<notin> set cs"
    and inv: "invoke_NPN_UTF8FromIdentifier R k (settle_cache V s) = (Ok (Some bs), s1)" "coherent tbl means s1"
  shows "\<exists>s'. cached_NPN_UTF8FromIdentifier V R k s = (Ok (Some bs), s') \<and> coherent tbl means s'"
proof -
  let ?s = "settle_cache V s"
  have co': "coherent tbl means ?s" using co by simp
  obtain t where t: "npidentifier_cache_get_string_copy V k ?s = (Ok t, ?s)" "t = None \<or> t = Some bs"
    using get_string_copy_true [OF T(1) co' m(1)] by blast
  show ?thesis
  proof (cases t)
    case (Some x)
    with t co' T(2) show ?thesis
      by (simp add: cached_NPN_UTF8FromIdentifier_def use_npidentifier_cache_run op_simps)
  next
    case None
    obtain s2 where s2: "npidentifier_cache_reserve V 1 s1 = (Ok (), s2)" "coherent tbl means s2"
      using reserve_coherent [OF T(1) inv(2)] by blast
    obtain s3 where s3: "npidentifier_cache_add_string V k (Some cs) s2 = (Ok (), s3)" "coherent tbl means s3"
      using add_string_coherent [OF T(1) s2(2), of k cs] m by auto
    have "block_string (Some bs) s2 = (Ok (Some cs), s2)"
      unfolding m(3) by (rule block_string_terminated [OF m(4)])
    then show ?thesis
      using t(1) None T(2) inv(1) s2(1) s3
      by (simp add: cached_NPN_UTF8FromIdentifier_def use_npidentifier_cache_run op_simps)
  qed
qed

lemma cached_call_true:
  assumes T: "T = idents V" and inj: "\<And>i j v. means i = Some v \<Longrightarrow> means j = Some v \<Longrightarrow> i = j"
    and co: "coherent tbl means s" and m: "true_answer means c a"
    and inv: "direct_call R c (settle_cache V s) = (Ok a, s1)" "coherent tbl means s1"
  shows "\<exists>s'. cached_call V R c s = (Ok a, s') \<and> coherent tbl means s'"
proof (cases "use_cache (settle_cache V s) = 0")
  case True
  have "cached_call V R c s = direct_call R c (settle_cache V s)"
    using True by (cases c) (simp_all add: bind_op_def cached_NPN_GetStringIdentifier_def cached_NPN_GetIntIdentifier_def
      cached_NPN_IdentifierIsString_def cached_NPN_UTF8FromIdentifier_def cached_NPN_IntFromIdentifier_def
      use_npidentifier_cache_run ret_apply)
  with inv show ?thesis by simp
next
  case False
  show ?thesis
  proof (cases c)
    case (Get_string cs)
    with m obtain k where "a = A_ident k" "means k = Some (NPI_string (cs @ [0]))" "length cs + 1 < 2 ^ 32"
      by (cases a) auto
    with Get_string inv cached_get_string [where k = k and cs = cs and R = R and ?s1.0 = s1, OF T False inj co] show ?thesis
      by (auto simp: bind_op_eq_Ok_iff ret_apply)
  next
    case (Get_int i)
    with m obtain k where "a = A_ident k" "means k = Some (NPI_int i)" by (cases a) auto
    with Get_int inv cached_get_int [where k = k and i = i and R = R and ?s1.0 = s1, OF T False inj co] show ?thesis
      by (auto simp: bind_op_eq_Ok_iff ret_apply)
  next
    case (Is_string k)
    with m obtain b where "a = A_bool b" by (cases a) auto
    with Is_string inv m cached_is_string [OF T False co, of k b R s1] show ?thesis
      by (auto simp: bind_op_eq_Ok_iff ret_apply)
  next
    case (Text_of k)
    with m obtain bs cs where "a = A_text (Some bs)" "means k = Some (NPI_string bs)" "length bs < 2 ^ 32"
      "bs = cs @ [0]" "0 \<notin> set cs"
      by (cases a) (auto elim!: true_answer.elims)
    with Text_of inv cached_text_of [OF T False co, of k bs cs R s1] show ?thesis
      by (auto simp: bind_op_eq_Ok_iff ret_apply)
  next
    case (Int_of k)
    with m obtain i where "a = A_int i" "means k = Some (NPI_int i)" by (cases a) auto
    with Int_of inv cached_int_of [OF T False co, of k i R s1] show ?thesis
      by (auto simp: bind_op_eq_Ok_iff ret_apply)
  qed
qed

end

subsection \<open>Properties\<close>

text \<open>
  C3. The identifier cache cannot be observed: whatever is in it, as long as its entries are true of the
  browser's identifiers (two identifiers never stand for the same thing), each of the five calls of the
  viewer with the cache gives the answer the remote call alone would give, provided that answer is true,
  and leaves a cache whose entries are true. This holds with the cache switched off by
  \<open>NPW_NPRUNTIME_CACHE\<close>, when it is full and emptied, when memory is short, and for either way of
  searching it.
\<close>

theorem npidentifier_cache_transparent:
  assumes "ident_table (idents V) tbl" and "\<And>i j v. means i = Some v \<Longrightarrow> means j = Some v \<Longrightarrow> i = j"
    and "coherent tbl means s" and "true_answer means c a"
    and "direct_call R c (settle_cache V s) = (Ok a, s1)" "coherent tbl means s1"
  shows "\<exists>s'. cached_call V R c s = (Ok a, s') \<and> coherent tbl means s'"
  by (rule ident_table.cached_call_true [OF assms(1) refl assms(2-6)])

text \<open>A viewer with an active connection and no cache yet.\<close>

definition sample_viewer_env ::
  "('s, (cptr \<times> NPIdentifierInfo) list) viewer_env"
where
  "sample_viewer_env = \<lparr>idents = alist_idents, have_table_find = True, have_table_remove_all = True,
     v_getenv = (\<lambda>_. None), has_memory = (\<lambda>_ _. True), thread_check = True\<rparr>"

definition sample_plugin_env :: "('s, (cptr \<times> cptr) list) npv_env" where
  "sample_plugin_env = \<lparr>hash = alist_hash, is_plugin = True, npclass_bridge = 16, stub_addr = (\<lambda>_. 4096),
     instance_addr = (\<lambda>_. 8192), NPN_CreateObject = (\<lambda>_ _. ret 0), NPN_RetainObject = ret,
     NPN_ReleaseObject = (\<lambda>_. ret ()), call_allocate = (\<lambda>_. ret 0), call_instance = (\<lambda>_ _. ret ()),
     NPN_ReleaseVariantValue = (\<lambda>_. ret ())\<rparr>"

lemma viewer_exists:
  obtains s :: "((cptr \<times> cptr) list, (cptr \<times> NPIdentifierInfo) list) viewer" where "calm s"
    "np_inv Map.empty (frame s) s" "may_call (frame s)" "tx_wire s = []" "use_cache s = - 1" "g_npidentifier_cache s = None"
    "freed s = False"
proof -
  obtain c :: "(cptr \<times> cptr) list np_process" where
    c: "calm c" "conn_inv np_types Map.empty (frame c) c" "tx_wire c = []" "frame c = frame empty_process"
    by (rule np_process_exists)
  let ?s = "np_process.extend c \<lparr>use_cache = - 1, g_npidentifier_cache = None\<rparr>"
  have "status c = status (frame c)" "dispatch_depth c = dispatch_depth (frame c)" "handle_depth c = handle_depth (frame c)"
    by (simp_all add: frame_def)
  then have "may_call c" using np_frame_facts(1) unfolding c(4) by (simp add: may_call_def)
  then show thesis
    using c(1-3) by (intro that [of ?s])
      (simp_all add: np_process.defs calm_def conn_inv_def alloc_ok_def types_are_def methods_are_def frame_def may_call_def)
qed

theorem npidentifier_cache_transparent_witness:
  "\<exists>(s :: ((cptr \<times> cptr) list, (cptr \<times> NPIdentifierInfo) list) viewer)
      (R :: (((cptr \<times> cptr) list, (cptr \<times> NPIdentifierInfo) list) viewer, np_value) rpc_env) s'.
     cached_call sample_viewer_env R (Get_int 7) s = (Ok (A_ident (id_key 5)), s') \<and>
     coherent map_of [id_key 5 \<mapsto> NPI_int 7] s'"
proof -
  obtain s0 :: "((cptr \<times> cptr) list, (cptr \<times> NPIdentifierInfo) list) viewer" where
    s0: "calm s0" "np_inv Map.empty (frame s0) s0" "may_call (frame s0)" "use_cache s0 = - 1" "g_npidentifier_cache s0 = None"
    by (rule viewer_exists)
  let ?R = "np_rpc_env sample_plugin_env (\<lambda>_. 0) False (\<lambda>_. ret 0) (\<lambda>_ _. ret ())"
  let ?s = "s0\<lparr>rx_queue := enc_answer (enc_list (one_ident 5)), use_cache := 1\<rparr>"
  let ?means = "[id_key 5 \<mapsto> NPI_int 7]"
  have ask: "talks (np_inv Map.empty (frame ?s)) (invoke_NPN_GetIntIdentifier ?R 7)
      (enc_answer (enc_list (one_ident 5))) (enc_request RPC_METHOD_NPN_GET_INT_IDENTIFIER (enc_list (one_arg (\<lambda>_. 0) (Int32 7))))
      (id_key 5) (np_inv Map.empty (frame ?s))"
    unfolding invoke_NPN_GetIntIdentifier_def
    by (rule talks_ask_identifier [OF refl]) (use s0(3) in \<open>simp_all add: sample_plugin_env_def may_call_def frame_def\<close>)
  have "calm ?s" "np_inv Map.empty (frame ?s) ?s" "rx_queue ?s = enc_answer (enc_list (one_ident 5)) @ []"
    using s0(1,2) by (simp_all add: calm_def conn_inv_def alloc_ok_def types_are_def methods_are_def frame_def)
  from talksD [OF ask this] obtain s1 where s1: "invoke_NPN_GetIntIdentifier ?R 7 ?s = (Ok (id_key 5), s1)"
    "np_inv Map.empty (frame ?s) s1" by blast
  have "frame s1 = frame ?s" using s1(2) by (simp only: conn_inv_def)
  then have "g_npidentifier_cache (frame s1) = g_npidentifier_cache (frame ?s)" by (rule arg_cong)
  then have co: "g_npidentifier_cache s1 = None" using s0(5) by (simp add: frame_def)
  have table: "ident_table (idents sample_viewer_env) map_of"
    using alist_idents.ident_table_axioms by (simp add: sample_viewer_env_def)
  have settled: "settle_cache sample_viewer_env ?s = ?s" by (simp add: settle_cache_def)
  have direct: "direct_call ?R (Get_int 7) (settle_cache sample_viewer_env ?s) = (Ok (A_ident (id_key 5)), s1)"
    using s1(1) unfolding settled by (simp add: op_simps)
  have "\<exists>s'. cached_call sample_viewer_env ?R (Get_int 7) ?s = (Ok (A_ident (id_key 5)), s') \<and> coherent map_of ?means s'"
    by (rule npidentifier_cache_transparent [OF table _ _ _ direct])
      (use co s0(5) in \<open>auto simp: coherent_def split: if_splits\<close>)
  then show ?thesis by blast
qed

text \<open>
  C21. Where there is no text, the cache is fatal: when the browser has no string for an identifier (it is
  an integer, or the connection is gone) \<open>NPN_UTF8FromIdentifier\<close> should return \<open>NULL\<close>, but with
  the cache in use the viewer enters the missing string into it and reads its length through \<open>NULL\<close>.
\<close>

theorem text_of_no_string_crashes:
  assumes T: "ident_table (idents V) tbl" and use: "use_cache (settle_cache V s) \<noteq> 0"
    and missing: "npidentifier_cache_get_string_copy V k (settle_cache V s) = (Ok None, settle_cache V s)"
    and answer: "invoke_NPN_UTF8FromIdentifier R k (settle_cache V s) = (Ok None, s1)"
    and mem: "\<And>s. has_memory V s 16"
  shows "fst (cached_NPN_UTF8FromIdentifier V R k s) = Crash Out_of_bounds"
proof -
  obtain s2 h where s2: "npidentifier_cache_reserve V 1 s1 = (Ok (), s2)" "g_npidentifier_cache s2 = Some h"
    using ident_table.reserve_makes [OF T refl] by blast
  have "npidentifier_cache_add_string V k None s2 = (Crash Out_of_bounds, s2)"
    using s2(2) mem by (simp add: npidentifier_cache_add_string_def npidentifier_info_new_def op_simps)
  with use missing answer s2(1) show ?thesis
    by (simp add: cached_NPN_UTF8FromIdentifier_def use_npidentifier_cache_run block_string_def then_op_def op_simps)
qed

theorem text_of_no_string_crashes_witness:
  "\<exists>(s :: ((cptr \<times> cptr) list, (cptr \<times> NPIdentifierInfo) list) viewer)
      (R :: (((cptr \<times> cptr) list, (cptr \<times> NPIdentifierInfo) list) viewer, np_value) rpc_env).
     freed s \<and> fst (g_NPN_UTF8FromIdentifier sample_viewer_env R 5 s) = Crash Out_of_bounds"
proof -
  obtain s0 :: "((cptr \<times> cptr) list, (cptr \<times> NPIdentifierInfo) list) viewer" where
    s0: "g_npidentifier_cache s0 = None"
    by (rule viewer_exists)
  let ?s = "s0\<lparr>freed := True, use_cache := 1\<rparr>"
  let ?R = "np_rpc_env sample_plugin_env (\<lambda>_. 0) False (\<lambda>_. ret 0) (\<lambda>_ _. ret ())"
  have table: "ident_table (idents sample_viewer_env) map_of"
    using alist_idents.ident_table_axioms by (simp add: sample_viewer_env_def)
  have settled: "settle_cache sample_viewer_env ?s = ?s" by (simp add: settle_cache_def)
  have ask: "invoke_NPN_UTF8FromIdentifier ?R 5 (settle_cache sample_viewer_env ?s) = (Ok None, ?s)"
    unfolding settled
    by (simp add: invoke_NPN_UTF8FromIdentifier_def remote_call_def g_rpc_connection_def rpc_method_invoke_possible_def op_simps)
  have "fst (cached_NPN_UTF8FromIdentifier sample_viewer_env ?R 5 ?s) = Crash Out_of_bounds"
  proof (rule text_of_no_string_crashes [OF table _ _ ask])
    show "npidentifier_cache_get_string_copy sample_viewer_env 5 (settle_cache sample_viewer_env ?s) =
        (Ok None, settle_cache sample_viewer_env ?s)"
      by (simp add: settled npidentifier_cache_get_string_copy_def npidentifier_cache_lookup_def op_simps s0)
  qed (simp_all only: settled, simp_all add: sample_viewer_env_def)
  then have "fst (g_NPN_UTF8FromIdentifier sample_viewer_env ?R 5 ?s) = Crash Out_of_bounds"
    by (simp add: g_NPN_UTF8FromIdentifier_def sample_viewer_env_def)
  then show ?thesis by (intro exI [of _ ?s] exI [of _ ?R]) simp
qed

end
