(* ===== verification/Npw_Malloc.thy ===== *)
theory Npw_Malloc
  imports Npw_Prelude
begin

text \<open>
  Memory blocks of \<^verbatim>\<open>npw-malloc.c\<close>: the block that \<open>NPW_MemAlloc\<close> returns lies in one of the C
  library or of GLib, behind a header with a magic number and the sizes and, when checks are enabled,
  between two guards of 16 bytes. Memory is a partial map from addresses to bytes; a load or a store
  at an unmapped address is a crash. The preprocessor symbols are members of the environment: the file as
  it stands undefines \<open>ENABLE_MALLOC_CHECK\<close> before it is tested, so of the repository's own builds only the
  environments in which it is false are real; the theories hold for both, and say so where the guards matter.
\<close>

subsection \<open>Bytes and words in memory\<close>

text \<open>
  \<open>malloc_hooks\<close> and \<open>malloc_check\<close> are the static variables of \<open>get_malloc_hooks\<close> and
  \<open>is_malloc_check_enabled\<close>; \<open>mem_reports\<close> is what \<open>npw_printf\<close> was called with. A source position is
  the pointer to the file's name and a line.
\<close>

datatype malloc_lib = Libc | Glib

datatype mem_report =
    Detected_underflow nat "uint64 \<times> uint32" "uint64 \<times> uint32"
  | Detected_overflow nat "uint64 \<times> uint32" "uint64 \<times> uint32"
  | Not_allocated ptr

record mem_state =
  memory :: "ptr \<Rightarrow> byte option"
  malloc_hooks :: "malloc_lib option"
  malloc_check :: int
  mem_reports :: "mem_report list"

definition mapped :: "'z mem_state_scheme \<Rightarrow> ptr \<Rightarrow> nat \<Rightarrow> bool" where
  "mapped s p n \<longleftrightarrow> list_all (\<lambda>i. memory s (p + i) \<noteq> None) [0..<n]"

definition put_bytes :: "ptr \<Rightarrow> byte list \<Rightarrow> (ptr \<Rightarrow> byte option) \<Rightarrow> ptr \<Rightarrow> byte option" where
  "put_bytes p bs m = (\<lambda>a. if p \<le> a \<and> a < p + length bs then Some (bs ! (a - p)) else m a)"

definition store_bytes :: "ptr \<Rightarrow> byte list \<Rightarrow> ('z mem_state_scheme, unit) op" where
  "store_bytes p bs s =
     (if mapped s p (length bs) then (Ok (), s\<lparr>memory := put_bytes p bs (memory s)\<rparr>)
      else (Crash Out_of_bounds, s))"

definition load_bytes :: "ptr \<Rightarrow> nat \<Rightarrow> ('z mem_state_scheme, byte list) op" where
  "load_bytes p n s =
     (if mapped s p n then (Ok (map (\<lambda>i. the (memory s (p + i))) [0..<n]), s) else (Crash Out_of_bounds, s))"

text \<open>Words are stored with the least significant byte first.\<close>

definition le32 :: "uint32 \<Rightarrow> byte list" where
  "le32 w = rev (htonl w)"

definition un_le32 :: "byte list \<Rightarrow> uint32" where
  "un_le32 bs = ntohl (rev bs)"

definition le64 :: "uint64 \<Rightarrow> byte list" where
  "le64 v = le32 (lo32 v) @ le32 (hi32 v)"

definition un_le64 :: "byte list \<Rightarrow> uint64" where
  "un_le64 bs = join64 (un_le32 (drop 4 bs)) (un_le32 (take 4 bs))"

definition load32 :: "ptr \<Rightarrow> ('z mem_state_scheme, uint32) op" where
  "load32 p = bind_op (load_bytes p 4) (\<lambda>bs. ret (un_le32 bs))"

definition load64 :: "ptr \<Rightarrow> ('z mem_state_scheme, uint64) op" where
  "load64 p = bind_op (load_bytes p 8) (\<lambda>bs. ret (un_le64 bs))"

subsection \<open>The allocators below\<close>

text \<open>
  What is outside the repository or chosen when it is built: the allocators, the environment
  variables, the two libraries compiled in (\<open>USE_MALLOC_LIBC\<close>, \<open>USE_MALLOC_GLIB\<close>) and the default
  one, whether checks are compiled in and whether the version is a snapshot.
\<close>

record 's mem_env =
  c_malloc :: "uint32 \<Rightarrow> ('s, ptr) op"
  c_calloc :: "uint32 \<Rightarrow> ('s, ptr) op"
  c_free :: "ptr \<Rightarrow> ('s, unit) op"
  g_slice_alloc :: "uint32 \<Rightarrow> ('s, ptr) op"
  g_slice_alloc0 :: "uint32 \<Rightarrow> ('s, ptr) op"
  g_slice_free1 :: "uint32 \<Rightarrow> ptr \<Rightarrow> ('s, unit) op"
  mem_getenv :: "string \<Rightarrow> string option"
  USE_MALLOC_LIBC :: bool
  USE_MALLOC_GLIB :: bool
  DEFAULT_MALLOC_LIB :: malloc_lib
  ENABLE_MALLOC_CHECK :: bool
  NPW_SNAPSHOT :: int

record 's NPW_MallocHooks =
  memalloc :: "uint32 \<Rightarrow> ('s, ptr) op"
  memalloc0 :: "uint32 \<Rightarrow> ('s, ptr) op"
  memfree :: "ptr \<Rightarrow> uint32 \<Rightarrow> ('s, unit) op"

definition NPW_Libc_MemAlloc :: "('s, 'y) mem_env_scheme \<Rightarrow> uint32 \<Rightarrow> ('s, ptr) op" where
  "NPW_Libc_MemAlloc E bytes = c_malloc E bytes"

definition NPW_Libc_MemAlloc0 :: "('s, 'y) mem_env_scheme \<Rightarrow> uint32 \<Rightarrow> ('s, ptr) op" where
  "NPW_Libc_MemAlloc0 E bytes = c_calloc E bytes"

definition NPW_Libc_MemFree :: "('s, 'y) mem_env_scheme \<Rightarrow> ptr \<Rightarrow> uint32 \<Rightarrow> ('s, unit) op" where
  "NPW_Libc_MemFree E p bytes = c_free E p"

definition g_libc_hooks :: "('s, 'y) mem_env_scheme \<Rightarrow> 's NPW_MallocHooks" where
  "g_libc_hooks E =
     \<lparr>memalloc = NPW_Libc_MemAlloc E, memalloc0 = NPW_Libc_MemAlloc0 E, memfree = NPW_Libc_MemFree E\<rparr>"

definition NPW_Glib_MemAlloc :: "('s, 'y) mem_env_scheme \<Rightarrow> uint32 \<Rightarrow> ('s, ptr) op" where
  "NPW_Glib_MemAlloc E bytes = g_slice_alloc E bytes"

definition NPW_Glib_MemAlloc0 :: "('s, 'y) mem_env_scheme \<Rightarrow> uint32 \<Rightarrow> ('s, ptr) op" where
  "NPW_Glib_MemAlloc0 E bytes = g_slice_alloc0 E bytes"

definition NPW_Glib_MemFree :: "('s, 'y) mem_env_scheme \<Rightarrow> ptr \<Rightarrow> uint32 \<Rightarrow> ('s, unit) op" where
  "NPW_Glib_MemFree E p bytes = g_slice_free1 E bytes p"

definition g_glib_hooks :: "('s, 'y) mem_env_scheme \<Rightarrow> 's NPW_MallocHooks" where
  "g_glib_hooks E =
     \<lparr>memalloc = NPW_Glib_MemAlloc E, memalloc0 = NPW_Glib_MemAlloc0 E, memfree = NPW_Glib_MemFree E\<rparr>"

text \<open>The pointer \<open>do_get_malloc_hooks\<close> returns, and the table it points to.\<close>

definition hooks_of :: "('s, 'y) mem_env_scheme \<Rightarrow> malloc_lib \<Rightarrow> 's NPW_MallocHooks" where
  "hooks_of E lib = (case lib of Libc \<Rightarrow> g_libc_hooks E | Glib \<Rightarrow> g_glib_hooks E)"

definition do_get_malloc_hooks :: "('s, 'y) mem_env_scheme \<Rightarrow> malloc_lib" where
  "do_get_malloc_hooks E =
     (case mem_getenv E ''NPW_MALLOC_LIB'' of
        Some lib \<Rightarrow>
          if USE_MALLOC_LIBC E \<and> lib = ''libc'' then Libc
          else if USE_MALLOC_GLIB E \<and> lib = ''glib'' then Glib
          else DEFAULT_MALLOC_LIB E
      | None \<Rightarrow> DEFAULT_MALLOC_LIB E)"

definition get_malloc_hooks ::
  "('z mem_state_scheme, 'y) mem_env_scheme \<Rightarrow> ('z mem_state_scheme, 'z mem_state_scheme NPW_MallocHooks) op"
where
  "get_malloc_hooks E s =
     (if USE_MALLOC_LIBC E \<and> USE_MALLOC_GLIB E then
        (case malloc_hooks s of
           Some lib \<Rightarrow> (Ok (hooks_of E lib), s)
         | None \<Rightarrow> (Ok (hooks_of E (do_get_malloc_hooks E)), s\<lparr>malloc_hooks := Some (do_get_malloc_hooks E)\<rparr>))
      else (Ok (hooks_of E (DEFAULT_MALLOC_LIB E)), s))"

subsection \<open>Guards\<close>

definition is_malloc_check_enabled_1 :: "('s, 'y) mem_env_scheme \<Rightarrow> bool" where
  "is_malloc_check_enabled_1 E =
     (case mem_getenv E ''NPW_MALLOC_CHECK'' of
        Some str \<Rightarrow> str = ''yes'' \<or> str = ''1''
      | None \<Rightarrow> NPW_SNAPSHOT E > 0)"

definition is_malloc_check_enabled ::
  "('z mem_state_scheme, 'y) mem_env_scheme \<Rightarrow> ('z mem_state_scheme, bool) op"
where
  "is_malloc_check_enabled E s =
     (if \<not> ENABLE_MALLOC_CHECK E then (Ok False, s)
      else if malloc_check s < 0
      then (Ok (is_malloc_check_enabled_1 E), s\<lparr>malloc_check := (if is_malloc_check_enabled_1 E then 1 else 0)\<rparr>)
      else (Ok (malloc_check s \<noteq> 0), s))"

definition MALLOC_CHECK_GUARD_MARK :: byte where
  "MALLOC_CHECK_GUARD_MARK = 0x45"

definition malloc_check_guards_size ::
  "('z mem_state_scheme, 'y) mem_env_scheme \<Rightarrow> ('z mem_state_scheme, nat) op"
where
  "malloc_check_guards_size E = bind_op (is_malloc_check_enabled E) (\<lambda>b. ret (if b then 16 else 0))"

text \<open>\<open>memset\<close>.\<close>

definition fill_bytes :: "ptr \<Rightarrow> byte \<Rightarrow> nat \<Rightarrow> ('z mem_state_scheme, unit) op" where
  "fill_bytes p c n = store_bytes p (replicate n c)"

definition malloc_check_guards_init ::
  "('z mem_state_scheme, 'y) mem_env_scheme \<Rightarrow> ptr \<Rightarrow> uint32 \<Rightarrow> ('z mem_state_scheme, unit) op"
where
  "malloc_check_guards_init E p bytes = bind_op (is_malloc_check_enabled E) (\<lambda>b.
     if \<not> b then ret ()
     else bind_op (malloc_check_guards_size E) (\<lambda>g.
       then_op (fill_bytes (p - g) MALLOC_CHECK_GUARD_MARK g)
         (fill_bytes (p + unat bytes) MALLOC_CHECK_GUARD_MARK g)))"

text \<open>The loop of \<open>malloc_check_guards_ok\<close>, over the values \<open>i\<close> takes.\<close>

fun guards_loop :: "ptr \<Rightarrow> nat \<Rightarrow> nat list \<Rightarrow> nat \<times> nat \<Rightarrow> ('z mem_state_scheme, nat \<times> nat) op" where
  "guards_loop p bytes [] (underflow, overflow) = ret (underflow, overflow)"
| "guards_loop p bytes (i # js) (underflow, overflow) =
     bind_op (load_bytes (p - (1 + i)) 1) (\<lambda>b.
     bind_op (load_bytes (p + bytes + i) 1) (\<lambda>c.
       guards_loop p bytes js
         (if b \<noteq> [MALLOC_CHECK_GUARD_MARK] then underflow + 1 else underflow,
          if c \<noteq> [MALLOC_CHECK_GUARD_MARK] then overflow + 1 else overflow)))"

text \<open>The answer and, when checks are enabled, what is stored in \<open>*punderflow\<close> and \<open>*poverflow\<close>.\<close>

definition malloc_check_guards_ok ::
  "('z mem_state_scheme, 'y) mem_env_scheme \<Rightarrow> ptr \<Rightarrow> uint32 \<Rightarrow>
     ('z mem_state_scheme, bool \<times> nat \<times> nat) op"
where
  "malloc_check_guards_ok E p bytes = bind_op (is_malloc_check_enabled E) (\<lambda>b.
     if \<not> b then ret (True, 0, 0)
     else bind_op (malloc_check_guards_size E) (\<lambda>g.
          bind_op (guards_loop p (unat bytes) [0..<g] (0, 0)) (\<lambda>(underflow, overflow).
            ret (underflow = 0 \<and> overflow = 0, underflow, overflow))))"

subsection \<open>Allocation and release\<close>

text \<open>The 24 bytes of an \<open>NPW_MemBlock\<close>: magic, real size, size, line, file.\<close>

definition NPW_MALLOC_MAGIC :: uint32 where
  "NPW_MALLOC_MAGIC = 0x4e50574d"

definition sizeof_MemBlock :: nat where
  "sizeof_MemBlock = 24"

definition npw_do_mem_alloc ::
  "('z mem_state_scheme, 'y) mem_env_scheme \<Rightarrow> (uint32 \<Rightarrow> ('z mem_state_scheme, ptr) op) \<Rightarrow> uint32 \<Rightarrow>
     uint64 \<times> uint32 \<Rightarrow> ('z mem_state_scheme, ptr) op"
where
  "npw_do_mem_alloc E mem_alloc_func bytes pos =
     bind_op (malloc_check_guards_size E) (\<lambda>g.
     let real_size = of_nat sizeof_MemBlock + bytes + 2 * of_nat g in
     bind_op (mem_alloc_func real_size) (\<lambda>mem.
       if mem = NULL then ret NULL
       else
         then_op (run_all
           [store_bytes mem (le32 NPW_MALLOC_MAGIC), store_bytes (mem + 4) (le32 real_size),
            store_bytes (mem + 8) (le32 bytes), store_bytes (mem + 16) (le64 (fst pos)),
            store_bytes (mem + 12) (le32 (snd pos))])
         (bind_op (malloc_check_guards_size E) (\<lambda>g'.
            let p = mem + sizeof_MemBlock + g' in
            then_op (malloc_check_guards_init E p bytes) (ret p)))))"

definition npw_mem_alloc ::
  "('z mem_state_scheme, 'y) mem_env_scheme \<Rightarrow> uint32 \<Rightarrow> uint64 \<times> uint32 \<Rightarrow> ('z mem_state_scheme, ptr) op"
where
  "npw_mem_alloc E bytes pos =
     bind_op (get_malloc_hooks E) (\<lambda>h. npw_do_mem_alloc E (memalloc h) bytes pos)"

definition npw_mem_alloc0 ::
  "('z mem_state_scheme, 'y) mem_env_scheme \<Rightarrow> uint32 \<Rightarrow> uint64 \<times> uint32 \<Rightarrow> ('z mem_state_scheme, ptr) op"
where
  "npw_mem_alloc0 E bytes pos =
     bind_op (get_malloc_hooks E) (\<lambda>h. npw_do_mem_alloc E (memalloc0 h) bytes pos)"

definition npw_mem_alloc_copy ::
  "('z mem_state_scheme, 'y) mem_env_scheme \<Rightarrow> uint32 \<Rightarrow> ptr \<Rightarrow> uint64 \<times> uint32 \<Rightarrow> ('z mem_state_scheme, ptr) op"
where
  "npw_mem_alloc_copy E bytes src pos =
     bind_op (npw_mem_alloc E bytes pos) (\<lambda>p.
       if p = NULL then ret NULL
       else bind_op (load_bytes src (unat bytes)) (\<lambda>bs. then_op (store_bytes p bs) (ret p)))"

definition report :: "mem_report \<Rightarrow> ('z mem_state_scheme, unit) op" where
  "report r = modify_state (\<lambda>s. s\<lparr>mem_reports := mem_reports s @ [r]\<rparr>)"

definition npw_mem_free ::
  "('z mem_state_scheme, 'y) mem_env_scheme \<Rightarrow> ptr \<Rightarrow> uint64 \<times> uint32 \<Rightarrow> ('z mem_state_scheme, unit) op"
where
  "npw_mem_free E p pos =
     (if p = NULL then ret ()
      else
        bind_op (malloc_check_guards_size E) (\<lambda>g.
        let mem = p - (sizeof_MemBlock + g) in
        bind_op (load32 mem) (\<lambda>magic.
          if magic = NPW_MALLOC_MAGIC then
            bind_op (load32 (mem + 8)) (\<lambda>alloc_size.
            bind_op (malloc_check_guards_ok E p alloc_size) (\<lambda>(ok, underflow, overflow).
            bind_op (load64 (mem + 16)) (\<lambda>alloc_file.
            bind_op (load32 (mem + 12)) (\<lambda>alloc_lineno.
            then_op
              (if ok then ret ()
               else
                 then_op
                   (if underflow \<noteq> 0
                    then report (Detected_underflow underflow (alloc_file, alloc_lineno) pos) else ret ())
                   (if overflow \<noteq> 0
                    then report (Detected_overflow overflow (alloc_file, alloc_lineno) pos) else ret ()))
              (bind_op (get_malloc_hooks E) (\<lambda>h.
                 bind_op (load32 (mem + 4)) (\<lambda>real_size. memfree h mem real_size)))))))
          else then_op (report (Not_allocated p)) (c_free E p))))"

text \<open>
  The public functions. The sources that include \<^verbatim>\<open>npw-malloc.h\<close> with checks compiled in call the
  debugging variants, with their own position.
\<close>

definition NPW_MemAlloc ::
  "('z mem_state_scheme, 'y) mem_env_scheme \<Rightarrow> uint32 \<Rightarrow> ('z mem_state_scheme, ptr) op"
where
  "NPW_MemAlloc E bytes = npw_mem_alloc E bytes (0, 0)"

definition NPW_MemAlloc0 ::
  "('z mem_state_scheme, 'y) mem_env_scheme \<Rightarrow> uint32 \<Rightarrow> ('z mem_state_scheme, ptr) op"
where
  "NPW_MemAlloc0 E bytes = npw_mem_alloc0 E bytes (0, 0)"

definition NPW_MemAllocCopy ::
  "('z mem_state_scheme, 'y) mem_env_scheme \<Rightarrow> uint32 \<Rightarrow> ptr \<Rightarrow> ('z mem_state_scheme, ptr) op"
where
  "NPW_MemAllocCopy E bytes p = npw_mem_alloc_copy E bytes p (0, 0)"

definition NPW_MemFree ::
  "('z mem_state_scheme, 'y) mem_env_scheme \<Rightarrow> ptr \<Rightarrow> ('z mem_state_scheme, unit) op"
where
  "NPW_MemFree E p = npw_mem_free E p (0, 0)"

definition NPW_Debug_MemAlloc ::
  "('z mem_state_scheme, 'y) mem_env_scheme \<Rightarrow> uint32 \<Rightarrow> uint64 \<times> uint32 \<Rightarrow> ('z mem_state_scheme, ptr) op"
where
  "NPW_Debug_MemAlloc E bytes pos = npw_mem_alloc E bytes pos"

definition NPW_Debug_MemAlloc0 ::
  "('z mem_state_scheme, 'y) mem_env_scheme \<Rightarrow> uint32 \<Rightarrow> uint64 \<times> uint32 \<Rightarrow> ('z mem_state_scheme, ptr) op"
where
  "NPW_Debug_MemAlloc0 E bytes pos = npw_mem_alloc0 E bytes pos"

definition NPW_Debug_MemAllocCopy ::
  "('z mem_state_scheme, 'y) mem_env_scheme \<Rightarrow> uint32 \<Rightarrow> ptr \<Rightarrow> uint64 \<times> uint32 \<Rightarrow> ('z mem_state_scheme, ptr) op"
where
  "NPW_Debug_MemAllocCopy E bytes p pos = npw_mem_alloc_copy E bytes p pos"

definition NPW_Debug_MemFree ::
  "('z mem_state_scheme, 'y) mem_env_scheme \<Rightarrow> ptr \<Rightarrow> uint64 \<times> uint32 \<Rightarrow> ('z mem_state_scheme, unit) op"
where
  "NPW_Debug_MemFree E p pos = npw_mem_free E p pos"

subsection \<open>Stores and loads\<close>

text \<open>\<open>bs\<close> is what memory holds at \<open>p\<close>.\<close>

definition bytes_at :: "(ptr \<Rightarrow> byte option) \<Rightarrow> ptr \<Rightarrow> byte list \<Rightarrow> bool" where
  "bytes_at m p bs \<longleftrightarrow> list_all (\<lambda>i. m (p + i) = Some (bs ! i)) [0..<length bs]"

text \<open>\<open>M\<close> differs from \<open>m\<close> at most in the contents of the \<open>n\<close> bytes at \<open>p\<close>.\<close>

definition within :: "ptr \<Rightarrow> nat \<Rightarrow> (ptr \<Rightarrow> byte option) \<Rightarrow> (ptr \<Rightarrow> byte option) \<Rightarrow> bool" where
  "within p n M m \<longleftrightarrow> dom M = dom m \<and> (\<forall>a. a < p \<or> p + n \<le> a \<longrightarrow> M a = m a)"

lemma mapped_iff: "mapped s p n \<longleftrightarrow> (\<forall>a. p \<le> a \<and> a < p + n \<longrightarrow> memory s a \<noteq> None)"
proof -
  have "mapped s p n \<longleftrightarrow> (\<forall>i<n. memory s (p + i) \<noteq> None)"
    by (auto simp: mapped_def list_all_iff)
  then show ?thesis by (metis add_less_cancel_left le_add1 le_add_diff_inverse)
qed

lemma mapped_sub: "mapped s p n \<Longrightarrow> p \<le> q \<Longrightarrow> q + m \<le> p + n \<Longrightarrow> mapped s q m"
  by (auto simp: mapped_iff)

lemma bytes_at_iff: "bytes_at m p bs \<longleftrightarrow> (\<forall>i < length bs. m (p + i) = Some (bs ! i))"
  by (auto simp: bytes_at_def list_all_iff)

lemma bytes_at_put [simp]: "bytes_at (put_bytes p bs m) p bs"
  by (simp add: bytes_at_iff put_bytes_def)

lemma put_bytes_Nil [simp]: "put_bytes p [] m = m"
  by (auto simp: put_bytes_def fun_eq_iff)

lemma bytes_at_cong:
  "bytes_at m p bs \<Longrightarrow> (\<And>a. p \<le> a \<Longrightarrow> a < p + length bs \<Longrightarrow> M a = m a) \<Longrightarrow> bytes_at M p bs"
  by (simp add: bytes_at_iff)

lemma bytes_at_put_other:
  "p + length bs \<le> q \<or> q + length cs \<le> p \<Longrightarrow> bytes_at m p bs \<Longrightarrow> bytes_at (put_bytes q cs m) p bs"
  by (erule bytes_at_cong) (auto simp: put_bytes_def)

lemma bytes_at_le:
  "bytes_at m p bs \<Longrightarrow> m \<subseteq>\<^sub>m M \<Longrightarrow> bytes_at M p bs"
  by (auto simp: bytes_at_iff map_le_def dom_def)

lemma bytes_at_restrict:
  assumes "bytes_at m p bs" "M \<subseteq>\<^sub>m m" "\<And>a. p \<le> a \<Longrightarrow> a < p + length bs \<Longrightarrow> M a \<noteq> None"
  shows "bytes_at M p bs"
  using assms by (intro bytes_at_cong [OF assms(1)]) (auto simp: map_le_def dom_def)

lemma within_refl: "within p n m m"
  by (simp add: within_def)

lemma within_sub: "within p n M m \<Longrightarrow> q \<le> p \<Longrightarrow> p + n \<le> q + k \<Longrightarrow> within q k M m"
  by (auto simp: within_def)

lemma within_put:
  assumes "within p n m m0" "\<forall>a. p \<le> a \<and> a < p + n \<longrightarrow> m0 a \<noteq> None" "p \<le> q" "q + length bs \<le> p + n"
  shows "within p n (put_bytes q bs m) m0"
proof -
  have "dom (put_bytes q bs m) = dom m0"
    using assms by (auto simp: within_def put_bytes_def dom_def split: if_splits)
  with assms show ?thesis by (auto simp: within_def put_bytes_def)
qed

lemma within_bytes:
  "within p n M m \<Longrightarrow> bytes_at m q bs \<Longrightarrow> q + length bs \<le> p \<or> p + n \<le> q \<Longrightarrow> bytes_at M q bs"
  by (erule bytes_at_cong) (auto simp: within_def)

lemma within_mapped: "within p n M (memory s) \<Longrightarrow> mapped (s\<lparr>memory := M\<rparr>) q k = mapped s q k"
  by (auto simp: within_def mapped_iff dom_def)

lemma length_le32 [simp]: "length (le32 w) = 4"
  by (simp add: le32_def)

lemma length_le64 [simp]: "length (le64 v) = 8"
  by (simp add: le64_def)

lemma un_le32_le32 [simp]: "un_le32 (le32 w) = w"
  by (simp add: le32_def un_le32_def)

lemma un_le64_le64 [simp]: "un_le64 (le64 v) = v"
  by (simp add: le64_def un_le64_def)

lemma store_bytes_mapped:
  "mapped s p (length bs) \<Longrightarrow> store_bytes p bs s = (Ok (), s\<lparr>memory := put_bytes p bs (memory s)\<rparr>)"
  by (simp add: store_bytes_def)

lemma load_bytes_at:
  assumes "bytes_at (memory s) p bs" "n = length bs"
  shows "load_bytes p n s = (Ok bs, s)"
proof -
  have "mapped s p n" using assms by (auto simp: mapped_def bytes_at_iff list_all_iff)
  moreover have "map (\<lambda>i. the (memory s (p + i))) [0..<n] = bs"
    using assms by (intro nth_equalityI) (auto simp: bytes_at_iff)
  ultimately show ?thesis by (simp add: load_bytes_def)
qed

lemma load32_at: "bytes_at (memory s) p (le32 w) \<Longrightarrow> load32 p s = (Ok w, s)"
  by (simp add: load32_def load_bytes_at op_simps)

lemma load64_at: "bytes_at (memory s) p (le64 v) \<Longrightarrow> load64 p s = (Ok v, s)"
  by (simp add: load64_def load_bytes_at op_simps)

subsection \<open>What an allocator promises\<close>

text \<open>
  \<open>owned s p n\<close>: \<open>p\<close> is a block of \<open>n\<close> bytes that has been allocated and not been released;
  \<open>ready\<close> is the allocator's own invariant and \<open>fits\<close> the sizes it can be asked for. A new block lies
  in memory that was not mapped and no allocated block moves or changes; its owner may write to a block
  (and to nothing else); a released block is unmapped.
\<close>

locale allocator =
  fixes alloc :: "bool \<Rightarrow> uint32 \<Rightarrow> ('z mem_state_scheme, ptr) op"
    and dealloc :: "ptr \<Rightarrow> uint32 \<Rightarrow> ('z mem_state_scheme, unit) op"
    and owned :: "'z mem_state_scheme \<Rightarrow> ptr \<Rightarrow> uint32 \<Rightarrow> bool"
    and ready :: "'z mem_state_scheme \<Rightarrow> bool"
    and fits :: "uint32 \<Rightarrow> bool"
  assumes alloc_law: "ready s \<Longrightarrow> fits n \<Longrightarrow>
      \<exists>p s'. alloc z n s = (Ok p, s') \<and> ready s' \<and> mem_reports s' = mem_reports s \<and>
        memory s \<subseteq>\<^sub>m memory s' \<and> (\<forall>q m. owned s q m \<longrightarrow> owned s' q m) \<and>
        (p \<noteq> NULL \<longrightarrow> owned s' p n \<and> (\<forall>a. p \<le> a \<and> a < p + unat n \<longrightarrow> memory s a = None) \<and>
           (z \<longrightarrow> bytes_at (memory s') p (replicate (unat n) 0)))"
    and owned_law: "owned s p n \<Longrightarrow> p \<noteq> NULL \<and> mapped s p (unat n)"
    and separate: "owned s p n \<Longrightarrow> owned s q m \<Longrightarrow> p \<noteq> q \<Longrightarrow> p + unat n \<le> q \<or> q + unat m \<le> p"
    and write_law: "owned s p n \<Longrightarrow> within p (unat n) M (memory s) \<Longrightarrow>
        (ready s \<longrightarrow> ready (s\<lparr>memory := M\<rparr>)) \<and> (owned s q m \<longrightarrow> owned (s\<lparr>memory := M\<rparr>) q m)"
    and free_law: "ready s \<Longrightarrow> owned s p n \<Longrightarrow>
      \<exists>s'. dealloc p n s = (Ok (), s') \<and> ready s' \<and> mem_reports s' = mem_reports s \<and>
        memory s' \<subseteq>\<^sub>m memory s \<and> (\<forall>a. p \<le> a \<and> a < p + unat n \<longrightarrow> memory s' a = None) \<and>
        (\<forall>q m. q \<noteq> p \<longrightarrow> owned s q m \<longrightarrow> owned s' q m)"
begin

lemma kept_bytes:
  assumes "owned s' q m" "memory s' \<subseteq>\<^sub>m memory s" "bytes_at (memory s) a bs" "q \<le> a" "a + length bs \<le> q + unat m"
  shows "bytes_at (memory s') a bs"
  using assms owned_law [OF assms(1)] by (intro bytes_at_restrict [OF assms(3,2)]) (auto simp: mapped_iff)

lemma owner_stores:
  assumes "ready s" "owned s p n" "p \<le> a" "a + length bs \<le> p + unat n"
  shows "\<exists>s'. store_bytes a bs s = (Ok (), s') \<and> ready s' \<and> bytes_at (memory s') a bs \<and>
    (\<forall>q m. owned s q m \<longrightarrow> owned s' q m)"
proof -
  have m: "mapped s p (unat n)" using owned_law [OF assms(2)] by simp
  then have "within p (unat n) (put_bytes a bs (memory s)) (memory s)"
    using assms by (intro within_put within_refl) (auto simp: mapped_iff)
  with write_law [OF assms(2) this] mapped_sub [OF m assms(3,4)] assms(1) show ?thesis
    by (simp add: store_bytes_mapped)
qed

end

text \<open>
  An allocator of a library, which the static variables of \<^verbatim>\<open>npw-malloc.c\<close> do not concern.
\<close>

locale library_allocator = allocator +
  assumes statics_law: "owned (s\<lparr>malloc_check := c\<rparr>) = owned s" "ready (s\<lparr>malloc_check := c\<rparr>) = ready s"
    "owned (s\<lparr>malloc_hooks := h\<rparr>) = owned s" "ready (s\<lparr>malloc_hooks := h\<rparr>) = ready s"
    and untouched: "alloc z n s = (r, s') \<Longrightarrow> malloc_check s' = malloc_check s \<and> malloc_hooks s' = malloc_hooks s"
    "dealloc p n s = (r', s') \<Longrightarrow> malloc_check s' = malloc_check s \<and> malloc_hooks s' = malloc_hooks s"

subsection \<open>The static variables\<close>

definition checks_on :: "('s, 'y) mem_env_scheme \<Rightarrow> bool" where
  "checks_on E \<longleftrightarrow> ENABLE_MALLOC_CHECK E \<and> is_malloc_check_enabled_1 E"

definition guard :: "('s, 'y) mem_env_scheme \<Rightarrow> nat" where
  "guard E = (if checks_on E then 16 else 0)"

definition chosen :: "('s, 'y) mem_env_scheme \<Rightarrow> malloc_lib" where
  "chosen E = (if USE_MALLOC_LIBC E \<and> USE_MALLOC_GLIB E then do_get_malloc_hooks E else DEFAULT_MALLOC_LIB E)"

definition statics_ok :: "('s, 'y) mem_env_scheme \<Rightarrow> 'z mem_state_scheme \<Rightarrow> bool" where
  "statics_ok E s \<longleftrightarrow> (malloc_check s < 0 \<or> malloc_check s = (if is_malloc_check_enabled_1 E then 1 else 0)) \<and>
     (malloc_hooks s = None \<or> malloc_hooks s = Some (do_get_malloc_hooks E))"

definition settle_check :: "('s, 'y) mem_env_scheme \<Rightarrow> 'z mem_state_scheme \<Rightarrow> 'z mem_state_scheme" where
  "settle_check E s =
     s\<lparr>malloc_check := (if ENABLE_MALLOC_CHECK E then if is_malloc_check_enabled_1 E then 1 else 0 else malloc_check s)\<rparr>"

definition settle_hooks :: "('s, 'y) mem_env_scheme \<Rightarrow> 'z mem_state_scheme \<Rightarrow> 'z mem_state_scheme" where
  "settle_hooks E s =
     s\<lparr>malloc_hooks := (if USE_MALLOC_LIBC E \<and> USE_MALLOC_GLIB E then Some (do_get_malloc_hooks E) else malloc_hooks s)\<rparr>"

lemma settle_simps [simp]:
  "memory (settle_check E s) = memory s" "mem_reports (settle_check E s) = mem_reports s"
  "memory (settle_hooks E s) = memory s" "mem_reports (settle_hooks E s) = mem_reports s"
  "settle_check E (settle_check E s) = settle_check E s"
  "settle_check E (s\<lparr>memory := m\<rparr>) = (settle_check E s)\<lparr>memory := m\<rparr>"
  by (simp_all add: settle_check_def settle_hooks_def)

lemma settle_statics [simp]:
  "statics_ok E s \<Longrightarrow> statics_ok E (settle_check E s)" "statics_ok E s \<Longrightarrow> statics_ok E (settle_hooks E s)"
  "statics_ok E (s\<lparr>memory := m\<rparr>) = statics_ok E s"
  by (auto simp: settle_check_def settle_hooks_def statics_ok_def)

lemma is_malloc_check_enabled_run:
  "statics_ok E s \<Longrightarrow> is_malloc_check_enabled E s = (Ok (checks_on E), settle_check E s)"
  by (auto simp: is_malloc_check_enabled_def statics_ok_def checks_on_def settle_check_def)

lemma malloc_check_guards_size_run:
  "statics_ok E s \<Longrightarrow> malloc_check_guards_size E s = (Ok (guard E), settle_check E s)"
  by (simp add: malloc_check_guards_size_def is_malloc_check_enabled_run guard_def op_simps)

lemma get_malloc_hooks_run:
  "statics_ok E s \<Longrightarrow> get_malloc_hooks E s = (Ok (hooks_of E (chosen E)), settle_hooks E s)"
  by (auto simp: get_malloc_hooks_def statics_ok_def chosen_def settle_hooks_def)

subsection \<open>Blocks with headers and guards\<close>

definition npw_real_size :: "('s, 'y) mem_env_scheme \<Rightarrow> uint32 \<Rightarrow> uint32" where
  "npw_real_size E n = of_nat sizeof_MemBlock + n + 2 * of_nat (guard E)"

definition npw_fits :: "('s, 'y) mem_env_scheme \<Rightarrow> uint32 \<Rightarrow> bool" where
  "npw_fits E n \<longleftrightarrow> sizeof_MemBlock + unat n + 2 * guard E < 2 ^ 32"

definition header_bytes :: "uint32 \<Rightarrow> uint32 \<Rightarrow> uint64 \<times> uint32 \<Rightarrow> byte list" where
  "header_bytes n r pos = le32 NPW_MALLOC_MAGIC @ le32 r @ le32 n @ le32 (snd pos) @ le64 (fst pos)"

definition npw_block ::
  "('s, 'y) mem_env_scheme \<Rightarrow> (ptr \<Rightarrow> byte option) \<Rightarrow> ptr \<Rightarrow> uint32 \<Rightarrow> uint64 \<times> uint32 \<Rightarrow> bool"
where
  "npw_block E m p n pos \<longleftrightarrow>
     sizeof_MemBlock + guard E \<le> p \<and> npw_fits E n \<and>
     bytes_at m (p - (sizeof_MemBlock + guard E)) (header_bytes n (npw_real_size E n) pos) \<and>
     bytes_at m (p - guard E) (replicate (guard E) MALLOC_CHECK_GUARD_MARK) \<and>
     bytes_at m (p + unat n) (replicate (guard E) MALLOC_CHECK_GUARD_MARK)"

definition npw_owned ::
  "('s, 'y) mem_env_scheme \<Rightarrow> ('z mem_state_scheme \<Rightarrow> ptr \<Rightarrow> uint32 \<Rightarrow> bool) \<Rightarrow> 'z mem_state_scheme \<Rightarrow> ptr \<Rightarrow> uint32 \<Rightarrow> bool"
where
  "npw_owned E owned s p n \<longleftrightarrow>
     owned s (p - (sizeof_MemBlock + guard E)) (npw_real_size E n) \<and> (\<exists>pos. npw_block E (memory s) p n pos)"

definition npw_ready ::
  "('s, 'y) mem_env_scheme \<Rightarrow> ('z mem_state_scheme \<Rightarrow> bool) \<Rightarrow> 'z mem_state_scheme \<Rightarrow> bool"
where
  "npw_ready E ready s \<longleftrightarrow> ready s \<and> statics_ok E s"

definition npw_alloc ::
  "('z mem_state_scheme, 'y) mem_env_scheme \<Rightarrow> uint64 \<times> uint32 \<Rightarrow> bool \<Rightarrow> uint32 \<Rightarrow> ('z mem_state_scheme, ptr) op"
where
  "npw_alloc E pos z n = (if z then npw_mem_alloc0 E n pos else npw_mem_alloc E n pos)"

lemma unat_npw_real_size:
  "npw_fits E n \<Longrightarrow> unat (npw_real_size E n) = sizeof_MemBlock + unat n + 2 * guard E"
  unfolding npw_real_size_def npw_fits_def
  by (auto simp: guard_def sizeof_MemBlock_def unat_word_ariths unat_of_nat nat_less_iff)

lemma length_header_bytes [simp]: "length (header_bytes n r pos) = 24"
  by (simp add: header_bytes_def)

lemma all_less_add: "(\<forall>i < a + b. P i) \<longleftrightarrow> (\<forall>i < a. P i) \<and> (\<forall>i < (b :: nat). P (a + i))"
  by (metis add_less_cancel_left le_add_diff_inverse not_less trans_less_add1)

lemma bytes_at_append:
  "bytes_at m p (bs @ cs) \<longleftrightarrow> bytes_at m p bs \<and> bytes_at m (p + length bs) cs"
  by (simp add: bytes_at_iff all_less_add nth_append add.assoc)

lemma mapped_put: "mapped (s\<lparr>memory := m\<rparr>) p n \<Longrightarrow> mapped (s\<lparr>memory := put_bytes q bs m\<rparr>) p n"
  by (auto simp: mapped_iff put_bytes_def)

lemma memory_update_idem: "s\<lparr>memory := m, memory := m'\<rparr> = s\<lparr>memory := m'\<rparr>"
  by simp

lemma bytes_at_header_put:
  "bytes_at (put_bytes (p + 12) (le32 (snd pos)) (put_bytes (p + 16) (le64 (fst pos)) (put_bytes (p + 8) (le32 n)
     (put_bytes (p + 4) (le32 r) (put_bytes p (le32 NPW_MALLOC_MAGIC) m))))) p (header_bytes n r pos)"
  unfolding header_bytes_def bytes_at_append
  by (intro conjI; simp add: add.assoc bytes_at_put_other)

lemma npw_do_mem_alloc_run:
  assumes st: "statics_ok E s" and fit: "npw_fits E n"
    and alloc: "mem_alloc_func (npw_real_size E n) (settle_check E s) = (Ok p, s1)" "p \<noteq> NULL"
    and s1: "settle_check E s1 = s1" "statics_ok E s1" "mapped s1 p (unat (npw_real_size E n))"
  shows "\<exists>M. npw_do_mem_alloc E mem_alloc_func n pos s =
      (Ok (p + sizeof_MemBlock + guard E), s1\<lparr>memory := M\<rparr>) \<and>
    within p (unat (npw_real_size E n)) M (memory s1) \<and>
    (\<forall>a. p + sizeof_MemBlock + guard E \<le> a \<and> a < p + sizeof_MemBlock + guard E + unat n \<longrightarrow> M a = memory s1 a) \<and>
    npw_block E M (p + sizeof_MemBlock + guard E) n pos"
proof -
  let ?r = "npw_real_size E n" and ?g = "guard E" and ?q = "p + sizeof_MemBlock + guard E"
  let ?gs = "replicate ?g MALLOC_CHECK_GUARD_MARK"
  let ?H = "put_bytes (p + 12) (le32 (snd pos)) (put_bytes (p + 16) (le64 (fst pos)) (put_bytes (p + 8) (le32 n)
     (put_bytes (p + 4) (le32 ?r) (put_bytes p (le32 NPW_MALLOC_MAGIC) (memory s1)))))"
  let ?M = "put_bytes (?q + unat n) ?gs (put_bytes (?q - ?g) ?gs ?H)"
  have r: "unat ?r = 24 + unat n + 2 * ?g" using unat_npw_real_size [OF fit] by (simp add: sizeof_MemBlock_def)
  have mp: "mapped s1 a k" if "p \<le> a" "a + k \<le> p + (24 + unat n + 2 * ?g)" for a k
    using mapped_sub [OF s1(3) that(1)] that(2) by (simp add: r)
  have mp': "mapped (s1\<lparr>memory := m\<rparr>) a k" if "within p (unat ?r) m (memory s1)" "p \<le> a" "a + k \<le> p + (24 + unat n + 2 * ?g)" for m a k
    using mp [OF that(2,3)] within_mapped [OF that(1)] by simp
  have al: "\<forall>a. p \<le> a \<and> a < p + unat ?r \<longrightarrow> memory s1 a \<noteq> None"
    using s1(3) by (simp add: mapped_iff)
  note put = within_put [OF _ al]
  have H: "within p (unat ?r) ?H (memory s1)"
    by (intro put within_refl) (simp_all add: r)
  have H1: "within p (unat ?r) (put_bytes (?q - ?g) ?gs ?H) (memory s1)"
    by (intro put [OF H]) (simp_all add: r sizeof_MemBlock_def)
  have M: "within p (unat ?r) ?M (memory s1)"
    by (intro put [OF H1]) (simp_all add: r sizeof_MemBlock_def)
  have stores: "run_all [store_bytes p (le32 NPW_MALLOC_MAGIC), store_bytes (p + 4) (le32 ?r), store_bytes (p + 8) (le32 n),
      store_bytes (p + 16) (le64 (fst pos)), store_bytes (p + 12) (le32 (snd pos))] s1 = (Ok (), s1\<lparr>memory := ?H\<rparr>)"
    by (simp add: op_simps store_bytes_mapped mapped_put mp)
  have init: "malloc_check_guards_init E ?q n (s1\<lparr>memory := ?H\<rparr>) = (Ok (), s1\<lparr>memory := ?M\<rparr>)"
  proof (cases "checks_on E")
    case True
    have "settle_check E (s1\<lparr>memory := m\<rparr>) = s1\<lparr>memory := m\<rparr>" for m using s1(1) by simp
    with True mp' [OF H, of "?q - ?g" ?g] mp' [OF H1, of "?q + unat n" ?g] show ?thesis
      by (simp add: malloc_check_guards_init_def is_malloc_check_enabled_run malloc_check_guards_size_run
          s1(2) op_simps fill_bytes_def store_bytes_mapped sizeof_MemBlock_def)
  next
    case False
    then have "?M = ?H" by (simp add: guard_def)
    with False s1(1,2) show ?thesis
      by (simp add: malloc_check_guards_init_def is_malloc_check_enabled_run op_simps)
  qed
  have run: "npw_do_mem_alloc E mem_alloc_func n pos s = (Ok ?q, s1\<lparr>memory := ?M\<rparr>)"
    using alloc st stores init s1(1,2)
    by (simp add: npw_do_mem_alloc_def malloc_check_guards_size_run npw_real_size_def op_simps Let_def del: run_all.simps)
  have "bytes_at ?M p (header_bytes n ?r pos)"
    by (intro bytes_at_put_other bytes_at_header_put) (simp_all add: sizeof_MemBlock_def)
  moreover have "bytes_at ?M (?q - ?g) ?gs"
    by (rule bytes_at_put_other) simp_all
  ultimately have "npw_block E ?M ?q n pos"
    unfolding npw_block_def using fit by (simp add: sizeof_MemBlock_def)
  moreover have "?M a = memory s1 a" if "?q \<le> a" "a < ?q + unat n" for a
    using that by (simp add: put_bytes_def sizeof_MemBlock_def)
  ultimately show ?thesis using run M by blast
qed

lemma guards_loop_clean:
  assumes "bytes_at (memory s) (p - g) (replicate g MALLOC_CHECK_GUARD_MARK)" "g \<le> p"
    and "bytes_at (memory s) (p + n) (replicate g MALLOC_CHECK_GUARD_MARK)" "set js \<subseteq> {0..<g}"
  shows "guards_loop p n js (u, v) s = (Ok (u, v), s)"
  using assms(4)
proof (induction js arbitrary: u v)
  case Nil
  then show ?case by (simp add: op_simps)
next
  case (Cons i js)
  then have i: "i < g" by simp
  have "memory s (p - g + k) = Some MALLOC_CHECK_GUARD_MARK" if "k < g" for k
    using assms(1) that by (simp add: bytes_at_iff)
  from this [of "g - Suc i"] i have "memory s (p - g + (g - Suc i)) = Some MALLOC_CHECK_GUARD_MARK" by simp
  moreover have "p - g + (g - Suc i) = p - Suc i" using i assms(2) by simp
  ultimately have "load_bytes (p - Suc i) 1 s = (Ok [MALLOC_CHECK_GUARD_MARK], s)"
    by (intro load_bytes_at) (simp_all add: bytes_at_iff)
  moreover have "load_bytes (p + n + i) 1 s = (Ok [MALLOC_CHECK_GUARD_MARK], s)"
    using assms(3) i by (intro load_bytes_at) (simp_all add: bytes_at_iff)
  ultimately show ?case using Cons by (simp add: op_simps)
qed

lemma malloc_check_guards_ok_clean:
  assumes "statics_ok E s" "npw_block E (memory s) p n pos"
  shows "malloc_check_guards_ok E p n s = (Ok (True, 0, 0), settle_check E s)"
proof -
  have "guards_loop p (unat n) [0..<guard E] (0, 0) (settle_check E s) = (Ok (0, 0), settle_check E s)"
    using assms(2) by (intro guards_loop_clean [where g = "guard E"]) (simp_all add: npw_block_def)
  with assms(1) show ?thesis
    by (simp add: malloc_check_guards_ok_def is_malloc_check_enabled_run malloc_check_guards_size_run op_simps)
qed

lemma npw_block_header:
  assumes "npw_block E m p n pos" "q = p - (sizeof_MemBlock + guard E)"
  shows "bytes_at m q (le32 NPW_MALLOC_MAGIC)" "bytes_at m (q + 4) (le32 (npw_real_size E n))"
    "bytes_at m (q + 8) (le32 n)" "bytes_at m (q + 12) (le32 (snd pos))" "bytes_at m (q + 16) (le64 (fst pos))"
proof -
  have "bytes_at m q (header_bytes n (npw_real_size E n) pos)"
    using assms by (simp add: npw_block_def)
  then show "bytes_at m q (le32 NPW_MALLOC_MAGIC)" "bytes_at m (q + 4) (le32 (npw_real_size E n))"
    "bytes_at m (q + 8) (le32 n)" "bytes_at m (q + 12) (le32 (snd pos))" "bytes_at m (q + 16) (le64 (fst pos))"
    by (simp_all add: header_bytes_def bytes_at_append add.assoc)
qed

lemma npw_mem_free_run:
  assumes st: "statics_ok E s" and b: "npw_block E (memory s) p n pos"
  shows "npw_mem_free E p pos' s =
    memfree (hooks_of E (chosen E)) (p - (sizeof_MemBlock + guard E)) (npw_real_size E n)
      (settle_hooks E (settle_check E s))"
proof -
  have p: "p \<noteq> NULL" using b by (auto simp: npw_block_def sizeof_MemBlock_def)
  note hd = npw_block_header [OF b refl]
  show ?thesis
    using st p b hd
    by (simp add: npw_mem_free_def malloc_check_guards_size_run malloc_check_guards_ok_clean
        get_malloc_hooks_run load32_at load64_at op_simps Let_def)
qed

lemma npw_block_within:
  assumes "npw_block E m p n pos" "within q k M m"
    and "p + unat n + guard E \<le> q \<or> q + k \<le> p - (sizeof_MemBlock + guard E) \<or> p \<le> q \<and> q + k \<le> p + unat n"
  shows "npw_block E M p n pos"
  using assms unfolding npw_block_def by (auto elim!: within_bytes simp: sizeof_MemBlock_def)

subsection \<open>The blocks of \<open>NPW_MemAlloc\<close> keep the contract\<close>

text \<open>An environment whose chosen hooks are the functions of a library allocator.\<close>

locale npw_blocks = library_allocator alloc dealloc owned ready "\<lambda>_. True"
  for alloc :: "bool \<Rightarrow> uint32 \<Rightarrow> ('z mem_state_scheme, ptr) op"
    and dealloc :: "ptr \<Rightarrow> uint32 \<Rightarrow> ('z mem_state_scheme, unit) op"
    and owned ready +
  fixes E :: "('z mem_state_scheme, 'y) mem_env_scheme"
  assumes hooks: "memalloc (hooks_of E (chosen E)) = alloc False" "memalloc0 (hooks_of E (chosen E)) = alloc True"
    "memfree (hooks_of E (chosen E)) = dealloc"
begin

lemma settled:
  "owned (settle_check E s) = owned s" "ready (settle_check E s) = ready s"
  "owned (settle_hooks E s) = owned s" "ready (settle_hooks E s) = ready s"
  by (simp_all add: settle_check_def settle_hooks_def statics_law)

lemma npw_owned_base:
  assumes "npw_owned E owned s p n"
  shows "owned s (p - (sizeof_MemBlock + guard E)) (npw_real_size E n)" "sizeof_MemBlock + guard E \<le> p"
    "unat (npw_real_size E n) = sizeof_MemBlock + unat n + 2 * guard E"
  using assms unat_npw_real_size by (auto simp: npw_owned_def npw_block_def)

lemma npw_separate:
  assumes "npw_owned E owned s p n" "npw_owned E owned s q m" "p \<noteq> q"
  shows "p + unat n + guard E \<le> q - (sizeof_MemBlock + guard E) \<or>
    q + unat m + guard E \<le> p - (sizeof_MemBlock + guard E)"
proof -
  have "p - (sizeof_MemBlock + guard E) \<noteq> q - (sizeof_MemBlock + guard E)"
    using assms(3) npw_owned_base(2) [OF assms(1)] npw_owned_base(2) [OF assms(2)] by linarith
  from separate [OF npw_owned_base(1) [OF assms(1)] npw_owned_base(1) [OF assms(2)] this] show ?thesis
    using npw_owned_base(2,3) [OF assms(1)] npw_owned_base(2,3) [OF assms(2)] by linarith
qed

lemma npw_write:
  assumes p: "npw_owned E owned s p n" and w: "within p (unat n) M (memory s)" and q: "npw_owned E owned s q m"
  shows "npw_owned E owned (s\<lparr>memory := M\<rparr>) q m"
proof -
  have W: "within (p - (sizeof_MemBlock + guard E)) (unat (npw_real_size E n)) M (memory s)"
    using npw_owned_base(2,3) [OF p] by (intro within_sub [OF w]) linarith+
  have "owned (s\<lparr>memory := M\<rparr>) (q - (sizeof_MemBlock + guard E)) (npw_real_size E m)"
    using write_law [OF npw_owned_base(1) [OF p] W] npw_owned_base(1) [OF q] by blast
  moreover obtain pos where b: "npw_block E (memory s) q m pos" using q by (auto simp: npw_owned_def)
  have "npw_block E M q m pos"
  proof (rule npw_block_within [OF b w])
    show "q + unat m + guard E \<le> p \<or> p + unat n \<le> q - (sizeof_MemBlock + guard E) \<or>
        q \<le> p \<and> p + unat n \<le> q + unat m"
    proof (cases "p = q")
      case False
      with npw_separate [OF p q] show ?thesis by linarith
    next
      case True
      have "npw_real_size E n = npw_real_size E m"
        using npw_block_header(2) [OF b refl] p True
        by (metis npw_owned_def npw_block_header(2) load32_at prod.inject res.inject(1))
      then show ?thesis using True npw_owned_base(3) [OF p] npw_owned_base(3) [OF q] by simp
    qed
  qed
  ultimately show ?thesis by (auto simp: npw_owned_def simp del: split_paired_Ex)
qed

lemma npw_kept:
  assumes "npw_owned E owned s q m" "\<And>p n. owned s p n \<Longrightarrow> P p \<Longrightarrow> owned s' p n" "P (q - (sizeof_MemBlock + guard E))"
    and "memory s \<subseteq>\<^sub>m memory s' \<or> memory s' \<subseteq>\<^sub>m memory s"
  shows "npw_owned E owned s' q m"
proof -
  let ?b = "q - (sizeof_MemBlock + guard E)" and ?r = "npw_real_size E m"
  have o: "owned s' ?b ?r" using assms(1-3) by (simp add: npw_owned_def)
  obtain pos where b: "npw_block E (memory s) q m pos" using assms(1) by (auto simp: npw_owned_def)
  have same: "memory s' a = memory s a" if "?b \<le> a" "a < ?b + unat ?r" for a
    using assms(4) owned_law [OF o] owned_law [OF npw_owned_base(1) [OF assms(1)]] that
    by (fastforce simp: mapped_iff map_le_def dom_def)
  have "npw_block E (memory s') q m pos"
    using b npw_owned_base(2,3) [OF assms(1)] unfolding npw_block_def
    by (auto elim!: bytes_at_cong intro!: same simp: sizeof_MemBlock_def)
  with o show ?thesis by (auto simp: npw_owned_def simp del: split_paired_Ex)
qed

lemma npw_alloc_law:
  assumes rdy: "npw_ready E ready s" and fit: "npw_fits E n"
  shows "\<exists>p s'. npw_alloc E pos z n s = (Ok p, s') \<and> npw_ready E ready s' \<and> mem_reports s' = mem_reports s \<and>
    memory s \<subseteq>\<^sub>m memory s' \<and> (\<forall>q m. npw_owned E owned s q m \<longrightarrow> npw_owned E owned s' q m) \<and>
    (p \<noteq> NULL \<longrightarrow> npw_owned E owned s' p n \<and> (\<forall>a. p \<le> a \<and> a < p + unat n \<longrightarrow> memory s a = None) \<and>
      (z \<longrightarrow> bytes_at (memory s') p (replicate (unat n) 0)))"
proof -
  let ?t = "settle_check E (settle_hooks E s)" and ?r = "npw_real_size E n" and ?k = "sizeof_MemBlock + guard E"
  have st: "statics_ok E s" and "ready ?t" using rdy by (simp_all add: npw_ready_def settled)
  then obtain b s1 where al: "alloc z ?r ?t = (Ok b, s1)" "ready s1" "mem_reports s1 = mem_reports s"
    "memory s \<subseteq>\<^sub>m memory s1" "\<forall>q m. owned s q m \<longrightarrow> owned s1 q m"
    "b \<noteq> NULL \<longrightarrow> owned s1 b ?r \<and> (\<forall>a. b \<le> a \<and> a < b + unat ?r \<longrightarrow> memory s a = None) \<and>
       (z \<longrightarrow> bytes_at (memory s1) b (replicate (unat ?r) 0))"
    using alloc_law [of ?t z ?r] by (auto simp: settled)
  from untouched(1) [OF al(1)] st have s1: "settle_check E s1 = s1" "statics_ok E s1"
    by (auto simp: settle_check_def settle_hooks_def statics_ok_def)
  have run: "npw_alloc E pos z n s = npw_do_mem_alloc E (alloc z) n pos (settle_hooks E s)"
    using st by (simp add: npw_alloc_def npw_mem_alloc_def npw_mem_alloc0_def get_malloc_hooks_run hooks op_simps)
  have keep: "npw_owned E owned s1 q m" if "npw_owned E owned s q m" for q m
    by (rule npw_kept [OF that, where P = "\<lambda>_. True"]) (use al(4,5) in auto)
  show ?thesis
  proof (cases "b = NULL")
    case True
    have "npw_do_mem_alloc E (alloc z) n pos (settle_hooks E s) = (Ok NULL, s1)"
      using al(1) st True by (simp add: npw_do_mem_alloc_def malloc_check_guards_size_run npw_real_size_def op_simps Let_def)
    with run al keep s1 show ?thesis by (auto simp: npw_ready_def)
  next
    case False
    let ?q = "b + sizeof_MemBlock + guard E"
    have o: "owned s1 b ?r" and new: "memory s a = None" if "b \<le> a \<and> a < b + unat ?r" for a
      using al(6) False that by auto
    have o: "owned s1 b ?r" using al(6) False by blast
    have r: "unat ?r = sizeof_MemBlock + unat n + 2 * guard E" by (rule unat_npw_real_size [OF fit])
    have al': "alloc z ?r (settle_check E (settle_hooks E s)) = (Ok b, s1)" by (rule al(1))
    obtain M where M: "npw_do_mem_alloc E (alloc z) n pos (settle_hooks E s) = (Ok ?q, s1\<lparr>memory := M\<rparr>)"
      "within b (unat ?r) M (memory s1)" "\<And>a. ?q \<le> a \<Longrightarrow> a < ?q + unat n \<Longrightarrow> M a = memory s1 a"
      "npw_block E M ?q n pos"
      using npw_do_mem_alloc_run [where mem_alloc_func = "alloc z" and s = "settle_hooks E s" and p = b and ?s1.0 = s1 and pos = pos,
          OF settle_statics(2) [OF st] fit al' False s1] owned_law [OF o] by blast
    let ?s2 = "s1\<lparr>memory := M\<rparr>"
    have own: "owned ?s2 p m" if "owned s1 p m" for p m
      using write_law [OF o M(2)] that by blast
    have le: "memory s \<subseteq>\<^sub>m memory ?s2"
    proof (unfold map_le_def, intro ballI)
      fix a assume a: "a \<in> dom (memory s)"
      with new [of a] have "a < b \<or> b + unat ?r \<le> a" by fastforce
      with M(2) have "M a = memory s1 a" by (auto simp: within_def)
      with a al(4) show "memory s a = memory ?s2 a" by (auto simp: map_le_def dom_def)
    qed
    have keep2: "npw_owned E owned ?s2 q m" if "npw_owned E owned s q m" for q m
      by (rule npw_kept [OF that, where P = "\<lambda>_. True"]) (use al(5) own le in auto)
    have "npw_owned E owned ?s2 ?q n"
      using own [OF o] M(4) by (auto simp: npw_owned_def simp del: split_paired_Ex)
    moreover have "bytes_at M ?q (replicate (unat n) 0)" if z
    proof (rule bytes_at_cong)
      show "bytes_at (memory s1) ?q (replicate (unat n) 0)"
        unfolding bytes_at_iff
      proof (intro allI impI)
        fix i assume "i < length (replicate (unat n) (0 :: byte))"
        moreover have "bytes_at (memory s1) b (replicate (unat ?r) 0)" using al(6) False that by blast
        ultimately show "memory s1 (?q + i) = Some (replicate (unat n) 0 ! i)"
          using r by (simp add: bytes_at_iff add.assoc)
      qed
    qed (use M(3) in simp)
    moreover have "ready ?s2" using write_law [OF o M(2)] al(2) by blast
    ultimately show ?thesis
      using run M(1) False al(3) le keep2 s1 new r by (auto simp: npw_ready_def)
  qed
qed

lemma npw_free_law:
  assumes rdy: "npw_ready E ready s" and p: "npw_owned E owned s p n"
  shows "\<exists>s'. npw_mem_free E p pos s = (Ok (), s') \<and> npw_ready E ready s' \<and> mem_reports s' = mem_reports s \<and>
    memory s' \<subseteq>\<^sub>m memory s \<and> (\<forall>a. p \<le> a \<and> a < p + unat n \<longrightarrow> memory s' a = None) \<and>
    (\<forall>q m. q \<noteq> p \<longrightarrow> npw_owned E owned s q m \<longrightarrow> npw_owned E owned s' q m)"
proof -
  let ?t = "settle_hooks E (settle_check E s)" and ?b = "p - (sizeof_MemBlock + guard E)" and ?r = "npw_real_size E n"
  have st: "statics_ok E s" and t: "ready ?t" "owned ?t ?b ?r"
    using rdy npw_owned_base(1) [OF p] by (simp_all add: npw_ready_def settled)
  obtain pos' where b: "npw_block E (memory s) p n pos'" using p by (auto simp: npw_owned_def)
  obtain s' where fr: "dealloc ?b ?r ?t = (Ok (), s')" "ready s'" "mem_reports s' = mem_reports s"
    "memory s' \<subseteq>\<^sub>m memory s" "\<forall>a. ?b \<le> a \<and> a < ?b + unat ?r \<longrightarrow> memory s' a = None"
    "\<forall>q m. q \<noteq> ?b \<longrightarrow> owned s q m \<longrightarrow> owned s' q m"
    using free_law [OF t] by (auto simp: settled)
  have run: "npw_mem_free E p pos s = (Ok (), s')"
    using npw_mem_free_run [OF st b] hooks(3) fr(1) by simp
  have s': "statics_ok E s'"
    using untouched(2) [OF fr(1)] st by (auto simp: settle_check_def settle_hooks_def statics_ok_def)
  have keep: "npw_owned E owned s' q m" if "q \<noteq> p" "npw_owned E owned s q m" for q m
  proof (rule npw_kept [OF that(2), where P = "\<lambda>x. x \<noteq> ?b"])
    show "q - (sizeof_MemBlock + guard E) \<noteq> ?b"
      using that npw_owned_base(2) [OF p] npw_owned_base(2) [OF that(2)] by linarith
  qed (use fr(4,6) in auto)
  have "memory s' a = None" if "p \<le> a" "a < p + unat n" for a
    using fr(5) that npw_owned_base(2,3) [OF p] by simp
  with run fr(2-4) s' keep show ?thesis by (auto simp: npw_ready_def)
qed

lemma npw_mapped:
  assumes "npw_owned E owned s p n"
  shows "p \<noteq> NULL \<and> mapped s p (unat n)"
proof
  note b = npw_owned_base [OF assms]
  show "p \<noteq> NULL" using b(2) by (simp add: sizeof_MemBlock_def)
  show "mapped s p (unat n)"
    using owned_law [OF b(1)] b(2,3) by (intro mapped_sub [of s "p - (sizeof_MemBlock + guard E)" _ p]) auto
qed

lemma npw_write_ready:
  assumes p: "npw_owned E owned s p n" and w: "within p (unat n) M (memory s)" and r: "npw_ready E ready s"
  shows "npw_ready E ready (s\<lparr>memory := M\<rparr>)"
proof -
  have "within (p - (sizeof_MemBlock + guard E)) (unat (npw_real_size E n)) M (memory s)"
    using npw_owned_base(2,3) [OF p] by (intro within_sub [OF w]) linarith+
  from write_law [OF npw_owned_base(1) [OF p] this] r show ?thesis by (auto simp: npw_ready_def)
qed

end

sublocale npw_blocks \<subseteq> npw: allocator "npw_alloc E pos" "\<lambda>p n. npw_mem_free E p pos'" "npw_owned E owned" "npw_ready E ready" "npw_fits E"
  for pos pos'
proof
  show "p + unat n \<le> q \<or> q + unat m \<le> p"
    if "npw_owned E owned s p n" "npw_owned E owned s q m" "p \<noteq> q" for s p n q m
    using npw_separate [OF that] by linarith
qed (use npw_alloc_law npw_free_law npw_mapped npw_write npw_write_ready in \<open>auto simp del: split_paired_All\<close>)

subsection \<open>A library allocator\<close>

text \<open>
  The contract has a model: an allocator that never reuses addresses, with its next free address and
  the list of its blocks in the state. A block ends with a byte that is not mapped.
\<close>

record bump_state = mem_state +
  bump_next :: nat
  bump_blocks :: "(ptr \<times> uint32) list"

definition bump_alloc :: "bool \<Rightarrow> uint32 \<Rightarrow> (bump_state, ptr) op" where
  "bump_alloc z n s = (Ok (bump_next s),
     s\<lparr>memory := put_bytes (bump_next s) (replicate (unat n) (if z then 0 else 170)) (memory s),
       bump_next := bump_next s + unat n + 1, bump_blocks := (bump_next s, n) # bump_blocks s\<rparr>)"

definition bump_free :: "ptr \<Rightarrow> uint32 \<Rightarrow> (bump_state, unit) op" where
  "bump_free p n s = (Ok (), s\<lparr>memory := (\<lambda>a. if p \<le> a \<and> a < p + unat n then None else memory s a),
     bump_blocks := filter (\<lambda>b. fst b \<noteq> p) (bump_blocks s)\<rparr>)"

definition bump_owned :: "bump_state \<Rightarrow> ptr \<Rightarrow> uint32 \<Rightarrow> bool" where
  "bump_owned s p n \<longleftrightarrow> (p, n) \<in> set (bump_blocks s) \<and> p \<noteq> NULL \<and> mapped s p (unat n) \<and> p + unat n < bump_next s \<and>
     (\<forall>q m. (q, m) \<in> set (bump_blocks s) \<longrightarrow> p \<noteq> q \<longrightarrow> p + unat n \<le> q \<or> q + unat m \<le> p)"

definition bump_ready :: "bump_state \<Rightarrow> bool" where
  "bump_ready s \<longleftrightarrow> bump_next s \<noteq> NULL \<and> (\<forall>a. bump_next s \<le> a \<longrightarrow> memory s a = None) \<and>
     (\<forall>(q, m) \<in> set (bump_blocks s). q + unat m < bump_next s)"

definition bump_env :: "bool \<Rightarrow> bump_state mem_env" where
  "bump_env check = \<lparr>c_malloc = bump_alloc False, c_calloc = bump_alloc True, c_free = (\<lambda>_. ret ()),
     g_slice_alloc = bump_alloc False, g_slice_alloc0 = bump_alloc True, g_slice_free1 = (\<lambda>n p. bump_free p n),
     mem_getenv = (\<lambda>v. if v = ''NPW_MALLOC_CHECK'' then Some ''yes'' else None),
     USE_MALLOC_LIBC = True, USE_MALLOC_GLIB = True, DEFAULT_MALLOC_LIB = Glib,
     ENABLE_MALLOC_CHECK = check, NPW_SNAPSHOT = 0\<rparr>"

definition bump_start :: bump_state where
  "bump_start = \<lparr>memory = Map.empty, malloc_hooks = None, malloc_check = - 1, mem_reports = [], bump_next = 4096, bump_blocks = []\<rparr>"

interpretation bump: npw_blocks bump_alloc bump_free bump_owned bump_ready "bump_env check" for check
proof
  fix s :: bump_state and z n
  assume "bump_ready s"
  then show "\<exists>p s'. bump_alloc z n s = (Ok p, s') \<and> bump_ready s' \<and> mem_reports s' = mem_reports s \<and>
      memory s \<subseteq>\<^sub>m memory s' \<and> (\<forall>q m. bump_owned s q m \<longrightarrow> bump_owned s' q m) \<and>
      (p \<noteq> NULL \<longrightarrow> bump_owned s' p n \<and> (\<forall>a. p \<le> a \<and> a < p + unat n \<longrightarrow> memory s a = None) \<and>
       (z \<longrightarrow> bytes_at (memory s') p (replicate (unat n) 0)))"
    unfolding bump_alloc_def
    by (force simp: bump_ready_def bump_owned_def map_le_def put_bytes_def mapped_iff bytes_at_iff)
next
  fix s :: bump_state and p q n m
  assume "bump_owned s p n" "bump_owned s q m" "p \<noteq> q"
  then show "p + unat n \<le> q \<or> q + unat m \<le> p" by (auto simp: bump_owned_def)
next
  fix s :: bump_state and p n M q m
  assume o: "bump_owned s p n" and w: "within p (unat n) M (memory s)"
  have "M a = None" if "bump_next s \<le> a" "memory s a = None" for a
    using w that by (metis domIff within_def)
  then show "(bump_ready s \<longrightarrow> bump_ready (s\<lparr>memory := M\<rparr>)) \<and> (bump_owned s q m \<longrightarrow> bump_owned (s\<lparr>memory := M\<rparr>) q m)"
    using within_mapped [OF w] by (auto simp: bump_ready_def bump_owned_def)
next
  fix s :: bump_state and p n
  assume "bump_ready s" "bump_owned s p n"
  then show "\<exists>s'. bump_free p n s = (Ok (), s') \<and> bump_ready s' \<and> mem_reports s' = mem_reports s \<and>
      memory s' \<subseteq>\<^sub>m memory s \<and> (\<forall>a. p \<le> a \<and> a < p + unat n \<longrightarrow> memory s' a = None) \<and>
      (\<forall>q m. q \<noteq> p \<longrightarrow> bump_owned s q m \<longrightarrow> bump_owned s' q m)"
    unfolding bump_free_def
    by (fastforce simp: bump_ready_def bump_owned_def map_le_def mapped_iff)
qed (auto simp: bump_owned_def bump_ready_def mapped_def bump_alloc_def bump_free_def bump_env_def hooks_of_def chosen_def
    do_get_malloc_hooks_def g_glib_hooks_def NPW_Glib_MemAlloc_def NPW_Glib_MemAlloc0_def NPW_Glib_MemFree_def fun_eq_iff)

context npw_blocks
begin

lemma npw_allocator:
  "allocator (npw_alloc E pos) (\<lambda>p n. npw_mem_free E p pos') (npw_owned E owned) (npw_ready E ready) (npw_fits E)"
  by (rule npw.allocator_axioms)

end

subsection \<open>Properties\<close>

text \<open>
  C10. The blocks of \<open>NPW_MemAlloc\<close> and \<open>NPW_MemFree\<close> keep the contract of the library below them: if the
  chosen allocator keeps it, so do the functions of \<^verbatim>\<open>npw-malloc.c\<close>, with or without guards, for
  every size that leaves room for the header and the guards in 32 bits. A block is new memory of that
  size, zeroed if asked for; what its owner writes to it, and what happens to other blocks, leaves its
  header and guards alone; releasing it succeeds, reports nothing and takes away this block only.
\<close>

theorem npw_malloc_refines:
  assumes "npw_blocks alloc dealloc owned ready E"
  shows "allocator (npw_alloc E pos) (\<lambda>p n. npw_mem_free E p pos') (npw_owned E owned) (npw_ready E ready) (npw_fits E)"
  using assms by (rule npw_blocks.npw_allocator)

theorem npw_malloc_refines_witness:
  "allocator (npw_alloc (bump_env True) (0, 7)) (\<lambda>p n. npw_mem_free (bump_env True) p (0, 8))
     (npw_owned (bump_env True) bump_owned) (npw_ready (bump_env True) bump_ready) (npw_fits (bump_env True)) \<and>
   npw_ready (bump_env True) bump_ready bump_start \<and> npw_fits (bump_env True) 100 \<and> guard (bump_env True) = 16"
proof (intro conjI)
  show "allocator (npw_alloc (bump_env True) (0, 7)) (\<lambda>p n. npw_mem_free (bump_env True) p (0, 8))
     (npw_owned (bump_env True) bump_owned) (npw_ready (bump_env True) bump_ready) (npw_fits (bump_env True))"
    by (rule npw_malloc_refines [OF bump.npw_blocks_axioms])
  show "npw_ready (bump_env True) bump_ready bump_start"
    by (simp add: npw_ready_def bump_ready_def bump_start_def statics_ok_def)
  show "guard (bump_env True) = 16"
    by (simp add: guard_def checks_on_def bump_env_def is_malloc_check_enabled_1_def)
  then show "npw_fits (bump_env True) 100" by (simp add: npw_fits_def sizeof_MemBlock_def)
qed

lemma stores_crash:
  "\<exists>(q, bs) \<in> set ps. q \<le> c \<and> c < q + length bs \<Longrightarrow> memory s c = None \<Longrightarrow>
     \<exists>s'. run_all (map (\<lambda>(q, bs). store_bytes q bs) ps) s = (Crash Out_of_bounds, s')"
proof (induction ps arbitrary: s)
  case Nil
  then show ?case by simp
next
  case (Cons x ps)
  obtain q bs where x: "x = (q, bs)" by force
  show ?case
  proof (cases "mapped s q (length bs)")
    case False
    then show ?thesis by (auto simp: x store_bytes_def then_op_def bind_op_def)
  next
    case True
    with Cons.prems(2) have c: "\<not> (q \<le> c \<and> c < q + length bs)" by (auto simp: mapped_iff)
    have "\<exists>s'. run_all (map (\<lambda>(q, bs). store_bytes q bs) ps) (s\<lparr>memory := put_bytes q bs (memory s)\<rparr>) =
        (Crash Out_of_bounds, s')"
      using Cons.prems c by (intro Cons.IH) (auto simp: x put_bytes_def)
    with True show ?thesis by (simp add: x store_bytes_mapped then_op_Ok)
  qed
qed

definition report_damage ::
  "nat \<Rightarrow> nat \<Rightarrow> uint64 \<times> uint32 \<Rightarrow> uint64 \<times> uint32 \<Rightarrow> ('z mem_state_scheme, unit) op"
where
  "report_damage u v pos pos' =
     (if u = 0 \<and> v = 0 then ret ()
      else then_op (if u \<noteq> 0 then report (Detected_underflow u pos pos') else ret ())
             (if v \<noteq> 0 then report (Detected_overflow v pos pos') else ret ()))"

lemma report_damage_run:
  "report_damage u v pos pos' s = (Ok (), s\<lparr>mem_reports := mem_reports s @
     (if u \<noteq> 0 then [Detected_underflow u pos pos'] else []) @ (if v \<noteq> 0 then [Detected_overflow v pos pos'] else [])\<rparr>)"
  by (simp add: report_damage_def report_def op_simps)

lemma settle_reports [simp]:
  "settle_hooks E (s\<lparr>mem_reports := r\<rparr>) = (settle_hooks E s)\<lparr>mem_reports := r\<rparr>"
  "statics_ok E (s\<lparr>mem_reports := r\<rparr>) = statics_ok E s"
  by (simp_all add: settle_hooks_def statics_ok_def)

lemma guards_loop_counts:
  assumes "bytes_at (memory s) (p - g) before" "length before = g" "g \<le> p"
    and "bytes_at (memory s) (p + n) after" "length after = g" "set js \<subseteq> {0..<g}"
  shows "guards_loop p n js (u, v) s =
    (Ok (u + length (filter (\<lambda>i. before ! (g - Suc i) \<noteq> MALLOC_CHECK_GUARD_MARK) js),
         v + length (filter (\<lambda>i. after ! i \<noteq> MALLOC_CHECK_GUARD_MARK) js)), s)"
  using assms(6)
proof (induction js arbitrary: u v)
  case Nil
  then show ?case by (simp add: op_simps)
next
  case (Cons i js)
  then have i: "i < g" by simp
  have "memory s (p - g + k) = Some (before ! k)" if "k < g" for k
    using assms(1,2) that by (simp add: bytes_at_iff)
  from this [of "g - Suc i"] i have "memory s (p - g + (g - Suc i)) = Some (before ! (g - Suc i))" by simp
  moreover have "p - g + (g - Suc i) = p - Suc i" using i assms(3) by simp
  ultimately have "load_bytes (p - Suc i) 1 s = (Ok [before ! (g - Suc i)], s)"
    by (intro load_bytes_at) (simp_all add: bytes_at_iff)
  moreover have "load_bytes (p + n + i) 1 s = (Ok [after ! i], s)"
    using assms(4,5) i by (intro load_bytes_at) (simp_all add: bytes_at_iff)
  ultimately show ?case using Cons by (simp add: op_simps)
qed

lemma count_indices:
  "length (filter (\<lambda>i. P (xs ! i)) [0..<length xs]) = length (filter P xs)"
proof -
  have "filter P xs = filter P (map ((!) xs) [0..<length xs])" by (simp add: map_nth)
  then show ?thesis by (simp add: filter_map comp_def)
qed

lemma count_indices_rev:
  "length (filter (\<lambda>i. P (xs ! (length xs - Suc i))) [0..<length xs]) = length (filter P xs)"
proof -
  have "filter (\<lambda>i. P (xs ! (length xs - Suc i))) [0..<length xs] = filter (\<lambda>i. P (rev xs ! i)) [0..<length (rev xs)]"
    by (rule filter_cong) (auto simp: rev_nth)
  also have "length \<dots> = length (filter P (rev xs))" by (rule count_indices)
  finally show ?thesis by (simp add: rev_filter [symmetric])
qed

text \<open>
  With checks enabled (a build that does not undefine \<open>ENABLE_MALLOC_CHECK\<close>), \<open>NPW_MemFree\<close> reports exactly the damage: whatever the bytes of the two
  guards are by then, the numbers in the reports are those of the bytes before and after the block that
  differ from the guard mark, with the position of the allocation and of the release; an intact guard is
  not reported, and the block is given back to the library in any case.
\<close>

theorem npw_mem_free_reports:
  assumes st: "statics_ok E s" "checks_on E" and p: "40 \<le> p"
    and hd: "bytes_at (memory s) (p - 40) (header_bytes n (npw_real_size E n) pos)"
    and g: "bytes_at (memory s) (p - 16) before" "length before = 16"
      "bytes_at (memory s) (p + unat n) after" "length after = 16"
  defines "u \<equiv> length (filter (\<lambda>b. b \<noteq> MALLOC_CHECK_GUARD_MARK) before)"
    and "v \<equiv> length (filter (\<lambda>b. b \<noteq> MALLOC_CHECK_GUARD_MARK) after)"
  shows "npw_mem_free E p pos' s =
    memfree (hooks_of E (chosen E)) (p - 40) (npw_real_size E n)
      (settle_hooks E (settle_check E s)
        \<lparr>mem_reports := mem_reports s @ (if u \<noteq> 0 then [Detected_underflow u pos pos'] else []) @
           (if v \<noteq> 0 then [Detected_overflow v pos pos'] else [])\<rparr>)"
proof -
  let ?t = "settle_check E s"
  have gE: "guard E = 16" using st(2) by (simp add: guard_def)
  have "guards_loop p (unat n) [0..<16] (0, 0) ?t = (Ok (u, v), ?t)"
    using guards_loop_counts [of ?t p 16 before "unat n" after "[0..<16]" 0 0] g p
      count_indices_rev [of "\<lambda>b. b \<noteq> MALLOC_CHECK_GUARD_MARK" before]
      count_indices [of "\<lambda>b. b \<noteq> MALLOC_CHECK_GUARD_MARK" after]
    by (simp add: u_def v_def)
  then have ok: "malloc_check_guards_ok E p n ?t = (Ok (u = 0 \<and> v = 0, u, v), ?t)"
    using st gE by (simp add: malloc_check_guards_ok_def is_malloc_check_enabled_run malloc_check_guards_size_run op_simps)
  have parts: "bytes_at (memory s) (p - 40) (le32 NPW_MALLOC_MAGIC)" "bytes_at (memory s) (p - 40 + 4) (le32 (npw_real_size E n))"
    "bytes_at (memory s) (p - 40 + 8) (le32 n)" "bytes_at (memory s) (p - 40 + 12) (le32 (snd pos))"
    "bytes_at (memory s) (p - 40 + 16) (le64 (fst pos))"
    using hd by (simp_all only: header_bytes_def bytes_at_append length_le32 add.assoc) simp_all
  have p0: "p \<noteq> NULL" using p by simp
  have loads: "load32 (p - 40 + 4) x = (Ok (npw_real_size E n), x)" if "memory x = memory s" for x
    using parts(2) that by (intro load32_at) simp
  have "npw_mem_free E p pos' s =
    bind_op (report_damage u v pos pos') (\<lambda>_. bind_op (get_malloc_hooks E) (\<lambda>h.
      bind_op (load32 (p - 40 + 4)) (\<lambda>real_size. memfree h (p - 40) real_size))) ?t"
    using st(1) p0 gE ok parts
    by (simp add: npw_mem_free_def malloc_check_guards_size_run load32_at load64_at op_simps Let_def
        sizeof_MemBlock_def report_damage_def then_op_def)
  also have "\<dots> = memfree (hooks_of E (chosen E)) (p - 40) (npw_real_size E n)
      (settle_hooks E ?t
        \<lparr>mem_reports := mem_reports s @ (if u \<noteq> 0 then [Detected_underflow u pos pos'] else []) @
           (if v \<noteq> 0 then [Detected_overflow v pos pos'] else [])\<rparr>)"
    using st(1) by (simp add: report_damage_run op_simps get_malloc_hooks_run loads)
  finally show ?thesis .
qed

theorem npw_mem_free_reports_witness:
  "\<exists>s :: bump_state. mem_reports (snd (npw_mem_free (bump_env True) 4136 (0, 9) s)) =
     [Detected_overflow 2 (0, 7) (0, 9)]"
proof -
  let ?E = "bump_env True" and ?c = "MALLOC_CHECK_GUARD_MARK"
  let ?a = "[0, ?c, 1] @ replicate 13 ?c"
  let ?m = "put_bytes 4136 (5 # ?a) (put_bytes 4120 (replicate 16 ?c)
     (put_bytes 4096 (header_bytes 1 (npw_real_size ?E 1) (0, 7)) Map.empty))"
  let ?s = "bump_start\<lparr>memory := ?m\<rparr>"
  have c: "?c \<noteq> 0" "?c \<noteq> 1" by (simp_all add: MALLOC_CHECK_GUARD_MARK_def)
  have "bytes_at ?m 4136 ([5] @ ?a)" by simp
  then have a: "bytes_at ?m (4136 + unat (1 :: uint32)) ?a"
    unfolding bytes_at_append by simp
  have "npw_mem_free ?E 4136 (0, 9) ?s = memfree (hooks_of ?E (chosen ?E)) (4136 - 40) (npw_real_size ?E 1)
      (settle_hooks ?E (settle_check ?E ?s)
        \<lparr>mem_reports := mem_reports ?s @ (if length (filter (\<lambda>b. b \<noteq> ?c) (replicate 16 ?c)) \<noteq> 0 then
            [Detected_underflow (length (filter (\<lambda>b. b \<noteq> ?c) (replicate 16 ?c))) (0, 7) (0, 9)] else []) @
           (if length (filter (\<lambda>b. b \<noteq> ?c) ?a) \<noteq> 0 then
            [Detected_overflow (length (filter (\<lambda>b. b \<noteq> ?c) ?a)) (0, 7) (0, 9)] else [])\<rparr>)"
  proof (rule npw_mem_free_reports)
    show "statics_ok ?E ?s" by (simp add: statics_ok_def bump_start_def)
    show "checks_on ?E" by (simp add: checks_on_def bump_env_def is_malloc_check_enabled_1_def)
    show "bytes_at (memory ?s) (4136 - 40) (header_bytes 1 (npw_real_size ?E 1) (0, 7))"
      by (simp add: bytes_at_put_other)
    show "bytes_at (memory ?s) (4136 - 16) (replicate 16 ?c)" by (simp add: bytes_at_put_other)
    show "bytes_at (memory ?s) (4136 + unat (1 :: uint32)) ?a" using a by simp
  qed simp_all
  then have "mem_reports (snd (npw_mem_free ?E 4136 (0, 9) ?s)) = [Detected_overflow 2 (0, 7) (0, 9)]"
    using c unfolding bump.hooks by (simp add: bump_free_def bump_start_def)
  then show ?thesis by blast
qed

text \<open>
  A size near \<open>2 ^ 32\<close> wraps: as \<^verbatim>\<open>npw-malloc.c\<close> is compiled (\<open>ENABLE_MALLOC_CHECK\<close> is undefined
  in it), the size of the block that is asked of the library is the sum modulo \<open>2 ^ 32\<close>, less than the
  24 bytes of the header when the sum does not fit, and a block that ends where it should is overrun
  through its own header.
\<close>

theorem NPW_MemAlloc_wraps:
  assumes st: "statics_ok E s" "\<not> ENABLE_MALLOC_CHECK E" and n: "\<not> npw_fits E n"
    and b: "memalloc (hooks_of E (chosen E)) (npw_real_size E n) (settle_hooks E s) = (Ok b, s1)" "b \<noteq> NULL"
      "memory s1 (b + unat (npw_real_size E n)) = None"
  shows "unat (npw_real_size E n) < sizeof_MemBlock \<and> (\<exists>s'. NPW_MemAlloc E n s = (Crash Out_of_bounds, s'))"
proof -
  have g: "guard E = 0" and t: "settle_check E x = x" for x :: "'a mem_state_scheme"
    using st(2) by (simp_all add: guard_def checks_on_def settle_check_def)
  have r: "unat (npw_real_size E n) < 24"
  proof -
    have "unat n < 2 ^ 32" using unsigned_less [where 'a = nat and w = n] by simp
    moreover have "2 ^ 32 \<le> 24 + unat n" using n by (simp add: npw_fits_def g sizeof_MemBlock_def)
    ultimately have "(24 + unat n) mod 2 ^ 32 < 24" by (simp add: mod_if) arith
    then show ?thesis by (simp add: npw_real_size_def g sizeof_MemBlock_def unat_word_ariths)
  qed
  let ?r = "unat (npw_real_size E n)"
  let ?ps = "[(b, le32 NPW_MALLOC_MAGIC), (b + 4, le32 (npw_real_size E n)), (b + 8, le32 n), (b + 16, le64 0), (b + 12, le32 0)]"
  have "\<exists>(q, bs) \<in> set ?ps. q \<le> b + ?r \<and> b + ?r < q + length bs"
    using r by auto
  from stores_crash [OF this b(3)] obtain s' where
    "run_all (map (\<lambda>(q, bs). store_bytes q bs) ?ps) s1 = (Crash Out_of_bounds, s')" by blast
  then have "NPW_MemAlloc E n s = (Crash Out_of_bounds, s')"
    using st(1) b g by (simp add: NPW_MemAlloc_def npw_mem_alloc_def npw_do_mem_alloc_def get_malloc_hooks_run
        malloc_check_guards_size_run npw_real_size_def t op_simps then_op_def bind_op_Crash Let_def del: run_all.simps)
  with r show ?thesis by (simp add: sizeof_MemBlock_def)
qed

theorem NPW_MemAlloc_wraps_witness:
  "\<exists>s'. NPW_MemAlloc (bump_env False) 0xFFFFFFFF bump_start = (Crash Out_of_bounds, s')"
proof -
  let ?E = "bump_env False" and ?t = "settle_hooks (bump_env False) bump_start"
  have g: "guard ?E = 0" by (simp add: guard_def checks_on_def bump_env_def)
  have r: "npw_real_size ?E 0xFFFFFFFF = 23" by (simp add: npw_real_size_def g sizeof_MemBlock_def)
  have t: "bump_next ?t = 4096" "memory ?t = Map.empty"
    by (simp_all add: settle_hooks_def bump_start_def)
  have b: "memalloc (hooks_of ?E (chosen ?E)) (npw_real_size ?E 0xFFFFFFFF) ?t = bump_alloc False 23 ?t"
    unfolding bump.hooks r ..
  have "unat (npw_real_size ?E 0xFFFFFFFF) < sizeof_MemBlock \<and> (\<exists>s'. NPW_MemAlloc ?E 0xFFFFFFFF bump_start = (Crash Out_of_bounds, s'))"
  proof (rule NPW_MemAlloc_wraps)
    show "memalloc (hooks_of ?E (chosen ?E)) (npw_real_size ?E 0xFFFFFFFF) ?t = (Ok (fst (4096 :: nat, ())), snd (bump_alloc False 23 ?t))"
      unfolding b by (simp add: bump_alloc_def t)
    show "memory (snd (bump_alloc False 23 ?t)) (fst (4096, ()) + unat (npw_real_size ?E 0xFFFFFFFF)) = None"
      unfolding r by (simp add: bump_alloc_def t put_bytes_def) (simp add: bump_start_def)
  qed (simp_all add: statics_ok_def bump_start_def bump_env_def npw_fits_def g [unfolded bump_env_def] sizeof_MemBlock_def)
  then show ?thesis by blast
qed

end
