(* ===== verification/Npw_Info.thy ===== *)
theory Npw_Info
  imports Rpc_Message
begin

text \<open>
  What the wrapper learns of a plugin before it runs it: the viewer, started with \<open>--info\<close>, prints the
  name, the description and the MIME types of the plugin (\<open>do_info\<close> in \<^verbatim>\<open>npw-viewer.c\<close>), and
  \<open>plugin_init\<close> in \<^verbatim>\<open>npw-wrapper.c\<close> reads them through a pipe. The functions of the C library both
  use are those of the standard, on streams of bytes.
\<close>

subsection \<open>The C library\<close>

abbreviation (input) NL :: byte where "NL \<equiv> 10"

text \<open>The C string in a buffer, up to its zero.\<close>

definition c_str :: "byte list \<Rightarrow> byte list" where
  "c_str bs = takeWhile (\<lambda>c. c \<noteq> 0) bs"

text \<open>The decimal digits \<open>printf\<close> writes for \<open>%zd\<close>.\<close>

fun dec :: "nat \<Rightarrow> byte list" where
  "dec n = (if n < 10 then [of_nat (48 + n)] else dec (n div 10) @ [of_nat (48 + n mod 10)])"

declare dec.simps [simp del]

text \<open>\<open>fgets (line, n, fp)\<close>: what is stored, if anything, and what is left to read.\<close>

fun until_newline :: "nat \<Rightarrow> byte list \<Rightarrow> byte list \<times> byte list" where
  "until_newline 0 xs = ([], xs)"
| "until_newline (Suc k) [] = ([], [])"
| "until_newline (Suc k) (x # xs) =
     (if x = NL then ([x], xs) else (case until_newline k xs of (l, r) \<Rightarrow> (x # l, r)))"

definition fgets :: "int \<Rightarrow> byte list \<Rightarrow> byte list option \<times> byte list" where
  "fgets n xs =
     (if n \<le> 0 then (None, xs)
      else if n = 1 then (Some [], xs)
      else if xs = [] then (None, [])
      else (case until_newline (nat (n - 1)) xs of (l, r) \<Rightarrow> (Some l, r)))"

definition isspace :: "byte \<Rightarrow> bool" where
  "isspace c \<longleftrightarrow> c = 32 \<or> (9 \<le> c \<and> c \<le> 13)"

definition isdigit :: "byte \<Rightarrow> bool" where
  "isdigit c \<longleftrightarrow> 48 \<le> c \<and> c \<le> 57"

definition digits_value :: "byte list \<Rightarrow> nat" where
  "digits_value ds = foldl (\<lambda>n d. 10 * n + (unat d - 48)) 0 ds"

text \<open>
  \<open>sscanf (line, "%s %d", tag, &n) == 2\<close>. A number out of range is cut down by \<open>strtol\<close>, and to an
  \<open>int\<close>.
\<close>

definition scan_number :: "byte list \<Rightarrow> int option" where
  "scan_number xs =
     (let signed = xs \<noteq> [] \<and> (hd xs = 43 \<or> hd xs = 45);
          ds = takeWhile isdigit (if signed then tl xs else xs);
          v = (if signed \<and> hd xs = 45 then - int (digits_value ds) else int (digits_value ds))
      in if ds = [] then None else Some (c_int (to_int32 (max (- (2 ^ 63)) (min (2 ^ 63 - 1) v)))))"

definition scan_tag :: "byte list \<Rightarrow> (byte list \<times> int) option" where
  "scan_tag line =
     (let xs = dropWhile isspace line;
          tag = takeWhile (\<lambda>c. \<not> isspace c) xs
      in if tag = [] then None
         else map_option (Pair tag) (scan_number (dropWhile isspace (dropWhile (\<lambda>c. \<not> isspace c) xs))))"

subsection \<open>The viewer\<close>

definition PLUGIN_NAME :: "byte list" where
  "PLUGIN_NAME = [80, 76, 85, 71, 73, 78, 95, 78, 65, 77, 69]"

definition PLUGIN_DESC :: "byte list" where
  "PLUGIN_DESC = [80, 76, 85, 71, 73, 78, 95, 68, 69, 83, 67]"

definition PLUGIN_MIME :: "byte list" where
  "PLUGIN_MIME = [80, 76, 85, 71, 73, 78, 95, 77, 73, 77, 69]"

definition print_info :: "byte list \<Rightarrow> c_string \<Rightarrow> byte list" where
  "print_info tag str =
     (case str of None \<Rightarrow> [] | Some s \<Rightarrow> tag @ [32] @ dec (length s) @ [NL] @ s @ [NL])"

text \<open>
  The functions of the plugin's library; \<open>None\<close> is one it does not have. \<open>NP_GetValue\<close> gives an error
  code and, for the two variables asked for here, a string.
\<close>

record native_plugin =
  plugin_NP_GetMIMEDescription :: "c_string option"
  plugin_NP_Initialize :: bool
  plugin_NP_Shutdown :: bool
  plugin_NP_GetValue :: "(int \<Rightarrow> int \<times> c_string) option"

abbreviation (input) NPERR_INVALID_FUNCTABLE_ERROR :: int where "NPERR_INVALID_FUNCTABLE_ERROR \<equiv> 3"
abbreviation (input) NPPVpluginNameString :: int where "NPPVpluginNameString \<equiv> 1"
abbreviation (input) NPPVpluginDescriptionString :: int where "NPPVpluginDescriptionString \<equiv> 2"

definition g_NP_GetMIMEDescription :: "native_plugin \<Rightarrow> c_string" where
  "g_NP_GetMIMEDescription P = (case plugin_NP_GetMIMEDescription P of None \<Rightarrow> None | Some str \<Rightarrow> str)"

definition g_NP_GetValue :: "native_plugin \<Rightarrow> int \<Rightarrow> int \<times> c_string" where
  "g_NP_GetValue P variable =
     (case plugin_NP_GetValue P of None \<Rightarrow> (NPERR_INVALID_FUNCTABLE_ERROR, None) | Some f \<Rightarrow> f variable)"

text \<open>The string is \<^verbatim>\<open>Shockwave Flash 9.0 d55\<close>.\<close>

definition is_flash_player9_beta1 :: "native_plugin \<Rightarrow> bool" where
  "is_flash_player9_beta1 P \<longleftrightarrow> g_NP_GetValue P NPPVpluginDescriptionString =
     (0, Some [83, 104, 111, 99, 107, 119, 97, 118, 101, 32, 70, 108, 97, 115, 104, 32, 57, 46, 48, 32, 100, 53, 53])"

definition do_test :: "native_plugin \<Rightarrow> int" where
  "do_test P =
     (if plugin_NP_GetMIMEDescription P = None then 1
      else if \<not> plugin_NP_Initialize P then 2
      else if \<not> plugin_NP_Shutdown P then 3
      else if is_flash_player9_beta1 P then 4
      else 0)"

text \<open>The exit code and what is printed.\<close>

definition do_info :: "native_plugin \<Rightarrow> int \<times> byte list" where
  "do_info P =
     (if do_test P \<noteq> 0 then (1, [])
      else (0,
        print_info PLUGIN_NAME
          (case g_NP_GetValue P NPPVpluginNameString of (e, str) \<Rightarrow> if e = 0 then str else None) @
        print_info PLUGIN_DESC
          (case g_NP_GetValue P NPPVpluginDescriptionString of (e, str) \<Rightarrow> if e = 0 then str else None) @
        print_info PLUGIN_MIME (g_NP_GetMIMEDescription P)))"

subsection \<open>The wrapper\<close>

record plugin_info =
  pl_name :: c_string
  pl_description :: c_string
  pl_formats :: c_string

text \<open>A line that did not fit into the buffer is read to its end.\<close>

lemma until_newline_shorter: "0 < k \<Longrightarrow> xs \<noteq> [] \<Longrightarrow> length (snd (until_newline k xs)) < length xs"
proof (induction k xs rule: until_newline.induct)
  case (3 k x xs)
  then show ?case by (cases k; cases xs) (auto split: prod.splits)
qed simp_all

lemma until_newline_le: "length (snd (until_newline k xs)) \<le> length xs"
  by (induction k xs rule: until_newline.induct) (auto split: prod.splits)

lemma fgets_shorter: "fgets n xs = (Some l, r) \<Longrightarrow> 1 < n \<Longrightarrow> length r < length xs"
  using until_newline_shorter [of "nat (n - 1)" xs]
  by (auto simp: fgets_def split: if_splits prod.splits)

lemma fgets_le: "length (snd (fgets n xs)) \<le> length xs"
  using until_newline_le [of "nat (n - 1)" xs] by (auto simp: fgets_def split: prod.splits)

function skip_line :: "byte list \<Rightarrow> byte list" where
  "skip_line xs =
     (case fgets 256 xs of
        (None, r) \<Rightarrow> r
      | (Some line, r) \<Rightarrow> if c_str line \<noteq> [] \<and> last (c_str line) = NL then r else skip_line r)"
  by pat_completeness auto
termination
  by (relation "measure length") (auto dest: fgets_shorter [OF sym])

lemma skip_line_le: "length (skip_line xs) \<le> length xs"
proof (induction xs rule: skip_line.induct)
  case (1 xs)
  show ?case
  proof (cases "fgets 256 xs")
    case (Pair l r)
    with fgets_le [of 256 xs] 1 [OF Pair [symmetric]] show ?thesis
      by (subst skip_line.simps) (fastforce split: option.splits)
  qed
qed

declare skip_line.simps [simp del]

text \<open>
  The value announced by a line, read after it: \<open>mem\<close> tells whether \<open>malloc\<close> finds a block of that size
  (a negative one is a huge one). The length is incremented in an \<open>int\<close>.
\<close>

definition read_value :: "(int \<Rightarrow> bool) \<Rightarrow> int \<Rightarrow> byte list \<Rightarrow> c_string \<times> byte list" where
  "read_value mem len xs =
     (let n = c_int (to_int32 (len + 1))
      in if 0 \<le> n \<and> mem n
         then (case fgets n xs of (v, r) \<Rightarrow> (map_option c_str v, r))
         else (None, xs))"

definition set_info :: "byte list \<Rightarrow> byte list \<Rightarrow> plugin_info \<Rightarrow> plugin_info" where
  "set_info tag str p =
     (if tag = PLUGIN_NAME then p\<lparr>pl_name := Some str\<rparr>
      else if tag = PLUGIN_DESC then p\<lparr>pl_description := Some str\<rparr>
      else if tag = PLUGIN_MIME then p\<lparr>pl_formats := Some str\<rparr>
      else p)"

definition parse_line :: "(int \<Rightarrow> bool) \<Rightarrow> byte list \<Rightarrow> byte list \<Rightarrow> plugin_info \<Rightarrow> plugin_info \<times> byte list" where
  "parse_line mem line xs p =
     (case scan_tag line of
        None \<Rightarrow> (p, xs)
      | Some (tag, len) \<Rightarrow>
          (case read_value mem len xs of
             (None, r) \<Rightarrow> (p, r)
           | (Some str, r) \<Rightarrow> (set_info tag str p, r)))"

lemma read_value_le: "length (snd (read_value mem len xs)) \<le> length xs"
  using fgets_le [of "c_int (to_int32 (len + 1))" xs] by (simp add: read_value_def Let_def case_prod_unfold)

lemma parse_line_le: "length (snd (parse_line mem line xs p)) \<le> length xs"
  using read_value_le [of mem _ xs]
  by (simp add: parse_line_def split: option.split prod.split) (metis snd_conv)

function read_info :: "(int \<Rightarrow> bool) \<Rightarrow> byte list \<Rightarrow> plugin_info \<Rightarrow> plugin_info" where
  "read_info mem xs p =
     (case fgets 256 xs of
        (None, r) \<Rightarrow> p
      | (Some line, r) \<Rightarrow>
          let s = c_str line in
          if s = [] then read_info mem r p
          else if last s \<noteq> NL then read_info mem (skip_line r) p
          else (case parse_line mem (butlast s) r p of (p', r') \<Rightarrow> read_info mem r' p'))"
  by pat_completeness auto
termination
  using skip_line_le parse_line_le
  by (relation "measure (\<lambda>(mem, xs, p). length xs)")
    (auto dest!: fgets_shorter [OF sym] intro: le_less_trans dest: sym, metis le_less_trans snd_conv)

declare read_info.simps [simp del]

subsection \<open>Reading what was printed\<close>

text \<open>A string \<open>fgets\<close> returns whole: without a newline or a zero.\<close>

definition one_line :: "byte list \<Rightarrow> bool" where
  "one_line s \<longleftrightarrow> NL \<notin> set s \<and> 0 \<notin> set s"

lemma one_line_simps [simp]:
  "one_line []" "one_line (x # xs) \<longleftrightarrow> x \<noteq> NL \<and> x \<noteq> 0 \<and> one_line xs"
  "one_line (xs @ ys) \<longleftrightarrow> one_line xs \<and> one_line ys"
  by (auto simp: one_line_def)

lemma until_newline_line: "one_line s \<Longrightarrow> length s < k \<Longrightarrow> until_newline k (s @ NL # r) = (s @ [NL], r)"
  by (induction s arbitrary: k) (case_tac [!] k, auto)

lemma until_newline_part: "one_line s \<Longrightarrow> until_newline (length s) (s @ r) = (s, r)"
  by (induction s) auto

lemma fgets_line: "one_line s \<Longrightarrow> length s < 255 \<Longrightarrow> fgets 256 (s @ NL # r) = (Some (s @ [NL]), r)"
  by (simp add: fgets_def until_newline_line)

lemma fgets_part:
  assumes "one_line s" "s @ r \<noteq> []"
  shows "fgets (int (length s) + 1) (s @ r) = (Some s, r)"
  using until_newline_part [OF assms(1), of r] assms(2) by (cases s) (simp_all add: fgets_def nat_add_distrib)

lemma c_str_one_line: "one_line s \<Longrightarrow> c_str s = s" "one_line s \<Longrightarrow> c_str (s @ [NL]) = s @ [NL]"
  by (induction s) (auto simp: c_str_def)

text \<open>Digits.\<close>

lemma unat_digit: "d < 10 \<Longrightarrow> unat (of_nat (48 + d) :: byte) = 48 + d"
  by (simp add: unat_of_nat del: of_nat_add of_nat_numeral)

lemma dec_digits: "c \<in> set (dec n) \<Longrightarrow> isdigit c"
proof (induction n rule: dec.induct)
  case (1 n)
  have d: "isdigit (of_nat (48 + k))" if "k < 10" for k
    using unat_digit [OF that] that by (simp add: isdigit_def word_le_nat_alt)
  from 1 show ?case
    by (subst (asm) (2) dec.simps) (auto split: if_splits intro: d simp del: of_nat_add of_nat_numeral)
qed

lemma dec_not_empty: "dec n \<noteq> []"
  by (subst dec.simps) simp

lemma dec_value: "digits_value (dec n) = n"
proof (induction n rule: dec.induct)
  case (1 n)
  show ?case
  proof (cases "n < 10")
    case True
    then show ?thesis
      using unat_digit [OF True] by (subst dec.simps) (simp add: digits_value_def del: of_nat_add of_nat_numeral)
  next
    case False
    have "n mod 10 < 10" by simp
    from 1 False unat_digit [OF this] show ?thesis
      by (subst dec.simps) (simp add: digits_value_def del: of_nat_add of_nat_numeral)
  qed
qed

lemma dec_length: "n < 10 ^ k \<Longrightarrow> 0 < k \<Longrightarrow> length (dec n) \<le> k"
proof (induction k arbitrary: n)
  case (Suc k)
  show ?case
  proof (cases "n < 10")
    case False
    then have "0 < k" using Suc.prems(1) by (cases k) auto
    moreover have "n div 10 < 10 ^ k" using Suc.prems(1) by (simp add: less_mult_imp_div_less mult.commute)
    ultimately have "length (dec (n div 10)) \<le> k" by (rule Suc.IH [rotated])
    then show ?thesis using False by (subst dec.simps) simp
  qed (subst dec.simps, simp)
qed simp

lemma isdigit_facts: "isdigit c \<Longrightarrow> \<not> isspace c \<and> c \<noteq> 43 \<and> c \<noteq> 45 \<and> c \<noteq> NL \<and> c \<noteq> 0"
  by (auto simp: isdigit_def isspace_def word_le_nat_alt)

lemma one_line_dec: "one_line (dec n)"
  using dec_digits isdigit_facts by (fastforce simp: one_line_def)

lemma scan_number_dec:
  assumes "n < 2 ^ 31"
  shows "scan_number (dec n) = Some (int n)"
proof -
  have hd: "isdigit (hd (dec n))" using dec_digits dec_not_empty by (meson hd_in_set)
  have digits: "takeWhile isdigit (dec n) = dec n" using dec_digits by (simp add: takeWhile_eq_all_conv)
  show ?thesis
    using isdigit_facts [OF hd] dec_not_empty [of n] assms
    by (simp add: digits scan_number_def Let_def dec_value min_def max_def c_int_to_int32 [of "int n", simplified])
qed

lemma scan_tag_header:
  assumes tag: "tag \<noteq> []" "\<forall>c \<in> set tag. \<not> isspace c" and n: "n < 2 ^ 31"
  shows "scan_tag (tag @ 32 # dec n) = Some (tag, int n)"
proof -
  have sp: "isspace 32" by (simp add: isspace_def)
  have "dropWhile isspace (tag @ 32 # dec n) = tag @ 32 # dec n" using tag by (cases tag) auto
  moreover have "takeWhile (\<lambda>c. \<not> isspace c) (tag @ 32 # dec n) = tag"
    "dropWhile (\<lambda>c. \<not> isspace c) (tag @ 32 # dec n) = 32 # dec n"
    using tag sp by (simp_all add: takeWhile_append dropWhile_append)
  moreover have "dropWhile isspace (dec n) = dec n"
    using dec_digits [of "hd (dec n)" n] dec_not_empty [of n] isdigit_facts by (cases "dec n") auto
  ultimately show ?thesis using tag(1) sp scan_number_dec [OF n] by (simp add: scan_tag_def Let_def)
qed


text \<open>One field, then the newline after it, which is read as an empty line.\<close>

lemma read_info_blank: "read_info mem (NL # r) p = read_info mem r p"
  by (subst read_info.simps)
    (use fgets_line [of "[]" r] in \<open>simp add: c_str_def parse_line_def scan_tag_def Let_def\<close>)

lemma read_info_field:
  assumes tag: "tag \<noteq> []" "\<forall>c \<in> set tag. \<not> isspace c" "one_line tag" "length tag \<le> 100"
    and str: "one_line s" "length s < 2 ^ 31 - 1" and mem: "mem (int (length s) + 1)"
  shows "read_info mem (print_info tag (Some s) @ r) p = read_info mem r (set_info tag s p)"
proof -
  let ?h = "tag @ 32 # dec (length s)"
  have len: "length (dec (length s)) \<le> 10" using str(2) by (intro dec_length) simp_all
  have one: "one_line ?h" using tag(3) one_line_dec by simp
  have "print_info tag (Some s) @ r = ?h @ NL # (s @ NL # r)" by (simp add: print_info_def)
  moreover have "fgets 256 (?h @ NL # (s @ NL # r)) = (Some (?h @ [NL]), s @ NL # r)"
    using len tag(4) by (intro fgets_line [OF one]) simp
  ultimately have "read_info mem (print_info tag (Some s) @ r) p =
      (case parse_line mem ?h (s @ NL # r) p of (p', r') \<Rightarrow> read_info mem r' p')"
    using c_str_one_line(2) [OF one] by (subst read_info.simps) (simp add: Let_def butlast_append)
  moreover have "c_int (to_int32 (int (length s) + 1)) = int (length s) + 1"
    using str(2) by (intro c_int_to_int32) simp_all
  then have "read_value mem (int (length s)) (s @ NL # r) = (Some s, NL # r)"
    using fgets_part [OF str(1), of "NL # r"] mem str(1) by (simp add: read_value_def Let_def c_str_one_line)
  then have "parse_line mem ?h (s @ NL # r) p = (set_info tag s p, NL # r)"
    using scan_tag_header [OF tag(1,2), of "length s"] str(2) by (simp add: parse_line_def)
  ultimately show ?thesis by (simp add: read_info_blank)
qed

definition good_field :: "(int \<Rightarrow> bool) \<Rightarrow> c_string \<Rightarrow> bool" where
  "good_field mem str = (case str of None \<Rightarrow> True
     | Some s \<Rightarrow> one_line s \<and> length s < 2 ^ 31 - 1 \<and> mem (int (length s) + 1))"

definition set_field :: "byte list \<Rightarrow> c_string \<Rightarrow> plugin_info \<Rightarrow> plugin_info" where
  "set_field tag str p = (case str of None \<Rightarrow> p | Some s \<Rightarrow> set_info tag s p)"

lemma tags:
  assumes "tag \<in> {PLUGIN_NAME, PLUGIN_DESC, PLUGIN_MIME}"
  shows "tag \<noteq> []" "\<forall>c \<in> set tag. \<not> isspace c" "one_line tag" "length tag \<le> 100"
  using assms by (auto simp: PLUGIN_NAME_def PLUGIN_DESC_def PLUGIN_MIME_def isspace_def)

lemma read_info_field':
  assumes "tag \<in> {PLUGIN_NAME, PLUGIN_DESC, PLUGIN_MIME}" "good_field mem str"
  shows "read_info mem (print_info tag str @ r) p = read_info mem r (set_field tag str p)"
proof (cases str)
  case None
  then show ?thesis by (simp add: print_info_def set_field_def)
next
  case (Some s)
  with assms read_info_field [OF tags [OF assms(1)]] show ?thesis
    by (simp add: good_field_def set_field_def)
qed

text \<open>
  C28. The wrapper knows the plugin the viewer describes: when the viewer's \<open>do_info\<close> finds the plugin
  sound, what it prints is read by the wrapper as the same name, description and MIME types, each one
  missing exactly when the plugin does not give it, for texts without newlines and zeros of any length the
  C library can print and with memory for the copies.
\<close>

theorem plugin_info_round_trip:
  assumes "do_test P = 0"
    and "g_NP_GetValue P NPPVpluginNameString = (0, name)" "g_NP_GetValue P NPPVpluginDescriptionString = (0, desc)"
      "g_NP_GetMIMEDescription P = mime"
    and "good_field mem name" "good_field mem desc" "good_field mem mime"
  shows "fst (do_info P) = 0 \<and>
    read_info mem (snd (do_info P)) \<lparr>pl_name = None, pl_description = None, pl_formats = None\<rparr> =
      \<lparr>pl_name = name, pl_description = desc, pl_formats = mime\<rparr>"
proof -
  have "read_info mem (print_info PLUGIN_NAME name @ print_info PLUGIN_DESC desc @ print_info PLUGIN_MIME mime @ [])
      \<lparr>pl_name = None, pl_description = None, pl_formats = None\<rparr> =
    read_info mem [] (set_field PLUGIN_MIME mime (set_field PLUGIN_DESC desc (set_field PLUGIN_NAME name
      \<lparr>pl_name = None, pl_description = None, pl_formats = None\<rparr>)))"
    using assms(5-7) by (simp only: read_info_field' insert_iff simp_thms)
  moreover have "read_info mem [] p = p" for p by (subst read_info.simps) (simp add: fgets_def)
  moreover have "PLUGIN_NAME \<noteq> PLUGIN_DESC" "PLUGIN_NAME \<noteq> PLUGIN_MIME" "PLUGIN_DESC \<noteq> PLUGIN_MIME"
    by (simp_all add: PLUGIN_NAME_def PLUGIN_DESC_def PLUGIN_MIME_def)
  ultimately show ?thesis
    using assms(1-4) by (auto simp: do_info_def set_field_def set_info_def split: option.splits)
qed

definition sample_plugin :: native_plugin where
  "sample_plugin = \<lparr>plugin_NP_GetMIMEDescription = Some (Some []), plugin_NP_Initialize = True, plugin_NP_Shutdown = True,
     plugin_NP_GetValue = Some (\<lambda>v. (0, if v = 1 then Some [70, 108, 97, 115, 104] else None))\<rparr>"

theorem plugin_info_round_trip_witness:
  "read_info (\<lambda>_. True) (snd (do_info sample_plugin))
      \<lparr>pl_name = None, pl_description = None, pl_formats = None\<rparr> =
    \<lparr>pl_name = Some [70, 108, 97, 115, 104], pl_description = None, pl_formats = Some []\<rparr>"
  by (rule conjunct2 [OF plugin_info_round_trip])
    (simp_all add: good_field_def sample_plugin_def do_test_def is_flash_player9_beta1_def g_NP_GetValue_def
      g_NP_GetMIMEDescription_def)

end
