(* ===== verification/Npw_Plugin.thy ===== *)
theory Npw_Plugin
  imports Np_Exchange Npw_Info
begin

text \<open>
  The life of the plugin in the browser process, from \<^verbatim>\<open>npw-wrapper.c\<close>: starting the viewer and
  connecting to it, stopping it, and restarting it after a crash (the "recovery model"). The static
  variables of the file extend the state of a process.
\<close>

subsection \<open>State\<close>

text \<open>The structure \<open>g_plugin\<close>; the three strings are the cached description of the plugin.\<close>

record Plugin =
  initialized :: int
  viewer_pid :: int
  is_wrapper :: bool
  info :: plugin_info

text \<open>What is done to the viewer's process, in order.\<close>

datatype viewer_event = Forked int | Slept | Sent_SIGTERM int | Sent_SIGKILL int

text \<open>
  A table of functions, the browser's \<open>NPNetscapeFuncs\<close> or the plugin's \<open>NPPluginFuncs\<close>: two 16-bit
  members and, from offset 8 on, pointers.
\<close>

record np_funcs =
  nf_size :: uint16
  nf_version :: uint16
  nf_members :: "nat \<Rightarrow> uint64"

abbreviation (input) NPN_GetValue_slot :: nat where "NPN_GetValue_slot \<equiv> 16"

text \<open>A GLib source on a connection, with its reference count.\<close>

record gsource =
  source_connection :: nat
  source_refs :: int

text \<open>
  Several connections can be alive: \<open>g_rpc_connection\<close> is the master connection, and the instances of a
  plugin that has been restarted hold earlier ones. Connections are numbered (\<open>0\<close> is none). The members of one of them,
  number \<open>focus\<close>, make up the beginning of the state, where the functions of \<^verbatim>\<open>rpc.c\<close> find them; the
  others wait in \<open>parked\<close>. \<open>child_exits\<close> are the answers \<open>waitpid\<close> is going to give: whether the viewer
  still runs.
\<close>

record 'h wrapper = "'h np_process" +
  g_plugin :: Plugin
  plugin_killed :: bool
  last_restart :: int
  npapi_version :: uint32
  plugin_file_name :: c_string
  init_count :: int
  master :: nat
  focus :: nat
  next_connection :: nat
  parked :: "nat \<Rightarrow> rpc_connection option"
  g_rpc_source :: "gsource option"
  g_rpc_sync_source :: "gsource option"
  xt_rpc_source_id :: bool
  xt_rpc_sync_id :: bool
  child_exits :: "bool list"
  viewer_log :: "viewer_event list"
  mozilla_funcs :: np_funcs

text \<open>
  The environment: the configuration of the wrapper, the operating system (the output of the viewer started with
  \<open>--info\<close>, the process number \<open>fork\<close> gives, \<open>connect\<close> and the rest of the system calls for a new
  connection, the time), the browser (its function table, its toolkit and whether it has an application
  context for X), and the native plugin for direct execution.
\<close>

record 's wrapper_env =
  w_plugin_path :: "byte list"
  w_default_path :: "byte list"
  w_connection_path :: "byte list"
  w_direct_exec :: bool
  w_malloc :: "int \<Rightarrow> bool"
  w_popen :: "'s \<Rightarrow> c_string"
  w_getpid :: nat
  w_random :: "'s \<Rightarrow> nat"
  w_fork :: "'s \<Rightarrow> int"
  w_init_timeout :: int
  w_connect :: "'s \<Rightarrow> nat \<Rightarrow> errno option"
  w_os :: "'s \<Rightarrow> os_env"
  w_time :: "'s \<Rightarrow> int"
  w_toolkit :: "'s \<Rightarrow> int"
  w_xt_context :: "'s \<Rightarrow> bool"
  w_is_konqueror :: "'s \<Rightarrow> bool"
  w_name :: "byte list"
  w_description :: "byte list"
  n_getvalue :: "int \<Rightarrow> ('s, int \<times> c_string) op"
  n_getmimedescription :: "('s, c_string) op"
  n_initialize :: "('s, int \<times> uint32) op"
  n_shutdown :: "('s, int) op"

abbreviation (input) NPERR_NO_ERROR :: int where "NPERR_NO_ERROR \<equiv> 0"
abbreviation (input) NPERR_GENERIC_ERROR :: int where "NPERR_GENERIC_ERROR \<equiv> 1"
abbreviation (input) NPERR_MODULE_LOAD_FAILED_ERROR :: int where "NPERR_MODULE_LOAD_FAILED_ERROR \<equiv> 4"
abbreviation (input) NPERR_INVALID_PARAM :: int where "NPERR_INVALID_PARAM \<equiv> 9"

text \<open>A reply is cut to the 16 bits of an \<open>NPError\<close>.\<close>

definition np_error :: "int32 \<Rightarrow> int" where
  "np_error w = sint (ucast w :: 16 word)"

subsection \<open>Connections\<close>

definition the_conn :: "nat \<Rightarrow> ('h, 'z) wrapper_scheme \<Rightarrow> rpc_connection option" where
  "the_conn c s = (if focus s = c then Some (rpc_connection.truncate s) else parked s c)"

text \<open>Changing the connection in focus.\<close>

definition switch_to :: "nat \<Rightarrow> rpc_connection \<Rightarrow> ('h, 'z) wrapper_scheme \<Rightarrow> ('h, 'z) wrapper_scheme" where
  "switch_to c conn s = (rpc_connection.extend conn (rpc_connection.more s))
     \<lparr>parked := (parked s)(focus s \<mapsto> rpc_connection.truncate s, c := None), focus := c\<rparr>"

text \<open>A function of \<^verbatim>\<open>rpc.c\<close> on connection \<open>c\<close>.\<close>

definition on_connection :: "nat \<Rightarrow> (('h, 'z) wrapper_scheme, 'a) op \<Rightarrow> (('h, 'z) wrapper_scheme, 'a) op" where
  "on_connection c m s =
     (if focus s = c then m s
      else
        (case parked s c of
           None \<Rightarrow> (Crash Use_after_free, s)
         | Some conn \<Rightarrow>
             (case m (switch_to c conn s) of
                (r, s') \<Rightarrow>
                  (case parked s' (focus s) of
                     None \<Rightarrow> (Crash Use_after_free, s')
                   | Some old \<Rightarrow> (r, switch_to (focus s) old s')))))"

text \<open>\<open>rpc_status (g_rpc_connection)\<close>.\<close>

definition master_status :: "('h, 'z) wrapper_scheme \<Rightarrow> int" where
  "master_status s = rpc_status (if master s = 0 then None else the_conn (master s) s)"

definition unref_connection :: "nat \<Rightarrow> (('h, 'z) wrapper_scheme, unit) op" where
  "unref_connection c = on_connection c (on_live rpc_connection_unref)"

subsection \<open>Event sources\<close>

text \<open>
  \<open>rpc_event_source_new\<close> and \<open>rpc_sync_source_new\<close> take a reference to the connection, which the finalizer
  of the source gives back. As GLib documents, a new source has one reference, the main context holds
  another one while the source is attached, \<open>g_source_destroy\<close> gives up only the latter, and a source
  without references is finalized.
\<close>

definition attach_source :: "nat \<Rightarrow> (('h, 'z) wrapper_scheme, gsource) op" where
  "attach_source c = bind_op
     (on_connection c (modify_state (\<lambda>s. case rpc_connection_ref (Some s) of Some s' \<Rightarrow> s' | None \<Rightarrow> s)))
     (\<lambda>_. ret \<lparr>source_connection = c, source_refs = 2\<rparr>)"

definition g_source_destroy :: "gsource \<Rightarrow> (('h, 'z) wrapper_scheme, unit) op" where
  "g_source_destroy src =
     (if source_refs src - 1 = 0 then unref_connection (source_connection src) else ret ())"

subsection \<open>Stopping the viewer\<close>

definition waitpid_running :: "(('h, 'z) wrapper_scheme, bool) op" where
  "waitpid_running s =
     (case child_exits s of [] \<Rightarrow> (Ok False, s) | b # bs \<Rightarrow> (Ok b, s\<lparr>child_exits := bs\<rparr>))"

definition log_event :: "viewer_event \<Rightarrow> (('h, 'z) wrapper_scheme, unit) op" where
  "log_event e = modify_state (\<lambda>s. s\<lparr>viewer_log := viewer_log s @ [e]\<rparr>)"

abbreviation (input) WAITPID_DELAY_TO_SIGTERM :: nat where "WAITPID_DELAY_TO_SIGTERM \<equiv> 3"
abbreviation (input) WAITPID_DELAY_TO_SIGKILL :: nat where "WAITPID_DELAY_TO_SIGKILL \<equiv> 3"

text \<open>The two loops; \<open>k\<close> is the number of seconds the counter still allows.\<close>

primrec wait_or_kill :: "int \<Rightarrow> nat \<Rightarrow> (('h, 'z) wrapper_scheme, unit) op" where
  "wait_or_kill pid 0 = bind_op waitpid_running (\<lambda>b. if \<not> b then ret () else log_event (Sent_SIGKILL pid))"
| "wait_or_kill pid (Suc k) = bind_op waitpid_running (\<lambda>b.
     if \<not> b then ret () else then_op (log_event Slept) (wait_or_kill pid k))"

primrec wait_or_terminate :: "int \<Rightarrow> nat \<Rightarrow> (('h, 'z) wrapper_scheme, unit) op" where
  "wait_or_terminate pid 0 = bind_op waitpid_running (\<lambda>b.
     if \<not> b then ret ()
     else then_op (log_event (Sent_SIGTERM pid)) (wait_or_kill pid WAITPID_DELAY_TO_SIGKILL))"
| "wait_or_terminate pid (Suc k) = bind_op waitpid_running (\<lambda>b.
     if \<not> b then ret () else then_op (log_event Slept) (wait_or_terminate pid k))"

definition set_plugin :: "(Plugin \<Rightarrow> Plugin) \<Rightarrow> (('h, 'z) wrapper_scheme, unit) op" where
  "set_plugin f = modify_state (\<lambda>s. s\<lparr>g_plugin := f (g_plugin s)\<rparr>)"

definition stop_sources :: "(('h, 'z) wrapper_scheme, unit) op" where
  "stop_sources = run_all
     [modify_state (\<lambda>s. s\<lparr>xt_rpc_source_id := False, xt_rpc_sync_id := False\<rparr>),
      bind_op (gets g_rpc_source) (\<lambda>src. case src of
        None \<Rightarrow> ret ()
      | Some x \<Rightarrow> then_op (g_source_destroy x) (modify_state (\<lambda>s. s\<lparr>g_rpc_source := None\<rparr>))),
      bind_op (gets g_rpc_sync_source) (\<lambda>src. case src of
        None \<Rightarrow> ret ()
      | Some x \<Rightarrow> then_op (g_source_destroy x) (modify_state (\<lambda>s. s\<lparr>g_rpc_sync_source := None\<rparr>)))]"

definition plugin_exit :: "(('h, 'z) wrapper_scheme, unit) op" where
  "plugin_exit = run_all
     [stop_sources,
      bind_op (gets master) (\<lambda>c.
        if c = 0 then ret ()
        else then_op (unref_connection c) (modify_state (\<lambda>s. s\<lparr>master := 0\<rparr>))),
      bind_op (gets (\<lambda>s. viewer_pid (g_plugin s))) (\<lambda>pid.
        if pid = - 1 then ret ()
        else then_op (wait_or_terminate pid WAITPID_DELAY_TO_SIGTERM)
               (set_plugin (\<lambda>g. g\<lparr>viewer_pid := - 1\<rparr>))),
      set_plugin (\<lambda>g. g\<lparr>initialized := 0\<rparr>)]"

definition plugin_kill :: "(('h, 'z) wrapper_scheme, 'h) np_env \<Rightarrow> (('h, 'z) wrapper_scheme, unit) op" where
  "plugin_kill E = bind_op (gets (\<lambda>s. is_wrapper (g_plugin s))) (\<lambda>w.
     if w then ret ()
     else run_all
       [plugin_exit,
        set_plugin (\<lambda>g. g\<lparr>initialized := 0, viewer_pid := - 1, is_wrapper := False\<rparr>),
        npruntime_deactivate E,
        modify_state (\<lambda>s. s\<lparr>plugin_killed := True\<rparr>)])"

text \<open>The error callback of the connection; the callback is not cleared, see \<open>rpc_connection_set_error_callback\<close>.\<close>

definition plugin_kill_cb ::
  "(('h, 'z) wrapper_scheme, 'h) np_env \<Rightarrow> nat \<Rightarrow> (('h, 'z) wrapper_scheme, unit) op"
where
  "plugin_kill_cb E c =
     then_op
       (on_connection c (modify_state (\<lambda>s.
          case rpc_connection_set_error_callback NULL NULL (Some s) of Some s' \<Rightarrow> s' | None \<Rightarrow> s)))
       (plugin_kill E)"

text \<open>When the library is unloaded, the description is freed as well.\<close>

definition no_info :: plugin_info where
  "no_info = \<lparr>pl_name = None, pl_description = None, pl_formats = None\<rparr>"

definition plugin_exit_sentinel :: "(('h, 'z) wrapper_scheme, unit) op" where
  "plugin_exit_sentinel = then_op plugin_exit (set_plugin (\<lambda>g. g\<lparr>info := no_info\<rparr>))"

subsection \<open>Starting the viewer\<close>

text \<open>The part of a path after its last slash, which is not looked for at the first character.\<close>

definition file_name_of :: "byte list \<Rightarrow> c_string" where
  "file_name_of path =
     (if 47 \<in> set (tl path) then Some (rev (takeWhile (\<lambda>c. c \<noteq> 47) (rev path))) else None)"

text \<open>
  The description of the plugin is read unless a part of it is known; \<open>initialized\<close> says so only in the
  first case. The result tells whether to go on.
\<close>

definition cache_info :: "('h, 'z) wrapper_scheme wrapper_env \<Rightarrow> (('h, 'z) wrapper_scheme, bool) op" where
  "cache_info W = bind_op (gets (\<lambda>s. info (g_plugin s))) (\<lambda>known.
     if pl_name known = None \<and> pl_description known = None \<and> pl_formats known = None
     then bind_op (gets (w_popen W)) (\<lambda>out.
       case out of
         None \<Rightarrow> ret False
       | Some xs \<Rightarrow> then_op
           (set_plugin (\<lambda>g. g\<lparr>info := read_info (w_malloc W) xs (info g), initialized := 1\<rparr>)) (ret True))
     else ret True)"

text \<open>\<open>"%s/%s/%d-%d/%ld"\<close>.\<close>

definition connection_path_of ::
  "('h, 'z) wrapper_scheme wrapper_env \<Rightarrow> byte list \<Rightarrow> ('h, 'z) wrapper_scheme \<Rightarrow> byte list"
where
  "connection_path_of W file s =
     w_connection_path W @ [47] @ file @ [47] @ dec (w_getpid W) @ [45] @ dec (nat (init_count s)) @ [47] @ dec (w_random W s)"

text \<open>\<open>fork\<close> and \<open>rpc_init_client\<close>; the child replaces itself by the viewer.\<close>

definition connect_viewer ::
  "('h, 'z) wrapper_scheme wrapper_env \<Rightarrow> byte list \<Rightarrow> (('h, 'z) wrapper_scheme, bool) op"
where
  "connect_viewer W file =
     bind_op (gets (w_fork W)) (\<lambda>pid.
     then_op (set_plugin (\<lambda>g. g\<lparr>viewer_pid := pid\<rparr>))
     (then_op (log_event (Forked pid))
       (\<lambda>s. case rpc_init_client (w_init_timeout W) (w_connect W s) (Some (connection_path_of W file s)) (w_os W s) of
          (Ok (Some conn), _) \<Rightarrow>
            (Ok True, s\<lparr>master := next_connection s, next_connection := next_connection s + 1,
               parked := (parked s)(next_connection s \<mapsto> conn)\<rparr>)
        | (Ok None, _) \<Rightarrow> (Ok False, s\<lparr>master := 0\<rparr>)
        | (Err e, _) \<Rightarrow> (Err e, s)
        | (Crash x, _) \<Rightarrow> (Crash x, s))))"

definition wrapper_vtable :: "rpc_method_descriptor list" where
  "wrapper_vtable = map (\<lambda>mid. \<lparr>m_id = mid, m_callback = method_ptr mid\<rparr>)
     [RPC_METHOD_NPN_USER_AGENT, RPC_METHOD_NPN_GET_VALUE, RPC_METHOD_NPN_SET_VALUE,
      RPC_METHOD_NPN_GET_URL, RPC_METHOD_NPN_GET_URL_NOTIFY, RPC_METHOD_NPN_POST_URL,
      RPC_METHOD_NPN_POST_URL_NOTIFY, RPC_METHOD_NPN_STATUS, RPC_METHOD_NPN_PRINT_DATA,
      RPC_METHOD_NPN_REQUEST_READ, RPC_METHOD_NPN_NEW_STREAM, RPC_METHOD_NPN_DESTROY_STREAM,
      RPC_METHOD_NPN_WRITE, RPC_METHOD_NPN_PUSH_POPUPS_ENABLED_STATE,
      RPC_METHOD_NPN_POP_POPUPS_ENABLED_STATE, RPC_METHOD_NPN_INVALIDATE_RECT,
      RPC_METHOD_NPN_GET_VALUE_FOR_URL, RPC_METHOD_NPN_SET_VALUE_FOR_URL,
      RPC_METHOD_NPN_GET_AUTHENTICATION_INFO, RPC_METHOD_NPN_INVOKE, RPC_METHOD_NPN_INVOKE_DEFAULT,
      RPC_METHOD_NPN_EVALUATE, RPC_METHOD_NPN_GET_PROPERTY, RPC_METHOD_NPN_SET_PROPERTY,
      RPC_METHOD_NPN_REMOVE_PROPERTY, RPC_METHOD_NPN_HAS_PROPERTY, RPC_METHOD_NPN_HAS_METHOD,
      RPC_METHOD_NPN_ENUMERATE, RPC_METHOD_NPN_CONSTRUCT, RPC_METHOD_NPN_SET_EXCEPTION,
      RPC_METHOD_NPN_GET_STRING_IDENTIFIER, RPC_METHOD_NPN_GET_STRING_IDENTIFIERS,
      RPC_METHOD_NPN_GET_INT_IDENTIFIER, RPC_METHOD_NPN_IDENTIFIER_IS_STRING,
      RPC_METHOD_NPN_UTF8_FROM_IDENTIFIER, RPC_METHOD_NPN_INT_FROM_IDENTIFIER]"

text \<open>The registrations on the new connection, left at the first that fails.\<close>

definition register_all :: "(('h, 'z) wrapper_scheme, bool) op" where
  "register_all = bind_op (attempt (run_all
      [on_live rpc_add_np_marshalers, on_live (rpc_connection_add_method_descriptors wrapper_vtable),
       on_live npclass_add_method_descriptors])) (\<lambda>r. ret (r \<noteq> None))"

abbreviation (input) NPNVGtk12 :: int where "NPNVGtk12 \<equiv> 1"
abbreviation (input) NPNVGtk2 :: int where "NPNVGtk2 \<equiv> 2"

text \<open>The event loop: sources of GLib, or an input and a block hook of Xt, which hold no reference.\<close>

definition attach_listeners ::
  "('h, 'z) wrapper_scheme wrapper_env \<Rightarrow> nat \<Rightarrow> (('h, 'z) wrapper_scheme, bool) op"
where
  "attach_listeners W c =
     bind_op (gets (w_toolkit W)) (\<lambda>toolkit.
     then_op
       (if toolkit = NPNVGtk12 \<or> toolkit = NPNVGtk2 \<or> toolkit = 0xFEEDABEE
        then
          bind_op (attach_source c) (\<lambda>src.
          then_op (modify_state (\<lambda>s. s\<lparr>g_rpc_source := Some src\<rparr>))
          (bind_op (attach_source c) (\<lambda>sync.
           modify_state (\<lambda>s. s\<lparr>g_rpc_sync_source := Some sync\<rparr>))))
        else
          bind_op (gets (w_xt_context W)) (\<lambda>context.
            if context then modify_state (\<lambda>s. s\<lparr>xt_rpc_source_id := True, xt_rpc_sync_id := True\<rparr>) else ret ()))
       (gets (\<lambda>s. g_rpc_source s \<noteq> None \<or> (xt_rpc_source_id s \<and> xt_rpc_sync_id s))))"

definition plugin_kill_ptr :: code_ptr where
  "plugin_kill_ptr = 1"

text \<open>The last part of \<open>plugin_init\<close>.\<close>

definition listen_to :: "('h, 'z) wrapper_scheme wrapper_env \<Rightarrow> nat \<Rightarrow> (('h, 'z) wrapper_scheme, unit) op" where
  "listen_to W c = bind_op (attach_listeners W c) (\<lambda>listening.
     if \<not> listening then ret ()
     else
       then_op (on_connection c (modify_state (\<lambda>s.
         case rpc_connection_set_error_callback plugin_kill_ptr NULL (Some s) of Some s' \<Rightarrow> s' | None \<Rightarrow> s)))
       (set_plugin (\<lambda>g. g\<lparr>initialized := 1 + 1\<rparr>)))"

definition start_viewer ::
  "('h, 'z) wrapper_scheme wrapper_env \<Rightarrow> byte list \<Rightarrow> (('h, 'z) wrapper_scheme, unit) op"
where
  "start_viewer W file =
     bind_op (connect_viewer W file) (\<lambda>connected.
       if \<not> connected then ret ()
       else bind_op (gets master) (\<lambda>c.
         bind_op (on_connection c register_all) (\<lambda>registered.
           bind_op (gets (\<lambda>s. nf_members (mozilla_funcs s) NPN_GetValue_slot \<noteq> 0)) (\<lambda>getvalue.
             if \<not> registered \<or> \<not> getvalue then ret () else listen_to W c))))"

definition plugin_init ::
  "('h, 'z) wrapper_scheme wrapper_env \<Rightarrow> bool \<Rightarrow> (('h, 'z) wrapper_scheme, unit) op"
where
  "plugin_init W is_NP_Initialize =
     bind_op (gets (\<lambda>s. initialized (g_plugin s))) (\<lambda>i.
       if i < 0 then ret ()
       else
         then_op (set_plugin (\<lambda>g. g\<lparr>initialized := - 1\<rparr>))
         (if w_plugin_path W = w_default_path W
          then set_plugin (\<lambda>g. g\<lparr>is_wrapper := True, initialized := 1 + of_bool is_NP_Initialize\<rparr>)
          else if w_direct_exec W then set_plugin (\<lambda>g. g\<lparr>initialized := 1\<rparr>)
          else
            then_op (modify_state (\<lambda>s. if plugin_file_name s = None
              then s\<lparr>plugin_file_name := file_name_of (w_plugin_path W)\<rparr> else s))
            (bind_op (gets plugin_file_name) (\<lambda>file.
               case file of
                 None \<Rightarrow> ret ()
               | Some f \<Rightarrow>
                   then_op (modify_state (\<lambda>s. s\<lparr>init_count := init_count s + 1\<rparr>))
                   (bind_op (cache_info W) (\<lambda>go_on.
                      if \<not> go_on \<or> \<not> is_NP_Initialize then ret () else start_viewer W f))))))"

subsection \<open>The plugin's entry points\<close>

definition wrapper_NP_GetValue ::
  "('h, 'z) wrapper_scheme wrapper_env \<Rightarrow> int \<Rightarrow> (('h, 'z) wrapper_scheme, int \<times> c_string) op"
where
  "wrapper_NP_GetValue W variable =
     bind_op (gets (\<lambda>s. initialized (g_plugin s))) (\<lambda>i.
     then_op (if i = 0 then plugin_init W False else ret ())
     (bind_op (gets g_plugin) (\<lambda>g.
       if initialized g \<le> 0 then ret (NPERR_GENERIC_ERROR, None)
       else if w_direct_exec W then n_getvalue W variable
       else if variable = NPPVpluginNameString then
         ret (if is_wrapper g then (NPERR_NO_ERROR, Some (w_name W))
              else case pl_name (info g) of Some str \<Rightarrow> (NPERR_NO_ERROR, Some str) | None \<Rightarrow> (NPERR_GENERIC_ERROR, None))
       else if variable = NPPVpluginDescriptionString then
         ret (if is_wrapper g then (NPERR_NO_ERROR, Some (w_description W))
              else case pl_description (info g) of Some str \<Rightarrow> (NPERR_NO_ERROR, Some str) | None \<Rightarrow> (NPERR_GENERIC_ERROR, None))
       else ret (NPERR_INVALID_PARAM, None))))"

text \<open>The last string is \<^verbatim>\<open>unknown/mime-type:none:Do not open\<close>.\<close>

definition wrapper_NP_GetMIMEDescription ::
  "('h, 'z) wrapper_scheme wrapper_env \<Rightarrow> (('h, 'z) wrapper_scheme, c_string) op"
where
  "wrapper_NP_GetMIMEDescription W =
     bind_op (gets (\<lambda>s. initialized (g_plugin s))) (\<lambda>i.
     then_op (if i = 0 then plugin_init W False else ret ())
     (bind_op (gets g_plugin) (\<lambda>g.
       if initialized g \<le> 0 then ret None
       else if w_direct_exec W then n_getmimedescription W
       else if is_wrapper g then ret (Some [117, 110, 107, 110, 111, 119, 110, 47, 109, 105, 109, 101, 45, 116, 121,
         112, 101, 58, 110, 111, 110, 101, 58, 68, 111, 32, 110, 111, 116, 32, 111, 112, 101, 110])
       else ret (pl_formats (info g)))))"

subsection \<open>Initialization and shutdown\<close>

text \<open>A remote call on a connection given by its number.\<close>

definition remote_call_on ::
  "(('h, 'z) wrapper_scheme, np_value, 'y) rpc_env_scheme \<Rightarrow> nat \<Rightarrow> int \<Rightarrow> np_value rpc_arg list \<Rightarrow> rpc_param list \<Rightarrow>
     (('h, 'z) wrapper_scheme, np_value rpc_arg list option) op"
where
  "remote_call_on R c mid args ps =
     (if c = 0 then ret None
      else on_connection c (then_op (read_conn (\<lambda>_. ())) (remote_call R mid args ps)))"

fun as_uint32s :: "np_value rpc_arg \<Rightarrow> uint32 list option" where
  "as_uint32s (Array n (C_uint32 xs)) = Some xs"
| "as_uint32s a = None"

text \<open>\<^verbatim>\<open>browser-funcs.h\<close> lists the first 50 members of the browser's table.\<close>

definition browser_capabilities :: "np_funcs \<Rightarrow> uint32 list" where
  "browser_capabilities m = map (\<lambda>k. if nf_members m k \<noteq> 0 then 1 else 0) [0..<50]"

text \<open>The error, the version of the plugin, its capabilities and their number.\<close>

definition invoke_NP_Initialize ::
  "('h, 'z) wrapper_scheme wrapper_env \<Rightarrow> (('h, 'z) wrapper_scheme, np_value, 'y) rpc_env_scheme \<Rightarrow> uint32 \<Rightarrow> uint32 \<Rightarrow>
     (('h, 'z) wrapper_scheme, int \<times> uint32 \<times> uint32 list option \<times> uint32) op"
where
  "invoke_NP_Initialize W R version plugin_version =
     (if w_direct_exec W then bind_op (n_initialize W) (\<lambda>(e, v). ret (e, v, None, 0))
      else bind_op (gets master) (\<lambda>c.
           bind_op (gets (\<lambda>s. browser_capabilities (mozilla_funcs s))) (\<lambda>caps.
           bind_op (remote_call_on R c RPC_METHOD_NP_INITIALIZE
               [Uint32 version, Array (of_nat (length caps)) (C_uint32 caps)]
               [P_type RPC_TYPE_INT32, P_type RPC_TYPE_UINT32, P_array RPC_TYPE_UINT32]) (\<lambda>r.
             ret (case r of
                    Some [a1, a2, a3] \<Rightarrow> (np_error (as_int32 a1), as_uint32 a2, as_uint32s a3, as_count a3)
                  | _ \<Rightarrow> (NPERR_MODULE_LOAD_FAILED_ERROR, plugin_version, None, 0))))))"

definition invoke_NP_Shutdown ::
  "('h, 'z) wrapper_scheme wrapper_env \<Rightarrow> (('h, 'z) wrapper_scheme, np_value, 'y) rpc_env_scheme \<Rightarrow>
     (('h, 'z) wrapper_scheme, int) op"
where
  "invoke_NP_Shutdown W R =
     (if w_direct_exec W then n_shutdown W
      else bind_op (gets master) (\<lambda>c.
        if c = 0 then ret NPERR_NO_ERROR
        else bind_op (remote_call_on R c RPC_METHOD_NP_SHUTDOWN [] [P_type RPC_TYPE_INT32]) (\<lambda>r.
          ret (case r of Some [a1] \<Rightarrow> np_error (as_int32 a1) | _ \<Rightarrow> NPERR_GENERIC_ERROR))))"

definition g_NP_Shutdown ::
  "('h, 'z) wrapper_scheme wrapper_env \<Rightarrow> (('h, 'z) wrapper_scheme, np_value, 'y) rpc_env_scheme \<Rightarrow>
     (('h, 'z) wrapper_scheme, int) op"
where
  "g_NP_Shutdown W R =
     bind_op (invoke_NP_Shutdown W R) (\<lambda>r.
     bind_op (gets (\<lambda>s. is_wrapper (g_plugin s))) (\<lambda>w.
     then_op (if \<not> w then plugin_exit else ret ()) (ret r)))"

definition NP_Shutdown ::
  "('h, 'z) wrapper_scheme wrapper_env \<Rightarrow> (('h, 'z) wrapper_scheme, 'h) np_env \<Rightarrow>
     (('h, 'z) wrapper_scheme, np_value, 'y) rpc_env_scheme \<Rightarrow> (('h, 'z) wrapper_scheme, int) op"
where
  "NP_Shutdown W E R =
     bind_op (g_NP_Shutdown W R) (\<lambda>r.
     then_op (modify_state (npobject_bridge_destroy E))
     (then_op (modify_state (\<lambda>s. s\<lparr>ids := id_kill (ids s)\<rparr>)) (ret r)))"

subsection \<open>Restarting\<close>

abbreviation (input) MIN_RESTART_INTERVAL :: int where "MIN_RESTART_INTERVAL \<equiv> 1"

definition plugin_start ::
  "('h, 'z) wrapper_scheme wrapper_env \<Rightarrow> (('h, 'z) wrapper_scheme, 'h) np_env \<Rightarrow>
     (('h, 'z) wrapper_scheme, np_value, 'y) rpc_env_scheme \<Rightarrow> (('h, 'z) wrapper_scheme, int) op"
where
  "plugin_start W E R =
     bind_op (gets plugin_killed) (\<lambda>killed.
     then_op (if \<not> killed then plugin_kill E else ret ())
     (then_op (modify_state (\<lambda>s. s\<lparr>plugin_killed := False\<rparr>))
     (then_op (plugin_init W True)
     (bind_op (gets (\<lambda>s. initialized (g_plugin s))) (\<lambda>i.
        if i \<le> 0 then ret NPERR_MODULE_LOAD_FAILED_ERROR
        else bind_op (gets npapi_version) (\<lambda>v.
             bind_op (invoke_NP_Initialize W R v 0) (\<lambda>(e, _). ret e)))))))"

definition plugin_start_if_needed ::
  "('h, 'z) wrapper_scheme wrapper_env \<Rightarrow> (('h, 'z) wrapper_scheme, 'h) np_env \<Rightarrow>
     (('h, 'z) wrapper_scheme, np_value, 'y) rpc_env_scheme \<Rightarrow> (('h, 'z) wrapper_scheme, int) op"
where
  "plugin_start_if_needed W E R =
     (if w_direct_exec W then ret NPERR_NO_ERROR
      else bind_op (gets master_status) (\<lambda>st.
        if st \<noteq> RPC_STATUS_ACTIVE
        then bind_op (gets (\<lambda>s. (w_time W s, last_restart s))) (\<lambda>(now, last).
          if now - last < MIN_RESTART_INTERVAL then ret NPERR_GENERIC_ERROR
          else then_op (modify_state (\<lambda>s. s\<lparr>last_restart := now\<rparr>)) (plugin_start W E R))
        else ret NPERR_NO_ERROR))"

subsection \<open>\<open>NP_Initialize\<close>\<close>

text \<open>\<open>memcpy\<close> of the first \<open>n\<close> bytes of a table; a member can be cut in the middle.\<close>

definition merge_low :: "nat \<Rightarrow> 'a::len word \<Rightarrow> 'a word \<Rightarrow> 'a word" where
  "merge_low j new old = (new AND mask (8 * j)) OR (old AND NOT (mask (8 * j)))"

definition copy_funcs :: "nat \<Rightarrow> np_funcs \<Rightarrow> np_funcs \<Rightarrow> np_funcs" where
  "copy_funcs n new old =
     \<lparr>nf_size = merge_low n (nf_size new) (nf_size old), nf_version = merge_low (n - 2) (nf_version new) (nf_version old),
      nf_members = (\<lambda>k. merge_low (n - (8 + 8 * k)) (nf_members new k) (nf_members old k))\<rparr>"

abbreviation (input) sizeof_NPNetscapeFuncs :: nat where "sizeof_NPNetscapeFuncs \<equiv> 448"
abbreviation (input) sizeof_NPPluginFuncs :: nat where "sizeof_NPPluginFuncs \<equiv> 160"
abbreviation (input) NPW_NPAPI_VERSION :: nat where "NPW_NPAPI_VERSION \<equiv> 27"

text \<open>
  The slots of \<^verbatim>\<open>plugin-funcs.h\<close>, in its order; \<open>thunk k\<close> and \<open>long64_thunk k\<close> are the wrapper's functions
  for slot \<open>k\<close>, the latter for the first nine only.
\<close>

definition plugin_func_slots :: "nat list" where
  "plugin_func_slots = [0, 1, 2, 3, 4, 5, 6, 7, 8, 9, 10, 12, 13, 17, 18]"

definition thunk :: "nat \<Rightarrow> uint64" where "thunk k = of_nat (4096 + 16 * k)"

definition long64_thunk :: "nat \<Rightarrow> uint64" where "long64_thunk k = of_nat (8192 + 16 * k)"

definition full_plugin_funcs :: "bool \<Rightarrow> np_funcs" where
  "full_plugin_funcs long64 =
     \<lparr>nf_size = of_nat sizeof_NPPluginFuncs, nf_version = of_nat NPW_NPAPI_VERSION,
      nf_members = (\<lambda>k. if k \<in> set plugin_func_slots
                          then if long64 \<and> k \<le> 8 then long64_thunk k else thunk k else 0)\<rparr>"

text \<open>Members the plugin lacks are taken out, as far as the array of its capabilities goes.\<close>

fun drop_missing :: "uint32 list \<Rightarrow> nat list \<Rightarrow> np_funcs \<Rightarrow> np_funcs" where
  "drop_missing (c # cs) (k # ks) f =
     drop_missing cs ks (if c = 0 then f\<lparr>nf_members := (nf_members f)(k := 0)\<rparr> else f)"
| "drop_missing _ _ f = f"

text \<open>What the plugin's table is set to at the end.\<close>

definition advertised :: "bool \<Rightarrow> uint32 \<Rightarrow> uint32 list option \<Rightarrow> np_funcs \<Rightarrow> np_funcs" where
  "advertised long64 plugin_version capabilities pf =
     (let full = (full_plugin_funcs long64)\<lparr>nf_version := of_nat (min (unat plugin_version) NPW_NPAPI_VERSION)\<rparr>;
          full' = (case capabilities of None \<Rightarrow> full | Some cs \<Rightarrow> drop_missing cs plugin_func_slots full);
          n = min (unat (nf_size pf)) sizeof_NPPluginFuncs
      in (copy_funcs n full' pf)\<lparr>nf_size := of_nat n\<rparr>)"

abbreviation (input) NPERR_INCOMPATIBLE_VERSION_ERROR :: int where "NPERR_INCOMPATIBLE_VERSION_ERROR \<equiv> 8"

text \<open>What follows the start of the viewer. The result is the error and the table of the plugin.\<close>

definition initialize_plugin ::
  "('h, 'z) wrapper_scheme wrapper_env \<Rightarrow> (('h, 'z) wrapper_scheme, 'h) np_env \<Rightarrow>
     (('h, 'z) wrapper_scheme, np_value, 'y) rpc_env_scheme \<Rightarrow> bool \<Rightarrow> np_funcs \<Rightarrow> np_funcs \<Rightarrow>
     (('h, 'z) wrapper_scheme, int \<times> np_funcs) op"
where
  "initialize_plugin W E R long64 moz pf =
     bind_op (gets (\<lambda>s. id_init (hash E) (ids s))) (\<lambda>(ok, t).
     then_op (modify_state (\<lambda>s. s\<lparr>ids := t\<rparr>))
     (if \<not> ok then ret (NPERR_MODULE_LOAD_FAILED_ERROR, pf)
      else
        (let version = of_nat (min (unat (nf_version moz)) NPW_NPAPI_VERSION) in
         then_op (modify_state (npobject_bridge_new E))
         (then_op (modify_state (\<lambda>s. s\<lparr>npapi_version := version\<rparr>))
         (bind_op (invoke_NP_Initialize W R version 0) (\<lambda>(e, plugin_version, caps, n).
            ret (e, advertised long64 plugin_version caps pf)))))))"

text \<open>The version of the browser is the one in the copied table from the first success on.\<close>

definition NP_Initialize ::
  "('h, 'z) wrapper_scheme wrapper_env \<Rightarrow> (('h, 'z) wrapper_scheme, 'h) np_env \<Rightarrow>
     (('h, 'z) wrapper_scheme, np_value, 'y) rpc_env_scheme \<Rightarrow> np_funcs option \<Rightarrow> np_funcs option \<Rightarrow>
     (('h, 'z) wrapper_scheme, int \<times> np_funcs option) op"
where
  "NP_Initialize W E R moz_funcs plugin_funcs =
     (case (moz_funcs, plugin_funcs) of
        (Some moz, Some pf) \<Rightarrow>
          if drop_bit 8 (nf_version moz) \<noteq> 0 then ret (NPERR_INCOMPATIBLE_VERSION_ERROR, plugin_funcs)
          else if nf_size moz < 176 then ret (NPERR_INVALID_FUNCTABLE_ERROR, plugin_funcs)
          else
            bind_op (gets (\<lambda>s. initialized (g_plugin s))) (\<lambda>i.
            then_op (if i = 0 then plugin_init W False else ret ())
            (bind_op (gets g_plugin) (\<lambda>g.
               if initialized g \<le> 0 then ret (NPERR_GENERIC_ERROR, plugin_funcs)
               else if is_wrapper g then ret (NPERR_NO_ERROR, plugin_funcs)
               else
                 then_op (modify_state (\<lambda>s. s\<lparr>mozilla_funcs :=
                   copy_funcs (min (unat (nf_size moz)) sizeof_NPNetscapeFuncs) moz (mozilla_funcs s)\<rparr>))
                 (bind_op (gets (\<lambda>s. (nf_version (mozilla_funcs s) AND 0xff) < 14 \<and> w_is_konqueror W s)) (\<lambda>long64.
                  then_op (if initialized g = 0 \<or> initialized g = 1 then plugin_init W True else ret ())
                  (bind_op (gets (\<lambda>s. initialized (g_plugin s))) (\<lambda>i'.
                     if i' \<le> 0 then ret (NPERR_MODULE_LOAD_FAILED_ERROR, plugin_funcs)
                     else bind_op (initialize_plugin W E R long64 moz pf) (\<lambda>(e, pf'). ret (e, Some pf')))))))))
      | _ \<Rightarrow> ret (NPERR_INVALID_FUNCTABLE_ERROR, plugin_funcs))"

end
