(* ===== verification/Npw_Life.thy ===== *)
theory Npw_Life
  imports Npw_Plugin
begin

text \<open>
  How the plugin lives: what starting, stopping and restarting the viewer does to the state of the
  wrapper, and what the browser gets of it.
\<close>

lemma bind_op_bool:
  "m s = (Ok True, s') \<Longrightarrow> bind_op m f s = f True s'" "m s = (Ok False, s') \<Longrightarrow> bind_op m f s = f False s'"
  by (simp_all add: bind_op_def)

subsection \<open>Running on a connection\<close>

lemma switch_to_simps [simp]:
  "g_plugin (switch_to c conn s) = g_plugin s" "master (switch_to c conn s) = master s"
  "focus (switch_to c conn s) = c" "next_connection (switch_to c conn s) = next_connection s"
  "parked (switch_to c conn s) = (parked s)(focus s \<mapsto> rpc_connection.truncate s, c := None)"
  "rpc_connection.truncate (switch_to c conn s) = conn"
  by (cases s; simp add: switch_to_def rpc_connection.defs)+

lemma switch_to_back:
  "focus s \<noteq> c \<Longrightarrow> parked s (focus s) = None \<Longrightarrow>
     switch_to (focus s) (rpc_connection.truncate s) (switch_to c conn s) = s\<lparr>parked := (parked s)(c \<mapsto> conn)\<rparr>"
  by (cases s) (auto simp: switch_to_def rpc_connection.defs fun_eq_iff)

lemma on_connection_head:
  assumes "focus s \<noteq> c" "parked s (focus s) = None" "parked s c = Some conn"
    and "m (switch_to c conn s) = (r, switch_to c conn' s)"
  shows "on_connection c m s = (r, s\<lparr>parked := (parked s)(c \<mapsto> conn')\<rparr>)"
  using assms switch_to_back [OF assms(1,2), of conn'] by (simp add: on_connection_def)

lemma switch_to_fields [simp]:
  "rx_queue (switch_to c conn s) = rx_queue conn"
  "tx_wire (switch_to c conn s) = tx_wire conn"
  "malloc_ok (switch_to c conn s) = malloc_ok conn"
  "conn_types (switch_to c conn s) = conn_types conn"
  "conn_type (switch_to c conn s) = conn_type conn"
  "refcnt (switch_to c conn s) = refcnt conn"
  "status (switch_to c conn s) = status conn"
  "socket (switch_to c conn s) = socket conn"
  "socket_path (switch_to c conn s) = socket_path conn"
  "server_socket (switch_to c conn s) = server_socket conn"
  "server_thread_active (switch_to c conn s) = server_thread_active conn"
  "methods (switch_to c conn s) = methods conn"
  "error_callback (switch_to c conn s) = error_callback conn"
  "error_callback_data (switch_to c conn s) = error_callback_data conn"
  "dispatch_depth (switch_to c conn s) = dispatch_depth conn"
  "invoke_depth (switch_to c conn s) = invoke_depth conn"
  "handle_depth (switch_to c conn s) = handle_depth conn"
  "is_sync (switch_to c conn s) = is_sync conn"
  "pending_sync_depth (switch_to c conn s) = pending_sync_depth conn"
  "freed (switch_to c conn s) = freed conn"
  "os_calls (switch_to c conn s) = os_calls conn"
  by (cases s; simp add: switch_to_def rpc_connection.defs)+

lemma switch_to_updates [simp]:
  "(switch_to c conn s)\<lparr>conn_types := x_conn_types\<rparr> = switch_to c (conn\<lparr>conn_types := x_conn_types\<rparr>) s"
  "(switch_to c conn s)\<lparr>refcnt := x_refcnt\<rparr> = switch_to c (conn\<lparr>refcnt := x_refcnt\<rparr>) s"
  "(switch_to c conn s)\<lparr>status := x_status\<rparr> = switch_to c (conn\<lparr>status := x_status\<rparr>) s"
  "(switch_to c conn s)\<lparr>socket := x_socket\<rparr> = switch_to c (conn\<lparr>socket := x_socket\<rparr>) s"
  "(switch_to c conn s)\<lparr>socket_path := x_socket_path\<rparr> = switch_to c (conn\<lparr>socket_path := x_socket_path\<rparr>) s"
  "(switch_to c conn s)\<lparr>server_socket := x_server_socket\<rparr> = switch_to c (conn\<lparr>server_socket := x_server_socket\<rparr>) s"
  "(switch_to c conn s)\<lparr>methods := x_methods\<rparr> = switch_to c (conn\<lparr>methods := x_methods\<rparr>) s"
  "(switch_to c conn s)\<lparr>error_callback := x_error_callback\<rparr> = switch_to c (conn\<lparr>error_callback := x_error_callback\<rparr>) s"
  "(switch_to c conn s)\<lparr>error_callback_data := x_error_callback_data\<rparr> = switch_to c (conn\<lparr>error_callback_data := x_error_callback_data\<rparr>) s"
  "(switch_to c conn s)\<lparr>freed := x_freed\<rparr> = switch_to c (conn\<lparr>freed := x_freed\<rparr>) s"
  "(switch_to c conn s)\<lparr>os_calls := x_os_calls\<rparr> = switch_to c (conn\<lparr>os_calls := x_os_calls\<rparr>) s"
  by (cases s; simp add: switch_to_def rpc_connection.defs)+

lemma destroy_switch:
  "rpc_connection_destroy (switch_to c conn s) = map_prod id (\<lambda>x. switch_to c x s) (rpc_connection_destroy conn)"
  by (simp add: rpc_connection_destroy_def)

lemma unref_switch:
  "on_live rpc_connection_unref (switch_to c conn s) =
     map_prod id (\<lambda>x. switch_to c x s) (on_live rpc_connection_unref conn)"
  by (simp add: on_live_def rpc_connection_unref_def rpc_exit_def check_null_def destroy_switch Let_def case_prod_unfold
      map_prod_def split: prod.splits)

text \<open>Dropping a reference that is not the last one, and the last one.\<close>

lemma unref_parked:
  assumes "focus s \<noteq> c" "parked s (focus s) = None" "parked s c = Some conn" "\<not> freed conn" "refcnt conn \<noteq> 1"
  shows "unref_connection c s = (Ok (), s\<lparr>parked := (parked s)(c \<mapsto> conn\<lparr>refcnt := refcnt conn - 1\<rparr>)\<rparr>)"
  unfolding unref_connection_def
  by (rule on_connection_head [OF assms(1-3)])
    (use assms(4,5) in \<open>simp add: unref_switch on_live_def rpc_connection_unref_def Let_def\<close>)

lemma unref_parked_any:
  assumes "focus s \<noteq> c" "parked s (focus s) = None" "parked s c = Some conn" "\<not> freed conn"
  shows "\<exists>conn'. unref_connection c s = (Ok (), s\<lparr>parked := (parked s)(c \<mapsto> conn')\<rparr>) \<and>
    (freed conn' \<longleftrightarrow> refcnt conn = 1) \<and> refcnt conn' = refcnt conn - 1"
proof -
  obtain conn' where "on_live rpc_connection_unref conn = (Ok (), conn')" "freed conn' \<longleftrightarrow> refcnt conn = 1"
    "refcnt conn' = refcnt conn - 1"
    using assms(4) by (cases "refcnt conn = 1")
      (auto simp: on_live_def rpc_connection_unref_def Let_def rpc_exit_def check_null_def rpc_connection_destroy_def)
  then show ?thesis
    unfolding unref_connection_def
    by (intro exI [of _ conn'] conjI on_connection_head [OF assms(1-3)]) (simp_all add: unref_switch)
qed

subsection \<open>Waiting for the viewer\<close>

text \<open>What is done to a viewer that does not exit.\<close>

definition no_mercy :: "int \<Rightarrow> viewer_event list" where
  "no_mercy pid = [Slept, Slept, Slept, Sent_SIGTERM pid, Slept, Slept, Slept, Sent_SIGKILL pid]"

text \<open>The number of times \<open>waitpid\<close> finds it running.\<close>

definition runs_for :: "('h, 'z) wrapper_scheme \<Rightarrow> nat" where
  "runs_for s = length (takeWhile id (child_exits s))"

text \<open>Waiting does \<open>events\<close> one by one, and stops when the viewer is gone.\<close>

definition waits :: "viewer_event list \<Rightarrow> (('h, 'z) wrapper_scheme, unit) op \<Rightarrow> bool" where
  "waits events m \<longleftrightarrow> (\<forall>s. \<exists>bs. m s = (Ok (), s\<lparr>child_exits := bs,
     viewer_log := viewer_log s @ take (runs_for s) events\<rparr>))"

lemma no_wait: "child_exits s = bs \<Longrightarrow> s\<lparr>child_exits := bs\<rparr> = s"
  by (cases s) simp

lemma waits_ret: "waits [] (ret ())"
  unfolding waits_def
proof
  fix s :: "('a, 'b) wrapper_scheme"
  show "\<exists>bs. ret () s = (Ok (), s\<lparr>child_exits := bs, viewer_log := viewer_log s @ take (runs_for s) []\<rparr>)"
    by (rule exI [of _ "child_exits s"]) (cases s, simp add: ret_apply)
qed

lemma waits_step:
  assumes "waits events m"
  shows "waits (e # events) (bind_op waitpid_running (\<lambda>b. if \<not> b then ret () else then_op (log_event e) m))"
  unfolding waits_def
proof
  fix s :: "('a, 'b) wrapper_scheme"
  show "\<exists>bs. bind_op waitpid_running (\<lambda>b. if \<not> b then ret () else then_op (log_event e) m) s =
      (Ok (), s\<lparr>child_exits := bs, viewer_log := viewer_log s @ take (runs_for s) (e # events)\<rparr>)"
  proof (cases "child_exits s")
    case Nil
    then show ?thesis
      by (intro exI [of _ "[]"]) (simp add: waitpid_running_def runs_for_def bind_op_def ret_apply no_wait)
  next
    case (Cons b bs)
    let ?s = "s\<lparr>child_exits := bs, viewer_log := viewer_log s @ [e]\<rparr>"
    obtain bs' where "m ?s = (Ok (), ?s\<lparr>child_exits := bs', viewer_log := viewer_log ?s @ take (runs_for ?s) events\<rparr>)"
      using assms unfolding waits_def by blast
    with Cons show ?thesis
      by (cases b) (auto simp: waitpid_running_def runs_for_def log_event_def op_simps then_op_Ok)
  qed
qed

lemma waits_kill: "waits [Sent_SIGKILL pid] (wait_or_kill pid 0)"
  using waits_step [OF waits_ret, of "Sent_SIGKILL pid"] unfolding then_ret_unit by simp

lemma waits_wait_or_terminate: "waits (no_mercy pid) (wait_or_terminate pid WAITPID_DELAY_TO_SIGTERM)"
  using waits_kill [of pid]
  by (auto simp: no_mercy_def numeral_3_eq_3 intro!: waits_step simp del: wait_or_kill.simps(1))

subsection \<open>A new connection\<close>

lemma new_client:
  assumes "rpc_init_client t f path os = (Ok (Some conn), g)"
  shows "status conn = RPC_STATUS_ACTIVE" "refcnt conn = 1" "\<not> freed conn" "error_callback conn = NULL"
    "\<exists>m. conn_types conn = Some m \<and> rpc_map_ok m \<and> rpc_map_abs m = Map.empty"
    "\<exists>m. methods conn = Some m \<and> rpc_map_ok m \<and> rpc_map_abs m = Map.empty"
    "socket conn = os_socket os" "0 \<le> socket conn" "os_calls conn = []"
  using assms
  by (auto simp: rpc_init_client_def rpc_connection_new_def rpc_connection_fresh_def Let_def empty_map_ok
      rpc_map_new_full_def rpc_map_new_def rpc_socket_path_def give_up_def rpc_exit_def check_null_def
      rpc_connection_destroy_def
      split: option.splits if_splits connect_outcome.splits prod.splits)

text \<open>The methods of the wrapper.\<close>

definition wrapper_methods :: "int \<Rightarrow> code_ptr option" where
  "wrapper_methods = map_of (map (\<lambda>d. (m_id d, m_callback d)) (npclass_vtable @ wrapper_vtable))"

lemma switch_to_conn: "types_tbl (Some (switch_to c conn s)) = types_tbl (Some conn)"
  "methods_tbl (Some (switch_to c conn s)) = methods_tbl (Some conn)"
  "alloc_ok (switch_to c conn s) = alloc_ok conn"
  by (simp_all add: types_tbl_def methods_tbl_def alloc_ok_def)

lemma add_vtable:
  assumes "methods_reg R c" "list_all (\<lambda>d. m_callback d \<noteq> NULL) vt"
    "agrees (map (\<lambda>d. (m_id d, m_callback d)) (rev vt)) (methods_tbl c)"
  shows "\<exists>c'. rpc_connection_add_method_descriptors vt c = (Ok (), c') \<and> methods_reg R c' \<and>
    methods_tbl c' = methods_tbl c ++ map_of (map (\<lambda>d. (m_id d, m_callback d)) vt)"
proof -
  obtain s where s: "c = Some s" using assms(1) by (auto elim: methods_regE)
  obtain c' where "run_all (map rpc_connection_add_method_descriptor (rev vt)) c = (Ok (), c')" "methods_reg R c'"
    "methods_tbl c' = methods_tbl c ++ map_of (map (\<lambda>d. (m_id d, m_callback d)) vt)"
    using methods.add_all [OF assms(1), of "rev vt"] assms(2,3) by auto
  moreover obtain s' where "c' = Some s'" using calculation(2) by (auto elim: methods_regE)
  ultimately show ?thesis
    using s by (simp add: rpc_connection_add_method_descriptors_def check_null_def)
qed

lemma vtables_agree:
  "list_all (\<lambda>d. m_callback d \<noteq> NULL) wrapper_vtable" "list_all (\<lambda>d. m_callback d \<noteq> NULL) npclass_vtable"
  "agrees (map (\<lambda>d. (m_id d, m_callback d)) (rev wrapper_vtable)) Map.empty"
  "agrees (map (\<lambda>d. (m_id d, m_callback d)) (rev npclass_vtable))
     (map_of (map (\<lambda>d. (m_id d, m_callback d)) wrapper_vtable))"
  by (simp_all add: wrapper_vtable_def npclass_vtable_def agrees_def method_ptr_def)

lemma switch_to_regs:
  assumes "types_reg (switch_to c (conn\<lparr>conn_types := None\<rparr>) s) c'"
  obtains m where "c' = Some (switch_to c (conn\<lparr>conn_types := Some m\<rparr>) s)" "rpc_map_ok m"
    "types_tbl c' = rpc_map_abs m" "alloc_ok conn"
proof -
  obtain s' m where s': "c' = Some s'" "conn_types s' = Some m" "rpc_map_ok m" "alloc_ok s'"
    "s'\<lparr>conn_types := None\<rparr> = switch_to c (conn\<lparr>conn_types := None\<rparr>) s"
    using assms by (rule types_regE)
  have "s' = (s'\<lparr>conn_types := None\<rparr>)\<lparr>conn_types := Some m\<rparr>" using s'(2) by simp
  also have "\<dots> = switch_to c (conn\<lparr>conn_types := Some m\<rparr>) s" unfolding s'(5) by simp
  finally have "s' = switch_to c (conn\<lparr>conn_types := Some m\<rparr>) s" .
  with s' show thesis by (intro that [of m]) (simp_all add: types_tbl_def alloc_ok_def)
qed

lemma switch_to_methods_reg:
  assumes "methods_reg (switch_to c (conn\<lparr>methods := None\<rparr>) s) c'"
  obtains m where "c' = Some (switch_to c (conn\<lparr>methods := Some m\<rparr>) s)" "rpc_map_ok m"
    "methods_tbl c' = rpc_map_abs m" "alloc_ok conn"
proof -
  obtain s' m where s': "c' = Some s'" "methods s' = Some m" "rpc_map_ok m" "alloc_ok s'"
    "s'\<lparr>methods := None\<rparr> = switch_to c (conn\<lparr>methods := None\<rparr>) s"
    using assms by (rule methods_regE)
  have "s' = (s'\<lparr>methods := None\<rparr>)\<lparr>methods := Some m\<rparr>" using s'(2) by simp
  also have "\<dots> = switch_to c (conn\<lparr>methods := Some m\<rparr>) s" unfolding s'(5) by simp
  finally have "s' = switch_to c (conn\<lparr>methods := Some m\<rparr>) s" .
  with s' show thesis by (intro that [of m]) (simp_all add: methods_tbl_def alloc_ok_def)
qed

text \<open>An unused connection gets all types and all methods.\<close>

definition unused :: "rpc_connection \<Rightarrow> bool" where
  "unused conn \<longleftrightarrow> alloc_ok conn \<and>
     (\<exists>m. conn_types conn = Some m \<and> rpc_map_ok m \<and> rpc_map_abs m = Map.empty) \<and>
     (\<exists>m. methods conn = Some m \<and> rpc_map_ok m \<and> rpc_map_abs m = Map.empty)"

definition furnished :: "rpc_connection \<Rightarrow> bool" where
  "furnished conn \<longleftrightarrow>
     (\<exists>m. conn_types conn = Some m \<and> rpc_map_ok m \<and> rpc_map_abs m = np_types) \<and>
     (\<exists>m. methods conn = Some m \<and> rpc_map_ok m \<and> rpc_map_abs m = wrapper_methods)"

lemma register_all_run:
  assumes "unused conn"
  obtains T M where "register_all (switch_to c conn s) =
      (Ok True, switch_to c (conn\<lparr>conn_types := Some T, methods := Some M\<rparr>) s)"
    "furnished (conn\<lparr>conn_types := Some T, methods := Some M\<rparr>)"
proof -
  from assms have reg: "types_reg (switch_to c (conn\<lparr>conn_types := None\<rparr>) s) (Some (switch_to c conn s))"
    "types_tbl (Some (switch_to c conn s)) = Map.empty" "alloc_ok conn"
    by (auto simp: unused_def types_reg_def types_tbl_def alloc_ok_def)
  obtain c1 where "rpc_add_np_marshalers (Some (switch_to c conn s)) = (Ok (), c1)" "types_tbl c1 = np_types"
      "types_reg (switch_to c (conn\<lparr>conn_types := None\<rparr>) s) c1"
    using add_np_marshalers_run [OF reg(1,2)] by blast
  then obtain T where T: "rpc_add_np_marshalers (Some (switch_to c conn s)) =
      (Ok (), Some (switch_to c (conn\<lparr>conn_types := Some T\<rparr>) s))" "rpc_map_ok T" "rpc_map_abs T = np_types"
    by (auto elim!: switch_to_regs)
  let ?c = "conn\<lparr>conn_types := Some T\<rparr>"
  have m: "methods_reg (switch_to c (?c\<lparr>methods := None\<rparr>) s) (Some (switch_to c ?c s))"
    "methods_tbl (Some (switch_to c ?c s)) = Map.empty"
    using assms by (auto simp: unused_def methods_reg_def methods_tbl_def alloc_ok_def)
  obtain c2 where c2: "rpc_connection_add_method_descriptors wrapper_vtable (Some (switch_to c ?c s)) = (Ok (), c2)"
    "methods_reg (switch_to c (?c\<lparr>methods := None\<rparr>) s) c2"
    "methods_tbl c2 = map_of (map (\<lambda>d. (m_id d, m_callback d)) wrapper_vtable)"
    using add_vtable [OF m(1) vtables_agree(1)] vtables_agree(3) m(2) by auto
  obtain M2 where M2: "c2 = Some (switch_to c (?c\<lparr>methods := Some M2\<rparr>) s)"
    using c2(2) by (rule switch_to_methods_reg)
  obtain c3 where c3: "npclass_add_method_descriptors c2 = (Ok (), c3)"
    "methods_reg (switch_to c (?c\<lparr>methods := None\<rparr>) s) c3" "methods_tbl c3 = wrapper_methods"
    using add_vtable [OF c2(2) vtables_agree(2)] vtables_agree(4) c2(3)
    by (auto simp: npclass_add_method_descriptors_def wrapper_methods_def)
  obtain M where M: "c3 = Some (switch_to c (?c\<lparr>methods := Some M\<rparr>) s)" "rpc_map_ok M" "methods_tbl c3 = rpc_map_abs M"
    using c3(2) by (rule switch_to_methods_reg)
  show thesis
  proof (rule that [where T = T and M = M])
    show "register_all (switch_to c conn s) = (Ok True, switch_to c (conn\<lparr>conn_types := Some T, methods := Some M\<rparr>) s)"
      using T(1) c2(1) c3(1) M2 M(1)
      by (simp add: register_all_def attempt_def op_simps on_live_def bind_op_def then_op_def)
    show "furnished (conn\<lparr>conn_types := Some T, methods := Some M\<rparr>)"
      using T(2,3) M(2,3) c3(3) by (simp add: furnished_def)
  qed
qed

subsection \<open>The states between the calls\<close>

text \<open>
  No connection is in focus, and the master connection, if there is one, is alive. When the plugin is
  initialized, the master connection has all types and methods, the error callback is set and the
  event loop listens. Before that the event loop does not know of a connection, and there is none at first.
\<close>

definition quiet :: "('h, 'z) wrapper_scheme \<Rightarrow> bool" where
  "quiet s \<longleftrightarrow> g_rpc_source s = None \<and> g_rpc_sync_source s = None \<and> \<not> xt_rpc_source_id s \<and> \<not> xt_rpc_sync_id s"

definition ready :: "('h, 'z) wrapper_scheme \<Rightarrow> bool" where
  "ready s \<longleftrightarrow> (\<exists>conn. master s \<noteq> 0 \<and> parked s (master s) = Some conn \<and> furnished conn \<and>
     error_callback conn = plugin_kill_ptr) \<and> (g_rpc_source s \<noteq> None \<or> xt_rpc_source_id s \<and> xt_rpc_sync_id s)"

definition life_ok :: "('h, 'z) wrapper_scheme \<Rightarrow> bool" where
  "life_ok s \<longleftrightarrow> focus s = 0 \<and> parked s 0 = None \<and> 0 < next_connection s \<and>
     (\<forall>c. next_connection s \<le> c \<longrightarrow> parked s c = None) \<and>
     (master s \<noteq> 0 \<longrightarrow> (\<exists>conn. parked s (master s) = Some conn \<and> \<not> freed conn)) \<and>
     (\<forall>src. g_rpc_source s = Some src \<or> g_rpc_sync_source s = Some src \<longrightarrow> source_refs src = 2) \<and>
     initialized (g_plugin s) \<in> {- 1, 0, 1, 2} \<and>
     (initialized (g_plugin s) \<noteq> 2 \<or> is_wrapper (g_plugin s) \<longrightarrow> quiet s) \<and>
     (initialized (g_plugin s) = 0 \<longrightarrow> master s = 0) \<and>
     (initialized (g_plugin s) = 2 \<and> \<not> is_wrapper (g_plugin s) \<longrightarrow> ready s)"

lemma stop_sources_run:
  assumes "life_ok s"
  shows "stop_sources s = (Ok (), s\<lparr>xt_rpc_source_id := False, xt_rpc_sync_id := False, g_rpc_source := None,
    g_rpc_sync_source := None\<rparr>)"
  using assms
  by (auto simp: stop_sources_def life_ok_def g_source_destroy_def gets_def then_op_def bind_op_def op_simps
      split: option.splits)

text \<open>Stopping drops the reference of the master connection and does away with the viewer.\<close>

definition stopped :: "('h, 'z) wrapper_scheme \<Rightarrow> ('h, 'z) wrapper_scheme \<Rightarrow> bool" where
  "stopped s s' \<longleftrightarrow> (\<exists>P bs. s' = s\<lparr>g_plugin := (g_plugin s)\<lparr>viewer_pid := - 1, initialized := 0\<rparr>,
       xt_rpc_source_id := False, xt_rpc_sync_id := False, g_rpc_source := None, g_rpc_sync_source := None,
       master := 0, parked := P, child_exits := bs,
       viewer_log := viewer_log s @
         (if viewer_pid (g_plugin s) = - 1 then [] else take (runs_for s) (no_mercy (viewer_pid (g_plugin s))))\<rparr> \<and>
     (\<forall>c. c \<noteq> master s \<or> c = 0 \<longrightarrow> P c = parked s c) \<and>
     (master s \<noteq> 0 \<longrightarrow> (\<exists>conn conn'. parked s (master s) = Some conn \<and> P (master s) = Some conn' \<and>
        refcnt conn' = refcnt conn - 1 \<and> (freed conn' \<longleftrightarrow> refcnt conn = 1))))"

lemma kill_viewer_run:
  fixes s :: "('h, 'z) wrapper_scheme"
  obtains bs where "bind_op (gets (\<lambda>s. viewer_pid (g_plugin s))) (\<lambda>pid.
        if pid = - 1 then ret ()
        else then_op (wait_or_terminate pid WAITPID_DELAY_TO_SIGTERM)
               (set_plugin (\<lambda>g. g\<lparr>viewer_pid := - 1\<rparr>))) s =
     (Ok (), s\<lparr>g_plugin := (g_plugin s)\<lparr>viewer_pid := - 1\<rparr>, child_exits := bs, viewer_log := viewer_log s @
         (if viewer_pid (g_plugin s) = - 1 then [] else take (runs_for s) (no_mercy (viewer_pid (g_plugin s))))\<rparr>)"
proof (cases "viewer_pid (g_plugin s) = - 1")
  case True
  then have "(g_plugin s)\<lparr>viewer_pid := - 1\<rparr> = g_plugin s" by simp
  with True show ?thesis
    by (intro that [of "child_exits s"]) (cases s, simp add: gets_def bind_op_def ret_apply)
next
  case False
  let ?pid = "viewer_pid (g_plugin s)"
  obtain bs where "wait_or_terminate ?pid WAITPID_DELAY_TO_SIGTERM s =
      (Ok (), s\<lparr>child_exits := bs, viewer_log := viewer_log s @ take (runs_for s) (no_mercy ?pid)\<rparr>)"
    using waits_wait_or_terminate [of ?pid] unfolding waits_def by blast
  with False show ?thesis
    by (intro that [of bs]) (simp add: gets_def bind_op_def set_plugin_def op_simps then_op_Ok)
qed

lemma plugin_exit_run:
  assumes "life_ok s"
  obtains s' where "plugin_exit s = (Ok (), s')" "stopped s s'"
proof -
  let ?s1 = "s\<lparr>xt_rpc_source_id := False, xt_rpc_sync_id := False, g_rpc_source := None, g_rpc_sync_source := None\<rparr>"
  obtain P where P: "bind_op (gets master) (\<lambda>c. if c = 0 then ret ()
        else then_op (unref_connection c) (modify_state (\<lambda>s. s\<lparr>master := 0\<rparr>))) ?s1 =
      (Ok (), ?s1\<lparr>parked := P, master := 0\<rparr>)" "\<forall>c. c \<noteq> master s \<or> c = 0 \<longrightarrow> P c = parked s c"
    "master s \<noteq> 0 \<longrightarrow> (\<exists>conn conn'. parked s (master s) = Some conn \<and> P (master s) = Some conn' \<and>
        refcnt conn' = refcnt conn - 1 \<and> (freed conn' \<longleftrightarrow> refcnt conn = 1))"
  proof (cases "master s = 0")
    case True
    then show ?thesis
      by (intro that [of "parked s"]) (simp_all add: gets_def bind_op_def ret_apply)
  next
    case False
    with assms obtain conn where conn: "parked s (master s) = Some conn" "\<not> freed conn"
      by (auto simp: life_ok_def)
    obtain conn' where "unref_connection (master s) ?s1 = (Ok (), ?s1\<lparr>parked := (parked ?s1)(master s \<mapsto> conn')\<rparr>)"
      "freed conn' \<longleftrightarrow> refcnt conn = 1" "refcnt conn' = refcnt conn - 1"
      using unref_parked_any [of ?s1 "master s" conn] assms False conn by (auto simp: life_ok_def)
    with False conn(1) show ?thesis
      by (intro that [of "(parked s)(master s \<mapsto> conn')"]) (simp_all add: gets_def bind_op_def then_op_Ok op_simps)
  qed
  let ?s2 = "?s1\<lparr>parked := P, master := 0\<rparr>"
  obtain bs where bs: "bind_op (gets (\<lambda>s. viewer_pid (g_plugin s))) (\<lambda>pid.
        if pid = - 1 then ret ()
        else then_op (wait_or_terminate pid WAITPID_DELAY_TO_SIGTERM)
               (set_plugin (\<lambda>g. g\<lparr>viewer_pid := - 1\<rparr>))) ?s2 =
     (Ok (), ?s2\<lparr>g_plugin := (g_plugin ?s2)\<lparr>viewer_pid := - 1\<rparr>, child_exits := bs, viewer_log := viewer_log ?s2 @
         (if viewer_pid (g_plugin ?s2) = - 1 then [] else take (runs_for ?s2) (no_mercy (viewer_pid (g_plugin ?s2))))\<rparr>)"
    by (rule kill_viewer_run)
  show thesis
  proof (rule that)
    show "plugin_exit s = (Ok (), s\<lparr>g_plugin := (g_plugin s)\<lparr>viewer_pid := - 1, initialized := 0\<rparr>,
       xt_rpc_source_id := False, xt_rpc_sync_id := False, g_rpc_source := None, g_rpc_sync_source := None,
       master := 0, parked := P, child_exits := bs,
       viewer_log := viewer_log s @
         (if viewer_pid (g_plugin s) = - 1 then [] else take (runs_for s) (no_mercy (viewer_pid (g_plugin s))))\<rparr>)"
      using stop_sources_run [OF assms] P(1) bs
      by (simp add: plugin_exit_def then_op_Ok set_plugin_def modify_state_apply ret_apply runs_for_def)
  qed (use P(2,3) in \<open>unfold stopped_def, blast\<close>)
qed

lemma master_old:
  assumes "life_ok s" "master s \<noteq> 0"
  shows "\<not> next_connection s \<le> master s"
  using assms by (auto simp: life_ok_def)

lemma stopped_life_ok:
  assumes "life_ok s" "stopped s s'"
  shows "life_ok s'"
proof -
  have s': "\<forall>c. c \<noteq> master s \<or> c = 0 \<longrightarrow> parked s' c = parked s c" "focus s' = focus s" "master s' = 0"
    "next_connection s' = next_connection s" "g_rpc_source s' = None" "g_rpc_sync_source s' = None"
    "initialized (g_plugin s') = 0" "quiet s'"
    using assms(2) by (clarsimp simp: stopped_def quiet_def)+
  have ok: "focus s = 0" "parked s 0 = None" "0 < next_connection s" "\<And>c. next_connection s \<le> c \<Longrightarrow> parked s c = None"
    "master s \<noteq> 0 \<Longrightarrow> parked s (master s) \<noteq> None"
    using assms(1) by (auto simp: life_ok_def)
  have "parked s' c = None" if "next_connection s \<le> c" for c
    using s'(1) ok(4) [OF that] ok(5) by (cases "c = master s"; cases "c = 0") auto
  moreover have "parked s' 0 = None" using s'(1) ok(2) by simp
  ultimately show ?thesis using s'(2-) ok(1,3) by (simp add: life_ok_def)
qed

subsection \<open>Starting\<close>

text \<open>
  The path of the socket fits into its array, whose size nothing checks, at the \<open>n\<close>-th start. For such paths
  the system calls for a new connection do not crash, and memory does not run out afterwards.
\<close>

definition short_path :: "('h, 'z) wrapper_scheme wrapper_env \<Rightarrow> byte list \<Rightarrow> int \<Rightarrow> bool" where
  "short_path W f n \<longleftrightarrow> (\<forall>s. init_count s = n \<longrightarrow> length (connection_path_of W f s) \<le> 100)"

definition fair_os :: "('h, 'z) wrapper_scheme wrapper_env \<Rightarrow> bool" where
  "fair_os W \<longleftrightarrow> (\<forall>s f. length (connection_path_of W f s) \<le> 100 \<longrightarrow>
     (case rpc_init_client (w_init_timeout W) (w_connect W s) (Some (connection_path_of W f s)) (w_os W s) of
        (Ok (Some conn), _) \<Rightarrow> alloc_ok conn
      | (Ok None, _) \<Rightarrow> True
      | _ \<Rightarrow> False))"

definition glib_toolkit :: "int \<Rightarrow> bool" where
  "glib_toolkit t \<longleftrightarrow> t = NPNVGtk12 \<or> t = NPNVGtk2 \<or> t = 0xFEEDABEE"

text \<open>Nothing stands in the way of a new viewer.\<close>

definition cooperative :: "('h, 'z) wrapper_scheme wrapper_env \<Rightarrow> bool" where
  "cooperative W \<longleftrightarrow> (\<forall>s f. length (connection_path_of W f s) \<le> 100 \<longrightarrow> (\<exists>conn. alloc_ok conn \<and>
       rpc_init_client (w_init_timeout W) (w_connect W s) (Some (connection_path_of W f s)) (w_os W s) = (Ok (Some conn), None))) \<and>
     (\<forall>s. w_popen W s \<noteq> None) \<and>
     (\<forall>s. glib_toolkit (w_toolkit W s) \<or> w_xt_context W s)"

lemma cooperative_connects:
  assumes "cooperative W" "length (connection_path_of W f s) \<le> 100"
  obtains conn where "alloc_ok conn"
    "rpc_init_client (w_init_timeout W) (w_connect W s) (Some (connection_path_of W f s)) (w_os W s) = (Ok (Some conn), None)"
  using assms unfolding cooperative_def by blast

lemma cooperative_fair: "cooperative W \<Longrightarrow> fair_os W"
  unfolding fair_os_def
proof (intro allI impI)
  fix s and f :: "byte list"
  assume "cooperative W" "length (connection_path_of W f s) \<le> 100"
  then obtain conn where "alloc_ok conn" "rpc_init_client (w_init_timeout W) (w_connect W s)
      (Some (connection_path_of W f s)) (w_os W s) = (Ok (Some conn), None)"
    by (rule cooperative_connects)
  then show "case rpc_init_client (w_init_timeout W) (w_connect W s) (Some (connection_path_of W f s)) (w_os W s) of
       (Ok (Some conn), _) \<Rightarrow> alloc_ok conn | (Ok None, _) \<Rightarrow> True | _ \<Rightarrow> False"
    by simp
qed

text \<open>What starting the viewer leaves alone.\<close>

definition kept :: "('h, 'z) wrapper_scheme \<Rightarrow> ('h, 'z) wrapper_scheme \<Rightarrow> bool" where
  "kept s s' \<longleftrightarrow> is_wrapper (g_plugin s') = is_wrapper (g_plugin s) \<and> info (g_plugin s') = info (g_plugin s) \<and>
     plugin_file_name s' = plugin_file_name s \<and> mozilla_funcs s' = mozilla_funcs s \<and> ids s' = ids s \<and>
     init_count s' = init_count s \<and>
     npapi_version s' = npapi_version s"

lemma attach_source_run:
  assumes "focus s \<noteq> c" "parked s (focus s) = None" "parked s c = Some conn"
  shows "attach_source c s = (Ok \<lparr>source_connection = c, source_refs = 2\<rparr>,
    s\<lparr>parked := (parked s)(c \<mapsto> conn\<lparr>refcnt := refcnt conn + 1\<rparr>)\<rparr>)"
  using on_connection_head [OF assms, of "modify_state (\<lambda>s. case rpc_connection_ref (Some s) of Some s' \<Rightarrow> s' | None \<Rightarrow> s)"]
  by (simp add: attach_source_def bind_op_Ok op_simps rpc_connection_ref_def)

lemma attach_listeners_run:
  assumes "focus s \<noteq> c" "parked s (focus s) = None" "parked s c = Some conn"
  shows "attach_listeners W c s =
    (if glib_toolkit (w_toolkit W s)
     then (Ok True, s\<lparr>parked := (parked s)(c \<mapsto> conn\<lparr>refcnt := refcnt conn + 2\<rparr>),
       g_rpc_source := Some \<lparr>source_connection = c, source_refs = 2\<rparr>,
       g_rpc_sync_source := Some \<lparr>source_connection = c, source_refs = 2\<rparr>\<rparr>)
     else if w_xt_context W s then (Ok True, s\<lparr>xt_rpc_source_id := True, xt_rpc_sync_id := True\<rparr>)
     else (Ok (g_rpc_source s \<noteq> None \<or> (xt_rpc_source_id s \<and> xt_rpc_sync_id s)), s))"
proof -
  let ?src = "\<lparr>source_connection = c, source_refs = 2\<rparr>"
  let ?s1 = "s\<lparr>parked := (parked s)(c \<mapsto> conn\<lparr>refcnt := refcnt conn + 1\<rparr>)\<rparr>"
  have "attach_source c (?s1\<lparr>g_rpc_source := Some ?src\<rparr>) = (Ok ?src, ?s1\<lparr>g_rpc_source := Some ?src,
      parked := (parked s)(c \<mapsto> conn\<lparr>refcnt := refcnt conn + 2\<rparr>)\<rparr>)"
    using assms by (subst attach_source_run) (auto simp: add.commute)
  with attach_source_run [OF assms] show ?thesis
    by (simp add: attach_listeners_def glib_toolkit_def gets_apply bind_op_Ok then_op_Ok op_simps)
qed

definition started :: "('h, 'z) wrapper_scheme \<Rightarrow> ('h, 'z) wrapper_scheme \<Rightarrow> bool" where
  "started s s' \<longleftrightarrow> initialized (g_plugin s') = 2 \<and> master s' = next_connection s \<and>
     viewer_log s' = viewer_log s @ [Forked (viewer_pid (g_plugin s'))] \<and>
     (\<forall>c. c \<noteq> master s' \<longrightarrow> parked s' c = parked s c) \<and>
     (\<exists>conn. parked s' (master s') = Some conn \<and> status conn = RPC_STATUS_ACTIVE \<and> \<not> freed conn \<and>
        furnished conn \<and> error_callback conn = plugin_kill_ptr \<and>
        refcnt conn = (if g_rpc_source s' = None then 1 else 3))"

lemma connect_viewer_run:
  assumes "fair_os W" "short_path W f (init_count s)"
  obtains (no) s' pid where "connect_viewer W f s = (Ok False, s')"
      "s' = s\<lparr>g_plugin := (g_plugin s)\<lparr>viewer_pid := pid\<rparr>, viewer_log := viewer_log s @ [Forked pid], master := 0\<rparr>" "\<not> cooperative W"
  | (yes) s' pid conn where "connect_viewer W f s = (Ok True, s')"
      "s' = s\<lparr>g_plugin := (g_plugin s)\<lparr>viewer_pid := pid\<rparr>, viewer_log := viewer_log s @ [Forked pid],
         master := next_connection s, next_connection := next_connection s + 1,
         parked := (parked s)(next_connection s \<mapsto> conn)\<rparr>"
      "status conn = RPC_STATUS_ACTIVE" "refcnt conn = 1" "\<not> freed conn" "error_callback conn = NULL" "unused conn"
proof -
  let ?s = "s\<lparr>g_plugin := (g_plugin s)\<lparr>viewer_pid := w_fork W s\<rparr>, viewer_log := viewer_log s @ [Forked (w_fork W s)]\<rparr>"
  let ?r = "rpc_init_client (w_init_timeout W) (w_connect W ?s) (Some (connection_path_of W f ?s)) (w_os W ?s)"
  note defs = connect_viewer_def gets_apply bind_op_Ok then_op_Ok set_plugin_def log_event_def modify_state_apply
  have path: "length (connection_path_of W f ?s) \<le> 100" using assms(2) by (simp add: short_path_def)
  have "case ?r of (Ok (Some conn), _) \<Rightarrow> alloc_ok conn | (Ok None, _) \<Rightarrow> True | _ \<Rightarrow> False"
    by (rule mp [OF spec [OF spec [OF assms(1) [unfolded fair_os_def]]] path])
  then consider g where "?r = (Ok None, g)" | conn g where "?r = (Ok (Some conn), g)" "alloc_ok conn"
    by (auto split: prod.splits res.splits option.splits)
  then show thesis
  proof cases
    case 1
    moreover have "\<not> cooperative W"
      using 1 by (auto elim: cooperative_connects [OF _ path])
    ultimately show ?thesis by (intro no [where pid = "w_fork W s"]) (simp_all add: defs)
  next
    case 2
    from new_client [OF 2(1)] 2(2) have "unused conn" by (simp add: unused_def)
    with new_client [OF 2(1)] 2(1) show ?thesis by (intro yes [where pid = "w_fork W s" and conn = conn]) (simp_all add: defs)
  qed
qed

lemma register_on_run:
  assumes "focus s \<noteq> c" "parked s (focus s) = None" "parked s c = Some conn" "unused conn"
  obtains T M where "on_connection c register_all s = (Ok True, s\<lparr>parked := (parked s)(c \<mapsto>
      conn\<lparr>conn_types := Some T, methods := Some M\<rparr>)\<rparr>)" "furnished (conn\<lparr>conn_types := Some T, methods := Some M\<rparr>)"
proof -
  obtain T M where TM: "register_all (switch_to c conn s) =
      (Ok True, switch_to c (conn\<lparr>conn_types := Some T, methods := Some M\<rparr>) s)"
    "furnished (conn\<lparr>conn_types := Some T, methods := Some M\<rparr>)"
    using assms(4) by (rule register_all_run)
  show thesis
  proof (rule that [where T = T and M = M])
    show "on_connection c register_all s = (Ok True, s\<lparr>parked := (parked s)(c \<mapsto>
        conn\<lparr>conn_types := Some T, methods := Some M\<rparr>)\<rparr>)"
      using assms(1-3) TM(1) by (rule on_connection_head)
  qed (rule TM(2))
qed

lemma set_error_callback_run:
  assumes "focus s \<noteq> c" "parked s (focus s) = None" "parked s c = Some conn" "error_callback conn = NULL"
  shows "on_connection c (modify_state (\<lambda>s. case rpc_connection_set_error_callback plugin_kill_ptr NULL (Some s) of
      Some s' \<Rightarrow> s' | None \<Rightarrow> s)) s = (Ok (), s\<lparr>parked := (parked s)(c \<mapsto>
      conn\<lparr>error_callback := plugin_kill_ptr, error_callback_data := NULL\<rparr>)\<rparr>)"
  by (rule on_connection_head [OF assms(1-3)])
    (use assms(4) in \<open>simp add: modify_state_apply rpc_connection_set_error_callback_def\<close>)

lemma listeners_run:
  assumes "focus s \<noteq> c" "parked s (focus s) = None" "parked s c = Some conn" "quiet s"
  obtains a b x where "attach_listeners W c s = (Ok (a \<noteq> None \<or> x), s\<lparr>
      parked := (parked s)(c \<mapsto> conn\<lparr>refcnt := refcnt conn + (if a = None then 0 else 2)\<rparr>),
      g_rpc_source := a, g_rpc_sync_source := b, xt_rpc_source_id := x, xt_rpc_sync_id := x\<rparr>)"
    "\<forall>src. a = Some src \<or> b = Some src \<longrightarrow> source_refs src = 2" "a = None \<longrightarrow> b = None"
    "glib_toolkit (w_toolkit W s) \<longrightarrow> a \<noteq> None" "w_xt_context W s \<longrightarrow> a \<noteq> None \<or> x"
proof -
  have same: "s\<lparr>parked := (parked s)(c \<mapsto> conn), g_rpc_source := None, g_rpc_sync_source := None,
      xt_rpc_source_id := False, xt_rpc_sync_id := False\<rparr> = s"
    using assms(3,4) by (cases s) (auto simp: quiet_def fun_eq_iff)
  then have same': "s\<lparr>xt_rpc_source_id := x, xt_rpc_sync_id := x\<rparr> = s\<lparr>parked := (parked s)(c \<mapsto> conn),
      g_rpc_source := None, g_rpc_sync_source := None, xt_rpc_source_id := x, xt_rpc_sync_id := x\<rparr>" for x
    using assms(3,4) by (cases s) (auto simp: quiet_def fun_eq_iff)
  have conn: "conn\<lparr>refcnt := refcnt conn + 0\<rparr> = conn" by simp
  let ?src = "\<lparr>source_connection = c, source_refs = 2\<rparr>"
  consider "glib_toolkit (w_toolkit W s)" | "\<not> glib_toolkit (w_toolkit W s)" "w_xt_context W s"
    | "\<not> glib_toolkit (w_toolkit W s)" "\<not> w_xt_context W s" by blast
  then show thesis
  proof cases
    case 1
    with assms(4) show ?thesis
      by (intro that [of "Some ?src" False "Some ?src"])
        (simp_all add: attach_listeners_run [OF assms(1-3)] quiet_def)
  next
    case 2
    then show ?thesis
      by (intro that [of None True None]) (simp_all add: attach_listeners_run [OF assms(1-3)] same' conn)
  next
    case 3
    with assms(4) same show ?thesis
      by (intro that [of None False None]) (simp_all add: attach_listeners_run [OF assms(1-3)] conn quiet_def)
  qed
qed

lemma listen_to_run:
  assumes "life_ok s" "initialized (g_plugin s) \<noteq> 2" "master s \<noteq> 0" "\<not> is_wrapper (g_plugin s)"
    and "parked s (master s) = Some conn" "furnished conn" "error_callback conn = NULL" "refcnt conn = 1"
      "status conn = RPC_STATUS_ACTIVE"
  obtains (no) s' where "listen_to W (master s) s = (Ok (), s')" "life_ok s'" "initialized (g_plugin s') = initialized (g_plugin s)" "kept s s'"
      "\<not> cooperative W"
  | (yes) s' P a b x conn' where "listen_to W (master s) s = (Ok (), s')" "life_ok s'"
      "s' = s\<lparr>g_plugin := (g_plugin s)\<lparr>initialized := 2\<rparr>, parked := P,
         g_rpc_source := a, g_rpc_sync_source := b, xt_rpc_source_id := x, xt_rpc_sync_id := x\<rparr>"
      "P = (parked s)(master s \<mapsto> conn')" "status conn' = RPC_STATUS_ACTIVE" "\<not> freed conn'" "furnished conn'"
      "error_callback conn' = plugin_kill_ptr" "refcnt conn' = (if a = None then 1 else 3)" "glib_toolkit (w_toolkit W s) \<longrightarrow> a \<noteq> None"
proof -
  have s: "focus s \<noteq> master s" "parked s (focus s) = None" "quiet s" "\<not> freed conn"
    using assms(1-3,5) by (auto simp: life_ok_def)
  obtain a b x where att: "attach_listeners W (master s) s = (Ok (a \<noteq> None \<or> x), s\<lparr>
      parked := (parked s)(master s \<mapsto> conn\<lparr>refcnt := refcnt conn + (if a = None then 0 else 2)\<rparr>),
      g_rpc_source := a, g_rpc_sync_source := b, xt_rpc_source_id := x, xt_rpc_sync_id := x\<rparr>)"
    and src: "\<forall>src. a = Some src \<or> b = Some src \<longrightarrow> source_refs src = 2" "a = None \<longrightarrow> b = None"
      "glib_toolkit (w_toolkit W s) \<longrightarrow> a \<noteq> None" "w_xt_context W s \<longrightarrow> a \<noteq> None \<or> x"
    using s(1,2) assms(5) s(3) by (rule listeners_run [where W = W])
  let ?c3 = "conn\<lparr>refcnt := refcnt conn + (if a = None then 0 else 2)\<rparr>"
  let ?s3 = "s\<lparr>parked := (parked s)(master s \<mapsto> ?c3),
      g_rpc_source := a, g_rpc_sync_source := b, xt_rpc_source_id := x, xt_rpc_sync_id := x\<rparr>"
  show thesis
  proof (cases "a \<noteq> None \<or> x")
    case True
    let ?c4 = "?c3\<lparr>error_callback := plugin_kill_ptr, error_callback_data := NULL\<rparr>"
    let ?s4 = "?s3\<lparr>parked := (parked ?s3)(master s \<mapsto> ?c4), g_plugin := (g_plugin ?s3)\<lparr>initialized := 2\<rparr>\<rparr>"
    have "focus ?s3 \<noteq> master s" "parked ?s3 (focus ?s3) = None" "parked ?s3 (master s) = Some ?c3"
      "error_callback ?c3 = NULL"
      using s assms(7) by auto
    from set_error_callback_run [OF this] True have "listen_to W (master s) s = (Ok (), ?s4)"
      by (simp add: listen_to_def bind_op_def [where m = "attach_listeners W (master s)"] att then_op_Ok set_plugin_def
          modify_state_apply)
    moreover have f: "furnished ?c4" using assms(6) by (simp add: furnished_def)
    have "ready ?s4" using True f assms(3) by (auto simp: ready_def)
    then have "life_ok ?s4"
      using assms(1,3,4) s(4) src(1) master_old [OF assms(1,3)] by (simp add: life_ok_def)
    ultimately show ?thesis
      by (rule yes [where conn' = ?c4 and a = a and b = b and x = x]) (use assms(8,9) s(4) f src(3) in simp_all)
  next
    case False
    then have "listen_to W (master s) s = (Ok (), ?s3)"
      by (simp add: listen_to_def bind_op_def [where m = "attach_listeners W (master s)"] att ret_apply)
    moreover have "life_ok ?s3"
      using assms(1-4) False s(4) src master_old [OF assms(1,3)] by (simp add: life_ok_def quiet_def) blast
    moreover have "\<not> cooperative W" using False src(3,4) by (auto simp: cooperative_def)
    ultimately show ?thesis by (intro no [of ?s3]) (simp_all add: kept_def)
  qed
qed

lemma on_new_connection:
  assumes "life_ok s"
  shows "focus s \<noteq> next_connection s" "parked s (focus s) = None" "parked s (next_connection s) = None"
  using assms by (auto simp: life_ok_def)

definition viewer_outcome ::
  "('h, 'z) wrapper_scheme wrapper_env \<Rightarrow> ('h, 'z) wrapper_scheme \<Rightarrow> ('h, 'z) wrapper_scheme \<Rightarrow> bool"
where
  "viewer_outcome W s s' \<longleftrightarrow> life_ok s' \<and> kept s s' \<and>
     (initialized (g_plugin s') = initialized (g_plugin s) \<or> started s s') \<and>
     (cooperative W \<and> nf_members (mozilla_funcs s) NPN_GetValue_slot \<noteq> 0 \<longrightarrow> started s s') \<and>
     (started s s' \<and> (\<forall>s. glib_toolkit (w_toolkit W s)) \<longrightarrow> g_rpc_source s' \<noteq> None)"

lemma start_viewer_run:
  assumes "life_ok s" "initialized (g_plugin s) = - 1 \<or> initialized (g_plugin s) = 1" "fair_os W"
    "\<not> is_wrapper (g_plugin s)" "short_path W f (init_count s)"
  obtains s' where "start_viewer W f s = (Ok (), s')" "viewer_outcome W s s'"
proof -
  note new = on_new_connection [OF assms(1)]
  from assms(3,5) show thesis
  proof (cases rule: connect_viewer_run)
    case (no s1 pid)
    have "life_ok s1" "initialized (g_plugin s1) = initialized (g_plugin s)"
      using assms(1,2) unfolding no(2) by (auto simp: life_ok_def quiet_def)
    with no(3) have "viewer_outcome W s s1"
      using assms(2) by (auto simp: viewer_outcome_def started_def kept_def no(2))
    then show ?thesis
      by (intro that [of s1]) (simp_all add: start_viewer_def bind_op_bool(2) [where m = "connect_viewer W f", OF no(1)] ret_apply)
  next
    case (yes s1 pid conn)
    let ?n = "next_connection s"
    have at: "focus s1 \<noteq> ?n" "parked s1 (focus s1) = None" "parked s1 ?n = Some conn" "master s1 = ?n"
      using new by (simp_all add: yes(2))
    obtain T M where reg: "on_connection ?n register_all s1 = (Ok True, s1\<lparr>parked := (parked s1)(?n \<mapsto>
      conn\<lparr>conn_types := Some T, methods := Some M\<rparr>)\<rparr>)" "furnished (conn\<lparr>conn_types := Some T, methods := Some M\<rparr>)"
      using at(1-3) yes(7) by (rule register_on_run)
    let ?c1 = "conn\<lparr>conn_types := Some T, methods := Some M\<rparr>"
    let ?s2 = "s1\<lparr>parked := (parked s1)(?n \<mapsto> ?c1)\<rparr>"
    have ok2: "life_ok ?s2" "initialized (g_plugin ?s2) = initialized (g_plugin s)" "initialized (g_plugin ?s2) \<noteq> 2"
      using assms(1,2) yes(5) unfolding yes(2) by (auto simp: life_ok_def quiet_def)
    have s2: "master ?s2 \<noteq> 0" "\<not> is_wrapper (g_plugin ?s2)" "parked ?s2 (master ?s2) = Some ?c1"
        "error_callback ?c1 = NULL" "refcnt ?c1 = 1" "status ?c1 = RPC_STATUS_ACTIVE"
      using assms(1,4) at(4) yes(3,4,6) by (simp_all add: yes(2) life_ok_def)
    have kept2: "kept s ?s2" by (simp add: kept_def yes(2))
    have run: "start_viewer W f s =
        (if nf_members (mozilla_funcs s) NPN_GetValue_slot = 0 then ret () else listen_to W ?n) ?s2"
      using reg(1) at(4) arg_cong [OF yes(2), where f = mozilla_funcs]
      by (simp add: start_viewer_def bind_op_bool(1) [where m = "connect_viewer W f", OF yes(1)] bind_op_bool op_simps)
    show ?thesis
    proof (cases "nf_members (mozilla_funcs s) NPN_GetValue_slot = 0")
      case True
      have "viewer_outcome W s ?s2"
        using ok2 True by (simp add: viewer_outcome_def started_def kept_def) (simp add: yes(2))
      with run True show ?thesis by (intro that [of ?s2]) (simp_all add: ret_apply)
    next
      case False
      note s1 = yes(2)
      from ok2(1,3) s2(1-3) reg(2) s2(4-6) show ?thesis
      proof (cases rule: listen_to_run [where W = W])
        case (no s')
        then have "viewer_outcome W s s'"
          using ok2(2,3) kept2 by (simp add: viewer_outcome_def started_def kept_def)
        with no(1) run False at(4) show ?thesis by (intro that [of s']) simp_all
      next
        case (yes s' P a b x conn')
        have "started s s'"
          unfolding started_def
          using yes(4-9) by (intro conjI exI [of _ conn']) (simp_all add: yes(3) s1)
        then have "viewer_outcome W s s'"
          using yes(2,10) kept2 by (simp add: viewer_outcome_def yes(3) kept_def)
        with yes(1) run False at(4) show ?thesis by (intro that [of s']) simp_all
      qed
    qed
  qed
qed

text \<open>The states \<open>plugin_init\<close> goes through before the viewer is started.\<close>

lemma life_ok_quiet:
  assumes "life_ok s" "initialized (g_plugin s) \<noteq> 2 \<or> is_wrapper (g_plugin s)"
    and "focus s' = focus s" "parked s' = parked s" "next_connection s' = next_connection s" "master s' = master s"
      "g_rpc_source s' = g_rpc_source s" "g_rpc_sync_source s' = g_rpc_sync_source s"
      "xt_rpc_source_id s' = xt_rpc_source_id s" "xt_rpc_sync_id s' = xt_rpc_sync_id s"
    and "initialized (g_plugin s') = - 1 \<or> initialized (g_plugin s') = 1 \<or>
      initialized (g_plugin s') = 2 \<and> is_wrapper (g_plugin s')"
  shows "life_ok s'"
  using assms by (simp add: life_ok_def quiet_def) auto

end
