(* ===== verification/Npw_Recovery.thy ===== *)
theory Npw_Recovery
  imports Npw_Life
begin

text \<open>
  The recovery model: from every state the wrapper can get into, what its entry points do.
\<close>

subsection \<open>Initializing\<close>

definition has_info :: "('h, 'z) wrapper_scheme \<Rightarrow> bool" where
  "has_info s \<longleftrightarrow> pl_name (info (g_plugin s)) \<noteq> None \<or> pl_description (info (g_plugin s)) \<noteq> None \<or>
     pl_formats (info (g_plugin s)) \<noteq> None"

lemma cache_info_run:
  "cache_info W s =
     (if has_info s then (Ok True, s)
      else case w_popen W s of
        None \<Rightarrow> (Ok False, s)
      | Some xs \<Rightarrow> (Ok True, s\<lparr>g_plugin := (g_plugin s)\<lparr>info := read_info (w_malloc W) xs (info (g_plugin s)),
           initialized := 1\<rparr>\<rparr>))"
  by (auto simp: cache_info_def has_info_def gets_apply bind_op_Ok then_op_Ok op_simps set_plugin_def split: option.splits)

text \<open>The name of the plugin's file, found out at the first call.\<close>

definition the_file :: "('h, 'z) wrapper_scheme wrapper_env \<Rightarrow> ('h, 'z) wrapper_scheme \<Rightarrow> c_string" where
  "the_file W s = (case plugin_file_name s of None \<Rightarrow> file_name_of (w_plugin_path W) | Some f \<Rightarrow> Some f)"

text \<open>The state when the description is about to be read.\<close>

definition entered :: "('h, 'z) wrapper_scheme wrapper_env \<Rightarrow> ('h, 'z) wrapper_scheme \<Rightarrow> ('h, 'z) wrapper_scheme" where
  "entered W s = s\<lparr>g_plugin := (g_plugin s)\<lparr>initialized := - 1\<rparr>, plugin_file_name := the_file W s\<rparr>"

definition counted :: "('h, 'z) wrapper_scheme \<Rightarrow> ('h, 'z) wrapper_scheme" where
  "counted s = s\<lparr>init_count := init_count s + 1\<rparr>"

lemma plugin_init_early:
  "initialized (g_plugin s) < 0 \<Longrightarrow> plugin_init W b s = (Ok (), s)"
  "\<not> initialized (g_plugin s) < 0 \<Longrightarrow> w_plugin_path W = w_default_path W \<Longrightarrow>
     plugin_init W b s = (Ok (), s\<lparr>g_plugin := (g_plugin s)\<lparr>is_wrapper := True, initialized := 1 + of_bool b\<rparr>\<rparr>)"
  "\<not> initialized (g_plugin s) < 0 \<Longrightarrow> w_plugin_path W \<noteq> w_default_path W \<Longrightarrow> w_direct_exec W \<Longrightarrow>
     plugin_init W b s = (Ok (), s\<lparr>g_plugin := (g_plugin s)\<lparr>initialized := 1\<rparr>\<rparr>)"
  by (simp_all add: plugin_init_def gets_apply bind_op_Ok then_op_Ok op_simps set_plugin_def)

text \<open>The call for another plugin than the default one, which is not run in this process.\<close>

definition own_plugin :: "('h, 'z) wrapper_scheme wrapper_env \<Rightarrow> bool" where
  "own_plugin W \<longleftrightarrow> w_plugin_path W \<noteq> w_default_path W \<and> \<not> w_direct_exec W"

lemma file_name_run:
  "then_op (modify_state (\<lambda>s. if plugin_file_name s = None then s\<lparr>plugin_file_name := file_name_of (w_plugin_path W)\<rparr> else s))
     n (s\<lparr>g_plugin := (g_plugin s)\<lparr>initialized := - 1\<rparr>\<rparr>) = n (entered W s)"
  by (cases s) (auto simp: then_op_def bind_op_def modify_state_apply entered_def the_file_def split: option.splits)

lemma gets_bind: "bind_op (gets f) g s = g (f s) s"
  by (simp add: bind_op_def gets_apply)

lemma set_plugin_then: "then_op (set_plugin f) n s = n (s\<lparr>g_plugin := f (g_plugin s)\<rparr>)"
  by (simp add: set_plugin_def then_op_def bind_op_def modify_state_apply)

lemma modify_then: "then_op (modify_state f) n s = n (f s)"
  by (simp add: then_op_def bind_op_def modify_state_apply)

lemma plugin_init_own:
  assumes "\<not> initialized (g_plugin s) < 0" "own_plugin W"
  shows "plugin_init W b s =
     (case the_file W s of
        None \<Rightarrow> (Ok (), entered W s)
      | Some f \<Rightarrow>
          (case cache_info W (counted (entered W s)) of
             (Ok go_on, s') \<Rightarrow> (if \<not> go_on \<or> \<not> b then (Ok (), s') else start_viewer W f s')
           | (Err e, s') \<Rightarrow> (Err e, s')
           | (Crash c, s') \<Rightarrow> (Crash c, s')))"
proof -
  have "plugin_init W b s = (case the_file W s of
                 None \<Rightarrow> ret ()
               | Some f \<Rightarrow>
                   then_op (modify_state (\<lambda>s. s\<lparr>init_count := init_count s + 1\<rparr>))
                   (bind_op (cache_info W) (\<lambda>go_on.
                      if go_on \<longrightarrow> \<not> b then ret () else start_viewer W f))) (entered W s)"
    using assms arg_cong [OF entered_def [of W s], of plugin_file_name]
    by (simp add: plugin_init_def own_plugin_def gets_bind set_plugin_then file_name_run)
  then show ?thesis
    by (simp add: modify_then ret_apply counted_def bind_op_def split: option.splits prod.splits res.splits)
qed

lemma entered_fields [simp]:
  "initialized (g_plugin (entered W s)) = - 1" "is_wrapper (g_plugin (entered W s)) = is_wrapper (g_plugin s)"
  "info (g_plugin (entered W s)) = info (g_plugin s)" "master (entered W s) = master s"
  "focus (entered W s) = focus s" "parked (entered W s) = parked s" "next_connection (entered W s) = next_connection s"
  "g_rpc_source (entered W s) = g_rpc_source s" "g_rpc_sync_source (entered W s) = g_rpc_sync_source s"
  "xt_rpc_source_id (entered W s) = xt_rpc_source_id s" "xt_rpc_sync_id (entered W s) = xt_rpc_sync_id s"
  "viewer_log (entered W s) = viewer_log s" "has_info (entered W s) = has_info s"
  "init_count (entered W s) = init_count s" "plugin_file_name (entered W s) = the_file W s"
  "mozilla_funcs (entered W s) = mozilla_funcs s" "viewer_pid (g_plugin (entered W s)) = viewer_pid (g_plugin s)"
  by (simp_all add: entered_def has_info_def)

lemma counted_fields [simp]:
  "g_plugin (counted s) = g_plugin s" "master (counted s) = master s" "mozilla_funcs (counted s) = mozilla_funcs s"
  "focus (counted s) = focus s" "parked (counted s) = parked s" "next_connection (counted s) = next_connection s"
  "g_rpc_source (counted s) = g_rpc_source s" "g_rpc_sync_source (counted s) = g_rpc_sync_source s"
  "xt_rpc_source_id (counted s) = xt_rpc_source_id s" "xt_rpc_sync_id (counted s) = xt_rpc_sync_id s"
  "viewer_log (counted s) = viewer_log s" "has_info (counted s) = has_info s"
  "init_count (counted s) = init_count s + 1" "plugin_file_name (counted s) = plugin_file_name s"
  by (simp_all add: counted_def has_info_def)

text \<open>What is true afterwards, in any environment and in one that is cooperative.\<close>

definition steady :: "('h, 'z) wrapper_scheme wrapper_env \<Rightarrow> ('h, 'z) wrapper_scheme \<Rightarrow> bool" where
  "steady W s \<longleftrightarrow> life_ok s \<and> (is_wrapper (g_plugin s) \<longrightarrow> w_plugin_path W = w_default_path W)"

definition startable :: "('h, 'z) wrapper_scheme \<Rightarrow> bool" where
  "startable s \<longleftrightarrow> initialized (g_plugin s) \<noteq> 2 \<or> is_wrapper (g_plugin s)"

lemma described:
  assumes "life_ok s" "startable s"
  obtains b s' where "cache_info W (counted (entered W s)) = (Ok b, s')" "life_ok s'"
    "is_wrapper (g_plugin s') = is_wrapper (g_plugin s)"
    "initialized (g_plugin s') = - 1 \<or> initialized (g_plugin s') = 1" "w_popen W (counted (entered W s)) \<noteq> None \<Longrightarrow> b"
    "has_info s \<Longrightarrow> s' = counted (entered W s) \<and> b"
    "master s' = master s" "viewer_log s' = viewer_log s" "parked s' = parked s"
    "next_connection s' = next_connection s" "mozilla_funcs s' = mozilla_funcs s"
    "init_count s' = init_count s + 1" "plugin_file_name s' = the_file W s"
proof -
  note quiet = life_ok_quiet [OF assms(1) assms(2) [unfolded startable_def]]
  let ?s = "counted (entered W s)"
  let ?s' = "\<lambda>xs. ?s\<lparr>g_plugin := (g_plugin ?s)\<lparr>info := read_info (w_malloc W) xs (info (g_plugin ?s)), initialized := 1\<rparr>\<rparr>"
  consider "has_info s" | "\<not> has_info s" "w_popen W ?s = None" | xs where "\<not> has_info s" "w_popen W ?s = Some xs"
    by auto
  then show thesis
  proof cases
    case 1
    then show ?thesis by (intro that [of True ?s]) (simp_all add: cache_info_run quiet)
  next
    case 2
    then show ?thesis by (intro that [of False ?s]) (simp_all add: cache_info_run quiet)
  next
    case 3
    then show ?thesis by (intro that [of True "?s' xs"]) (simp_all add: cache_info_run quiet)
  qed
qed

text \<open>There is room for the paths of the next \<open>n\<close> starts.\<close>

definition room :: "('h, 'z) wrapper_scheme wrapper_env \<Rightarrow> ('h, 'z) wrapper_scheme \<Rightarrow> nat \<Rightarrow> bool" where
  "room W s n \<longleftrightarrow> (\<forall>f k. the_file W s = Some f \<longrightarrow> k \<le> init_count s + int n \<longrightarrow> short_path W f k)"

definition next_start :: "('h, 'z) wrapper_scheme wrapper_env \<Rightarrow> ('h, 'z) wrapper_scheme \<Rightarrow> ('h, 'z) wrapper_scheme \<Rightarrow> bool" where
  "next_start W s s' \<longleftrightarrow> the_file W s' = the_file W s \<and> init_count s' \<le> init_count s + 1"

lemma next_start_room: "room W s (Suc n) \<Longrightarrow> next_start W s s' \<Longrightarrow> room W s' n"
  by (auto simp: room_def next_start_def)

lemma next_start_file: "plugin_file_name s' = the_file W s \<Longrightarrow> init_count s' \<le> init_count s + 1 \<Longrightarrow> next_start W s s'"
  by (auto simp: next_start_def the_file_def [of W s'] the_file_def [of W s] split: option.splits)

lemma next_start_same:
  "plugin_file_name s' = plugin_file_name s \<Longrightarrow> init_count s' = init_count s \<Longrightarrow> next_start W s s'"
  by (simp add: next_start_def the_file_def)

text \<open>Starting: nothing fails, and with the environment's help the plugin is initialized in the end.\<close>

lemma plugin_init_run:
  assumes "steady W s" "startable s" "fair_os W" "room W s 1"
  obtains s' where "plugin_init W b s = (Ok (), s')" "steady W s'" "next_start W s s'"
proof -
  note quiet = life_ok_quiet [OF _ assms(2) [unfolded startable_def]]
  have s: "life_ok s" "is_wrapper (g_plugin s) \<longrightarrow> w_plugin_path W = w_default_path W"
    using assms(1) by (simp_all add: steady_def)
  consider (neg) "initialized (g_plugin s) < 0"
    | (dflt) "\<not> initialized (g_plugin s) < 0" "w_plugin_path W = w_default_path W"
    | (direct) "\<not> initialized (g_plugin s) < 0" "w_plugin_path W \<noteq> w_default_path W" "w_direct_exec W"
    | (none) "\<not> initialized (g_plugin s) < 0" "own_plugin W" "the_file W s = None"
    | (some) f where "\<not> initialized (g_plugin s) < 0" "own_plugin W" "the_file W s = Some f"
    unfolding own_plugin_def by (metis not_None_eq)
  then show thesis
  proof cases
    case neg
    with assms(1) show ?thesis by (intro that [of s]) (simp_all add: plugin_init_early next_start_same)
  next
    case dflt
    then show ?thesis
      by (intro that [of "s\<lparr>g_plugin := (g_plugin s)\<lparr>is_wrapper := True, initialized := 1 + of_bool b\<rparr>\<rparr>"])
        (simp_all add: plugin_init_early quiet steady_def s next_start_same)
  next
    case direct
    then show ?thesis
      using s by (intro that [of "s\<lparr>g_plugin := (g_plugin s)\<lparr>initialized := 1\<rparr>\<rparr>"])
        (simp_all add: plugin_init_early quiet steady_def next_start_same)
  next
    case none
    then show ?thesis
      using s by (intro that [of "entered W s"]) (simp_all add: plugin_init_own quiet steady_def next_start_file)
  next
    case some
    then have w: "\<not> is_wrapper (g_plugin s)" using s(2) by (simp add: own_plugin_def)
    obtain go_on s1 where c: "cache_info W (counted (entered W s)) = (Ok go_on, s1)" "life_ok s1"
      "is_wrapper (g_plugin s1) = is_wrapper (g_plugin s)"
      "initialized (g_plugin s1) = - 1 \<or> initialized (g_plugin s1) = 1" "init_count s1 = init_count s + 1"
      "plugin_file_name s1 = the_file W s"
      using s(1) assms(2) by (rule described [where W = W]) blast
    have path: "short_path W f (init_count s1)"
      using assms(4) some(3) c(5) by (simp add: room_def)
    show ?thesis
    proof (cases "go_on \<and> b")
      case True
      from c(2,4) assms(3) w [folded c(3)] path obtain s' where "start_viewer W f s1 = (Ok (), s')" "viewer_outcome W s1 s'"
        by (rule start_viewer_run [where f = f])
      with True some c(1,3) w show ?thesis
        by (intro that [of s']) (simp_all add: plugin_init_own steady_def viewer_outcome_def kept_def c(5,6) next_start_file)
    next
      case False
      with some c w show ?thesis by (intro that [of s1]) (auto simp: plugin_init_own steady_def next_start_file)
    qed
  qed
qed

lemma plugin_init_starts:
  assumes "steady W s" "startable s" "cooperative W" "own_plugin W" "the_file W s = Some f"
    "\<not> initialized (g_plugin s) < 0" "nf_members (mozilla_funcs s) NPN_GetValue_slot \<noteq> 0" "room W s 1"
  obtains s' where "plugin_init W True s = (Ok (), s')" "steady W s'" "started s s'"
    "\<forall>s. glib_toolkit (w_toolkit W s) \<Longrightarrow> g_rpc_source s' \<noteq> None" "next_start W s s'"
    "mozilla_funcs s' = mozilla_funcs s"
proof -
  have s: "life_ok s" "\<not> is_wrapper (g_plugin s)" using assms(1,4) by (auto simp: steady_def own_plugin_def)
  have popen: "w_popen W (counted (entered W s)) \<noteq> None" using assms(3) by (simp add: cooperative_def)
  obtain go_on s1 where c: "cache_info W (counted (entered W s)) = (Ok go_on, s1)" "life_ok s1"
    "is_wrapper (g_plugin s1) = is_wrapper (g_plugin s)"
    "initialized (g_plugin s1) = - 1 \<or> initialized (g_plugin s1) = 1" go_on
    "viewer_log s1 = viewer_log s" "parked s1 = parked s" "next_connection s1 = next_connection s"
    "mozilla_funcs s1 = mozilla_funcs s" "init_count s1 = init_count s + 1"
    "plugin_file_name s1 = the_file W s"
    using s(1) assms(2) by (rule described [where W = W]) (use popen in blast)
  have "short_path W f (init_count s1)"
    using assms(5,8) c(10) by (simp add: room_def)
  with c(2,4) cooperative_fair [OF assms(3)] s(2) [folded c(3)]
  obtain s' where v: "start_viewer W f s1 = (Ok (), s')" "viewer_outcome W s1 s'"
    by (rule start_viewer_run [where f = f])
  show thesis
  proof (rule that [of s'])
    show "plugin_init W True s = (Ok (), s')" using assms(4-6) c(1,5) v(1) by (simp add: plugin_init_own)
    have "started s1 s'" using v(2) assms(3,7) c(9) by (simp add: viewer_outcome_def)
    then show "started s s'" unfolding started_def c(6-8) .
    show "steady W s'" using v(2) s(2) c(3) by (simp add: steady_def viewer_outcome_def kept_def)
    show "\<forall>s. glib_toolkit (w_toolkit W s) \<Longrightarrow> g_rpc_source s' \<noteq> None"
      using v(2) \<open>started s1 s'\<close> by (simp add: viewer_outcome_def)
    show "next_start W s s'" "mozilla_funcs s' = mozilla_funcs s"
      using v(2) c(9-11) by (simp_all add: viewer_outcome_def kept_def next_start_file)
  qed
qed

lemma plugin_exit_steady:
  assumes "steady W s"
  obtains s' where "plugin_exit s = (Ok (), s')" "steady W s'" "stopped s s'" "next_start W s s'"
proof -
  obtain s' where s': "plugin_exit s = (Ok (), s')" "stopped s s'"
    using assms unfolding steady_def by (blast elim: plugin_exit_run)
  then have "is_wrapper (g_plugin s') = is_wrapper (g_plugin s)" "next_start W s s'"
    by (auto simp: stopped_def next_start_same)
  moreover have "life_ok s'" using assms s'(2) unfolding steady_def by (blast intro: stopped_life_ok)
  ultimately show thesis using assms s' by (intro that) (simp_all add: steady_def)
qed

subsection \<open>Sequences of calls\<close>

text \<open>
  What can happen to the plugin: \<open>plugin_init\<close>, called when the plugin is not initialized or only its
  description is known; \<open>plugin_exit\<close>; the two questions the browser asks without initializing the plugin; and the
  library being unloaded.
\<close>

datatype life_call = Start bool | Stop | Ask_value int | Ask_MIME_description | Unload

fun run_life_call :: "('h, 'z) wrapper_scheme wrapper_env \<Rightarrow> life_call \<Rightarrow> (('h, 'z) wrapper_scheme, unit) op" where
  "run_life_call W (Start b) = bind_op (gets (\<lambda>s. initialized (g_plugin s)))
     (\<lambda>i. if i = 0 \<or> i = 1 then plugin_init W b else ret ())"
| "run_life_call W Stop = plugin_exit"
| "run_life_call W (Ask_value variable) = bind_op (wrapper_NP_GetValue W variable) (\<lambda>_. ret ())"
| "run_life_call W Ask_MIME_description = bind_op (wrapper_NP_GetMIMEDescription W) (\<lambda>_. ret ())"
| "run_life_call W Unload = plugin_exit_sentinel"

text \<open>The part the two questions have in common.\<close>

lemma asked:
  assumes "steady W s" "fair_os W" "room W s 1"
  obtains s' where "(if initialized (g_plugin s) = 0 then plugin_init W False else ret ()) s = (Ok (), s')" "steady W s'"
    "next_start W s s'"
proof (cases "initialized (g_plugin s) = 0")
  case True
  obtain s' where "plugin_init W False s = (Ok (), s')" "steady W s'" "next_start W s s'"
    using assms(1) _ assms(2,3) by (rule plugin_init_run) (simp add: startable_def True)
  with True show ?thesis by (intro that) simp_all
next
  case False
  with assms(1) show ?thesis by (intro that [of s]) (simp_all add: ret_apply next_start_same)
qed

lemma run_life_call_runs:
  assumes "steady W s" "fair_os W" "room W s 1" "\<not> w_direct_exec W"
  obtains s' where "run_life_call W c s = (Ok (), s')" "steady W s'" "next_start W s s'"
proof (cases c)
  case (Start b)
  show ?thesis
  proof (cases "initialized (g_plugin s) = 0 \<or> initialized (g_plugin s) = 1")
    case True
    then have "startable s" by (auto simp: startable_def)
    with assms(1) obtain s' where "plugin_init W b s = (Ok (), s')" "steady W s'" "next_start W s s'"
      using assms(2,3) by (rule plugin_init_run)
    with True Start show ?thesis by (intro that) (simp_all add: gets_bind)
  next
    case False
    with Start assms(1) show ?thesis by (intro that [of s]) (simp_all add: gets_bind ret_apply next_start_same)
  qed
next
  case Stop
  obtain s' where "plugin_exit s = (Ok (), s')" "steady W s'" "next_start W s s'"
    using assms(1) by (rule plugin_exit_steady)
  with Stop show ?thesis by (intro that) simp_all
next
  case (Ask_value v)
  obtain s' where s': "(if initialized (g_plugin s) = 0 then plugin_init W False else ret ()) s = (Ok (), s')" "steady W s'"
    "next_start W s s'"
    using assms(1-3) by (rule asked)
  then have "run_life_call W c s = (Ok (), s')"
    using assms(4) by (simp add: Ask_value wrapper_NP_GetValue_def gets_apply then_op_Ok bind_op_def ret_apply)
  with s' show ?thesis by (intro that)
next
  case Ask_MIME_description
  obtain s' where s': "(if initialized (g_plugin s) = 0 then plugin_init W False else ret ()) s = (Ok (), s')" "steady W s'"
    "next_start W s s'"
    using assms(1-3) by (rule asked)
  then have "run_life_call W c s = (Ok (), s')"
    using assms(4) by (simp add: Ask_MIME_description wrapper_NP_GetMIMEDescription_def gets_apply then_op_Ok bind_op_def ret_apply)
  with s' show ?thesis by (intro that)
next
  case Unload
  obtain s' where s': "plugin_exit s = (Ok (), s')" "steady W s'" "next_start W s s'"
    using assms(1) by (rule plugin_exit_steady)
  let ?s' = "s'\<lparr>g_plugin := (g_plugin s')\<lparr>info := no_info\<rparr>\<rparr>"
  have "steady W ?s'" using s'(2) by (simp add: steady_def life_ok_def quiet_def ready_def)
  with s' Unload show ?thesis
    by (intro that [of ?s'])
      (simp_all add: plugin_exit_sentinel_def then_op_Ok set_plugin_def modify_state_apply next_start_def the_file_def)
qed

subsection \<open>Properties\<close>

text \<open>A wrapper before the first call, an operating system without disturbances and a browser that uses GLib.\<close>

definition fresh_wrapper :: "(cptr \<times> cptr) list wrapper" where
  "fresh_wrapper = np_process.extend empty_process
     \<lparr>g_plugin = \<lparr>initialized = 0, viewer_pid = - 1, is_wrapper = False, info = no_info\<rparr>, plugin_killed = False,
      last_restart = 0, npapi_version = 0, plugin_file_name = None, init_count = 0, master = 0, focus = 0,
      next_connection = 1, parked = Map.empty, g_rpc_source = None, g_rpc_sync_source = None, xt_rpc_source_id = False,
      xt_rpc_sync_id = False, child_exits = [], viewer_log = [],
      mozilla_funcs = \<lparr>nf_size = 0, nf_version = 0, nf_members = (\<lambda>k. 4096)\<rparr>\<rparr>"

definition calm_world :: "(cptr \<times> cptr) list wrapper wrapper_env" where
  "calm_world = \<lparr>w_plugin_path = [47, 108, 47, 112], w_default_path = [47], w_connection_path = [47], w_direct_exec = False,
     w_malloc = (\<lambda>_. True), w_popen = (\<lambda>_. Some []), w_getpid = 7, w_random = (\<lambda>_. 3), w_fork = (\<lambda>_. 8), w_init_timeout = 5,
     w_connect = (\<lambda>_ _. None), w_os = (\<lambda>_. sample_os), w_time = (\<lambda>_. 0), w_toolkit = (\<lambda>_. NPNVGtk2),
     w_xt_context = (\<lambda>_. False), w_is_konqueror = (\<lambda>_. False), w_name = [], w_description = [],
     n_getvalue = (\<lambda>_. ret (0, None)), n_getmimedescription = ret None, n_initialize = ret (0, 0), n_shutdown = ret 0\<rparr>"

lemma fresh_wrapper_steady:
  "steady W fresh_wrapper" "has_info fresh_wrapper = False" "initialized (g_plugin fresh_wrapper) = 0"
  "startable fresh_wrapper" "init_count fresh_wrapper = 0" "plugin_file_name fresh_wrapper = None"
  by (simp_all add: fresh_wrapper_def steady_def startable_def life_ok_def quiet_def has_info_def no_info_def np_process.defs
      empty_process_def)

lemma calm_world_cooperative: "cooperative calm_world"
proof -
  have "\<exists>conn. alloc_ok conn \<and> rpc_init_client 5 (\<lambda>_. None) (Some path) sample_os = (Ok (Some conn), None)"
    if "length path \<le> 100" for path
    using that
    by (simp add: rpc_init_client_def connect_attempts_value Let_def sample_os_def rpc_connection_new_def connect_first
        rpc_map_new_full_def rpc_map_new_def rpc_socket_path_def SUN_PATH_SIZE_def rpc_connection_fresh_def tmpdir_def
        alloc_ok_def sample_io_def)
  then show ?thesis
    by (simp add: cooperative_def calm_world_def glib_toolkit_def)
qed

lemma calm_world_file: "the_file calm_world fresh_wrapper = Some [112]" "own_plugin calm_world"
  "\<not> w_direct_exec calm_world"
  by (simp_all add: the_file_def fresh_wrapper_steady calm_world_def file_name_of_def own_plugin_def)

lemma calm_room:
  assumes "n < 10 ^ 9"
  shows "room calm_world fresh_wrapper n"
  unfolding room_def
proof (intro allI impI)
  fix f and k :: int
  assume "the_file calm_world fresh_wrapper = Some f" "k \<le> init_count fresh_wrapper + int n"
  then have f: "f = [112]" and k: "nat k < 10 ^ 10" using assms by (simp_all add: calm_world_file fresh_wrapper_steady)
  have "length (dec (nat k)) \<le> 10" using dec_length [OF k] by simp
  then show "short_path calm_world f k"
    by (simp add: f short_path_def connection_path_of_def calm_world_def dec.simps [of 7] dec.simps [of 3])
qed

text \<open>
  C22. Whatever calls start, stop, question and unload the plugin, in whatever order and whatever the
  operating system and the browser answer, none crashes and none fails, and afterwards the state is again steady:
  when the plugin is initialized, there is a live master connection with all types and methods, whose error callback
  is set and to which the event loop listens; when it is not, the event loop does not know of any connection.
\<close>

theorem life_calls_safe:
  assumes "steady W s" "fair_os W" "\<not> w_direct_exec W" "room W s (length cs)"
  shows "\<exists>s'. run_all (map (run_life_call W) cs) s = (Ok (), s') \<and> steady W s'"
  using assms(1,4)
proof (induction cs arbitrary: s)
  case Nil
  then show ?case by (simp add: ret_apply)
next
  case (Cons c cs)
  have "room W s 1" using Cons.prems(2) by (auto simp: room_def)
  with Cons.prems(1) assms(2) obtain s' where s': "run_life_call W c s = (Ok (), s')" "steady W s'" "next_start W s s'"
    using assms(3) by (rule run_life_call_runs)
  with Cons.IH [OF s'(2)] Cons.prems(2) show ?case by (simp add: then_op_Ok next_start_room)
qed

theorem life_calls_safe_witness:
  "\<exists>s'. run_all (map (run_life_call calm_world) [Ask_MIME_description, Start True, Stop, Start True, Unload]) fresh_wrapper =
     (Ok (), s') \<and> steady calm_world s'"
  using life_calls_safe [OF fresh_wrapper_steady(1) cooperative_fair [OF calm_world_cooperative] calm_world_file(3) calm_room,
    of "[Ask_MIME_description, Start True, Stop, Start True, Unload]"]
  by (simp del: run_life_call.simps)

text \<open>
  C23. \<open>plugin_exit\<close> always returns, with the viewer gone from the wrapper's state and the event loop rid of the connection.
  A viewer that exits by itself is only waited for, one second at a time; one that does not is sent
  \<open>SIGTERM\<close> after three seconds and \<open>SIGKILL\<close> after three more, and nothing after that.
\<close>

theorem plugin_exit_stops_viewer:
  assumes "steady W s" "viewer_pid (g_plugin s) = pid"
  shows "\<exists>s'. plugin_exit s = (Ok (), s') \<and> initialized (g_plugin s') = 0 \<and> viewer_pid (g_plugin s') = - 1 \<and>
    master s' = 0 \<and> quiet s' \<and>
    viewer_log s' = viewer_log s @ (if pid = - 1 then [] else take (runs_for s)
      [Slept, Slept, Slept, Sent_SIGTERM pid, Slept, Slept, Slept, Sent_SIGKILL pid])"
proof -
  obtain s' where "plugin_exit s = (Ok (), s')" "stopped s s'"
    using assms(1) by (rule plugin_exit_steady)
  with assms(2) show ?thesis by (auto simp: stopped_def quiet_def no_mercy_def)
qed

theorem plugin_exit_stops_viewer_witness:
  "\<exists>s'. plugin_exit (fresh_wrapper\<lparr>g_plugin := (g_plugin fresh_wrapper)\<lparr>viewer_pid := 8\<rparr>, child_exits := [True, True, False]\<rparr>) =
     (Ok (), s') \<and> viewer_log s' = [Slept, Slept]"
proof -
  let ?s = "fresh_wrapper\<lparr>g_plugin := (g_plugin fresh_wrapper)\<lparr>viewer_pid := 8\<rparr>, child_exits := [True, True, False]\<rparr>"
  have "steady calm_world ?s" using fresh_wrapper_steady(1) by (simp add: steady_def life_ok_def quiet_def ready_def)
  moreover have "viewer_log ?s = []" by (simp add: fresh_wrapper_def np_process.defs empty_process_def)
  ultimately show ?thesis
    using plugin_exit_stops_viewer [of calm_world ?s 8] by (auto simp: runs_for_def)
qed

text \<open>
  C24. When the viewer can be started and the browser has \<open>NPN_GetValue\<close>, \<open>plugin_init\<close> leaves the plugin initialized on a new
  connection, one process having been forked: the connection is active, knows exactly the NPAPI types and exactly the methods of
  \<open>vtable\<close> and of \<^verbatim>\<open>npruntime.c\<close>, has \<open>plugin_kill_cb\<close> for errors, and earlier connections are as they were.
\<close>

theorem plugin_init_connects:
  assumes "steady W s" "startable s" "0 \<le> initialized (g_plugin s)" "own_plugin W" "the_file W s = Some f" "room W s 1"
    "cooperative W" "nf_members (mozilla_funcs s) NPN_GetValue_slot \<noteq> 0"
  shows "\<exists>s' conn. plugin_init W True s = (Ok (), s') \<and> initialized (g_plugin s') = 2 \<and> master s' = next_connection s \<and>
    viewer_log s' = viewer_log s @ [Forked (viewer_pid (g_plugin s'))] \<and>
    (\<forall>c. c \<noteq> master s' \<longrightarrow> parked s' c = parked s c) \<and> parked s' (master s') = Some conn \<and>
    status conn = RPC_STATUS_ACTIVE \<and> \<not> freed conn \<and> types_tbl (Some conn) = np_types \<and>
    methods_tbl (Some conn) = map_of (map (\<lambda>d. (m_id d, m_callback d)) (npclass_vtable @ wrapper_vtable)) \<and>
    error_callback conn = plugin_kill_ptr"
proof -
  have "\<not> initialized (g_plugin s) < 0" using assms(3) by simp
  with assms(1,2,7,4,5) obtain s' where s': "plugin_init W True s = (Ok (), s')" "started s s'"
    using assms(8,6) by (rule plugin_init_starts)
  then obtain conn where "parked s' (master s') = Some conn" "status conn = RPC_STATUS_ACTIVE" "\<not> freed conn"
    "furnished conn" "error_callback conn = plugin_kill_ptr"
    unfolding started_def by blast
  moreover from this(4) have "types_tbl (Some conn) = np_types" "methods_tbl (Some conn) = wrapper_methods"
    by (auto simp: furnished_def types_tbl_def methods_tbl_def)
  ultimately show ?thesis using s' unfolding started_def wrapper_methods_def by blast
qed

theorem plugin_init_connects_witness:
  "\<exists>s' conn. plugin_init calm_world True fresh_wrapper = (Ok (), s') \<and> parked s' (master s') = Some conn \<and>
     methods_tbl (Some conn) RPC_METHOD_NPN_GET_STRING_IDENTIFIER = Some (method_ptr RPC_METHOD_NPN_GET_STRING_IDENTIFIER)"
proof -
  have "nf_members (mozilla_funcs fresh_wrapper) NPN_GetValue_slot \<noteq> 0"
    by (simp add: fresh_wrapper_def np_process.defs empty_process_def)
  then obtain s' conn where "plugin_init calm_world True fresh_wrapper = (Ok (), s')" "parked s' (master s') = Some conn"
    "methods_tbl (Some conn) = map_of (map (\<lambda>d. (m_id d, m_callback d)) (npclass_vtable @ wrapper_vtable))"
    using plugin_init_connects [OF fresh_wrapper_steady(1,4) _ calm_world_file(2,1) calm_room calm_world_cooperative]
    by (auto simp: fresh_wrapper_steady(3))
  then show ?thesis by (auto simp: npclass_vtable_def wrapper_vtable_def)
qed

text \<open>A connection nobody will drop any more.\<close>

definition leaked :: "('h, 'z) wrapper_scheme \<Rightarrow> nat \<Rightarrow> bool" where
  "leaked s c \<longleftrightarrow> master s = 0 \<and> quiet s \<and> (\<exists>conn. parked s c = Some conn \<and> \<not> freed conn \<and> refcnt conn = 2)"

lemma start_stop_leaks:
  assumes "steady W s" "initialized (g_plugin s) = 0" "cooperative W" "own_plugin W" "the_file W s = Some f"
    "room W s 1" "nf_members (mozilla_funcs s) NPN_GetValue_slot \<noteq> 0" "\<forall>s. glib_toolkit (w_toolkit W s)"
  obtains s1 s' where "run_life_call W (Start True) s = (Ok (), s1)" "run_life_call W Stop s1 = (Ok (), s')" "steady W s'"
    "initialized (g_plugin s') = 0" "next_start W s s'" "mozilla_funcs s' = mozilla_funcs s" "leaked s' (next_connection s)"
    "parked s (next_connection s) = None" "\<And>c. leaked s c \<Longrightarrow> leaked s' c" "\<And>c. parked s' c = None \<Longrightarrow> parked s c = None"
proof -
  have new: "parked s (next_connection s) = None" "next_connection s \<noteq> 0"
    using assms(1) by (auto simp: steady_def life_ok_def)
  have "startable s" "\<not> initialized (g_plugin s) < 0" using assms(2) by (simp_all add: startable_def)
  with assms(1) obtain s1 where s1: "plugin_init W True s = (Ok (), s1)" "steady W s1" "started s s1"
    "g_rpc_source s1 \<noteq> None" "next_start W s s1" "mozilla_funcs s1 = mozilla_funcs s"
    using assms(3-7) assms(8) by (blast elim: plugin_init_starts)
  obtain s' where s': "plugin_exit s1 = (Ok (), s')" "steady W s'" "stopped s1 s'" "next_start W s1 s'"
    using s1(2) by (rule plugin_exit_steady)
  obtain conn where conn: "parked s1 (next_connection s) = Some conn" "refcnt conn = 3" "master s1 = next_connection s"
    and old: "\<forall>c. c \<noteq> next_connection s \<longrightarrow> parked s1 c = parked s c"
    using s1(3,4) by (auto simp: started_def)
  have gone: "master s' = 0" "quiet s'" "initialized (g_plugin s') = 0" "mozilla_funcs s' = mozilla_funcs s1"
      "plugin_file_name s' = plugin_file_name s1" "init_count s' = init_count s1"
    using s'(3) by (auto simp: stopped_def quiet_def)
  have kept: "\<forall>c. c \<noteq> next_connection s \<longrightarrow> parked s' c = parked s c"
    and "leaked s' (next_connection s)"
    using s'(3) conn old new(2) gone(1,2) by (auto simp: stopped_def leaked_def)
  moreover have "next_start W s s'"
    using s1(5) gone(5,6) by (simp add: next_start_def the_file_def)
  moreover have "run_life_call W (Start True) s = (Ok (), s1)" "run_life_call W Stop s1 = (Ok (), s')"
    using s1(1) s'(1) assms(2) by (simp_all add: gets_bind)
  moreover have keep: "parked s' c = Some x" if "parked s c = Some x" for c x
    using kept new(1) that by (cases "c = next_connection s") auto
  then have "leaked s' c" if "leaked s c" for c
    using gone(1,2) that unfolding leaked_def by blast
  moreover have "parked s c = None" if "parked s' c = None" for c
    using keep [of c] that by (cases "parked s c") auto
  ultimately show thesis
    using s'(2) s1(6) gone new(1) by (intro that [of s1 s']) simp_all
qed

text \<open>
  C25. With a GLib event loop no connection is ever closed: each of \<open>n\<close> starts followed by \<open>plugin_exit\<close> leaves behind
  a connection of its own that still has two references, those of the sources, which
  \<open>g_source_destroy\<close> detaches but does not finalize, and nothing is left in the wrapper that could drop them.
\<close>

theorem restarts_leak_connections:
  assumes "steady W s" "initialized (g_plugin s) = 0" "cooperative W" "own_plugin W" "the_file W s = Some f"
    "room W s n" "nf_members (mozilla_funcs s) NPN_GetValue_slot \<noteq> 0" "\<forall>s. glib_toolkit (w_toolkit W s)"
  shows "\<exists>s' cs. run_all (concat (replicate n [run_life_call W (Start True), run_life_call W Stop])) s = (Ok (), s') \<and>
    distinct cs \<and> length cs = n \<and> list_all (leaked s') cs"
proof -
  have "\<exists>s' cs. run_all (concat (replicate n [run_life_call W (Start True), run_life_call W Stop])) s = (Ok (), s') \<and>
      distinct cs \<and> length cs = n \<and> list_all (leaked s') cs \<and> list_all (\<lambda>c. parked s c = None) cs \<and>
      (\<forall>c. leaked s c \<longrightarrow> leaked s' c)"
    using assms(1,2,5-7)
  proof (induction n arbitrary: s)
    case 0
    then show ?case by (simp add: ret_apply)
  next
    case (Suc n)
    have room: "room W s 1" using Suc.prems(4) by (auto simp: room_def)
    obtain s1 s2 where s: "run_life_call W (Start True) s = (Ok (), s1)" "run_life_call W Stop s1 = (Ok (), s2)" "steady W s2"
      "initialized (g_plugin s2) = 0" "next_start W s s2" "mozilla_funcs s2 = mozilla_funcs s" "leaked s2 (next_connection s)"
      "parked s (next_connection s) = None" "\<And>c. leaked s c \<Longrightarrow> leaked s2 c" "\<And>c. parked s2 c = None \<Longrightarrow> parked s c = None"
      using Suc.prems(1,2) assms(3,4) Suc.prems(3) room Suc.prems(5) assms(8) by (rule start_stop_leaks) blast
    have "the_file W s2 = Some f" using s(5) Suc.prems(3) by (simp add: next_start_def)
    with s(3,4) obtain s' cs where IH: "run_all (concat (replicate n [run_life_call W (Start True), run_life_call W Stop])) s2 = (Ok (), s')"
      "distinct cs" "length cs = n" "list_all (leaked s') cs" "list_all (\<lambda>c. parked s2 c = None) cs"
      "\<forall>c. leaked s2 c \<longrightarrow> leaked s' c"
      using Suc.IH [of s2] next_start_room [OF Suc.prems(4) s(5)] Suc.prems(5) s(6) by auto
    have "next_connection s \<notin> set cs"
      using IH(5) s(7) by (auto simp: list_all_iff leaked_def)
    with IH s show ?case
      by (intro exI [of _ s'] exI [of _ "next_connection s # cs"]) (auto simp: then_op_Ok list_all_iff simp del: run_life_call.simps)
  qed
  then show ?thesis by blast
qed

theorem restarts_leak_connections_witness:
  "\<exists>s' cs. run_all (concat (replicate 3 [run_life_call calm_world (Start True), run_life_call calm_world Stop])) fresh_wrapper =
     (Ok (), s') \<and> distinct cs \<and> length cs = 3 \<and> list_all (leaked s') cs"
proof -
  have "nf_members (mozilla_funcs fresh_wrapper) NPN_GetValue_slot \<noteq> 0"
    by (simp add: fresh_wrapper_def np_process.defs empty_process_def)
  moreover have "\<forall>s. glib_toolkit (w_toolkit calm_world s)" by (simp add: calm_world_def glib_toolkit_def)
  ultimately show ?thesis
    by (intro restarts_leak_connections [OF fresh_wrapper_steady(1,3) calm_world_cooperative calm_world_file(2,1) calm_room])
      simp_all
qed

text \<open>A second attempt without \<open>plugin_exit\<close> in between.\<close>

lemma NP_Initialize_stuck:
  assumes "drop_bit 8 (nf_version moz) = 0" "\<not> nf_size moz < 176" "initialized (g_plugin s) = - 1"
  shows "NP_Initialize W E R (Some moz) (Some pf) s = (Ok (NPERR_GENERIC_ERROR, Some pf), s)"
  using assms by (simp add: NP_Initialize_def gets_bind ret_apply)

lemma NP_Initialize_described:
  assumes "drop_bit 8 (nf_version moz) = 0" "\<not> nf_size moz < 176" "initialized (g_plugin s) = 0"
    "own_plugin W" "the_file W s = Some f" "has_info s"
  shows "NP_Initialize W E R (Some moz) (Some pf) s = (Ok (NPERR_GENERIC_ERROR, Some pf), counted (entered W s))"
proof -
  have "plugin_init W False s = (Ok (), counted (entered W s))"
    using assms(3-6) by (simp add: plugin_init_own cache_info_run)
  with assms(1-3) show ?thesis by (simp add: NP_Initialize_def gets_bind then_op_Ok ret_apply)
qed

text \<open>
  C26. Once the plugin's description is known and \<open>plugin_exit\<close> has run, as \<open>NP_Shutdown\<close> and a crash of the viewer
  make it run, \<open>NP_Initialize\<close> fails however often the browser tries: \<open>plugin_init\<close> marks the plugin as
  initialized only where it reads the description, and \<open>plugin_exit\<close> keeps the description.
\<close>

theorem NP_Initialize_after_exit_fails:
  assumes "steady W s" "own_plugin W" "the_file W s = Some f" "has_info s"
    "drop_bit 8 (nf_version moz) = 0" "\<not> nf_size moz < 176"
  shows "\<exists>s1 s2. plugin_exit s = (Ok (), s1) \<and>
    NP_Initialize W E R (Some moz) (Some pf) s1 = (Ok (NPERR_GENERIC_ERROR, Some pf), s2) \<and>
    NP_Initialize W E R (Some moz) (Some pf) s2 = (Ok (NPERR_GENERIC_ERROR, Some pf), s2)"
proof -
  obtain s1 where s1: "plugin_exit s = (Ok (), s1)" "stopped s s1"
    using assms(1) by (rule plugin_exit_steady)
  then have "initialized (g_plugin s1) = 0" "has_info s1" "the_file W s1 = Some f"
    using assms(3,4) by (auto simp: stopped_def has_info_def the_file_def)
  then have "NP_Initialize W E R (Some moz) (Some pf) s1 = (Ok (NPERR_GENERIC_ERROR, Some pf), counted (entered W s1))"
    using assms(2,5,6) by (intro NP_Initialize_described)
  moreover have "NP_Initialize W E R (Some moz) (Some pf) (counted (entered W s1)) =
      (Ok (NPERR_GENERIC_ERROR, Some pf), counted (entered W s1))"
    using assms(5,6) by (intro NP_Initialize_stuck) simp_all
  ultimately show ?thesis using s1(1) by blast
qed

theorem NP_Initialize_after_exit_fails_witness:
  "\<forall>E (R :: ((cptr \<times> cptr) list wrapper, np_value) rpc_env). \<exists>s1 s2. plugin_exit (fresh_wrapper\<lparr>g_plugin := (g_plugin fresh_wrapper)\<lparr>initialized := 1,
      info := \<lparr>pl_name = Some [70], pl_description = None, pl_formats = None\<rparr>\<rparr>\<rparr>) = (Ok (), s1) \<and>
    NP_Initialize calm_world E R (Some \<lparr>nf_size = 448, nf_version = 27, nf_members = (\<lambda>_. 4096)\<rparr>)
      (Some (full_plugin_funcs False)) s1 = (Ok (NPERR_GENERIC_ERROR, Some (full_plugin_funcs False)), s2)"
proof -
  let ?s = "fresh_wrapper\<lparr>g_plugin := (g_plugin fresh_wrapper)\<lparr>initialized := 1,
      info := \<lparr>pl_name = Some [70], pl_description = None, pl_formats = None\<rparr>\<rparr>\<rparr>"
  let ?moz = "\<lparr>nf_size = 448, nf_version = 27, nf_members = (\<lambda>_. 4096)\<rparr>"
  have "steady calm_world ?s"
    using fresh_wrapper_steady(1) [of calm_world] fresh_wrapper_steady(4)
    by (auto simp: steady_def startable_def intro: life_ok_quiet)
  moreover have "the_file calm_world ?s = Some [112]" "has_info ?s"
    using calm_world_file(1) by (simp_all add: the_file_def has_info_def)
  moreover have "drop_bit 8 (nf_version ?moz) = 0" "\<not> nf_size ?moz < 176" by simp_all
  ultimately show ?thesis
    using NP_Initialize_after_exit_fails [OF _ calm_world_file(2), of ?s "[112]" ?moz] by blast
qed

subsection \<open>The table of the plugin\<close>

lemma merge_low_all: "LENGTH('a) \<le> 8 * j \<Longrightarrow> merge_low j new (old :: 'a::len word) = new"
  by (rule bit_word_eqI) (auto simp: merge_low_def bit_simps)

lemma merge_low_none: "merge_low 0 new old = old"
  by (simp add: merge_low_def)

lemma drop_missing_version: "nf_version (drop_missing cs ks f) = nf_version f"
  by (induction cs ks f rule: drop_missing.induct) auto

lemma drop_missing_members:
  "distinct ks \<Longrightarrow> nf_members (drop_missing cs ks f) k =
     (if \<exists>i < length ks. ks ! i = k \<and> i < length cs \<and> cs ! i = 0 then 0 else nf_members f k)"
proof (induction cs ks f rule: drop_missing.induct)
  case (1 c cs k' ks f)
  have distinct_ks: "distinct ks" using 1 by simp
  note IH = 1(1) [OF distinct_ks]
  have "(\<exists>i < length (k' # ks). (k' # ks) ! i = k \<and> i < length (c # cs) \<and> (c # cs) ! i = 0) \<longleftrightarrow>
      k' = k \<and> c = 0 \<or> (\<exists>i < length ks. ks ! i = k \<and> i < length cs \<and> cs ! i = 0)"
    by (auto simp: Ex_less_Suc2)
  with IH show ?case by auto
qed auto

lemma thunks:
  "k \<in> set plugin_func_slots \<Longrightarrow> thunk k \<noteq> 0" "k \<in> set plugin_func_slots \<Longrightarrow> long64_thunk k \<noteq> 0" "distinct plugin_func_slots"
  by (auto simp: plugin_func_slots_def thunk_def long64_thunk_def)

text \<open>
  C27. The table \<open>NP_Initialize\<close> hands to the browser: of the members inside the size the browser gave, exactly those are set that
  the wrapper implements and the plugin does not lack, a plugin that answers with a short array of
  capabilities being taken to have the rest; members outside that size are untouched; and the version is the
  smaller one of the plugin's and the wrapper's.
\<close>

theorem advertised_correct:
  assumes "n = min (unat (nf_size pf)) 160" "pf' = advertised long64 v caps pf"
  shows "unat (nf_size pf') = n \<and> (4 \<le> n \<longrightarrow> unat (nf_version pf') = min (unat v) 27) \<and>
    (\<forall>k. n \<le> 8 + 8 * k \<longrightarrow> nf_members pf' k = nf_members pf k) \<and>
    (\<forall>k. 8 + 8 * k + 8 \<le> n \<longrightarrow> (nf_members pf' k \<noteq> 0 \<longleftrightarrow> (\<exists>i < length plugin_func_slots. plugin_func_slots ! i = k \<and>
       (case caps of None \<Rightarrow> True | Some cs \<Rightarrow> i < length cs \<longrightarrow> cs ! i \<noteq> 0))))"
proof -
  define full where "full = (full_plugin_funcs long64)\<lparr>nf_version := of_nat (min (unat v) 27)\<rparr>"
  define full' where "full' = (case caps of None \<Rightarrow> full | Some cs \<Rightarrow> drop_missing cs plugin_func_slots full)"
  have pf': "pf' = (copy_funcs n full' pf)\<lparr>nf_size := of_nat n\<rparr>"
    by (simp only: assms advertised_def Let_def full'_def full_def)
  have "nf_members full k \<noteq> 0 \<longleftrightarrow> (\<exists>i < length plugin_func_slots. plugin_func_slots ! i = k)" for k
    using thunks by (auto simp: full_def full_plugin_funcs_def in_set_conv_nth)
  then have members: "nf_members full' k \<noteq> 0 \<longleftrightarrow> (\<exists>i < length plugin_func_slots. plugin_func_slots ! i = k \<and>
       (case caps of None \<Rightarrow> True | Some cs \<Rightarrow> i < length cs \<longrightarrow> cs ! i \<noteq> 0))" for k
    using thunks(3) by (auto simp: full'_def drop_missing_members nth_eq_iff_index_eq split: option.splits if_splits)
  have version: "nf_version full' = of_nat (min (unat v) 27)"
    by (auto simp: full'_def full_def drop_missing_version split: option.splits)
  have "n < 2 ^ 16" using assms(1) by simp
  with members version show ?thesis
    by (auto simp: pf' copy_funcs_def merge_low_all merge_low_none unat_of_nat)
qed

theorem advertised_correct_witness:
  "nf_members (advertised False 27 (Some [1, 0, 1]) (full_plugin_funcs True)) 1 = 0 \<and>
   nf_members (advertised False 27 (Some [1, 0, 1]) (full_plugin_funcs True)) 12 \<noteq> 0"
proof -
  let ?A = "advertised False 27 (Some [1, 0, 1]) (full_plugin_funcs True)"
  have "min (unat (nf_size (full_plugin_funcs True))) 160 = 160" by (simp add: full_plugin_funcs_def)
  from advertised_correct [OF this [symmetric] refl, of False 27 "Some [1, 0, 1]"]
  have "\<forall>k. 8 + 8 * k + 8 \<le> 160 \<longrightarrow> (nf_members ?A k \<noteq> 0 \<longleftrightarrow> (\<exists>i < length plugin_func_slots. plugin_func_slots ! i = k \<and>
       (i < length [1, 0, 1 :: uint32] \<longrightarrow> [1, 0, 1 :: uint32] ! i \<noteq> 0)))"
    by simp
  then have A: "nf_members ?A k \<noteq> 0 \<longleftrightarrow> (\<exists>i < length plugin_func_slots. plugin_func_slots ! i = k \<and>
       (i < length [1, 0, 1 :: uint32] \<longrightarrow> [1, 0, 1 :: uint32] ! i \<noteq> 0))" if "8 + 8 * k + 8 \<le> 160" for k
    using that by blast
  have "i = 1" if "i < length plugin_func_slots" "plugin_func_slots ! i = 1" for i
    using that nth_eq_iff_index_eq [OF thunks(3), of i 1] by (simp add: plugin_func_slots_def)
  then have "nf_members ?A 1 = 0" using A [of 1] by fastforce
  moreover have "nf_members ?A 12 \<noteq> 0"
    using A [of 12] by (simp add: exI [of _ "11"] plugin_func_slots_def)
  ultimately show ?thesis by blast
qed

end
