(* ===== verification/Np_Browser.thy ===== *)
theory Np_Browser
  imports Np_Exchange
begin

text \<open>
  The wrapper's half of the calls a plugin makes to the browser (\<^verbatim>\<open>npw-wrapper.c\<close>, "Browser side plug-in
  API" and "NPRuntime glue"): for each \<open>NPN_...\<close> function the call of the browser (\<open>g_NPN_...\<close> of
  the source, here \<open>wrapper_NPN_...\<close>, as the viewer has functions of the same names) and the handler of
  the plugin's request (\<open>handle_NPN_...\<close>). The functions on identifiers are in \<open>Np_Identifiers\<close>.
\<close>

subsection \<open>Data\<close>

text \<open>\<open>NPError\<close> and \<open>NPReason\<close> are 16-bit signed integers, \<open>NPBool\<close> is a byte.\<close>

type_synonym NPError = uint16

abbreviation (input) NPERR_NO_ERROR :: NPError where "NPERR_NO_ERROR \<equiv> 0"
abbreviation (input) NPERR_GENERIC_ERROR :: NPError where "NPERR_GENERIC_ERROR \<equiv> 1"
abbreviation (input) NPERR_INVALID_INSTANCE_ERROR :: NPError where "NPERR_INVALID_INSTANCE_ERROR \<equiv> 2"
abbreviation (input) NPERR_INVALID_FUNCTABLE_ERROR :: NPError where "NPERR_INVALID_FUNCTABLE_ERROR \<equiv> 3"
abbreviation (input) NPERR_OUT_OF_MEMORY_ERROR :: NPError where "NPERR_OUT_OF_MEMORY_ERROR \<equiv> 5"
abbreviation (input) NPERR_INVALID_PARAM :: NPError where "NPERR_INVALID_PARAM \<equiv> 9"
abbreviation (input) NPVERS_HAS_RESPONSE_HEADERS :: uint16 where "NPVERS_HAS_RESPONSE_HEADERS \<equiv> 17"

text \<open>
  An \<open>NPStream\<close> but for its private data, which is in \<open>np_streams\<close>. Both processes keep the
  streams they know of.
\<close>

record NPStream =
  st_url :: c_string
  st_end :: uint32
  st_lastmodified :: uint32
  st_notifyData :: cptr
  st_headers :: c_string

record 'h np_side = "'h np_process" +
  stream_data :: "cptr \<Rightarrow> NPStream option"

definition put_stream ::
  "cptr \<Rightarrow> cptr option \<Rightarrow> ('h, 'z) np_process_scheme \<Rightarrow> ('h, 'z) np_process_scheme"
where
  "put_stream st x s = s\<lparr>np_streams := (np_streams s)(st := x)\<rparr>"

definition put_stream_instance ::
  "cptr \<Rightarrow> NPW_StreamInstance option \<Rightarrow> ('h, 'z) np_process_scheme \<Rightarrow> ('h, 'z) np_process_scheme"
where
  "put_stream_instance p x s = s\<lparr>stream_instances := (stream_instances s)(p := x)\<rparr>"

text \<open>
  What \<open>NPN_GetValue\<close> stores through its \<open>void *\<close> parameter: a value of the type of the variable. A
  cell read as another type than was stored is misread.
\<close>

datatype np_cell = Cell_uint32 uint32 | Cell_bool byte | Cell_string c_string | Cell_object cptr | Cell_pointer cptr

text \<open>A variable of type \<open>NPStream *\<close>: never set, the static \<open>fake_NPStream\<close>, or a pointer.\<close>

datatype stream_var = Stream_unset | Fake_NPStream | Stream_at cptr

text \<open>
  The function table of the browser, \<open>None\<close> for a member that is \<open>NULL\<close>. A function with result
  parameters returns what it stores there; \<open>b_newstream\<close> may leave its parameter unset. \<open>b_fwrite\<close> is
  the number of bytes the C library writes to the file of a print call-back, \<open>b_stream_addr\<close> the address
  \<open>malloc\<close> gives a stream instance, \<open>direct_exec\<close> is \<open>PLUGIN_DIRECT_EXEC\<close>.
\<close>

record 's mozilla_funcs = "'s browser_idents" +
  b_version :: uint16
  b_uagent :: "(cptr \<Rightarrow> ('s, c_string) op) option"
  b_status :: "(cptr \<Rightarrow> c_string \<Rightarrow> ('s, unit) op) option"
  b_getvalue :: "(cptr \<Rightarrow> uint32 \<Rightarrow> np_cell \<Rightarrow> ('s, NPError \<times> np_cell) op) option"
  b_setvalue :: "(cptr \<Rightarrow> uint32 \<Rightarrow> cptr \<Rightarrow> ('s, NPError) op) option"
  b_invalidaterect :: "(cptr \<Rightarrow> NPRect \<Rightarrow> ('s, unit) op) option"
  b_geturl :: "(cptr \<Rightarrow> c_string \<Rightarrow> c_string \<Rightarrow> ('s, NPError) op) option"
  b_geturlnotify :: "(cptr \<Rightarrow> c_string \<Rightarrow> c_string \<Rightarrow> cptr \<Rightarrow> ('s, NPError) op) option"
  b_posturl :: "(cptr \<Rightarrow> c_string \<Rightarrow> c_string \<Rightarrow> uint32 \<Rightarrow> byte list option \<Rightarrow> byte \<Rightarrow> ('s, NPError) op) option"
  b_posturlnotify ::
    "(cptr \<Rightarrow> c_string \<Rightarrow> c_string \<Rightarrow> uint32 \<Rightarrow> byte list option \<Rightarrow> byte \<Rightarrow> cptr \<Rightarrow> ('s, NPError) op) option"
  b_requestread :: "(cptr \<Rightarrow> NPByteRange list \<Rightarrow> ('s, NPError) op) option"
  b_newstream :: "(cptr \<Rightarrow> c_string \<Rightarrow> c_string \<Rightarrow> ('s, NPError \<times> cptr option) op) option"
  b_destroystream :: "(cptr \<Rightarrow> cptr \<Rightarrow> NPError \<Rightarrow> ('s, NPError) op) option"
  b_write :: "(cptr \<Rightarrow> cptr \<Rightarrow> int32 \<Rightarrow> byte list option \<Rightarrow> ('s, int32) op) option"
  b_pushpopupsenabledstate :: "(cptr \<Rightarrow> byte \<Rightarrow> ('s, unit) op) option"
  b_poppopupsenabledstate :: "(cptr \<Rightarrow> ('s, unit) op) option"
  b_invoke :: "(cptr \<Rightarrow> cptr \<Rightarrow> cptr \<Rightarrow> NPVariant list option \<Rightarrow> uint32 \<Rightarrow> ('s, bool \<times> NPVariant) op) option"
  b_invokeDefault :: "(cptr \<Rightarrow> cptr \<Rightarrow> NPVariant list option \<Rightarrow> uint32 \<Rightarrow> ('s, bool \<times> NPVariant) op) option"
  b_evaluate :: "(cptr \<Rightarrow> cptr \<Rightarrow> NPString \<Rightarrow> ('s, bool \<times> NPVariant) op) option"
  b_getproperty :: "(cptr \<Rightarrow> cptr \<Rightarrow> cptr \<Rightarrow> ('s, bool \<times> NPVariant) op) option"
  b_setproperty :: "(cptr \<Rightarrow> cptr \<Rightarrow> cptr \<Rightarrow> NPVariant \<Rightarrow> ('s, bool) op) option"
  b_removeproperty :: "(cptr \<Rightarrow> cptr \<Rightarrow> cptr \<Rightarrow> ('s, bool) op) option"
  b_hasproperty :: "(cptr \<Rightarrow> cptr \<Rightarrow> cptr \<Rightarrow> ('s, bool) op) option"
  b_hasmethod :: "(cptr \<Rightarrow> cptr \<Rightarrow> cptr \<Rightarrow> ('s, bool) op) option"
  b_enumerate :: "(cptr \<Rightarrow> cptr \<Rightarrow> ('s, bool \<times> cptr list option \<times> uint32) op) option"
  b_construct :: "(cptr \<Rightarrow> cptr \<Rightarrow> NPVariant list option \<Rightarrow> uint32 \<Rightarrow> ('s, bool \<times> NPVariant) op) option"
  b_setexception :: "(cptr \<Rightarrow> c_string \<Rightarrow> ('s, unit) op) option"
  b_getvalueforurl :: "(cptr \<Rightarrow> uint32 \<Rightarrow> c_string \<Rightarrow> ('s, NPError \<times> byte list option \<times> uint32) op) option"
  b_setvalueforurl :: "(cptr \<Rightarrow> uint32 \<Rightarrow> c_string \<Rightarrow> byte list option \<Rightarrow> uint32 \<Rightarrow> ('s, NPError) op) option"
  b_getauthenticationinfo :: "(cptr \<Rightarrow> c_string \<Rightarrow> c_string \<Rightarrow> int32 \<Rightarrow> c_string \<Rightarrow> c_string \<Rightarrow>
    ('s, NPError \<times> (byte list option \<times> uint32) \<times> (byte list option \<times> uint32)) op) option"
  b_memfree_idents :: "cptr list option \<Rightarrow> ('s, unit) op"
  b_fwrite :: "cptr \<Rightarrow> byte list \<Rightarrow> ('s, nat) op"
  b_stream_addr :: "'s \<Rightarrow> cptr"
  direct_exec :: bool

text \<open>A call of a member that is checked first, and one that is not.\<close>

definition if_supported :: "'f option \<Rightarrow> 'a \<Rightarrow> ('f \<Rightarrow> ('s, 'a) op) \<Rightarrow> ('s, 'a) op" where
  "if_supported f otherwise k = (case f of None \<Rightarrow> ret otherwise | Some g \<Rightarrow> k g)"

definition call_through :: "'f option \<Rightarrow> ('f \<Rightarrow> ('s, 'a) op) \<Rightarrow> ('s, 'a) op" where
  "call_through f k = (case f of None \<Rightarrow> crash Out_of_bounds | Some g \<Rightarrow> k g)"

subsection \<open>Arguments\<close>

abbreviation np_instance :: "cptr \<Rightarrow> np_value rpc_arg" where
  "np_instance p \<equiv> User RPC_TYPE_NPW_PLUGIN_INSTANCE (NV_instance p)"

abbreviation np_stream :: "cptr \<Rightarrow> np_value rpc_arg" where
  "np_stream p \<equiv> User RPC_TYPE_NP_STREAM (NV_stream p)"

abbreviation np_notify :: "cptr \<Rightarrow> np_value rpc_arg" where
  "np_notify p \<equiv> User RPC_TYPE_NP_NOTIFY_DATA (NV_notify p)"

abbreviation np_object_pass_ref :: "cptr \<Rightarrow> np_value rpc_arg" where
  "np_object_pass_ref p \<equiv> User RPC_TYPE_NP_OBJECT_PASS_REF (NV_object p)"

definition char_array :: "uint32 \<Rightarrow> byte list option \<Rightarrow> np_value rpc_arg" where
  "char_array n buf = Array n (case buf of None \<Rightarrow> C_null RPC_TYPE_CHAR | Some bs \<Rightarrow> C_char bs)"

fun as_chars :: "np_value rpc_arg \<Rightarrow> byte list option" where
  "as_chars (Array n (C_char bs)) = Some bs"
| "as_chars a = None"

fun as_boolean :: "np_value rpc_arg \<Rightarrow> int32" where
  "as_boolean (Boolean b) = b"
| "as_boolean a = 0"

fun as_instance :: "np_value rpc_arg \<Rightarrow> cptr" where
  "as_instance (User t (NV_instance p)) = p"
| "as_instance a = 0"

fun as_stream :: "np_value rpc_arg \<Rightarrow> cptr" where
  "as_stream (User t (NV_stream p)) = p"
| "as_stream a = 0"

fun as_notify :: "np_value rpc_arg \<Rightarrow> cptr" where
  "as_notify (User t (NV_notify p)) = p"
| "as_notify a = 0"

fun as_rect :: "np_value rpc_arg \<Rightarrow> NPRect" where
  "as_rect (User t (NV_rect r)) = r"
| "as_rect a = \<lparr>rect_top = 0, rect_left = 0, rect_bottom = 0, rect_right = 0\<rparr>"

fun as_ranges :: "np_value rpc_arg \<Rightarrow> NPByteRange list" where
  "as_ranges (User t (NV_ranges rs)) = rs"
| "as_ranges a = []"

fun as_print_data :: "np_value rpc_arg \<Rightarrow> NPPrintData" where
  "as_print_data (User t (NV_print_data p)) = p"
| "as_print_data a = \<lparr>pd_size = 0, pd_data = []\<rparr>"

fun as_np_string :: "np_value rpc_arg \<Rightarrow> NPString" where
  "as_np_string (User t (NV_string str)) = str"
| "as_np_string a = \<lparr>UTF8Characters = None, UTF8Length = 0\<rparr>"

text \<open>An \<open>NPError\<close> travels as an \<open>int32_t\<close>; an \<open>NPBool\<close> is cut off from a \<open>uint32_t\<close>.\<close>

abbreviation error_arg :: "NPError \<Rightarrow> np_value rpc_arg" where
  "error_arg e \<equiv> Int32 (scast e)"

definition as_np_bool :: "np_value rpc_arg \<Rightarrow> byte" where
  "as_np_bool a = ucast (as_boolean a)"

text \<open>
  The parts of a handler: the arguments, and the reply. \<open>on_npp\<close> goes on with \<open>PLUGIN_INSTANCE_NPP\<close> of an
  instance.
\<close>

abbreviation (input) handle ::
  "('z rpc_connection_scheme, np_value, 'y) rpc_env_scheme \<Rightarrow> rpc_param list \<Rightarrow>
     (np_value rpc_arg list \<Rightarrow> ('z rpc_connection_scheme, unit) op) \<Rightarrow> ('z rpc_connection_scheme, int) op"
where
  "handle R ps body \<equiv> return_code (bind_op (on_live (rpc_method_get_args R ps)) body)"

abbreviation (input) send_reply ::
  "('z rpc_connection_scheme, np_value, 'y) rpc_env_scheme \<Rightarrow> np_value rpc_arg list \<Rightarrow>
     ('z rpc_connection_scheme, unit) op"
where
  "send_reply R as \<equiv> on_live (rpc_method_send_reply R as)"

definition on_npp :: "np_value rpc_arg \<Rightarrow> (cptr \<Rightarrow> (('h, 'z) np_process_scheme, 'a) op) \<Rightarrow>
  (('h, 'z) np_process_scheme, 'a) op" where
  "on_npp a f = bind_op (npw_get_plugin_instance_npp (as_instance a)) f"

subsection \<open>The user agent, the status line, variables\<close>

text \<open>Four functions that do nothing: \<open>NPW_UNIMPLEMENTED\<close> prints a warning.\<close>

definition wrapper_NPN_ReloadPlugins :: "byte \<Rightarrow> ('s, unit) op" where
  "wrapper_NPN_ReloadPlugins reloadPages = ret ()"

definition wrapper_NPN_InvalidateRegion :: "cptr \<Rightarrow> cptr \<Rightarrow> ('s, unit) op" where
  "wrapper_NPN_InvalidateRegion npp invalidRegion = ret ()"

definition wrapper_NPN_ForceRedraw :: "cptr \<Rightarrow> ('s, unit) op" where
  "wrapper_NPN_ForceRedraw npp = ret ()"

definition wrapper_NPN_GetJavaEnv :: "('s, cptr) op" where
  "wrapper_NPN_GetJavaEnv = ret 0"

definition wrapper_NPN_GetJavaPeer :: "cptr \<Rightarrow> ('s, cptr) op" where
  "wrapper_NPN_GetJavaPeer npp = ret 0"

definition wrapper_NPN_UserAgent :: "('s, 'b) mozilla_funcs_scheme \<Rightarrow> cptr \<Rightarrow> ('s, c_string) op" where
  "wrapper_NPN_UserAgent B npp = if_supported (b_uagent B) None (\<lambda>f. f npp)"

definition handle_NPN_UserAgent ::
  "(('h, 'z) np_process_scheme, 'b) mozilla_funcs_scheme \<Rightarrow> (('h, 'z) np_process_scheme, np_value, 'y) rpc_env_scheme \<Rightarrow>
     (('h, 'z) np_process_scheme, int) op"
where
  "handle_NPN_UserAgent B R = handle R [] (\<lambda>as.
     bind_op (wrapper_NPN_UserAgent B 0) (\<lambda>user_agent. send_reply R [Str user_agent]))"

definition wrapper_NPN_Status :: "('s, 'b) mozilla_funcs_scheme \<Rightarrow> cptr \<Rightarrow> c_string \<Rightarrow> ('s, unit) op" where
  "wrapper_NPN_Status B npp msg = if_supported (b_status B) () (\<lambda>f. f npp msg)"

definition handle_NPN_Status ::
  "(('h, 'z) np_process_scheme, 'b) mozilla_funcs_scheme \<Rightarrow> (('h, 'z) np_process_scheme, np_value, 'y) rpc_env_scheme \<Rightarrow>
     (('h, 'z) np_process_scheme, int) op"
where
  "handle_NPN_Status B R = handle R [P_type RPC_TYPE_NPW_PLUGIN_INSTANCE, P_type RPC_TYPE_STRING] (\<lambda>as.
     case as of
       [a1, a2] \<Rightarrow> on_npp a1 (\<lambda>npp. then_op (wrapper_NPN_Status B npp (as_string a2)) (send_reply R []))
     | _ \<Rightarrow> misread)"

definition wrapper_NPN_GetValue ::
  "('s, 'b) mozilla_funcs_scheme \<Rightarrow> cptr \<Rightarrow> uint32 \<Rightarrow> np_cell \<Rightarrow> ('s, NPError \<times> np_cell) op"
where
  "wrapper_NPN_GetValue B npp variable cell =
     if_supported (b_getvalue B) (NPERR_INVALID_FUNCTABLE_ERROR, cell) (\<lambda>f. f npp variable cell)"

text \<open>
  \<open>guarded\<close> is the work-around for browsers that crash on some variables when there is no instance;
  it does not cover variables of type string. The type of the variable picks the reply, and a
  variable of no known type is an \<open>abort\<close>.
\<close>

definition handle_NPN_GetValue ::
  "(('h, 'z) np_process_scheme, 'b) mozilla_funcs_scheme \<Rightarrow> (('h, 'z) np_process_scheme, np_value, 'y) rpc_env_scheme \<Rightarrow>
     (('h, 'z) np_process_scheme, int) op"
where
  "handle_NPN_GetValue B R = handle R [P_type RPC_TYPE_NPW_PLUGIN_INSTANCE, P_type RPC_TYPE_UINT32] (\<lambda>as.
     case as of
       [a1, a2] \<Rightarrow> on_npp a1 (\<lambda>npp.
         let variable = as_uint32 a2;
             valid_instance = (npp \<noteq> 0 \<or> c_int variable \<notin>
               {NPNVWindowNPObject, NPNVPluginElementNPObject, NPNVprivateModeBool, NPNVnetscapeWindow});
             guarded = (\<lambda>cell. if valid_instance then wrapper_NPN_GetValue B npp variable cell
                               else ret (NPERR_GENERIC_ERROR, cell));
             t = rpc_type_of_NPNVariable (c_int variable)
         in
           if t = RPC_TYPE_UINT32 then bind_op (guarded (Cell_uint32 0)) (\<lambda>(r, cell).
             case cell of Cell_uint32 n \<Rightarrow> send_reply R [error_arg r, Uint32 n] | _ \<Rightarrow> misread)
           else if t = RPC_TYPE_BOOLEAN then bind_op (guarded (Cell_bool 0)) (\<lambda>(r, cell).
             case cell of Cell_bool b \<Rightarrow> send_reply R [error_arg r, Boolean (ucast b)] | _ \<Rightarrow> misread)
           else if t = RPC_TYPE_STRING then bind_op (wrapper_NPN_GetValue B npp variable (Cell_string None)) (\<lambda>(r, cell).
             case cell of
               Cell_string str \<Rightarrow>
                 and_finally (send_reply R [error_arg r, Str str]) (if str \<noteq> None then b_memfree B str else ret ())
             | _ \<Rightarrow> misread)
           else if t = RPC_TYPE_NP_OBJECT then bind_op (guarded (Cell_object 0)) (\<lambda>(r, cell).
             case cell of Cell_object npobj \<Rightarrow> send_reply R [error_arg r, np_object_pass_ref npobj] | _ \<Rightarrow> misread)
           else crash Aborted)
     | _ \<Rightarrow> misread)"

definition wrapper_NPN_SetValue ::
  "('s, 'b) mozilla_funcs_scheme \<Rightarrow> cptr \<Rightarrow> uint32 \<Rightarrow> cptr \<Rightarrow> ('s, NPError) op"
where
  "wrapper_NPN_SetValue B npp variable v =
     if_supported (b_setvalue B) NPERR_INVALID_FUNCTABLE_ERROR (\<lambda>f. f npp variable v)"

definition handle_NPN_SetValue ::
  "(('h, 'z) np_process_scheme, 'b) mozilla_funcs_scheme \<Rightarrow> (('h, 'z) np_process_scheme, np_value, 'y) rpc_env_scheme \<Rightarrow>
     (('h, 'z) np_process_scheme, int) op"
where
  "handle_NPN_SetValue B R =
     handle R [P_type RPC_TYPE_NPW_PLUGIN_INSTANCE, P_type RPC_TYPE_UINT32, P_type RPC_TYPE_BOOLEAN] (\<lambda>as.
     case as of
       [a1, a2, a3] \<Rightarrow> on_npp a1 (\<lambda>npp.
         bind_op (if npp = 0 then ret NPERR_INVALID_INSTANCE_ERROR
                  else wrapper_NPN_SetValue B npp (as_uint32 a2) (ucast (as_boolean a3)))
           (\<lambda>r. send_reply R [error_arg r]))
     | _ \<Rightarrow> misread)"

definition wrapper_NPN_InvalidateRect :: "('s, 'b) mozilla_funcs_scheme \<Rightarrow> cptr \<Rightarrow> NPRect \<Rightarrow> ('s, unit) op" where
  "wrapper_NPN_InvalidateRect B npp rect = if_supported (b_invalidaterect B) () (\<lambda>f. f npp rect)"

definition handle_NPN_InvalidateRect ::
  "(('h, 'z) np_process_scheme, 'b) mozilla_funcs_scheme \<Rightarrow> (('h, 'z) np_process_scheme, np_value, 'y) rpc_env_scheme \<Rightarrow>
     (('h, 'z) np_process_scheme, int) op"
where
  "handle_NPN_InvalidateRect B R = handle R [P_type RPC_TYPE_NPW_PLUGIN_INSTANCE, P_type RPC_TYPE_NP_RECT] (\<lambda>as.
     case as of
       [a1, a2] \<Rightarrow> on_npp a1 (\<lambda>npp. then_op (wrapper_NPN_InvalidateRect B npp (as_rect a2)) (send_reply R []))
     | _ \<Rightarrow> misread)"

subsection \<open>URLs\<close>

definition wrapper_NPN_GetURL ::
  "('s, 'b) mozilla_funcs_scheme \<Rightarrow> cptr \<Rightarrow> c_string \<Rightarrow> c_string \<Rightarrow> ('s, NPError) op"
where
  "wrapper_NPN_GetURL B npp url target =
     if_supported (b_geturl B) NPERR_INVALID_FUNCTABLE_ERROR (\<lambda>f. f npp url target)"

definition handle_NPN_GetURL ::
  "(('h, 'z) np_process_scheme, 'b) mozilla_funcs_scheme \<Rightarrow> (('h, 'z) np_process_scheme, np_value, 'y) rpc_env_scheme \<Rightarrow>
     (('h, 'z) np_process_scheme, int) op"
where
  "handle_NPN_GetURL B R =
     handle R [P_type RPC_TYPE_NPW_PLUGIN_INSTANCE, P_type RPC_TYPE_STRING, P_type RPC_TYPE_STRING] (\<lambda>as.
     case as of
       [a1, a2, a3] \<Rightarrow> on_npp a1 (\<lambda>npp.
         bind_op (wrapper_NPN_GetURL B npp (as_string a2) (as_string a3)) (\<lambda>r. send_reply R [error_arg r]))
     | _ \<Rightarrow> misread)"

definition wrapper_NPN_GetURLNotify ::
  "('s, 'b) mozilla_funcs_scheme \<Rightarrow> cptr \<Rightarrow> c_string \<Rightarrow> c_string \<Rightarrow> cptr \<Rightarrow> ('s, NPError) op"
where
  "wrapper_NPN_GetURLNotify B npp url target notifyData =
     if_supported (b_geturlnotify B) NPERR_INVALID_FUNCTABLE_ERROR (\<lambda>f. f npp url target notifyData)"

definition handle_NPN_GetURLNotify ::
  "(('h, 'z) np_process_scheme, 'b) mozilla_funcs_scheme \<Rightarrow> (('h, 'z) np_process_scheme, np_value, 'y) rpc_env_scheme \<Rightarrow>
     (('h, 'z) np_process_scheme, int) op"
where
  "handle_NPN_GetURLNotify B R =
     handle R [P_type RPC_TYPE_NPW_PLUGIN_INSTANCE, P_type RPC_TYPE_STRING, P_type RPC_TYPE_STRING,
       P_type RPC_TYPE_NP_NOTIFY_DATA] (\<lambda>as.
     case as of
       [a1, a2, a3, a4] \<Rightarrow> on_npp a1 (\<lambda>npp.
         bind_op (wrapper_NPN_GetURLNotify B npp (as_string a2) (as_string a3) (as_notify a4)) (\<lambda>r. send_reply R [error_arg r]))
     | _ \<Rightarrow> misread)"

definition wrapper_NPN_PostURL ::
  "('s, 'b) mozilla_funcs_scheme \<Rightarrow> cptr \<Rightarrow> c_string \<Rightarrow> c_string \<Rightarrow> uint32 \<Rightarrow> byte list option \<Rightarrow> byte \<Rightarrow> ('s, NPError) op"
where
  "wrapper_NPN_PostURL B npp url target len buf as_file =
     if_supported (b_posturl B) NPERR_INVALID_FUNCTABLE_ERROR (\<lambda>f. f npp url target len buf as_file)"

definition handle_NPN_PostURL ::
  "(('h, 'z) np_process_scheme, 'b) mozilla_funcs_scheme \<Rightarrow> (('h, 'z) np_process_scheme, np_value, 'y) rpc_env_scheme \<Rightarrow>
     (('h, 'z) np_process_scheme, int) op"
where
  "handle_NPN_PostURL B R =
     handle R [P_type RPC_TYPE_NPW_PLUGIN_INSTANCE, P_type RPC_TYPE_STRING, P_type RPC_TYPE_STRING,
       P_array RPC_TYPE_CHAR, P_type RPC_TYPE_BOOLEAN] (\<lambda>as.
     case as of
       [a1, a2, a3, a4, a5] \<Rightarrow> on_npp a1 (\<lambda>npp.
         bind_op (wrapper_NPN_PostURL B npp (as_string a2) (as_string a3) (as_count a4) (as_chars a4) (as_np_bool a5))
           (\<lambda>r. send_reply R [error_arg r]))
     | _ \<Rightarrow> misread)"

definition wrapper_NPN_PostURLNotify ::
  "('s, 'b) mozilla_funcs_scheme \<Rightarrow> cptr \<Rightarrow> c_string \<Rightarrow> c_string \<Rightarrow> uint32 \<Rightarrow> byte list option \<Rightarrow> byte \<Rightarrow> cptr \<Rightarrow>
     ('s, NPError) op"
where
  "wrapper_NPN_PostURLNotify B npp url target len buf as_file notifyData =
     if_supported (b_posturlnotify B) NPERR_INVALID_FUNCTABLE_ERROR (\<lambda>f. f npp url target len buf as_file notifyData)"

definition handle_NPN_PostURLNotify ::
  "(('h, 'z) np_process_scheme, 'b) mozilla_funcs_scheme \<Rightarrow> (('h, 'z) np_process_scheme, np_value, 'y) rpc_env_scheme \<Rightarrow>
     (('h, 'z) np_process_scheme, int) op"
where
  "handle_NPN_PostURLNotify B R =
     handle R [P_type RPC_TYPE_NPW_PLUGIN_INSTANCE, P_type RPC_TYPE_STRING, P_type RPC_TYPE_STRING,
       P_array RPC_TYPE_CHAR, P_type RPC_TYPE_BOOLEAN, P_type RPC_TYPE_NP_NOTIFY_DATA] (\<lambda>as.
     case as of
       [a1, a2, a3, a4, a5, a6] \<Rightarrow> on_npp a1 (\<lambda>npp.
         bind_op (wrapper_NPN_PostURLNotify B npp (as_string a2) (as_string a3) (as_count a4) (as_chars a4)
           (as_np_bool a5) (as_notify a6)) (\<lambda>r. send_reply R [error_arg r]))
     | _ \<Rightarrow> misread)"

definition wrapper_NPN_GetValueForURL ::
  "('s, 'b) mozilla_funcs_scheme \<Rightarrow> cptr \<Rightarrow> uint32 \<Rightarrow> c_string \<Rightarrow> ('s, NPError \<times> byte list option \<times> uint32) op"
where
  "wrapper_NPN_GetValueForURL B npp variable url =
     if_supported (b_getvalueforurl B) (NPERR_INVALID_FUNCTABLE_ERROR, None, 0) (\<lambda>f. f npp variable url)"

definition handle_NPN_GetValueForURL ::
  "(('h, 'z) np_process_scheme, 'b) mozilla_funcs_scheme \<Rightarrow> (('h, 'z) np_process_scheme, np_value, 'y) rpc_env_scheme \<Rightarrow>
     (('h, 'z) np_process_scheme, int) op"
where
  "handle_NPN_GetValueForURL B R =
     handle R [P_type RPC_TYPE_NPW_PLUGIN_INSTANCE, P_type RPC_TYPE_UINT32, P_type RPC_TYPE_STRING] (\<lambda>as.
     case as of
       [a1, a2, a3] \<Rightarrow> on_npp a1 (\<lambda>npp.
         bind_op (wrapper_NPN_GetValueForURL B npp (as_uint32 a2) (as_string a3)) (\<lambda>(r, val, len).
           and_finally (send_reply R [error_arg r, char_array len val]) (b_memfree B val)))
     | _ \<Rightarrow> misread)"

definition wrapper_NPN_SetValueForURL ::
  "('s, 'b) mozilla_funcs_scheme \<Rightarrow> cptr \<Rightarrow> uint32 \<Rightarrow> c_string \<Rightarrow> byte list option \<Rightarrow> uint32 \<Rightarrow> ('s, NPError) op"
where
  "wrapper_NPN_SetValueForURL B npp variable url val len =
     if_supported (b_setvalueforurl B) NPERR_INVALID_FUNCTABLE_ERROR (\<lambda>f. f npp variable url val len)"

definition handle_NPN_SetValueForURL ::
  "(('h, 'z) np_process_scheme, 'b) mozilla_funcs_scheme \<Rightarrow> (('h, 'z) np_process_scheme, np_value, 'y) rpc_env_scheme \<Rightarrow>
     (('h, 'z) np_process_scheme, int) op"
where
  "handle_NPN_SetValueForURL B R =
     handle R [P_type RPC_TYPE_NPW_PLUGIN_INSTANCE, P_type RPC_TYPE_UINT32, P_type RPC_TYPE_STRING,
       P_array RPC_TYPE_CHAR] (\<lambda>as.
     case as of
       [a1, a2, a3, a4] \<Rightarrow> on_npp a1 (\<lambda>npp.
         bind_op (wrapper_NPN_SetValueForURL B npp (as_uint32 a2) (as_string a3) (as_chars a4) (as_count a4))
           (\<lambda>r. send_reply R [error_arg r]))
     | _ \<Rightarrow> misread)"

definition wrapper_NPN_GetAuthenticationInfo ::
  "('s, 'b) mozilla_funcs_scheme \<Rightarrow> cptr \<Rightarrow> c_string \<Rightarrow> c_string \<Rightarrow> int32 \<Rightarrow> c_string \<Rightarrow> c_string \<Rightarrow>
     ('s, NPError \<times> (byte list option \<times> uint32) \<times> (byte list option \<times> uint32)) op"
where
  "wrapper_NPN_GetAuthenticationInfo B npp protocol host port auth_scheme realm =
     if_supported (b_getauthenticationinfo B) (NPERR_INVALID_FUNCTABLE_ERROR, (None, 0), (None, 0))
       (\<lambda>f. f npp protocol host port auth_scheme realm)"

definition handle_NPN_GetAuthenticationInfo ::
  "(('h, 'z) np_process_scheme, 'b) mozilla_funcs_scheme \<Rightarrow> (('h, 'z) np_process_scheme, np_value, 'y) rpc_env_scheme \<Rightarrow>
     (('h, 'z) np_process_scheme, int) op"
where
  "handle_NPN_GetAuthenticationInfo B R =
     handle R [P_type RPC_TYPE_NPW_PLUGIN_INSTANCE, P_type RPC_TYPE_STRING, P_type RPC_TYPE_STRING,
       P_type RPC_TYPE_INT32, P_type RPC_TYPE_STRING, P_type RPC_TYPE_STRING] (\<lambda>as.
     case as of
       [a1, a2, a3, a4, a5, a6] \<Rightarrow> on_npp a1 (\<lambda>npp.
         bind_op (wrapper_NPN_GetAuthenticationInfo B npp (as_string a2) (as_string a3) (as_int32 a4) (as_string a5)
           (as_string a6)) (\<lambda>(r, (username, ulen), (password, plen)).
           and_finally (send_reply R [error_arg r, char_array ulen username, char_array plen password])
             (then_op (if username \<noteq> None then b_memfree B username else ret ())
                (if password \<noteq> None then b_memfree B password else ret ()))))
     | _ \<Rightarrow> misread)"

subsection \<open>Printing and pop-ups\<close>

text \<open>
  \<open>fwrite\<close> of one item of \<open>size\<close> bytes gives 1 when all of them are written; with no bytes it gives 0,
  which the handler takes for an error.
\<close>

definition handle_NPN_PrintData ::
  "(('h, 'z) np_process_scheme, 'h) npv_env \<Rightarrow> (('h, 'z) np_process_scheme, 'b) mozilla_funcs_scheme \<Rightarrow>
     (('h, 'z) np_process_scheme, np_value, 'y) rpc_env_scheme \<Rightarrow> (('h, 'z) np_process_scheme, int) op"
where
  "handle_NPN_PrintData E B R = handle R [P_type RPC_TYPE_UINT32, P_type RPC_TYPE_NP_PRINT_DATA] (\<lambda>as.
     case as of
       [a1, a2] \<Rightarrow>
         bind_op (gets (\<lambda>s. id_lookup (hash E) (as_uint32 a1) (ids s))) (\<lambda>platformPrint.
           if platformPrint = 0 then fail RPC_ERROR_GENERIC
           else
             (let p = as_print_data a2; n = unat (pd_size p) in
              bind_op (b_fwrite B platformPrint (take n (pd_data p))) (\<lambda>written.
                if n = 0 \<or> written < n then fail RPC_ERROR_ERRNO_SET else send_reply R [])))
     | _ \<Rightarrow> misread)"

definition wrapper_NPN_PushPopupsEnabledState :: "('s, 'b) mozilla_funcs_scheme \<Rightarrow> cptr \<Rightarrow> byte \<Rightarrow> ('s, unit) op" where
  "wrapper_NPN_PushPopupsEnabledState B npp enabled =
     if_supported (b_pushpopupsenabledstate B) () (\<lambda>f. f npp enabled)"

definition handle_NPN_PushPopupsEnabledState ::
  "(('h, 'z) np_process_scheme, 'b) mozilla_funcs_scheme \<Rightarrow> (('h, 'z) np_process_scheme, np_value, 'y) rpc_env_scheme \<Rightarrow>
     (('h, 'z) np_process_scheme, int) op"
where
  "handle_NPN_PushPopupsEnabledState B R =
     handle R [P_type RPC_TYPE_NPW_PLUGIN_INSTANCE, P_type RPC_TYPE_UINT32] (\<lambda>as.
     case as of
       [a1, a2] \<Rightarrow> on_npp a1 (\<lambda>npp.
         then_op (wrapper_NPN_PushPopupsEnabledState B npp (ucast (as_uint32 a2))) (send_reply R []))
     | _ \<Rightarrow> misread)"

definition wrapper_NPN_PopPopupsEnabledState :: "('s, 'b) mozilla_funcs_scheme \<Rightarrow> cptr \<Rightarrow> ('s, unit) op" where
  "wrapper_NPN_PopPopupsEnabledState B npp = if_supported (b_poppopupsenabledstate B) () (\<lambda>f. f npp)"

definition handle_NPN_PopPopupsEnabledState ::
  "(('h, 'z) np_process_scheme, 'b) mozilla_funcs_scheme \<Rightarrow> (('h, 'z) np_process_scheme, np_value, 'y) rpc_env_scheme \<Rightarrow>
     (('h, 'z) np_process_scheme, int) op"
where
  "handle_NPN_PopPopupsEnabledState B R = handle R [P_type RPC_TYPE_NPW_PLUGIN_INSTANCE] (\<lambda>as.
     case as of
       [a1] \<Rightarrow> on_npp a1 (\<lambda>npp. then_op (wrapper_NPN_PopPopupsEnabledState B npp) (send_reply R []))
     | _ \<Rightarrow> misread)"

subsection \<open>Streams\<close>

definition wrapper_NPN_RequestRead ::
  "('s, 'b) mozilla_funcs_scheme \<Rightarrow> cptr \<Rightarrow> NPByteRange list \<Rightarrow> ('s, NPError) op"
where
  "wrapper_NPN_RequestRead B st rangeList =
     if_supported (b_requestread B) NPERR_INVALID_FUNCTABLE_ERROR (\<lambda>f. f st rangeList)"

definition handle_NPN_RequestRead ::
  "(('h, 'z) np_process_scheme, 'b) mozilla_funcs_scheme \<Rightarrow> (('h, 'z) np_process_scheme, np_value, 'y) rpc_env_scheme \<Rightarrow>
     (('h, 'z) np_process_scheme, int) op"
where
  "handle_NPN_RequestRead B R = handle R [P_type RPC_TYPE_NP_STREAM, P_type RPC_TYPE_NP_BYTE_RANGE] (\<lambda>as.
     case as of
       [a1, a2] \<Rightarrow>
         bind_op (wrapper_NPN_RequestRead B (as_stream a1) (as_ranges a2)) (\<lambda>r. send_reply R [error_arg r])
     | _ \<Rightarrow> misread)"

text \<open>
  A new stream of the browser gets a stream instance and an identifier, by which the plugin's process
  knows it; when the browser reports an error, the result is the static \<open>fake_NPStream\<close>. \<open>out\<close>: there
  is a result parameter. A browser that leaves the parameter unset, or no memory for the
  instance, leaves it unset as it was.
\<close>

definition wrapper_NPN_NewStream ::
  "(('h, 'z) np_process_scheme, 'h) npv_env \<Rightarrow> (('h, 'z) np_process_scheme, 'b) mozilla_funcs_scheme \<Rightarrow>
     cptr \<Rightarrow> c_string \<Rightarrow> c_string \<Rightarrow> bool \<Rightarrow> (('h, 'z) np_process_scheme, NPError \<times> stream_var) op"
where
  "wrapper_NPN_NewStream E B npp mime target out =
     if_supported (b_newstream B) (NPERR_INVALID_FUNCTABLE_ERROR, Stream_unset) (\<lambda>f.
       if \<not> out then ret (NPERR_INVALID_PARAM, Stream_unset)
       else bind_op (f npp mime target) (\<lambda>(r, st).
         let var = (case st of None \<Rightarrow> Stream_unset | Some p \<Rightarrow> Stream_at p) in
         if direct_exec B then ret (r, var)
         else if r = NPERR_NO_ERROR then
           bind_op (gets (b_stream_addr B)) (\<lambda>pdata.
             if pdata = 0 then ret (NPERR_OUT_OF_MEMORY_ERROR, var)
             else
               (case st of
                  None \<Rightarrow> crash Out_of_bounds
                | Some p \<Rightarrow>
                    bind_op (gets (\<lambda>s. id_create (hash E) pdata (ids s))) (\<lambda>(i, t).
                    then_op (modify_state (\<lambda>s. put_stream_instance pdata
                      (Some \<lparr>si_stream = p, si_stream_id = i, si_is_plugin_stream = 1\<rparr>) (s\<lparr>ids := t\<rparr>)))
                    (bind_op (deref np_streams p) (\<lambda>old.
                     then_op (modify_state (put_stream p (Some pdata))) (ret (r, Stream_at p)))))))
         else ret (r, Fake_NPStream)))"

text \<open>The members the handler reads: through a variable that was never set this is an invalid access.\<close>

definition read_stream_var :: "stream_var \<Rightarrow> (('h, 'z) np_side_scheme, uint32 \<times> NPStream) op" where
  "read_stream_var v =
     (case v of
        Stream_unset \<Rightarrow> crash Out_of_bounds
      | Fake_NPStream \<Rightarrow>
          ret (0, \<lparr>st_url = None, st_end = 0, st_lastmodified = 0, st_notifyData = 0, st_headers = None\<rparr>)
      | Stream_at p \<Rightarrow>
          bind_op (deref np_streams p) (\<lambda>pdata.
          bind_op (deref stream_instances pdata) (\<lambda>si.
          bind_op (deref stream_data p) (\<lambda>st. ret (si_stream_id si, st)))))"

definition handle_NPN_NewStream ::
  "(('h, 'z) np_side_scheme, 'h) npv_env \<Rightarrow> (('h, 'z) np_side_scheme, 'b) mozilla_funcs_scheme \<Rightarrow>
     (('h, 'z) np_side_scheme, np_value, 'y) rpc_env_scheme \<Rightarrow> (('h, 'z) np_side_scheme, int) op"
where
  "handle_NPN_NewStream E B R =
     handle R [P_type RPC_TYPE_NPW_PLUGIN_INSTANCE, P_type RPC_TYPE_STRING, P_type RPC_TYPE_STRING] (\<lambda>as.
     case as of
       [a1, a2, a3] \<Rightarrow> on_npp a1 (\<lambda>npp.
         bind_op (wrapper_NPN_NewStream E B npp (as_string a2) (as_string a3) True) (\<lambda>(r, var).
         bind_op (read_stream_var var) (\<lambda>(i, st).
           send_reply R [error_arg r, Uint32 i, Str (st_url st), Uint32 (st_end st), Uint32 (st_lastmodified st),
             np_notify (st_notifyData st),
             Str (if NPVERS_HAS_RESPONSE_HEADERS \<le> b_version B AND 255 then st_headers st else None)])))
     | _ \<Rightarrow> misread)"

text \<open>The identifier of a stream of the plugin is given up before the browser destroys the stream.\<close>

definition wrapper_NPN_DestroyStream ::
  "(('h, 'z) np_process_scheme, 'h) npv_env \<Rightarrow> (('h, 'z) np_process_scheme, 'b) mozilla_funcs_scheme \<Rightarrow>
     cptr \<Rightarrow> cptr \<Rightarrow> NPError \<Rightarrow> (('h, 'z) np_process_scheme, NPError) op"
where
  "wrapper_NPN_DestroyStream E B npp st reason =
     if_supported (b_destroystream B) NPERR_INVALID_FUNCTABLE_ERROR (\<lambda>f.
       if st = 0 then ret NPERR_INVALID_PARAM
       else
         then_op
           (if direct_exec B then ret ()
            else bind_op (deref np_streams st) (\<lambda>pdata.
              if pdata = 0 then ret ()
              else bind_op (deref stream_instances pdata) (\<lambda>si.
                if si_is_plugin_stream si = 0 then ret ()
                else then_op (modify_state (\<lambda>s. s\<lparr>ids := snd (id_remove (hash E) (si_stream_id si) (ids s))\<rparr>))
                  (modify_state (\<lambda>s. put_stream st (Some 0) (put_stream_instance pdata None s))))))
           (f npp st reason))"

definition handle_NPN_DestroyStream ::
  "(('h, 'z) np_process_scheme, 'h) npv_env \<Rightarrow> (('h, 'z) np_process_scheme, 'b) mozilla_funcs_scheme \<Rightarrow>
     (('h, 'z) np_process_scheme, np_value, 'y) rpc_env_scheme \<Rightarrow> (('h, 'z) np_process_scheme, int) op"
where
  "handle_NPN_DestroyStream E B R =
     handle R [P_type RPC_TYPE_NPW_PLUGIN_INSTANCE, P_type RPC_TYPE_NP_STREAM, P_type RPC_TYPE_INT32] (\<lambda>as.
     case as of
       [a1, a2, a3] \<Rightarrow> on_npp a1 (\<lambda>npp.
         bind_op (wrapper_NPN_DestroyStream E B npp (as_stream a2) (ucast (as_int32 a3))) (\<lambda>r. send_reply R [error_arg r]))
     | _ \<Rightarrow> misread)"

definition wrapper_NPN_Write ::
  "('s, 'b) mozilla_funcs_scheme \<Rightarrow> cptr \<Rightarrow> cptr \<Rightarrow> int32 \<Rightarrow> byte list option \<Rightarrow> ('s, int32) op"
where
  "wrapper_NPN_Write B npp st len buf =
     if_supported (b_write B) (- 1) (\<lambda>f. if st = 0 then ret (- 1) else f npp st len buf)"

definition handle_NPN_Write ::
  "(('h, 'z) np_process_scheme, 'b) mozilla_funcs_scheme \<Rightarrow> (('h, 'z) np_process_scheme, np_value, 'y) rpc_env_scheme \<Rightarrow>
     (('h, 'z) np_process_scheme, int) op"
where
  "handle_NPN_Write B R =
     handle R [P_type RPC_TYPE_NPW_PLUGIN_INSTANCE, P_type RPC_TYPE_NP_STREAM, P_array RPC_TYPE_CHAR] (\<lambda>as.
     case as of
       [a1, a2, a3] \<Rightarrow> on_npp a1 (\<lambda>npp.
         bind_op (wrapper_NPN_Write B npp (as_stream a2) (as_count a3) (as_chars a3)) (\<lambda>r. send_reply R [Int32 r]))
     | _ \<Rightarrow> misread)"

end
