(* ===== verification/Np_Requests.thy ===== *)
theory Np_Requests
  imports Np_Browser
begin

text \<open>
  The viewer's half of the calls a plugin makes to the browser (\<^verbatim>\<open>npw-viewer.c\<close>, "Browser side plug-in
  API"): for each function the remote call (\<open>invoke_NPN_...\<close>) and the function in the table the plugin
  is given (\<open>g_NPN_...\<close>), which checks its arguments and keeps the instance alive during the call.
\<close>

subsection \<open>Data\<close>

text \<open>
  The state of the viewer that these calls use: the cached user agent and the window of the browser an
  instance has asked for (\<open>browser_toplevel\<close> of \<open>PluginInstance\<close>, \<open>0\<close> for none yet).
\<close>

record 'h np_viewer = "'h np_side" +
  g_user_agent :: c_string
  browser_toplevel :: "cptr \<Rightarrow> cptr"

text \<open>
  What they need from outside: whether the thread that runs is the main thread, X and GDK, the
  toolkit of the viewer, \<open>NPN_MemAlloc\<close> and where \<open>malloc\<close> puts a stream and its private data.
\<close>

record 's request_env =
  main_thread :: bool
  x_display :: cptr
  xt_app_context :: "cptr \<Rightarrow> cptr"
  viewer_toolkit :: uint32
  gdk_window_foreign_new :: "uint32 \<Rightarrow> cptr"
  gdk_window_xwindow :: "cptr \<Rightarrow> uint32"
  can_alloc :: "'s \<Rightarrow> uint32 \<Rightarrow> bool"
  new_stream_addr :: "'s \<Rightarrow> cptr"
  new_instance_addr :: "'s \<Rightarrow> cptr"

text \<open>
  A remote call in its two steps, for the functions that tell a request that could not be sent from a
  reply that did not come.
\<close>

definition remote_then ::
  "('z rpc_connection_scheme, 'u, 'y) rpc_env_scheme \<Rightarrow> int \<Rightarrow> 'u rpc_arg list \<Rightarrow> 'a \<Rightarrow> 'a \<Rightarrow>
     ('z rpc_connection_scheme, 'a) op \<Rightarrow> ('z rpc_connection_scheme, 'a) op"
where
  "remote_then R mid args impossible failed k = bind_op (gets g_rpc_connection) (\<lambda>c.
     if \<not> rpc_method_invoke_possible c then ret impossible
     else bind_op (attempt (on_live (rpc_method_invoke R mid args))) (\<lambda>sent.
       case sent of None \<Rightarrow> ret failed | Some _ \<Rightarrow> k))"

definition remote_wait ::
  "('z rpc_connection_scheme, 'u, 'y) rpc_env_scheme \<Rightarrow> rpc_param list \<Rightarrow>
     ('z rpc_connection_scheme, 'u rpc_arg list option) op"
where
  "remote_wait R ps = attempt (on_live (rpc_method_wait_for_reply R ps))"

lemma attempt_then:
  "attempt (then_op a b) = bind_op (attempt a) (\<lambda>x. case x of None \<Rightarrow> ret None | Some _ \<Rightarrow> attempt b)"
  by (rule ext) (simp add: attempt_def then_op_def bind_op_def ret_def split: prod.split res.split)

lemma remote_call_steps: "remote_call R mid args ps = remote_then R mid args None None (remote_wait R ps)"
  unfolding remote_call_def remote_then_def remote_wait_def attempt_then ..

text \<open>\<open>PLUGIN_INSTANCE\<close> of an instance that must be there, and the reference held during a call.\<close>

definition on_instance ::
  "'s request_env \<Rightarrow> (('h, 'z) np_process_scheme, 'h) npv_env \<Rightarrow> cptr \<Rightarrow> 'a \<Rightarrow> (cptr \<Rightarrow> (('h, 'z) np_process_scheme, 'a) op) \<Rightarrow>
     (('h, 'z) np_process_scheme, 'a) op"
where
  "on_instance N E npp otherwise f =
     (if \<not> main_thread N then ret otherwise
      else if npp = 0 then ret otherwise
      else bind_op (npw_get_plugin_instance (np_env.truncate E) npp) (\<lambda>plugin.
        if plugin = 0 then ret otherwise else f plugin))"

definition holding ::
  "(('h, 'z) np_process_scheme, 'h) npv_env \<Rightarrow> cptr \<Rightarrow> (('h, 'z) np_process_scheme, 'a) op \<Rightarrow>
     (('h, 'z) np_process_scheme, 'a) op"
where
  "holding E plugin m =
     then_op (npw_plugin_instance_ref plugin)
     (bind_op m (\<lambda>r. then_op (npw_plugin_instance_unref (np_env.truncate E) plugin) (ret r)))"

text \<open>\<open>PLUGIN_INSTANCE\<close> where there need not be an instance.\<close>

definition instance_or_null ::
  "(('h, 'z) np_process_scheme, 'h) npv_env \<Rightarrow> cptr \<Rightarrow> (('h, 'z) np_process_scheme, cptr) op"
where
  "instance_or_null E npp = (if npp = 0 then ret 0 else npw_get_plugin_instance (np_env.truncate E) npp)"

text \<open>The answer of a call that returns an \<open>NPError\<close>, sent as an \<open>int32_t\<close>.\<close>

definition answer_error :: "np_value rpc_arg list option \<Rightarrow> NPError" where
  "answer_error r = (case r of Some [a] \<Rightarrow> ucast (as_int32 a) | _ \<Rightarrow> NPERR_GENERIC_ERROR)"

text \<open>
  \<open>NPW_ReallocData\<close> for a block of bytes: a copy of \<open>n\<close> of them, which must be there, in memory of the
  plugin.
\<close>

definition realloc_bytes ::
  "('s \<Rightarrow> uint32 \<Rightarrow> bool) \<Rightarrow> byte list option \<Rightarrow> uint32 \<Rightarrow> ('s, NPError \<times> byte list option) op"
where
  "realloc_bytes mem_alloc p n =
     (case p of
        None \<Rightarrow> ret (NPERR_NO_ERROR, None)
      | Some bs \<Rightarrow> bind_op (gets (\<lambda>s. mem_alloc s n)) (\<lambda>mem.
          if \<not> mem then ret (NPERR_OUT_OF_MEMORY_ERROR, None)
          else if length bs < unat n then crash Out_of_bounds
          else ret (NPERR_NO_ERROR, Some (take (unat n) bs))))"

subsection \<open>Functions that do nothing\<close>

definition g_NPN_ForceRedraw :: "cptr \<Rightarrow> ('s, unit) op" where
  "g_NPN_ForceRedraw npp = ret ()"

definition g_NPN_InvalidateRegion :: "cptr \<Rightarrow> cptr \<Rightarrow> ('s, unit) op" where
  "g_NPN_InvalidateRegion npp invalidRegion = ret ()"

definition g_NPN_MemFlush :: "uint32 \<Rightarrow> ('s, uint32) op" where
  "g_NPN_MemFlush n = ret 0"

definition g_NPN_ReloadPlugins :: "byte \<Rightarrow> ('s, unit) op" where
  "g_NPN_ReloadPlugins reloadPages = ret ()"

definition g_NPN_GetJavaEnv :: "('s, cptr) op" where
  "g_NPN_GetJavaEnv = ret 0"

definition g_NPN_GetJavaPeer :: "cptr \<Rightarrow> ('s, cptr) op" where
  "g_NPN_GetJavaPeer npp = ret 0"

subsection \<open>URLs\<close>

definition invoke_NPN_GetURL ::
  "(('h, 'z) np_process_scheme, np_value, 'y) rpc_env_scheme \<Rightarrow> cptr \<Rightarrow> c_string \<Rightarrow> c_string \<Rightarrow>
     (('h, 'z) np_process_scheme, NPError) op"
where
  "invoke_NPN_GetURL R plugin url target =
     bind_op (remote_call R RPC_METHOD_NPN_GET_URL [np_instance plugin, Str url, Str target] [P_type RPC_TYPE_INT32])
       (\<lambda>r. ret (answer_error r))"

definition g_NPN_GetURL ::
  "'s request_env \<Rightarrow> (('h, 'z) np_process_scheme, 'h) npv_env \<Rightarrow> (('h, 'z) np_process_scheme, np_value, 'y) rpc_env_scheme \<Rightarrow>
     cptr \<Rightarrow> c_string \<Rightarrow> c_string \<Rightarrow> (('h, 'z) np_process_scheme, NPError) op"
where
  "g_NPN_GetURL N E R npp url target = on_instance N E npp NPERR_INVALID_INSTANCE_ERROR (\<lambda>plugin.
     holding E plugin (invoke_NPN_GetURL R plugin url target))"

definition invoke_NPN_GetURLNotify ::
  "(('h, 'z) np_process_scheme, np_value, 'y) rpc_env_scheme \<Rightarrow> cptr \<Rightarrow> c_string \<Rightarrow> c_string \<Rightarrow> cptr \<Rightarrow>
     (('h, 'z) np_process_scheme, NPError) op"
where
  "invoke_NPN_GetURLNotify R plugin url target notifyData =
     bind_op (remote_call R RPC_METHOD_NPN_GET_URL_NOTIFY
       [np_instance plugin, Str url, Str target, np_notify notifyData] [P_type RPC_TYPE_INT32])
       (\<lambda>r. ret (answer_error r))"

definition g_NPN_GetURLNotify ::
  "'s request_env \<Rightarrow> (('h, 'z) np_process_scheme, 'h) npv_env \<Rightarrow> (('h, 'z) np_process_scheme, np_value, 'y) rpc_env_scheme \<Rightarrow>
     cptr \<Rightarrow> c_string \<Rightarrow> c_string \<Rightarrow> cptr \<Rightarrow> (('h, 'z) np_process_scheme, NPError) op"
where
  "g_NPN_GetURLNotify N E R npp url target notifyData = on_instance N E npp NPERR_INVALID_INSTANCE_ERROR (\<lambda>plugin.
     holding E plugin (invoke_NPN_GetURLNotify R plugin url target notifyData))"

definition invoke_NPN_PostURL ::
  "(('h, 'z) np_process_scheme, np_value, 'y) rpc_env_scheme \<Rightarrow> cptr \<Rightarrow> c_string \<Rightarrow> c_string \<Rightarrow> uint32 \<Rightarrow>
     byte list option \<Rightarrow> byte \<Rightarrow> (('h, 'z) np_process_scheme, NPError) op"
where
  "invoke_NPN_PostURL R plugin url target len buf as_file =
     bind_op (remote_call R RPC_METHOD_NPN_POST_URL
       [np_instance plugin, Str url, Str target, char_array len buf, Boolean (ucast as_file)] [P_type RPC_TYPE_INT32])
       (\<lambda>r. ret (answer_error r))"

definition g_NPN_PostURL ::
  "'s request_env \<Rightarrow> (('h, 'z) np_process_scheme, 'h) npv_env \<Rightarrow> (('h, 'z) np_process_scheme, np_value, 'y) rpc_env_scheme \<Rightarrow>
     cptr \<Rightarrow> c_string \<Rightarrow> c_string \<Rightarrow> uint32 \<Rightarrow> byte list option \<Rightarrow> byte \<Rightarrow> (('h, 'z) np_process_scheme, NPError) op"
where
  "g_NPN_PostURL N E R npp url target len buf as_file = on_instance N E npp NPERR_INVALID_INSTANCE_ERROR (\<lambda>plugin.
     holding E plugin (invoke_NPN_PostURL R plugin url target len buf as_file))"

definition invoke_NPN_PostURLNotify ::
  "(('h, 'z) np_process_scheme, np_value, 'y) rpc_env_scheme \<Rightarrow> cptr \<Rightarrow> c_string \<Rightarrow> c_string \<Rightarrow> uint32 \<Rightarrow>
     byte list option \<Rightarrow> byte \<Rightarrow> cptr \<Rightarrow> (('h, 'z) np_process_scheme, NPError) op"
where
  "invoke_NPN_PostURLNotify R plugin url target len buf as_file notifyData =
     bind_op (remote_call R RPC_METHOD_NPN_POST_URL_NOTIFY
       [np_instance plugin, Str url, Str target, char_array len buf, Boolean (ucast as_file), np_notify notifyData]
       [P_type RPC_TYPE_INT32]) (\<lambda>r. ret (answer_error r))"

definition g_NPN_PostURLNotify ::
  "'s request_env \<Rightarrow> (('h, 'z) np_process_scheme, 'h) npv_env \<Rightarrow> (('h, 'z) np_process_scheme, np_value, 'y) rpc_env_scheme \<Rightarrow>
     cptr \<Rightarrow> c_string \<Rightarrow> c_string \<Rightarrow> uint32 \<Rightarrow> byte list option \<Rightarrow> byte \<Rightarrow> cptr \<Rightarrow> (('h, 'z) np_process_scheme, NPError) op"
where
  "g_NPN_PostURLNotify N E R npp url target len buf as_file notifyData =
     on_instance N E npp NPERR_INVALID_INSTANCE_ERROR (\<lambda>plugin.
       holding E plugin (invoke_NPN_PostURLNotify R plugin url target len buf as_file notifyData))"

text \<open>The value is copied when there is no error; the length is stored in any case.\<close>

definition invoke_NPN_GetValueForURL ::
  "(('h, 'z) np_process_scheme \<Rightarrow> uint32 \<Rightarrow> bool) \<Rightarrow> (('h, 'z) np_process_scheme, np_value, 'y) rpc_env_scheme \<Rightarrow> cptr \<Rightarrow>
     uint32 \<Rightarrow> c_string \<Rightarrow> (('h, 'z) np_process_scheme, NPError \<times> byte list option option \<times> uint32 option) op"
where
  "invoke_NPN_GetValueForURL mem_alloc R plugin variable url =
     bind_op (remote_call R RPC_METHOD_NPN_GET_VALUE_FOR_URL
       [np_instance plugin, Uint32 variable, Str url] [P_type RPC_TYPE_INT32, P_array RPC_TYPE_CHAR]) (\<lambda>r.
       case r of
         Some [a, b] \<Rightarrow>
           if as_int32 a = 0
           then bind_op (realloc_bytes mem_alloc (as_chars b) (as_count b)) (\<lambda>(e, val).
             ret (e, Some val, Some (as_count b)))
           else ret (ucast (as_int32 a), None, Some (as_count b))
       | _ \<Rightarrow> ret (NPERR_GENERIC_ERROR, None, None))"

definition g_NPN_GetValueForURL ::
  "('h, 'z) np_process_scheme request_env \<Rightarrow> (('h, 'z) np_process_scheme, 'h) npv_env \<Rightarrow>
     (('h, 'z) np_process_scheme, np_value, 'y) rpc_env_scheme \<Rightarrow> cptr \<Rightarrow> uint32 \<Rightarrow> c_string \<Rightarrow>
     (('h, 'z) np_process_scheme, NPError \<times> byte list option option \<times> uint32 option) op"
where
  "g_NPN_GetValueForURL N E R npp variable url =
     on_instance N E npp (NPERR_INVALID_INSTANCE_ERROR, None, None) (\<lambda>plugin.
       holding E plugin (invoke_NPN_GetValueForURL (can_alloc N) R plugin variable url))"

definition invoke_NPN_SetValueForURL ::
  "(('h, 'z) np_process_scheme, np_value, 'y) rpc_env_scheme \<Rightarrow> cptr \<Rightarrow> uint32 \<Rightarrow> c_string \<Rightarrow> byte list option \<Rightarrow> uint32 \<Rightarrow>
     (('h, 'z) np_process_scheme, NPError) op"
where
  "invoke_NPN_SetValueForURL R plugin variable url val len =
     bind_op (remote_call R RPC_METHOD_NPN_SET_VALUE_FOR_URL
       [np_instance plugin, Uint32 variable, Str url, char_array len val] [P_type RPC_TYPE_INT32])
       (\<lambda>r. ret (answer_error r))"

definition g_NPN_SetValueForURL ::
  "'s request_env \<Rightarrow> (('h, 'z) np_process_scheme, 'h) npv_env \<Rightarrow> (('h, 'z) np_process_scheme, np_value, 'y) rpc_env_scheme \<Rightarrow>
     cptr \<Rightarrow> uint32 \<Rightarrow> c_string \<Rightarrow> byte list option \<Rightarrow> uint32 \<Rightarrow> (('h, 'z) np_process_scheme, NPError) op"
where
  "g_NPN_SetValueForURL N E R npp variable url val len = on_instance N E npp NPERR_INVALID_INSTANCE_ERROR (\<lambda>plugin.
     holding E plugin (invoke_NPN_SetValueForURL R plugin variable url val len))"

text \<open>
  The lengths are stored as they come with the reply; the password is copied with the length of the
  user name. The result is the error and what is stored in the four variables.
\<close>

definition invoke_NPN_GetAuthenticationInfo ::
  "(('h, 'z) np_process_scheme \<Rightarrow> uint32 \<Rightarrow> bool) \<Rightarrow> (('h, 'z) np_process_scheme, np_value, 'y) rpc_env_scheme \<Rightarrow> cptr \<Rightarrow>
     c_string \<Rightarrow> c_string \<Rightarrow> int32 \<Rightarrow> c_string \<Rightarrow> c_string \<Rightarrow>
     (('h, 'z) np_process_scheme, NPError \<times> (byte list option option \<times> uint32 option) \<times>
        (byte list option option \<times> uint32 option)) op"
where
  "invoke_NPN_GetAuthenticationInfo mem_alloc R plugin protocol host port auth_scheme realm =
     bind_op (remote_call R RPC_METHOD_NPN_GET_AUTHENTICATION_INFO
       [np_instance plugin, Str protocol, Str host, Int32 port, Str auth_scheme, Str realm]
       [P_type RPC_TYPE_INT32, P_array RPC_TYPE_CHAR, P_array RPC_TYPE_CHAR]) (\<lambda>r.
       case r of
         Some [a, b, c] \<Rightarrow>
           (let ulen = as_count b; plen = as_count c in
            if as_int32 a = 0
            then bind_op (realloc_bytes mem_alloc (as_chars b) ulen) (\<lambda>(e, username).
              if e \<noteq> NPERR_NO_ERROR then ret (e, (Some username, Some ulen), (None, Some plen))
              else bind_op (realloc_bytes mem_alloc (as_chars c) ulen) (\<lambda>(e', password).
                ret (e', (Some username, Some ulen), (Some password, Some plen))))
            else ret (ucast (as_int32 a), (None, Some ulen), (None, Some plen)))
       | _ \<Rightarrow> ret (NPERR_GENERIC_ERROR, (None, None), (None, None)))"

definition g_NPN_GetAuthenticationInfo ::
  "('h, 'z) np_process_scheme request_env \<Rightarrow> (('h, 'z) np_process_scheme, 'h) npv_env \<Rightarrow>
     (('h, 'z) np_process_scheme, np_value, 'y) rpc_env_scheme \<Rightarrow> cptr \<Rightarrow>
     c_string \<Rightarrow> c_string \<Rightarrow> int32 \<Rightarrow> c_string \<Rightarrow> c_string \<Rightarrow>
     (('h, 'z) np_process_scheme, NPError \<times> (byte list option option \<times> uint32 option) \<times>
        (byte list option option \<times> uint32 option)) op"
where
  "g_NPN_GetAuthenticationInfo N E R npp protocol host port auth_scheme realm =
     on_instance N E npp (NPERR_INVALID_INSTANCE_ERROR, (None, None), (None, None)) (\<lambda>plugin.
       holding E plugin (invoke_NPN_GetAuthenticationInfo (can_alloc N) R plugin protocol host port auth_scheme realm))"

subsection \<open>Variables\<close>

text \<open>
  The second component is what is stored through \<open>value\<close>, if anything is. A string of the browser is
  copied when there is no error, and its length is taken even when it is \<open>NULL\<close>. A variable of no
  known type gets no reply and an error code that was never set.
\<close>

definition invoke_NPN_GetValue ::
  "(('h, 'z) np_process_scheme \<Rightarrow> uint32 \<Rightarrow> bool) \<Rightarrow> (('h, 'z) np_process_scheme, np_value, 'y) rpc_env_scheme \<Rightarrow> cptr \<Rightarrow>
     uint32 \<Rightarrow> (('h, 'z) np_process_scheme, NPError \<times> np_cell option) op"
where
  "invoke_NPN_GetValue mem_alloc R plugin variable =
     (let t = rpc_type_of_NPNVariable (c_int variable);
          failed = (NPERR_GENERIC_ERROR, None)
      in remote_then R RPC_METHOD_NPN_GET_VALUE [np_instance plugin, Uint32 variable] failed failed
        (if t = RPC_TYPE_UINT32 then
           bind_op (remote_wait R [P_type RPC_TYPE_INT32, P_type RPC_TYPE_UINT32]) (\<lambda>r. ret
             (case r of Some [a, b] \<Rightarrow> (ucast (as_int32 a), Some (Cell_uint32 (as_uint32 b)))
              | _ \<Rightarrow> (NPERR_GENERIC_ERROR, Some (Cell_uint32 0))))
         else if t = RPC_TYPE_BOOLEAN then
           bind_op (remote_wait R [P_type RPC_TYPE_INT32, P_type RPC_TYPE_BOOLEAN]) (\<lambda>r. ret
             (case r of Some [a, b] \<Rightarrow> (ucast (as_int32 a), Some (Cell_bool (if as_boolean b \<noteq> 0 then 1 else 0)))
              | _ \<Rightarrow> (NPERR_GENERIC_ERROR, Some (Cell_bool 0))))
         else if t = RPC_TYPE_STRING then
           bind_op (remote_wait R [P_type RPC_TYPE_INT32, P_type RPC_TYPE_STRING]) (\<lambda>r.
             case r of
               Some [a, b] \<Rightarrow>
                 if as_int32 a = 0
                 then
                   (case as_string b of
                      None \<Rightarrow> crash Out_of_bounds
                    | Some cs \<Rightarrow>
                        bind_op (realloc_bytes mem_alloc (Some (cs @ [0])) (of_nat (length cs) + 1)) (\<lambda>(e, str). ret
                          (e, Some (Cell_string (map_option (takeWhile (\<lambda>c. c \<noteq> 0)) str)))))
                 else ret (ucast (as_int32 a), Some (Cell_string (as_string b)))
             | _ \<Rightarrow> ret (NPERR_GENERIC_ERROR, Some (Cell_string None)))
         else if t = RPC_TYPE_NP_OBJECT then
           bind_op (remote_wait R [P_type RPC_TYPE_INT32, P_type RPC_TYPE_NP_OBJECT_PASS_REF]) (\<lambda>r. ret
             (case r of Some [a, b] \<Rightarrow> (ucast (as_int32 a), Some (Cell_object (as_object b)))
              | _ \<Rightarrow> (NPERR_GENERIC_ERROR, Some (Cell_object 0))))
         else crash Out_of_bounds))"

definition g_NPN_GetValue_real ::
  "('h, 'z) np_process_scheme request_env \<Rightarrow> (('h, 'z) np_process_scheme, 'h) npv_env \<Rightarrow>
     (('h, 'z) np_process_scheme, np_value, 'y) rpc_env_scheme \<Rightarrow> cptr \<Rightarrow> uint32 \<Rightarrow>
     (('h, 'z) np_process_scheme, NPError \<times> np_cell option) op"
where
  "g_NPN_GetValue_real N E R npp variable = bind_op (instance_or_null E npp) (\<lambda>plugin.
     holding E plugin (invoke_NPN_GetValue (can_alloc N) R plugin variable))"

abbreviation (input) NPNVxDisplay :: int where "NPNVxDisplay \<equiv> 1"
abbreviation (input) NPNVxtAppContext :: int where "NPNVxtAppContext \<equiv> 2"
abbreviation (input) NPNVGtk2 :: uint32 where "NPNVGtk2 \<equiv> 2"

text \<open>
  The window of the browser is asked for once and kept; the other variables the viewer knows are asked
  for every time, and some it answers itself.
\<close>

definition get_netscape_window ::
  "('h, 'z) np_viewer_scheme request_env \<Rightarrow> (('h, 'z) np_viewer_scheme, 'h) npv_env \<Rightarrow>
     (('h, 'z) np_viewer_scheme, np_value, 'y) rpc_env_scheme \<Rightarrow> cptr \<Rightarrow> cptr \<Rightarrow>
     (('h, 'z) np_viewer_scheme, NPError \<times> np_cell option) op"
where
  "get_netscape_window N E R npp plugin =
     (if plugin = 0 then ret (NPERR_INVALID_INSTANCE_ERROR, None)
      else bind_op (gets (\<lambda>s. browser_toplevel s plugin)) (\<lambda>window.
        if window \<noteq> 0 then ret (NPERR_NO_ERROR, Some (Cell_uint32 (gdk_window_xwindow N window)))
        else bind_op (g_NPN_GetValue_real N E R npp 3) (\<lambda>(e, cell).
          let xid = (case cell of Some (Cell_uint32 x) \<Rightarrow> x | _ \<Rightarrow> 0) in
          if e \<noteq> NPERR_NO_ERROR then ret (e, None)
          else if xid = 0 then ret (NPERR_GENERIC_ERROR, None)
          else
            (let w = gdk_window_foreign_new N xid in
             then_op (modify_state (\<lambda>s. s\<lparr>browser_toplevel := (browser_toplevel s)(plugin := w)\<rparr>))
               (if w = 0 then ret (NPERR_GENERIC_ERROR, None)
                else ret (NPERR_NO_ERROR, Some (Cell_uint32 (gdk_window_xwindow N w))))))))"

definition g_NPN_GetValue ::
  "('h, 'z) np_viewer_scheme request_env \<Rightarrow> (('h, 'z) np_viewer_scheme, 'h) npv_env \<Rightarrow>
     (('h, 'z) np_viewer_scheme, np_value, 'y) rpc_env_scheme \<Rightarrow> cptr \<Rightarrow> uint32 \<Rightarrow>
     (('h, 'z) np_viewer_scheme, NPError \<times> np_cell option) op"
where
  "g_NPN_GetValue N E R npp variable =
     (if \<not> main_thread N then ret (NPERR_INVALID_INSTANCE_ERROR, None)
      else bind_op (instance_or_null E npp) (\<lambda>plugin.
        let v = c_int variable in
        if v = NPNVxDisplay then ret (NPERR_NO_ERROR, Some (Cell_pointer (x_display N)))
        else if v = NPNVxtAppContext then ret (NPERR_NO_ERROR, Some (Cell_pointer (xt_app_context N (x_display N))))
        else if v = NPNVToolkit then ret (NPERR_NO_ERROR, Some (Cell_uint32 (viewer_toolkit N)))
        else if v = NPNVnetscapeWindow then get_netscape_window N E R npp plugin
        else if v = NPNVsupportsAdvancedKeyHandling then ret (NPERR_NO_ERROR, Some (Cell_bool 0))
        else if v \<in> {NPNVSupportsWindowless, NPNVSupportsXEmbedBool, NPNVWindowNPObject, NPNVPluginElementNPObject,
            NPNVprivateModeBool, NPNVdocumentOrigin} then g_NPN_GetValue_real N E R npp variable
        else if variable AND 255 = 13 \<and> viewer_toolkit N = NPNVGtk2
        then ret (NPERR_NO_ERROR, Some (Cell_uint32 (viewer_toolkit N)))
        else ret (NPERR_INVALID_PARAM, None)))"

definition invoke_NPN_SetValue ::
  "(('h, 'z) np_process_scheme, np_value, 'y) rpc_env_scheme \<Rightarrow> cptr \<Rightarrow> uint32 \<Rightarrow> cptr \<Rightarrow>
     (('h, 'z) np_process_scheme, NPError) op"
where
  "invoke_NPN_SetValue R plugin variable v =
     (if rpc_type_of_NPPVariable (c_int variable) \<noteq> RPC_TYPE_BOOLEAN then ret NPERR_INVALID_PARAM
      else bind_op (remote_call R RPC_METHOD_NPN_SET_VALUE
        [np_instance plugin, Uint32 variable, Boolean (ucast v)] [P_type RPC_TYPE_INT32])
        (\<lambda>r. ret (answer_error r)))"

definition g_NPN_SetValue ::
  "'s request_env \<Rightarrow> (('h, 'z) np_process_scheme, 'h) npv_env \<Rightarrow> (('h, 'z) np_process_scheme, np_value, 'y) rpc_env_scheme \<Rightarrow>
     cptr \<Rightarrow> uint32 \<Rightarrow> cptr \<Rightarrow> (('h, 'z) np_process_scheme, NPError) op"
where
  "g_NPN_SetValue N E R npp variable v = on_instance N E npp NPERR_INVALID_INSTANCE_ERROR (\<lambda>plugin.
     holding E plugin (invoke_NPN_SetValue R plugin variable v))"

subsection \<open>The user agent, the status line, drawing, pop-ups\<close>

definition invoke_NPN_UserAgent ::
  "(('h, 'z) np_process_scheme, np_value, 'y) rpc_env_scheme \<Rightarrow> (('h, 'z) np_process_scheme, c_string) op"
where
  "invoke_NPN_UserAgent R =
     bind_op (remote_call R RPC_METHOD_NPN_USER_AGENT [] [P_type RPC_TYPE_STRING])
       (\<lambda>r. ret (case r of Some [a] \<Rightarrow> as_string a | _ \<Rightarrow> None))"

definition g_NPN_UserAgent ::
  "'s request_env \<Rightarrow> (('h, 'z) np_viewer_scheme, np_value, 'y) rpc_env_scheme \<Rightarrow> cptr \<Rightarrow>
     (('h, 'z) np_viewer_scheme, c_string) op"
where
  "g_NPN_UserAgent N R npp =
     (if \<not> main_thread N then ret None
      else bind_op (gets g_user_agent) (\<lambda>known.
        if known \<noteq> None then ret known
        else bind_op (invoke_NPN_UserAgent R) (\<lambda>user_agent.
          then_op (modify_state (\<lambda>s. s\<lparr>g_user_agent := user_agent\<rparr>)) (ret user_agent))))"

definition invoke_NPN_Status ::
  "(('h, 'z) np_process_scheme, np_value, 'y) rpc_env_scheme \<Rightarrow> cptr \<Rightarrow> c_string \<Rightarrow> (('h, 'z) np_process_scheme, unit) op"
where
  "invoke_NPN_Status R plugin msg =
     then_op (remote_call R RPC_METHOD_NPN_STATUS [np_instance plugin, Str msg] []) (ret ())"

definition g_NPN_Status ::
  "'s request_env \<Rightarrow> (('h, 'z) np_process_scheme, 'h) npv_env \<Rightarrow> (('h, 'z) np_process_scheme, np_value, 'y) rpc_env_scheme \<Rightarrow>
     cptr \<Rightarrow> c_string \<Rightarrow> (('h, 'z) np_process_scheme, unit) op"
where
  "g_NPN_Status N E R npp msg =
     (if \<not> main_thread N then ret ()
      else bind_op (instance_or_null E npp) (\<lambda>plugin. holding E plugin (invoke_NPN_Status R plugin msg)))"

definition invoke_NPN_InvalidateRect ::
  "(('h, 'z) np_process_scheme, np_value, 'y) rpc_env_scheme \<Rightarrow> cptr \<Rightarrow> NPRect \<Rightarrow> (('h, 'z) np_process_scheme, unit) op"
where
  "invoke_NPN_InvalidateRect R plugin rect =
     then_op (remote_call R RPC_METHOD_NPN_INVALIDATE_RECT [np_instance plugin, User RPC_TYPE_NP_RECT (NV_rect rect)] [])
       (ret ())"

definition g_NPN_InvalidateRect ::
  "'s request_env \<Rightarrow> (('h, 'z) np_process_scheme, 'h) npv_env \<Rightarrow> (('h, 'z) np_process_scheme, np_value, 'y) rpc_env_scheme \<Rightarrow>
     cptr \<Rightarrow> NPRect option \<Rightarrow> (('h, 'z) np_process_scheme, unit) op"
where
  "g_NPN_InvalidateRect N E R npp invalidRect = on_instance N E npp () (\<lambda>plugin.
     case invalidRect of None \<Rightarrow> ret () | Some rect \<Rightarrow> holding E plugin (invoke_NPN_InvalidateRect R plugin rect))"

definition invoke_NPN_PushPopupsEnabledState ::
  "(('h, 'z) np_process_scheme, np_value, 'y) rpc_env_scheme \<Rightarrow> cptr \<Rightarrow> byte \<Rightarrow> (('h, 'z) np_process_scheme, unit) op"
where
  "invoke_NPN_PushPopupsEnabledState R plugin enabled =
     then_op (remote_call R RPC_METHOD_NPN_PUSH_POPUPS_ENABLED_STATE [np_instance plugin, Uint32 (ucast enabled)] [])
       (ret ())"

definition g_NPN_PushPopupsEnabledState ::
  "'s request_env \<Rightarrow> (('h, 'z) np_process_scheme, 'h) npv_env \<Rightarrow> (('h, 'z) np_process_scheme, np_value, 'y) rpc_env_scheme \<Rightarrow>
     cptr \<Rightarrow> byte \<Rightarrow> (('h, 'z) np_process_scheme, unit) op"
where
  "g_NPN_PushPopupsEnabledState N E R npp enabled = on_instance N E npp () (\<lambda>plugin.
     holding E plugin (invoke_NPN_PushPopupsEnabledState R plugin enabled))"

definition invoke_NPN_PopPopupsEnabledState ::
  "(('h, 'z) np_process_scheme, np_value, 'y) rpc_env_scheme \<Rightarrow> cptr \<Rightarrow> (('h, 'z) np_process_scheme, unit) op"
where
  "invoke_NPN_PopPopupsEnabledState R plugin =
     then_op (remote_call R RPC_METHOD_NPN_POP_POPUPS_ENABLED_STATE [np_instance plugin] []) (ret ())"

definition g_NPN_PopPopupsEnabledState ::
  "'s request_env \<Rightarrow> (('h, 'z) np_process_scheme, 'h) npv_env \<Rightarrow> (('h, 'z) np_process_scheme, np_value, 'y) rpc_env_scheme \<Rightarrow>
     cptr \<Rightarrow> (('h, 'z) np_process_scheme, unit) op"
where
  "g_NPN_PopPopupsEnabledState N E R npp = on_instance N E npp () (\<lambda>plugin.
     holding E plugin (invoke_NPN_PopPopupsEnabledState R plugin))"

subsection \<open>Streams\<close>

definition invoke_NPN_RequestRead ::
  "(('h, 'z) np_process_scheme, np_value, 'y) rpc_env_scheme \<Rightarrow> cptr \<Rightarrow> NPByteRange list \<Rightarrow>
     (('h, 'z) np_process_scheme, NPError) op"
where
  "invoke_NPN_RequestRead R st rangeList =
     bind_op (remote_call R RPC_METHOD_NPN_REQUEST_READ
       [np_stream st, User RPC_TYPE_NP_BYTE_RANGE (NV_ranges rangeList)] [P_type RPC_TYPE_INT32])
       (\<lambda>r. ret (answer_error r))"

definition g_NPN_RequestRead ::
  "'s request_env \<Rightarrow> (('h, 'z) np_process_scheme, np_value, 'y) rpc_env_scheme \<Rightarrow> cptr \<Rightarrow> NPByteRange list \<Rightarrow>
     (('h, 'z) np_process_scheme, NPError) op"
where
  "g_NPN_RequestRead N R st rangeList =
     (if \<not> main_thread N then ret NPERR_INVALID_INSTANCE_ERROR
      else if st = 0 then ret NPERR_INVALID_PARAM
      else bind_op (deref np_streams st) (\<lambda>ndata.
        if ndata = 0 \<or> rangeList = [] then ret NPERR_INVALID_PARAM
        else invoke_NPN_RequestRead R st rangeList))"

text \<open>
  A stream the browser has made gets a stream of the viewer with the browser's identifier. The result
  is the error and what is stored in \<open>*pstream\<close>, if anything is.
\<close>

definition make_stream ::
  "('h, 'z) np_side_scheme request_env \<Rightarrow> (('h, 'z) np_side_scheme, 'h) npv_env \<Rightarrow> uint32 \<Rightarrow> NPStream \<Rightarrow>
     (('h, 'z) np_side_scheme, cptr option) op"
where
  "make_stream N E i st =
     bind_op (gets (new_stream_addr N)) (\<lambda>p.
     bind_op (gets (new_instance_addr N)) (\<lambda>ndata.
       if p = 0 \<or> ndata = 0 then ret None
       else
         then_op (modify_state (\<lambda>s. put_stream p (Some ndata) (s\<lparr>stream_data := (stream_data s)(p := Some st)\<rparr>)))
         (then_op (modify_state (\<lambda>s. put_stream_instance ndata
              (Some \<lparr>si_stream = p, si_stream_id = i, si_is_plugin_stream = 1\<rparr>)
              (s\<lparr>ids := id_link (hash E) i ndata (ids s)\<rparr>)))
           (ret (Some p)))))"

definition invoke_NPN_NewStream ::
  "('h, 'z) np_side_scheme request_env \<Rightarrow> (('h, 'z) np_side_scheme, 'h) npv_env \<Rightarrow>
     (('h, 'z) np_side_scheme, np_value, 'y) rpc_env_scheme \<Rightarrow> cptr \<Rightarrow> c_string \<Rightarrow> c_string \<Rightarrow>
     (('h, 'z) np_side_scheme, NPError \<times> cptr option) op"
where
  "invoke_NPN_NewStream N E R plugin mime target =
     remote_then R RPC_METHOD_NPN_NEW_STREAM [np_instance plugin, Str mime, Str target]
       (NPERR_GENERIC_ERROR, None) (NPERR_OUT_OF_MEMORY_ERROR, None)
       (bind_op (remote_wait R [P_type RPC_TYPE_INT32, P_type RPC_TYPE_UINT32, P_type RPC_TYPE_STRING,
            P_type RPC_TYPE_UINT32, P_type RPC_TYPE_UINT32, P_type RPC_TYPE_NP_NOTIFY_DATA, P_type RPC_TYPE_STRING]) (\<lambda>r.
          case r of
            Some [a, i, url, end, lastmodified, notifyData, headers] \<Rightarrow>
              if as_int32 a = 0
              then bind_op (make_stream N E (as_uint32 i) \<lparr>st_url = as_string url, st_end = as_uint32 end,
                     st_lastmodified = as_uint32 lastmodified, st_notifyData = as_notify notifyData,
                     st_headers = as_string headers\<rparr>) (\<lambda>p.
                   case p of None \<Rightarrow> ret (NPERR_OUT_OF_MEMORY_ERROR, None) | Some st \<Rightarrow> ret (NPERR_NO_ERROR, Some st))
              else ret (ucast (as_int32 a), Some 0)
          | _ \<Rightarrow> ret (NPERR_GENERIC_ERROR, None)))"

text \<open>\<open>out\<close>: there is a result parameter; it is cleared first, so it is \<open>NULL\<close> unless a stream is made.\<close>

definition g_NPN_NewStream ::
  "('h, 'z) np_side_scheme request_env \<Rightarrow> (('h, 'z) np_side_scheme, 'h) npv_env \<Rightarrow>
     (('h, 'z) np_side_scheme, np_value, 'y) rpc_env_scheme \<Rightarrow> cptr \<Rightarrow> c_string \<Rightarrow> c_string \<Rightarrow> bool \<Rightarrow>
     (('h, 'z) np_side_scheme, NPError \<times> cptr option) op"
where
  "g_NPN_NewStream N E R npp mime target out =
     on_instance N E npp (NPERR_INVALID_INSTANCE_ERROR, None) (\<lambda>plugin.
       if \<not> out then ret (NPERR_INVALID_PARAM, None)
       else bind_op (holding E plugin (invoke_NPN_NewStream N E R plugin mime target)) (\<lambda>(e, p). ret
         (e, Some (case p of None \<Rightarrow> 0 | Some st \<Rightarrow> st))))"

definition invoke_NPN_DestroyStream ::
  "(('h, 'z) np_process_scheme, np_value, 'y) rpc_env_scheme \<Rightarrow> cptr \<Rightarrow> cptr \<Rightarrow> NPError \<Rightarrow>
     (('h, 'z) np_process_scheme, NPError) op"
where
  "invoke_NPN_DestroyStream R plugin st reason =
     bind_op (remote_call R RPC_METHOD_NPN_DESTROY_STREAM
       [np_instance plugin, np_stream st, Int32 (scast reason)] [P_type RPC_TYPE_INT32])
       (\<lambda>r. ret (answer_error r))"

text \<open>The stream is the plugin's to free when the plugin made it, whatever the browser answers.\<close>

definition free_plugin_stream ::
  "(('h, 'z) np_side_scheme, 'h) npv_env \<Rightarrow> cptr \<Rightarrow> (('h, 'z) np_side_scheme, unit) op"
where
  "free_plugin_stream E st = bind_op (deref np_streams st) (\<lambda>ndata.
     if ndata = 0 then ret ()
     else bind_op (deref stream_instances ndata) (\<lambda>si.
       if si_is_plugin_stream si = 0 then ret ()
       else then_op (modify_state (\<lambda>s. s\<lparr>ids := snd (id_remove (hash E) (si_stream_id si) (ids s))\<rparr>))
         (modify_state (\<lambda>s. put_stream st None (put_stream_instance ndata None
            (s\<lparr>stream_data := (stream_data s)(st := None)\<rparr>))))))"

definition g_NPN_DestroyStream ::
  "'s request_env \<Rightarrow> (('h, 'z) np_side_scheme, 'h) npv_env \<Rightarrow> (('h, 'z) np_side_scheme, np_value, 'y) rpc_env_scheme \<Rightarrow>
     cptr \<Rightarrow> cptr \<Rightarrow> NPError \<Rightarrow> (('h, 'z) np_side_scheme, NPError) op"
where
  "g_NPN_DestroyStream N E R npp st reason = on_instance N E npp NPERR_INVALID_INSTANCE_ERROR (\<lambda>plugin.
     if st = 0 then ret NPERR_INVALID_PARAM
     else bind_op (holding E plugin (invoke_NPN_DestroyStream R plugin st reason)) (\<lambda>e.
       then_op (free_plugin_stream E st) (ret e)))"

definition invoke_NPN_Write ::
  "(('h, 'z) np_process_scheme, np_value, 'y) rpc_env_scheme \<Rightarrow> cptr \<Rightarrow> cptr \<Rightarrow> int32 \<Rightarrow> byte list option \<Rightarrow>
     (('h, 'z) np_process_scheme, int32) op"
where
  "invoke_NPN_Write R plugin st len buf =
     bind_op (remote_call R RPC_METHOD_NPN_WRITE
       [np_instance plugin, np_stream st, char_array len buf] [P_type RPC_TYPE_INT32])
       (\<lambda>r. ret (case r of Some [a] \<Rightarrow> as_int32 a | _ \<Rightarrow> - 1))"

definition g_NPN_Write ::
  "'s request_env \<Rightarrow> (('h, 'z) np_process_scheme, 'h) npv_env \<Rightarrow> (('h, 'z) np_process_scheme, np_value, 'y) rpc_env_scheme \<Rightarrow>
     cptr \<Rightarrow> cptr \<Rightarrow> int32 \<Rightarrow> byte list option \<Rightarrow> (('h, 'z) np_process_scheme, int32) op"
where
  "g_NPN_Write N E R npp st len buf = on_instance N E npp (- 1) (\<lambda>plugin.
     if st = 0 then ret (- 1) else holding E plugin (invoke_NPN_Write R plugin st len buf))"

end
