(* ===== verification/Npp_Timers.thy ===== *)
theory Npp_Timers
  imports Np_Requests
begin

text \<open>
  Asynchronous calls and timers of the viewer (\<^verbatim>\<open>npw-viewer.c\<close>): \<open>NPN_PluginThreadAsyncCall\<close>,
  \<open>NPN_ScheduleTimer\<close>, \<open>NPN_UnscheduleTimer\<close> and the call-backs GLib's main loop runs for them, which hold
  references to the plugin instance they are for.
\<close>

subsection \<open>State\<close>

record Timer =
  t_repeat :: bool
  t_func :: code_ptr
  t_source_id :: uint32

text \<open>
  What a source of the main loop was given as its data: an \<open>AsyncCall\<close> (plugin, function, user data) or a
  \<open>TimerData\<close> (timer, plugin), and its interval in milliseconds, \<open>None\<close> for an idle source. A source that is removed while its call-back runs goes away when that returns.
\<close>

datatype main_data = Async_call cptr code_ptr cptr | Timer_data uint32 cptr

record main_source =
  src_data :: main_data
  src_delay :: "uint32 option"
  src_running :: bool
  src_removed :: bool

text \<open>A window of the toolkit: the GTK container and socket, or the Xt window of the browser and the two widgets.\<close>

datatype toolkit = Gtk_data cptr cptr | Xt_data cptr cptr cptr

text \<open>
  The members the viewer's \<open>PluginInstance\<close> adds to an instance, by the address of the instance, and the
  static variables of the viewer. The window is \<open>plugin->window\<close>; \<open>browser_has\<close> tells which members of
  \<open>mozilla_funcs\<close> are set.
\<close>

record 'h npp_side = "'h np_viewer" +
  timers :: "cptr \<Rightarrow> 'h option"
  next_timer_id :: "cptr \<Rightarrow> uint32"
  timer_heap :: "cptr \<Rightarrow> Timer option"
  main_sources :: "uint32 \<Rightarrow> main_source option"
  use_xembed :: "cptr \<Rightarrow> bool"
  is_windowless :: "cptr \<Rightarrow> bool"
  inst_window :: "cptr \<Rightarrow> NPWindow"
  size_hint :: "cptr \<Rightarrow> uint32 \<times> uint32"
  toolkit_data :: "cptr \<Rightarrow> toolkit option"
  xt_source :: bool
  xt_source_count :: int
  browser_has :: "nat \<Rightarrow> bool"
  g_is_running :: bool

text \<open>The functions of the plugin behind the pointers, the addresses of timers and the numbers of sources.\<close>

record 's timer_env =
  call_timer :: "code_ptr \<Rightarrow> cptr \<Rightarrow> uint32 \<Rightarrow> ('s, unit) op"
  call_async :: "code_ptr \<Rightarrow> cptr \<Rightarrow> ('s, unit) op"
  new_timer_addr :: "'s \<Rightarrow> cptr"
  new_source_id :: "'s \<Rightarrow> uint32"

definition put_timer :: "cptr \<Rightarrow> Timer option \<Rightarrow> ('h, 'z) npp_side_scheme \<Rightarrow> ('h, 'z) npp_side_scheme" where
  "put_timer a x s = s\<lparr>timer_heap := (timer_heap s)(a := x)\<rparr>"

definition put_source :: "uint32 \<Rightarrow> main_source option \<Rightarrow> ('h, 'z) npp_side_scheme \<Rightarrow> ('h, 'z) npp_side_scheme" where
  "put_source i x s = s\<lparr>main_sources := (main_sources s)(i := x)\<rparr>"

definition put_timers :: "cptr \<Rightarrow> 'h option \<Rightarrow> ('h, 'z) npp_side_scheme \<Rightarrow> ('h, 'z) npp_side_scheme" where
  "put_timers p x s = s\<lparr>timers := (timers s)(p := x)\<rparr>"

subsection \<open>Sources\<close>

definition async_call_free ::
  "(('h, 'z) npp_side_scheme, 'h) npv_env \<Rightarrow> cptr \<Rightarrow> (('h, 'z) npp_side_scheme, unit) op"
where
  "async_call_free E plugin = npw_plugin_instance_unref (np_env.truncate E) plugin"

definition timer_data_free ::
  "(('h, 'z) npp_side_scheme, 'h) npv_env \<Rightarrow> cptr \<Rightarrow> (('h, 'z) npp_side_scheme, unit) op"
where
  "timer_data_free E plugin = npw_plugin_instance_unref (np_env.truncate E) plugin"

fun free_main_data ::
  "(('h, 'z) npp_side_scheme, 'h) npv_env \<Rightarrow> main_data \<Rightarrow> (('h, 'z) npp_side_scheme, unit) op"
where
  "free_main_data E (Async_call plugin f userData) = async_call_free E plugin"
| "free_main_data E (Timer_data timer_id plugin) = timer_data_free E plugin"

text \<open>
  \<open>g_idle_add_full\<close> and \<open>g_timeout_add_full\<close>; \<open>g_source_remove\<close>, which does nothing when there is no such
  source any more.
\<close>

definition add_source ::
  "('h, 'z) npp_side_scheme timer_env \<Rightarrow> uint32 option \<Rightarrow> main_data \<Rightarrow> (('h, 'z) npp_side_scheme, uint32) op"
where
  "add_source T delay d = bind_op (gets (new_source_id T)) (\<lambda>i.
     then_op (modify_state (put_source i (Some \<lparr>src_data = d, src_delay = delay, src_running = False, src_removed = False\<rparr>))) (ret i))"

definition g_source_remove ::
  "(('h, 'z) npp_side_scheme, 'h) npv_env \<Rightarrow> uint32 \<Rightarrow> (('h, 'z) npp_side_scheme, unit) op"
where
  "g_source_remove E i = bind_op (gets (\<lambda>s. main_sources s i)) (\<lambda>x.
     case x of
       None \<Rightarrow> ret ()
     | Some src \<Rightarrow>
         if src_running src then modify_state (put_source i (Some (src\<lparr>src_removed := True\<rparr>)))
         else then_op (modify_state (put_source i None)) (free_main_data E (src_data src)))"

subsection \<open>Asynchronous calls\<close>

definition async_call_run ::
  "('h, 'z) npp_side_scheme timer_env \<Rightarrow> cptr \<Rightarrow> code_ptr \<Rightarrow> cptr \<Rightarrow> (('h, 'z) npp_side_scheme, bool) op"
where
  "async_call_run T plugin f userData = bind_op (npw_plugin_instance_is_valid plugin) (\<lambda>valid.
     then_op (if valid then call_async T f userData else ret ()) (ret False))"

definition g_NPN_PluginThreadAsyncCall ::
  "('h, 'z) npp_side_scheme timer_env \<Rightarrow> (('h, 'z) npp_side_scheme, 'h) npv_env \<Rightarrow> cptr \<Rightarrow> code_ptr \<Rightarrow> cptr \<Rightarrow>
     (('h, 'z) npp_side_scheme, unit) op"
where
  "g_NPN_PluginThreadAsyncCall T E npp f userData =
     (if npp = 0 then ret ()
      else bind_op (npw_get_plugin_instance (np_env.truncate E) npp) (\<lambda>plugin.
        if plugin = 0 then ret ()
        else bind_op (npw_plugin_instance_ref plugin) (\<lambda>held.
          then_op (add_source T None (Async_call held f userData)) (ret ()))))"

subsection \<open>Timers\<close>

definition timer_free ::
  "(('h, 'z) npp_side_scheme, 'h) npv_env \<Rightarrow> cptr \<Rightarrow> (('h, 'z) npp_side_scheme, unit) op"
where
  "timer_free E a = bind_op (deref timer_heap a) (\<lambda>t.
     then_op (if t_source_id t = 0 then ret () else g_source_remove E (t_source_id t))
       (modify_state (put_timer a None)))"

text \<open>
  The table of an instance owns its timers: a timer that is replaced or removed is freed. GLib's argument
  check answers an instance without a table.
\<close>

definition free_entry ::
  "(('h, 'z) npp_side_scheme, 'h) npv_env \<Rightarrow> cptr \<Rightarrow> (('h, 'z) npp_side_scheme, unit) op"
where
  "free_entry E a = (if a = 0 then ret () else timer_free E a)"

definition insert_timer ::
  "(('h, 'z) npp_side_scheme, 'h) npv_env \<Rightarrow> cptr \<Rightarrow> uint32 \<Rightarrow> cptr \<Rightarrow> (('h, 'z) npp_side_scheme, unit) op"
where
  "insert_timer E plugin i a = bind_op (gets (\<lambda>s. timers s plugin)) (\<lambda>t.
     then_op (modify_state (put_timers plugin (tab_insert (hash E) (id_key i) a t)))
       (free_entry E (tab_lookup (hash E) (id_key i) t)))"

definition remove_timer ::
  "(('h, 'z) npp_side_scheme, 'h) npv_env \<Rightarrow> cptr \<Rightarrow> uint32 \<Rightarrow> (('h, 'z) npp_side_scheme, unit) op"
where
  "remove_timer E plugin i = bind_op (gets (\<lambda>s. timers s plugin)) (\<lambda>t.
     then_op (modify_state (put_timers plugin (snd (tab_remove (hash E) (id_key i) t))))
       (free_entry E (tab_lookup (hash E) (id_key i) t)))"

text \<open>
  The call-back of a timer. After the plugin's function has run, \<open>repeat\<close> is read from the timer that
  was found before, which the function may have freed.
\<close>

definition timer_data_run ::
  "('h, 'z) npp_side_scheme timer_env \<Rightarrow> (('h, 'z) npp_side_scheme, 'h) npv_env \<Rightarrow> uint32 \<Rightarrow> cptr \<Rightarrow>
     (('h, 'z) npp_side_scheme, bool) op"
where
  "timer_data_run T E timer_id plugin = bind_op (npw_plugin_instance_is_valid plugin) (\<lambda>valid.
     if \<not> valid then ret False
     else bind_op (gets (\<lambda>s. tab_lookup (hash E) (id_key timer_id) (timers s plugin))) (\<lambda>a.
       if a = 0 then ret False
       else bind_op (deref timer_heap a) (\<lambda>t.
         bind_op (npw_get_plugin_instance_npp plugin) (\<lambda>npp.
         then_op (call_timer T (t_func t) npp timer_id)
         (bind_op (deref timer_heap a) (\<lambda>t'.
            if \<not> t_repeat t' then then_op (modify_state (put_timer a (Some (t'\<lparr>t_source_id := 0\<rparr>)))) (ret False)
            else ret True))))))"

text \<open>The result of the first two checks is an error code, although the function returns a timer.\<close>

definition g_NPN_ScheduleTimer ::
  "'s request_env \<Rightarrow> ('h, 'z) npp_side_scheme timer_env \<Rightarrow> (('h, 'z) npp_side_scheme, 'h) npv_env \<Rightarrow>
     cptr \<Rightarrow> uint32 \<Rightarrow> byte \<Rightarrow> code_ptr \<Rightarrow> (('h, 'z) npp_side_scheme, uint32) op"
where
  "g_NPN_ScheduleTimer N T E npp interval repeat timerFunc =
     on_instance N E npp (ucast NPERR_INVALID_INSTANCE_ERROR) (\<lambda>plugin.
       bind_op (gets (\<lambda>s. next_timer_id s plugin)) (\<lambda>timer_id.
       then_op (modify_state (\<lambda>s. s\<lparr>next_timer_id := (next_timer_id s)(plugin := timer_id + 1)\<rparr>))
       (bind_op (gets (new_timer_addr T)) (\<lambda>a.
       then_op (modify_state (put_timer a (Some \<lparr>t_repeat = (repeat \<noteq> 0), t_func = timerFunc, t_source_id = 0\<rparr>)))
       (then_op (insert_timer E plugin timer_id a)
       (bind_op (npw_plugin_instance_ref plugin) (\<lambda>held.
        bind_op (add_source T (Some interval) (Timer_data timer_id held)) (\<lambda>i.
        bind_op (deref timer_heap a) (\<lambda>t.
        then_op (modify_state (put_timer a (Some (t\<lparr>t_source_id := i\<rparr>)))) (ret timer_id))))))))))"

definition g_NPN_UnscheduleTimer ::
  "'s request_env \<Rightarrow> (('h, 'z) npp_side_scheme, 'h) npv_env \<Rightarrow> cptr \<Rightarrow> uint32 \<Rightarrow> (('h, 'z) npp_side_scheme, unit) op"
where
  "g_NPN_UnscheduleTimer N E npp timer_id = on_instance N E npp () (\<lambda>plugin. remove_timer E plugin timer_id)"

subsection \<open>The main loop\<close>

text \<open>
  One dispatch of source \<open>i\<close>: its call-back runs, and the source goes away, with its data, when the
  call-back returns \<open>FALSE\<close> or has removed it. A source that is running is not dispatched again.
\<close>

fun run_callback ::
  "('h, 'z) npp_side_scheme timer_env \<Rightarrow> (('h, 'z) npp_side_scheme, 'h) npv_env \<Rightarrow> main_data \<Rightarrow>
     (('h, 'z) npp_side_scheme, bool) op"
where
  "run_callback T E (Async_call plugin f userData) = async_call_run T plugin f userData"
| "run_callback T E (Timer_data timer_id plugin) = timer_data_run T E timer_id plugin"

definition dispatch_source ::
  "('h, 'z) npp_side_scheme timer_env \<Rightarrow> (('h, 'z) npp_side_scheme, 'h) npv_env \<Rightarrow> uint32 \<Rightarrow>
     (('h, 'z) npp_side_scheme, unit) op"
where
  "dispatch_source T E i = bind_op (gets (\<lambda>s. main_sources s i)) (\<lambda>x.
     case x of
       None \<Rightarrow> ret ()
     | Some src \<Rightarrow>
         if src_running src then ret ()
         else
           then_op (modify_state (put_source i (Some (src\<lparr>src_running := True\<rparr>))))
           (bind_op (run_callback T E (src_data src)) (\<lambda>again.
            bind_op (gets (\<lambda>s. main_sources s i)) (\<lambda>y.
              if again \<and> \<not> (case y of None \<Rightarrow> False | Some src' \<Rightarrow> src_removed src')
              then modify_state (put_source i (Some src))
              else then_op (modify_state (put_source i None)) (free_main_data E (src_data src))))))"

end
