(* ===== verification/Npp_Window.thy ===== *)
theory Npp_Window
  imports Npp_Timers
begin

text \<open>
  The window of a plugin instance in the viewer (\<^verbatim>\<open>npw-viewer.c\<close>, "Window utilities") and the functions
  of the class of instances: what an instance owns and what becomes of it when it is invalidated
  (\<open>NPP_Destroy\<close>) and finalized (the last reference).
\<close>

subsection \<open>The toolkit\<close>

text \<open>
  GDK, GTK, Xt and X are outside; a widget is known by a pointer. \<open>new_gtk\<close> makes the container and the
  socket for a window of the browser and gives the socket's window, \<open>new_xt\<close> the shell and the form for it
  and gives the form's window. \<open>ws_memory\<close> and \<open>toolkit_memory\<close> are the answers of the two allocations.
\<close>

record 's toolkit_env =
  gdkx_visual_get :: "cptr \<Rightarrow> cptr"
  gdk_visual_get_system :: cptr
  gdk_x11_visual_get_xvisual :: "cptr \<Rightarrow> cptr"
  XGetWindowAttributes :: "'s \<Rightarrow> cptr \<Rightarrow> (uint32 \<times> uint32) option"
  new_gtk :: "cptr \<Rightarrow> uint32 \<Rightarrow> uint32 \<Rightarrow> ('s, cptr \<times> cptr \<times> cptr) op"
  new_xt :: "NPWindow \<Rightarrow> NPSetWindowCallbackStruct \<Rightarrow> ('s, cptr \<times> cptr \<times> cptr) op"
  XtResizeWidget :: "cptr \<Rightarrow> uint32 \<Rightarrow> uint32 \<Rightarrow> ('s, unit) op"
  destroy_gtk :: "cptr \<Rightarrow> ('s, unit) op"
  destroy_xt :: "cptr \<Rightarrow> ('s, unit) op"
  ws_memory :: "'s \<Rightarrow> bool"
  toolkit_memory :: "'s \<Rightarrow> bool"
  source_memory :: "'s \<Rightarrow> bool"

abbreviation (input) NPWindowTypeDrawable :: int32 where "NPWindowTypeDrawable \<equiv> 2"

definition put_window :: "cptr \<Rightarrow> NPWindow \<Rightarrow> ('h, 'z) npp_side_scheme \<Rightarrow> ('h, 'z) npp_side_scheme" where
  "put_window p w s = s\<lparr>inst_window := (inst_window s)(p := w)\<rparr>"

definition put_toolkit :: "cptr \<Rightarrow> toolkit option \<Rightarrow> ('h, 'z) npp_side_scheme \<Rightarrow> ('h, 'z) npp_side_scheme" where
  "put_toolkit p x s = s\<lparr>toolkit_data := (toolkit_data s)(p := x)\<rparr>"

subsection \<open>Creating a window\<close>

text \<open>The visual of the screen and the display, \<open>None\<close> when there is no such visual.\<close>

definition create_window_attributes ::
  "'s request_env \<Rightarrow> 's toolkit_env \<Rightarrow> NPSetWindowCallbackStruct \<Rightarrow> NPSetWindowCallbackStruct option"
where
  "create_window_attributes N X ws =
     (let visual = (if ws_visual ws \<noteq> 0 then gdkx_visual_get X (ws_visual ws) else gdk_visual_get_system X) in
      if visual = 0 then None
      else Some (ws\<lparr>ws_display := x_display N, ws_visual := gdk_x11_visual_get_xvisual X visual\<rparr>))"

definition destroy_window_attributes :: "cptr \<Rightarrow> (('h, 'z) npp_side_scheme, unit) op" where
  "destroy_window_attributes p = modify_state (\<lambda>s. put_window p ((inst_window s p)\<lparr>win_ws_info := None\<rparr>) s)"

text \<open>A window without size gets that of the \<open>EMBED\<close> arguments, or else the one X knows.\<close>

definition fixup_size_hints ::
  "('h, 'z) npp_side_scheme toolkit_env \<Rightarrow> cptr \<Rightarrow> (('h, 'z) npp_side_scheme, unit) op"
where
  "fixup_size_hints X p = modify_state (\<lambda>s.
     let w = inst_window s p; (width, height) = size_hint s p; unknown = (win_width w = 0 \<or> win_height w = 0) in
     if unknown \<and> width \<noteq> 0 \<and> height \<noteq> 0 then put_window p (w\<lparr>win_width := width, win_height := height\<rparr>) s
     else if win_window w \<noteq> 0 \<and> unknown then
       (case XGetWindowAttributes X s (win_window w) of
          Some (width', height') \<Rightarrow>
            (put_window p (w\<lparr>win_width := width', win_height := height'\<rparr>) s)
              \<lparr>size_hint := (size_hint s)(p := (width', height'))\<rparr>
        | None \<Rightarrow> s)
     else s)"

text \<open>
  The window of the browser becomes \<open>plugin->window\<close>, with attributes of its own; a window that is not
  windowless gets widgets, and is replaced by the inner one. The result tells whether all went well.
  \<open>NPW_MemClone\<close> of no attributes is an invalid access.
\<close>

definition make_toolkit ::
  "('h, 'z) npp_side_scheme toolkit_env \<Rightarrow> cptr \<Rightarrow> NPSetWindowCallbackStruct \<Rightarrow> (('h, 'z) npp_side_scheme, bool) op"
where
  "make_toolkit X p ws = bind_op (gets (toolkit_memory X)) (\<lambda>mem.
     if \<not> mem then ret False
     else bind_op (gets (\<lambda>s. (inst_window s p, use_xembed s p))) (\<lambda>(w, xembed).
       bind_op
         (if xembed then bind_op (new_gtk X (win_window w) (win_width w) (win_height w)) (\<lambda>(c, k, inner). ret (Gtk_data c k, inner))
          else bind_op (new_xt X w ws) (\<lambda>(shell, form, inner). ret (Xt_data (win_window w) shell form, inner))) (\<lambda>(t, inner).
       then_op (modify_state (\<lambda>s. put_toolkit p (Some t) (put_window p ((inst_window s p)\<lparr>win_window := inner\<rparr>) s)))
         (ret True))))"

definition create_window ::
  "('h, 'z) npp_side_scheme request_env \<Rightarrow> ('h, 'z) npp_side_scheme toolkit_env \<Rightarrow> cptr \<Rightarrow> NPWindow \<Rightarrow>
     (('h, 'z) npp_side_scheme, bool) op"
where
  "create_window N X p window =
     bind_op (gets (\<lambda>s. is_windowless s p)) (\<lambda>windowless.
     then_op (if windowless then destroy_window_attributes p else ret ())
     (bind_op (gets (\<lambda>s. win_ws_info (inst_window s p))) (\<lambda>old.
     then_op (assert_op (old = None))
     (bind_op (gets (ws_memory X)) (\<lambda>mem.
        if \<not> mem then ret False
        else
          (case win_ws_info window of
             None \<Rightarrow> crash Out_of_bounds
           | Some given \<Rightarrow>
               (case create_window_attributes N X given of
                  None \<Rightarrow> ret False
                | Some ws \<Rightarrow>
                    then_op (modify_state (put_window p (window\<lparr>win_ws_info := Some ws\<rparr>)))
                    (then_op (fixup_size_hints X p)
                      (if windowless then ret True else make_toolkit X p ws)))))))))"

subsection \<open>Changing and destroying it\<close>

text \<open>
  The attributes of an instance with a window are overwritten in place; storing into none is an invalid
  access. Attributes that could not be reconstructed stay as the browser sent them.
\<close>

definition resize_widgets ::
  "('h, 'z) npp_side_scheme toolkit_env \<Rightarrow> toolkit option \<Rightarrow> uint32 \<Rightarrow> uint32 \<Rightarrow> (('h, 'z) npp_side_scheme, unit) op"
where
  "resize_widgets X t width height =
     (case t of
        Some (Xt_data bw shell form) \<Rightarrow>
          then_op (if form \<noteq> 0 then XtResizeWidget X form width height else ret ())
            (if shell \<noteq> 0 then XtResizeWidget X shell width height else ret ())
      | _ \<Rightarrow> ret ())"

definition update_window ::
  "('h, 'z) npp_side_scheme request_env \<Rightarrow> ('h, 'z) npp_side_scheme toolkit_env \<Rightarrow> cptr \<Rightarrow> NPWindow \<Rightarrow>
     (('h, 'z) npp_side_scheme, bool) op"
where
  "update_window N X p window =
     bind_op (gets (\<lambda>s. (is_windowless s p, inst_window s p, toolkit_data s p))) (\<lambda>(windowless, w, t).
       if windowless then ret False
       else
         (case win_ws_info window of
            None \<Rightarrow> ret False
          | Some given \<Rightarrow>
              if win_ws_info w = None then crash Out_of_bounds
              else
                (let ws = (case create_window_attributes N X given of Some ws \<Rightarrow> ws | None \<Rightarrow> given);
                     w' = w\<lparr>win_ws_info := Some ws, win_clipRect := win_clipRect window,
                            win_x := win_x window, win_y := win_y window,
                            win_width := win_width window, win_height := win_height window\<rparr>;
                     resized = (win_width w \<noteq> win_width window \<or> win_height w \<noteq> win_height window)
                 in then_op (modify_state (put_window p w'))
                    (then_op (if resized then resize_widgets X t (win_width window) (win_height window) else ret ())
                      (ret True)))))"

definition destroy_toolkit ::
  "('h, 'z) npp_side_scheme toolkit_env \<Rightarrow> toolkit \<Rightarrow> (('h, 'z) npp_side_scheme, unit) op"
where
  "destroy_toolkit X t =
     (case t of
        Gtk_data c k \<Rightarrow> if c \<noteq> 0 then destroy_gtk X c else ret ()
      | Xt_data bw shell form \<Rightarrow> if shell \<noteq> 0 then destroy_xt X shell else ret ())"

definition destroy_window ::
  "('h, 'z) npp_side_scheme toolkit_env \<Rightarrow> cptr \<Rightarrow> (('h, 'z) npp_side_scheme, unit) op"
where
  "destroy_window X p =
     bind_op (gets (\<lambda>s. toolkit_data s p)) (\<lambda>t.
     then_op (case t of None \<Rightarrow> ret () | Some x \<Rightarrow> then_op (destroy_toolkit X x) (modify_state (put_toolkit p None)))
       (destroy_window_attributes p))"

subsection \<open>Events of Xt\<close>

text \<open>One source serves all instances that do not use XEMBED; the result tells whether there is one.\<close>

definition xt_source_create ::
  "('h, 'z) npp_side_scheme toolkit_env \<Rightarrow> (('h, 'z) npp_side_scheme, bool) op"
where
  "xt_source_create X =
     then_op (modify_state (\<lambda>s. s\<lparr>xt_source_count := xt_source_count s + 1\<rparr>))
     (bind_op (gets (\<lambda>s. (1 < xt_source_count s \<and> xt_source s, source_memory X s))) (\<lambda>(there, mem).
        if there then ret True
        else then_op (modify_state (\<lambda>s. s\<lparr>xt_source := mem\<rparr>)) (ret mem)))"

definition xt_source_destroy :: "(('h, 'z) npp_side_scheme, unit) op" where
  "xt_source_destroy =
     then_op (modify_state (\<lambda>s. s\<lparr>xt_source_count := xt_source_count s - 1\<rparr>))
       (modify_state (\<lambda>s. if xt_source_count s < 1 \<and> xt_source s then s\<lparr>xt_source := False\<rparr> else s))"

subsection \<open>The class of instances\<close>

definition no_window :: NPWindow where
  "no_window = \<lparr>win_window = 0, win_x = 0, win_y = 0, win_width = 0, win_height = 0,
     win_clipRect = \<lparr>rect_top = 0, rect_left = 0, rect_bottom = 0, rect_right = 0\<rparr>, win_ws_info = None, win_type = 0\<rparr>"

definition zero_instance :: "cptr \<Rightarrow> ('h, 'z) npp_side_scheme \<Rightarrow> ('h, 'z) npp_side_scheme" where
  "zero_instance p s = s\<lparr>timers := (timers s)(p := None), next_timer_id := (next_timer_id s)(p := 0),
     use_xembed := (use_xembed s)(p := False), is_windowless := (is_windowless s)(p := False),
     inst_window := (inst_window s)(p := no_window), size_hint := (size_hint s)(p := (0, 0)),
     toolkit_data := (toolkit_data s)(p := None), browser_toplevel := (browser_toplevel s)(p := 0)\<rparr>"

definition plugin_instance_allocate ::
  "(('h, 'z) npp_side_scheme, 'h) np_env \<Rightarrow> (('h, 'z) npp_side_scheme, cptr) op"
where
  "plugin_instance_allocate E = bind_op (alloc_instance E) (\<lambda>p.
     then_op (if p = 0 then ret () else modify_state (zero_instance p)) (ret p))"

definition plugin_instance_deallocate :: "cptr \<Rightarrow> (('h, 'z) npp_side_scheme, unit) op" where
  "plugin_instance_deallocate p = modify_state (put_plugin p None)"

text \<open>
  Finalizing frees the \<open>NPP\<close>, the timers and the tables. Invalidating destroys the window and gives up the
  identifier, so that calls for the instance reach the other side with none.
\<close>

definition plugin_instance_finalize ::
  "(('h, 'z) npp_side_scheme, 'h) npv_env \<Rightarrow> cptr \<Rightarrow> (('h, 'z) npp_side_scheme, unit) op"
where
  "plugin_instance_finalize E p =
     then_op (modify_state (\<lambda>s. s\<lparr>browser_toplevel := (browser_toplevel s)(p := 0)\<rparr>))
     (bind_op (deref plugins p) (\<lambda>pl.
      then_op (if pi_instance pl = 0 then ret ()
               else modify_state (\<lambda>s. (put_plugin p (Some (pl\<lparr>pi_instance := 0\<rparr>)) s)\<lparr>npps := (npps s)(pi_instance pl := None)\<rparr>))
      (bind_op (gets (\<lambda>s. timers s p)) (\<lambda>t.
       run_all (case t of None \<Rightarrow> [] | Some h \<Rightarrow> map (\<lambda>(k, a). free_entry E a) (gh_entries (hash E) h))))))"

definition plugin_instance_invalidate ::
  "('h, 'z) npp_side_scheme toolkit_env \<Rightarrow> (('h, 'z) npp_side_scheme, 'h) np_env \<Rightarrow> cptr \<Rightarrow>
     (('h, 'z) npp_side_scheme, unit) op"
where
  "plugin_instance_invalidate X E p =
     then_op (destroy_window X p)
     (bind_op (deref plugins p) (\<lambda>pl.
        if pi_instance_id pl = 0 then ret ()
        else modify_state (\<lambda>s. (put_plugin p (Some (pl\<lparr>pi_instance_id := 0\<rparr>)) s)
          \<lparr>ids := snd (id_remove (hash E) (pi_instance_id pl) (ids s))\<rparr>)))"

end
