(* ===== verification/Npp_Plugin.thy ===== *)
theory Npp_Plugin
  imports Npp_Window
begin

text \<open>
  The viewer's half of the calls a browser makes to the plugin (\<^verbatim>\<open>npw-viewer.c\<close>, "RPC communication"): for
  each function the call of the plugin (\<open>g_NP_...\<close> and \<open>g_NPP_...\<close> of the source, here \<open>viewer_NP_...\<close> and
  \<open>viewer_NPP_...\<close>, as the wrapper has functions of the same names) and the handler of the wrapper's request
  (\<open>handle_NP_...\<close>, \<open>handle_NPP_...\<close>).
\<close>

subsection \<open>The plugin\<close>

text \<open>
  The entry points of the plugin's library and its function table, \<open>None\<close> for what is \<open>NULL\<close>. A function
  with result parameters returns what it stores there. \<open>p_print\<close> is told whether there is a file to print
  to, and returns the structure as it left it and the bytes it has written. The rest is where \<open>malloc\<close> puts an
  \<open>NPP\<close>, the address of \<open>PluginInstanceClass\<close>, whether \<open>tmpfile\<close> gives a file, the address of the
  print call-back structure, and the \<open>invalidate\<close> member of a class of scriptable objects.
\<close>

record 's npp_funcs =
  p_NP_GetMIMEDescription :: "('s, c_string) op option"
  p_NP_GetValue :: "(uint32 \<Rightarrow> np_cell \<Rightarrow> ('s, NPError \<times> np_cell) op) option"
  p_NP_Initialize :: "(uint16 \<Rightarrow> ('s, NPError \<times> uint16) op) option"
  p_NP_Shutdown :: "('s, NPError) op option"
  p_newp :: "(c_string \<Rightarrow> cptr \<Rightarrow> uint16 \<Rightarrow> uint16 \<Rightarrow> c_string list option \<Rightarrow> c_string list option \<Rightarrow> NPSavedData option \<Rightarrow>
    ('s, NPError) op) option"
  p_destroy :: "(cptr \<Rightarrow> ('s, NPError \<times> NPSavedData option) op) option"
  p_setwindow :: "(cptr \<Rightarrow> NPWindow option \<Rightarrow> ('s, NPError) op) option"
  p_newstream :: "(cptr \<Rightarrow> c_string \<Rightarrow> cptr \<Rightarrow> byte \<Rightarrow> uint16 \<Rightarrow> ('s, NPError \<times> uint16) op) option"
  p_destroystream :: "(cptr \<Rightarrow> cptr \<Rightarrow> uint16 \<Rightarrow> ('s, NPError) op) option"
  p_asfile :: "(cptr \<Rightarrow> cptr \<Rightarrow> c_string \<Rightarrow> ('s, unit) op) option"
  p_writeready :: "(cptr \<Rightarrow> cptr \<Rightarrow> ('s, int32) op) option"
  p_write :: "(cptr \<Rightarrow> cptr \<Rightarrow> int32 \<Rightarrow> int32 \<Rightarrow> byte list option \<Rightarrow> ('s, int32) op) option"
  p_print :: "(cptr \<Rightarrow> NPPrint \<Rightarrow> bool \<Rightarrow> ('s, NPPrint \<times> byte list) op) option"
  p_event :: "(cptr \<Rightarrow> NPEvent \<Rightarrow> ('s, uint16) op) option"
  p_urlnotify :: "(cptr \<Rightarrow> c_string \<Rightarrow> uint16 \<Rightarrow> cptr \<Rightarrow> ('s, unit) op) option"
  p_getvalue :: "(cptr \<Rightarrow> uint32 \<Rightarrow> np_cell \<Rightarrow> ('s, NPError \<times> np_cell) op) option"
  p_has_setvalue :: bool
  p_clearsitedata :: "(c_string \<Rightarrow> uint64 \<Rightarrow> uint64 \<Rightarrow> ('s, NPError) op) option"
  p_getsiteswithdata :: "('s, byte list list option) op option"
  p_npp_addr :: "'s \<Rightarrow> cptr"
  p_class :: cptr
  p_tmpfile :: "'s \<Rightarrow> bool"
  p_printer :: cptr
  p_invalidate :: "cptr \<Rightarrow> (cptr \<Rightarrow> ('s, unit) op) option"

subsection \<open>Arguments\<close>

fun as_uint64 :: "np_value rpc_arg \<Rightarrow> uint64" where
  "as_uint64 (Uint64 w) = w"
| "as_uint64 a = 0"

fun as_uint32_list :: "np_value rpc_arg \<Rightarrow> uint32 list" where
  "as_uint32_list (Array n (C_uint32 xs)) = xs"
| "as_uint32_list a = []"

fun as_saved :: "np_value rpc_arg \<Rightarrow> NPSavedData option" where
  "as_saved (User t (NV_saved d)) = d"
| "as_saved a = None"

fun as_window :: "np_value rpc_arg \<Rightarrow> NPWindow option" where
  "as_window (User t (NV_window w)) = w"
| "as_window a = None"

fun as_print :: "np_value rpc_arg \<Rightarrow> NPPrint" where
  "as_print (User t (NV_print p)) = p"
| "as_print a = Other_print 0"

fun as_event :: "np_value rpc_arg \<Rightarrow> NPEvent" where
  "as_event (User t (NV_event e)) = e"
| "as_event a = Other_event 0"

definition string_array :: "byte list list option \<Rightarrow> np_value rpc_arg" where
  "string_array xs = (case xs of
     None \<Rightarrow> Array 0 (C_null RPC_TYPE_STRING)
   | Some ys \<Rightarrow> Array (of_nat (length ys)) (C_string (map Some ys)))"

text \<open>The members of \<open>mozilla_funcs\<close> by their position in \<^verbatim>\<open>browser-funcs.h\<close>.\<close>

abbreviation (input) slot_getvalue :: nat where "slot_getvalue \<equiv> 16"
abbreviation (input) slot_pluginthreadasynccall :: nat where "slot_pluginthreadasynccall \<equiv> 43"
abbreviation (input) slot_scheduletimer :: nat where "slot_scheduletimer \<equiv> 48"
abbreviation (input) slot_unscheduletimer :: nat where "slot_unscheduletimer \<equiv> 49"

subsection \<open>The library's entry points\<close>

definition handle_NP_GetMIMEDescription ::
  "(('h, 'z) npp_side_scheme) npp_funcs \<Rightarrow> (('h, 'z) npp_side_scheme, np_value, 'y) rpc_env_scheme \<Rightarrow>
     (('h, 'z) npp_side_scheme, int) op"
where
  "handle_NP_GetMIMEDescription P R = handle R [] (\<lambda>as.
     bind_op (if_supported (p_NP_GetMIMEDescription P) None (\<lambda>f. f)) (\<lambda>str. send_reply R [Str str]))"

definition viewer_NP_GetValue ::
  "'s npp_funcs \<Rightarrow> uint32 \<Rightarrow> np_cell \<Rightarrow> ('s, NPError \<times> np_cell) op"
where
  "viewer_NP_GetValue P variable cell =
     if_supported (p_NP_GetValue P) (NPERR_INVALID_FUNCTABLE_ERROR, cell) (\<lambda>f. f variable cell)"

definition handle_NP_GetValue ::
  "(('h, 'z) npp_side_scheme) npp_funcs \<Rightarrow> (('h, 'z) npp_side_scheme, np_value, 'y) rpc_env_scheme \<Rightarrow>
     (('h, 'z) npp_side_scheme, int) op"
where
  "handle_NP_GetValue P R = handle R [P_type RPC_TYPE_INT32] (\<lambda>as.
     case as of
       [a1] \<Rightarrow>
         (let variable = as_int32 a1; t = rpc_type_of_NPPVariable (c_int variable) in
          if t = RPC_TYPE_STRING then bind_op (viewer_NP_GetValue P variable (Cell_string None)) (\<lambda>(r, cell).
            case cell of Cell_string str \<Rightarrow> send_reply R [error_arg r, Str str] | _ \<Rightarrow> misread)
          else if t = RPC_TYPE_INT32 then bind_op (viewer_NP_GetValue P variable (Cell_uint32 0)) (\<lambda>(r, cell).
            case cell of Cell_uint32 n \<Rightarrow> send_reply R [error_arg r, Int32 n] | _ \<Rightarrow> misread)
          else if t = RPC_TYPE_BOOLEAN then bind_op (viewer_NP_GetValue P variable (Cell_bool 0)) (\<lambda>(r, cell).
            case cell of Cell_bool b \<Rightarrow> send_reply R [error_arg r, Boolean (ucast b)] | _ \<Rightarrow> misread)
          else crash Aborted)
     | _ \<Rightarrow> misread)"

text \<open>
  The table given to the plugin has the functions the browser has, and always the three the viewer
  provides itself. The result is the error and, unless there is no entry point, the version of the
  plugin and which functions it has. The handler sends what it finds in its variables in any case.
\<close>

definition plugin_capabilities :: "'s npp_funcs \<Rightarrow> bool list" where
  "plugin_capabilities P =
     [p_newp P \<noteq> None, p_destroy P \<noteq> None, p_setwindow P \<noteq> None, p_newstream P \<noteq> None, p_destroystream P \<noteq> None,
      p_asfile P \<noteq> None, p_writeready P \<noteq> None, p_write P \<noteq> None, p_print P \<noteq> None, p_event P \<noteq> None,
      p_urlnotify P \<noteq> None, p_getvalue P \<noteq> None, p_has_setvalue P, p_clearsitedata P \<noteq> None,
      p_getsiteswithdata P \<noteq> None]"

definition viewer_NP_Initialize ::
  "(('h, 'z) npp_side_scheme) npp_funcs \<Rightarrow> (('h, 'z) npp_side_scheme, 'h) npv_env \<Rightarrow> uint32 \<Rightarrow> uint32 list \<Rightarrow>
     (('h, 'z) npp_side_scheme, NPError \<times> (uint32 \<times> uint32 list) option) op"
where
  "viewer_NP_Initialize P E version caps =
     (case p_NP_Initialize P of
        None \<Rightarrow> ret (NPERR_INVALID_FUNCTABLE_ERROR, None)
      | Some f \<Rightarrow>
          then_op (modify_state (\<lambda>s. s\<lparr>browser_has := (\<lambda>k. k < length caps \<and> k < 50 \<and> caps ! k \<noteq> 0 \<or>
            k \<in> {slot_pluginthreadasynccall, slot_scheduletimer, slot_unscheduletimer})\<rparr>))
          (then_op (modify_state (npobject_bridge_new (np_env.truncate E)))
          (bind_op (f (ucast version)) (\<lambda>(r, plugin_version).
            ret (r, Some (ucast plugin_version, map truth (plugin_capabilities P)))))))"

definition handle_NP_Initialize ::
  "(('h, 'z) npp_side_scheme) npp_funcs \<Rightarrow> (('h, 'z) npp_side_scheme, 'h) npv_env \<Rightarrow>
     (('h, 'z) npp_side_scheme, np_value, 'y) rpc_env_scheme \<Rightarrow> (('h, 'z) npp_side_scheme, int) op"
where
  "handle_NP_Initialize P E R = handle R [P_type RPC_TYPE_UINT32, P_array RPC_TYPE_UINT32] (\<lambda>as.
     case as of
       [a1, a2] \<Rightarrow> bind_op (viewer_NP_Initialize P E (as_uint32 a1) (as_uint32_list a2)) (\<lambda>(r, out).
         case out of
           None \<Rightarrow> crash Out_of_bounds
         | Some (version, caps) \<Rightarrow>
             send_reply R [error_arg r, Uint32 version, Array (of_nat (length caps)) (C_uint32 caps)])
     | _ \<Rightarrow> misread)"

definition viewer_NP_Shutdown ::
  "(('h, 'z) npp_side_scheme) npp_funcs \<Rightarrow> (('h, 'z) npp_side_scheme, 'h) npv_env \<Rightarrow>
     (('h, 'z) npp_side_scheme, NPError) op"
where
  "viewer_NP_Shutdown P E = if_supported (p_NP_Shutdown P) NPERR_INVALID_FUNCTABLE_ERROR (\<lambda>f.
     bind_op f (\<lambda>r.
     then_op (modify_state (npobject_bridge_destroy (np_env.truncate E)))
     (then_op (modify_state (\<lambda>s. s\<lparr>g_is_running := False\<rparr>)) (ret r))))"

definition handle_NP_Shutdown ::
  "(('h, 'z) npp_side_scheme) npp_funcs \<Rightarrow> (('h, 'z) npp_side_scheme, 'h) npv_env \<Rightarrow>
     (('h, 'z) npp_side_scheme, np_value, 'y) rpc_env_scheme \<Rightarrow> (('h, 'z) npp_side_scheme, int) op"
where
  "handle_NP_Shutdown P E R =
     handle R [] (\<lambda>as. bind_op (viewer_NP_Shutdown P E) (\<lambda>r. send_reply R [error_arg r]))"

subsection \<open>Making an instance\<close>

text \<open>\<open>atoi\<close>, and \<open>strcasecmp\<close> with a string of small letters, in the C locale.\<close>

fun decimal_value :: "int \<Rightarrow> byte list \<Rightarrow> int" where
  "decimal_value n (c # cs) = (if 48 \<le> c \<and> c \<le> 57 then decimal_value (10 * n + uint (c - 48)) cs else n)"
| "decimal_value n [] = n"

definition atoi :: "byte list \<Rightarrow> int" where
  "atoi cs =
     (case dropWhile (\<lambda>c. c = 32 \<or> 9 \<le> c \<and> c \<le> 13) cs of
        [] \<Rightarrow> 0
      | c # ds \<Rightarrow> if c = 45 then - decimal_value 0 ds else if c = 43 then decimal_value 0 ds else decimal_value 0 (c # ds))"

definition small_letter :: "byte \<Rightarrow> byte" where
  "small_letter c = (if 65 \<le> c \<and> c \<le> 90 then c + 32 else c)"

abbreviation (input) str_width :: "byte list" where "str_width \<equiv> [119, 105, 100, 116, 104]"
abbreviation (input) str_height :: "byte list" where "str_height \<equiv> [104, 101, 105, 103, 104, 116]"

text \<open>The sizes among the \<open>EMBED\<close> arguments; the last one counts.\<close>

fun size_hints :: "(c_string \<times> c_string) list \<Rightarrow> uint32 \<times> uint32 \<Rightarrow> uint32 \<times> uint32" where
  "size_hints ((Some name, Some val) # args) (width, height) =
     (if map small_letter name = str_width then size_hints args (word_of_int (atoi val), height)
      else if map small_letter name = str_height then size_hints args (width, word_of_int (atoi val))
      else size_hints args (width, height))"
| "size_hints (x # args) hint = size_hints args hint"
| "size_hints [] hint = hint"

text \<open>Whether looking for them reads through a null array.\<close>

definition is_size_name :: "c_string \<Rightarrow> bool" where
  "is_size_name name =
     (case name of None \<Rightarrow> False | Some cs \<Rightarrow> map small_letter cs = str_width \<or> map small_letter cs = str_height)"

definition size_hints_fault :: "nat \<Rightarrow> c_string list option \<Rightarrow> c_string list option \<Rightarrow> bool" where
  "size_hints_fault n argn argv =
     (0 < n \<and> (case argn of None \<Rightarrow> True | Some names \<Rightarrow> argv = None \<and> list_ex is_size_name (take n names)))"

text \<open>A \<open>long\<close> that was zero before a value was stored in it.\<close>

fun cell_true :: "np_cell \<Rightarrow> bool" where
  "cell_true (Cell_uint32 n) = (n \<noteq> 0)"
| "cell_true (Cell_bool b) = (b \<noteq> 0)"
| "cell_true (Cell_string str) = (str \<noteq> None)"
| "cell_true (Cell_object p) = (p \<noteq> 0)"
| "cell_true (Cell_pointer p) = (p \<noteq> 0)"

definition choose_xembed ::
  "('h, 'z) npp_side_scheme request_env \<Rightarrow> ('h, 'z) npp_side_scheme npp_funcs \<Rightarrow> (('h, 'z) npp_side_scheme, 'h) npv_env \<Rightarrow>
     (('h, 'z) npp_side_scheme, np_value, 'y) rpc_env_scheme \<Rightarrow> cptr \<Rightarrow> cptr \<Rightarrow> (('h, 'z) npp_side_scheme, unit) op"
where
  "choose_xembed N P E R npp p = bind_op (gets (\<lambda>s. browser_has s slot_getvalue)) (\<lambda>has.
     if \<not> has then ret ()
     else bind_op (g_NPN_GetValue N E R 0 (word_of_int NPNVSupportsXEmbedBool)) (\<lambda>(e, supports).
       if e \<noteq> NPERR_NO_ERROR then ret ()
       else if_supported (p_getvalue P) () (\<lambda>f.
         bind_op (f npp (word_of_int NPPVpluginNeedsXEmbed) (Cell_pointer 0)) (\<lambda>(e', needs).
           if e' \<noteq> NPERR_NO_ERROR then ret ()
           else modify_state (\<lambda>s. s\<lparr>use_xembed := (use_xembed s)
             (p := ((case supports of None \<Rightarrow> False | Some c \<Rightarrow> cell_true c) \<and> cell_true needs))\<rparr>)))))"

text \<open>
  The new instance gets the identifier of the browser's. Its tables of timers and objects are made after
  the plugin's function has run.
\<close>

definition change_plugin ::
  "('h NPW_PluginInstance \<Rightarrow> 'h NPW_PluginInstance) \<Rightarrow> cptr \<Rightarrow> (('h, 'z) np_process_scheme, unit) op"
where
  "change_plugin f p = bind_op (deref plugins p) (\<lambda>pl. modify_state (put_plugin p (Some (f pl))))"

definition set_up_instance ::
  "('h, 'z) npp_side_scheme request_env \<Rightarrow> ('h, 'z) npp_side_scheme toolkit_env \<Rightarrow> ('h, 'z) npp_side_scheme npp_funcs \<Rightarrow>
     (('h, 'z) npp_side_scheme, 'h) npv_env \<Rightarrow> (('h, 'z) npp_side_scheme, np_value, 'y) rpc_env_scheme \<Rightarrow> cptr \<Rightarrow> cptr \<Rightarrow>
     NPError \<Rightarrow> (('h, 'z) npp_side_scheme, NPError) op"
where
  "set_up_instance N X P E R npp p r =
     then_op (choose_xembed N P E R npp p)
     (bind_op (gets (\<lambda>s. use_xembed s p)) (\<lambda>xembed.
      bind_op (if xembed then ret True else xt_source_create X) (\<lambda>ok.
        if \<not> ok then ret NPERR_GENERIC_ERROR
        else
          then_op (modify_state (\<lambda>s. s\<lparr>next_timer_id := (next_timer_id s)(p := 1),
            timers := (timers s)(p := Some (gh_new (hash E)))\<rparr>))
          (then_op (change_plugin (\<lambda>pl. pl\<lparr>pi_npobjects := Some (gh_new (hash E))\<rparr>) p) (ret r)))))"

definition viewer_NPP_New ::
  "('h, 'z) npp_side_scheme request_env \<Rightarrow> ('h, 'z) npp_side_scheme toolkit_env \<Rightarrow> ('h, 'z) npp_side_scheme npp_funcs \<Rightarrow>
     (('h, 'z) npp_side_scheme, 'h) npv_env \<Rightarrow> (('h, 'z) npp_side_scheme, np_value, 'y) rpc_env_scheme \<Rightarrow>
     c_string \<Rightarrow> uint32 \<Rightarrow> uint16 \<Rightarrow> uint16 \<Rightarrow> c_string list option \<Rightarrow> c_string list option \<Rightarrow> NPSavedData option \<Rightarrow>
     (('h, 'z) npp_side_scheme, NPError) op"
where
  "viewer_NPP_New N X P E R mime instance_id mode argc argn argv saved =
     bind_op (npw_plugin_instance_new (np_env.truncate E) (p_class P)) (\<lambda>p.
       if p = 0 then ret NPERR_OUT_OF_MEMORY_ERROR
       else
         then_op (change_plugin (\<lambda>pl. pl\<lparr>pi_instance_id := instance_id\<rparr>) p)
         (then_op (modify_state (\<lambda>s. s\<lparr>ids := id_link (hash E) instance_id p (ids s)\<rparr>))
         (bind_op (gets (p_npp_addr P)) (\<lambda>npp.
            if npp = 0 then ret NPERR_OUT_OF_MEMORY_ERROR
            else
              then_op (modify_state (\<lambda>s. s\<lparr>npps := (npps s)(npp := Some p)\<rparr>))
              (then_op (change_plugin (\<lambda>pl. pl\<lparr>pi_instance := npp\<rparr>) p)
              (then_op (if size_hints_fault (nat (sint argc)) argn argv then crash Out_of_bounds else ret ())
              (then_op (modify_state (\<lambda>s. s\<lparr>size_hint := (size_hint s)(p := size_hints
                 (take (nat (sint argc)) (zip (case argn of None \<Rightarrow> [] | Some xs \<Rightarrow> xs) (case argv of None \<Rightarrow> [] | Some xs \<Rightarrow> xs)))
                 (size_hint s p))\<rparr>))
              (bind_op (call_through (p_newp P) (\<lambda>f. f mime npp mode argc argn argv saved)) (\<lambda>r.
                 set_up_instance N X P E R npp p r)))))))))"

text \<open>
  The reference to the connection is taken first, and kept when the arguments cannot be read.
  \<open>argn_count\<close> becomes an \<open>int16_t\<close>.
\<close>

definition keep_connection :: "(('h, 'z) np_process_scheme, unit) op" where
  "keep_connection = modify_state (\<lambda>s. case rpc_connection_ref (Some s) of Some s' \<Rightarrow> s' | None \<Rightarrow> s)"

definition handle_NPP_New ::
  "('h, 'z) npp_side_scheme request_env \<Rightarrow> ('h, 'z) npp_side_scheme toolkit_env \<Rightarrow> ('h, 'z) npp_side_scheme npp_funcs \<Rightarrow>
     (('h, 'z) npp_side_scheme, 'h) npv_env \<Rightarrow> (('h, 'z) npp_side_scheme, np_value, 'y) rpc_env_scheme \<Rightarrow>
     (('h, 'z) npp_side_scheme, int) op"
where
  "handle_NPP_New N X P E R = then_op keep_connection
     (handle R [P_type RPC_TYPE_UINT32, P_type RPC_TYPE_STRING, P_type RPC_TYPE_INT32, P_array RPC_TYPE_STRING,
       P_array RPC_TYPE_STRING, P_type RPC_TYPE_NP_SAVED_DATA] (\<lambda>as.
     case as of
       [a1, a2, a3, a4, a5, a6] \<Rightarrow>
         then_op (assert_op (as_count a4 = as_count a5))
         (bind_op (viewer_NPP_New N X P E R (as_string a2) (as_uint32 a1) (ucast (as_int32 a3)) (ucast (as_count a4))
            (as_strings a4) (as_strings a5) (as_saved a6)) (\<lambda>r. send_reply R [error_arg r]))
     | _ \<Rightarrow> misread))"

subsection \<open>Destroying it\<close>

definition invalidate_npobject ::
  "('h, 'z) npp_side_scheme npp_funcs \<Rightarrow> (('h, 'z) npp_side_scheme, 'h) npv_env \<Rightarrow> cptr \<Rightarrow> (('h, 'z) npp_side_scheme, unit) op"
where
  "invalidate_npobject P E k = bind_op (deref objects k) (\<lambda>obj.
     then_op (case (if obj_class obj = 0 then None else p_invalidate P (obj_class obj)) of None \<Rightarrow> ret () | Some f \<Rightarrow> f k)
       (npobject_unregister (np_env.truncate E) k))"

text \<open>The second component is what is stored in \<open>*sdata\<close>: nothing without an instance.\<close>

definition viewer_NPP_Destroy ::
  "('h, 'z) npp_side_scheme npp_funcs \<Rightarrow> (('h, 'z) npp_side_scheme, 'h) npv_env \<Rightarrow> cptr \<Rightarrow>
     (('h, 'z) npp_side_scheme, NPError \<times> NPSavedData option option) op"
where
  "viewer_NPP_Destroy P E npp =
     (if npp = 0 then ret (NPERR_INVALID_INSTANCE_ERROR, None)
      else bind_op (npw_get_plugin_instance (np_env.truncate E) npp) (\<lambda>p.
        if p = 0 then ret (NPERR_INVALID_INSTANCE_ERROR, None)
        else
          bind_op (call_through (p_destroy P) (\<lambda>f. f npp)) (\<lambda>(r, saved).
          bind_op (deref plugins p) (\<lambda>pl.
          then_op (run_all (map (\<lambda>(k, v). invalidate_npobject P E k)
             (case pi_npobjects pl of None \<Rightarrow> [] | Some h \<Rightarrow> gh_entries (hash E) h)))
          (bind_op (gets (\<lambda>s. use_xembed s p)) (\<lambda>xembed.
           then_op (if xembed then ret () else xt_source_destroy)
           (then_op (npw_plugin_instance_invalidate (np_env.truncate E) p)
           (then_op (npw_plugin_instance_unref (np_env.truncate E) p) (ret (r, Some saved))))))))))"

text \<open>Without an instance, \<open>save_area\<close> is sent although it was never set.\<close>

definition handle_NPP_Destroy ::
  "('h, 'z) npp_side_scheme npp_funcs \<Rightarrow> (('h, 'z) npp_side_scheme, 'h) npv_env \<Rightarrow>
     (('h, 'z) npp_side_scheme, np_value, 'y) rpc_env_scheme \<Rightarrow> (('h, 'z) npp_side_scheme, int) op"
where
  "handle_NPP_Destroy P E R = handle R [P_type RPC_TYPE_NPW_PLUGIN_INSTANCE] (\<lambda>as.
     case as of
       [a1] \<Rightarrow> on_npp a1 (\<lambda>npp. bind_op (viewer_NPP_Destroy P E npp) (\<lambda>(r, save_area).
         case save_area of
           None \<Rightarrow> crash Out_of_bounds
         | Some d \<Rightarrow> and_finally (send_reply R [error_arg r, User RPC_TYPE_NP_SAVED_DATA (NV_saved d)])
             (on_live rpc_connection_unref)))
     | _ \<Rightarrow> misread)"

end
