(* ===== verification/Npp_Wrapper.thy ===== *)
theory Npp_Wrapper
  imports Npw_Plugin Npp_Plugin
begin

text \<open>
  The wrapper's half of the calls a browser makes to the plugin (\<^verbatim>\<open>npw-wrapper.c\<close>, "Plug-in side data"):
  the functions of the table the browser is given (\<open>g_NPP_...\<close>) and the remote calls they make
  (\<open>invoke_NPP_...\<close>). An instance makes its calls on the connection it was created with, which stays the
  same when the viewer is restarted; the calls without an instance use the master connection.
\<close>

subsection \<open>State\<close>

text \<open>
  What the wrapper's \<open>PluginInstance\<close> adds to an instance, by its address, and the browser's streams. As in
  the viewer, \<open>native_instance\<close> is the \<open>NPP\<close> of a plugin that runs in the same process.
\<close>

record 'h npp_host = "'h wrapper" +
  inst_connection :: "cptr \<Rightarrow> nat"
  native_instance :: "cptr \<Rightarrow> cptr"
  host_streams :: "cptr \<Rightarrow> NPStream option"

text \<open>The address of the class, what the allocators answer, and the toolkit of the browser.\<close>

record 's host_env =
  h_class :: cptr
  h_native_addr :: "'s \<Rightarrow> cptr"
  h_stream_addr :: "'s \<Rightarrow> cptr"
  h_can_alloc :: "'s \<Rightarrow> uint32 \<Rightarrow> bool"
  h_flush :: "cptr \<Rightarrow> ('s, unit) op"
  h_ungrab :: "cptr \<Rightarrow> ulong \<Rightarrow> ('s, unit) op"

abbreviation (input) NPERR_STREAM_BUFSIZ :: int32 where "NPERR_STREAM_BUFSIZ \<equiv> 65536"
abbreviation (input) NPERR_FAILED :: NPError where "NPERR_FAILED \<equiv> Np_Browser.NPERR_GENERIC_ERROR"
abbreviation (input) NPERR_OK :: NPError where "NPERR_OK \<equiv> Np_Browser.NPERR_NO_ERROR"

subsection \<open>Parts of the calls\<close>

text \<open>\<open>PLUGIN_INSTANCE\<close> of an instance that must be there; the wrapper takes no reference during a call.\<close>

definition on_plugin ::
  "(('h, 'z) np_process_scheme, 'h) npv_env \<Rightarrow> cptr \<Rightarrow> 'a \<Rightarrow> (cptr \<Rightarrow> (('h, 'z) np_process_scheme, 'a) op) \<Rightarrow>
     (('h, 'z) np_process_scheme, 'a) op"
where
  "on_plugin E npp otherwise f =
     (if npp = 0 then ret otherwise
      else bind_op (npw_get_plugin_instance (np_env.truncate E) npp) (\<lambda>p. if p = 0 then ret otherwise else f p))"

text \<open>On the connection of an instance.\<close>

definition on_its_connection ::
  "cptr \<Rightarrow> 'a \<Rightarrow> (('h, 'z) npp_host_scheme, 'a) op \<Rightarrow> (('h, 'z) npp_host_scheme, 'a) op"
where
  "on_its_connection p otherwise m = bind_op (deref plugins p) (\<lambda>pl.
     bind_op (gets (\<lambda>s. inst_connection s p)) (\<lambda>c.
       if c = 0 then ret otherwise else on_connection c (then_op (read_conn (\<lambda>_. ())) m)))"

definition instance_call ::
  "(('h, 'z) npp_host_scheme, np_value, 'y) rpc_env_scheme \<Rightarrow> cptr \<Rightarrow> int \<Rightarrow> np_value rpc_arg list \<Rightarrow> rpc_param list \<Rightarrow>
     (('h, 'z) npp_host_scheme, np_value rpc_arg list option) op"
where
  "instance_call R p mid args ps = on_its_connection p None (remote_call R mid args ps)"

definition master_call ::
  "(('h, 'z) npp_host_scheme, np_value, 'y) rpc_env_scheme \<Rightarrow> int \<Rightarrow> np_value rpc_arg list \<Rightarrow> rpc_param list \<Rightarrow>
     (('h, 'z) npp_host_scheme, np_value rpc_arg list option) op"
where
  "master_call R mid args ps = bind_op (gets master) (\<lambda>c. remote_call_on R c mid args ps)"

text \<open>The plugin in the same process: \<open>PLUGIN_DIRECT_EXEC\<close>; its table is not checked.\<close>

definition native_call ::
  "cptr \<Rightarrow> 'f option \<Rightarrow> (cptr \<Rightarrow> 'f \<Rightarrow> (('h, 'z) npp_host_scheme, 'a) op) \<Rightarrow> (('h, 'z) npp_host_scheme, 'a) op"
where
  "native_call p f k = bind_op (gets (\<lambda>s. native_instance s p)) (\<lambda>npp. call_through f (k npp))"

definition arg_strings :: "uint32 \<Rightarrow> c_string list option \<Rightarrow> np_value rpc_arg" where
  "arg_strings n xs = Array n (case xs of None \<Rightarrow> C_null RPC_TYPE_STRING | Some ys \<Rightarrow> C_string ys)"

subsection \<open>The class of instances\<close>

definition wrapper_instance_finalize ::
  "(('h, 'z) npp_host_scheme, 'h) np_env \<Rightarrow> cptr \<Rightarrow> (('h, 'z) npp_host_scheme, unit) op"
where
  "wrapper_instance_finalize E p = bind_op (deref plugins p) (\<lambda>pl.
     then_op (modify_state (\<lambda>s. s\<lparr>ids := snd (id_remove (hash E) (pi_instance_id pl) (ids s))\<rparr>))
     (bind_op (gets (\<lambda>s. inst_connection s p)) (\<lambda>c. if c = 0 then ret () else unref_connection c)))"

definition wrapper_instance_invalidate :: "cptr \<Rightarrow> (('h, 'z) npp_host_scheme, unit) op" where
  "wrapper_instance_invalidate p = bind_op (deref plugins p) (\<lambda>pl.
     if pi_instance pl = 0 then ret ()
     else bind_op (deref npps (pi_instance pl)) (\<lambda>old.
       modify_state (\<lambda>s. put_plugin p (Some (pl\<lparr>pi_instance := 0\<rparr>)) (s\<lparr>npps := (npps s)(pi_instance pl := Some 0)\<rparr>))))"

subsection \<open>Instances\<close>

definition invoke_NPP_New ::
  "('h, 'z) npp_host_scheme wrapper_env \<Rightarrow> ('h, 'z) npp_host_scheme npp_funcs \<Rightarrow>
     (('h, 'z) npp_host_scheme, np_value, 'y) rpc_env_scheme \<Rightarrow> cptr \<Rightarrow> c_string \<Rightarrow> uint16 \<Rightarrow> uint16 \<Rightarrow>
     c_string list option \<Rightarrow> c_string list option \<Rightarrow> NPSavedData option \<Rightarrow> (('h, 'z) npp_host_scheme, NPError) op"
where
  "invoke_NPP_New W P R p mime mode argc argn argv saved =
     (if w_direct_exec W then native_call p (p_newp P) (\<lambda>npp f. f mime npp mode argc argn argv saved)
      else bind_op (deref plugins p) (\<lambda>pl.
        bind_op (instance_call R p RPC_METHOD_NPP_NEW
          [Uint32 (pi_instance_id pl), Str mime, Int32 (ucast mode), arg_strings (scast argc) argn,
           arg_strings (scast argc) argv, User RPC_TYPE_NP_SAVED_DATA (NV_saved saved)] [P_type RPC_TYPE_INT32])
          (\<lambda>r. ret (answer_error r))))"

text \<open>
  The viewer is restarted first if it has to be. The new instance gets an identifier and the master
  connection; both stay when the plugin refuses the instance.
\<close>

definition hold_master :: "(('h, 'z) npp_host_scheme, nat) op" where
  "hold_master = bind_op (gets master) (\<lambda>c.
     then_op (if c = 0 then ret () else on_connection c keep_connection) (ret c))"

definition g_NPP_New ::
  "('h, 'z) npp_host_scheme host_env \<Rightarrow> ('h, 'z) npp_host_scheme wrapper_env \<Rightarrow> ('h, 'z) npp_host_scheme npp_funcs \<Rightarrow>
     (('h, 'z) npp_host_scheme, 'h) npv_env \<Rightarrow> (('h, 'z) npp_host_scheme, np_value, 'y) rpc_env_scheme \<Rightarrow>
     c_string \<Rightarrow> cptr \<Rightarrow> uint16 \<Rightarrow> uint16 \<Rightarrow> c_string list option \<Rightarrow> c_string list option \<Rightarrow> NPSavedData option \<Rightarrow>
     (('h, 'z) npp_host_scheme, NPError) op"
where
  "g_NPP_New H W P E R mime npp mode argc argn argv saved =
     (if npp = 0 then ret Np_Browser.NPERR_INVALID_INSTANCE_ERROR
      else bind_op (plugin_start_if_needed W (np_env.truncate E) R) (\<lambda>started.
        if started \<noteq> 0 then ret (word_of_int started)
        else bind_op (npw_plugin_instance_new (np_env.truncate E) (h_class H)) (\<lambda>p.
          if p = 0 then ret Np_Browser.NPERR_OUT_OF_MEMORY_ERROR
          else bind_op (gets (\<lambda>s. id_create (hash E) p (ids s))) (\<lambda>(i, t).
            then_op (modify_state (\<lambda>s. s\<lparr>ids := t\<rparr>))
            (then_op (change_plugin (\<lambda>pl. pl\<lparr>pi_instance := npp, pi_instance_id := i\<rparr>) p)
            (bind_op hold_master (\<lambda>c.
             then_op (modify_state (\<lambda>s. s\<lparr>inst_connection := (inst_connection s)(p := c)\<rparr>))
             (bind_op (deref npps npp) (\<lambda>old.
              then_op (modify_state (\<lambda>s. s\<lparr>npps := (npps s)(npp := Some p)\<rparr>))
              (bind_op (if w_direct_exec W then gets (h_native_addr H) else ret 1) (\<lambda>native.
                 if native = 0 then ret Np_Browser.NPERR_OUT_OF_MEMORY_ERROR
                 else
                   then_op (if w_direct_exec W
                            then modify_state (\<lambda>s. s\<lparr>native_instance := (native_instance s)(p := native)\<rparr>) else ret ())
                   (invoke_NPP_New W P R p mime mode argc argn argv saved))))))))))))"

text \<open>The second component is what is stored in \<open>*save\<close>, when there is such a parameter (\<open>out\<close>).\<close>

definition invoke_NPP_Destroy ::
  "('h, 'z) npp_host_scheme wrapper_env \<Rightarrow> ('h, 'z) npp_host_scheme npp_funcs \<Rightarrow>
     (('h, 'z) npp_host_scheme, np_value, 'y) rpc_env_scheme \<Rightarrow> cptr \<Rightarrow> bool \<Rightarrow>
     (('h, 'z) npp_host_scheme, NPError \<times> NPSavedData option option) op"
where
  "invoke_NPP_Destroy W P R p out =
     (if w_direct_exec W
      then bind_op (native_call p (p_destroy P) (\<lambda>npp f. f npp)) (\<lambda>(r, d). ret (r, if out then Some d else None))
      else bind_op (instance_call R p RPC_METHOD_NPP_DESTROY [np_instance p] [P_type RPC_TYPE_INT32, P_type RPC_TYPE_NP_SAVED_DATA])
        (\<lambda>r. ret (case r of Some [a, b] \<Rightarrow> (ucast (as_int32 a), if out then Some (as_saved b) else None)
                          | _ \<Rightarrow> (NPERR_FAILED, None))))"

definition g_NPP_Destroy ::
  "('h, 'z) npp_host_scheme wrapper_env \<Rightarrow> ('h, 'z) npp_host_scheme npp_funcs \<Rightarrow> (('h, 'z) npp_host_scheme, 'h) npv_env \<Rightarrow>
     (('h, 'z) npp_host_scheme, np_value, 'y) rpc_env_scheme \<Rightarrow> cptr \<Rightarrow> bool \<Rightarrow>
     (('h, 'z) npp_host_scheme, NPError \<times> NPSavedData option option) op"
where
  "g_NPP_Destroy W P E R npp out = on_plugin E npp (Np_Browser.NPERR_INVALID_INSTANCE_ERROR, None) (\<lambda>p.
     bind_op (invoke_NPP_Destroy W P R p out) (\<lambda>r.
     then_op (if w_direct_exec W then modify_state (\<lambda>s. s\<lparr>native_instance := (native_instance s)(p := 0)\<rparr>) else ret ())
     (then_op (npw_plugin_instance_invalidate (np_env.truncate E) p)
     (then_op (npw_plugin_instance_unref (np_env.truncate E) p) (ret r)))))"

definition invoke_NPP_SetWindow ::
  "('h, 'z) npp_host_scheme wrapper_env \<Rightarrow> ('h, 'z) npp_host_scheme npp_funcs \<Rightarrow>
     (('h, 'z) npp_host_scheme, np_value, 'y) rpc_env_scheme \<Rightarrow> cptr \<Rightarrow> NPWindow option \<Rightarrow> (('h, 'z) npp_host_scheme, NPError) op"
where
  "invoke_NPP_SetWindow W P R p window =
     (if w_direct_exec W then native_call p (p_setwindow P) (\<lambda>npp f. f npp window)
      else bind_op (instance_call R p RPC_METHOD_NPP_SET_WINDOW
        [np_instance p, User RPC_TYPE_NP_WINDOW (NV_window window)] [P_type RPC_TYPE_INT32]) (\<lambda>r. ret (answer_error r)))"

definition g_NPP_SetWindow ::
  "('h, 'z) npp_host_scheme wrapper_env \<Rightarrow> ('h, 'z) npp_host_scheme npp_funcs \<Rightarrow> (('h, 'z) npp_host_scheme, 'h) npv_env \<Rightarrow>
     (('h, 'z) npp_host_scheme, np_value, 'y) rpc_env_scheme \<Rightarrow> cptr \<Rightarrow> NPWindow option \<Rightarrow> (('h, 'z) npp_host_scheme, NPError) op"
where
  "g_NPP_SetWindow W P E R npp window =
     on_plugin E npp Np_Browser.NPERR_INVALID_INSTANCE_ERROR (\<lambda>p. invoke_NPP_SetWindow W P R p window)"

subsection \<open>Variables\<close>

text \<open>
  The second component is what is stored through \<open>value\<close>, if anything is; \<open>cell\<close> is what was there. The
  value of a form is copied into memory of the browser, its length taken even when it is \<open>NULL\<close>.
\<close>

definition form_value ::
  "('s \<Rightarrow> uint32 \<Rightarrow> bool) \<Rightarrow> uint32 \<Rightarrow> NPError \<Rightarrow> c_string \<Rightarrow> ('s, NPError \<times> np_cell option) op"
where
  "form_value mem_alloc variable r str =
     (if c_int variable = NPPVformValue \<and> r = NPERR_OK then
        (case str of
           None \<Rightarrow> crash Out_of_bounds
         | Some cs \<Rightarrow>
             bind_op (realloc_bytes mem_alloc (Some (cs @ [0])) (of_nat (length cs) + 1)) (\<lambda>(e, copy). ret
               (e, Some (Cell_string (map_option (takeWhile (\<lambda>c. c \<noteq> 0)) copy)))))
      else ret (r, Some (Cell_string str)))"

definition invoke_NPP_GetValue ::
  "('h, 'z) npp_host_scheme host_env \<Rightarrow> ('h, 'z) npp_host_scheme wrapper_env \<Rightarrow> ('h, 'z) npp_host_scheme npp_funcs \<Rightarrow>
     (('h, 'z) npp_host_scheme, np_value, 'y) rpc_env_scheme \<Rightarrow> cptr \<Rightarrow> uint32 \<Rightarrow> np_cell \<Rightarrow>
     (('h, 'z) npp_host_scheme, NPError \<times> np_cell option) op"
where
  "invoke_NPP_GetValue H W P R p variable cell =
     (if w_direct_exec W
      then bind_op (native_call p (p_getvalue P) (\<lambda>npp f. f npp variable cell)) (\<lambda>(r, c). ret (r, Some c))
      else
        (let t = rpc_type_of_NPPVariable (c_int variable);
             failed = (NPERR_FAILED, None);
             ask = (\<lambda>k. on_its_connection p failed
               (remote_then R RPC_METHOD_NPP_GET_VALUE [np_instance p, Int32 variable] failed failed k))
         in
           if t = RPC_TYPE_STRING then
             ask (bind_op (remote_wait R [P_type RPC_TYPE_INT32, P_type RPC_TYPE_STRING]) (\<lambda>r.
               case r of
                 Some [a, b] \<Rightarrow> form_value (h_can_alloc H) variable (ucast (as_int32 a)) (as_string b)
               | _ \<Rightarrow> ret (NPERR_FAILED, Some (Cell_string None))))
           else if t = RPC_TYPE_INT32 then
             ask (bind_op (remote_wait R [P_type RPC_TYPE_INT32, P_type RPC_TYPE_INT32]) (\<lambda>r. ret
               (case r of Some [a, b] \<Rightarrow> (ucast (as_int32 a), Some (Cell_uint32 (as_int32 b)))
                | _ \<Rightarrow> (NPERR_FAILED, Some (Cell_uint32 0)))))
           else if t = RPC_TYPE_BOOLEAN then
             ask (bind_op (remote_wait R [P_type RPC_TYPE_INT32, P_type RPC_TYPE_BOOLEAN]) (\<lambda>r. ret
               (case r of Some [a, b] \<Rightarrow> (ucast (as_int32 a), Some (Cell_bool (if as_boolean b \<noteq> 0 then 1 else 0)))
                | _ \<Rightarrow> (NPERR_FAILED, Some (Cell_bool 0)))))
           else if t = RPC_TYPE_NP_OBJECT then
             ask (bind_op (remote_wait R [P_type RPC_TYPE_INT32, P_type RPC_TYPE_NP_OBJECT_PASS_REF]) (\<lambda>r. ret
               (case r of Some [a, b] \<Rightarrow> (ucast (as_int32 a), Some (Cell_object (as_object b)))
                | _ \<Rightarrow> (NPERR_FAILED, Some (Cell_object 0)))))
           else ask (crash Out_of_bounds)))"

text \<open>
  The name and the description of the plugin are answered without it, as by \<open>NP_GetValue\<close>; a \<open>NULL\<close>
  stored there is not told from nothing stored.
\<close>

definition g_NPP_GetValue ::
  "('h, 'z) npp_host_scheme host_env \<Rightarrow> ('h, 'z) npp_host_scheme wrapper_env \<Rightarrow> ('h, 'z) npp_host_scheme npp_funcs \<Rightarrow>
     (('h, 'z) npp_host_scheme, 'h) npv_env \<Rightarrow> (('h, 'z) npp_host_scheme, np_value, 'y) rpc_env_scheme \<Rightarrow> cptr \<Rightarrow> uint32 \<Rightarrow>
     np_cell \<Rightarrow> (('h, 'z) npp_host_scheme, NPError \<times> np_cell option) op"
where
  "g_NPP_GetValue H W P E R npp variable cell =
     (if c_int variable = NPPVpluginNameString \<or> c_int variable = NPPVpluginDescriptionString
      then bind_op (wrapper_NP_GetValue W (c_int variable)) (\<lambda>(e, str). ret
        (word_of_int e, case str of None \<Rightarrow> None | Some cs \<Rightarrow> Some (Cell_string (Some cs))))
      else on_plugin E npp (Np_Browser.NPERR_INVALID_INSTANCE_ERROR, None) (\<lambda>p.
        if rpc_type_of_NPPVariable (c_int variable) \<in> {RPC_TYPE_STRING, RPC_TYPE_INT32, RPC_TYPE_BOOLEAN, RPC_TYPE_NP_OBJECT}
        then invoke_NPP_GetValue H W P R p variable cell
        else ret (Np_Browser.NPERR_INVALID_PARAM, None)))"

definition invoke_NPP_SetValue :: "cptr \<Rightarrow> uint32 \<Rightarrow> cptr \<Rightarrow> ('s, NPError) op" where
  "invoke_NPP_SetValue p variable v = ret NPERR_FAILED"

definition g_NPP_SetValue ::
  "(('h, 'z) np_process_scheme, 'h) npv_env \<Rightarrow> cptr \<Rightarrow> uint32 \<Rightarrow> cptr \<Rightarrow> (('h, 'z) np_process_scheme, NPError) op"
where
  "g_NPP_SetValue E npp variable v = on_plugin E npp Np_Browser.NPERR_INVALID_INSTANCE_ERROR (\<lambda>p.
     then_op (invoke_NPP_SetValue p variable v) (ret NPERR_FAILED))"

end
