(* ===== verification/Npp_Delivery.thy ===== *)
theory Npp_Delivery
  imports Npp_Wrapper
begin

text \<open>
  The wrapper's half of the calls a browser makes to an instance of the plugin (\<^verbatim>\<open>npw-wrapper.c\<close>, "Plug-in
  side data"), after those of \<open>Npp_Wrapper\<close>: streams, printing, events, and the data the plugin keeps for
  sites.
\<close>

subsection \<open>Streams\<close>

definition invoke_NPP_URLNotify ::
  "('h, 'z) npp_host_scheme wrapper_env \<Rightarrow> ('h, 'z) npp_host_scheme npp_funcs \<Rightarrow>
     (('h, 'z) npp_host_scheme, np_value, 'y) rpc_env_scheme \<Rightarrow> cptr \<Rightarrow> c_string \<Rightarrow> uint16 \<Rightarrow> cptr \<Rightarrow>
     (('h, 'z) npp_host_scheme, unit) op"
where
  "invoke_NPP_URLNotify W P R p url reason notifyData =
     (if w_direct_exec W then native_call p (p_urlnotify P) (\<lambda>npp f. f npp url reason notifyData)
      else then_op (instance_call R p RPC_METHOD_NPP_URL_NOTIFY
        [np_instance p, Str url, Int32 (scast reason), np_notify notifyData] []) (ret ()))"

definition g_NPP_URLNotify ::
  "('h, 'z) npp_host_scheme wrapper_env \<Rightarrow> ('h, 'z) npp_host_scheme npp_funcs \<Rightarrow> (('h, 'z) npp_host_scheme, 'h) npv_env \<Rightarrow>
     (('h, 'z) npp_host_scheme, np_value, 'y) rpc_env_scheme \<Rightarrow> cptr \<Rightarrow> c_string \<Rightarrow> uint16 \<Rightarrow> cptr \<Rightarrow>
     (('h, 'z) npp_host_scheme, unit) op"
where
  "g_NPP_URLNotify W P E R npp url reason notifyData =
     on_plugin E npp () (\<lambda>p. invoke_NPP_URLNotify W P R p url reason notifyData)"

text \<open>
  The result is the error and the type of the stream; the notification data of the reply become those of
  the browser's stream.
\<close>

definition stream_request ::
  "cptr \<Rightarrow> c_string \<Rightarrow> cptr \<Rightarrow> byte \<Rightarrow> (('h, 'z) npp_host_scheme, np_value rpc_arg list) op"
where
  "stream_request p mime st seekable =
     bind_op (deref np_streams st) (\<lambda>pdata.
     bind_op (deref stream_instances pdata) (\<lambda>si.
     bind_op (deref host_streams st) (\<lambda>y.
     bind_op (gets (\<lambda>s. NPVERS_HAS_RESPONSE_HEADERS \<le> nf_version (mozilla_funcs s) AND 255)) (\<lambda>headers.
       ret [np_instance p, Str mime, Uint32 (si_stream_id si), Str (st_url y), Uint32 (st_end y), Uint32 (st_lastmodified y),
         np_notify (st_notifyData y), Str (if headers then st_headers y else None), Boolean (ucast seekable)]))))"

definition store_notify_data :: "cptr \<Rightarrow> cptr \<Rightarrow> (('h, 'z) npp_host_scheme, unit) op" where
  "store_notify_data st v = bind_op (deref host_streams st) (\<lambda>y.
     modify_state (\<lambda>s. s\<lparr>host_streams := (host_streams s)(st := Some (y\<lparr>st_notifyData := v\<rparr>))\<rparr>))"

definition invoke_NPP_NewStream ::
  "('h, 'z) npp_host_scheme wrapper_env \<Rightarrow> ('h, 'z) npp_host_scheme npp_funcs \<Rightarrow>
     (('h, 'z) npp_host_scheme, np_value, 'y) rpc_env_scheme \<Rightarrow> cptr \<Rightarrow> c_string \<Rightarrow> cptr \<Rightarrow> byte \<Rightarrow> uint16 \<Rightarrow>
     (('h, 'z) npp_host_scheme, NPError \<times> uint16) op"
where
  "invoke_NPP_NewStream W P R p mime st seekable stype =
     (if w_direct_exec W then native_call p (p_newstream P) (\<lambda>npp f. f npp mime st seekable stype)
      else bind_op (stream_request p mime st seekable) (\<lambda>args.
        bind_op (instance_call R p RPC_METHOD_NPP_NEW_STREAM args
          [P_type RPC_TYPE_INT32, P_type RPC_TYPE_UINT32, P_type RPC_TYPE_NP_NOTIFY_DATA]) (\<lambda>r.
          case r of
            Some [a, b, c] \<Rightarrow> then_op (store_notify_data st (as_notify c)) (ret (ucast (as_int32 a), ucast (as_uint32 b)))
          | _ \<Rightarrow> ret (NPERR_FAILED, stype))))"

text \<open>The browser's stream gets a stream instance and an identifier, which stay when the plugin refuses it.\<close>

definition g_NPP_NewStream ::
  "('h, 'z) npp_host_scheme host_env \<Rightarrow> ('h, 'z) npp_host_scheme wrapper_env \<Rightarrow> ('h, 'z) npp_host_scheme npp_funcs \<Rightarrow>
     (('h, 'z) npp_host_scheme, 'h) npv_env \<Rightarrow> (('h, 'z) npp_host_scheme, np_value, 'y) rpc_env_scheme \<Rightarrow> cptr \<Rightarrow> c_string \<Rightarrow>
     cptr \<Rightarrow> byte \<Rightarrow> uint16 \<Rightarrow> (('h, 'z) npp_host_scheme, NPError \<times> uint16) op"
where
  "g_NPP_NewStream H W P E R npp mime st seekable stype =
     on_plugin E npp (Np_Browser.NPERR_INVALID_INSTANCE_ERROR, stype) (\<lambda>p.
       if w_direct_exec W then invoke_NPP_NewStream W P R p mime st seekable stype
       else bind_op (gets (h_stream_addr H)) (\<lambda>pdata.
         if pdata = 0 then ret (Np_Browser.NPERR_OUT_OF_MEMORY_ERROR, stype)
         else bind_op (gets (\<lambda>s. id_create (hash E) pdata (ids s))) (\<lambda>(i, t).
           then_op (modify_state (\<lambda>s. put_stream_instance pdata
             (Some \<lparr>si_stream = st, si_stream_id = i, si_is_plugin_stream = 0\<rparr>) (s\<lparr>ids := t\<rparr>)))
           (bind_op (deref np_streams st) (\<lambda>old.
            then_op (modify_state (put_stream st (Some pdata)))
              (invoke_NPP_NewStream W P R p mime st seekable stype))))))"

definition invoke_NPP_DestroyStream ::
  "('h, 'z) npp_host_scheme wrapper_env \<Rightarrow> ('h, 'z) npp_host_scheme npp_funcs \<Rightarrow>
     (('h, 'z) npp_host_scheme, np_value, 'y) rpc_env_scheme \<Rightarrow> cptr \<Rightarrow> cptr \<Rightarrow> uint16 \<Rightarrow>
     (('h, 'z) npp_host_scheme, NPError) op"
where
  "invoke_NPP_DestroyStream W P R p st reason =
     (if w_direct_exec W then native_call p (p_destroystream P) (\<lambda>npp f. f npp st reason)
      else bind_op (instance_call R p RPC_METHOD_NPP_DESTROY_STREAM
        [np_instance p, np_stream st, Int32 (scast reason)] [P_type RPC_TYPE_INT32]) (\<lambda>r. ret (answer_error r)))"

definition forget_stream ::
  "(('h, 'z) np_process_scheme, 'h) npv_env \<Rightarrow> cptr \<Rightarrow> (('h, 'z) np_process_scheme, unit) op"
where
  "forget_stream E st = bind_op (deref np_streams st) (\<lambda>pdata.
     if pdata = 0 then ret ()
     else bind_op (deref stream_instances pdata) (\<lambda>si.
       modify_state (\<lambda>s. put_stream st (Some 0) (put_stream_instance pdata None
         (s\<lparr>ids := snd (id_remove (hash E) (si_stream_id si) (ids s))\<rparr>)))))"

definition g_NPP_DestroyStream ::
  "('h, 'z) npp_host_scheme wrapper_env \<Rightarrow> ('h, 'z) npp_host_scheme npp_funcs \<Rightarrow> (('h, 'z) npp_host_scheme, 'h) npv_env \<Rightarrow>
     (('h, 'z) npp_host_scheme, np_value, 'y) rpc_env_scheme \<Rightarrow> cptr \<Rightarrow> cptr \<Rightarrow> uint16 \<Rightarrow>
     (('h, 'z) npp_host_scheme, NPError) op"
where
  "g_NPP_DestroyStream W P E R npp st reason =
     on_plugin E npp Np_Browser.NPERR_INVALID_INSTANCE_ERROR (\<lambda>p.
       bind_op (invoke_NPP_DestroyStream W P R p st reason) (\<lambda>r.
       then_op (if w_direct_exec W then ret () else forget_stream E st) (ret r)))"

definition invoke_NPP_StreamAsFile ::
  "('h, 'z) npp_host_scheme wrapper_env \<Rightarrow> ('h, 'z) npp_host_scheme npp_funcs \<Rightarrow>
     (('h, 'z) npp_host_scheme, np_value, 'y) rpc_env_scheme \<Rightarrow> cptr \<Rightarrow> cptr \<Rightarrow> c_string \<Rightarrow> (('h, 'z) npp_host_scheme, unit) op"
where
  "invoke_NPP_StreamAsFile W P R p st fname =
     (if w_direct_exec W then native_call p (p_asfile P) (\<lambda>npp f. f npp st fname)
      else then_op (instance_call R p RPC_METHOD_NPP_STREAM_AS_FILE [np_instance p, np_stream st, Str fname] []) (ret ()))"

definition g_NPP_StreamAsFile ::
  "('h, 'z) npp_host_scheme wrapper_env \<Rightarrow> ('h, 'z) npp_host_scheme npp_funcs \<Rightarrow> (('h, 'z) npp_host_scheme, 'h) npv_env \<Rightarrow>
     (('h, 'z) npp_host_scheme, np_value, 'y) rpc_env_scheme \<Rightarrow> cptr \<Rightarrow> cptr \<Rightarrow> c_string \<Rightarrow> (('h, 'z) npp_host_scheme, unit) op"
where
  "g_NPP_StreamAsFile W P E R npp st fname = on_plugin E npp () (\<lambda>p. invoke_NPP_StreamAsFile W P R p st fname)"

definition invoke_NPP_WriteReady ::
  "('h, 'z) npp_host_scheme wrapper_env \<Rightarrow> ('h, 'z) npp_host_scheme npp_funcs \<Rightarrow>
     (('h, 'z) npp_host_scheme, np_value, 'y) rpc_env_scheme \<Rightarrow> cptr \<Rightarrow> cptr \<Rightarrow> (('h, 'z) npp_host_scheme, int32) op"
where
  "invoke_NPP_WriteReady W P R p st =
     (if w_direct_exec W then native_call p (p_writeready P) (\<lambda>npp f. f npp st)
      else bind_op (instance_call R p RPC_METHOD_NPP_WRITE_READY [np_instance p, np_stream st] [P_type RPC_TYPE_INT32])
        (\<lambda>r. ret (case r of Some [a] \<Rightarrow> as_int32 a | _ \<Rightarrow> NPERR_STREAM_BUFSIZ)))"

definition g_NPP_WriteReady ::
  "('h, 'z) npp_host_scheme wrapper_env \<Rightarrow> ('h, 'z) npp_host_scheme npp_funcs \<Rightarrow> (('h, 'z) npp_host_scheme, 'h) npv_env \<Rightarrow>
     (('h, 'z) npp_host_scheme, np_value, 'y) rpc_env_scheme \<Rightarrow> cptr \<Rightarrow> cptr \<Rightarrow> (('h, 'z) npp_host_scheme, int32) op"
where
  "g_NPP_WriteReady W P E R npp st = on_plugin E npp 0 (\<lambda>p. invoke_NPP_WriteReady W P R p st)"

definition invoke_NPP_Write ::
  "('h, 'z) npp_host_scheme wrapper_env \<Rightarrow> ('h, 'z) npp_host_scheme npp_funcs \<Rightarrow>
     (('h, 'z) npp_host_scheme, np_value, 'y) rpc_env_scheme \<Rightarrow> cptr \<Rightarrow> cptr \<Rightarrow> int32 \<Rightarrow> int32 \<Rightarrow> byte list option \<Rightarrow>
     (('h, 'z) npp_host_scheme, int32) op"
where
  "invoke_NPP_Write W P R p st offset len buf =
     (if w_direct_exec W then native_call p (p_write P) (\<lambda>npp f. f npp st offset len buf)
      else bind_op (instance_call R p RPC_METHOD_NPP_WRITE
        [np_instance p, np_stream st, Int32 offset, char_array len buf] [P_type RPC_TYPE_INT32])
        (\<lambda>r. ret (case r of Some [a] \<Rightarrow> as_int32 a | _ \<Rightarrow> - 1)))"

definition g_NPP_Write ::
  "('h, 'z) npp_host_scheme wrapper_env \<Rightarrow> ('h, 'z) npp_host_scheme npp_funcs \<Rightarrow> (('h, 'z) npp_host_scheme, 'h) npv_env \<Rightarrow>
     (('h, 'z) npp_host_scheme, np_value, 'y) rpc_env_scheme \<Rightarrow> cptr \<Rightarrow> cptr \<Rightarrow> int32 \<Rightarrow> int32 \<Rightarrow> byte list option \<Rightarrow>
     (('h, 'z) npp_host_scheme, int32) op"
where
  "g_NPP_Write W P E R npp st offset len buf = on_plugin E npp (- 1) (\<lambda>p.
     invoke_NPP_Write W P R p st offset len (if c_int len \<le> 0 then None else buf))"

subsection \<open>Printing\<close>

fun platform_print :: "NPPrint \<Rightarrow> cptr" where
  "platform_print (Full_print f) = full_platformPrint f"
| "platform_print (Embed_print e) = embed_platformPrint e"
| "platform_print (Other_print m) = 0"

fun with_printed :: "int32 \<Rightarrow> NPPrint \<Rightarrow> NPPrint" where
  "with_printed b (Full_print f) = Full_print (f\<lparr>pluginPrinted := ucast b\<rparr>)"
| "with_printed b p = p"

text \<open>
  The printer of the browser gets an identifier for the time of the call, which is kept when the call
  fails. The result is the structure of the browser after the call.
\<close>

definition invoke_NPP_Print ::
  "('h, 'z) npp_host_scheme wrapper_env \<Rightarrow> ('h, 'z) npp_host_scheme npp_funcs \<Rightarrow> (('h, 'z) npp_host_scheme, 'h) npv_env \<Rightarrow>
     (('h, 'z) npp_host_scheme, np_value, 'y) rpc_env_scheme \<Rightarrow> cptr \<Rightarrow> NPPrint \<Rightarrow> (('h, 'z) npp_host_scheme, NPPrint) op"
where
  "invoke_NPP_Print W P E R p printInfo =
     (if w_direct_exec W
      then bind_op (native_call p (p_print P) (\<lambda>npp f. f npp printInfo True)) (\<lambda>(after, printed). ret after)
      else if (case printInfo of Other_print m \<Rightarrow> True | _ \<Rightarrow> False) then ret printInfo
      else bind_op (gets (\<lambda>s. if platform_print printInfo = 0 then (0, ids s)
          else id_create (hash E) (platform_print printInfo) (ids s))) (\<lambda>(i, t).
        then_op (modify_state (\<lambda>s. s\<lparr>ids := t\<rparr>))
        (bind_op (instance_call R p RPC_METHOD_NPP_PRINT
            [np_instance p, Uint32 i, User RPC_TYPE_NP_PRINT (NV_print printInfo)] [P_type RPC_TYPE_BOOLEAN]) (\<lambda>r.
           case r of
             Some [a] \<Rightarrow>
               then_op (if i = 0 then ret () else modify_state (\<lambda>s. s\<lparr>ids := snd (id_remove (hash E) i (ids s))\<rparr>))
                 (ret (with_printed (as_boolean a) printInfo))
           | _ \<Rightarrow> ret printInfo))))"

definition g_NPP_Print ::
  "('h, 'z) npp_host_scheme wrapper_env \<Rightarrow> ('h, 'z) npp_host_scheme npp_funcs \<Rightarrow> (('h, 'z) npp_host_scheme, 'h) npv_env \<Rightarrow>
     (('h, 'z) npp_host_scheme, np_value, 'y) rpc_env_scheme \<Rightarrow> cptr \<Rightarrow> NPPrint option \<Rightarrow>
     (('h, 'z) npp_host_scheme, NPPrint option) op"
where
  "g_NPP_Print W P E R npp printInfo = on_plugin E npp printInfo (\<lambda>p.
     case printInfo of
       None \<Rightarrow> ret None
     | Some pr \<Rightarrow> bind_op (invoke_NPP_Print W P E R p pr) (\<lambda>after. ret (Some after)))"

subsection \<open>Events\<close>

text \<open>\<open>false\<close> is 0; without an instance the result is an error code, which a browser takes for \<open>true\<close>.\<close>

definition invoke_NPP_HandleEvent ::
  "('h, 'z) npp_host_scheme wrapper_env \<Rightarrow> ('h, 'z) npp_host_scheme npp_funcs \<Rightarrow>
     (('h, 'z) npp_host_scheme, np_value, 'y) rpc_env_scheme \<Rightarrow> cptr \<Rightarrow> NPEvent \<Rightarrow> (('h, 'z) npp_host_scheme, uint16) op"
where
  "invoke_NPP_HandleEvent W P R p event =
     (if w_direct_exec W then native_call p (p_event P) (\<lambda>npp f. f npp event)
      else bind_op (instance_call R p RPC_METHOD_NPP_HANDLE_EVENT
        [np_instance p, User RPC_TYPE_NP_EVENT (NV_event event)] [P_type RPC_TYPE_INT32])
        (\<lambda>r. ret (case r of Some [a] \<Rightarrow> ucast (as_int32 a) | _ \<Rightarrow> 0)))"

definition before_event ::
  "'s host_env \<Rightarrow> cptr \<Rightarrow> NPEvent \<Rightarrow> ('s, unit) op"
where
  "before_event H npp event =
     (case event of
        GraphicsExpose e \<Rightarrow> h_flush H npp
      | Button press e \<Rightarrow> if press then then_op (h_ungrab H npp (xtime e)) (h_flush H npp) else ret ()
      | _ \<Rightarrow> ret ())"

definition g_NPP_HandleEvent ::
  "('h, 'z) npp_host_scheme host_env \<Rightarrow> ('h, 'z) npp_host_scheme wrapper_env \<Rightarrow> ('h, 'z) npp_host_scheme npp_funcs \<Rightarrow>
     (('h, 'z) npp_host_scheme, 'h) npv_env \<Rightarrow> (('h, 'z) npp_host_scheme, np_value, 'y) rpc_env_scheme \<Rightarrow> cptr \<Rightarrow> NPEvent \<Rightarrow>
     (('h, 'z) npp_host_scheme, uint16) op"
where
  "g_NPP_HandleEvent H W P E R npp event = on_plugin E npp Np_Browser.NPERR_INVALID_INSTANCE_ERROR (\<lambda>p.
     then_op (before_event H npp event) (invoke_NPP_HandleEvent W P R p event))"

subsection \<open>Data of sites\<close>

definition invoke_NPP_ClearSiteData ::
  "('h, 'z) npp_host_scheme wrapper_env \<Rightarrow> ('h, 'z) npp_host_scheme npp_funcs \<Rightarrow>
     (('h, 'z) npp_host_scheme, np_value, 'y) rpc_env_scheme \<Rightarrow> c_string \<Rightarrow> uint64 \<Rightarrow> uint64 \<Rightarrow> (('h, 'z) npp_host_scheme, NPError) op"
where
  "invoke_NPP_ClearSiteData W P R site flags maxAge =
     (if w_direct_exec W then call_through (p_clearsitedata P) (\<lambda>f. f site flags maxAge)
      else bind_op (master_call R RPC_METHOD_NPP_CLEAR_SITE_DATA [Str site, Uint64 flags, Uint64 maxAge] [P_type RPC_TYPE_INT32])
        (\<lambda>r. ret (answer_error r)))"

definition g_NPP_ClearSiteData ::
  "('h, 'z) npp_host_scheme wrapper_env \<Rightarrow> ('h, 'z) npp_host_scheme npp_funcs \<Rightarrow>
     (('h, 'z) npp_host_scheme, np_value, 'y) rpc_env_scheme \<Rightarrow> c_string \<Rightarrow> uint64 \<Rightarrow> uint64 \<Rightarrow> (('h, 'z) npp_host_scheme, NPError) op"
where
  "g_NPP_ClearSiteData W P R site flags maxAge = invoke_NPP_ClearSiteData W P R site flags maxAge"

text \<open>
  The sites as blocks of memory of the browser, one for each (\<open>None\<close> is \<open>NULL\<close>); a block is as long as the
  string it is copied from, without its end. The size of the array of pointers is a 32-bit number.
\<close>

definition copy_site :: "('s \<Rightarrow> uint32 \<Rightarrow> bool) \<Rightarrow> c_string \<Rightarrow> ('s, byte list option) op" where
  "copy_site mem_alloc site =
     (case site of
        None \<Rightarrow> crash Out_of_bounds
      | Some cs \<Rightarrow> bind_op (realloc_bytes mem_alloc (Some (cs @ [0])) (of_nat (length cs))) (\<lambda>(e, block). ret block))"

definition copy_sites ::
  "('s \<Rightarrow> uint32 \<Rightarrow> bool) \<Rightarrow> c_string list \<Rightarrow> ('s, byte list option list option) op"
where
  "copy_sites mem_alloc sites =
     (if sites = [] then ret None
      else bind_op (gets (\<lambda>s. mem_alloc s (of_nat (8 * (length sites + 1))))) (\<lambda>mem.
        if \<not> mem then ret None
        else if 2 ^ 32 \<le> 8 * (length sites + 1) then crash Out_of_bounds
        else bind_op (collect_all (map (copy_site mem_alloc) sites)) (\<lambda>blocks. ret (Some blocks))))"

definition invoke_NPP_GetSitesWithData ::
  "('h, 'z) npp_host_scheme host_env \<Rightarrow> ('h, 'z) npp_host_scheme wrapper_env \<Rightarrow> ('h, 'z) npp_host_scheme npp_funcs \<Rightarrow>
     (('h, 'z) npp_host_scheme, np_value, 'y) rpc_env_scheme \<Rightarrow> (('h, 'z) npp_host_scheme, byte list option list option) op"
where
  "invoke_NPP_GetSitesWithData H W P R =
     (if w_direct_exec W
      then bind_op (call_through (p_getsiteswithdata P) (\<lambda>f. f)) (\<lambda>sites. ret (map_option (map (\<lambda>cs. Some (cs @ [0]))) sites))
      else bind_op (master_call R RPC_METHOD_NPP_GET_SITES_WITH_DATA [] [P_array RPC_TYPE_STRING]) (\<lambda>r.
        case r of
          Some [a] \<Rightarrow> copy_sites (h_can_alloc H) (case as_strings a of None \<Rightarrow> [] | Some xs \<Rightarrow> xs)
        | _ \<Rightarrow> ret None))"

definition g_NPP_GetSitesWithData ::
  "('h, 'z) npp_host_scheme host_env \<Rightarrow> ('h, 'z) npp_host_scheme wrapper_env \<Rightarrow> ('h, 'z) npp_host_scheme npp_funcs \<Rightarrow>
     (('h, 'z) npp_host_scheme, np_value, 'y) rpc_env_scheme \<Rightarrow> (('h, 'z) npp_host_scheme, byte list option list option) op"
where
  "g_NPP_GetSitesWithData H W P R = invoke_NPP_GetSitesWithData H W P R"

end
