(* ===== verification/Npp_Handlers.thy ===== *)
theory Npp_Handlers
  imports Npp_Plugin
begin

text \<open>
  The viewer's half of the calls a browser makes to an instance of the plugin (\<^verbatim>\<open>npw-viewer.c\<close>, "RPC
  communication"), after those of \<open>Npp_Plugin\<close>: its window, variables, streams, printing, events, and the data
  it keeps for sites.
\<close>

subsection \<open>The window\<close>

text \<open>
  The plugin sees its own copy of the window, or the browser's structure when that has no window. What
  it stores in the structure is not modelled. \<open>None\<close>: the window could not be made or changed.
\<close>

definition window_for_plugin ::
  "('h, 'z) npp_side_scheme request_env \<Rightarrow> ('h, 'z) npp_side_scheme toolkit_env \<Rightarrow> cptr \<Rightarrow> NPWindow option \<Rightarrow>
     (('h, 'z) npp_side_scheme, NPWindow option option) op"
where
  "window_for_plugin N X p np_window = bind_op (gets (\<lambda>s. (is_windowless s p, toolkit_data s p))) (\<lambda>(windowless, t).
     case np_window of
       None \<Rightarrow> ret (Some None)
     | Some w \<Rightarrow>
         if win_window w \<noteq> 0 \<or> windowless
         then bind_op (if t \<noteq> None then update_window N X p w else create_window N X p w) (\<lambda>ok.
           if ok then bind_op (gets (\<lambda>s. inst_window s p)) (\<lambda>own. ret (Some (Some own))) else ret None)
         else ret (Some (Some w)))"

definition viewer_NPP_SetWindow ::
  "('h, 'z) npp_side_scheme request_env \<Rightarrow> ('h, 'z) npp_side_scheme toolkit_env \<Rightarrow> ('h, 'z) npp_side_scheme npp_funcs \<Rightarrow>
     (('h, 'z) npp_side_scheme, 'h) npv_env \<Rightarrow> cptr \<Rightarrow> NPWindow option \<Rightarrow> (('h, 'z) npp_side_scheme, NPError) op"
where
  "viewer_NPP_SetWindow N X P E npp np_window =
     (if npp = 0 then ret NPERR_INVALID_INSTANCE_ERROR
      else bind_op (npw_get_plugin_instance (np_env.truncate E) npp) (\<lambda>p.
        if p = 0 then ret NPERR_INVALID_INSTANCE_ERROR
        else if_supported (p_setwindow P) NPERR_INVALID_FUNCTABLE_ERROR (\<lambda>f.
          then_op (modify_state (\<lambda>s. s\<lparr>is_windowless := (is_windowless s)
            (p := (case np_window of None \<Rightarrow> False | Some w \<Rightarrow> win_type w = NPWindowTypeDrawable))\<rparr>))
          (bind_op (window_for_plugin N X p np_window) (\<lambda>seen.
             case seen of
               None \<Rightarrow> ret NPERR_GENERIC_ERROR
             | Some w \<Rightarrow>
                 bind_op (f npp w) (\<lambda>r.
                 bind_op (gets (\<lambda>s. is_windowless s p)) (\<lambda>windowless.
                 then_op
                   (if (case np_window of None \<Rightarrow> True | Some w \<Rightarrow> win_window w = 0 \<and> \<not> windowless)
                    then destroy_window X p else ret ())
                   (ret r))))))))"

definition handle_NPP_SetWindow ::
  "('h, 'z) npp_side_scheme request_env \<Rightarrow> ('h, 'z) npp_side_scheme toolkit_env \<Rightarrow> ('h, 'z) npp_side_scheme npp_funcs \<Rightarrow>
     (('h, 'z) npp_side_scheme, 'h) npv_env \<Rightarrow> (('h, 'z) npp_side_scheme, np_value, 'y) rpc_env_scheme \<Rightarrow>
     (('h, 'z) npp_side_scheme, int) op"
where
  "handle_NPP_SetWindow N X P E R =
     handle R [P_type RPC_TYPE_NPW_PLUGIN_INSTANCE, P_type RPC_TYPE_NP_WINDOW] (\<lambda>as.
     case as of
       [a1, a2] \<Rightarrow> on_npp a1 (\<lambda>npp.
         bind_op (viewer_NPP_SetWindow N X P E npp (as_window a2)) (\<lambda>r. send_reply R [error_arg r]))
     | _ \<Rightarrow> misread)"

subsection \<open>Variables\<close>

definition viewer_NPP_GetValue :: "'s npp_funcs \<Rightarrow> cptr \<Rightarrow> uint32 \<Rightarrow> np_cell \<Rightarrow> ('s, NPError \<times> np_cell) op" where
  "viewer_NPP_GetValue P npp variable cell =
     (if npp = 0 then ret (NPERR_INVALID_INSTANCE_ERROR, cell)
      else if_supported (p_getvalue P) (NPERR_INVALID_FUNCTABLE_ERROR, cell) (\<lambda>f. f npp variable cell))"

definition handle_NPP_GetValue ::
  "('h, 'z) np_process_scheme npp_funcs \<Rightarrow> (('h, 'z) np_process_scheme, np_value, 'y) rpc_env_scheme \<Rightarrow>
     (('h, 'z) np_process_scheme, int) op"
where
  "handle_NPP_GetValue P R = handle R [P_type RPC_TYPE_NPW_PLUGIN_INSTANCE, P_type RPC_TYPE_INT32] (\<lambda>as.
     case as of
       [a1, a2] \<Rightarrow> on_npp a1 (\<lambda>npp.
         let variable = as_int32 a2; t = rpc_type_of_NPPVariable (c_int variable) in
         if t = RPC_TYPE_STRING then bind_op (viewer_NPP_GetValue P npp variable (Cell_string None)) (\<lambda>(r, cell).
           case cell of Cell_string str \<Rightarrow> send_reply R [error_arg r, Str str] | _ \<Rightarrow> misread)
         else if t = RPC_TYPE_INT32 then bind_op (viewer_NPP_GetValue P npp variable (Cell_uint32 0)) (\<lambda>(r, cell).
           case cell of Cell_uint32 n \<Rightarrow> send_reply R [error_arg r, Int32 n] | _ \<Rightarrow> misread)
         else if t = RPC_TYPE_BOOLEAN then bind_op (viewer_NPP_GetValue P npp variable (Cell_bool 0)) (\<lambda>(r, cell).
           case cell of Cell_bool b \<Rightarrow> send_reply R [error_arg r, Boolean (ucast b)] | _ \<Rightarrow> misread)
         else if t = RPC_TYPE_NP_OBJECT then bind_op (viewer_NPP_GetValue P npp variable (Cell_object 0)) (\<lambda>(r, cell).
           case cell of Cell_object p \<Rightarrow> send_reply R [error_arg r, np_object_pass_ref p] | _ \<Rightarrow> misread)
         else crash Aborted)
     | _ \<Rightarrow> misread)"

subsection \<open>Streams\<close>

definition viewer_NPP_URLNotify :: "'s npp_funcs \<Rightarrow> cptr \<Rightarrow> c_string \<Rightarrow> uint16 \<Rightarrow> cptr \<Rightarrow> ('s, unit) op" where
  "viewer_NPP_URLNotify P npp url reason notifyData =
     (if npp = 0 then ret () else if_supported (p_urlnotify P) () (\<lambda>f. f npp url reason notifyData))"

definition handle_NPP_URLNotify ::
  "('h, 'z) np_process_scheme npp_funcs \<Rightarrow> (('h, 'z) np_process_scheme, np_value, 'y) rpc_env_scheme \<Rightarrow>
     (('h, 'z) np_process_scheme, int) op"
where
  "handle_NPP_URLNotify P R =
     handle R [P_type RPC_TYPE_NPW_PLUGIN_INSTANCE, P_type RPC_TYPE_STRING, P_type RPC_TYPE_INT32,
       P_type RPC_TYPE_NP_NOTIFY_DATA] (\<lambda>as.
     case as of
       [a1, a2, a3, a4] \<Rightarrow> on_npp a1 (\<lambda>npp.
         then_op (viewer_NPP_URLNotify P npp (as_string a2) (ucast (as_int32 a3)) (as_notify a4)) (send_reply R []))
     | _ \<Rightarrow> misread)"

definition viewer_NPP_NewStream ::
  "'s npp_funcs \<Rightarrow> cptr \<Rightarrow> c_string \<Rightarrow> cptr \<Rightarrow> byte \<Rightarrow> uint16 \<Rightarrow> ('s, NPError \<times> uint16) op"
where
  "viewer_NPP_NewStream P npp mime st seekable stype =
     (if npp = 0 then ret (NPERR_INVALID_INSTANCE_ERROR, stype)
      else if_supported (p_newstream P) (NPERR_INVALID_FUNCTABLE_ERROR, stype) (\<lambda>f. f npp mime st seekable stype))"

text \<open>
  The stream and its private data are made before the plugin is asked, and stay when it refuses. The
  notification data of the reply are read from the stream after the call.
\<close>

definition name_stream ::
  "(('h, 'z) npp_side_scheme, 'h) npv_env \<Rightarrow> cptr \<Rightarrow> cptr \<Rightarrow> uint32 \<Rightarrow> NPStream \<Rightarrow> ('h, 'z) npp_side_scheme \<Rightarrow>
     ('h, 'z) npp_side_scheme"
where
  "name_stream E st ndata i y s = put_stream st (Some ndata) (put_stream_instance ndata
     (Some \<lparr>si_stream = st, si_stream_id = i, si_is_plugin_stream = 0\<rparr>)
     (s\<lparr>ids := id_link (hash E) i ndata (ids s), stream_data := (stream_data s)(st := Some y)\<rparr>))"

definition handle_NPP_NewStream ::
  "('h, 'z) npp_side_scheme request_env \<Rightarrow> ('h, 'z) npp_side_scheme npp_funcs \<Rightarrow> (('h, 'z) npp_side_scheme, 'h) npv_env \<Rightarrow>
     (('h, 'z) npp_side_scheme, np_value, 'y) rpc_env_scheme \<Rightarrow> (('h, 'z) npp_side_scheme, int) op"
where
  "handle_NPP_NewStream N P E R = return_code (bind_op (gets (new_stream_addr N)) (\<lambda>st.
     if st = 0 then fail RPC_ERROR_NO_MEMORY
     else bind_op (on_live (rpc_method_get_args R
         [P_type RPC_TYPE_NPW_PLUGIN_INSTANCE, P_type RPC_TYPE_STRING, P_type RPC_TYPE_UINT32, P_type RPC_TYPE_STRING,
          P_type RPC_TYPE_UINT32, P_type RPC_TYPE_UINT32, P_type RPC_TYPE_NP_NOTIFY_DATA, P_type RPC_TYPE_STRING,
          P_type RPC_TYPE_BOOLEAN])) (\<lambda>as.
       case as of
         [a1, a2, a3, a4, a5, a6, a7, a8, a9] \<Rightarrow>
           bind_op (gets (new_instance_addr N)) (\<lambda>ndata.
             if ndata = 0 then fail RPC_ERROR_NO_MEMORY
             else
               then_op (modify_state (name_stream E st ndata (as_uint32 a3) \<lparr>st_url = as_string a4, st_end = as_uint32 a5,
                 st_lastmodified = as_uint32 a6, st_notifyData = as_notify a7, st_headers = as_string a8\<rparr>))
               (on_npp a1 (\<lambda>npp.
                bind_op (viewer_NPP_NewStream P npp (as_string a2) st (as_np_bool a9) 1) (\<lambda>(r, stype).
                bind_op (deref stream_data st) (\<lambda>y.
                  send_reply R [error_arg r, Uint32 (ucast stype), np_notify (st_notifyData y)])))))
       | _ \<Rightarrow> misread)))"

text \<open>The stream is freed whatever the plugin answers.\<close>

definition free_stream ::
  "(('h, 'z) npp_side_scheme, 'h) npv_env \<Rightarrow> cptr \<Rightarrow> (('h, 'z) npp_side_scheme, unit) op"
where
  "free_stream E st = bind_op (deref np_streams st) (\<lambda>ndata.
     then_op
       (if ndata = 0 then ret ()
        else bind_op (deref stream_instances ndata) (\<lambda>si.
          modify_state (\<lambda>s. put_stream_instance ndata None (s\<lparr>ids := snd (id_remove (hash E) (si_stream_id si) (ids s))\<rparr>))))
       (modify_state (\<lambda>s. put_stream st None (s\<lparr>stream_data := (stream_data s)(st := None)\<rparr>))))"

definition viewer_NPP_DestroyStream ::
  "('h, 'z) npp_side_scheme npp_funcs \<Rightarrow> (('h, 'z) npp_side_scheme, 'h) npv_env \<Rightarrow> cptr \<Rightarrow> cptr \<Rightarrow> uint16 \<Rightarrow>
     (('h, 'z) npp_side_scheme, NPError) op"
where
  "viewer_NPP_DestroyStream P E npp st reason =
     (if npp = 0 then ret NPERR_INVALID_INSTANCE_ERROR
      else if_supported (p_destroystream P) NPERR_INVALID_FUNCTABLE_ERROR (\<lambda>f.
        if st = 0 then ret NPERR_INVALID_PARAM
        else bind_op (f npp st reason) (\<lambda>r. then_op (free_stream E st) (ret r))))"

definition handle_NPP_DestroyStream ::
  "('h, 'z) npp_side_scheme npp_funcs \<Rightarrow> (('h, 'z) npp_side_scheme, 'h) npv_env \<Rightarrow>
     (('h, 'z) npp_side_scheme, np_value, 'y) rpc_env_scheme \<Rightarrow> (('h, 'z) npp_side_scheme, int) op"
where
  "handle_NPP_DestroyStream P E R =
     handle R [P_type RPC_TYPE_NPW_PLUGIN_INSTANCE, P_type RPC_TYPE_NP_STREAM, P_type RPC_TYPE_INT32] (\<lambda>as.
     case as of
       [a1, a2, a3] \<Rightarrow> on_npp a1 (\<lambda>npp.
         bind_op (viewer_NPP_DestroyStream P E npp (as_stream a2) (ucast (as_int32 a3))) (\<lambda>r. send_reply R [error_arg r]))
     | _ \<Rightarrow> misread)"

definition viewer_NPP_WriteReady :: "'s npp_funcs \<Rightarrow> cptr \<Rightarrow> cptr \<Rightarrow> ('s, int32) op" where
  "viewer_NPP_WriteReady P npp st =
     (if npp = 0 then ret 0 else if_supported (p_writeready P) 0 (\<lambda>f. if st = 0 then ret 0 else f npp st))"

definition handle_NPP_WriteReady ::
  "('h, 'z) np_process_scheme npp_funcs \<Rightarrow> (('h, 'z) np_process_scheme, np_value, 'y) rpc_env_scheme \<Rightarrow>
     (('h, 'z) np_process_scheme, int) op"
where
  "handle_NPP_WriteReady P R = handle R [P_type RPC_TYPE_NPW_PLUGIN_INSTANCE, P_type RPC_TYPE_NP_STREAM] (\<lambda>as.
     case as of
       [a1, a2] \<Rightarrow> on_npp a1 (\<lambda>npp. bind_op (viewer_NPP_WriteReady P npp (as_stream a2)) (\<lambda>r. send_reply R [Int32 r]))
     | _ \<Rightarrow> misread)"

definition viewer_NPP_Write ::
  "'s npp_funcs \<Rightarrow> cptr \<Rightarrow> cptr \<Rightarrow> int32 \<Rightarrow> int32 \<Rightarrow> byte list option \<Rightarrow> ('s, int32) op"
where
  "viewer_NPP_Write P npp st offset len buf =
     (if npp = 0 then ret (- 1)
      else if_supported (p_write P) (- 1) (\<lambda>f. if st = 0 then ret (- 1) else f npp st offset len buf))"

definition handle_NPP_Write ::
  "('h, 'z) np_process_scheme npp_funcs \<Rightarrow> (('h, 'z) np_process_scheme, np_value, 'y) rpc_env_scheme \<Rightarrow>
     (('h, 'z) np_process_scheme, int) op"
where
  "handle_NPP_Write P R =
     handle R [P_type RPC_TYPE_NPW_PLUGIN_INSTANCE, P_type RPC_TYPE_NP_STREAM, P_type RPC_TYPE_INT32,
       P_array RPC_TYPE_CHAR] (\<lambda>as.
     case as of
       [a1, a2, a3, a4] \<Rightarrow> on_npp a1 (\<lambda>npp.
         bind_op (viewer_NPP_Write P npp (as_stream a2) (as_int32 a3) (as_count a4) (as_chars a4))
           (\<lambda>r. send_reply R [Int32 r]))
     | _ \<Rightarrow> misread)"

definition viewer_NPP_StreamAsFile :: "'s npp_funcs \<Rightarrow> cptr \<Rightarrow> cptr \<Rightarrow> c_string \<Rightarrow> ('s, unit) op" where
  "viewer_NPP_StreamAsFile P npp st fname =
     (if npp = 0 then ret () else if_supported (p_asfile P) () (\<lambda>f. if st = 0 then ret () else f npp st fname))"

definition handle_NPP_StreamAsFile ::
  "('h, 'z) np_process_scheme npp_funcs \<Rightarrow> (('h, 'z) np_process_scheme, np_value, 'y) rpc_env_scheme \<Rightarrow>
     (('h, 'z) np_process_scheme, int) op"
where
  "handle_NPP_StreamAsFile P R =
     handle R [P_type RPC_TYPE_NPW_PLUGIN_INSTANCE, P_type RPC_TYPE_NP_STREAM, P_type RPC_TYPE_STRING] (\<lambda>as.
     case as of
       [a1, a2, a3] \<Rightarrow> on_npp a1 (\<lambda>npp.
         then_op (viewer_NPP_StreamAsFile P npp (as_stream a2) (as_string a3)) (send_reply R []))
     | _ \<Rightarrow> misread)"

subsection \<open>Printing\<close>

definition viewer_NPP_Print :: "'s npp_funcs \<Rightarrow> cptr \<Rightarrow> NPPrint \<Rightarrow> bool \<Rightarrow> ('s, NPPrint \<times> byte list) op" where
  "viewer_NPP_Print P npp printInfo fp = if_supported (p_print P) (printInfo, []) (\<lambda>f. f npp printInfo fp)"

definition invoke_NPN_PrintData ::
  "(('h, 'z) np_process_scheme, np_value, 'y) rpc_env_scheme \<Rightarrow> uint32 \<Rightarrow> NPPrintData \<Rightarrow> (('h, 'z) np_process_scheme, unit) op"
where
  "invoke_NPN_PrintData R platform_print_id printData =
     then_op (remote_call R RPC_METHOD_NPN_PRINT_DATA
       [Uint32 platform_print_id, User RPC_TYPE_NP_PRINT_DATA (NV_print_data printData)] []) (ret ())"

text \<open>
  What was printed goes back in blocks of \<open>PRINT_DATA_SIZE\<close> bytes and a last one with the rest, which is
  sent even when it is empty; nothing is sent of an empty file. The file is the bytes left to read.
\<close>

definition print_block :: "byte list \<Rightarrow> NPPrintData" where
  "print_block bs = \<lparr>pd_size = of_nat (length bs), pd_data = bs\<rparr>"

definition send_block ::
  "(('h, 'z) np_process_scheme, 'h) npv_env \<Rightarrow> (('h, 'z) np_process_scheme, np_value, 'y) rpc_env_scheme \<Rightarrow> cptr \<Rightarrow>
     uint32 \<Rightarrow> byte list \<Rightarrow> (('h, 'z) np_process_scheme, unit) op"
where
  "send_block E R plugin i bs = holding E plugin (invoke_NPN_PrintData R i (print_block bs))"

primrec send_full_blocks ::
  "nat \<Rightarrow> (('h, 'z) np_process_scheme, 'h) npv_env \<Rightarrow> (('h, 'z) np_process_scheme, np_value, 'y) rpc_env_scheme \<Rightarrow> cptr \<Rightarrow>
     uint32 \<Rightarrow> byte list \<Rightarrow> (('h, 'z) np_process_scheme, byte list) op"
where
  "send_full_blocks 0 E R plugin i fp = ret fp"
| "send_full_blocks (Suc n) E R plugin i fp =
     then_op (send_block E R plugin i (take PRINT_DATA_SIZE fp)) (send_full_blocks n E R plugin i (drop PRINT_DATA_SIZE fp))"

definition send_printed ::
  "(('h, 'z) np_process_scheme, 'h) npv_env \<Rightarrow> (('h, 'z) np_process_scheme, np_value, 'y) rpc_env_scheme \<Rightarrow> cptr \<Rightarrow>
     uint32 \<Rightarrow> byte list \<Rightarrow> (('h, 'z) np_process_scheme, unit) op"
where
  "send_printed E R plugin i fp =
     (if fp = [] then ret ()
      else bind_op (send_full_blocks (length fp div PRINT_DATA_SIZE) E R plugin i fp) (\<lambda>rest. send_block E R plugin i rest))"

text \<open>The structure the plugin gets: the printer is a local one, an embedded window has its attributes back.\<close>

fun printer_info ::
  "'s request_env \<Rightarrow> 's toolkit_env \<Rightarrow> cptr \<Rightarrow> NPPrint \<Rightarrow> NPPrint"
where
  "printer_info N X printer (Full_print f) = Full_print (f\<lparr>full_platformPrint := printer\<rparr>)"
| "printer_info N X printer (Embed_print e) =
     Embed_print \<lparr>embed_window = (embed_window e)\<lparr>win_ws_info :=
         (case win_ws_info (embed_window e) of
            None \<Rightarrow> None
          | Some ws \<Rightarrow> Some (case create_window_attributes N X ws of Some ws' \<Rightarrow> ws' | None \<Rightarrow> ws))\<rparr>,
       embed_platformPrint = printer\<rparr>"
| "printer_info N X printer (Other_print m) = Other_print m"

fun plugin_printed :: "NPPrint \<Rightarrow> int32" where
  "plugin_printed (Full_print f) = ucast (pluginPrinted f)"
| "plugin_printed p = 0"

definition handle_NPP_Print ::
  "('h, 'z) npp_side_scheme request_env \<Rightarrow> ('h, 'z) npp_side_scheme toolkit_env \<Rightarrow> ('h, 'z) npp_side_scheme npp_funcs \<Rightarrow>
     (('h, 'z) npp_side_scheme, 'h) npv_env \<Rightarrow> (('h, 'z) npp_side_scheme, np_value, 'y) rpc_env_scheme \<Rightarrow>
     (('h, 'z) npp_side_scheme, int) op"
where
  "handle_NPP_Print N X P E R =
     handle R [P_type RPC_TYPE_NPW_PLUGIN_INSTANCE, P_type RPC_TYPE_UINT32, P_type RPC_TYPE_NP_PRINT] (\<lambda>as.
     case as of
       [a1, a2, a3] \<Rightarrow>
         bind_op (gets (\<lambda>s. as_uint32 a2 \<noteq> 0 \<and> p_tmpfile P s)) (\<lambda>fp.
         on_npp a1 (\<lambda>npp.
         bind_op (viewer_NPP_Print P npp (printer_info N X (p_printer P) (as_print a3)) fp) (\<lambda>(printInfo, printed).
         then_op (if fp then send_printed E R (as_instance a1) (as_uint32 a2) printed else ret ())
           (send_reply R [Boolean (plugin_printed printInfo)]))))
     | _ \<Rightarrow> misread)"

subsection \<open>Events\<close>

text \<open>The result is an \<open>int16_t\<close>; \<open>gdk_flush\<close> and the \<open>display\<close> member of the event are not modelled.\<close>

definition viewer_NPP_HandleEvent :: "'s npp_funcs \<Rightarrow> cptr \<Rightarrow> NPEvent \<Rightarrow> ('s, uint16) op" where
  "viewer_NPP_HandleEvent P npp event =
     (if npp = 0 then ret 0 else if_supported (p_event P) 0 (\<lambda>f. f npp event))"

definition handle_NPP_HandleEvent ::
  "('h, 'z) np_process_scheme npp_funcs \<Rightarrow> (('h, 'z) np_process_scheme, np_value, 'y) rpc_env_scheme \<Rightarrow>
     (('h, 'z) np_process_scheme, int) op"
where
  "handle_NPP_HandleEvent P R = handle R [P_type RPC_TYPE_NPW_PLUGIN_INSTANCE, P_type RPC_TYPE_NP_EVENT] (\<lambda>as.
     case as of
       [a1, a2] \<Rightarrow> on_npp a1 (\<lambda>npp.
         bind_op (viewer_NPP_HandleEvent P npp (as_event a2)) (\<lambda>r. send_reply R [Int32 (scast r)]))
     | _ \<Rightarrow> misread)"

subsection \<open>Data of sites\<close>

definition viewer_NPP_ClearSiteData :: "'s npp_funcs \<Rightarrow> c_string \<Rightarrow> uint64 \<Rightarrow> uint64 \<Rightarrow> ('s, NPError) op" where
  "viewer_NPP_ClearSiteData P site flags maxAge =
     if_supported (p_clearsitedata P) NPERR_INVALID_FUNCTABLE_ERROR (\<lambda>f. f site flags maxAge)"

definition handle_NPP_ClearSiteData ::
  "('h, 'z) np_process_scheme npp_funcs \<Rightarrow> (('h, 'z) np_process_scheme, np_value, 'y) rpc_env_scheme \<Rightarrow>
     (('h, 'z) np_process_scheme, int) op"
where
  "handle_NPP_ClearSiteData P R = handle R [P_type RPC_TYPE_STRING, P_type RPC_TYPE_UINT64, P_type RPC_TYPE_UINT64] (\<lambda>as.
     case as of
       [a1, a2, a3] \<Rightarrow>
         bind_op (viewer_NPP_ClearSiteData P (as_string a1) (as_uint64 a2) (as_uint64 a3)) (\<lambda>r. send_reply R [error_arg r])
     | _ \<Rightarrow> misread)"

definition viewer_NPP_GetSitesWithData :: "'s npp_funcs \<Rightarrow> ('s, byte list list option) op" where
  "viewer_NPP_GetSitesWithData P = if_supported (p_getsiteswithdata P) None (\<lambda>f. f)"

definition handle_NPP_GetSitesWithData ::
  "('h, 'z) np_process_scheme npp_funcs \<Rightarrow> (('h, 'z) np_process_scheme, np_value, 'y) rpc_env_scheme \<Rightarrow>
     (('h, 'z) np_process_scheme, int) op"
where
  "handle_NPP_GetSitesWithData P R = handle R [] (\<lambda>as.
     bind_op (viewer_NPP_GetSitesWithData P) (\<lambda>sites. send_reply R [string_array sites]))"

end
