(* ===== verification/Np_Script.thy ===== *)
theory Np_Script
  imports Np_Browser
begin

text \<open>
  The wrapper's half of the calls of a plugin on objects of the browser (\<^verbatim>\<open>npw-wrapper.c\<close>, "NPRuntime
  glue"): the calls of the browser and the handlers. The members of the browser's function table for
  objects are called without a check that they are there, but for \<open>enumerate\<close> and \<open>construct\<close>.
\<close>

subsection \<open>The wrapper\<close>

text \<open>\<open>g_NPN_ReleaseObject\<close> reads the reference count before it releases the object.\<close>

definition wrapper_NPN_CreateObject ::
  "(('h, 'z) np_process_scheme, 'h) npv_env \<Rightarrow> cptr \<Rightarrow> cptr \<Rightarrow> (('h, 'z) np_process_scheme, cptr) op"
where
  "wrapper_NPN_CreateObject E npp klass = NPN_CreateObject E npp klass"

definition wrapper_NPN_RetainObject ::
  "(('h, 'z) np_process_scheme, 'h) npv_env \<Rightarrow> cptr \<Rightarrow> (('h, 'z) np_process_scheme, cptr) op"
where
  "wrapper_NPN_RetainObject E npobj = NPN_RetainObject E npobj"

definition wrapper_NPN_ReleaseObject ::
  "(('h, 'z) np_process_scheme, 'h) npv_env \<Rightarrow> cptr \<Rightarrow> (('h, 'z) np_process_scheme, unit) op"
where
  "wrapper_NPN_ReleaseObject E npobj = bind_op (deref objects npobj) (\<lambda>obj. NPN_ReleaseObject E npobj)"

definition wrapper_NPN_Invoke ::
  "('s, 'b) mozilla_funcs_scheme \<Rightarrow> cptr \<Rightarrow> cptr \<Rightarrow> cptr \<Rightarrow> NPVariant list option \<Rightarrow> uint32 \<Rightarrow> ('s, bool \<times> NPVariant) op"
where
  "wrapper_NPN_Invoke B npp npobj methodName args argCount =
     then_op (print_npvariant_args args argCount)
       (call_through (b_invoke B) (\<lambda>f. f npp npobj methodName args argCount))"

definition handle_NPN_Invoke ::
  "(('h, 'z) np_process_scheme, 'h) npv_env \<Rightarrow> (('h, 'z) np_process_scheme, 'b) mozilla_funcs_scheme \<Rightarrow>
     (('h, 'z) np_process_scheme, np_value, 'y) rpc_env_scheme \<Rightarrow> (('h, 'z) np_process_scheme, int) op"
where
  "handle_NPN_Invoke E B R =
     handle R [P_type RPC_TYPE_NPW_PLUGIN_INSTANCE, P_type RPC_TYPE_NP_OBJECT, P_type RPC_TYPE_NP_IDENTIFIER,
       P_array RPC_TYPE_NP_VARIANT] (\<lambda>as.
     case as of
       [a1, a2, a3, a4] \<Rightarrow> on_npp a1 (\<lambda>npp.
         bind_op (wrapper_NPN_Invoke B npp (as_object a2) (as_identifier a3) (as_variants a4) (as_count a4)) (\<lambda>(r, result).
         then_op (release_object E (as_object a2))
         (then_op (release_variants E (as_variants a4))
           (send_reply R [Uint32 (truth r), np_variant_pass_ref result]))))
     | _ \<Rightarrow> misread)"

definition wrapper_NPN_InvokeDefault ::
  "('s, 'b) mozilla_funcs_scheme \<Rightarrow> cptr \<Rightarrow> cptr \<Rightarrow> NPVariant list option \<Rightarrow> uint32 \<Rightarrow> ('s, bool \<times> NPVariant) op"
where
  "wrapper_NPN_InvokeDefault B npp npobj args argCount =
     then_op (print_npvariant_args args argCount)
       (call_through (b_invokeDefault B) (\<lambda>f. f npp npobj args argCount))"

definition handle_NPN_InvokeDefault ::
  "(('h, 'z) np_process_scheme, 'h) npv_env \<Rightarrow> (('h, 'z) np_process_scheme, 'b) mozilla_funcs_scheme \<Rightarrow>
     (('h, 'z) np_process_scheme, np_value, 'y) rpc_env_scheme \<Rightarrow> (('h, 'z) np_process_scheme, int) op"
where
  "handle_NPN_InvokeDefault E B R =
     handle R [P_type RPC_TYPE_NPW_PLUGIN_INSTANCE, P_type RPC_TYPE_NP_OBJECT, P_array RPC_TYPE_NP_VARIANT] (\<lambda>as.
     case as of
       [a1, a2, a3] \<Rightarrow> on_npp a1 (\<lambda>npp.
         bind_op (wrapper_NPN_InvokeDefault B npp (as_object a2) (as_variants a3) (as_count a3)) (\<lambda>(r, result).
         then_op (release_object E (as_object a2))
         (then_op (release_variants E (as_variants a3))
           (send_reply R [Uint32 (truth r), np_variant_pass_ref result]))))
     | _ \<Rightarrow> misread)"

text \<open>The string is freed when it has characters.\<close>

definition wrapper_NPN_Evaluate ::
  "('s, 'b) mozilla_funcs_scheme \<Rightarrow> cptr \<Rightarrow> cptr \<Rightarrow> NPString \<Rightarrow> ('s, bool \<times> NPVariant) op"
where
  "wrapper_NPN_Evaluate B npp npobj script = call_through (b_evaluate B) (\<lambda>f. f npp npobj script)"

definition handle_NPN_Evaluate ::
  "(('h, 'z) np_process_scheme, 'h) npv_env \<Rightarrow> (('h, 'z) np_process_scheme, 'b) mozilla_funcs_scheme \<Rightarrow>
     (('h, 'z) np_process_scheme, np_value, 'y) rpc_env_scheme \<Rightarrow> (('h, 'z) np_process_scheme, int) op"
where
  "handle_NPN_Evaluate E B R =
     handle R [P_type RPC_TYPE_NPW_PLUGIN_INSTANCE, P_type RPC_TYPE_NP_OBJECT, P_type RPC_TYPE_NP_STRING] (\<lambda>as.
     case as of
       [a1, a2, a3] \<Rightarrow> on_npp a1 (\<lambda>npp.
         bind_op (wrapper_NPN_Evaluate B npp (as_object a2) (as_np_string a3)) (\<lambda>(r, result).
         then_op (release_object E (as_object a2))
         (then_op (case UTF8Characters (as_np_string a3) of None \<Rightarrow> ret () | Some bs \<Rightarrow> b_memfree B (Some bs))
           (send_reply R [Uint32 (truth r), np_variant_pass_ref result]))))
     | _ \<Rightarrow> misread)"

definition wrapper_NPN_GetProperty ::
  "('s, 'b) mozilla_funcs_scheme \<Rightarrow> cptr \<Rightarrow> cptr \<Rightarrow> cptr \<Rightarrow> ('s, bool \<times> NPVariant) op"
where
  "wrapper_NPN_GetProperty B npp npobj name = call_through (b_getproperty B) (\<lambda>f. f npp npobj name)"

definition handle_NPN_GetProperty ::
  "(('h, 'z) np_process_scheme, 'h) npv_env \<Rightarrow> (('h, 'z) np_process_scheme, 'b) mozilla_funcs_scheme \<Rightarrow>
     (('h, 'z) np_process_scheme, np_value, 'y) rpc_env_scheme \<Rightarrow> (('h, 'z) np_process_scheme, int) op"
where
  "handle_NPN_GetProperty E B R =
     handle R [P_type RPC_TYPE_NPW_PLUGIN_INSTANCE, P_type RPC_TYPE_NP_OBJECT, P_type RPC_TYPE_NP_IDENTIFIER] (\<lambda>as.
     case as of
       [a1, a2, a3] \<Rightarrow> on_npp a1 (\<lambda>npp.
         bind_op (wrapper_NPN_GetProperty B npp (as_object a2) (as_identifier a3)) (\<lambda>(r, result).
         then_op (release_object E (as_object a2))
           (send_reply R [Uint32 (truth r), np_variant_pass_ref result])))
     | _ \<Rightarrow> misread)"

definition wrapper_NPN_SetProperty ::
  "('s, 'b) mozilla_funcs_scheme \<Rightarrow> cptr \<Rightarrow> cptr \<Rightarrow> cptr \<Rightarrow> NPVariant \<Rightarrow> ('s, bool) op"
where
  "wrapper_NPN_SetProperty B npp npobj name v = call_through (b_setproperty B) (\<lambda>f. f npp npobj name v)"

definition handle_NPN_SetProperty ::
  "(('h, 'z) np_process_scheme, 'h) npv_env \<Rightarrow> (('h, 'z) np_process_scheme, 'b) mozilla_funcs_scheme \<Rightarrow>
     (('h, 'z) np_process_scheme, np_value, 'y) rpc_env_scheme \<Rightarrow> (('h, 'z) np_process_scheme, int) op"
where
  "handle_NPN_SetProperty E B R =
     handle R [P_type RPC_TYPE_NPW_PLUGIN_INSTANCE, P_type RPC_TYPE_NP_OBJECT, P_type RPC_TYPE_NP_IDENTIFIER,
       P_type RPC_TYPE_NP_VARIANT] (\<lambda>as.
     case as of
       [a1, a2, a3, a4] \<Rightarrow> on_npp a1 (\<lambda>npp.
         bind_op (wrapper_NPN_SetProperty B npp (as_object a2) (as_identifier a3) (as_variant a4)) (\<lambda>r.
         then_op (release_object E (as_object a2))
         (then_op (NPN_ReleaseVariantValue E (as_variant a4)) (send_reply R [Uint32 (truth r)]))))
     | _ \<Rightarrow> misread)"

definition wrapper_NPN_RemoveProperty ::
  "('s, 'b) mozilla_funcs_scheme \<Rightarrow> cptr \<Rightarrow> cptr \<Rightarrow> cptr \<Rightarrow> ('s, bool) op"
where
  "wrapper_NPN_RemoveProperty B npp npobj name = call_through (b_removeproperty B) (\<lambda>f. f npp npobj name)"

definition wrapper_NPN_HasProperty ::
  "('s, 'b) mozilla_funcs_scheme \<Rightarrow> cptr \<Rightarrow> cptr \<Rightarrow> cptr \<Rightarrow> ('s, bool) op"
where
  "wrapper_NPN_HasProperty B npp npobj name = call_through (b_hasproperty B) (\<lambda>f. f npp npobj name)"

definition wrapper_NPN_HasMethod ::
  "('s, 'b) mozilla_funcs_scheme \<Rightarrow> cptr \<Rightarrow> cptr \<Rightarrow> cptr \<Rightarrow> ('s, bool) op"
where
  "wrapper_NPN_HasMethod B npp npobj name = call_through (b_hasmethod B) (\<lambda>f. f npp npobj name)"

definition handle_NPN_RemoveProperty ::
  "(('h, 'z) np_process_scheme, 'h) npv_env \<Rightarrow> (('h, 'z) np_process_scheme, 'b) mozilla_funcs_scheme \<Rightarrow>
     (('h, 'z) np_process_scheme, np_value, 'y) rpc_env_scheme \<Rightarrow> (('h, 'z) np_process_scheme, int) op"
where
  "handle_NPN_RemoveProperty E B R =
     handle R [P_type RPC_TYPE_NPW_PLUGIN_INSTANCE, P_type RPC_TYPE_NP_OBJECT, P_type RPC_TYPE_NP_IDENTIFIER] (\<lambda>as.
     case as of
       [a1, a2, a3] \<Rightarrow> on_npp a1 (\<lambda>npp.
         bind_op (wrapper_NPN_RemoveProperty B npp (as_object a2) (as_identifier a3)) (\<lambda>r.
         then_op (release_object E (as_object a2)) (send_reply R [Uint32 (truth r)])))
     | _ \<Rightarrow> misread)"

definition handle_NPN_HasProperty ::
  "(('h, 'z) np_process_scheme, 'h) npv_env \<Rightarrow> (('h, 'z) np_process_scheme, 'b) mozilla_funcs_scheme \<Rightarrow>
     (('h, 'z) np_process_scheme, np_value, 'y) rpc_env_scheme \<Rightarrow> (('h, 'z) np_process_scheme, int) op"
where
  "handle_NPN_HasProperty E B R =
     handle R [P_type RPC_TYPE_NPW_PLUGIN_INSTANCE, P_type RPC_TYPE_NP_OBJECT, P_type RPC_TYPE_NP_IDENTIFIER] (\<lambda>as.
     case as of
       [a1, a2, a3] \<Rightarrow> on_npp a1 (\<lambda>npp.
         bind_op (wrapper_NPN_HasProperty B npp (as_object a2) (as_identifier a3)) (\<lambda>r.
         then_op (release_object E (as_object a2)) (send_reply R [Uint32 (truth r)])))
     | _ \<Rightarrow> misread)"

definition handle_NPN_HasMethod ::
  "(('h, 'z) np_process_scheme, 'h) npv_env \<Rightarrow> (('h, 'z) np_process_scheme, 'b) mozilla_funcs_scheme \<Rightarrow>
     (('h, 'z) np_process_scheme, np_value, 'y) rpc_env_scheme \<Rightarrow> (('h, 'z) np_process_scheme, int) op"
where
  "handle_NPN_HasMethod E B R =
     handle R [P_type RPC_TYPE_NPW_PLUGIN_INSTANCE, P_type RPC_TYPE_NP_OBJECT, P_type RPC_TYPE_NP_IDENTIFIER] (\<lambda>as.
     case as of
       [a1, a2, a3] \<Rightarrow> on_npp a1 (\<lambda>npp.
         bind_op (wrapper_NPN_HasMethod B npp (as_object a2) (as_identifier a3)) (\<lambda>r.
         then_op (release_object E (as_object a2)) (send_reply R [Uint32 (truth r)])))
     | _ \<Rightarrow> misread)"

text \<open>The block of identifiers is freed whether or not there is one.\<close>

definition wrapper_NPN_Enumerate ::
  "('s, 'b) mozilla_funcs_scheme \<Rightarrow> cptr \<Rightarrow> cptr \<Rightarrow> ('s, bool \<times> cptr list option \<times> uint32) op"
where
  "wrapper_NPN_Enumerate B npp npobj = if_supported (b_enumerate B) (False, None, 0) (\<lambda>f. f npp npobj)"

definition handle_NPN_Enumerate ::
  "(('h, 'z) np_process_scheme, 'h) npv_env \<Rightarrow> (('h, 'z) np_process_scheme, 'b) mozilla_funcs_scheme \<Rightarrow>
     (('h, 'z) np_process_scheme, np_value, 'y) rpc_env_scheme \<Rightarrow> (('h, 'z) np_process_scheme, int) op"
where
  "handle_NPN_Enumerate E B R =
     handle R [P_type RPC_TYPE_NPW_PLUGIN_INSTANCE, P_type RPC_TYPE_NP_OBJECT] (\<lambda>as.
     case as of
       [a1, a2] \<Rightarrow> on_npp a1 (\<lambda>npp.
         bind_op (wrapper_NPN_Enumerate B npp (as_object a2)) (\<lambda>(r, idents, n).
         then_op (release_object E (as_object a2))
           (and_finally (send_reply R [Uint32 (truth r), np_array RPC_TYPE_NP_IDENTIFIER NV_identifier n idents])
             (b_memfree_idents B idents))))
     | _ \<Rightarrow> misread)"

definition wrapper_NPN_Construct ::
  "('s, 'b) mozilla_funcs_scheme \<Rightarrow> cptr \<Rightarrow> cptr \<Rightarrow> NPVariant list option \<Rightarrow> uint32 \<Rightarrow> ('s, bool \<times> NPVariant) op"
where
  "wrapper_NPN_Construct B npp npobj args argCount = if_supported (b_construct B) (False, V_void) (\<lambda>f.
     then_op (print_npvariant_args args argCount) (f npp npobj args argCount))"

definition handle_NPN_Construct ::
  "(('h, 'z) np_process_scheme, 'h) npv_env \<Rightarrow> (('h, 'z) np_process_scheme, 'b) mozilla_funcs_scheme \<Rightarrow>
     (('h, 'z) np_process_scheme, np_value, 'y) rpc_env_scheme \<Rightarrow> (('h, 'z) np_process_scheme, int) op"
where
  "handle_NPN_Construct E B R =
     handle R [P_type RPC_TYPE_NPW_PLUGIN_INSTANCE, P_type RPC_TYPE_NP_OBJECT, P_array RPC_TYPE_NP_VARIANT] (\<lambda>as.
     case as of
       [a1, a2, a3] \<Rightarrow> on_npp a1 (\<lambda>npp.
         bind_op (wrapper_NPN_Construct B npp (as_object a2) (as_variants a3) (as_count a3)) (\<lambda>(r, result).
         then_op (release_object E (as_object a2))
         (then_op (release_variants E (as_variants a3))
           (send_reply R [Uint32 (truth r), np_variant_pass_ref result]))))
     | _ \<Rightarrow> misread)"

definition wrapper_NPN_SetException :: "('s, 'b) mozilla_funcs_scheme \<Rightarrow> cptr \<Rightarrow> c_string \<Rightarrow> ('s, unit) op" where
  "wrapper_NPN_SetException B npobj msg = call_through (b_setexception B) (\<lambda>f. f npobj msg)"

definition handle_NPN_SetException ::
  "(('h, 'z) np_process_scheme, 'h) npv_env \<Rightarrow> (('h, 'z) np_process_scheme, 'b) mozilla_funcs_scheme \<Rightarrow>
     (('h, 'z) np_process_scheme, np_value, 'y) rpc_env_scheme \<Rightarrow> (('h, 'z) np_process_scheme, int) op"
where
  "handle_NPN_SetException E B R = handle R [P_type RPC_TYPE_NP_OBJECT, P_type RPC_TYPE_STRING] (\<lambda>as.
     case as of
       [a1, a2] \<Rightarrow>
         then_op (wrapper_NPN_SetException B (as_object a1) (as_string a2))
         (then_op (release_object E (as_object a1)) (send_reply R []))
     | _ \<Rightarrow> misread)"

end
