(* ===== verification/Np_Script_Requests.thy ===== *)
theory Np_Script_Requests
  imports Np_Requests
begin

text \<open>
  The viewer's half of the calls of a plugin on objects of the browser (\<^verbatim>\<open>npw-viewer.c\<close>, "NPRuntime
  glue"): the remote calls (\<open>invoke_NPN_...\<close>) and the functions the plugin is given (\<open>g_NPN_...\<close>). The
  functions that create, retain and release objects are in \<open>Np_Objects\<close>, those on identifiers in
  \<open>Np_Identifiers\<close>.
\<close>

subsection \<open>The class of the object\<close>

text \<open>
  \<open>!npobj || !npobj->_class || !npobj->_class->member\<close>. The class is read without a look at its version:
  the members \<open>enumerate\<close> and \<open>construct\<close> are not there in the structure of an older class.
\<close>

definition member_from :: "uint32 \<Rightarrow> ('s NPClass \<Rightarrow> 'f option) \<Rightarrow> 's NPClass \<Rightarrow> ('s, bool) op" where
  "member_from version sel c = (if structVersion c < version then crash Out_of_bounds else ret (sel c \<noteq> None))"

definition on_member ::
  "('h, 'z) np_process_scheme np_classes \<Rightarrow> cptr \<Rightarrow>
     (('h, 'z) np_process_scheme NPClass \<Rightarrow> (('h, 'z) np_process_scheme, bool) op) \<Rightarrow> 'a \<Rightarrow>
     (('h, 'z) np_process_scheme, 'a) op \<Rightarrow> (('h, 'z) np_process_scheme, 'a) op"
where
  "on_member C npobj has otherwise m =
     (if npobj = 0 then ret otherwise
      else bind_op (deref objects npobj) (\<lambda>obj.
        if obj_class obj = 0 then ret otherwise
        else bind_op (has (C (obj_class obj))) (\<lambda>b. if b then m else ret otherwise)))"

text \<open>The answer and, when there is a reply, the value stored in \<open>*result\<close>.\<close>

definition answer_stored :: "np_value rpc_arg list option \<Rightarrow> bool \<times> NPVariant option" where
  "answer_stored r = (case r of Some [a, b] \<Rightarrow> (as_uint32 a \<noteq> 0, Some (as_variant b)) | _ \<Rightarrow> (False, None))"

subsection \<open>The calls\<close>

definition invoke_NPN_Invoke ::
  "(('h, 'z) np_process_scheme, np_value, 'y) rpc_env_scheme \<Rightarrow> cptr \<Rightarrow> cptr \<Rightarrow> cptr \<Rightarrow> NPVariant list option \<Rightarrow> uint32 \<Rightarrow>
     (('h, 'z) np_process_scheme, bool \<times> NPVariant option) op"
where
  "invoke_NPN_Invoke R plugin npobj methodName args argCount =
     bind_op (remote_call R RPC_METHOD_NPN_INVOKE
       [np_instance plugin, np_object npobj, np_identifier methodName, np_array RPC_TYPE_NP_VARIANT NV_variant argCount args]
       [P_type RPC_TYPE_UINT32, P_type RPC_TYPE_NP_VARIANT_PASS_REF]) (\<lambda>r. ret (answer_stored r))"

definition g_NPN_Invoke ::
  "'s request_env \<Rightarrow> (('h, 'z) np_process_scheme, 'h) npv_env \<Rightarrow> ('h, 'z) np_process_scheme np_classes \<Rightarrow>
     (('h, 'z) np_process_scheme, np_value, 'y) rpc_env_scheme \<Rightarrow> cptr \<Rightarrow> cptr \<Rightarrow> cptr \<Rightarrow> NPVariant list option \<Rightarrow> uint32 \<Rightarrow>
     (('h, 'z) np_process_scheme, bool \<times> NPVariant option) op"
where
  "g_NPN_Invoke N E C R npp npobj methodName args argCount = on_instance N E npp (False, None) (\<lambda>plugin.
     on_member C npobj (member_from 0 invoke) (False, None)
       (then_op (print_npvariant_args args argCount)
         (holding E plugin (invoke_NPN_Invoke R plugin npobj methodName args argCount))))"

definition invoke_NPN_InvokeDefault ::
  "(('h, 'z) np_process_scheme, np_value, 'y) rpc_env_scheme \<Rightarrow> cptr \<Rightarrow> cptr \<Rightarrow> NPVariant list option \<Rightarrow> uint32 \<Rightarrow>
     (('h, 'z) np_process_scheme, bool \<times> NPVariant option) op"
where
  "invoke_NPN_InvokeDefault R plugin npobj args argCount =
     bind_op (remote_call R RPC_METHOD_NPN_INVOKE_DEFAULT
       [np_instance plugin, np_object npobj, np_array RPC_TYPE_NP_VARIANT NV_variant argCount args]
       [P_type RPC_TYPE_UINT32, P_type RPC_TYPE_NP_VARIANT_PASS_REF]) (\<lambda>r. ret (answer_stored r))"

definition g_NPN_InvokeDefault ::
  "'s request_env \<Rightarrow> (('h, 'z) np_process_scheme, 'h) npv_env \<Rightarrow> ('h, 'z) np_process_scheme np_classes \<Rightarrow>
     (('h, 'z) np_process_scheme, np_value, 'y) rpc_env_scheme \<Rightarrow> cptr \<Rightarrow> cptr \<Rightarrow> NPVariant list option \<Rightarrow> uint32 \<Rightarrow>
     (('h, 'z) np_process_scheme, bool \<times> NPVariant option) op"
where
  "g_NPN_InvokeDefault N E C R npp npobj args argCount = on_instance N E npp (False, None) (\<lambda>plugin.
     on_member C npobj (member_from 0 invokeDefault) (False, None)
       (then_op (print_npvariant_args args argCount)
         (holding E plugin (invoke_NPN_InvokeDefault R plugin npobj args argCount))))"

definition invoke_NPN_Evaluate ::
  "(('h, 'z) np_process_scheme, np_value, 'y) rpc_env_scheme \<Rightarrow> cptr \<Rightarrow> cptr \<Rightarrow> NPString \<Rightarrow>
     (('h, 'z) np_process_scheme, bool \<times> NPVariant option) op"
where
  "invoke_NPN_Evaluate R plugin npobj script =
     bind_op (remote_call R RPC_METHOD_NPN_EVALUATE
       [np_instance plugin, np_object npobj, User RPC_TYPE_NP_STRING (NV_string script)]
       [P_type RPC_TYPE_UINT32, P_type RPC_TYPE_NP_VARIANT_PASS_REF]) (\<lambda>r. ret (answer_stored r))"

text \<open>Nothing to evaluate is a success, without a result.\<close>

definition g_NPN_Evaluate ::
  "'s request_env \<Rightarrow> (('h, 'z) np_process_scheme, 'h) npv_env \<Rightarrow> (('h, 'z) np_process_scheme, np_value, 'y) rpc_env_scheme \<Rightarrow>
     cptr \<Rightarrow> cptr \<Rightarrow> NPString option \<Rightarrow> (('h, 'z) np_process_scheme, bool \<times> NPVariant option) op"
where
  "g_NPN_Evaluate N E R npp npobj script = on_instance N E npp (False, None) (\<lambda>plugin.
     if npobj = 0 then ret (False, None)
     else
       (case script of
          None \<Rightarrow> ret (True, None)
        | Some str \<Rightarrow>
            if UTF8Length str = 0 \<or> UTF8Characters str = None then ret (True, None)
            else holding E plugin (invoke_NPN_Evaluate R plugin npobj str)))"

definition invoke_NPN_GetProperty ::
  "(('h, 'z) np_process_scheme, np_value, 'y) rpc_env_scheme \<Rightarrow> cptr \<Rightarrow> cptr \<Rightarrow> cptr \<Rightarrow>
     (('h, 'z) np_process_scheme, bool \<times> NPVariant option) op"
where
  "invoke_NPN_GetProperty R plugin npobj propertyName =
     bind_op (remote_call R RPC_METHOD_NPN_GET_PROPERTY
       [np_instance plugin, np_object npobj, np_identifier propertyName]
       [P_type RPC_TYPE_UINT32, P_type RPC_TYPE_NP_VARIANT_PASS_REF]) (\<lambda>r. ret (answer_stored r))"

definition g_NPN_GetProperty ::
  "'s request_env \<Rightarrow> (('h, 'z) np_process_scheme, 'h) npv_env \<Rightarrow> ('h, 'z) np_process_scheme np_classes \<Rightarrow>
     (('h, 'z) np_process_scheme, np_value, 'y) rpc_env_scheme \<Rightarrow> cptr \<Rightarrow> cptr \<Rightarrow> cptr \<Rightarrow>
     (('h, 'z) np_process_scheme, bool \<times> NPVariant option) op"
where
  "g_NPN_GetProperty N E C R npp npobj propertyName = on_instance N E npp (False, None) (\<lambda>plugin.
     on_member C npobj (member_from 0 getProperty) (False, None)
       (holding E plugin (invoke_NPN_GetProperty R plugin npobj propertyName)))"

definition invoke_NPN_SetProperty ::
  "(('h, 'z) np_process_scheme, np_value, 'y) rpc_env_scheme \<Rightarrow> cptr \<Rightarrow> cptr \<Rightarrow> cptr \<Rightarrow> NPVariant \<Rightarrow>
     (('h, 'z) np_process_scheme, bool) op"
where
  "invoke_NPN_SetProperty R plugin npobj propertyName v =
     bind_op (remote_call R RPC_METHOD_NPN_SET_PROPERTY
       [np_instance plugin, np_object npobj, np_identifier propertyName, np_variant v]
       [P_type RPC_TYPE_UINT32]) (\<lambda>r. ret (answer r))"

definition g_NPN_SetProperty ::
  "'s request_env \<Rightarrow> (('h, 'z) np_process_scheme, 'h) npv_env \<Rightarrow> ('h, 'z) np_process_scheme np_classes \<Rightarrow>
     (('h, 'z) np_process_scheme, np_value, 'y) rpc_env_scheme \<Rightarrow> cptr \<Rightarrow> cptr \<Rightarrow> cptr \<Rightarrow> NPVariant \<Rightarrow>
     (('h, 'z) np_process_scheme, bool) op"
where
  "g_NPN_SetProperty N E C R npp npobj propertyName v = on_instance N E npp False (\<lambda>plugin.
     on_member C npobj (member_from 0 setProperty) False
       (holding E plugin (invoke_NPN_SetProperty R plugin npobj propertyName v)))"

definition invoke_NPN_RemoveProperty ::
  "(('h, 'z) np_process_scheme, np_value, 'y) rpc_env_scheme \<Rightarrow> cptr \<Rightarrow> cptr \<Rightarrow> cptr \<Rightarrow>
     (('h, 'z) np_process_scheme, bool) op"
where
  "invoke_NPN_RemoveProperty R plugin npobj propertyName =
     bind_op (remote_call R RPC_METHOD_NPN_REMOVE_PROPERTY
       [np_instance plugin, np_object npobj, np_identifier propertyName] [P_type RPC_TYPE_UINT32]) (\<lambda>r. ret (answer r))"

definition g_NPN_RemoveProperty ::
  "'s request_env \<Rightarrow> (('h, 'z) np_process_scheme, 'h) npv_env \<Rightarrow> ('h, 'z) np_process_scheme np_classes \<Rightarrow>
     (('h, 'z) np_process_scheme, np_value, 'y) rpc_env_scheme \<Rightarrow> cptr \<Rightarrow> cptr \<Rightarrow> cptr \<Rightarrow>
     (('h, 'z) np_process_scheme, bool) op"
where
  "g_NPN_RemoveProperty N E C R npp npobj propertyName = on_instance N E npp False (\<lambda>plugin.
     on_member C npobj (member_from 0 removeProperty) False
       (holding E plugin (invoke_NPN_RemoveProperty R plugin npobj propertyName)))"

definition invoke_NPN_HasProperty ::
  "(('h, 'z) np_process_scheme, np_value, 'y) rpc_env_scheme \<Rightarrow> cptr \<Rightarrow> cptr \<Rightarrow> cptr \<Rightarrow>
     (('h, 'z) np_process_scheme, bool) op"
where
  "invoke_NPN_HasProperty R plugin npobj propertyName =
     bind_op (remote_call R RPC_METHOD_NPN_HAS_PROPERTY
       [np_instance plugin, np_object npobj, np_identifier propertyName] [P_type RPC_TYPE_UINT32]) (\<lambda>r. ret (answer r))"

definition g_NPN_HasProperty ::
  "'s request_env \<Rightarrow> (('h, 'z) np_process_scheme, 'h) npv_env \<Rightarrow> ('h, 'z) np_process_scheme np_classes \<Rightarrow>
     (('h, 'z) np_process_scheme, np_value, 'y) rpc_env_scheme \<Rightarrow> cptr \<Rightarrow> cptr \<Rightarrow> cptr \<Rightarrow>
     (('h, 'z) np_process_scheme, bool) op"
where
  "g_NPN_HasProperty N E C R npp npobj propertyName = on_instance N E npp False (\<lambda>plugin.
     on_member C npobj (member_from 0 hasProperty) False
       (holding E plugin (invoke_NPN_HasProperty R plugin npobj propertyName)))"

definition invoke_NPN_HasMethod ::
  "(('h, 'z) np_process_scheme, np_value, 'y) rpc_env_scheme \<Rightarrow> cptr \<Rightarrow> cptr \<Rightarrow> cptr \<Rightarrow>
     (('h, 'z) np_process_scheme, bool) op"
where
  "invoke_NPN_HasMethod R plugin npobj methodName =
     bind_op (remote_call R RPC_METHOD_NPN_HAS_METHOD
       [np_instance plugin, np_object npobj, np_identifier methodName] [P_type RPC_TYPE_UINT32]) (\<lambda>r. ret (answer r))"

definition g_NPN_HasMethod ::
  "'s request_env \<Rightarrow> (('h, 'z) np_process_scheme, 'h) npv_env \<Rightarrow> ('h, 'z) np_process_scheme np_classes \<Rightarrow>
     (('h, 'z) np_process_scheme, np_value, 'y) rpc_env_scheme \<Rightarrow> cptr \<Rightarrow> cptr \<Rightarrow> cptr \<Rightarrow>
     (('h, 'z) np_process_scheme, bool) op"
where
  "g_NPN_HasMethod N E C R npp npobj methodName = on_instance N E npp False (\<lambda>plugin.
     on_member C npobj (member_from 0 hasMethod) False
       (holding E plugin (invoke_NPN_HasMethod R plugin npobj methodName)))"

text \<open>The result is the answer, \<open>*count\<close> and \<open>*identifiers\<close>, where \<open>None\<close> means nothing is stored.\<close>

definition invoke_NPN_Enumerate ::
  "(('h, 'z) np_process_scheme \<Rightarrow> uint32 \<Rightarrow> bool) \<Rightarrow> (('h, 'z) np_process_scheme, np_value, 'y) rpc_env_scheme \<Rightarrow>
     cptr \<Rightarrow> cptr \<Rightarrow> (('h, 'z) np_process_scheme, bool \<times> uint32 option \<times> cptr list option option) op"
where
  "invoke_NPN_Enumerate mem_alloc R plugin npobj =
     bind_op (remote_call R RPC_METHOD_NPN_ENUMERATE [np_instance plugin, np_object npobj]
       [P_type RPC_TYPE_UINT32, P_array RPC_TYPE_NP_IDENTIFIER]) (\<lambda>r.
     bind_op (gets mem_alloc) (\<lambda>mem.
       ret (case r of
              Some [a, b] \<Rightarrow>
                if as_uint32 a \<noteq> 0
                then (case NPW_ReallocData mem (as_identifiers b) (8 * as_count b) of
                        None \<Rightarrow> (False, Some (as_count b), Some None)
                      | Some p \<Rightarrow> (True, Some (as_count b), Some p))
                else (False, Some (as_count b), None)
            | _ \<Rightarrow> (False, None, None))))"

definition g_NPN_Enumerate ::
  "('h, 'z) np_process_scheme request_env \<Rightarrow> (('h, 'z) np_process_scheme, 'h) npv_env \<Rightarrow> ('h, 'z) np_process_scheme np_classes \<Rightarrow>
     (('h, 'z) np_process_scheme, np_value, 'y) rpc_env_scheme \<Rightarrow> cptr \<Rightarrow> cptr \<Rightarrow>
     (('h, 'z) np_process_scheme, bool \<times> uint32 option \<times> cptr list option option) op"
where
  "g_NPN_Enumerate N E C R npp npobj = on_instance N E npp (False, None, None) (\<lambda>plugin.
     on_member C npobj (member_from 2 enumerate) (False, None, None)
       (holding E plugin (invoke_NPN_Enumerate (can_alloc N) R plugin npobj)))"

definition invoke_NPN_Construct ::
  "(('h, 'z) np_process_scheme, np_value, 'y) rpc_env_scheme \<Rightarrow> cptr \<Rightarrow> cptr \<Rightarrow> NPVariant list option \<Rightarrow> uint32 \<Rightarrow>
     (('h, 'z) np_process_scheme, bool \<times> NPVariant option) op"
where
  "invoke_NPN_Construct R plugin npobj args argCount =
     bind_op (remote_call R RPC_METHOD_NPN_CONSTRUCT
       [np_instance plugin, np_object npobj, np_array RPC_TYPE_NP_VARIANT NV_variant argCount args]
       [P_type RPC_TYPE_UINT32, P_type RPC_TYPE_NP_VARIANT_PASS_REF]) (\<lambda>r. ret (answer_stored r))"

definition g_NPN_Construct ::
  "'s request_env \<Rightarrow> (('h, 'z) np_process_scheme, 'h) npv_env \<Rightarrow> ('h, 'z) np_process_scheme np_classes \<Rightarrow>
     (('h, 'z) np_process_scheme, np_value, 'y) rpc_env_scheme \<Rightarrow> cptr \<Rightarrow> cptr \<Rightarrow> NPVariant list option \<Rightarrow> uint32 \<Rightarrow>
     (('h, 'z) np_process_scheme, bool \<times> NPVariant option) op"
where
  "g_NPN_Construct N E C R npp npobj args argCount = on_instance N E npp (False, None) (\<lambda>plugin.
     on_member C npobj (member_from 3 construct) (False, None)
       (then_op (print_npvariant_args args argCount)
         (holding E plugin (invoke_NPN_Construct R plugin npobj args argCount))))"

definition invoke_NPN_SetException ::
  "(('h, 'z) np_process_scheme, np_value, 'y) rpc_env_scheme \<Rightarrow> cptr \<Rightarrow> c_string \<Rightarrow> (('h, 'z) np_process_scheme, unit) op"
where
  "invoke_NPN_SetException R npobj msg =
     then_op (remote_call R RPC_METHOD_NPN_SET_EXCEPTION [np_object npobj, Str msg] []) (ret ())"

definition g_NPN_SetException ::
  "'s request_env \<Rightarrow> (('h, 'z) np_process_scheme, np_value, 'y) rpc_env_scheme \<Rightarrow> cptr \<Rightarrow> c_string \<Rightarrow>
     (('h, 'z) np_process_scheme, unit) op"
where
  "g_NPN_SetException N R npobj msg = (if \<not> main_thread N then ret () else invoke_NPN_SetException R npobj msg)"

end
