(* ===== verification/Np_Request_Exchange.thy ===== *)
theory Np_Request_Exchange
  imports Np_Script Np_Script_Requests
begin

text \<open>
  Calls of a plugin to the browser, end to end: the viewer's function, the request, the wrapper's
  handler, the browser's function, the reply. Instances and streams travel as the identifiers that both
  processes have for them.
\<close>

subsection \<open>Instances and streams on the wire\<close>

lemma np_inv_streams:
  assumes "conn_inv T M F s"
  shows "np_streams s = np_streams F" "stream_instances s = stream_instances F"
  using assms by (auto simp: conn_inv_def frame_def)

lemma puts_instance:
  assumes "p \<noteq> 0" "plugins F p = Some pl"
  shows "puts (conn_inv T M F) (np_send E visualid RPC_TYPE_NPW_PLUGIN_INSTANCE (NV_instance p))
     (htonl (pi_instance_id pl)) (conn_inv T M F)"
proof -
  have "puts (conn_inv T M F) (do_send_NPW_PluginInstance p) (htonl (pi_instance_id pl)) (conn_inv T M F)"
    unfolding do_send_NPW_PluginInstance_def
    by (rule puts_on_io_bind [OF talks_pure [of T M F _ "pi_instance_id pl"] puts_word])
      (use assms in \<open>simp add: op_simps np_inv_heap\<close>)
  then show ?thesis by simp
qed

lemma recv_instance:
  assumes "q \<noteq> 0" "id_lookup (hash E) i (ids F) = q" "plugins F q = Some ql"
  shows "msg_talks (conn_inv T M F) (np_recv E ptr32 RPC_TYPE_NPW_PLUGIN_INSTANCE) (htonl i) [] (NV_instance q)
     (conn_inv T M F)"
proof -
  have "msg_talks (conn_inv T M F) (do_recv_NPW_PluginInstance (np_env.truncate E)) (htonl i) [] q (conn_inv T M F)"
    unfolding do_recv_NPW_PluginInstance_def using assms
    by (intro msg_talks_bind_last [OF msg_talks_reads [OF reads_uint32 [OF conn_inv_stable]]]
        msg_talks_bind_quiet [where x = q, OF msg_talks_on_io [OF talks_pure]]
        msg_talks_then_quiet [OF msg_talks_on_io [OF talks_pure]] msg_talks_ret)
      (auto simp: op_simps np_inv_heap np_env.defs)
  from msg_talks_bind_last [OF this msg_talks_ret] show ?thesis
    by (simp add: np_recv_def then_make_def)
qed

text \<open>Stream \<open>st\<close> has the identifier \<open>i\<close>.\<close>

definition stream_at :: "('h, 'z) np_process_scheme \<Rightarrow> cptr \<Rightarrow> uint32 \<Rightarrow> bool" where
  "stream_at F st i \<longleftrightarrow> st \<noteq> 0 \<and> (\<exists>d si. np_streams F st = Some d \<and> d \<noteq> 0 \<and> stream_instances F d = Some si \<and>
     si_stream si = st \<and> si_stream_id si = i)"

text \<open>The identifier \<open>i\<close> stands for the stream \<open>st\<close>.\<close>

definition stream_named :: "'h ghash \<Rightarrow> ('h, 'z) np_process_scheme \<Rightarrow> uint32 \<Rightarrow> cptr \<Rightarrow> bool" where
  "stream_named G F i st \<longleftrightarrow> (\<exists>si. id_lookup G i (ids F) \<noteq> 0 \<and> stream_instances F (id_lookup G i (ids F)) = Some si \<and>
     si_stream si = st)"

lemma puts_stream:
  assumes "stream_at F st i"
  shows "puts (conn_inv T M F) (np_send E visualid RPC_TYPE_NP_STREAM (NV_stream st)) (htonl i) (conn_inv T M F)"
proof -
  obtain d si where d: "st \<noteq> 0" "np_streams F st = Some d" "d \<noteq> 0" "stream_instances F d = Some si"
    "si_stream si = st" "si_stream_id si = i"
    using assms by (auto simp: stream_at_def)
  have "puts (conn_inv T M F) (do_send_NPStream st) (htonl i) (conn_inv T M F)"
    unfolding do_send_NPStream_def
    by (rule puts_on_io_bind [OF talks_pure [of T M F _ i] puts_word])
      (use d in \<open>simp add: npw_get_stream_instance_def op_simps np_inv_streams\<close>)
  then show ?thesis by simp
qed

lemma recv_stream:
  assumes "stream_named (hash E) F i st"
  shows "msg_talks (conn_inv T M F) (np_recv E ptr32 RPC_TYPE_NP_STREAM) (htonl i) [] (NV_stream st) (conn_inv T M F)"
proof -
  have "msg_talks (conn_inv T M F) (do_recv_NPStream (np_env.truncate E)) (htonl i) [] st (conn_inv T M F)"
    unfolding do_recv_NPStream_def using assms
    by (intro msg_talks_bind_last [OF msg_talks_reads [OF reads_uint32 [OF conn_inv_stable]]]
        msg_talks_on_io [OF talks_pure])
      (auto simp: op_simps np_inv_heap np_inv_streams np_env.defs stream_named_def)
  from msg_talks_bind_last [OF this msg_talks_ret] show ?thesis
    by (simp add: np_recv_def then_make_def)
qed

subsection \<open>Argument lists\<close>

definition enc_plain :: "(cptr \<Rightarrow> ulong) \<Rightarrow> np_value rpc_arg list \<Rightarrow> byte list" where
  "enc_plain visualid as = concat (map (\<lambda>a. enc_marker (arg_type a) @ enc_arg (np_enc visualid) a) as)"

lemma args_all_plain:
  "list_all (wf_arg np_types (np_wf ptr32)) as \<Longrightarrow>
     arg_chain (np_ptrs E visualid ptr32 cm ce) (np_inv M F) as (enc_plain visualid as) (np_inv M F)"
proof (induction as)
  case Nil
  show ?case unfolding enc_plain_def by (simp add: args_end)
next
  case (Cons a as)
  from args_plain [of ptr32 a, OF _ Cons.IH] Cons.prems show ?case by (simp add: enc_plain_def)
qed

lemma params_all_plain:
  "list_all (wf_arg np_types (np_wf ptr32)) as \<Longrightarrow> map expected_type ps = map arg_type as \<Longrightarrow>
     param_chain (np_ptrs E visualid ptr32 cm ce) (np_inv M F) ps (enc_plain visualid as)
       (map (view_arg (np_view visualid)) as) (np_inv M F)"
proof (induction as arbitrary: ps)
  case Nil
  then show ?case unfolding enc_plain_def by (simp add: params_end)
next
  case (Cons a as)
  then obtain p ps' where ps: "ps = p # ps'" "expected_type p = arg_type a" "map expected_type ps' = map arg_type as"
    by (cases ps) auto
  from params_plain [of ptr32 a p, OF _ ps(2) Cons.IH [OF _ ps(3)]] Cons.prems show ?case
    by (simp add: ps(1) enc_plain_def)
qed

text \<open>
  An argument that both sides can pass on without a change of state: sent as \<open>b\<close> by a process like \<open>F\<close>,
  received as \<open>a'\<close> by one like \<open>G\<close>.
\<close>

definition passes ::
  "(('h, 'z) np_process_scheme, 'h) npv_env \<Rightarrow> (('h, 'y) np_process_scheme, 'h) npv_env \<Rightarrow> (cptr \<Rightarrow> ulong) \<Rightarrow> bool \<Rightarrow>
     ('h, 'z) np_process_scheme \<Rightarrow> ('h, 'y) np_process_scheme \<Rightarrow> int \<Rightarrow> np_value \<Rightarrow> byte list \<Rightarrow> np_value \<Rightarrow> bool"
where
  "passes Ec Es visualid ptr32 F G t u b u' \<longleftrightarrow> 1 \<le> t \<and> t \<le> 20 \<and>
     (\<forall>M. puts (np_inv M F) (np_send Ec visualid t u) b (np_inv M F)) \<and>
     (\<forall>M. msg_talks (np_inv M G) (np_recv Es ptr32 t) b [] u' (np_inv M G))"

lemma passes_instance:
  "p \<noteq> 0 \<Longrightarrow> plugins F p = Some pl \<Longrightarrow> q \<noteq> 0 \<Longrightarrow> id_lookup (hash Es) (pi_instance_id pl) (ids G) = q \<Longrightarrow>
     plugins G q = Some ql \<Longrightarrow> passes Ec Es visualid ptr32 F G RPC_TYPE_NPW_PLUGIN_INSTANCE (NV_instance p)
       (htonl (pi_instance_id pl)) (NV_instance q)"
  unfolding passes_def by (simp add: puts_instance [simplified] recv_instance [simplified])

lemma passes_stream:
  "stream_at F st i \<Longrightarrow> stream_named (hash Es) G i st' \<Longrightarrow>
     passes Ec Es visualid ptr32 F G RPC_TYPE_NP_STREAM (NV_stream st) (htonl i) (NV_stream st')"
  unfolding passes_def by (simp add: puts_stream [simplified] recv_stream [simplified])

subsection \<open>The two ends of a call\<close>

text \<open>A live instance \<open>p\<close> of the plugin with handle \<open>npp\<close>, and one that is held for a call.\<close>

definition live_instance ::
  "('h, 'z) np_process_scheme \<Rightarrow> cptr \<Rightarrow> cptr \<Rightarrow> 'h NPW_PluginInstance \<Rightarrow> bool"
where
  "live_instance F npp p pl \<longleftrightarrow> npp \<noteq> 0 \<and> npps F npp = Some p \<and> p \<noteq> 0 \<and> plugins F p = Some pl \<and>
     pi_instance pl = npp \<and> 0 < pi_refcount pl"

definition held :: "cptr \<Rightarrow> 'h NPW_PluginInstance \<Rightarrow> ('h, 'z) np_process_scheme \<Rightarrow> ('h, 'z) np_process_scheme" where
  "held p pl F = put_plugin p (Some (pl\<lparr>pi_refcount := pi_refcount pl + 1\<rparr>)) F"

lemma held_simps [simp]:
  "plugins (held p pl F) p = Some (pl\<lparr>pi_refcount := pi_refcount pl + 1\<rparr>)"
  "ids (held p pl F) = ids F" "np_streams (held p pl F) = np_streams F" "stream_instances (held p pl F) = stream_instances F"
  "status (held p pl F) = status F" "dispatch_depth (held p pl F) = dispatch_depth F"
  "handle_depth (held p pl F) = handle_depth F" "invoke_depth (held p pl F) = invoke_depth F"
  "may_call (held p pl F) = may_call F" "objects (held p pl F) = objects F"
  by (simp_all add: held_def put_plugin_def may_call_def)

lemma held_release: "plugins F p = Some pl \<Longrightarrow> put_plugin p (Some pl) (held p pl F) = F"
  by (simp add: held_def put_plugin_same)

text \<open>A call that changes the process while it holds the instance.\<close>

lemma talks_holding_to:
  assumes p: "p \<noteq> 0" "plugins F p = Some pl" "0 < pi_refcount pl" "plugins F' p = Some pl"
    and m: "talks (np_inv M (held p pl F)) m a b v (np_inv M (held p pl F'))"
  shows "talks (np_inv M F) (holding E p m) a b v (np_inv M F')"
proof -
  have ref: "talks (np_inv M F) (npw_plugin_instance_ref p) [] [] p (np_inv M (held p pl F))"
    unfolding held_def
    by (rule talks_heap) (use p in \<open>simp_all add: npw_plugin_instance_ref_def op_simps np_inv_heap\<close>)
  have "talks (np_inv M (held p pl F')) (npw_plugin_instance_unref (np_env.truncate E) p) [] [] ()
      (np_inv M (put_plugin p (Some pl) (held p pl F')))"
    by (rule talks_heap) (use p in \<open>simp_all add: npw_plugin_instance_unref_def op_simps np_inv_heap\<close>)
  then have unref: "talks (np_inv M (held p pl F')) (npw_plugin_instance_unref (np_env.truncate E) p) [] [] () (np_inv M F')"
    by (simp add: held_release p(4))
  have "talks (np_inv M (held p pl F))
      (bind_op m (\<lambda>r. then_op (npw_plugin_instance_unref (np_env.truncate E) p) (ret r))) a b v (np_inv M F')"
    by (rule talks_bind_last [OF m talks_then_quiet [OF unref talks_ret]])
  then show ?thesis
    unfolding holding_def by (rule talks_then_quiet [OF ref])
qed

lemma talks_holding:
  assumes "p \<noteq> 0" "plugins F p = Some pl" "0 < pi_refcount pl"
    and "talks (np_inv M (held p pl F)) m a b v (np_inv M (held p pl F))"
  shows "talks (np_inv M F) (holding E p m) a b v (np_inv M F)"
  using assms by (intro talks_holding_to) simp_all

lemma talks_on_instance:
  assumes N: "main_thread N" and p: "live_instance F npp p pl"
    and m: "talks (np_inv M F) (f p) a b v J"
  shows "talks (np_inv M F) (on_instance N E npp otherwise f) a b v J"
proof -
  have "talks (np_inv M F) (npw_get_plugin_instance (np_env.truncate E) npp) [] [] p (np_inv M F)"
    using p by (intro talks_pure)
      (simp add: live_instance_def npw_get_plugin_instance_def npw_get_plugin_instance_1_def op_simps np_inv_heap)
  then have "talks (np_inv M F) (bind_op (npw_get_plugin_instance (np_env.truncate E) npp)
      (\<lambda>plugin. if plugin = 0 then ret otherwise else f plugin)) a b v J"
    using m p by (intro talks_bind [where a = "[]" and b = "[]", simplified]) (auto simp: live_instance_def)
  then show ?thesis
    using N p by (simp add: on_instance_def live_instance_def)
qed

text \<open>What a function of the browser may do to its process: anything but to the connection.\<close>

definition browser_step :: "(('h, 'z) np_process_scheme \<Rightarrow> ('h, 'z) np_process_scheme) \<Rightarrow> bool" where
  "browser_step g \<longleftrightarrow> heap_only g \<and>
     (\<forall>s d e. g (s\<lparr>dispatch_depth := d, handle_depth := e\<rparr>) = (g s)\<lparr>dispatch_depth := d, handle_depth := e\<rparr>)"

lemma browser_step_same [simp]: "browser_step (\<lambda>s. s)"
  by (simp add: browser_step_def)

lemma browser_step_depths:
  assumes "browser_step g"
  shows "(g (F\<lparr>dispatch_depth := d, handle_depth := handle_depth F + 1\<rparr>))\<lparr>handle_depth := handle_depth F\<rparr> =
    (g F)\<lparr>dispatch_depth := d\<rparr>"
proof -
  have h: "handle_depth (g F) = handle_depth F"
    using assms heap_only_fields(6) [of g F] by (simp add: browser_step_def)
  have same: "(X\<lparr>dispatch_depth := d, handle_depth := e\<rparr>)\<lparr>handle_depth := handle_depth X\<rparr> = X\<lparr>dispatch_depth := d\<rparr>"
    for X :: "('h, 'z) np_process_scheme" and e by simp
  show ?thesis
    using assms same [of "g F" "handle_depth F + 1"] h by (simp add: browser_step_def)
qed

lemma talks_body:
  assumes Rs: "Rs = np_rpc_env E visualid ptr32 cm ce" and G: "status G \<noteq> RPC_STATUS_CLOSED"
    and q: "q \<noteq> 0" "plugins G q = Some ql" and g: "browser_step g"
    and f: "\<And>s. np_inv M (G\<lparr>dispatch_depth := d, handle_depth := handle_depth G + 1\<rparr>) s \<Longrightarrow> f (pi_instance ql) s = (Ok r, g s)"
    and rs: "list_all (wf_arg np_types (np_wf ptr32)) (rep r)" "rep r \<noteq> []"
  shows "talks (np_inv M (G\<lparr>dispatch_depth := d, handle_depth := handle_depth G + 1\<rparr>))
    (on_npp (np_instance q) (\<lambda>npp. bind_op (f npp) (\<lambda>x. send_reply Rs (rep x)))) []
    (enc_answer (enc_list (enc_plain visualid (rep r)))) () (np_inv M ((g G)\<lparr>dispatch_depth := d\<rparr>))"
proof -
  let ?G = "G\<lparr>dispatch_depth := d, handle_depth := handle_depth G + 1\<rparr>"
  have heap: "heap_only g" using g by (simp add: browser_step_def)
  have npp: "talks (np_inv M ?G) (npw_get_plugin_instance_npp q) [] [] (pi_instance ql) (np_inv M ?G)"
    using q by (intro talks_pure) (simp add: npw_get_plugin_instance_npp_def op_simps np_inv_heap)
  have call: "talks (np_inv M ?G) (f (pi_instance ql)) [] [] r (np_inv M (g ?G))"
    by (rule talks_heap [OF heap]) (rule f)
  have "talks (np_inv M (g ?G)) (send_reply Rs (rep r)) [] (enc_answer (enc_list (enc_plain visualid (rep r)))) ()
      (np_inv M ((g ?G)\<lparr>handle_depth := handle_depth (g ?G) - 1\<rparr>))"
    by (rule talks_reply [OF Rs _ args_all_plain [OF rs(1)] rs(2)]) (use G heap_only_fields(5) [OF heap] in simp)
  then have "talks (np_inv M (g ?G)) (send_reply Rs (rep r)) [] (enc_answer (enc_list (enc_plain visualid (rep r)))) ()
      (np_inv M ((g G)\<lparr>dispatch_depth := d\<rparr>))"
    using heap_only_fields(6) [OF heap, of ?G] by (simp add: browser_step_depths [OF g])
  with npp call show ?thesis
    unfolding on_npp_def as_instance.simps
    by (intro talks_bind [where a = "[]" and b = "[]", simplified])
qed

text \<open>Arguments that pass, in front of others.\<close>

type_synonym passing = "int \<times> np_value \<times> byte list \<times> np_value"

definition enc_refs :: "passing list \<Rightarrow> byte list" where
  "enc_refs refs = concat (map (\<lambda>(t, u, b, u'). enc_marker t @ b) refs)"

abbreviation (input) sent_refs :: "passing list \<Rightarrow> np_value rpc_arg list" where
  "sent_refs \<equiv> map (\<lambda>(t, u, b, u'). User t u)"

abbreviation (input) seen_refs :: "passing list \<Rightarrow> np_value rpc_arg list" where
  "seen_refs \<equiv> map (\<lambda>(t, u, b, u'). User t u')"

abbreviation (input) params_refs :: "passing list \<Rightarrow> rpc_param list" where
  "params_refs \<equiv> map (\<lambda>(t, u, b, u'). P_type t)"

lemma args_refs:
  "list_all (\<lambda>(t, u, b, u'). passes Ec Es visualid ptr32 F G t u b u') refs \<Longrightarrow>
     arg_chain (np_ptrs Ec visualid ptr32 cm ce) (np_inv M F) as bs J \<Longrightarrow>
     arg_chain (np_ptrs Ec visualid ptr32 cm ce) (np_inv M F) (sent_refs refs @ as) (enc_refs refs @ bs) J"
proof (induction refs)
  case Nil
  then show ?case by (simp add: enc_refs_def)
next
  case (Cons x refs)
  obtain t u b u' where x: "x = (t, u, b, u')" by (cases x)
  with Cons.prems(1) have "1 \<le> t" "t \<le> 20" "puts (np_inv M F) (np_send Ec visualid t u) b (np_inv M F)"
    by (auto simp: passes_def)
  from args_user [OF this(3,1,2) Cons.IH] Cons.prems x show ?case by (simp add: enc_refs_def)
qed

lemma params_refs:
  "list_all (\<lambda>(t, u, b, u'). passes Ec Es visualid ptr32 F G t u b u') refs \<Longrightarrow>
     param_chain (np_ptrs Es visualid ptr32 cm ce) (np_inv M G) ps bs as J \<Longrightarrow>
     param_chain (np_ptrs Es visualid ptr32 cm ce) (np_inv M G) (params_refs refs @ ps) (enc_refs refs @ bs)
       (seen_refs refs @ as) J"
proof (induction refs)
  case Nil
  then show ?case by (simp add: enc_refs_def)
next
  case (Cons x refs)
  obtain t u b u' where x: "x = (t, u, b, u')" by (cases x)
  with Cons.prems(1) have "1 \<le> t" "t \<le> 20" "msg_talks (np_inv M G) (np_recv Es ptr32 t) b [] u' (np_inv M G)"
    by (auto simp: passes_def)
  from params_user [OF this(3,1,2) Cons.IH] Cons.prems x show ?case by (simp add: enc_refs_def)
qed

text \<open>
  Both processes between two calls, with an instance that has the identifier of the plugin's: \<open>p\<close> with the
  handle \<open>npp\<close> in the plugin's process, \<open>q\<close> in the browser's.
\<close>

definition calls_ready ::
  "'s request_env \<Rightarrow> (('h, 'y) np_process_scheme, 'h) npv_env \<Rightarrow> (int \<Rightarrow> code_ptr option) \<Rightarrow> (int \<Rightarrow> code_ptr option) \<Rightarrow>
     ('h, 'z) np_process_scheme \<Rightarrow> ('h, 'y) np_process_scheme \<Rightarrow> ('h, 'z) np_process_scheme \<Rightarrow> ('h, 'y) np_process_scheme \<Rightarrow>
     cptr \<Rightarrow> cptr \<Rightarrow> 'h NPW_PluginInstance \<Rightarrow> cptr \<Rightarrow> 'h NPW_PluginInstance \<Rightarrow> bool"
where
  "calls_ready N Es Mc Ms F G c s npp p pl q ql \<longleftrightarrow>
     calm c \<and> np_inv Mc F c \<and> tx_wire c = [] \<and> may_call F \<and>
     calm s \<and> np_inv Ms G s \<and> tx_wire s = [] \<and> status G \<noteq> RPC_STATUS_CLOSED \<and>
     main_thread N \<and> live_instance F npp p pl \<and>
     q \<noteq> 0 \<and> id_lookup (hash Es) (pi_instance_id pl) (ids G) = q \<and> plugins G q = Some ql"

abbreviation (input) calling_state ::
  "('h, 'z) np_process_scheme \<Rightarrow> cptr \<Rightarrow> 'h NPW_PluginInstance \<Rightarrow> ('h, 'z) np_process_scheme"
where
  "calling_state F p pl \<equiv> (held p pl F)\<lparr>invoke_depth := invoke_depth F + 1\<rparr>"

abbreviation (input) serving_state :: "('h, 'z) np_process_scheme \<Rightarrow> ('h, 'z) np_process_scheme" where
  "serving_state G \<equiv> G\<lparr>dispatch_depth := dispatch_depth G + 1, handle_depth := handle_depth G + 1\<rparr>"

text \<open>
  The whole of a call that takes an instance: the request with the passing arguments \<open>refs\<close> and the plain
  ones \<open>as\<close>, the browser's function \<open>f\<close>, the reply \<open>rep r\<close>, and what the caller \<open>call\<close> makes of it.
\<close>

lemma instance_exchange:
  fixes refs :: "passing list"
  assumes Rc: "Rc = np_rpc_env Ec visualid ptr32 cmc cec" and Rs: "Rs = np_rpc_env Es visualid ptr32 cms ces"
    and ready: "calls_ready N Es Mc Ms F G c s npp p pl q ql"
    and refs: "list_all (\<lambda>(t, u, b, u'). passes Ec Es visualid ptr32 (calling_state F p pl) (serving_state G) t u b u') refs"
    and plain: "list_all (wf_arg np_types (np_wf ptr32)) as" "map expected_type ps = map arg_type as"
    and handler: "Ms mid = Some cb" "int32_range mid" "0 \<le> mid"
      "cms cb = handle Rs (P_type RPC_TYPE_NPW_PLUGIN_INSTANCE # params_refs refs @ ps) body"
      "body (np_instance q # seen_refs refs @ map (view_arg (np_view visualid)) as) =
        on_npp (np_instance q) (\<lambda>npp. bind_op (f npp) (\<lambda>x. send_reply Rs (rep x)))"
    and g: "browser_step g" "\<And>s'. np_inv Ms (serving_state G) s' \<Longrightarrow> f (pi_instance ql) s' = (Ok r, g s')"
    and answer: "list_all (wf_arg np_types (np_wf ptr32)) (rep r)" "map expected_type rps = map arg_type (rep r)"
      "rep r \<noteq> []"
    and call: "\<And>a b. talks (np_inv Mc (held p pl F)) (remote_call Rc mid (np_instance p # sent_refs refs @ as) rps) a b
        (Some (map (view_arg (np_view visualid)) (rep r))) (np_inv Mc (held p pl F)) \<Longrightarrow>
      talks (np_inv Mc F) (call p) a b v (np_inv Mc F')"
  shows "\<exists>c' s'. exchange Rs mid (on_instance N Ec npp otherwise call) c s v c' s' \<and> np_inv Mc F' c' \<and> np_inv Ms (g G) s'"
proof -
  let ?F = "calling_state F p pl" and ?G = "serving_state G"
  let ?x = "(RPC_TYPE_NPW_PLUGIN_INSTANCE, NV_instance p, htonl (pi_instance_id pl), NV_instance q)"
  let ?req = "enc_refs (?x # refs) @ enc_plain visualid as"
  let ?ans = "enc_answer (enc_list (enc_plain visualid (rep r)))"
  note r = ready [unfolded calls_ready_def]
  have inst: "main_thread N" "live_instance F npp p pl" "q \<noteq> 0" "plugins G q = Some ql"
    and F: "may_call (held p pl F)" and G: "status G \<noteq> RPC_STATUS_CLOSED"
    and c: "calm c" "np_inv Mc F c" "tx_wire c = []" and s: "calm s" "np_inv Ms G s" "tx_wire s = []"
    using r by simp_all
  have all: "list_all (\<lambda>(t, u, b, u'). passes Ec Es visualid ptr32 ?F ?G t u b u') (?x # refs)"
    using r refs
    by (auto intro!: passes_instance [where pl = "pl\<lparr>pi_refcount := pi_refcount pl + 1\<rparr>", simplified]
        simp: live_instance_def)
  have rps: "rps \<noteq> []" using answer(2,3) by auto
  from args_refs [OF all args_all_plain [OF plain(1)]]
  have args: "arg_chain (np_ptrs Ec visualid ptr32 cmc cec) (np_inv Mc ?F) (sent_refs (?x # refs) @ as) ?req (np_inv Mc ?F)" .
  have "talks (np_inv Mc (held p pl F)) (remote_call Rc mid (sent_refs (?x # refs) @ as) rps)
      ?ans (enc_request mid (enc_list ?req)) (Some (map (view_arg (np_view visualid)) (rep r))) (np_inv Mc (held p pl F))"
    by (rule talks_remote_call_plain [OF Rc F]) (use args params_all_plain [OF answer(1,2)] rps in simp_all)
  then have "talks (np_inv Mc F) (call p) ?ans (enc_request mid (enc_list ?req)) v (np_inv Mc F')"
    by (intro call) simp
  then have client: "talks (np_inv Mc F) (on_instance N Ec npp otherwise call) ?ans (enc_request mid (enc_list ?req)) v
      (np_inv Mc F')"
    by (rule talks_on_instance [OF inst(1,2)])
  have params: "param_chain (np_ptrs Es visualid ptr32 cms ces) (np_inv Ms ?G) (params_refs (?x # refs) @ ps) ?req
      (seen_refs (?x # refs) @ map (view_arg (np_view visualid)) as) (np_inv Ms ?G)"
    by (rule params_refs [OF all params_all_plain [OF plain]])
  have body: "talks (np_inv Ms ?G) (body (seen_refs (?x # refs) @ map (view_arg (np_view visualid)) as)) [] ?ans ()
      (np_inv Ms ((g G)\<lparr>dispatch_depth := dispatch_depth G + 1\<rparr>))"
    using talks_body [where f = f and g = g and rep = rep and M = Ms and d = "dispatch_depth G + 1",
        OF Rs G inst(3,4) g answer(1,3)]
    by (simp add: handler(5))
  have "talks (np_inv Ms (G\<lparr>dispatch_depth := dispatch_depth G + 1\<rparr>)) (cms cb) (enc_list ?req @ []) ?ans
      RPC_ERROR_NO_ERROR (np_inv Ms ((g G)\<lparr>dispatch_depth := dispatch_depth G + 1\<rparr>))"
    unfolding handler(4)
    by (rule talks_handler [OF Rs, where as = "seen_refs (?x # refs) @ map (view_arg (np_view visualid)) as"])
      (use G params body in simp_all)
  moreover have "dispatch_depth (g G) = dispatch_depth G"
    using g(1) heap_only_fields(7) [of g G] by (simp add: browser_step_def)
  ultimately show ?thesis
    by (intro exchange_calls [OF Rs c s client handler(1-3)]) simp_all
qed

text \<open>The same with plain arguments only.\<close>

lemmas plain_exchange = instance_exchange [where refs = "[]", simplified list.pred_inject list.map append_Nil True_implies_equals]

text \<open>And with a stream that both processes know.\<close>

lemmas stream_exchange = instance_exchange [where refs = "[(RPC_TYPE_NP_STREAM, NV_stream st, htonl i, NV_stream st')]" for st i st',
    simplified list.pred_inject list.map append_Nil append_Cons prod.case simp_thms]

text \<open>A caller that only holds the instance and reads the reply.\<close>

lemma calls_holding:
  assumes "live_instance F npp p pl" "\<And>s'. post (Some x) s' = (Ok v, s')"
    and "talks (np_inv M (held p pl F)) (remote_call R mid as rps) a b (Some x) (np_inv M (held p pl F))"
  shows "talks (np_inv M F) (holding E p (bind_op (remote_call R mid as rps) post)) a b v (np_inv M F)"
  using assms(1) talks_bind_last [of _ _ _ _ _ _ post v, OF assms(3) talks_pure [OF assms(2)]]
  by (intro talks_holding) (simp_all add: live_instance_def)

subsection \<open>Values\<close>

lemma np_types_plain [simp]: "1 \<le> t \<Longrightarrow> t \<le> 20 \<Longrightarrow> user_type_ok np_types t 0"
  using np_types_exist [of t] by (auto simp: user_type_ok_def builtin_type_def int32_range_def)

lemma error_back [simp]: "ucast (scast (e :: NPError) :: int32) = e"
  by transfer (simp add: take_bit_signed_take_bit)

lemma error_zero [simp]: "scast (e :: NPError) = (0 :: int32) \<longleftrightarrow> e = 0"
  by (metis error_back scast_0 ucast_0)

lemma bool_back [simp]: "ucast (ucast (b :: byte) :: int32) = b"
  by (rule bit_word_eqI) (simp add: bit_ucast_iff)

text \<open>A block of characters with its length, and what the receiver has of it.\<close>

definition good_chars :: "uint32 \<Rightarrow> byte list option \<Rightarrow> bool" where
  "good_chars n buf \<longleftrightarrow> (case buf of None \<Rightarrow> True | Some bs \<Rightarrow> n = 0 \<or> length bs = unat n \<and> unat n < 2 ^ 31)"

definition seen_chars :: "uint32 \<Rightarrow> byte list option \<Rightarrow> byte list option" where
  "seen_chars n buf = (if n = 0 then None else buf)"

lemma char_array_facts [simp]:
  "good_chars n buf \<Longrightarrow> wf_arg np_types W (char_array n buf)"
  "arg_type (char_array n buf) = RPC_TYPE_ARRAY"
  "as_count (view_arg V (char_array n buf)) = n"
  "as_chars (view_arg V (char_array n buf)) = seen_chars n buf"
  by (auto simp: char_array_def good_chars_def seen_chars_def wf_array_def view_array_def is_null_array_def
      int32_range_def word_neq_0_conv split: option.splits)

end
