(* ===== verification/Np_Browser_Calls.thy ===== *)
theory Np_Browser_Calls
  imports Np_Request_Exchange
begin

text \<open>
  What a plugin's calls to the browser achieve: the functions on URLs, and the life of a stream that
  the plugin makes.
\<close>

subsection \<open>Known streams\<close>

text \<open>A process knows the stream \<open>st\<close>, one of the plugin's, as \<open>i\<close>.\<close>

definition linked_stream :: "'h ghash \<Rightarrow> ('h, 'z) np_process_scheme \<Rightarrow> cptr \<Rightarrow> int32 \<Rightarrow> bool" where
  "linked_stream H F st i \<longleftrightarrow> st \<noteq> 0 \<and> (\<exists>d. d \<noteq> 0 \<and> np_streams F st = Some d \<and> id_lookup H i (ids F) = d \<and>
     stream_instances F d = Some \<lparr>si_stream = st, si_stream_id = i, si_is_plugin_stream = 1\<rparr>)"

lemma linked_streamD:
  assumes "linked_stream H F st i"
  shows "stream_at F st i" "stream_named H F i st" "st \<noteq> 0"
  using assms by (auto simp: linked_stream_def stream_at_def stream_named_def)

subsection \<open>A pair of processes\<close>

text \<open>
  One instance with the identifier 1, at \<open>p\<close> with the handle \<open>npp\<close>, and a stream \<open>st\<close> that a plugin has
  made, with the identifier 2.
\<close>

definition sample_instance :: "cptr \<Rightarrow> 'h NPW_PluginInstance" where
  "sample_instance npp = \<lparr>pi_klass = 0, pi_refcount = 1, pi_instance = npp, pi_instance_id = 1, pi_is_valid = True,
     pi_npobjects = None\<rparr>"

definition with_instance ::
  "cptr \<Rightarrow> cptr \<Rightarrow> cptr \<Rightarrow> cptr \<Rightarrow> ((cptr \<times> cptr) list, 'z) np_process_scheme \<Rightarrow> ((cptr \<times> cptr) list, 'z) np_process_scheme"
where
  "with_instance npp p st d s = s\<lparr>plugins := [p \<mapsto> sample_instance npp], npps := [npp \<mapsto> p],
     np_streams := [st \<mapsto> d], stream_instances := [d \<mapsto> \<lparr>si_stream = st, si_stream_id = 2, si_is_plugin_stream = 1\<rparr>],
     ids := \<lparr>g_ids = Some [(1, p), (2, d)], last_id = 2\<rparr>\<rparr>"

definition sample_frame :: "(cptr \<times> cptr) list np_side" where
  "sample_frame = frame (np_process.extend empty_process \<lparr>stream_data = Map.empty\<rparr>)"

lemma sample_frame_facts:
  "may_call (with_instance npp p st d sample_frame)" "status (with_instance npp p st d sample_frame) = RPC_STATUS_ACTIVE"
  by (simp_all add: sample_frame_def with_instance_def may_call_def frame_def empty_process_def np_process.defs
      rpc_connection.defs sample_defs connect_first)

lemma frame_extend: "frame (np_process.extend u x) = np_process.extend (frame u) x"
  by (simp add: np_process.defs frame_def)

lemma np_side_exists:
  obtains s :: "(cptr \<times> cptr) list np_side" where "calm s" "np_inv [mid \<mapsto> 70] (with_instance npp p st d sample_frame) s"
    "tx_wire s = []"
proof -
  obtain s0 :: "(cptr \<times> cptr) list np_process" where s0: "calm s0" "np_inv [mid \<mapsto> 70] (frame empty_process) s0"
    "tx_wire s0 = []"
    by (rule np_server_exists)
  let ?s = "np_process.extend s0 \<lparr>stream_data = Map.empty\<rparr>"
  have frame: "frame s0 = frame empty_process" using s0(2) by (simp add: conn_inv_def)
  then have "frame ?s = sample_frame" by (simp add: sample_frame_def frame_extend)
  then have s: "np_inv [mid \<mapsto> 70] sample_frame ?s"
    using s0(2) by (simp add: np_process.defs conn_inv_def alloc_ok_def types_are_def methods_are_def)
  have "heap_only (with_instance npp p st d :: (cptr \<times> cptr) list np_side \<Rightarrow> _)"
    by (auto intro!: heap_onlyI simp: frame_def with_instance_def rpc_connection.defs)
  from conn_inv_heap [OF this s] s0(1,3) show thesis
    by (intro that [of "with_instance npp p st d ?s"]) (simp_all add: with_instance_def np_process.defs calm_def)
qed

definition sample_requests :: "(cptr \<times> cptr) list np_side request_env" where
  "sample_requests = \<lparr>main_thread = True, x_display = 0, xt_app_context = (\<lambda>_. 0), viewer_toolkit = 2,
     gdk_window_foreign_new = (\<lambda>_. 0), gdk_window_xwindow = (\<lambda>_. 0), can_alloc = (\<lambda>_ _. True),
     new_stream_addr = (\<lambda>_. 1024), new_instance_addr = (\<lambda>_. 2048)\<rparr>"

definition side_env :: "bool \<Rightarrow> ('s, (cptr \<times> cptr) list) npv_env" where
  "side_env plugin = \<lparr>hash = alist_hash, is_plugin = plugin, npclass_bridge = 16, stub_addr = (\<lambda>_. 4096),
     instance_addr = (\<lambda>_. 8192), NPN_CreateObject = (\<lambda>_ _. ret 0), NPN_RetainObject = ret,
     NPN_ReleaseObject = (\<lambda>_. ret ()), call_allocate = (\<lambda>_. ret 0), call_instance = (\<lambda>_ _. ret ()),
     NPN_ReleaseVariantValue = (\<lambda>_. ret ())\<rparr>"

lemma side_env_hash [simp]: "hash (side_env b) = alist_hash"
  by (simp add: side_env_def)

lemma calls_ready_exists:
  obtains c s :: "(cptr \<times> cptr) list np_side" where "calls_ready sample_requests (side_env False)
    [mid \<mapsto> 70] [mid \<mapsto> 70] (with_instance 64 128 32 48 sample_frame) (with_instance 512 256 800 816 sample_frame) c s
    64 128 (sample_instance 64) 256 (sample_instance 512)"
proof -
  obtain c :: "(cptr \<times> cptr) list np_side" where
    c: "calm c" "np_inv [mid \<mapsto> 70] (with_instance 64 128 32 48 sample_frame) c" "tx_wire c = []" by (rule np_side_exists)
  obtain s :: "(cptr \<times> cptr) list np_side" where
    s: "calm s" "np_inv [mid \<mapsto> 70] (with_instance 512 256 800 816 sample_frame) s" "tx_wire s = []" by (rule np_side_exists)
  from c s show thesis
    by (intro that [of c s]) (simp add: calls_ready_def sample_frame_facts,
        simp add: sample_requests_def live_instance_def with_instance_def sample_instance_def side_env_def
        id_lookup_def alist_hash_def tab_lookup_def id_key_def)
qed

lemma sample_streams:
  assumes "st \<noteq> 0" "d \<noteq> 0"
  shows "linked_stream (hash (side_env b)) (with_instance npp p st d sample_frame) st 2"
  using assms by (simp add: linked_stream_def with_instance_def side_env_def id_lookup_def alist_hash_def tab_lookup_def
      id_key_def)

subsection \<open>URLs\<close>

text \<open>
  C29. A plugin's \<open>NPN_PostURLNotify\<close> is the browser's: called for a live instance, it sends one
  request; the wrapper calls the browser's function for the browser's handle of the same instance
  with the caller's URL, target, data, flag and notification data; the error code the browser
  returns is what the plugin gets (without such a function, \<open>NPERR_INVALID_FUNCTABLE_ERROR\<close>). The
  plugin's process ends as it was, the reference taken for the call included, the browser's with what its
  function did.
\<close>

theorem NPN_PostURLNotify_correct:
  assumes "Rc = np_rpc_env Ec visualid ptr32 cmc cec" "Rs = np_rpc_env Es visualid ptr32 cms ces"
    and ready: "calls_ready N Es Mc Ms F G c s npp p pl q ql"
    and handler: "Ms RPC_METHOD_NPN_POST_URL_NOTIFY = Some cb" "cms cb = handle_NPN_PostURLNotify B Rs"
    and args: "wf_string url" "wf_string target" "good_chars len buf" "ptr32 \<Longrightarrow> hi32 notifyData = 0"
    and browser: "browser_step g" "case b_posturlnotify B of
      None \<Rightarrow> r = NPERR_INVALID_FUNCTABLE_ERROR \<and> g = (\<lambda>s'. s')
    | Some f \<Rightarrow> \<forall>s'. f (pi_instance ql) url target len (seen_chars len buf) as_file notifyData s' = (Ok r, g s')"
  shows "\<exists>c' s'. exchange Rs RPC_METHOD_NPN_POST_URL_NOTIFY
      (g_NPN_PostURLNotify N Ec Rc npp url target len buf as_file notifyData) c s r c' s' \<and>
    np_inv Mc F c' \<and> np_inv Ms (g G) s'"
  unfolding g_NPN_PostURLNotify_def
proof (rule plain_exchange [where f = "\<lambda>npp. wrapper_NPN_PostURLNotify B npp url target len
        (seen_chars len buf) as_file notifyData" and rep = "\<lambda>r. [error_arg r]" and rps = "[P_type RPC_TYPE_INT32]" and
      as = "[Str url, Str target, char_array len buf, Boolean (ucast as_file), np_notify notifyData]",
      OF assms(1,2) ready _ _ handler(1) _ _ handler(2) [unfolded handle_NPN_PostURLNotify_def] _ browser(1)])
  show "wrapper_NPN_PostURLNotify B (pi_instance ql) url target len (seen_chars len buf) as_file notifyData s' = (Ok r, g s')"
    for s' using browser(2) by (auto simp: wrapper_NPN_PostURLNotify_def if_supported_def ret_apply split: option.splits)
  fix a b
  assume "talks (np_inv Mc (held p pl F)) (remote_call Rc RPC_METHOD_NPN_POST_URL_NOTIFY
      (np_instance p # [Str url, Str target, char_array len buf, Boolean (ucast as_file), np_notify notifyData])
      [P_type RPC_TYPE_INT32]) a b (Some (map (view_arg (np_view visualid)) [error_arg r])) (np_inv Mc (held p pl F))"
  from calls_holding [OF _ _ this, where post = "\<lambda>r. ret (answer_error r)" and v = r and E = Ec and npp = npp] ready
  show "talks (np_inv Mc F) (holding Ec p (invoke_NPN_PostURLNotify Rc p url target len buf as_file notifyData)) a b r (np_inv Mc F)"
    by (simp add: invoke_NPN_PostURLNotify_def calls_ready_def answer_error_def ret_apply)
qed (use args in \<open>simp_all add: int32_range_def as_np_bool_def\<close>)

text \<open>A browser that does what it is asked to, without an error; its streams are all at 768.\<close>

definition sample_stream :: NPStream where
  "sample_stream = \<lparr>st_url = Some [104], st_end = 9, st_lastmodified = 0, st_notifyData = 0, st_headers = None\<rparr>"

definition sample_opens :: "('h, 'z) np_side_scheme \<Rightarrow> ('h, 'z) np_side_scheme" where
  "sample_opens s = s\<lparr>np_streams := (np_streams s)(768 \<mapsto> 0), stream_data := (stream_data s)(768 \<mapsto> sample_stream)\<rparr>"

definition sample_browser :: "('h, 'z) np_side_scheme mozilla_funcs" where
  "sample_browser = \<lparr>b_getstringidentifier = (\<lambda>_. ret 0), b_getstringidentifiers = (\<lambda>_ _. ret []),
     b_getintidentifier = (\<lambda>_. ret 0), b_identifierisstring = (\<lambda>_. ret True), b_utf8fromidentifier = (\<lambda>_. ret None),
     b_intfromidentifier = (\<lambda>_. ret 0), b_memfree = (\<lambda>_. ret ()), b_has_memory = (\<lambda>_ _. True),
     b_version = 19, b_uagent = None, b_status = None, b_getvalue = None, b_setvalue = None, b_invalidaterect = None,
     b_geturl = None, b_geturlnotify = None, b_posturl = None, b_posturlnotify = Some (\<lambda>_ _ _ _ _ _ _. ret NPERR_NO_ERROR),
     b_requestread = None, b_newstream = Some (\<lambda>_ _ _ s. (Ok (NPERR_NO_ERROR, Some 768), sample_opens s)),
     b_destroystream = Some (\<lambda>_ _ _. ret NPERR_NO_ERROR), b_write = Some (\<lambda>_ _ len _. ret len),
     b_pushpopupsenabledstate = None, b_poppopupsenabledstate = None, b_invoke = None, b_invokeDefault = None,
     b_evaluate = None, b_getproperty = None, b_setproperty = None, b_removeproperty = None, b_hasproperty = None,
     b_hasmethod = None, b_enumerate = None, b_construct = None, b_setexception = None, b_getvalueforurl = None,
     b_setvalueforurl = None, b_getauthenticationinfo = Some (\<lambda>_ _ _ _ _ _.
       ret (NPERR_NO_ERROR, (Some [117], 1), (Some [112, 119, 100], 3))), b_memfree_idents = (\<lambda>_. ret ()), b_fwrite = (\<lambda>_ _. ret 0),
     b_stream_addr = (\<lambda>_. 640), direct_exec = False\<rparr>"

theorem NPN_PostURLNotify_correct_witness:
  "\<exists>(c :: (cptr \<times> cptr) list np_side) (s :: (cptr \<times> cptr) list np_side)
      (Rc :: ((cptr \<times> cptr) list np_side, np_value) rpc_env) (Rs :: ((cptr \<times> cptr) list np_side, np_value) rpc_env) c' s'.
     exchange Rs RPC_METHOD_NPN_POST_URL_NOTIFY (g_NPN_PostURLNotify sample_requests (side_env True) Rc 64
       (Some [97]) None 2 (Some [98, 99]) 0 5) c s NPERR_NO_ERROR c' s'"
proof -
  obtain c s :: "(cptr \<times> cptr) list np_side" where ready: "calls_ready sample_requests (side_env False)
    [RPC_METHOD_NPN_POST_URL_NOTIFY \<mapsto> 70] [RPC_METHOD_NPN_POST_URL_NOTIFY \<mapsto> 70] (with_instance 64 128 32 48 sample_frame)
    (with_instance 512 256 800 816 sample_frame) c s 64 128 (sample_instance 64) 256 (sample_instance 512)"
    by (rule calls_ready_exists)
  let ?ce = "\<lambda>_ _. ret ()" and ?v = "\<lambda>_. 0"
  let ?cm = "\<lambda>_. handle_NPN_PostURLNotify sample_browser (np_rpc_env (side_env False) ?v False (\<lambda>_. ret 0) ?ce)"
  let ?Rs = "np_rpc_env (side_env False) ?v False ?cm ?ce" and ?Rc = "np_rpc_env (side_env True) ?v False (\<lambda>_. ret 0) ?ce"
  have handler: "?cm 70 = handle_NPN_PostURLNotify sample_browser ?Rs"
    unfolding np_rpc_env_call_method [of "side_env False" ?v False ?cm ?ce "\<lambda>_. ret 0"]
    by (simp only: handle_NPN_PostURLNotify_def call_method_irrelevant)
  have "\<exists>c' s'. exchange ?Rs RPC_METHOD_NPN_POST_URL_NOTIFY (g_NPN_PostURLNotify sample_requests (side_env True) ?Rc 64
      (Some [97]) None 2 (Some [98, 99]) 0 5) c s NPERR_NO_ERROR c' s' \<and>
    np_inv [RPC_METHOD_NPN_POST_URL_NOTIFY \<mapsto> 70] (with_instance 64 128 32 48 sample_frame) c' \<and>
    np_inv [RPC_METHOD_NPN_POST_URL_NOTIFY \<mapsto> 70] (with_instance 512 256 800 816 sample_frame) s'"
    by (rule NPN_PostURLNotify_correct [where g = "\<lambda>s'. s'" and cms = ?cm and B = sample_browser, OF refl refl ready _ handler])
      (simp_all add: sample_browser_def ret_apply wf_string_def good_chars_def)
  then show ?thesis by blast
qed

subsection \<open>Authentication\<close>

definition authentication_reply ::
  "NPError \<times> (byte list option \<times> uint32) \<times> (byte list option \<times> uint32) \<Rightarrow> np_value rpc_arg list"
where
  "authentication_reply = (\<lambda>(r, (username, ulen), (password, plen)).
     [error_arg r, char_array ulen username, char_array plen password])"

lemma and_finally_ret [simp]: "and_finally m (ret ()) = m"
  by (rule ext) (simp add: and_finally_def ret_def split: prod.split res.split)

lemma handle_NPN_GetAuthenticationInfo_alt:
  assumes "b_memfree B = (\<lambda>_. ret ())"
  shows "handle_NPN_GetAuthenticationInfo B R =
     handle R [P_type RPC_TYPE_NPW_PLUGIN_INSTANCE, P_type RPC_TYPE_STRING, P_type RPC_TYPE_STRING,
       P_type RPC_TYPE_INT32, P_type RPC_TYPE_STRING, P_type RPC_TYPE_STRING] (\<lambda>as.
     case as of
       [a1, a2, a3, a4, a5, a6] \<Rightarrow> on_npp a1 (\<lambda>npp.
         bind_op (wrapper_NPN_GetAuthenticationInfo B npp (as_string a2) (as_string a3) (as_int32 a4) (as_string a5)
           (as_string a6)) (\<lambda>x. send_reply R (authentication_reply x)))
     | _ \<Rightarrow> misread)"
proof -
  have freed: "then_op (if x \<noteq> None then b_memfree B x else ret ()) (if y \<noteq> None then b_memfree B y else ret ()) = ret ()" for x y
    by (simp add: assms then_op_def)
  show ?thesis
    unfolding handle_NPN_GetAuthenticationInfo_def authentication_reply_def freed and_finally_ret case_prod_unfold ..
qed

text \<open>
  C33. What a plugin gets from \<open>NPN_GetAuthenticationInfo\<close>: called for a live instance, the request reaches the
  browser as it was made, and the plugin gets the user name with its length; the password it gets has the
  length of the user name, although the length stored for it is that of the password. A longer
  password is cut off without an error.
\<close>

theorem NPN_GetAuthenticationInfo_password:
  assumes "Rc = np_rpc_env Ec visualid ptr32 cmc cec" "Rs = np_rpc_env Es visualid ptr32 cms ces"
    and ready: "calls_ready N Es Mc Ms F G c s npp p pl q ql" and mem: "can_alloc N = (\<lambda>_ _. True)"
    and handler: "Ms RPC_METHOD_NPN_GET_AUTHENTICATION_INFO = Some cb" "cms cb = handle_NPN_GetAuthenticationInfo B Rs"
    and args: "wf_string protocol" "wf_string host" "wf_string auth_scheme" "wf_string realm"
    and browser: "browser_step g" "b_memfree B = (\<lambda>_. ret ())" "b_getauthenticationinfo B = Some f"
      "\<And>s'. f (pi_instance ql) protocol host port auth_scheme realm s' =
         (Ok (NPERR_NO_ERROR, (Some user, ulen), (Some password, plen)), g s')"
    and answer: "length user = unat ulen" "length password = unat plen" "0 < ulen" "ulen \<le> plen" "unat plen < 2 ^ 31"
  shows "\<exists>c' s'. exchange Rs RPC_METHOD_NPN_GET_AUTHENTICATION_INFO
      (g_NPN_GetAuthenticationInfo N Ec Rc npp protocol host port auth_scheme realm) c s
      (NPERR_NO_ERROR, (Some (Some user), Some ulen), (Some (Some (take (length user) password)), Some plen)) c' s' \<and>
    np_inv Mc F c' \<and> np_inv Ms (g G) s'"
  unfolding g_NPN_GetAuthenticationInfo_def
proof (rule plain_exchange [where f = "\<lambda>npp. wrapper_NPN_GetAuthenticationInfo B npp protocol host port auth_scheme realm" and
      rep = authentication_reply and rps = "[P_type RPC_TYPE_INT32, P_array RPC_TYPE_CHAR, P_array RPC_TYPE_CHAR]" and
      as = "[Str protocol, Str host, Int32 port, Str auth_scheme, Str realm]" and
      r = "(NPERR_NO_ERROR, (Some user, ulen), (Some password, plen))",
      OF assms(1,2) ready _ _ handler(1) _ _ handler(2) [unfolded handle_NPN_GetAuthenticationInfo_alt [OF browser(2)]] _ browser(1)])
  show "wrapper_NPN_GetAuthenticationInfo B (pi_instance ql) protocol host port auth_scheme realm s' =
      (Ok (NPERR_NO_ERROR, (Some user, ulen), (Some password, plen)), g s')" for s'
    using browser(3,4) by (simp add: wrapper_NPN_GetAuthenticationInfo_def if_supported_def)
  have chars: "good_chars ulen (Some user)" "good_chars plen (Some password)" "plen \<noteq> 0" "ulen \<noteq> 0"
    "unat ulen \<le> length password"
    using answer by (auto simp: good_chars_def word_le_nat_alt word_less_nat_alt)
  then show "list_all (wf_arg np_types (np_wf ptr32))
      (authentication_reply (NPERR_NO_ERROR, (Some user, ulen), (Some password, plen)))"
    by (simp add: authentication_reply_def)
  fix a b
  assume "talks (np_inv Mc (held p pl F)) (remote_call Rc RPC_METHOD_NPN_GET_AUTHENTICATION_INFO
      (np_instance p # [Str protocol, Str host, Int32 port, Str auth_scheme, Str realm])
      [P_type RPC_TYPE_INT32, P_array RPC_TYPE_CHAR, P_array RPC_TYPE_CHAR]) a b (Some (map (view_arg (np_view visualid))
        (authentication_reply (NPERR_NO_ERROR, (Some user, ulen), (Some password, plen))))) (np_inv Mc (held p pl F))"
  then show "talks (np_inv Mc F) (holding Ec p (invoke_NPN_GetAuthenticationInfo (can_alloc N) Rc p protocol host port
      auth_scheme realm)) a b
      (NPERR_NO_ERROR, (Some (Some user), Some ulen), (Some (Some (take (length user) password)), Some plen)) (np_inv Mc F)"
    unfolding invoke_NPN_GetAuthenticationInfo_def
    by (rule calls_holding [where npp = npp, rotated 2]) (use ready chars answer mem in
      \<open>simp_all add: calls_ready_def authentication_reply_def realloc_bytes_def seen_chars_def op_simps bind_op_def Let_def\<close>)
qed (use args in \<open>simp_all add: int32_range_def authentication_reply_def\<close>)

theorem NPN_GetAuthenticationInfo_password_witness:
  "\<exists>(c :: (cptr \<times> cptr) list np_side) (s :: (cptr \<times> cptr) list np_side)
      (Rc :: ((cptr \<times> cptr) list np_side, np_value) rpc_env) (Rs :: ((cptr \<times> cptr) list np_side, np_value) rpc_env) c' s'.
     exchange Rs RPC_METHOD_NPN_GET_AUTHENTICATION_INFO (g_NPN_GetAuthenticationInfo sample_requests (side_env True) Rc 64
       None None 80 None None) c s (NPERR_NO_ERROR, (Some (Some [117]), Some 1), (Some (Some [112]), Some 3)) c' s'"
proof -
  obtain c s :: "(cptr \<times> cptr) list np_side" where ready: "calls_ready sample_requests (side_env False)
    [RPC_METHOD_NPN_GET_AUTHENTICATION_INFO \<mapsto> 70] [RPC_METHOD_NPN_GET_AUTHENTICATION_INFO \<mapsto> 70]
    (with_instance 64 128 32 48 sample_frame)
    (with_instance 512 256 800 816 sample_frame) c s 64 128 (sample_instance 64) 256 (sample_instance 512)"
    by (rule calls_ready_exists)
  let ?ce = "\<lambda>_ _. ret ()" and ?v = "\<lambda>_. 0"
  let ?cm = "\<lambda>_. handle_NPN_GetAuthenticationInfo sample_browser (np_rpc_env (side_env False) ?v False (\<lambda>_. ret 0) ?ce)"
  let ?Rs = "np_rpc_env (side_env False) ?v False ?cm ?ce" and ?Rc = "np_rpc_env (side_env True) ?v False (\<lambda>_. ret 0) ?ce"
  have handler: "?cm 70 = handle_NPN_GetAuthenticationInfo sample_browser ?Rs"
    unfolding np_rpc_env_call_method [of "side_env False" ?v False ?cm ?ce "\<lambda>_. ret 0"]
    by (simp only: handle_NPN_GetAuthenticationInfo_def call_method_irrelevant)
  have "\<exists>c' s'. exchange ?Rs RPC_METHOD_NPN_GET_AUTHENTICATION_INFO (g_NPN_GetAuthenticationInfo sample_requests (side_env True)
      ?Rc 64 None None 80 None None) c s
      (NPERR_NO_ERROR, (Some (Some [117]), Some 1), (Some (Some (take (length [117 :: byte]) [112, 119, 100])), Some 3)) c' s' \<and>
    np_inv [RPC_METHOD_NPN_GET_AUTHENTICATION_INFO \<mapsto> 70] (with_instance 64 128 32 48 sample_frame) c' \<and>
    np_inv [RPC_METHOD_NPN_GET_AUTHENTICATION_INFO \<mapsto> 70] (with_instance 512 256 800 816 sample_frame) s'"
    by (rule NPN_GetAuthenticationInfo_password [where g = "\<lambda>s'. s'" and cms = ?cm and B = sample_browser and
          f = "the (b_getauthenticationinfo sample_browser)", OF refl refl ready _ _ handler])
      (simp_all add: sample_browser_def sample_requests_def ret_apply wf_string_def)
  then have "\<exists>c' s'. exchange ?Rs RPC_METHOD_NPN_GET_AUTHENTICATION_INFO (g_NPN_GetAuthenticationInfo sample_requests
      (side_env True) ?Rc 64 None None 80 None None) c s (NPERR_NO_ERROR, (Some (Some [117]), Some 1), (Some (Some [112]), Some 3)) c' s'"
    by auto
  then show ?thesis by blast
qed

subsection \<open>Streams\<close>

lemma stream_in_call [simp]:
  "stream_at (calling_state F p pl) st i = stream_at F st i"
  "stream_named H (serving_state G) i st = stream_named H G i st"
  by (simp_all add: stream_at_def stream_named_def)

text \<open>
  C32. A plugin writes to its stream at the browser: \<open>NPN_Write\<close> on a stream that both processes know under
  one identifier calls the browser's function for the browser's stream of that identifier, with the same
  instance and the caller's bytes; the count the browser answers is the plugin's result (\<open>-1\<close> if the
  browser has no such function).
\<close>

theorem NPN_Write_correct:
  assumes "Rc = np_rpc_env Ec visualid ptr32 cmc cec" "Rs = np_rpc_env Es visualid ptr32 cms ces"
    and ready: "calls_ready N Es Mc Ms F G c s npp p pl q ql"
    and handler: "Ms RPC_METHOD_NPN_WRITE = Some cb" "cms cb = handle_NPN_Write B Rs"
    and stream: "linked_stream (hash Ec) F st i" "linked_stream (hash Es) G st' i" and buf: "good_chars len buf"
    and browser: "browser_step g" "case b_write B of
      None \<Rightarrow> r = - 1 \<and> g = (\<lambda>s'. s')
    | Some f \<Rightarrow> \<forall>s'. f (pi_instance ql) st' len (seen_chars len buf) s' = (Ok r, g s')"
  shows "\<exists>c' s'. exchange Rs RPC_METHOD_NPN_WRITE (g_NPN_Write N Ec Rc npp st len buf) c s r c' s' \<and>
    np_inv Mc F c' \<and> np_inv Ms (g G) s'"
proof -
  note st = linked_streamD(3) [OF stream(1)] linked_streamD(3) [OF stream(2)]
  have pass: "passes Ec Es visualid ptr32 (calling_state F p pl) (serving_state G) RPC_TYPE_NP_STREAM (NV_stream st)
      (htonl i) (NV_stream st')"
    using linked_streamD(1) [OF stream(1)] linked_streamD(2) [OF stream(2)] by (intro passes_stream) simp_all
  show ?thesis
    unfolding g_NPN_Write_def
  proof (rule stream_exchange [where f = "\<lambda>npp. wrapper_NPN_Write B npp st' len (seen_chars len buf)" and
        rep = "\<lambda>r. [Int32 r]" and rps = "[P_type RPC_TYPE_INT32]" and as = "[char_array len buf]",
        OF assms(1,2) ready pass _ _ handler(1) _ _ handler(2) [unfolded handle_NPN_Write_def] _ browser(1)])
    show "wrapper_NPN_Write B (pi_instance ql) st' len (seen_chars len buf) s' = (Ok r, g s')"
      for s' using browser(2) st(2) by (auto simp: wrapper_NPN_Write_def if_supported_def ret_apply split: option.splits)
    fix a b
    assume "talks (np_inv Mc (held p pl F)) (remote_call Rc RPC_METHOD_NPN_WRITE
        (np_instance p # np_stream st # [char_array len buf]) [P_type RPC_TYPE_INT32]) a b
        (Some (map (view_arg (np_view visualid)) [Int32 r])) (np_inv Mc (held p pl F))"
    from calls_holding [OF _ _ this, where post = "\<lambda>r. ret (case r of Some [a] \<Rightarrow> as_int32 a | _ \<Rightarrow> - 1)" and v = r and
        E = Ec and npp = npp] ready st
    show "talks (np_inv Mc F) (if st = 0 then ret (- 1) else holding Ec p (invoke_NPN_Write Rc p st len buf)) a b r (np_inv Mc F)"
      by (simp add: invoke_NPN_Write_def calls_ready_def ret_apply)
  qed (use buf in \<open>simp_all add: int32_range_def\<close>)
qed

theorem NPN_Write_correct_witness:
  "\<exists>(c :: (cptr \<times> cptr) list np_side) (s :: (cptr \<times> cptr) list np_side)
      (Rc :: ((cptr \<times> cptr) list np_side, np_value) rpc_env) (Rs :: ((cptr \<times> cptr) list np_side, np_value) rpc_env) c' s'.
     exchange Rs RPC_METHOD_NPN_WRITE (g_NPN_Write sample_requests (side_env True) Rc 64 32 2 (Some [98, 99])) c s 2 c' s'"
proof -
  obtain c s :: "(cptr \<times> cptr) list np_side" where ready: "calls_ready sample_requests (side_env False)
    [RPC_METHOD_NPN_WRITE \<mapsto> 70] [RPC_METHOD_NPN_WRITE \<mapsto> 70] (with_instance 64 128 32 48 sample_frame)
    (with_instance 512 256 800 816 sample_frame) c s 64 128 (sample_instance 64) 256 (sample_instance 512)"
    by (rule calls_ready_exists)
  let ?ce = "\<lambda>_ _. ret ()" and ?v = "\<lambda>_. 0"
  let ?cm = "\<lambda>_. handle_NPN_Write sample_browser (np_rpc_env (side_env False) ?v False (\<lambda>_. ret 0) ?ce)"
  let ?Rs = "np_rpc_env (side_env False) ?v False ?cm ?ce" and ?Rc = "np_rpc_env (side_env True) ?v False (\<lambda>_. ret 0) ?ce"
  have handler: "?cm 70 = handle_NPN_Write sample_browser ?Rs"
    unfolding np_rpc_env_call_method [of "side_env False" ?v False ?cm ?ce "\<lambda>_. ret 0"]
    by (simp only: handle_NPN_Write_def call_method_irrelevant)
  have "\<exists>c' s'. exchange ?Rs RPC_METHOD_NPN_WRITE (g_NPN_Write sample_requests (side_env True) ?Rc 64 32 2
      (Some [98, 99])) c s 2 c' s' \<and>
    np_inv [RPC_METHOD_NPN_WRITE \<mapsto> 70] (with_instance 64 128 32 48 sample_frame) c' \<and>
    np_inv [RPC_METHOD_NPN_WRITE \<mapsto> 70] (with_instance 512 256 800 816 sample_frame) s'"
    by (rule NPN_Write_correct [where g = "\<lambda>s'. s'" and cms = ?cm and B = sample_browser, OF refl refl ready _ handler
          sample_streams sample_streams])
      (simp_all add: sample_browser_def ret_apply good_chars_def)
  then show ?thesis by blast
qed

end
