(* ===== verification/Np_Streams.thy ===== *)
theory Np_Streams
  imports Np_Browser_Calls
begin

text \<open>
  The life of a stream that a plugin makes: \<open>NPN_NewStream\<close> makes it in the browser and names it in both
  processes, \<open>NPN_DestroyStream\<close> makes both forget it.
\<close>

subsection \<open>Naming a stream\<close>

lemma bind_op_assoc: "bind_op (bind_op m f) g = bind_op m (\<lambda>x. bind_op (f x) g)"
  by (rule ext) (simp add: bind_op_def split: prod.split res.split)

definition link_stream ::
  "'h ghash \<Rightarrow> int32 \<Rightarrow> cptr \<Rightarrow> cptr \<Rightarrow> ('h, 'z) np_process_scheme \<Rightarrow> ('h, 'z) np_process_scheme"
where
  "link_stream H i st d s = put_stream st (Some d) (put_stream_instance d
     (Some \<lparr>si_stream = st, si_stream_id = i, si_is_plugin_stream = 1\<rparr>) (s\<lparr>ids := id_link H i d (ids s)\<rparr>))"

lemma link_stream_links:
  assumes "hash_table H tbl" "g_ids (ids s) \<noteq> None" "st \<noteq> 0" "d \<noteq> 0"
  shows "linked_stream H (link_stream H i st d s) st i"
  using assms by (auto simp: linked_stream_def link_stream_def put_stream_def put_stream_instance_def
      id_lookup_def id_link_def tab_lookup_def tab_insert_def hash_table.lookup_law hash_table.insert_law)

text \<open>
  Identifier \<open>i\<close> is new in the first table: positive and not in use. The second table keeps what every
  other identifier means.
\<close>

definition fresh_id :: "('h \<Rightarrow> cptr \<Rightarrow> cptr option) \<Rightarrow> 'h id_table \<Rightarrow> int32 \<Rightarrow> bool" where
  "fresh_id tbl t i \<longleftrightarrow> 0 < c_int i \<and> id_abs tbl t i = None"

definition others_kept :: "('h \<Rightarrow> cptr \<Rightarrow> cptr option) \<Rightarrow> int32 \<Rightarrow> 'h id_table \<Rightarrow> 'h id_table \<Rightarrow> bool" where
  "others_kept tbl i t t' \<longleftrightarrow> (\<forall>j. j \<noteq> i \<longrightarrow> id_abs tbl t' j = id_abs tbl t j)"

text \<open>What \<open>id_create\<close> needs.\<close>

definition can_name :: "('h \<Rightarrow> cptr \<Rightarrow> cptr option) \<Rightarrow> 'h id_table \<Rightarrow> bool" where
  "can_name tbl t \<longleftrightarrow> ids_ok tbl t \<and> g_ids t \<noteq> None \<and> c_int (last_id t) < 2 ^ 31 - 1"

lemma created_name:
  assumes "hash_table H tbl" "can_name tbl t"
  shows "fresh_id tbl t (last_id t + 1)"
    "others_kept tbl (last_id t + 1) t (id_link H (last_id t + 1) d (t\<lparr>last_id := last_id t + 1\<rparr>))"
    "ids_ok tbl (id_link H (last_id t + 1) d (t\<lparr>last_id := last_id t + 1\<rparr>))"
proof -
  have run: "id_create H d t = (last_id t + 1, id_link H (last_id t + 1) d (t\<lparr>last_id := last_id t + 1\<rparr>))"
    by (simp add: id_create_def Let_def)
  note new = hash_table.create_abs [OF assms(1) _ _ _ run]
  show "fresh_id tbl t (last_id t + 1)"
    "others_kept tbl (last_id t + 1) t (id_link H (last_id t + 1) d (t\<lparr>last_id := last_id t + 1\<rparr>))"
    "ids_ok tbl (id_link H (last_id t + 1) d (t\<lparr>last_id := last_id t + 1\<rparr>))"
    using assms(2) new by (simp_all add: can_name_def fresh_id_def others_kept_def)
qed

lemma linked_name:
  "hash_table H tbl \<Longrightarrow> g_ids t \<noteq> None \<Longrightarrow> others_kept tbl i t (id_link H i d t)"
  by (simp add: others_kept_def hash_table.link_abs)

lemma removed_name:
  "hash_table H tbl \<Longrightarrow> others_kept tbl i t (snd (id_remove H i t))"
  by (cases "id_remove H i t") (simp add: others_kept_def hash_table.remove_abs)

lemma two_names: "can_name map_of \<lparr>g_ids = Some [(1, p), (2, d)], last_id = 2\<rparr>"
proof -
  have "\<exists>i. k = id_key i \<and> 0 < c_int i \<and> c_int i \<le> 2" if "k = 1 \<or> k = 2" for k
  proof -
    have "k = id_key 1 \<or> k = id_key 2" using that by (simp add: id_key_def)
    then show ?thesis by auto
  qed
  then show ?thesis by (auto simp: can_name_def ids_ok_def)
qed

lemma link_stream_heap [simp]: "heap_only (link_stream H i st d)"
  by (auto intro!: heap_onlyI simp: frame_def link_stream_def put_stream_def put_stream_instance_def rpc_connection.defs)

lemma link_stream_fields [simp]:
  "plugins (link_stream H i st d s) = plugins s" "npps (link_stream H i st d s) = npps s"
  by (simp_all add: link_stream_def put_stream_def put_stream_instance_def)

lemma held_link_stream: "held p pl (link_stream H i st d s) = link_stream H i st d (held p pl s)"
  by (simp add: held_def put_plugin_def link_stream_def put_stream_def put_stream_instance_def)

lemma np_inv_side:
  "np_inv M F s \<Longrightarrow> stream_data s = stream_data F" "np_inv M F s \<Longrightarrow> np_streams s = np_streams F"
  "np_inv M F s \<Longrightarrow> stream_instances s = stream_instances F" "np_inv M F s \<Longrightarrow> ids s = ids F"
  by (auto simp: conn_inv_def frame_def)

lemma browser_step_inv:
  assumes "browser_step g" "np_inv M (serving_state G) s"
  shows "np_inv M ((g G)\<lparr>dispatch_depth := dispatch_depth G + 1, handle_depth := handle_depth G + 1\<rparr>) (g s)"
  using conn_inv_heap [of g np_types M "serving_state G" s] assms by (simp add: browser_step_def)

text \<open>The browser's new stream and the name it gets.\<close>

definition browser_opens ::
  "'h ghash \<Rightarrow> int32 \<Rightarrow> cptr \<Rightarrow> cptr \<Rightarrow> (('h, 'z) np_process_scheme \<Rightarrow> ('h, 'z) np_process_scheme) \<Rightarrow>
     ('h, 'z) np_process_scheme \<Rightarrow> ('h, 'z) np_process_scheme"
where
  "browser_opens H i st d g s = link_stream H i st d ((g s)\<lparr>ids := (ids (g s))\<lparr>last_id := i\<rparr>\<rparr>)"

lemma browser_opens_step: "browser_step g \<Longrightarrow> browser_step (browser_opens H i st d g)"
proof -
  assume g: "browser_step g"
  have "heap_only (\<lambda>s. s\<lparr>ids := (ids s)\<lparr>last_id := i\<rparr>\<rparr>)"
    by (auto intro!: heap_onlyI simp: frame_def rpc_connection.defs)
  from heap_only_comp [OF this, of g] g have "heap_only (\<lambda>s. (g s)\<lparr>ids := (ids (g s))\<lparr>last_id := i\<rparr>\<rparr>)"
    by (simp add: browser_step_def)
  from heap_only_comp [OF link_stream_heap this] have "heap_only (browser_opens H i st d g)"
    unfolding browser_opens_def .
  with g show ?thesis
    by (simp add: browser_step_def)
      (simp add: browser_opens_def link_stream_def put_stream_def put_stream_instance_def)
qed

text \<open>What the reply says of the stream.\<close>

definition sent_stream :: "'s mozilla_funcs \<Rightarrow> NPStream \<Rightarrow> NPStream" where
  "sent_stream B st = st\<lparr>st_headers := (if NPVERS_HAS_RESPONSE_HEADERS \<le> b_version B AND 255 then st_headers st else None)\<rparr>"

definition new_stream_reply :: "NPError \<times> uint32 \<times> NPStream \<Rightarrow> np_value rpc_arg list" where
  "new_stream_reply = (\<lambda>(r, i, st). [error_arg r, Uint32 i, Str (st_url st), Uint32 (st_end st), Uint32 (st_lastmodified st),
     np_notify (st_notifyData st), Str (st_headers st)])"

definition open_stream ::
  "(('h, 'z) np_side_scheme, 'h) npv_env \<Rightarrow> ('h, 'z) np_side_scheme mozilla_funcs \<Rightarrow> c_string \<Rightarrow> c_string \<Rightarrow>
     cptr \<Rightarrow> (('h, 'z) np_side_scheme, NPError \<times> uint32 \<times> NPStream) op"
where
  "open_stream E B mime target npp = bind_op (wrapper_NPN_NewStream E B npp mime target True) (\<lambda>(r, var).
     bind_op (read_stream_var var) (\<lambda>(i, st). ret (r, i, sent_stream B st)))"

lemma handle_NPN_NewStream_alt:
  "handle_NPN_NewStream E B R =
     handle R [P_type RPC_TYPE_NPW_PLUGIN_INSTANCE, P_type RPC_TYPE_STRING, P_type RPC_TYPE_STRING] (\<lambda>as.
     case as of
       [a1, a2, a3] \<Rightarrow> on_npp a1 (\<lambda>npp. bind_op (open_stream E B (as_string a2) (as_string a3) npp)
         (\<lambda>x. send_reply R (new_stream_reply x)))
     | _ \<Rightarrow> misread)"
  unfolding handle_NPN_NewStream_def open_stream_def new_stream_reply_def sent_stream_def bind_op_assoc
  by (simp add: case_prod_unfold bind_op_assoc cong: list.case_cong)

lemma open_stream_runs:
  assumes g: "browser_step g" and B: "\<not> direct_exec B" "b_newstream B = Some f"
    and f: "\<And>s'. f npp mime target s' = (Ok (NPERR_NO_ERROR, Some st), g s')" "\<And>s'. b_stream_addr B (g s') = d" "d \<noteq> 0"
    and made: "np_streams (g G) st = Some x" "stream_data (g G) st = Some y"
    and s: "np_inv M (serving_state G) s"
  shows "open_stream E B mime target npp s =
    (Ok (NPERR_NO_ERROR, last_id (ids (g G)) + 1, sent_stream B y), browser_opens (hash E) (last_id (ids (g G)) + 1) st d g s)"
proof -
  note inv = browser_step_inv [OF g s]
  have "ids (g s) = ids (g G)" "np_streams (g s) st = Some x" "stream_data (g s) st = Some y"
    using np_inv_side [OF inv] made by simp_all
  then show ?thesis
    using B f by (simp add: open_stream_def wrapper_NPN_NewStream_def if_supported_def read_stream_var_def op_simps
        deref_def gets_def modify_state_def then_op_def bind_op_def ret_def id_create_def Let_def browser_opens_def
        link_stream_def put_stream_def put_stream_instance_def id_link_def)
qed

subsection \<open>The plugin's side\<close>

lemma remote_then_answered:
  "remote_call R mid args ps s = (Ok (Some r), s') \<Longrightarrow>
     remote_then R mid args x y (bind_op (remote_wait R ps) k) s = k (Some r) s'"
  unfolding remote_call_steps remote_then_def
  by (auto simp: bind_op_def ret_def split: prod.splits res.splits option.splits if_splits)

lemma talks_remote_then:
  assumes "talks J (remote_call R mid args ps) a b (Some r) J1" "talks J1 (k (Some r)) [] [] v J2"
  shows "talks J (remote_then R mid args x y (bind_op (remote_wait R ps) k)) a b v J2"
  unfolding talks_def
proof (intro allI impI, elim conjE)
  fix s rest assume s: "calm s" "J s" "rx_queue s = a @ rest"
  obtain s1 where s1: "remote_call R mid args ps s = (Ok (Some r), s1)" "calm s1" "J1 s1" "rx_queue s1 = rest"
    "tx_wire s1 = tx_wire s @ b" by (rule talksD [OF assms(1) s])
  obtain s2 where "k (Some r) s1 = (Ok v, s2)" "calm s2" "J2 s2" "rx_queue s2 = rest" "tx_wire s2 = tx_wire s1 @ []"
    by (rule talksD [OF assms(2) s1(2,3)]) (use s1(4) in simp)
  then show "\<exists>s'. remote_then R mid args x y (bind_op (remote_wait R ps) k) s = (Ok v, s') \<and> calm s' \<and> J2 s' \<and>
      rx_queue s' = rest \<and> tx_wire s' = tx_wire s @ b"
    by (simp add: remote_then_answered [OF s1(1)] s1(5))
qed

definition plugin_opens ::
  "'h ghash \<Rightarrow> int32 \<Rightarrow> cptr \<Rightarrow> cptr \<Rightarrow> NPStream \<Rightarrow> ('h, 'z) np_side_scheme \<Rightarrow> ('h, 'z) np_side_scheme"
where
  "plugin_opens H i st d y s = link_stream H i st d (s\<lparr>stream_data := (stream_data s)(st := Some y)\<rparr>)"

lemma make_stream_talks:
  assumes "new_stream_addr N = (\<lambda>_. st)" "new_instance_addr N = (\<lambda>_. d)" "st \<noteq> 0" "d \<noteq> 0"
  shows "talks (np_inv M F) (make_stream N E i y) [] [] (Some st) (np_inv M (plugin_opens (hash E) i st d y F))"
proof (rule talks_heap)
  show "heap_only (plugin_opens (hash E) i st d y)"
    by (auto intro!: heap_onlyI simp: frame_def plugin_opens_def link_stream_def put_stream_def put_stream_instance_def
        rpc_connection.defs)
  show "make_stream N E i y s = (Ok (Some st), plugin_opens (hash E) i st d y s)" for s
    using assms by (simp add: make_stream_def op_simps plugin_opens_def link_stream_def put_stream_def put_stream_instance_def)
qed

lemma plugin_opens_held: "plugin_opens H i st d y (held p pl F) = held p pl (plugin_opens H i st d y F)"
  by (simp add: plugin_opens_def link_stream_def put_stream_def put_stream_instance_def held_def put_plugin_def)

lemma plugin_opens_fields [simp]:
  "plugins (plugin_opens H i st d y s) = plugins s" "npps (plugin_opens H i st d y s) = npps s"
  "stream_data (plugin_opens H i st d y s) st = Some y"
  by (simp_all add: plugin_opens_def link_stream_def put_stream_def put_stream_instance_def)

lemma stream_members:
  "\<lparr>st_url = st_url y, st_end = st_end y, st_lastmodified = st_lastmodified y, st_notifyData = st_notifyData y,
    st_headers = st_headers y\<rparr> = y"
  by simp

lemma invoke_NewStream_talks:
  assumes "live_instance F npp p pl"
    and N: "new_stream_addr N = (\<lambda>_. st)" "new_instance_addr N = (\<lambda>_. d)" "st \<noteq> 0" "d \<noteq> 0"
    and a: "talks (np_inv M (held p pl F)) (remote_call R RPC_METHOD_NPN_NEW_STREAM [np_instance p, Str mime, Str target]
      [P_type RPC_TYPE_INT32, P_type RPC_TYPE_UINT32, P_type RPC_TYPE_STRING, P_type RPC_TYPE_UINT32, P_type RPC_TYPE_UINT32,
        P_type RPC_TYPE_NP_NOTIFY_DATA, P_type RPC_TYPE_STRING]) a b
      (Some (map (view_arg (np_view visualid)) (new_stream_reply (NPERR_NO_ERROR, i, y)))) (np_inv M (held p pl F))"
  shows "talks (np_inv M F) (bind_op (holding E p (invoke_NPN_NewStream N E R p mime target)) (\<lambda>(e, p). ret
      (e, Some (case p of None \<Rightarrow> 0 | Some st \<Rightarrow> st)))) a b (NPERR_NO_ERROR, Some st)
    (np_inv M (plugin_opens (hash E) i st d y F))"
proof -
  have "talks (np_inv M (held p pl F)) (invoke_NPN_NewStream N E R p mime target) a b (NPERR_NO_ERROR, Some st)
      (np_inv M (held p pl (plugin_opens (hash E) i st d y F)))"
    unfolding invoke_NPN_NewStream_def plugin_opens_held [symmetric]
    by (rule talks_remote_then [OF a])
      (simp add: new_stream_reply_def stream_members, rule talks_bind_last [OF make_stream_talks [OF N]], simp add: talks_ret)
  then have "talks (np_inv M F) (holding E p (invoke_NPN_NewStream N E R p mime target)) a b (NPERR_NO_ERROR, Some st)
      (np_inv M (plugin_opens (hash E) i st d y F))"
    using assms(1) by (intro talks_holding_to) (simp_all add: live_instance_def)
  then show ?thesis by (rule talks_bind_last) (simp add: talks_ret)
qed

text \<open>
  C30. \<open>NPN_NewStream\<close> gives the plugin a stream: called for a live instance, it makes the browser open a
  stream for that instance with the caller's MIME type and target; on success both processes know the
  stream under one identifier (the browser's stream on its side, a fresh stream on the plugin's, which is
  the caller's result), and the plugin's copy has the browser's URL, end, date, notification data and, from
  version 17 on, headers. The identifier is positive and was not in use in the browser's table, which
  stays well formed; in both processes every other identifier keeps its meaning and the instances stay as
  they were.
\<close>

theorem NPN_NewStream_correct:
  assumes R: "Rc = np_rpc_env Ec visualid ptr32 cmc cec" "Rs = np_rpc_env Es visualid ptr32 cms ces"
    and H: "hash_table (hash Ec) tblc" "hash_table (hash Es) tbls" "g_ids (ids F) \<noteq> None" "can_name tbls (ids (g G))"
    and ready: "calls_ready N Es Mc Ms F G c s npp p pl q ql"
    and handler: "Ms RPC_METHOD_NPN_NEW_STREAM = Some cb" "cms cb = handle_NPN_NewStream Es B Rs"
    and args: "wf_string mime" "wf_string target"
    and browser: "browser_step g" "\<not> direct_exec B" "b_newstream B = Some f"
      "\<And>s'. f (pi_instance ql) mime target s' = (Ok (NPERR_NO_ERROR, Some st'), g s')"
      "\<And>s'. b_stream_addr B (g s') = d'" "d' \<noteq> 0" "st' \<noteq> 0" "np_streams (g G) st' = Some x" "stream_data (g G) st' = Some y"
    and y: "wf_string (st_url y)" "wf_string (st_headers y)" "ptr32 \<Longrightarrow> hi32 (st_notifyData y) = 0"
    and plugin: "new_stream_addr N = (\<lambda>_. st)" "new_instance_addr N = (\<lambda>_. d)" "st \<noteq> 0" "d \<noteq> 0"
  shows "\<exists>c' s' Fc Gs i. exchange Rs RPC_METHOD_NPN_NEW_STREAM (g_NPN_NewStream N Ec Rc npp mime target True) c s
      (NPERR_NO_ERROR, Some st) c' s' \<and> np_inv Mc Fc c' \<and> np_inv Ms Gs s' \<and>
    linked_stream (hash Ec) Fc st i \<and> linked_stream (hash Es) Gs st' i \<and>
    stream_data Fc st = Some (sent_stream B y) \<and> stream_data Gs st' = Some y \<and>
    plugins Fc = plugins F \<and> npps Fc = npps F \<and> plugins Gs = plugins (g G) \<and>
    fresh_id tbls (ids (g G)) i \<and> others_kept tbls i (ids (g G)) (ids Gs) \<and> ids_ok tbls (ids Gs) \<and>
    others_kept tblc i (ids F) (ids Fc)"
proof -
  let ?i = "last_id (ids (g G)) + 1" and ?y = "sent_stream B y"
  let ?F = "plugin_opens (hash Ec) ?i st d ?y F" and ?G = "browser_opens (hash Es) ?i st' d' g"
  have "\<exists>c' s'. exchange Rs RPC_METHOD_NPN_NEW_STREAM (g_NPN_NewStream N Ec Rc npp mime target True) c s
      (NPERR_NO_ERROR, Some st) c' s' \<and> np_inv Mc ?F c' \<and> np_inv Ms (?G G) s'"
    unfolding g_NPN_NewStream_def
  proof (rule plain_exchange [where f = "open_stream Es B mime target" and rep = new_stream_reply and as = "[Str mime, Str target]" and
        r = "(NPERR_NO_ERROR, ?i, ?y)" and rps = "[P_type RPC_TYPE_INT32, P_type RPC_TYPE_UINT32, P_type RPC_TYPE_STRING,
          P_type RPC_TYPE_UINT32, P_type RPC_TYPE_UINT32, P_type RPC_TYPE_NP_NOTIFY_DATA, P_type RPC_TYPE_STRING]",
        OF R ready _ _ handler(1) _ _ handler(2) [unfolded handle_NPN_NewStream_alt] _ browser_opens_step [OF browser(1)]])
    show "open_stream Es B mime target (pi_instance ql) s' = (Ok (NPERR_NO_ERROR, ?i, ?y), ?G s')"
      if "np_inv Ms (serving_state G) s'" for s'
      by (rule open_stream_runs [OF browser(1-6) browser(8,9) that])
    fix a b
    assume a: "talks (np_inv Mc (held p pl F)) (remote_call Rc RPC_METHOD_NPN_NEW_STREAM
        (np_instance p # [Str mime, Str target]) [P_type RPC_TYPE_INT32, P_type RPC_TYPE_UINT32, P_type RPC_TYPE_STRING,
          P_type RPC_TYPE_UINT32, P_type RPC_TYPE_UINT32, P_type RPC_TYPE_NP_NOTIFY_DATA, P_type RPC_TYPE_STRING]) a b
        (Some (map (view_arg (np_view visualid)) (new_stream_reply (NPERR_NO_ERROR, ?i, ?y)))) (np_inv Mc (held p pl F))"
    show "talks (np_inv Mc F) (if \<not> True then ret (NPERR_INVALID_PARAM, None)
        else bind_op (holding Ec p (invoke_NPN_NewStream N Ec Rc p mime target)) (\<lambda>(e, p). ret
         (e, Some (case p of None \<Rightarrow> 0 | Some st \<Rightarrow> st)))) a b (NPERR_NO_ERROR, Some st) (np_inv Mc ?F)"
      using invoke_NewStream_talks [OF _ plugin a, of npp Ec] ready by (simp add: calls_ready_def)
  qed (use args y in \<open>auto simp: int32_range_def new_stream_reply_def sent_stream_def wf_string_def\<close>)
  moreover have "linked_stream (hash Ec) ?F st ?i" "linked_stream (hash Es) (?G G) st' ?i"
    unfolding plugin_opens_def browser_opens_def
    by (rule link_stream_links [OF H(1)] link_stream_links [OF H(2)], use H(3,4) plugin(3,4) browser(6,7) in \<open>simp_all add: can_name_def\<close>)+
  moreover have "stream_data (?G G) st' = Some y" "plugins (?G G) = plugins (g G)"
    using browser(9) by (simp_all add: browser_opens_def link_stream_def put_stream_def put_stream_instance_def)
  moreover have "fresh_id tbls (ids (g G)) ?i" "others_kept tbls ?i (ids (g G)) (ids (?G G))" "ids_ok tbls (ids (?G G))"
    using created_name [OF H(2,4)]
    by (simp_all add: browser_opens_def link_stream_def put_stream_def put_stream_instance_def)
  moreover have "others_kept tblc ?i (ids F) (ids ?F)"
    using linked_name [OF H(1,3)] by (simp add: plugin_opens_def link_stream_def put_stream_def put_stream_instance_def)
  moreover have "plugins ?F = plugins F" "npps ?F = npps F" "stream_data ?F st = Some ?y" by simp_all
  ultimately show ?thesis by metis
qed

lemma sample_opens_step: "browser_step sample_opens"
  by (auto intro!: heap_onlyI simp: browser_step_def frame_def sample_opens_def rpc_connection.defs)

theorem NPN_NewStream_correct_witness:
  "\<exists>(c :: (cptr \<times> cptr) list np_side) (s :: (cptr \<times> cptr) list np_side)
      (Rc :: ((cptr \<times> cptr) list np_side, np_value) rpc_env) (Rs :: ((cptr \<times> cptr) list np_side, np_value) rpc_env) c' s'
      (Fc :: (cptr \<times> cptr) list np_side) i.
     exchange Rs RPC_METHOD_NPN_NEW_STREAM (g_NPN_NewStream sample_requests (side_env True) Rc 64 (Some [97]) None True) c s
       (NPERR_NO_ERROR, Some 1024) c' s' \<and> np_inv [RPC_METHOD_NPN_NEW_STREAM \<mapsto> 70] Fc c' \<and> linked_stream alist_hash Fc 1024 i"
proof -
  let ?Ec = "side_env True :: ((cptr \<times> cptr) list np_side, (cptr \<times> cptr) list) npv_env" and
    ?Es = "side_env False :: ((cptr \<times> cptr) list np_side, (cptr \<times> cptr) list) npv_env"
  let ?B = "sample_browser :: (cptr \<times> cptr) list np_side mozilla_funcs"
  let ?F = "with_instance 64 128 32 48 sample_frame" and ?G = "with_instance 512 256 800 816 sample_frame"
  obtain c s :: "(cptr \<times> cptr) list np_side" where ready: "calls_ready sample_requests (side_env False)
    [RPC_METHOD_NPN_NEW_STREAM \<mapsto> 70] [RPC_METHOD_NPN_NEW_STREAM \<mapsto> 70] ?F ?G c s 64 128 (sample_instance 64) 256 (sample_instance 512)"
    by (rule calls_ready_exists)
  let ?ce = "\<lambda>_ _. ret ()" and ?v = "\<lambda>_. 0"
  let ?cm = "\<lambda>_. handle_NPN_NewStream (side_env False) sample_browser (np_rpc_env (side_env False) ?v False (\<lambda>_. ret 0) ?ce)"
  let ?Rs = "np_rpc_env (side_env False) ?v False ?cm ?ce" and ?Rc = "np_rpc_env (side_env True) ?v False (\<lambda>_. ret 0) ?ce"
  have handler: "?cm 70 = handle_NPN_NewStream (side_env False) sample_browser ?Rs"
    unfolding np_rpc_env_call_method [of "side_env False" ?v False ?cm ?ce "\<lambda>_. ret 0"]
    by (simp only: handle_NPN_NewStream_def call_method_irrelevant)
  have H: "hash_table (hash ?Ec) map_of" "hash_table (hash ?Es) map_of" using alist.hash_table_axioms by (simp_all add: side_env_def)
  have named: "can_name map_of (ids (sample_opens ?G))"
    by (simp add: sample_opens_def with_instance_def two_names)
  have "\<exists>c' s' Fc Gs i. exchange ?Rs RPC_METHOD_NPN_NEW_STREAM (g_NPN_NewStream sample_requests (side_env True) ?Rc 64
      (Some [97]) None True) c s (NPERR_NO_ERROR, Some 1024) c' s' \<and> np_inv [RPC_METHOD_NPN_NEW_STREAM \<mapsto> 70] Fc c' \<and>
      np_inv [RPC_METHOD_NPN_NEW_STREAM \<mapsto> 70] Gs s' \<and>
    linked_stream (hash ?Ec) Fc 1024 i \<and> linked_stream (hash ?Es) Gs 768 i \<and>
    stream_data Fc 1024 = Some (sent_stream ?B sample_stream) \<and> stream_data Gs 768 = Some sample_stream \<and>
    plugins Fc = plugins ?F \<and> npps Fc = npps ?F \<and> plugins Gs = plugins (sample_opens ?G) \<and>
    fresh_id map_of (ids (sample_opens ?G)) i \<and> others_kept map_of i (ids (sample_opens ?G)) (ids Gs) \<and> ids_ok map_of (ids Gs) \<and>
    others_kept map_of i (ids ?F) (ids Fc)"
    by (rule NPN_NewStream_correct [where g = sample_opens and cms = ?cm and B = sample_browser and f = "the (b_newstream sample_browser)"
          and d' = 640 and d = 2048 and x = 0, OF refl refl H _ named ready _ handler _ _ sample_opens_step])
      (simp_all add: sample_browser_def sample_opens_def sample_requests_def with_instance_def sample_stream_def wf_string_def)
  then show ?thesis unfolding side_env_hash by blast
qed

subsection \<open>Destroying a stream\<close>

definition drop_stream ::
  "'h ghash \<Rightarrow> int32 \<Rightarrow> cptr \<Rightarrow> cptr \<Rightarrow> cptr option \<Rightarrow> ('h, 'z) np_process_scheme \<Rightarrow> ('h, 'z) np_process_scheme"
where
  "drop_stream H i st d x s = put_stream st x (put_stream_instance d None (s\<lparr>ids := snd (id_remove H i (ids s))\<rparr>))"

lemma drop_stream_plugins [simp]: "plugins (drop_stream H i st d x s) = plugins s"
  by (simp add: drop_stream_def put_stream_def put_stream_instance_def)

lemma drop_stream_forgets:
  assumes "hash_table H tbl"
  shows "id_lookup H i (ids (drop_stream H i st d x s)) = 0" "np_streams (drop_stream H i st d x s) st = x"
    "stream_instances (drop_stream H i st d x s) d = None"
  using hash_table.remove_law [OF assms] hash_table.lookup_law [OF assms]
  by (auto simp: drop_stream_def put_stream_def put_stream_instance_def id_remove_def tab_remove_def id_lookup_def
      tab_lookup_def split: prod.split option.splits)

lemma drop_stream_depths:
  "drop_stream H i st d x (s\<lparr>dispatch_depth := m, handle_depth := n\<rparr>) =
   (drop_stream H i st d x s)\<lparr>dispatch_depth := m, handle_depth := n\<rparr>"
  by (simp add: drop_stream_def put_stream_def put_stream_instance_def)

lemma drop_stream_step: "browser_step g \<Longrightarrow> browser_step (\<lambda>s. g (drop_stream H i st d x s))"
proof -
  assume g: "browser_step g"
  have "heap_only (drop_stream H i st d x)"
    by (auto intro!: heap_onlyI simp: frame_def drop_stream_def put_stream_def put_stream_instance_def rpc_connection.defs)
  from heap_only_comp [OF _ this] g have "heap_only (\<lambda>s. g (drop_stream H i st d x s))"
    unfolding browser_step_def by blast
  with g show ?thesis by (simp add: browser_step_def drop_stream_depths)
qed

definition plugin_frees ::
  "'h ghash \<Rightarrow> int32 \<Rightarrow> cptr \<Rightarrow> cptr \<Rightarrow> ('h, 'z) np_side_scheme \<Rightarrow> ('h, 'z) np_side_scheme"
where
  "plugin_frees H i st d s = drop_stream H i st d None (s\<lparr>stream_data := (stream_data s)(st := None)\<rparr>)"

lemma free_plugin_stream_talks:
  assumes st: "linked_stream (hash E) F st i" "np_streams F st = Some d"
  shows "talks (np_inv M F) (free_plugin_stream E st) [] [] () (np_inv M (plugin_frees (hash E) i st d F))"
proof (rule talks_heap)
  show "heap_only (plugin_frees (hash E) i st d)"
    by (auto intro!: heap_onlyI simp: frame_def plugin_frees_def drop_stream_def put_stream_def put_stream_instance_def
        rpc_connection.defs)
  show "free_plugin_stream E st s = (Ok (), plugin_frees (hash E) i st d s)" if "np_inv M F s" for s
    using st np_inv_side [OF that]
    by (auto simp: linked_stream_def free_plugin_stream_def deref_def op_simps plugin_frees_def drop_stream_def
        put_stream_def put_stream_instance_def)
qed

lemma wrapper_DestroyStream_runs:
  assumes st: "linked_stream (hash E) G st i" "np_streams G st = Some d"
    and B: "\<not> direct_exec B" "b_destroystream B = Some f" "\<And>s'. f npp st reason s' = (Ok r, g s')"
    and s: "np_inv M (serving_state G) s"
  shows "wrapper_NPN_DestroyStream E B npp st reason s = (Ok r, g (drop_stream (hash E) i st d (Some 0) s))"
proof -
  have "d \<noteq> 0" "st \<noteq> 0" "np_streams s st = Some d"
    "stream_instances s d = Some \<lparr>si_stream = st, si_stream_id = i, si_is_plugin_stream = 1\<rparr>"
    using st np_inv_streams [OF s] by (auto simp: linked_stream_def)
  then show ?thesis
    using B by (simp add: wrapper_NPN_DestroyStream_def if_supported_def deref_def op_simps drop_stream_def
        put_stream_def put_stream_instance_def then_op_def bind_op_def modify_state_def)
qed

text \<open>
  C31. \<open>NPN_DestroyStream\<close> undoes \<open>NPN_NewStream\<close>: for a stream of the plugin that both processes know as \<open>i\<close>, the
  wrapper gives up the identifier and its stream instance before the browser's function is called with the
  browser's stream and the caller's reason; whatever the browser answers is the plugin's result, and the
  plugin's process frees its stream and its identifier in any case.
\<close>

theorem NPN_DestroyStream_correct:
  assumes R: "Rc = np_rpc_env Ec visualid ptr32 cmc cec" "Rs = np_rpc_env Es visualid ptr32 cms ces"
    and H: "hash_table (hash Ec) tblc" "hash_table (hash Es) tbls"
    and ready: "calls_ready N Es Mc Ms F G c s npp p pl q ql"
    and handler: "Ms RPC_METHOD_NPN_DESTROY_STREAM = Some cb" "cms cb = handle_NPN_DestroyStream Es B Rs"
    and stream: "linked_stream (hash Ec) F st i" "linked_stream (hash Es) G st' i" "np_streams G st' = Some d'"
    and browser: "browser_step g" "\<not> direct_exec B" "b_destroystream B = Some f"
      "\<And>s'. f (pi_instance ql) st' reason s' = (Ok r, g s')"
  shows "\<exists>c' s' Fc G'. exchange Rs RPC_METHOD_NPN_DESTROY_STREAM (g_NPN_DestroyStream N Ec Rc npp st reason) c s r c' s' \<and>
    np_inv Mc Fc c' \<and> id_lookup (hash Ec) i (ids Fc) = 0 \<and> np_streams Fc st = None \<and> stream_data Fc st = None \<and>
      plugins Fc = plugins F \<and>
    np_inv Ms (g G') s' \<and> id_lookup (hash Es) i (ids G') = 0 \<and> np_streams G' st' = Some 0 \<and>
      stream_instances G' d' = None \<and> plugins G' = plugins G"
proof -
  obtain d where d: "np_streams F st = Some d" using stream(1) by (auto simp: linked_stream_def)
  note st = linked_streamD(3) [OF stream(1)]
  let ?F = "plugin_frees (hash Ec) i st d F" and ?g = "drop_stream (hash Es) i st' d' (Some 0)"
  have pass: "passes Ec Es visualid ptr32 (calling_state F p pl) (serving_state G) RPC_TYPE_NP_STREAM (NV_stream st)
      (htonl i) (NV_stream st')"
    using linked_streamD(1) [OF stream(1)] linked_streamD(2) [OF stream(2)] by (intro passes_stream) simp_all
  have "\<exists>c' s'. exchange Rs RPC_METHOD_NPN_DESTROY_STREAM (g_NPN_DestroyStream N Ec Rc npp st reason) c s r c' s' \<and>
      np_inv Mc ?F c' \<and> np_inv Ms (g (?g G)) s'"
    unfolding g_NPN_DestroyStream_def
  proof (rule stream_exchange [where f = "\<lambda>npp. wrapper_NPN_DestroyStream Es B npp st' reason" and
        rep = "\<lambda>r. [error_arg r]" and rps = "[P_type RPC_TYPE_INT32]" and as = "[Int32 (scast reason)]",
        OF R ready pass _ _ handler(1) _ _ handler(2) [unfolded handle_NPN_DestroyStream_def] _ drop_stream_step [OF browser(1)]])
    show "wrapper_NPN_DestroyStream Es B (pi_instance ql) st' reason s' = (Ok r, g (?g s'))"
      if "np_inv Ms (serving_state G) s'" for s'
      by (rule wrapper_DestroyStream_runs [OF stream(2,3) browser(2,3,4) that])
    fix a b
    assume "talks (np_inv Mc (held p pl F)) (remote_call Rc RPC_METHOD_NPN_DESTROY_STREAM
        (np_instance p # np_stream st # [Int32 (scast reason)]) [P_type RPC_TYPE_INT32]) a b
        (Some (map (view_arg (np_view visualid)) [error_arg r])) (np_inv Mc (held p pl F))"
    from calls_holding [OF _ _ this, where post = "\<lambda>r. ret (answer_error r)" and v = r and E = Ec and npp = npp] ready
    have "talks (np_inv Mc F) (holding Ec p (invoke_NPN_DestroyStream Rc p st reason)) a b r (np_inv Mc F)"
      by (simp add: invoke_NPN_DestroyStream_def calls_ready_def answer_error_def ret_apply)
    from talks_bind_last [OF this talks_then_quiet [OF free_plugin_stream_talks [OF stream(1) d] talks_ret]] st
    show "talks (np_inv Mc F) (if st = 0 then ret NPERR_INVALID_PARAM
        else bind_op (holding Ec p (invoke_NPN_DestroyStream Rc p st reason)) (\<lambda>e.
          then_op (free_plugin_stream Ec st) (ret e))) a b r (np_inv Mc ?F)" by simp
  qed (simp_all add: int32_range_def)
  moreover have "id_lookup (hash Ec) i (ids ?F) = 0" "np_streams ?F st = None" "plugins ?F = plugins F"
    using drop_stream_forgets [OF H(1)] by (simp_all add: plugin_frees_def)
  moreover have "stream_data ?F st = None"
    by (simp add: plugin_frees_def drop_stream_def put_stream_def put_stream_instance_def)
  moreover note drop_stream_forgets [OF H(2), of i st' d' "Some 0" G] drop_stream_plugins [of "hash Es" i st' d' "Some 0" G]
  ultimately show ?thesis by blast
qed

theorem NPN_DestroyStream_correct_witness:
  "\<exists>(c :: (cptr \<times> cptr) list np_side) (s :: (cptr \<times> cptr) list np_side)
      (Rc :: ((cptr \<times> cptr) list np_side, np_value) rpc_env) (Rs :: ((cptr \<times> cptr) list np_side, np_value) rpc_env) c' s'
      (Fc :: (cptr \<times> cptr) list np_side).
     exchange Rs RPC_METHOD_NPN_DESTROY_STREAM (g_NPN_DestroyStream sample_requests (side_env True) Rc 64 32 3) c s
       NPERR_NO_ERROR c' s' \<and> np_inv [RPC_METHOD_NPN_DESTROY_STREAM \<mapsto> 70] Fc c' \<and> np_streams Fc 32 = None"
proof -
  let ?Ec = "side_env True :: ((cptr \<times> cptr) list np_side, (cptr \<times> cptr) list) npv_env" and
    ?Es = "side_env False :: ((cptr \<times> cptr) list np_side, (cptr \<times> cptr) list) npv_env"
  let ?F = "with_instance 64 128 32 48 sample_frame" and ?G = "with_instance 512 256 800 816 sample_frame"
  obtain c s :: "(cptr \<times> cptr) list np_side" where ready: "calls_ready sample_requests ?Es
    [RPC_METHOD_NPN_DESTROY_STREAM \<mapsto> 70] [RPC_METHOD_NPN_DESTROY_STREAM \<mapsto> 70] ?F ?G c s 64 128 (sample_instance 64) 256 (sample_instance 512)"
    by (rule calls_ready_exists)
  let ?ce = "\<lambda>_ _. ret ()" and ?v = "\<lambda>_. 0"
  let ?cm = "\<lambda>_. handle_NPN_DestroyStream ?Es sample_browser (np_rpc_env ?Es ?v False (\<lambda>_. ret 0) ?ce)"
  let ?Rs = "np_rpc_env ?Es ?v False ?cm ?ce" and ?Rc = "np_rpc_env ?Ec ?v False (\<lambda>_. ret 0) ?ce"
  have handler: "?cm 70 = handle_NPN_DestroyStream ?Es sample_browser ?Rs"
    unfolding np_rpc_env_call_method [of ?Es ?v False ?cm ?ce "\<lambda>_. ret 0"]
    by (simp only: handle_NPN_DestroyStream_def call_method_irrelevant)
  have H: "hash_table (hash ?Ec) map_of" "hash_table (hash ?Es) map_of" using alist.hash_table_axioms by (simp_all add: side_env_def)
  have "\<exists>c' s' Fc G'. exchange ?Rs RPC_METHOD_NPN_DESTROY_STREAM (g_NPN_DestroyStream sample_requests ?Ec ?Rc 64 32 3) c s
      NPERR_NO_ERROR c' s' \<and> np_inv [RPC_METHOD_NPN_DESTROY_STREAM \<mapsto> 70] Fc c' \<and>
      id_lookup (hash ?Ec) 2 (ids Fc) = 0 \<and> np_streams Fc 32 = None \<and> stream_data Fc 32 = None \<and> plugins Fc = plugins ?F \<and>
    np_inv [RPC_METHOD_NPN_DESTROY_STREAM \<mapsto> 70] G' s' \<and> id_lookup (hash ?Es) 2 (ids G') = 0 \<and> np_streams G' 800 = Some 0 \<and>
      stream_instances G' 816 = None \<and> plugins G' = plugins ?G"
    by (rule NPN_DestroyStream_correct [where g = "\<lambda>s'. s'" and cms = ?cm and B = sample_browser and
          f = "the (b_destroystream sample_browser)", OF refl refl H ready _ handler sample_streams sample_streams _ browser_step_same])
      (simp_all add: sample_browser_def with_instance_def ret_apply)
  then show ?thesis by blast
qed

end
