(* ===== verification/Npp_Exchange.thy ===== *)
theory Npp_Exchange
  imports Npp_Delivery Npp_Handlers Np_Request_Exchange Np_Streams
begin

text \<open>
  Calls of a browser to the plugin, end to end: the wrapper's function, the request on the connection of the
  instance, the viewer's handler, the plugin's function, the reply.
\<close>

subsection \<open>The two ends of a call\<close>

text \<open>
  Both processes between two calls, with an instance that has one identifier in both: \<open>p\<close> with the browser's
  handle \<open>npp\<close> in the wrapper, \<open>q\<close> in the viewer. The instance's connection is the one in focus.
\<close>

definition serves_instance ::
  "('h, 'z) npp_host_scheme \<Rightarrow> cptr \<Rightarrow> cptr \<Rightarrow> 'h NPW_PluginInstance \<Rightarrow> bool"
where
  "serves_instance F npp p pl \<longleftrightarrow> npp \<noteq> 0 \<and> npps F npp = Some p \<and> p \<noteq> 0 \<and> plugins F p = Some pl \<and>
     pi_instance pl = npp \<and> inst_connection F p \<noteq> 0 \<and> focus F = inst_connection F p"

definition delivery_ready ::
  "(('h, 'y) np_process_scheme, 'h) npv_env \<Rightarrow> (int \<Rightarrow> code_ptr option) \<Rightarrow> (int \<Rightarrow> code_ptr option) \<Rightarrow>
     ('h, 'z) npp_host_scheme \<Rightarrow> ('h, 'y) np_process_scheme \<Rightarrow> ('h, 'z) npp_host_scheme \<Rightarrow> ('h, 'y) np_process_scheme \<Rightarrow>
     cptr \<Rightarrow> cptr \<Rightarrow> 'h NPW_PluginInstance \<Rightarrow> cptr \<Rightarrow> 'h NPW_PluginInstance \<Rightarrow> bool"
where
  "delivery_ready Es Mc Ms F G c s npp p pl q ql \<longleftrightarrow>
     calm c \<and> np_inv Mc F c \<and> tx_wire c = [] \<and> may_call F \<and>
     calm s \<and> np_inv Ms G s \<and> tx_wire s = [] \<and> status G \<noteq> RPC_STATUS_CLOSED \<and>
     serves_instance F npp p pl \<and> q \<noteq> 0 \<and> id_lookup (hash Es) (pi_instance_id pl) (ids G) = q \<and> plugins G q = Some ql"

lemma np_inv_host:
  assumes "conn_inv T M F s"
  shows "inst_connection s = inst_connection F" "focus s = focus F" "host_streams s = host_streams F"
    "mozilla_funcs s = mozilla_funcs F"
  using assms by (auto simp: conn_inv_def frame_def)

lemma talks_on_plugin:
  assumes p: "serves_instance F npp p pl" and m: "talks (np_inv M F) (f p) a b v J"
  shows "talks (np_inv M F) (on_plugin E npp otherwise f) a b v J"
proof -
  have "talks (np_inv M F) (npw_get_plugin_instance (np_env.truncate E) npp) [] [] p (np_inv M F)"
    using p by (intro talks_pure)
      (simp add: serves_instance_def npw_get_plugin_instance_def npw_get_plugin_instance_1_def op_simps np_inv_heap)
  then have "talks (np_inv M F) (bind_op (npw_get_plugin_instance (np_env.truncate E) npp)
      (\<lambda>p. if p = 0 then ret otherwise else f p)) a b v J"
    using m p by (intro talks_bind [where a = "[]" and b = "[]", simplified]) (auto simp: serves_instance_def)
  then show ?thesis
    using p by (simp add: on_plugin_def serves_instance_def)
qed

lemma on_its_connection_in_focus:
  assumes "serves_instance F npp p pl" "conn_inv T M F s"
  shows "on_its_connection p otherwise m s = m s"
proof -
  have s: "plugins s p = Some pl" "inst_connection s p \<noteq> 0" "focus s = inst_connection s p" "\<not> freed s" "p \<noteq> 0"
    using assms by (simp_all add: serves_instance_def np_inv_heap np_inv_host) (simp add: conn_inv_def)
  have "deref plugins p s = (Ok pl, s)"
    using s by (simp add: deref_def op_simps)
  then show ?thesis
    using s(2-4) by (simp add: on_its_connection_def bind_op_def gets_def on_connection_def then_op_def read_conn_def)
qed

lemma talks_on_its_connection:
  assumes p: "serves_instance F npp p pl" and m: "talks (np_inv M F) m a b v J"
  shows "talks (np_inv M F) (on_its_connection p otherwise m) a b v J"
  unfolding talks_def
proof (intro allI impI)
  fix s rest
  assume s: "calm s \<and> np_inv M F s \<and> rx_queue s = a @ rest"
  show "\<exists>s'. on_its_connection p otherwise m s = (Ok v, s') \<and> calm s' \<and> J s' \<and> rx_queue s' = rest \<and>
      tx_wire s' = tx_wire s @ b"
    unfolding on_its_connection_in_focus [OF p conjunct1 [OF conjunct2 [OF s]]]
    using m s by (simp add: talks_def)
qed

text \<open>
  The whole of a call for an instance: the wrapper's request, from \<open>F1\<close>, with the passing arguments \<open>refs\<close> and
  the plain ones \<open>as\<close>, what the viewer makes of them (\<open>body\<close>), the reply, and what the caller \<open>call\<close> makes of
  that.
\<close>

lemma delivery_exchange_from:
  fixes refs :: "passing list"
  assumes Rc: "Rc = np_rpc_env Ec visualid ptr32 cmc cec" and Rs: "Rs = np_rpc_env Es visualid ptr32 cms ces"
    and ready: "delivery_ready Es Mc Ms F G c s npp p pl q ql" and F1: "serves_instance F1 npp p pl" "may_call F1"
    and refs: "list_all (\<lambda>(t, u, b, u'). passes Ec Es visualid ptr32 (F1\<lparr>invoke_depth := invoke_depth F1 + 1\<rparr>)
      (serving_state G) t u b u') refs"
    and plain: "list_all (wf_arg np_types (np_wf ptr32)) as" "map expected_type ps = map arg_type as"
    and handler: "Ms mid = Some cb" "int32_range mid" "0 \<le> mid"
      "cms cb = handle Rs (P_type RPC_TYPE_NPW_PLUGIN_INSTANCE # params_refs refs @ ps) body"
    and body: "talks (np_inv Ms (serving_state G)) (body (np_instance q # seen_refs refs @ map (view_arg (np_view visualid)) as))
      [] (enc_answer (enc_list (enc_plain visualid rs))) () (np_inv Ms (G'\<lparr>dispatch_depth := dispatch_depth G' + 1\<rparr>))"
    and answer: "list_all (wf_arg np_types (np_wf ptr32)) rs" "map expected_type rps = map arg_type rs" "rs \<noteq> []"
    and call: "\<And>a b. talks (np_inv Mc F1) (instance_call Rc p mid (np_instance p # sent_refs refs @ as) rps) a b
        (Some (map (view_arg (np_view visualid)) rs)) (np_inv Mc F1) \<Longrightarrow>
      talks (np_inv Mc F) (call p) a b v (np_inv Mc F')"
  shows "\<exists>c' s'. exchange Rs mid (on_plugin Ec npp otherwise call) c s v c' s' \<and> np_inv Mc F' c' \<and> np_inv Ms G' s'"
proof -
  let ?F = "F1\<lparr>invoke_depth := invoke_depth F1 + 1\<rparr>" and ?G = "serving_state G"
  let ?x = "(RPC_TYPE_NPW_PLUGIN_INSTANCE, NV_instance p, htonl (pi_instance_id pl), NV_instance q)"
  let ?req = "enc_refs (?x # refs) @ enc_plain visualid as"
  let ?ans = "enc_answer (enc_list (enc_plain visualid rs))"
  note r = ready [unfolded delivery_ready_def]
  have inst: "serves_instance F npp p pl" "q \<noteq> 0" "plugins G q = Some ql" and G: "status G \<noteq> RPC_STATUS_CLOSED"
    and c: "calm c" "np_inv Mc F c" "tx_wire c = []" and s: "calm s" "np_inv Ms G s" "tx_wire s = []"
    using r by simp_all
  have all: "list_all (\<lambda>(t, u, b, u'). passes Ec Es visualid ptr32 ?F ?G t u b u') (?x # refs)"
    using r refs F1(1) by (auto intro!: passes_instance [where pl = pl, simplified] simp: serves_instance_def)
  have rps: "rps \<noteq> []" using answer(2,3) by auto
  from args_refs [OF all args_all_plain [OF plain(1)]]
  have args: "arg_chain (np_ptrs Ec visualid ptr32 cmc cec) (np_inv Mc ?F) (sent_refs (?x # refs) @ as) ?req (np_inv Mc ?F)" .
  have "talks (np_inv Mc F1) (remote_call Rc mid (sent_refs (?x # refs) @ as) rps)
      ?ans (enc_request mid (enc_list ?req)) (Some (map (view_arg (np_view visualid)) rs)) (np_inv Mc F1)"
    by (rule talks_remote_call_plain [OF Rc F1(2)]) (use args params_all_plain [OF answer(1,2)] rps in simp_all)
  then have "talks (np_inv Mc F) (call p) ?ans (enc_request mid (enc_list ?req)) v (np_inv Mc F')"
    unfolding instance_call_def by (intro call [unfolded instance_call_def] talks_on_its_connection [OF F1(1)]) simp
  then have client: "talks (np_inv Mc F) (on_plugin Ec npp otherwise call) ?ans (enc_request mid (enc_list ?req)) v
      (np_inv Mc F')"
    by (rule talks_on_plugin [OF inst(1)])
  have params: "param_chain (np_ptrs Es visualid ptr32 cms ces) (np_inv Ms ?G) (params_refs (?x # refs) @ ps) ?req
      (seen_refs (?x # refs) @ map (view_arg (np_view visualid)) as) (np_inv Ms ?G)"
    by (rule params_refs [OF all params_all_plain [OF plain]])
  have "talks (np_inv Ms (G\<lparr>dispatch_depth := dispatch_depth G + 1\<rparr>)) (cms cb) (enc_list ?req @ []) ?ans
      RPC_ERROR_NO_ERROR (np_inv Ms (G'\<lparr>dispatch_depth := dispatch_depth G' + 1\<rparr>))"
    unfolding handler(4)
    by (rule talks_handler [OF Rs, where as = "seen_refs (?x # refs) @ map (view_arg (np_view visualid)) as"])
      (use G params body in simp_all)
  then show ?thesis
    by (intro exchange_calls [OF Rs c s client handler(1-3)]) simp_all
qed

text \<open>A handler that calls the plugin's function \<open>f\<close> for the instance and replies \<open>rep\<close> of its result.\<close>

lemma talks_plugin_handler:
  assumes Rs: "Rs = np_rpc_env Es visualid ptr32 cm ce" and G: "status G \<noteq> RPC_STATUS_CLOSED"
    and q: "q \<noteq> 0" "plugins G q = Some ql" and g: "browser_step g"
    and f: "\<And>s. np_inv Ms (serving_state G) s \<Longrightarrow> f (pi_instance ql) s = (Ok r, g s)"
    and rs: "list_all (wf_arg np_types (np_wf ptr32)) (rep r)" "rep r \<noteq> []"
    and m: "m = on_npp (np_instance q) (\<lambda>npp. bind_op (f npp) (\<lambda>x. send_reply Rs (rep x)))"
  shows "talks (np_inv Ms (serving_state G)) m [] (enc_answer (enc_list (enc_plain visualid (rep r)))) ()
    (np_inv Ms ((g G)\<lparr>dispatch_depth := dispatch_depth (g G) + 1\<rparr>))"
proof -
  have "dispatch_depth (g G) = dispatch_depth G"
    using g heap_only_fields(7) [of g G] by (simp add: browser_step_def)
  with talks_body [where f = f and g = g and rep = rep and M = Ms and d = "dispatch_depth G + 1", OF Rs G q g f rs]
  show ?thesis by (simp add: m)
qed

end
