(* ===== verification/Npp_Streams.thy ===== *)
theory Npp_Streams
  imports Npp_Exchange
begin

text \<open>
  What the calls a browser makes for its streams achieve: \<open>NPP_NewStream\<close>, \<open>NPP_Write\<close> and
  \<open>NPP_DestroyStream\<close> from the wrapper's function to the plugin's.
\<close>

subsection \<open>Writing\<close>

lemma deeper_calls [simp]:
  "stream_at (F\<lparr>invoke_depth := n\<rparr>) st i = stream_at F st i"
  "stream_named H (G\<lparr>dispatch_depth := m, handle_depth := k\<rparr>) i st = stream_named H G i st"
  by (simp_all add: stream_at_def stream_named_def)

lemma scast_same [simp]: "scast (n :: 32 word) = n"
  by transfer (simp add: take_bit_signed_take_bit)

lemmas delivery_plain = delivery_exchange_from [where refs = "[]", simplified list.pred_inject list.map append_Nil True_implies_equals]

lemmas delivery_stream = delivery_exchange_from [where refs = "[(RPC_TYPE_NP_STREAM, NV_stream st, htonl i, NV_stream st')]"
  for st i st', simplified list.pred_inject list.map append_Nil append_Cons prod.case simp_thms]

abbreviation (input) sent_buffer :: "int32 \<Rightarrow> byte list option \<Rightarrow> byte list option" where
  "sent_buffer len buf \<equiv> (if c_int len \<le> 0 then None else buf)"

lemma unat_of_positive: "0 < c_int n \<Longrightarrow> unat n < 2 ^ 31"
  using sint_lt [of n] by (simp add: unat_eq_nat_uint uint_sint take_bit_int_eq_self)

lemma sent_buffer_chars:
  assumes "\<And>bs. buf = Some bs \<Longrightarrow> 0 < c_int len \<Longrightarrow> length bs = unat len"
  shows "good_chars len (sent_buffer len buf)" "seen_chars len (sent_buffer len buf) = sent_buffer len buf"
proof -
  have "unat len < 2 ^ 31" if "0 < c_int len"
    using that by (rule unat_of_positive)
  then show "good_chars len (sent_buffer len buf)" using assms by (auto simp: good_chars_def split: option.splits)
  show "seen_chars len (sent_buffer len buf) = sent_buffer len buf" by (auto simp: seen_chars_def)
qed

text \<open>
  C35. The browser's data reach the plugin: \<open>NPP_Write\<close> on a stream that both processes know under one
  identifier calls the plugin's function once, for the viewer's instance and stream of the same
  identifiers, with the browser's offset, length and bytes; the count the plugin answers is the
  browser's result (\<open>-1\<close> if the plugin has no such function). The wrapper's process ends as it was, the
  viewer's with what the plugin's function did.
\<close>

theorem NPP_Write_correct:
  assumes R: "Rc = np_rpc_env Ec visualid ptr32 cmc cec" "Rs = np_rpc_env Es visualid ptr32 cms ces"
    and ready: "delivery_ready Es Mc Ms F G c s npp p pl q ql" and inst: "pi_instance ql \<noteq> 0"
    and handler: "Ms RPC_METHOD_NPP_WRITE = Some cb" "cms cb = handle_NPP_Write P Rs"
    and stream: "stream_at F st i" "stream_named (hash Es) G i st'" "st' \<noteq> 0" and
      buf: "\<And>bs. buf = Some bs \<Longrightarrow> 0 < c_int len \<Longrightarrow> length bs = unat len"
    and direct: "\<not> w_direct_exec W"
    and plugin: "browser_step g" "case p_write P of
      None \<Rightarrow> r = - 1 \<and> g = (\<lambda>s'. s')
    | Some f \<Rightarrow> \<forall>s'. f (pi_instance ql) st' offset len (sent_buffer len buf) s' = (Ok r, g s')"
  shows "\<exists>c' s'. exchange Rs RPC_METHOD_NPP_WRITE (g_NPP_Write W P' Ec Rc npp st offset len buf) c s r c' s' \<and>
    np_inv Mc F c' \<and> np_inv Ms (g G) s'"
proof -
  have F: "serves_instance F npp p pl" "may_call F" and G: "status G \<noteq> RPC_STATUS_CLOSED" "q \<noteq> 0" "plugins G q = Some ql"
    using ready by (simp_all add: delivery_ready_def)
  have pass: "passes Ec Es visualid ptr32 (F\<lparr>invoke_depth := invoke_depth F + 1\<rparr>) (serving_state G) RPC_TYPE_NP_STREAM
      (NV_stream st) (htonl i) (NV_stream st')"
    using stream by (intro passes_stream) simp_all
  show ?thesis
    unfolding g_NPP_Write_def
  proof (rule delivery_stream [where as = "[Int32 offset, char_array len (sent_buffer len buf)]" and ps = "[P_type RPC_TYPE_INT32, P_array RPC_TYPE_CHAR]" and
        rps = "[P_type RPC_TYPE_INT32]" and rs = "[Int32 r]",
        OF R ready F pass _ _ handler(1) _ _ handler(2) [unfolded handle_NPP_Write_def]])
    show "talks (np_inv Ms (serving_state G))
      (case np_instance q # np_stream st' # map (view_arg (np_view visualid)) [Int32 offset, char_array len (sent_buffer len buf)] of
         [a1, a2, a3, a4] \<Rightarrow> on_npp a1 (\<lambda>npp. bind_op (viewer_NPP_Write P npp (as_stream a2) (as_int32 a3) (as_count a4)
           (as_chars a4)) (\<lambda>r. send_reply Rs [Int32 r]))
       | _ \<Rightarrow> misread) [] (enc_answer (enc_list (enc_plain visualid [Int32 r]))) ()
      (np_inv Ms ((g G)\<lparr>dispatch_depth := dispatch_depth (g G) + 1\<rparr>))"
      by (rule talks_plugin_handler [where f = "\<lambda>npp. viewer_NPP_Write P npp st' offset len (sent_buffer len buf)" and
            rep = "\<lambda>r. [Int32 r]" and r = r, OF R(2) G plugin(1)])
        (use plugin(2) stream(3) inst sent_buffer_chars(2) [OF buf] in
          \<open>auto simp: viewer_NPP_Write_def if_supported_def ret_apply cong: if_cong split: option.splits\<close>)
    fix a b
    assume "talks (np_inv Mc F) (instance_call Rc p RPC_METHOD_NPP_WRITE (np_instance p # np_stream st #
        [Int32 offset, char_array len (sent_buffer len buf)]) [P_type RPC_TYPE_INT32]) a b
        (Some (map (view_arg (np_view visualid)) [Int32 r])) (np_inv Mc F)"
    from talks_bind_last [OF this, where f = "\<lambda>r. ret (case r of Some [a] \<Rightarrow> as_int32 a | _ \<Rightarrow> - 1)"]
    show "talks (np_inv Mc F) (invoke_NPP_Write W P' Rc p st offset len (sent_buffer len buf)) a b r (np_inv Mc F)"
      using direct by (simp add: invoke_NPP_Write_def talks_ret)
  qed (use sent_buffer_chars [OF buf] in \<open>simp_all add: int32_range_def\<close>)
qed


subsection \<open>Naming a stream of the browser\<close>

definition name_browser_stream ::
  "'h ghash \<Rightarrow> int32 \<Rightarrow> cptr \<Rightarrow> cptr \<Rightarrow> ('h, 'z) np_process_scheme \<Rightarrow> ('h, 'z) np_process_scheme"
where
  "name_browser_stream H i st d s = put_stream st (Some d) (put_stream_instance d
     (Some \<lparr>si_stream = st, si_stream_id = i, si_is_plugin_stream = 0\<rparr>) (s\<lparr>ids := id_link H i d (ids s)\<rparr>))"

lemma name_browser_stream_names:
  assumes "hash_table H tbl" "g_ids (ids s) \<noteq> None" "st \<noteq> 0" "d \<noteq> 0"
  shows "stream_at (name_browser_stream H i st d s) st i" "stream_named H (name_browser_stream H i st d s) i st"
  using assms by (auto simp: stream_at_def stream_named_def name_browser_stream_def put_stream_def put_stream_instance_def
      id_lookup_def id_link_def tab_lookup_def tab_insert_def hash_table.lookup_law hash_table.insert_law)

lemma name_browser_stream_fields [simp]:
  "plugins (name_browser_stream H i st d s) = plugins s" "npps (name_browser_stream H i st d s) = npps s"
  "status (name_browser_stream H i st d s) = status s" "dispatch_depth (name_browser_stream H i st d s) = dispatch_depth s"
  "handle_depth (name_browser_stream H i st d s) = handle_depth s" "invoke_depth (name_browser_stream H i st d s) = invoke_depth s"
  "may_call (name_browser_stream H i st d s) = may_call s"
  by (simp_all add: name_browser_stream_def put_stream_def put_stream_instance_def may_call_def)

text \<open>The wrapper's half: a new identifier for the browser's stream. The viewer's: a stream that looks like it.\<close>

definition wrapper_names ::
  "'h ghash \<Rightarrow> int32 \<Rightarrow> cptr \<Rightarrow> cptr \<Rightarrow> ('h, 'z) npp_host_scheme \<Rightarrow> ('h, 'z) npp_host_scheme"
where
  "wrapper_names H i st d s = name_browser_stream H i st d (s\<lparr>ids := (ids s)\<lparr>last_id := i\<rparr>\<rparr>)"

definition viewer_names ::
  "'h ghash \<Rightarrow> int32 \<Rightarrow> cptr \<Rightarrow> cptr \<Rightarrow> NPStream \<Rightarrow> ('h, 'z) npp_side_scheme \<Rightarrow> ('h, 'z) npp_side_scheme"
where
  "viewer_names H i st d y s = name_browser_stream H i st d (s\<lparr>stream_data := (stream_data s)(st := Some y)\<rparr>)"

lemma name_stream_alt: "name_stream E st d i y = viewer_names (hash E) i st d y"
  by (rule ext) (simp add: name_stream_def viewer_names_def name_browser_stream_def put_stream_def put_stream_instance_def)

lemma names_heap [simp]: "heap_only (wrapper_names H i st d)" "heap_only (viewer_names H i st d y)"
  by (auto intro!: heap_onlyI simp: frame_def wrapper_names_def viewer_names_def name_browser_stream_def put_stream_def
      put_stream_instance_def rpc_connection.defs)

lemma viewer_names_depths:
  "viewer_names H i st d y (s\<lparr>dispatch_depth := m, handle_depth := n\<rparr>) =
   (viewer_names H i st d y s)\<lparr>dispatch_depth := m, handle_depth := n\<rparr>"
  by (simp add: viewer_names_def name_browser_stream_def put_stream_def put_stream_instance_def)

lemma names_fields [simp]:
  "plugins (viewer_names H i st d y s) = plugins s" "status (viewer_names H i st d y s) = status s"
  "dispatch_depth (viewer_names H i st d y s) = dispatch_depth s" "handle_depth (viewer_names H i st d y s) = handle_depth s"
  "stream_data (viewer_names H i st d y s) st = Some y"
  "serves_instance (wrapper_names H i st d F) npp p pl = serves_instance F npp p pl"
  "may_call (wrapper_names H i st d F) = may_call F" "host_streams (wrapper_names H i st d F) = host_streams F"
  "mozilla_funcs (wrapper_names H i st d F) = mozilla_funcs F"
  by (simp_all add: viewer_names_def wrapper_names_def serves_instance_def name_browser_stream_def put_stream_def
      put_stream_instance_def may_call_def)

lemma wrapper_names_names:
  assumes "hash_table H tbl" "g_ids (ids s) \<noteq> None" "st \<noteq> 0" "d \<noteq> 0"
  shows "stream_at (wrapper_names H i st d s) st i" "stream_named H (wrapper_names H i st d s) i st"
  using name_browser_stream_names [OF assms(1) _ assms(3,4), of "s\<lparr>ids := (ids s)\<lparr>last_id := i\<rparr>\<rparr>"] assms(2)
  by (simp_all add: wrapper_names_def)

lemma viewer_names_names:
  assumes "hash_table H tbl" "g_ids (ids s) \<noteq> None" "st \<noteq> 0" "d \<noteq> 0"
  shows "stream_at (viewer_names H i st d y s) st i" "stream_named H (viewer_names H i st d y s) i st"
  using name_browser_stream_names [OF assms(1) _ assms(3,4), of "s\<lparr>stream_data := (stream_data s)(st := Some y)\<rparr>"] assms(2)
  by (simp_all add: viewer_names_def)

text \<open>A step that only changes the heap, and what follows.\<close>

lemma talks_after:
  assumes "heap_only g" "\<And>s. conn_inv T M F s \<Longrightarrow> m s = m' (g s)" "talks (conn_inv T M (g F)) m' a b v J"
  shows "talks (conn_inv T M F) m a b v J"
  unfolding talks_def
proof (intro allI impI, elim conjE)
  fix s rest assume s: "calm s" "conn_inv T M F s" "rx_queue s = a @ rest"
  obtain s' where "m' (g s) = (Ok v, s')" "calm s'" "J s'" "rx_queue s' = rest" "tx_wire s' = tx_wire (g s) @ b"
    by (rule talksD [OF assms(3), of "g s" rest]) (use s conn_inv_heap [OF assms(1)] heap_only_fields [OF assms(1)] in simp_all)
  then show "\<exists>s'. m s = (Ok v, s') \<and> calm s' \<and> J s' \<and> rx_queue s' = rest \<and> tx_wire s' = tx_wire s @ b"
    by (simp add: assms(2) [OF s(2)] heap_only_fields [OF assms(1)])
qed

lemma gets_return: "bind_op (gets (\<lambda>_. x)) f = f x"
  by (rule ext) (simp add: bind_op_def gets_apply)

subsection \<open>A new stream\<close>

definition offered_stream :: "('h, 'z) npp_host_scheme \<Rightarrow> NPStream \<Rightarrow> NPStream" where
  "offered_stream F y =
     y\<lparr>st_headers := (if NPVERS_HAS_RESPONSE_HEADERS \<le> nf_version (mozilla_funcs F) AND 255 then st_headers y else None)\<rparr>"

definition offer :: "c_string \<Rightarrow> int32 \<Rightarrow> NPStream \<Rightarrow> byte \<Rightarrow> np_value rpc_arg list" where
  "offer mime i y seekable = [Str mime, Uint32 i, Str (st_url y), Uint32 (st_end y), Uint32 (st_lastmodified y),
     np_notify (st_notifyData y), Str (st_headers y), Boolean (ucast seekable)]"

definition ask_plugin ::
  "('h, 'z) npp_side_scheme npp_funcs \<Rightarrow> c_string \<Rightarrow> cptr \<Rightarrow> byte \<Rightarrow> cptr \<Rightarrow>
     (('h, 'z) npp_side_scheme, NPError \<times> uint16 \<times> cptr) op"
where
  "ask_plugin P mime st seekable npp = bind_op (viewer_NPP_NewStream P npp mime st seekable 1) (\<lambda>(r, stype).
     bind_op (deref stream_data st) (\<lambda>y. ret (r, stype, st_notifyData y)))"

definition stream_answer :: "NPError \<times> uint16 \<times> cptr \<Rightarrow> np_value rpc_arg list" where
  "stream_answer = (\<lambda>(r, stype, v). [error_arg r, Uint32 (ucast stype), np_notify v])"

lemma handle_NPP_NewStream_alt:
  assumes "new_stream_addr N = (\<lambda>_. st)" "new_instance_addr N = (\<lambda>_. d)" "st \<noteq> 0" "d \<noteq> 0"
  shows "handle_NPP_NewStream N P E R = handle R
    [P_type RPC_TYPE_NPW_PLUGIN_INSTANCE, P_type RPC_TYPE_STRING, P_type RPC_TYPE_UINT32, P_type RPC_TYPE_STRING,
     P_type RPC_TYPE_UINT32, P_type RPC_TYPE_UINT32, P_type RPC_TYPE_NP_NOTIFY_DATA, P_type RPC_TYPE_STRING,
     P_type RPC_TYPE_BOOLEAN] (\<lambda>as. case as of
       [a1, a2, a3, a4, a5, a6, a7, a8, a9] \<Rightarrow>
         then_op (modify_state (name_stream E st d (as_uint32 a3) \<lparr>st_url = as_string a4, st_end = as_uint32 a5,
             st_lastmodified = as_uint32 a6, st_notifyData = as_notify a7, st_headers = as_string a8\<rparr>))
           (on_npp a1 (\<lambda>npp. bind_op (ask_plugin P (as_string a2) st (as_np_bool a9) npp) (\<lambda>x. send_reply R (stream_answer x))))
     | _ \<Rightarrow> misread)"
  using assms unfolding handle_NPP_NewStream_def ask_plugin_def stream_answer_def
  by (simp add: bind_op_assoc case_prod_unfold gets_return cong: list.case_cong)

definition with_notify :: "cptr \<Rightarrow> NPStream \<Rightarrow> cptr \<Rightarrow> ('h, 'z) npp_host_scheme \<Rightarrow> ('h, 'z) npp_host_scheme" where
  "with_notify st y v s = s\<lparr>host_streams := (host_streams s)(st := Some (y\<lparr>st_notifyData := v\<rparr>))\<rparr>"

lemma with_notify_heap [simp]: "heap_only (with_notify st y v)"
  by (auto intro!: heap_onlyI simp: frame_def with_notify_def rpc_connection.defs)

abbreviation (input) stream_params :: "rpc_param list" where
  "stream_params \<equiv> [P_type RPC_TYPE_INT32, P_type RPC_TYPE_UINT32, P_type RPC_TYPE_NP_NOTIFY_DATA]"

lemma error_type_back [simp]: "ucast (ucast (t :: uint16) :: uint32) = t"
  by (rule bit_word_eqI) (simp add: bit_ucast_iff)

lemma stream_request_talks:
  assumes "stream_at F st i" "host_streams F st = Some y"
  shows "talks (np_inv M F) (stream_request p mime st seekable) [] [] (np_instance p # offer mime i (offered_stream F y) seekable)
    (np_inv M F)"
proof (rule talks_pure)
  fix s assume s: "np_inv M F s"
  obtain d si where "np_streams s st = Some d" "d \<noteq> 0" "stream_instances s d = Some si" "si_stream_id si = i" "st \<noteq> 0"
    using assms(1) by (auto simp: stream_at_def np_inv_streams [OF s])
  then show "stream_request p mime st seekable s = (Ok (np_instance p # offer mime i (offered_stream F y) seekable), s)"
    using assms(2) by (simp add: stream_request_def bind_op_def deref_def gets_apply np_inv_host [OF s] ret_apply offer_def
        offered_stream_def)
qed

lemma invoke_NPP_NewStream_talks:
  assumes W: "\<not> w_direct_exec W" and st: "stream_at F st i" "host_streams F st = Some y"
    and a: "talks (np_inv M F) (instance_call R p RPC_METHOD_NPP_NEW_STREAM
      (np_instance p # offer mime i (offered_stream F y) seekable) stream_params) a b
      (Some (map (view_arg (np_view visualid)) (stream_answer (r, t, v)))) (np_inv M F)"
  shows "talks (np_inv M F) (invoke_NPP_NewStream W P R p mime st seekable t0) a b (r, t) (np_inv M (with_notify st y v F))"
proof -
  have "st \<noteq> 0" using st(1) by (simp add: stream_at_def)
  have store: "talks (np_inv M F) (store_notify_data st v) [] [] () (np_inv M (with_notify st y v F))"
  proof (rule talks_heap)
    fix s assume "np_inv M F s"
    then show "store_notify_data st v s = (Ok (), with_notify st y v s)"
      using st(2) \<open>st \<noteq> 0\<close> by (simp add: store_notify_data_def bind_op_def deref_def np_inv_host with_notify_def
          modify_state_def)
  qed simp
  have "talks (np_inv M F) (bind_op (instance_call R p RPC_METHOD_NPP_NEW_STREAM
      (np_instance p # offer mime i (offered_stream F y) seekable) stream_params) (\<lambda>r. case r of
        Some [a, b, c] \<Rightarrow> then_op (store_notify_data st (as_notify c)) (ret (ucast (as_int32 a), ucast (as_uint32 b)))
      | _ \<Rightarrow> ret (NPERR_FAILED, t0))) a b (r, t) (np_inv M (with_notify st y v F))"
    by (rule talks_bind_last [OF a])
      (simp add: stream_answer_def talks_then_quiet [OF store talks_ret])
  then have "talks (np_inv M F) (bind_op (stream_request p mime st seekable) (\<lambda>args.
      bind_op (instance_call R p RPC_METHOD_NPP_NEW_STREAM args stream_params) (\<lambda>r. case r of
        Some [a, b, c] \<Rightarrow> then_op (store_notify_data st (as_notify c)) (ret (ucast (as_int32 a), ucast (as_uint32 b)))
      | _ \<Rightarrow> ret (NPERR_FAILED, t0)))) a b (r, t) (np_inv M (with_notify st y v F))"
    by (rule talks_bind [OF stream_request_talks [OF st], simplified])
  then show ?thesis
    unfolding invoke_NPP_NewStream_def using W by simp
qed

lemma wrapper_NewStream_talks:
  assumes W: "\<not> w_direct_exec W" and H: "hash_table (hash E) tbl" "g_ids (ids F) \<noteq> None" "i = last_id (ids F) + 1"
    and st: "st \<noteq> 0" "np_streams F st = Some x" "host_streams F st = Some y" and d: "\<And>s. h_stream_addr A s = d" "d \<noteq> 0"
    and a: "talks (np_inv M (wrapper_names (hash E) i st d F)) (instance_call R p RPC_METHOD_NPP_NEW_STREAM
      (np_instance p # offer mime i (offered_stream F y) seekable) stream_params) a b
      (Some (map (view_arg (np_view visualid)) (stream_answer (r, t, v)))) (np_inv M (wrapper_names (hash E) i st d F))"
  shows "talks (np_inv M F) (bind_op (gets (h_stream_addr A)) (\<lambda>pdata.
      if pdata = 0 then ret (Np_Browser.NPERR_OUT_OF_MEMORY_ERROR, t0)
      else bind_op (gets (\<lambda>s. id_create (hash E) pdata (ids s))) (\<lambda>(i, t).
        then_op (modify_state (\<lambda>s. put_stream_instance pdata
          (Some \<lparr>si_stream = st, si_stream_id = i, si_is_plugin_stream = 0\<rparr>) (s\<lparr>ids := t\<rparr>)))
        (bind_op (deref np_streams st) (\<lambda>old.
         then_op (modify_state (put_stream st (Some pdata))) (invoke_NPP_NewStream W P R p mime st seekable t0)))))) a b (r, t)
    (np_inv M (with_notify st y v (wrapper_names (hash E) i st d F)))"
proof (rule talks_after)
  let ?F = "wrapper_names (hash E) i st d F"
  have "stream_at ?F st i" "host_streams ?F st = Some y"
    using wrapper_names_names(1) [OF H(1,2) st(1) d(2)] st(3) by simp_all
  moreover have "offered_stream ?F y = offered_stream F y" by (simp add: offered_stream_def)
  ultimately show "talks (np_inv M ?F) (invoke_NPP_NewStream W P R p mime st seekable t0) a b (r, t)
      (np_inv M (with_notify st y v ?F))"
    using invoke_NPP_NewStream_talks [OF W _ _ a [folded \<open>offered_stream ?F y = offered_stream F y\<close>]] by simp
  fix s assume "np_inv M F s"
  note s = np_inv_streams [OF this] np_inv_heap [OF this]
  show "bind_op (gets (h_stream_addr A)) (\<lambda>pdata.
      if pdata = 0 then ret (Np_Browser.NPERR_OUT_OF_MEMORY_ERROR, t0)
      else bind_op (gets (\<lambda>s. id_create (hash E) pdata (ids s))) (\<lambda>(i, t).
        then_op (modify_state (\<lambda>s. put_stream_instance pdata
          (Some \<lparr>si_stream = st, si_stream_id = i, si_is_plugin_stream = 0\<rparr>) (s\<lparr>ids := t\<rparr>)))
        (bind_op (deref np_streams st) (\<lambda>old.
         then_op (modify_state (put_stream st (Some pdata))) (invoke_NPP_NewStream W P R p mime st seekable t0))))) s =
      invoke_NPP_NewStream W P R p mime st seekable t0 (wrapper_names (hash E) i st d s)"
    using d st H(3) by (simp add: bind_op_def gets_apply then_op_def modify_state_def deref_def s id_create_def Let_def
        wrapper_names_def name_browser_stream_def put_stream_def put_stream_instance_def id_link_def)
qed simp

lemma ask_plugin_runs:
  assumes P: "npp \<noteq> 0" "p_newstream P = Some f" "\<And>s'. f npp mime st seekable 1 s' = (Ok (r, t), g s')"
    and y: "stream_data s st = Some y" "\<And>s' y. stream_data s' st = Some y \<Longrightarrow> stream_data (g s') st = Some (y\<lparr>st_notifyData := nd y\<rparr>)"
    and st: "st \<noteq> 0"
  shows "ask_plugin P mime st seekable npp s = (Ok (r, t, nd y), g s)"
  using P y(2) [OF y(1)] st by (simp add: ask_plugin_def viewer_NPP_NewStream_def if_supported_def bind_op_def deref_def ret_apply)

lemma viewer_NewStream_talks:
  assumes Rs: "Rs = np_rpc_env Es visualid ptr32 cm ce" and G: "status G \<noteq> RPC_STATUS_CLOSED" "q \<noteq> 0" "plugins G q = Some ql"
    and P: "pi_instance ql \<noteq> 0" "p_newstream P = Some f" "\<And>s'. f (pi_instance ql) mime st seekable 1 s' = (Ok (r, t), g s')"
    and nd: "\<And>s' y. stream_data s' st = Some y \<Longrightarrow> stream_data (g s') st = Some (y\<lparr>st_notifyData := nd y\<rparr>)"
    and g: "browser_step g" and st: "st \<noteq> 0" and v: "ptr32 \<Longrightarrow> hi32 (nd y) = 0"
  shows "talks (np_inv Ms (serving_state G))
    (then_op (modify_state (name_stream Es st d i y)) (on_npp (np_instance q) (\<lambda>npp.
       bind_op (ask_plugin P mime st seekable npp) (\<lambda>x. send_reply Rs (stream_answer x)))))
    [] (enc_answer (enc_list (enc_plain visualid (stream_answer (r, t, nd y))))) ()
    (np_inv Ms ((g (viewer_names (hash Es) i st d y G))
      \<lparr>dispatch_depth := dispatch_depth (g (viewer_names (hash Es) i st d y G)) + 1\<rparr>))"
proof (rule talks_then_quiet)
  let ?G = "viewer_names (hash Es) i st d y G"
  have "talks (np_inv Ms (serving_state G)) (modify_state (name_stream Es st d i y)) [] [] ()
      (np_inv Ms (viewer_names (hash Es) i st d y (serving_state G)))"
    by (rule talks_heap) (simp_all add: modify_state_def name_stream_alt)
  then show "talks (np_inv Ms (serving_state G)) (modify_state (name_stream Es st d i y)) [] [] () (np_inv Ms (serving_state ?G))"
    by (simp add: viewer_names_depths)
  show "talks (np_inv Ms (serving_state ?G)) (on_npp (np_instance q) (\<lambda>npp.
      bind_op (ask_plugin P mime st seekable npp) (\<lambda>x. send_reply Rs (stream_answer x))))
    [] (enc_answer (enc_list (enc_plain visualid (stream_answer (r, t, nd y))))) ()
    (np_inv Ms ((g ?G)\<lparr>dispatch_depth := dispatch_depth (g ?G) + 1\<rparr>))"
  proof (rule talks_plugin_handler [where f = "ask_plugin P mime st seekable" and rep = stream_answer and r = "(r, t, nd y)",
        OF Rs _ G(2) _ g _ _ _ refl])
    show "ask_plugin P mime st seekable (pi_instance ql) s' = (Ok (r, t, nd y), g s')"
      if "np_inv Ms (serving_state ?G) s'" for s'
      using np_inv_side(1) [OF that] by (intro ask_plugin_runs [OF P _ nd st]) simp_all
  qed (use G v in \<open>simp_all add: stream_answer_def int32_range_def\<close>)
qed

text \<open>
  C36. \<open>NPP_NewStream\<close> offers the plugin a stream of the browser: the wrapper names the browser's stream with a new
  identifier, the viewer makes a stream of its own under the same identifier with the browser's URL, end,
  date, notification data and, when the browser's table is recent enough, headers, and asks the plugin with
  it, the browser's MIME type and \<open>seekable\<close>. The plugin's answer and stream type are the browser's, and the notification data
  the plugin leaves in its stream become those of the browser's stream. Both processes keep the name,
  whatever the plugin answers. It is positive and was not in use in the wrapper's table, which stays well
  formed; every other identifier keeps its meaning in both processes.
\<close>

theorem NPP_NewStream_correct:
  assumes R: "Rc = np_rpc_env Ec visualid ptr32 cmc cec" "Rs = np_rpc_env Es visualid ptr32 cms ces"
    and H: "hash_table (hash Ec) tblc" "hash_table (hash Es) tbls" "can_name tblc (ids F)" "g_ids (ids G) \<noteq> None"
    and ready: "delivery_ready Es Mc Ms F G c s npp p pl q ql" and inst: "pi_instance ql \<noteq> 0"
    and handler: "Ms RPC_METHOD_NPP_NEW_STREAM = Some cb" "cms cb = handle_NPP_NewStream N P Es Rs"
    and browser: "\<not> w_direct_exec W" "st \<noteq> 0" "np_streams F st = Some x" "host_streams F st = Some y"
      "\<And>s. h_stream_addr A s = d" "d \<noteq> 0" "wf_string mime"
    and y: "wf_string (st_url y)" "wf_string (st_headers y)" "ptr32 \<Longrightarrow> hi32 (st_notifyData y) = 0 \<and> hi32 (nd (offered_stream F y)) = 0"
    and viewer: "new_stream_addr N = (\<lambda>_. st')" "new_instance_addr N = (\<lambda>_. d')" "st' \<noteq> 0" "d' \<noteq> 0"
    and plugin: "browser_step g" "p_newstream P = Some f"
      "\<And>s'. f (pi_instance ql) mime st' seekable 1 s' = (Ok (r, t), g s')"
      "\<And>s' y. stream_data s' st' = Some y \<Longrightarrow> stream_data (g s') st' = Some (y\<lparr>st_notifyData := nd y\<rparr>)"
  shows "\<exists>c' s' Fc G' i. exchange Rs RPC_METHOD_NPP_NEW_STREAM (g_NPP_NewStream A W P' Ec Rc npp mime st seekable t0) c s (r, t) c' s' \<and>
    np_inv Mc Fc c' \<and> stream_at Fc st i \<and> stream_named (hash Ec) Fc i st \<and>
      host_streams Fc st = Some (y\<lparr>st_notifyData := nd (offered_stream F y)\<rparr>) \<and> plugins Fc = plugins F \<and>
    np_inv Ms (g G') s' \<and> stream_at G' st' i \<and> stream_named (hash Es) G' i st' \<and>
      stream_data G' st' = Some (offered_stream F y) \<and> plugins G' = plugins G \<and>
    fresh_id tblc (ids F) i \<and> others_kept tblc i (ids F) (ids Fc) \<and> ids_ok tblc (ids Fc) \<and>
    others_kept tbls i (ids G) (ids G')"
proof -
  have named: "g_ids (ids F) \<noteq> None" using H(3) by (simp add: can_name_def)
  let ?y = "offered_stream F y" and ?i = "last_id (ids F) + 1"
  let ?F = "wrapper_names (hash Ec) ?i st d F" and ?G = "viewer_names (hash Es) ?i st' d' ?y G"
  let ?F' = "with_notify st y (nd ?y) ?F"
  have F: "serves_instance ?F npp p pl" "may_call ?F" and G: "status G \<noteq> RPC_STATUS_CLOSED" "q \<noteq> 0" "plugins G q = Some ql"
    using ready by (simp_all add: delivery_ready_def)
  have "\<exists>c' s'. exchange Rs RPC_METHOD_NPP_NEW_STREAM (g_NPP_NewStream A W P' Ec Rc npp mime st seekable t0) c s (r, t) c' s' \<and>
      np_inv Mc ?F' c' \<and> np_inv Ms (g ?G) s'"
    unfolding g_NPP_NewStream_def
  proof (rule delivery_plain [where as = "offer mime ?i ?y seekable" and rps = stream_params and
        rs = "stream_answer (r, t, nd ?y)", OF R ready F _ _ handler(1) _ _
          handler(2) [unfolded handle_NPP_NewStream_alt [OF viewer]]])
    show "talks (np_inv Ms (serving_state G))
      (case np_instance q # map (view_arg (np_view visualid)) (offer mime ?i ?y seekable) of
         [a1, a2, a3, a4, a5, a6, a7, a8, a9] \<Rightarrow>
           then_op (modify_state (name_stream Es st' d' (as_uint32 a3) \<lparr>st_url = as_string a4, st_end = as_uint32 a5,
               st_lastmodified = as_uint32 a6, st_notifyData = as_notify a7, st_headers = as_string a8\<rparr>))
             (on_npp a1 (\<lambda>npp. bind_op (ask_plugin P (as_string a2) st' (as_np_bool a9) npp) (\<lambda>x. send_reply Rs (stream_answer x))))
       | _ \<Rightarrow> misread) [] (enc_answer (enc_list (enc_plain visualid (stream_answer (r, t, nd ?y))))) ()
      (np_inv Ms ((g ?G)\<lparr>dispatch_depth := dispatch_depth (g ?G) + 1\<rparr>))"
      using viewer_NewStream_talks [where y = ?y and d = d' and i = ?i, OF R(2) G inst plugin(2-4,1) viewer(3)] y(3)
      by (simp add: offer_def stream_members as_np_bool_def)
    fix a b
    assume "talks (np_inv Mc ?F) (instance_call Rc p RPC_METHOD_NPP_NEW_STREAM (np_instance p # offer mime ?i ?y seekable)
        stream_params) a b (Some (map (view_arg (np_view visualid)) (stream_answer (r, t, nd ?y)))) (np_inv Mc ?F)"
    from wrapper_NewStream_talks [OF browser(1) H(1) named refl browser(2-6) this]
    show "talks (np_inv Mc F) (if w_direct_exec W then invoke_NPP_NewStream W P' Rc p mime st seekable t0
        else bind_op (gets (h_stream_addr A)) (\<lambda>pdata.
          if pdata = 0 then ret (Np_Browser.NPERR_OUT_OF_MEMORY_ERROR, t0)
          else bind_op (gets (\<lambda>s. id_create (hash Ec) pdata (ids s))) (\<lambda>(i, t).
            then_op (modify_state (\<lambda>s. put_stream_instance pdata
              (Some \<lparr>si_stream = st, si_stream_id = i, si_is_plugin_stream = 0\<rparr>) (s\<lparr>ids := t\<rparr>)))
            (bind_op (deref np_streams st) (\<lambda>old.
             then_op (modify_state (put_stream st (Some pdata))) (invoke_NPP_NewStream W P' Rc p mime st seekable t0)))))) a b (r, t)
      (np_inv Mc ?F')" using browser(1) by simp
  qed (use y browser(7) in \<open>auto simp: offer_def stream_answer_def offered_stream_def int32_range_def wf_string_def\<close>)
  moreover have "stream_at ?F' st ?i" "stream_named (hash Ec) ?F' ?i st" "host_streams ?F' st = Some (y\<lparr>st_notifyData := nd ?y\<rparr>)"
    "plugins ?F' = plugins F"
    using wrapper_names_names [OF H(1) named browser(2,6)]
    by (simp_all add: with_notify_def stream_at_def stream_named_def)
      (simp add: wrapper_names_def)
  moreover note viewer_names_names [OF H(2,4) viewer(3,4), of ?i ?y]
  moreover have "fresh_id tblc (ids F) ?i" "others_kept tblc ?i (ids F) (ids ?F')" "ids_ok tblc (ids ?F')"
    "others_kept tbls ?i (ids G) (ids ?G)"
    using created_name [OF H(1,3)] linked_name [OF H(2,4)]
    by (simp_all add: with_notify_def wrapper_names_def viewer_names_def name_browser_stream_def link_stream_def
        put_stream_def put_stream_instance_def)
  ultimately show ?thesis by (metis names_fields(1,5))
qed

subsection \<open>The end of a stream\<close>

lemma plugin_frees_step: "browser_step g \<Longrightarrow> browser_step (\<lambda>s. plugin_frees H i st d (g s))"
proof -
  assume g: "browser_step g"
  have "heap_only (plugin_frees H i st d)"
    by (auto intro!: heap_onlyI simp: frame_def plugin_frees_def drop_stream_def put_stream_def put_stream_instance_def
        rpc_connection.defs)
  from heap_only_comp [OF this] g have "heap_only (\<lambda>s. plugin_frees H i st d (g s))"
    unfolding browser_step_def by blast
  with g show ?thesis
    by (simp add: browser_step_def) (simp add: plugin_frees_def drop_stream_def put_stream_def put_stream_instance_def)
qed

lemma viewer_DestroyStream_runs:
  assumes g: "browser_step g" and P: "npp \<noteq> 0" "p_destroystream P = Some f" "\<And>s'. f npp st reason s' = (Ok r, g s')"
    and st: "stream_at (g G) st i" "np_streams (g G) st = Some d" and s: "np_inv M (serving_state G) s"
  shows "viewer_NPP_DestroyStream P E npp st reason s = (Ok r, plugin_frees (hash E) i st d (g s))"
proof -
  note inv = np_inv_streams [OF browser_step_inv [OF g s]]
  obtain si where "st \<noteq> 0" "d \<noteq> 0" "np_streams (g s) st = Some d" "stream_instances (g s) d = Some si" "si_stream_id si = i"
    using st by (auto simp: stream_at_def inv)
  then show ?thesis
    using P by (simp add: viewer_NPP_DestroyStream_def if_supported_def bind_op_def then_op_def free_stream_def deref_def
        modify_state_def ret_apply plugin_frees_def drop_stream_def put_stream_def put_stream_instance_def)
qed

lemma forget_stream_talks:
  assumes "stream_at F st i" "np_streams F st = Some d"
  shows "talks (np_inv M F) (forget_stream E st) [] [] () (np_inv M (drop_stream (hash E) i st d (Some 0) F))"
proof (rule talks_heap)
  show "heap_only (drop_stream (hash E) i st d (Some 0))"
    by (auto intro!: heap_onlyI simp: frame_def drop_stream_def put_stream_def put_stream_instance_def rpc_connection.defs)
  fix s assume "np_inv M F s"
  note s = np_inv_streams [OF this]
  show "forget_stream E st s = (Ok (), drop_stream (hash E) i st d (Some 0) s)"
    using assms by (auto simp: stream_at_def forget_stream_def bind_op_def deref_def s modify_state_def drop_stream_def
        put_stream_def put_stream_instance_def)
qed

text \<open>
  C37. \<open>NPP_DestroyStream\<close> ends a stream of the browser in both processes: the plugin's function is called with the
  viewer's stream of the same identifier and the browser's reason, and its answer is the browser's result;
  then, whatever that is, the viewer frees its stream and the identifier, and the wrapper frees the stream
  instance and the identifier and clears the browser's stream. Every other identifier keeps its meaning.
\<close>

theorem NPP_DestroyStream_correct:
  assumes R: "Rc = np_rpc_env Ec visualid ptr32 cmc cec" "Rs = np_rpc_env Es visualid ptr32 cms ces"
    and H: "hash_table (hash Ec) tblc" "hash_table (hash Es) tbls"
    and ready: "delivery_ready Es Mc Ms F G c s npp p pl q ql" and inst: "pi_instance ql \<noteq> 0"
    and handler: "Ms RPC_METHOD_NPP_DESTROY_STREAM = Some cb" "cms cb = handle_NPP_DestroyStream P Es Rs"
    and stream: "stream_at F st i" "np_streams F st = Some d" "stream_named (hash Es) G i st'" and direct: "\<not> w_direct_exec W"
    and plugin: "browser_step g" "p_destroystream P = Some f"
      "\<And>s'. f (pi_instance ql) st' reason s' = (Ok r, g s')" "stream_at (g G) st' i" "np_streams (g G) st' = Some d'"
  shows "\<exists>c' s' Fc Gs. exchange Rs RPC_METHOD_NPP_DESTROY_STREAM (g_NPP_DestroyStream W P' Ec Rc npp st reason) c s r c' s' \<and>
    np_inv Mc Fc c' \<and> id_lookup (hash Ec) i (ids Fc) = 0 \<and> np_streams Fc st = Some 0 \<and> stream_instances Fc d = None \<and>
      plugins Fc = plugins F \<and>
    np_inv Ms Gs s' \<and> id_lookup (hash Es) i (ids Gs) = 0 \<and> np_streams Gs st' = None \<and> stream_instances Gs d' = None \<and>
      stream_data Gs st' = None \<and> plugins Gs = plugins (g G) \<and>
    others_kept tblc i (ids F) (ids Fc) \<and> others_kept tbls i (ids (g G)) (ids Gs)"
proof -
  let ?F = "drop_stream (hash Ec) i st d (Some 0) F" and ?g = "\<lambda>s. plugin_frees (hash Es) i st' d' (g s)"
  have F: "serves_instance F npp p pl" "may_call F" and G: "status G \<noteq> RPC_STATUS_CLOSED" "q \<noteq> 0" "plugins G q = Some ql"
    using ready by (simp_all add: delivery_ready_def)
  have pass: "passes Ec Es visualid ptr32 (F\<lparr>invoke_depth := invoke_depth F + 1\<rparr>) (serving_state G) RPC_TYPE_NP_STREAM
      (NV_stream st) (htonl i) (NV_stream st')"
    using stream by (intro passes_stream) simp_all
  have "\<exists>c' s'. exchange Rs RPC_METHOD_NPP_DESTROY_STREAM (g_NPP_DestroyStream W P' Ec Rc npp st reason) c s r c' s' \<and>
      np_inv Mc ?F c' \<and> np_inv Ms (?g G) s'"
    unfolding g_NPP_DestroyStream_def
  proof (rule delivery_stream [where as = "[Int32 (scast reason)]" and ps = "[P_type RPC_TYPE_INT32]" and
        rps = "[P_type RPC_TYPE_INT32]" and rs = "[error_arg r]",
        OF R ready F pass _ _ handler(1) _ _ handler(2) [unfolded handle_NPP_DestroyStream_def]])
    show "talks (np_inv Ms (serving_state G))
      (case np_instance q # np_stream st' # map (view_arg (np_view visualid)) [Int32 (scast reason)] of
         [a1, a2, a3] \<Rightarrow> on_npp a1 (\<lambda>npp.
           bind_op (viewer_NPP_DestroyStream P Es npp (as_stream a2) (ucast (as_int32 a3))) (\<lambda>r. send_reply Rs [error_arg r]))
       | _ \<Rightarrow> misread) [] (enc_answer (enc_list (enc_plain visualid [error_arg r]))) ()
      (np_inv Ms ((?g G)\<lparr>dispatch_depth := dispatch_depth (?g G) + 1\<rparr>))"
    proof (rule talks_plugin_handler [where f = "\<lambda>npp. viewer_NPP_DestroyStream P Es npp st' reason" and
          rep = "\<lambda>r. [error_arg r]" and r = r, OF R(2) G plugin_frees_step [OF plugin(1)]])
      show "viewer_NPP_DestroyStream P Es (pi_instance ql) st' reason s' = (Ok r, ?g s')" if "np_inv Ms (serving_state G) s'" for s'
        by (rule viewer_DestroyStream_runs [OF plugin(1) inst plugin(2-5) that])
    qed simp_all
    fix a b
    assume "talks (np_inv Mc F) (instance_call Rc p RPC_METHOD_NPP_DESTROY_STREAM (np_instance p # np_stream st #
        [Int32 (scast reason)]) [P_type RPC_TYPE_INT32]) a b (Some (map (view_arg (np_view visualid)) [error_arg r])) (np_inv Mc F)"
    from talks_bind_last [OF this, where f = "\<lambda>r. ret (answer_error r)" and y = r and ?J2.0 = "np_inv Mc F"]
    have "talks (np_inv Mc F) (invoke_NPP_DestroyStream W P' Rc p st reason) a b r (np_inv Mc F)"
      using direct by (simp add: invoke_NPP_DestroyStream_def answer_error_def talks_ret)
    from talks_bind_last [OF this talks_then_quiet [OF forget_stream_talks [OF stream(1,2)] talks_ret]]
    show "talks (np_inv Mc F) (bind_op (invoke_NPP_DestroyStream W P' Rc p st reason) (\<lambda>r.
        then_op (if w_direct_exec W then ret () else forget_stream Ec st) (ret r))) a b r (np_inv Mc ?F)"
      using direct by simp
  qed (simp_all add: int32_range_def)
  moreover note drop_stream_forgets [OF H(1), of i st d "Some 0" F] drop_stream_plugins [of "hash Ec" i st d "Some 0" F]
  moreover have "id_lookup (hash Es) i (ids (?g G)) = 0" "np_streams (?g G) st' = None" "stream_instances (?g G) d' = None"
    "plugins (?g G) = plugins (g G)"
    using drop_stream_forgets [OF H(2)] by (simp_all add: plugin_frees_def)
  moreover have "stream_data (?g G) st' = None"
    by (simp add: plugin_frees_def drop_stream_def put_stream_def put_stream_instance_def)
  moreover have "others_kept tblc i (ids F) (ids ?F)" "others_kept tbls i (ids (g G)) (ids (?g G))"
    using removed_name [OF H(1)] removed_name [OF H(2)]
    by (simp_all add: plugin_frees_def drop_stream_def put_stream_def put_stream_instance_def)
  ultimately show ?thesis by blast
qed

subsection \<open>A wrapper and a viewer\<close>

definition sample_host_members where
  "sample_host_members = \<lparr>g_plugin = \<lparr>initialized = 1, viewer_pid = 0, is_wrapper = False, info = no_info\<rparr>,
     plugin_killed = False, last_restart = 0, npapi_version = 0, plugin_file_name = None, init_count = 0, master = 1,
     focus = 1, next_connection = 2, parked = (\<lambda>_. None), g_rpc_source = None, g_rpc_sync_source = None,
     xt_rpc_source_id = False, xt_rpc_sync_id = False, child_exits = [], viewer_log = [],
     mozilla_funcs = \<lparr>nf_size = 0, nf_version = 27, nf_members = (\<lambda>_. 1)\<rparr>,
     inst_connection = (\<lambda>_. 1), native_instance = (\<lambda>_. 0), host_streams = [32 \<mapsto> \<lparr>st_url = Some [117], st_end = 5,
       st_lastmodified = 0, st_notifyData = 7, st_headers = None\<rparr>]\<rparr>"

definition sample_side_members where
  "sample_side_members = \<lparr>stream_data = (\<lambda>_. None), g_user_agent = None, browser_toplevel = (\<lambda>_. 0), timers = (\<lambda>_. None), next_timer_id = (\<lambda>_. 1), timer_heap = (\<lambda>_. None),
     main_sources = (\<lambda>_. None), use_xembed = (\<lambda>_. False), is_windowless = (\<lambda>_. False), inst_window = (\<lambda>_. no_window),
     size_hint = (\<lambda>_. (0, 0)), toolkit_data = (\<lambda>_. None), xt_source = False, xt_source_count = 0, browser_has = (\<lambda>_. False),
     g_is_running = True\<rparr>"

definition sample_host :: "(cptr \<times> cptr) list npp_host" where
  "sample_host = frame (np_process.extend empty_process sample_host_members)"

definition sample_viewer :: "(cptr \<times> cptr) list npp_side" where
  "sample_viewer = frame (np_process.extend empty_process sample_side_members)"


lemma extended_exists:
  obtains s :: "((cptr \<times> cptr) list, 'z) np_process_scheme" where "calm s"
    "np_inv [mid \<mapsto> 70] (with_instance npp p st d (frame (np_process.extend empty_process x))) s" "tx_wire s = []"
proof -
  obtain s0 :: "(cptr \<times> cptr) list np_process" where s0: "calm s0" "np_inv [mid \<mapsto> 70] (frame empty_process) s0"
    "tx_wire s0 = []"
    by (rule np_server_exists)
  let ?s = "np_process.extend s0 x" and ?F = "frame (np_process.extend empty_process x)"
  have "frame s0 = frame empty_process" using s0(2) by (simp add: conn_inv_def)
  then have "frame ?s = ?F" by (simp add: frame_extend)
  then have s: "np_inv [mid \<mapsto> 70] ?F ?s"
    using s0(2) by (simp add: np_process.defs conn_inv_def alloc_ok_def types_are_def methods_are_def)
  have "heap_only (with_instance npp p st d :: ((cptr \<times> cptr) list, 'z) np_process_scheme \<Rightarrow> _)"
    by (auto intro!: heap_onlyI simp: frame_def with_instance_def rpc_connection.defs)
  from conn_inv_heap [OF this s] s0(1,3) show thesis
    by (intro that [of "with_instance npp p st d ?s"]) (simp_all add: with_instance_def np_process.defs calm_def)
qed

lemma extended_facts:
  "may_call (with_instance npp p st d (frame (np_process.extend empty_process x)))"
  "status (with_instance npp p st d (frame (np_process.extend empty_process x))) = RPC_STATUS_ACTIVE"
  by (simp_all add: with_instance_def may_call_def frame_def empty_process_def np_process.defs
      rpc_connection.defs sample_defs connect_first)

abbreviation "host_F \<equiv> with_instance 64 128 32 48 sample_host"
abbreviation "viewer_G \<equiv> with_instance 512 256 800 816 sample_viewer"

lemma delivery_ready_exists:
  obtains c :: "(cptr \<times> cptr) list npp_host" and s :: "(cptr \<times> cptr) list npp_side" where
    "delivery_ready (side_env True) [mid \<mapsto> 70] [mid \<mapsto> 70] host_F viewer_G c s 64 128 (sample_instance 64) 256
      (sample_instance 512)"
proof -
  obtain c :: "(cptr \<times> cptr) list npp_host" where
    c: "calm c" "np_inv [mid \<mapsto> 70] host_F c" "tx_wire c = []" unfolding sample_host_def by (rule extended_exists)
  obtain s :: "(cptr \<times> cptr) list npp_side" where
    s: "calm s" "np_inv [mid \<mapsto> 70] viewer_G s" "tx_wire s = []" unfolding sample_viewer_def by (rule extended_exists)
  have st: "may_call host_F" "status viewer_G \<noteq> RPC_STATUS_CLOSED"
    by (simp_all add: sample_host_def sample_viewer_def extended_facts)
  have "serves_instance host_F 64 128 (sample_instance 64)"
    by (simp add: serves_instance_def with_instance_def sample_instance_def sample_host_def sample_host_members_def
        frame_def np_process.defs)
  with c s st show thesis
    by (intro that [of c s]) (simp add: delivery_ready_def, simp add: with_instance_def sample_instance_def side_env_def
        id_lookup_def alist_hash_def tab_lookup_def id_key_def)
qed


definition sample_world :: "(cptr \<times> cptr) list npp_host wrapper_env" where
  "sample_world = \<lparr>w_plugin_path = [47, 108, 47, 112], w_default_path = [47], w_connection_path = [47], w_direct_exec = False,
     w_malloc = (\<lambda>_. True), w_popen = (\<lambda>_. Some []), w_getpid = 7, w_random = (\<lambda>_. 3), w_fork = (\<lambda>_. 8), w_init_timeout = 5,
     w_connect = (\<lambda>_ _. None), w_os = (\<lambda>_. sample_os), w_time = (\<lambda>_. 0), w_toolkit = (\<lambda>_. 2),
     w_xt_context = (\<lambda>_. False), w_is_konqueror = (\<lambda>_. False), w_name = [], w_description = [],
     n_getvalue = (\<lambda>_. ret (0, None)), n_getmimedescription = ret None, n_initialize = ret (0, 0), n_shutdown = ret 0\<rparr>"

text \<open>A plugin that takes every stream, all bytes of it, and its windows.\<close>

definition taking_plugin :: "'s npp_funcs" where
  "taking_plugin = \<lparr>p_NP_GetMIMEDescription = None, p_NP_GetValue = None, p_NP_Initialize = None, p_NP_Shutdown = None,
     p_newp = None, p_destroy = None, p_setwindow = Some (\<lambda>_ _. ret 0), p_newstream = Some (\<lambda>_ _ _ _ t. ret (0, t)),
     p_destroystream = Some (\<lambda>_ _ _. ret 0), p_asfile = None, p_writeready = None, p_write = Some (\<lambda>_ _ _ n _. ret n),
     p_print = None, p_event = None, p_urlnotify = None, p_getvalue = None, p_has_setvalue = False, p_clearsitedata = None,
     p_getsiteswithdata = None, p_npp_addr = (\<lambda>_. 0), p_class = 0, p_tmpfile = (\<lambda>_. False), p_printer = 0,
     p_invalidate = (\<lambda>_. None)\<rparr>"

lemma sample_world_facts [simp]: "\<not> w_direct_exec sample_world"
  by (simp add: sample_world_def)

lemma streams_there:
  assumes "st \<noteq> 0" "d \<noteq> 0"
  shows "stream_at (with_instance npp p st d s) st 2" "stream_named (hash (side_env b)) (with_instance npp p st d s) 2 st"
  using assms by (simp_all add: stream_at_def stream_named_def with_instance_def side_env_def id_lookup_def alist_hash_def
      tab_lookup_def id_key_def)

theorem NPP_Write_correct_witness:
  "\<exists>(c :: (cptr \<times> cptr) list npp_host) (s :: (cptr \<times> cptr) list npp_side)
      (Rc :: ((cptr \<times> cptr) list npp_host, np_value) rpc_env) (Rs :: ((cptr \<times> cptr) list npp_side, np_value) rpc_env) c' s'.
     exchange Rs RPC_METHOD_NPP_WRITE (g_NPP_Write sample_world taking_plugin (side_env False) Rc 64 32 0 2 (Some [98, 99]))
       c s 2 c' s'"
proof -
  let ?Ec = "side_env False :: ((cptr \<times> cptr) list npp_host, (cptr \<times> cptr) list) npv_env" and
    ?Es = "side_env True :: ((cptr \<times> cptr) list npp_side, (cptr \<times> cptr) list) npv_env"
  let ?P = "taking_plugin :: (cptr \<times> cptr) list npp_side npp_funcs"
  obtain c :: "(cptr \<times> cptr) list npp_host" and s :: "(cptr \<times> cptr) list npp_side" where ready: "delivery_ready ?Es
    [RPC_METHOD_NPP_WRITE \<mapsto> 70] [RPC_METHOD_NPP_WRITE \<mapsto> 70] host_F viewer_G c s 64 128 (sample_instance 64) 256
    (sample_instance 512)"
    by (rule delivery_ready_exists)
  let ?ce = "\<lambda>_ _. ret ()" and ?v = "\<lambda>_. 0"
  let ?cm = "\<lambda>_. handle_NPP_Write ?P (np_rpc_env ?Es ?v False (\<lambda>_. ret 0) ?ce)"
  let ?Rs = "np_rpc_env ?Es ?v False ?cm ?ce" and ?Rc = "np_rpc_env ?Ec ?v False (\<lambda>_. ret 0) ?ce"
  have handler: "?cm 70 = handle_NPP_Write ?P ?Rs"
    unfolding np_rpc_env_call_method [of ?Es ?v False ?cm ?ce "\<lambda>_. ret 0"]
    by (simp only: handle_NPP_Write_def call_method_irrelevant)
  have "\<exists>c' s'. exchange ?Rs RPC_METHOD_NPP_WRITE (g_NPP_Write sample_world taking_plugin ?Ec ?Rc 64 32 0 2
      (Some [98, 99])) c s 2 c' s' \<and>
    np_inv [RPC_METHOD_NPP_WRITE \<mapsto> 70] host_F c' \<and> np_inv [RPC_METHOD_NPP_WRITE \<mapsto> 70] viewer_G s'"
    by (rule NPP_Write_correct [where g = "\<lambda>s'. s'" and cms = ?cm and P = ?P, OF refl refl ready _ _ handler
          streams_there(1) streams_there(2)])
      (simp_all add: taking_plugin_def ret_apply sample_instance_def)
  then show ?thesis by blast
qed


definition sample_gui :: "(cptr \<times> cptr) list npp_host host_env" where
  "sample_gui = \<lparr>h_class = 0, h_native_addr = (\<lambda>_. 0), h_stream_addr = (\<lambda>_. 4000), h_can_alloc = (\<lambda>_ _. True),
     h_flush = (\<lambda>_. ret ()), h_ungrab = (\<lambda>_ _. ret ())\<rparr>"

definition viewer_requests :: "(cptr \<times> cptr) list npp_side request_env" where
  "viewer_requests = \<lparr>main_thread = True, x_display = 0, xt_app_context = (\<lambda>_. 0), viewer_toolkit = 2,
     gdk_window_foreign_new = (\<lambda>_. 0), gdk_window_xwindow = (\<lambda>_. 0), can_alloc = (\<lambda>_ _. True),
     new_stream_addr = (\<lambda>_. 1024), new_instance_addr = (\<lambda>_. 2048)\<rparr>"

lemma sample_sides:
  "hash_table (hash (side_env b)) map_of" "g_ids (ids (with_instance npp p st d s)) \<noteq> None"
  "np_streams (with_instance npp p st d s) st = Some d"
  using alist.hash_table_axioms by (simp_all add: side_env_def with_instance_def)

lemma host_F_stream: "host_streams host_F 32 = Some \<lparr>st_url = Some [117], st_end = 5, st_lastmodified = 0,
    st_notifyData = 7, st_headers = None\<rparr>"
  by (simp add: with_instance_def sample_host_def frame_def np_process.defs sample_host_members_def)

theorem NPP_NewStream_correct_witness:
  "\<exists>(c :: (cptr \<times> cptr) list npp_host) (s :: (cptr \<times> cptr) list npp_side)
      (Rc :: ((cptr \<times> cptr) list npp_host, np_value) rpc_env) (Rs :: ((cptr \<times> cptr) list npp_side, np_value) rpc_env) c' s'
      (G' :: (cptr \<times> cptr) list npp_side).
     exchange Rs RPC_METHOD_NPP_NEW_STREAM (g_NPP_NewStream sample_gui sample_world taking_plugin (side_env False) Rc 64
       (Some [109]) 32 0 1) c s (0, 1) c' s' \<and> np_inv [RPC_METHOD_NPP_NEW_STREAM \<mapsto> 70] G' s' \<and> stream_data G' 1024 \<noteq> None"
proof -
  let ?Ec = "side_env False :: ((cptr \<times> cptr) list npp_host, (cptr \<times> cptr) list) npv_env" and
    ?Es = "side_env True :: ((cptr \<times> cptr) list npp_side, (cptr \<times> cptr) list) npv_env"
  let ?P = "taking_plugin :: (cptr \<times> cptr) list npp_side npp_funcs"
  obtain c :: "(cptr \<times> cptr) list npp_host" and s :: "(cptr \<times> cptr) list npp_side" where ready: "delivery_ready ?Es
    [RPC_METHOD_NPP_NEW_STREAM \<mapsto> 70] [RPC_METHOD_NPP_NEW_STREAM \<mapsto> 70] host_F viewer_G c s 64 128 (sample_instance 64) 256
    (sample_instance 512)"
    by (rule delivery_ready_exists)
  let ?ce = "\<lambda>_ _. ret ()" and ?v = "\<lambda>_. 0"
  let ?cm = "\<lambda>_. handle_NPP_NewStream viewer_requests ?P ?Es (np_rpc_env ?Es ?v False (\<lambda>_. ret 0) ?ce)"
  let ?Rs = "np_rpc_env ?Es ?v False ?cm ?ce" and ?Rc = "np_rpc_env ?Ec ?v False (\<lambda>_. ret 0) ?ce"
  have handler: "?cm 70 = handle_NPP_NewStream viewer_requests ?P ?Es ?Rs"
    unfolding np_rpc_env_call_method [of ?Es ?v False ?cm ?ce "\<lambda>_. ret 0"]
    by (simp only: handle_NPP_NewStream_def call_method_irrelevant)
  let ?y = "\<lparr>st_url = Some [117], st_end = 5, st_lastmodified = 0, st_notifyData = 7, st_headers = None\<rparr>"
  have named: "can_name map_of (ids host_F)"
    by (simp add: with_instance_def two_names)
  have "\<exists>c' s' Fc G' i. exchange ?Rs RPC_METHOD_NPP_NEW_STREAM (g_NPP_NewStream sample_gui sample_world taking_plugin ?Ec ?Rc 64
      (Some [109]) 32 0 1) c s (0, 1) c' s' \<and>
    np_inv [RPC_METHOD_NPP_NEW_STREAM \<mapsto> 70] Fc c' \<and> stream_at Fc 32 i \<and> stream_named (hash ?Ec) Fc i 32 \<and>
      host_streams Fc 32 = Some (?y\<lparr>st_notifyData := st_notifyData (offered_stream host_F ?y)\<rparr>) \<and> plugins Fc = plugins host_F \<and>
    np_inv [RPC_METHOD_NPP_NEW_STREAM \<mapsto> 70] G' s' \<and> stream_at G' 1024 i \<and> stream_named (hash ?Es) G' i 1024 \<and>
      stream_data G' 1024 = Some (offered_stream host_F ?y) \<and> plugins G' = plugins viewer_G \<and>
    fresh_id map_of (ids host_F) i \<and> others_kept map_of i (ids host_F) (ids Fc) \<and> ids_ok map_of (ids Fc) \<and>
    others_kept map_of i (ids viewer_G) (ids G')"
    by (rule NPP_NewStream_correct [where g = "\<lambda>s'. s'" and cms = ?cm and P = ?P and N = viewer_requests and nd = st_notifyData and
          f = "the (p_newstream ?P)" and d = 4000 and d' = 2048, OF refl refl sample_sides(1) sample_sides(1) named sample_sides(2) ready _ _ handler
          sample_world_facts _ sample_sides(3) host_F_stream])
      (simp_all add: taking_plugin_def sample_instance_def sample_gui_def viewer_requests_def ret_apply wf_string_def)
  then show ?thesis by blast
qed

theorem NPP_DestroyStream_correct_witness:
  "\<exists>(c :: (cptr \<times> cptr) list npp_host) (s :: (cptr \<times> cptr) list npp_side)
      (Rc :: ((cptr \<times> cptr) list npp_host, np_value) rpc_env) (Rs :: ((cptr \<times> cptr) list npp_side, np_value) rpc_env) c' s'
      (Fc :: (cptr \<times> cptr) list npp_host).
     exchange Rs RPC_METHOD_NPP_DESTROY_STREAM (g_NPP_DestroyStream sample_world taking_plugin (side_env False) Rc 64 32 1)
       c s 0 c' s' \<and> np_inv [RPC_METHOD_NPP_DESTROY_STREAM \<mapsto> 70] Fc c' \<and> np_streams Fc 32 = Some 0"
proof -
  let ?Ec = "side_env False :: ((cptr \<times> cptr) list npp_host, (cptr \<times> cptr) list) npv_env" and
    ?Es = "side_env True :: ((cptr \<times> cptr) list npp_side, (cptr \<times> cptr) list) npv_env"
  let ?P = "taking_plugin :: (cptr \<times> cptr) list npp_side npp_funcs"
  obtain c :: "(cptr \<times> cptr) list npp_host" and s :: "(cptr \<times> cptr) list npp_side" where ready: "delivery_ready ?Es
    [RPC_METHOD_NPP_DESTROY_STREAM \<mapsto> 70] [RPC_METHOD_NPP_DESTROY_STREAM \<mapsto> 70] host_F viewer_G c s 64 128 (sample_instance 64) 256
    (sample_instance 512)"
    by (rule delivery_ready_exists)
  let ?ce = "\<lambda>_ _. ret ()" and ?v = "\<lambda>_. 0"
  let ?cm = "\<lambda>_. handle_NPP_DestroyStream ?P ?Es (np_rpc_env ?Es ?v False (\<lambda>_. ret 0) ?ce)"
  let ?Rs = "np_rpc_env ?Es ?v False ?cm ?ce" and ?Rc = "np_rpc_env ?Ec ?v False (\<lambda>_. ret 0) ?ce"
  have handler: "?cm 70 = handle_NPP_DestroyStream ?P ?Es ?Rs"
    unfolding np_rpc_env_call_method [of ?Es ?v False ?cm ?ce "\<lambda>_. ret 0"]
    by (simp only: handle_NPP_DestroyStream_def call_method_irrelevant)
  have "\<exists>c' s' Fc Gs. exchange ?Rs RPC_METHOD_NPP_DESTROY_STREAM (g_NPP_DestroyStream sample_world taking_plugin ?Ec ?Rc 64 32 1)
      c s 0 c' s' \<and>
    np_inv [RPC_METHOD_NPP_DESTROY_STREAM \<mapsto> 70] Fc c' \<and> id_lookup (hash ?Ec) 2 (ids Fc) = 0 \<and> np_streams Fc 32 = Some 0 \<and>
      stream_instances Fc 48 = None \<and> plugins Fc = plugins host_F \<and>
    np_inv [RPC_METHOD_NPP_DESTROY_STREAM \<mapsto> 70] Gs s' \<and> id_lookup (hash ?Es) 2 (ids Gs) = 0 \<and> np_streams Gs 800 = None \<and>
      stream_instances Gs 816 = None \<and> stream_data Gs 800 = None \<and> plugins Gs = plugins viewer_G \<and>
    others_kept map_of 2 (ids host_F) (ids Fc) \<and> others_kept map_of 2 (ids viewer_G) (ids Gs)"
    by (rule NPP_DestroyStream_correct [where g = "\<lambda>s'. s'" and cms = ?cm and P = ?P and f = "the (p_destroystream ?P)",
          OF refl refl sample_sides(1) sample_sides(1) ready _ _ handler streams_there(1) sample_sides(3) streams_there(2) sample_world_facts])
      (simp_all add: taking_plugin_def sample_instance_def ret_apply streams_there sample_sides)
  then show ?thesis by blast
qed

end
