(* ===== verification/Npp_Windows.thy ===== *)
theory Npp_Windows
  imports Npp_Streams
begin

text \<open>
  The window of an instance over a sequence of \<open>NPP_SetWindow\<close> calls: what the viewer keeps of it, and the
  sequences that abort the viewer.
\<close>

subsection \<open>Runs\<close>

text \<open>A run that returns, in a state that satisfies \<open>Q\<close>.\<close>

definition ends_in :: "('s, 'a) op \<Rightarrow> 's \<Rightarrow> ('a \<Rightarrow> 's \<Rightarrow> bool) \<Rightarrow> bool" where
  "ends_in m s Q \<longleftrightarrow> (\<exists>x s'. m s = (Ok x, s') \<and> Q x s')"

lemma ends_in_ret [simp]: "ends_in (ret x) s Q \<longleftrightarrow> Q x s"
  by (simp add: ends_in_def ret_apply)

lemma ends_in_gets [simp]: "ends_in (gets f) s Q \<longleftrightarrow> Q (f s) s"
  by (simp add: ends_in_def gets_apply)

lemma ends_in_modify [simp]: "ends_in (modify_state f) s Q \<longleftrightarrow> Q () (f s)"
  by (simp add: ends_in_def modify_state_def)

lemma ends_in_bind [simp]: "ends_in (bind_op m f) s Q \<longleftrightarrow> ends_in m s (\<lambda>x s'. ends_in (f x) s' Q)"
  by (auto simp: ends_in_def bind_op_def split: prod.split res.split)

lemma ends_in_then [simp]: "ends_in (then_op m n) s Q \<longleftrightarrow> ends_in m s (\<lambda>x s'. ends_in n s' Q)"
  by (simp add: then_op_def)

lemma ends_in_assert [simp]: "ends_in (assert_op b) s Q \<longleftrightarrow> b \<and> Q () s"
  by (simp add: ends_in_def assert_op_def ret_apply crash_def)

lemma ends_in_deref: "p \<noteq> 0 \<Longrightarrow> f s p = Some x \<Longrightarrow> ends_in (deref f p) s Q \<longleftrightarrow> Q x s"
  by (simp add: ends_in_def deref_def)

lemma ends_in_live: "live_instance s npp p pl \<Longrightarrow> ends_in (npw_get_plugin_instance E npp) s Q \<longleftrightarrow> Q p s"
  by (simp add: live_instance_def npw_get_plugin_instance_def npw_get_plugin_instance_1_def ends_in_deref)

lemma ends_in_mono: "ends_in m s P \<Longrightarrow> (\<And>x s'. P x s' \<Longrightarrow> Q x s') \<Longrightarrow> ends_in m s Q"
  by (auto simp: ends_in_def)


subsection \<open>The window system\<close>

definition same_instance :: "cptr \<Rightarrow> ('h, 'z) npp_side_scheme \<Rightarrow> ('h, 'z) npp_side_scheme \<Rightarrow> bool" where
  "same_instance p s s' \<longleftrightarrow> plugins s' = plugins s \<and> npps s' = npps s \<and> is_windowless s' p = is_windowless s p"

text \<open>An operation that returns and leaves the windows of \<open>p\<close> alone.\<close>

definition steady_window :: "cptr \<Rightarrow> (('h, 'z) npp_side_scheme, 'a) op \<Rightarrow> bool" where
  "steady_window p m \<longleftrightarrow> (\<forall>s. ends_in m s (\<lambda>_ s'. same_instance p s s' \<and> inst_window s' p = inst_window s p \<and>
     toolkit_data s' p = toolkit_data s p))"

text \<open>A toolkit that makes, resizes and destroys widgets without touching the viewer's data, and enough memory.\<close>

definition obliging :: "('h, 'z) npp_side_scheme toolkit_env \<Rightarrow> cptr \<Rightarrow> bool" where
  "obliging X p \<longleftrightarrow> (\<forall>s. ws_memory X s \<and> toolkit_memory X s) \<and> (\<forall>a b c. steady_window p (new_gtk X a b c)) \<and>
     (\<forall>w ws. steady_window p (new_xt X w ws)) \<and> (\<forall>a b c. steady_window p (XtResizeWidget X a b c)) \<and>
     (\<forall>a. steady_window p (destroy_gtk X a)) \<and> (\<forall>a. steady_window p (destroy_xt X a))"

lemma steady_returns:
  assumes "steady_window p m"
    "\<And>x s'. same_instance p s s' \<Longrightarrow> inst_window s' p = inst_window s p \<Longrightarrow> toolkit_data s' p = toolkit_data s p \<Longrightarrow> Q x s'"
  shows "ends_in m s Q"
  using assms by (auto simp: steady_window_def intro: ends_in_mono)

lemmas toolkit_returns =
  steady_returns [of p "new_gtk X a b c" for p X a b c] steady_returns [of p "new_xt X w ws" for p X w ws]

lemma steady_ret [simp]: "steady_window p (ret x)"
  by (simp add: steady_window_def same_instance_def)

lemma steady_then: "steady_window p m \<Longrightarrow> steady_window p n \<Longrightarrow> steady_window p (then_op m n)"
  unfolding steady_window_def [of p "then_op m n"]
  by (auto intro!: steady_returns [of p m] steady_returns [of p n] simp: same_instance_def)

subsection \<open>What the viewer keeps\<close>

text \<open>
  An instance with widgets has a window with attributes and is not windowless; without widgets it is
  windowless, or has no attributes.
\<close>

definition window_ok :: "cptr \<Rightarrow> ('h, 'z) npp_side_scheme \<Rightarrow> bool" where
  "window_ok p s \<longleftrightarrow>
     (if toolkit_data s p = None then is_windowless s p \<or> win_ws_info (inst_window s p) = None
      else \<not> is_windowless s p \<and> win_ws_info (inst_window s p) \<noteq> None)"

lemmas window_defs = window_ok_def same_instance_def put_window_def put_toolkit_def

lemma fixup_returns: "ends_in (fixup_size_hints X p) s (\<lambda>_ s'. same_instance p s s' \<and>
    win_ws_info (inst_window s' p) = win_ws_info (inst_window s p) \<and> toolkit_data s' p = toolkit_data s p)"
  by (simp add: fixup_size_hints_def Let_def window_defs split: prod.split option.split)

lemma make_toolkit_returns:
  assumes X: "obliging X p" and s: "\<not> is_windowless s p" "win_ws_info (inst_window s p) \<noteq> None"
  shows "ends_in (make_toolkit X p ws) s (\<lambda>_ s'. same_instance p s s' \<and> window_ok p s')"
  using X s
  by (auto simp: make_toolkit_def obliging_def window_defs intro!: toolkit_returns split: prod.split)

lemma create_window_returns:
  assumes X: "obliging X p" and w: "win_ws_info w \<noteq> None"
    and s: "toolkit_data s p = None" "is_windowless s p \<or> win_ws_info (inst_window s p) = None"
  shows "ends_in (create_window N X p w) s (\<lambda>_ s'. same_instance p s s' \<and> window_ok p s')"
proof -
  obtain given where g: "win_ws_info w = Some given" using w by blast
  have mem: "ws_memory X s'" for s' using X by (simp add: obliging_def)
  let ?s = "if is_windowless s p then put_window p ((inst_window s p)\<lparr>win_ws_info := None\<rparr>) s else s"
  have s': "win_ws_info (inst_window ?s p) = None" "toolkit_data ?s p = None" "same_instance p s ?s"
    using s by (auto simp: window_defs)
  have "ends_in (case create_window_attributes N X given of
        None \<Rightarrow> ret False
      | Some ws \<Rightarrow>
          then_op (modify_state (put_window p (w\<lparr>win_ws_info := Some ws\<rparr>)))
          (then_op (fixup_size_hints X p) (if is_windowless s p then ret True else make_toolkit X p ws))) ?s
      (\<lambda>_ s'. same_instance p s s' \<and> window_ok p s')"
  proof (cases "create_window_attributes N X given")
    case None
    with s' show ?thesis by (simp add: window_ok_def)
  next
    case (Some ws)
    have "ends_in (fixup_size_hints X p) (put_window p (w\<lparr>win_ws_info := Some ws\<rparr>) ?s) (\<lambda>_ t. same_instance p s t \<and>
        win_ws_info (inst_window t p) = Some ws \<and> toolkit_data t p = None)"
      by (rule ends_in_mono [OF fixup_returns]) (use s' in \<open>simp add: window_defs\<close>)
    then have "ends_in (fixup_size_hints X p) (put_window p (w\<lparr>win_ws_info := Some ws\<rparr>) ?s) (\<lambda>_ t.
        ends_in (if is_windowless s p then ret True else make_toolkit X p ws) t (\<lambda>_ s'. same_instance p s s' \<and> window_ok p s'))"
      by (rule ends_in_mono) (auto simp: window_defs intro!: ends_in_mono [OF make_toolkit_returns [OF X]])
    then show ?thesis by (simp add: Some)
  qed
  with s' mem g show ?thesis
    by (cases "is_windowless s p") (simp_all add: create_window_def destroy_window_attributes_def)
qed


lemma resize_steady: "obliging X p \<Longrightarrow> steady_window p (resize_widgets X t width height)"
  by (auto simp: resize_widgets_def obliging_def intro!: steady_then split: option.split toolkit.split)

lemma update_window_returns:
  assumes X: "obliging X p" and w: "win_ws_info w \<noteq> None"
    and s: "toolkit_data s p \<noteq> None" "\<not> is_windowless s p" "win_ws_info (inst_window s p) \<noteq> None"
  shows "ends_in (update_window N X p w) s (\<lambda>_ s'. same_instance p s s' \<and> window_ok p s')"
proof -
  obtain given where "win_ws_info w = Some given" using w by blast
  then show ?thesis
    using s by (auto simp: update_window_def Let_def window_defs intro!: steady_returns [OF resize_steady [OF X]])
qed

lemma destroy_window_returns:
  assumes X: "obliging X p"
  shows "ends_in (destroy_window X p) s (\<lambda>_ s'. same_instance p s s' \<and> toolkit_data s' p = None \<and>
    win_ws_info (inst_window s' p) = None)"
proof -
  have "steady_window p (destroy_toolkit X t)" for t
    using X by (simp add: destroy_toolkit_def obliging_def split: toolkit.split)
  then show ?thesis
    by (cases "toolkit_data s p")
      (auto simp: destroy_window_def destroy_window_attributes_def window_defs intro!: steady_returns [of p "destroy_toolkit X t" for t])
qed

subsection \<open>One call\<close>

definition drawable :: "NPWindow option \<Rightarrow> bool" where
  "drawable w = (case w of None \<Rightarrow> False | Some x \<Rightarrow> win_type x = NPWindowTypeDrawable)"

definition wf_window :: "NPWindow option \<Rightarrow> bool" where
  "wf_window w = (case w of None \<Rightarrow> True | Some x \<Rightarrow> win_ws_info x \<noteq> None)"

text \<open>What the viewer keeps is fit for window \<open>w\<close>.\<close>

definition fit_for :: "cptr \<Rightarrow> ('h, 'z) npp_side_scheme \<Rightarrow> NPWindow option \<Rightarrow> bool" where
  "fit_for p s w \<longleftrightarrow>
     (if drawable w then toolkit_data s p = None
      else (toolkit_data s p = None \<longleftrightarrow> win_ws_info (inst_window s p) = None))"

lemma window_for_plugin_returns:
  assumes X: "obliging X p" and w: "wf_window w" and s: "fit_for p s w" "is_windowless s p = drawable w"
  shows "ends_in (window_for_plugin N X p w) s (\<lambda>_ s'. same_instance p s s' \<and> fit_for p s' w)"
proof (cases w)
  case None
  with s show ?thesis by (simp add: window_for_plugin_def same_instance_def)
next
  case (Some x)
  have fit: "fit_for p s' w" if "same_instance p s s'" "window_ok p s'" for s'
    using that s(2) by (auto simp: same_instance_def window_ok_def fit_for_def split: if_splits)
  have "ends_in (if toolkit_data s p \<noteq> None then update_window N X p x else create_window N X p x) s
      (\<lambda>_ s'. same_instance p s s' \<and> window_ok p s')"
    using s w Some by (auto simp: fit_for_def wf_window_def intro!: update_window_returns [OF X] create_window_returns [OF X]
        split: if_splits)
  then have "ends_in (if toolkit_data s p \<noteq> None then update_window N X p x else create_window N X p x) s
      (\<lambda>_ s'. same_instance p s s' \<and> fit_for p s' w)"
    by (rule ends_in_mono) (use fit in auto)
  then have "ends_in (if toolkit_data s p \<noteq> None then update_window N X p x else create_window N X p x) s
      (\<lambda>ok s'. ends_in (if ok then bind_op (gets (\<lambda>s. inst_window s p)) (\<lambda>own. ret (Some (Some own))) else ret None) s'
         (\<lambda>_ s'. same_instance p s s' \<and> fit_for p s' w))"
    by (rule ends_in_mono) simp
  then show ?thesis
    using Some s(1) by (simp add: window_for_plugin_def same_instance_def)
qed

lemma set_window_returns:
  assumes X: "obliging X p" and f: "p_setwindow P = Some f" "\<And>w. steady_window p (f npp w)"
    and w: "wf_window w" and s: "live_instance s npp p pl" "fit_for p s w"
  shows "ends_in (viewer_NPP_SetWindow N X P E npp w) s (\<lambda>_ s'. live_instance s' npp p pl \<and> fit_for p s' w \<and> window_ok p s')"
proof -
  let ?s = "s\<lparr>is_windowless := (is_windowless s)(p := drawable w)\<rparr>"
  have live: "live_instance s' npp p pl" if "same_instance p ?s s'" for s'
    using s(1) that by (simp add: live_instance_def same_instance_def)
  have s': "fit_for p ?s w" "is_windowless ?s p = drawable w"
    using s(2) by (simp_all add: fit_for_def)
  have ok: "window_ok p t" if "same_instance p ?s t" "fit_for p t w" for t
    using that by (auto simp: fit_for_def window_ok_def same_instance_def split: if_splits)
  have fin: "ends_in (if (case w of None \<Rightarrow> True | Some x \<Rightarrow> win_window x = 0 \<and> \<not> is_windowless t p) then destroy_window X p
        else ret ()) t (\<lambda>_ s'. ends_in (ret r) s' (\<lambda>_ s'. live_instance s' npp p pl \<and> fit_for p s' w \<and> window_ok p s'))"
    if "same_instance p ?s t" "fit_for p t w" for t and r :: NPError
  proof -
    have gone: "fit_for p s' w \<and> window_ok p s'" if "toolkit_data s' p = None" "win_ws_info (inst_window s' p) = None" for s'
      using that by (simp add: fit_for_def window_ok_def)
    show ?thesis
      using that live ok [OF that] gone by (auto simp: same_instance_def intro!: ends_in_mono [OF destroy_window_returns [OF X]])
  qed
  have "ends_in (window_for_plugin N X p w) ?s (\<lambda>seen t. ends_in (case seen of None \<Rightarrow> ret NPERR_GENERIC_ERROR | Some v \<Rightarrow>
      bind_op (f npp v) (\<lambda>r. bind_op (gets (\<lambda>s. is_windowless s p)) (\<lambda>windowless.
        then_op (if (case w of None \<Rightarrow> True | Some x \<Rightarrow> win_window x = 0 \<and> \<not> windowless) then destroy_window X p else ret ())
          (ret r)))) t (\<lambda>_ s'. live_instance s' npp p pl \<and> fit_for p s' w \<and> window_ok p s'))"
  proof (rule ends_in_mono [OF window_for_plugin_returns [OF X w s']])
    fix seen t assume t: "same_instance p ?s t \<and> fit_for p t w"
    have keep: "same_instance p ?s u" "fit_for p u w" if "same_instance p t u" "inst_window u p = inst_window t p"
      "toolkit_data u p = toolkit_data t p" for u
      using t that by (simp_all add: same_instance_def fit_for_def)
    show "ends_in (case seen of None \<Rightarrow> ret NPERR_GENERIC_ERROR | Some v \<Rightarrow>
      bind_op (f npp v) (\<lambda>r. bind_op (gets (\<lambda>s. is_windowless s p)) (\<lambda>windowless.
        then_op (if (case w of None \<Rightarrow> True | Some x \<Rightarrow> win_window x = 0 \<and> \<not> windowless) then destroy_window X p else ret ())
          (ret r)))) t (\<lambda>_ s'. live_instance s' npp p pl \<and> fit_for p s' w \<and> window_ok p s')"
    proof (cases seen)
      case None
      with t live [of t] ok [of t] show ?thesis by simp
    next
      case (Some v)
      show ?thesis
        unfolding Some option.case ends_in_bind ends_in_gets
        by (rule steady_returns [OF f(2)], unfold ends_in_then, rule fin)
          (rule keep; assumption)+
    qed
  qed
  then show ?thesis
    using s(1) f(1) by (simp add: viewer_NPP_SetWindow_def ends_in_live [OF s(1)] if_supported_def drawable_def)
      (simp add: live_instance_def)
qed


subsection \<open>Sequences of calls\<close>

primrec set_windows ::
  "('h, 'z) npp_side_scheme request_env \<Rightarrow> ('h, 'z) npp_side_scheme toolkit_env \<Rightarrow> ('h, 'z) npp_side_scheme npp_funcs \<Rightarrow>
     (('h, 'z) npp_side_scheme, 'h) npv_env \<Rightarrow> cptr \<Rightarrow> NPWindow option list \<Rightarrow> (('h, 'z) npp_side_scheme, NPError list) op"
where
  "set_windows N X P E npp [] = ret []"
| "set_windows N X P E npp (w # ws) = bind_op (viewer_NPP_SetWindow N X P E npp w) (\<lambda>r.
     bind_op (set_windows N X P E npp ws) (\<lambda>rs. ret (r # rs)))"

text \<open>An instance that has had no window yet.\<close>

definition no_window_yet :: "cptr \<Rightarrow> ('h, 'z) npp_side_scheme \<Rightarrow> bool" where
  "no_window_yet p s \<longleftrightarrow> \<not> is_windowless s p \<and> toolkit_data s p = None \<and> win_ws_info (inst_window s p) = None"

text \<open>All windows of one kind: every one a drawable of a windowless instance, or none.\<close>

definition one_kind :: "bool \<Rightarrow> NPWindow option list \<Rightarrow> bool" where
  "one_kind d ws \<longleftrightarrow> (\<forall>w \<in> set ws. wf_window w \<and> drawable w = (d \<and> w \<noteq> None))"

definition fit_kind :: "bool \<Rightarrow> cptr \<Rightarrow> ('h, 'z) npp_side_scheme \<Rightarrow> bool" where
  "fit_kind d p s \<longleftrightarrow> window_ok p s \<and> (if d then toolkit_data s p = None
     else (toolkit_data s p = None \<longleftrightarrow> win_ws_info (inst_window s p) = None))"

lemma null_window_returns:
  assumes X: "obliging X p" and f: "p_setwindow P = Some f" "\<And>w. steady_window p (f npp w)" and s: "live_instance s npp p pl"
  shows "ends_in (viewer_NPP_SetWindow N X P E npp None) s (\<lambda>_ s'. live_instance s' npp p pl \<and> fit_kind d p s')"
proof -
  have "ends_in (f npp None) (s\<lparr>is_windowless := (is_windowless s)(p := False)\<rparr>) (\<lambda>_ t. same_instance p
      (s\<lparr>is_windowless := (is_windowless s)(p := False)\<rparr>) t)"
    by (rule steady_returns [OF f(2)])
  then have "ends_in (f npp None) (s\<lparr>is_windowless := (is_windowless s)(p := False)\<rparr>) (\<lambda>r t.
      ends_in (destroy_window X p) t (\<lambda>_ s'. live_instance s' npp p pl \<and> fit_kind d p s'))"
    by (rule ends_in_mono, intro ends_in_mono [OF destroy_window_returns [OF X]])
      (use s in \<open>simp add: same_instance_def live_instance_def fit_kind_def window_ok_def\<close>)
  then show ?thesis
    by (simp add: viewer_NPP_SetWindow_def ends_in_live [OF s] if_supported_def f(1) window_for_plugin_def)
      (use s in \<open>simp add: live_instance_def\<close>)
qed

lemma one_kind_returns:
  assumes X: "obliging X p" and f: "p_setwindow P = Some f" "\<And>w. steady_window p (f npp w)"
  shows "live_instance s npp p pl \<Longrightarrow> fit_kind d p s \<Longrightarrow> one_kind d ws \<Longrightarrow> ends_in (set_windows N X P E npp ws) s
    (\<lambda>rs s'. length rs = length ws \<and> live_instance s' npp p pl \<and> window_ok p s')"
proof (induction ws arbitrary: s)
  case Nil
  then show ?case by (simp add: fit_kind_def)
next
  case (Cons w ws)
  have w: "wf_window w" "one_kind d ws" "w \<noteq> None \<Longrightarrow> drawable w = d" using Cons.prems(3) by (auto simp: one_kind_def)
  have "ends_in (viewer_NPP_SetWindow N X P E npp w) s (\<lambda>_ s'. live_instance s' npp p pl \<and> fit_kind d p s')"
  proof (cases "w = None")
    case True
    show ?thesis unfolding True by (rule null_window_returns [OF X f Cons.prems(1)])
  next
    case False
    then have "fit_for p s w" using Cons.prems(2) w(3) by (simp add: fit_kind_def fit_for_def)
    from set_window_returns [OF X f w(1) Cons.prems(1) this] show ?thesis
      by (rule ends_in_mono) (use False w(3) in \<open>auto simp: fit_kind_def fit_for_def\<close>)
  qed
  then have "ends_in (viewer_NPP_SetWindow N X P E npp w) s (\<lambda>r s'. ends_in (set_windows N X P E npp ws) s'
      (\<lambda>rs s'. Suc (length rs) = length (w # ws) \<and> live_instance s' npp p pl \<and> window_ok p s'))"
    by (rule ends_in_mono) (use Cons.IH w(2) in auto)
  then show ?case by simp
qed

text \<open>
  C38. The viewer survives any number of \<open>NPP_SetWindow\<close> calls of one kind: for a live instance that has had
  no window, with a plugin and a toolkit that return and leave the viewer's data alone and enough memory,
  every sequence of windows that are all windowless or all windowed (each with attributes), with \<open>NULL\<close> windows
  in between, is answered call by call; at its end the instance has attributes of its own exactly where it
  has widgets, unless it is windowless.
\<close>

theorem SetWindow_one_kind_returns:
  assumes "obliging X p" "p_setwindow P = Some f" "\<And>w. steady_window p (f npp w)"
    and "live_instance s npp p pl" "no_window_yet p s" "one_kind d ws"
  shows "\<exists>rs s'. set_windows N X P E npp ws s = (Ok rs, s') \<and> length rs = length ws \<and> live_instance s' npp p pl \<and>
    (if toolkit_data s' p = None then is_windowless s' p \<or> win_ws_info (inst_window s' p) = None
     else \<not> is_windowless s' p \<and> win_ws_info (inst_window s' p) \<noteq> None)"
proof -
  have "fit_kind d p s" using assms(5) by (simp add: no_window_yet_def fit_kind_def window_ok_def)
  from one_kind_returns [OF assms(1-4) this assms(6)]
  show ?thesis unfolding ends_in_def window_ok_def by blast
qed

lemma drawable_returns:
  fixes s :: "('h, 'z) npp_side_scheme"
  assumes X: "obliging X p" and f: "p_setwindow P = Some f" "\<And>w. steady_window p (f npp w)"
    and s: "live_instance s npp p pl" "toolkit_data s p = None"
    and w: "win_type w = 2" "win_ws_info w = Some a" "create_window_attributes N X a = Some ws"
  shows "ends_in (viewer_NPP_SetWindow N X P E npp (Some w)) s (\<lambda>_ s'. live_instance s' npp p pl \<and> toolkit_data s' p = None \<and>
    win_ws_info (inst_window s' p) \<noteq> None)"
proof -
  let ?s = "s\<lparr>is_windowless := (is_windowless s)(p := True)\<rparr>"
  let ?Q = "\<lambda>s'. live_instance s' npp p pl \<and> is_windowless s' p \<and> toolkit_data s' p = None \<and> win_ws_info (inst_window s' p) \<noteq> None"
  let ?t = "put_window p (w\<lparr>win_ws_info := Some ws\<rparr>) (put_window p ((inst_window ?s p)\<lparr>win_ws_info := None\<rparr>) ?s)"
  have mem: "ws_memory X s'" for s' using X by (simp add: obliging_def)
  have "ends_in (fixup_size_hints X p) ?t (\<lambda>_ s'. ?Q s')"
    by (rule ends_in_mono [OF fixup_returns]) (use s in \<open>auto simp: window_defs live_instance_def\<close>)
  then have "ends_in (create_window N X p w) ?s (\<lambda>ok s'. ok \<and> ?Q s')"
    using w mem by (simp add: create_window_def destroy_window_attributes_def put_window_def)
  then have "ends_in (window_for_plugin N X p (Some w)) ?s (\<lambda>v s'. v \<noteq> None \<and> ?Q s')"
    using s(2) by (simp add: window_for_plugin_def) (erule ends_in_mono, simp)
  then have "ends_in (window_for_plugin N X p (Some w)) ?s (\<lambda>v s'. ends_in (case v of None \<Rightarrow> ret NPERR_GENERIC_ERROR | Some v \<Rightarrow>
      bind_op (f npp v) (\<lambda>r. bind_op (gets (\<lambda>s. is_windowless s p)) (\<lambda>windowless.
        then_op (if win_window w = 0 \<and> \<not> windowless then destroy_window X p else ret ()) (ret r)))) s' (\<lambda>_ s'. ?Q s'))"
  proof (rule ends_in_mono)
    fix v :: "NPWindow option option" and s' :: "('h, 'z) npp_side_scheme"
    assume v: "v \<noteq> None \<and> ?Q s'"
    then obtain u where u: "v = Some u" by blast
    have keep: "?Q t" if "same_instance p s' t" "inst_window t p = inst_window s' p" "toolkit_data t p = toolkit_data s' p"
      for t :: "('h, 'z) npp_side_scheme"
      using v that by (simp add: same_instance_def live_instance_def)
    then have "ends_in (f npp u) s' (\<lambda>_ t. ?Q t)"
      by (intro steady_returns [OF f(2)])
    then have "ends_in (f npp u) s' (\<lambda>r t. ends_in (if win_window w = 0 \<and> \<not> is_windowless t p then destroy_window X p else ret ()) t
        (\<lambda>_ s'. ?Q s'))"
      by (rule ends_in_mono) simp
    then show "ends_in (case v of None \<Rightarrow> ret NPERR_GENERIC_ERROR | Some v \<Rightarrow>
      bind_op (f npp v) (\<lambda>r. bind_op (gets (\<lambda>s. is_windowless s p)) (\<lambda>windowless.
        then_op (if win_window w = 0 \<and> \<not> windowless then destroy_window X p else ret ()) (ret r)))) s' (\<lambda>_ s'. ?Q s')"
      unfolding u option.case by simp
  qed
  then have "ends_in (viewer_NPP_SetWindow N X P E npp (Some w)) s (\<lambda>_ s'. ?Q s')"
    using w(1) s(1) by (simp add: viewer_NPP_SetWindow_def ends_in_live [OF s(1)] if_supported_def f(1))
      (simp add: live_instance_def)
  then show ?thesis by (rule ends_in_mono) simp
qed

text \<open>
  A window after a windowless one aborts the viewer: when an instance that has been given a drawable is
  then given a window of its own, the attributes kept for the drawable make the assertion of
  \<open>create_window\<close> fail, whatever the plugin, the toolkit and the window are.
\<close>

theorem SetWindow_kind_change_aborts:
  assumes "obliging X p" "p_setwindow P = Some f" "\<And>w. steady_window p (f npp w)"
    and "live_instance s npp p pl" "no_window_yet p s"
    and w1: "win_type w1 = 2" "win_ws_info w1 = Some a" "create_window_attributes N X a \<noteq> None"
    and w2: "win_type w2 \<noteq> 2" "win_window w2 \<noteq> 0"
  shows "fst (set_windows N X P E npp [Some w1, Some w2] s) = Crash Assertion_failed"
proof -
  obtain ws where ws: "create_window_attributes N X a = Some ws" using w1(3) by blast
  obtain r s' where 1: "viewer_NPP_SetWindow N X P E npp (Some w1) s = (Ok r, s')" "live_instance s' npp p pl"
    "toolkit_data s' p = None" "win_ws_info (inst_window s' p) \<noteq> None"
    using drawable_returns [OF assms(1-4) _ w1(1,2) ws, of E] assms(5) by (auto simp: ends_in_def no_window_yet_def)
  have "npw_get_plugin_instance (np_env.truncate E) npp s' = (Ok p, s')"
    using ends_in_live [OF 1(2), of "np_env.truncate E" "\<lambda>x t. x = p \<and> t = s'"] by (simp add: ends_in_def)
  moreover obtain y where "win_ws_info (inst_window s' p) = Some y" using 1(4) by blast
  moreover have "p \<noteq> 0" "npp \<noteq> 0" using assms(4) by (simp_all add: live_instance_def)
  moreover have "drawable (Some w2) = False" using w2(1) by (simp add: drawable_def)
  ultimately have "fst (viewer_NPP_SetWindow N X P E npp (Some w2) s') = Crash Assertion_failed"
    using 1(3) w2 assms(2) by (simp add: viewer_NPP_SetWindow_def if_supported_def window_for_plugin_def create_window_def
        bind_op_def then_op_def modify_state_def gets_apply assert_op_def crash_def ret_apply)
  then show ?thesis by (simp add: bind_op_def 1(1) split: prod.split) auto
qed


text \<open>A toolkit that only gives numbers to its widgets, and windows with attributes.\<close>

definition sample_toolkit :: "(cptr \<times> cptr) list npp_side toolkit_env" where
  "sample_toolkit = \<lparr>gdkx_visual_get = (\<lambda>v. v), gdk_visual_get_system = 1, gdk_x11_visual_get_xvisual = (\<lambda>v. v),
     XGetWindowAttributes = (\<lambda>_ _. Some (10, 10)), new_gtk = (\<lambda>w _ _. ret (11, 12, w)), new_xt = (\<lambda>w _. ret (11, 12, 13)),
     XtResizeWidget = (\<lambda>_ _ _. ret ()), destroy_gtk = (\<lambda>_. ret ()), destroy_xt = (\<lambda>_. ret ()), ws_memory = (\<lambda>_. True),
     toolkit_memory = (\<lambda>_. True), source_memory = (\<lambda>_. True)\<rparr>"

definition sample_ws :: NPSetWindowCallbackStruct where
  "sample_ws = \<lparr>ws_type = 1, ws_display = 0, ws_visual = 33, ws_colormap = 0, ws_depth = 24\<rparr>"

definition sample_window :: "cptr \<Rightarrow> int32 \<Rightarrow> NPWindow" where
  "sample_window w t = no_window\<lparr>win_window := w, win_type := t, win_ws_info := Some sample_ws\<rparr>"

lemma sample_toolkit_obliging: "obliging sample_toolkit p"
  by (simp add: obliging_def sample_toolkit_def)

lemma viewer_G_instance:
  "live_instance viewer_G 512 256 (sample_instance 512)" "no_window_yet 256 viewer_G"
  by (simp_all add: live_instance_def no_window_yet_def with_instance_def sample_instance_def sample_viewer_def frame_def
      np_process.defs sample_side_members_def no_window_def)

lemma taking_setwindow: "p_setwindow taking_plugin = Some (\<lambda>_ _. ret 0)"
  by (simp add: taking_plugin_def)

theorem SetWindow_one_kind_returns_witness:
  "\<exists>rs s'. set_windows viewer_requests sample_toolkit taking_plugin (side_env True) 512
     [Some (sample_window 7 1), None, Some (sample_window 8 1)] viewer_G = (Ok rs, s') \<and> length rs = 3"
proof -
  have "one_kind False [Some (sample_window 7 1), None, Some (sample_window 8 1)]"
    by (simp add: one_kind_def wf_window_def drawable_def sample_window_def)
  from SetWindow_one_kind_returns [OF sample_toolkit_obliging taking_setwindow steady_ret viewer_G_instance this,
      of viewer_requests "side_env True"]
  show ?thesis by auto
qed

theorem SetWindow_kind_change_aborts_witness:
  "fst (set_windows viewer_requests sample_toolkit taking_plugin (side_env True) 512
     [Some (sample_window 0 2), Some (sample_window 8 1)] viewer_G) = Crash Assertion_failed"
  by (rule SetWindow_kind_change_aborts [OF sample_toolkit_obliging taking_setwindow steady_ret viewer_G_instance,
        where a = sample_ws])
    (simp_all add: sample_window_def create_window_attributes_def sample_toolkit_def sample_ws_def)

end
