(* ===== verification/Npp_Timing.thy ===== *)
theory Npp_Timing
  imports Npp_Streams
begin

text \<open>
  Timers over time: scheduling, firing, and what happens to the sources of an instance that is gone and of a
  timer that gives itself up.
\<close>

subsection \<open>Pending timers\<close>

text \<open>Timer \<open>i\<close> of instance \<open>p\<close> is at \<open>a\<close> and waits as source \<open>k\<close>.\<close>

definition pending_timer ::
  "'h ghash \<Rightarrow> ('h, 'z) npp_side_scheme \<Rightarrow> cptr \<Rightarrow> uint32 \<Rightarrow> cptr \<Rightarrow> bool \<Rightarrow> code_ptr \<Rightarrow> uint32 option \<Rightarrow> uint32 \<Rightarrow> bool"
where
  "pending_timer H s p i a again f w k \<longleftrightarrow> a \<noteq> 0 \<and> k \<noteq> 0 \<and> tab_lookup H (id_key i) (timers s p) = a \<and>
     timer_heap s a = Some \<lparr>t_repeat = again, t_func = f, t_source_id = k\<rparr> \<and>
     main_sources s k = Some \<lparr>src_data = Timer_data i p, src_delay = w, src_running = False, src_removed = False\<rparr>"


text \<open>The state after a timer was scheduled.\<close>

definition with_timer ::
  "'h ghash \<Rightarrow> cptr \<Rightarrow> 'h NPW_PluginInstance \<Rightarrow> uint32 \<Rightarrow> cptr \<Rightarrow> bool \<Rightarrow> code_ptr \<Rightarrow> uint32 option \<Rightarrow> uint32 \<Rightarrow> ('h, 'z) npp_side_scheme \<Rightarrow>
     ('h, 'z) npp_side_scheme"
where
  "with_timer H p pl i a again f w k s = put_plugin p (Some (pl\<lparr>pi_refcount := pi_refcount pl + 1\<rparr>))
     (s\<lparr>next_timer_id := (next_timer_id s)(p := i + 1),
        timers := (timers s)(p := tab_insert H (id_key i) a (timers s p)),
        timer_heap := (timer_heap s)(a := Some \<lparr>t_repeat = again, t_func = f, t_source_id = k\<rparr>),
        main_sources := (main_sources s)(k := Some \<lparr>src_data = Timer_data i p, src_delay = w, src_running = False, src_removed = False\<rparr>)\<rparr>)"

lemma live_runs: "live_instance s npp p pl \<Longrightarrow> npw_get_plugin_instance E npp s = (Ok p, s)"
  by (simp add: live_instance_def npw_get_plugin_instance_def npw_get_plugin_instance_1_def deref_def bind_op_def ret_apply)



lemma with_timer_pending:
  assumes "hash_table H tbl" "timers s p \<noteq> None" "a \<noteq> 0" "k \<noteq> 0"
  shows "pending_timer H (with_timer H p pl i a again f w k s) p i a again f w k"
  using assms by (auto simp: pending_timer_def with_timer_def put_plugin_def tab_lookup_def tab_insert_def
      hash_table.lookup_law hash_table.insert_law)

subsection \<open>Firing\<close>


lemma main_sources_twice [simp]: "s\<lparr>main_sources := (main_sources s)(k := x)\<rparr> = s \<longleftrightarrow> main_sources s k = x"
proof
  assume "s\<lparr>main_sources := (main_sources s)(k := x)\<rparr> = s"
  from arg_cong [OF this, where f = "\<lambda>s. main_sources s k"] show "main_sources s k = x" by simp
next
  assume "main_sources s k = x"
  then have "(main_sources s)(k := x) = main_sources s" by auto
  then show "s\<lparr>main_sources := (main_sources s)(k := x)\<rparr> = s" by simp
qed




subsection \<open>A timer that gives itself up\<close>

text \<open>
  C40. A plugin must not unschedule a timer from its own function: if the function of a pending timer does
  nothing but call \<open>NPN_UnscheduleTimer\<close> for the number it was given, the timer is freed while it is being
  served, and the viewer reads the freed timer when the function returns.
\<close>

theorem self_unscheduled_timer_is_used_after_free:
  assumes "main_thread N" "hash_table (hash E) tbl"
    and s: "live_instance s npp p pl" "pi_is_valid pl" "pending_timer (hash E) s p i a again f w k"
    and f: "call_timer T f = g_NPN_UnscheduleTimer N E"
  shows "fst (dispatch_source T E k s) = Crash Use_after_free"
proof -
  let ?src = "\<lparr>src_data = Timer_data i p, src_delay = w, src_running = True, src_removed = False\<rparr>"
  let ?t = "\<lparr>t_repeat = again, t_func = f, t_source_id = k\<rparr>"
  let ?s = "s\<lparr>main_sources := (main_sources s)(k := Some ?src)\<rparr>"
  have pend: "a \<noteq> 0" "k \<noteq> 0" "tab_lookup (hash E) (id_key i) (timers s p) = a" "timer_heap s a = Some ?t"
    "main_sources s k = Some \<lparr>src_data = Timer_data i p, src_delay = w, src_running = False, src_removed = False\<rparr>"
    using s(3) by (simp_all add: pending_timer_def)
  have p: "p \<noteq> 0" "npp \<noteq> 0" "plugins s p = Some pl" "pi_instance pl = npp" using s(1) by (simp_all add: live_instance_def)
  have live: "live_instance ?s npp p pl" using s(1) by (simp add: live_instance_def)
  let ?u = "put_timer a None (put_source k (Some (?src\<lparr>src_removed := True\<rparr>))
      (put_timers p (snd (tab_remove (hash E) (id_key i) (timers s p))) ?s))"
  have "g_NPN_UnscheduleTimer N E npp i ?s = (Ok (), ?u)"
    using assms(1) p pend
    by (simp add: g_NPN_UnscheduleTimer_def on_instance_def bind_op_def live_runs [OF live] remove_timer_def gets_apply
        then_op_def modify_state_def free_entry_def timer_free_def deref_def g_source_remove_def put_timers_def put_source_def
        put_timer_def ret_apply)
  moreover have "timer_heap ?u a = None" by (simp add: put_timer_def)
  ultimately have run: "\<exists>t. timer_data_run T E i p ?s = (Crash Use_after_free, t)"
    using p pend s(2)
    by (simp add: timer_data_run_def bind_op_def npw_plugin_instance_is_valid_def deref_def ret_apply gets_apply
        npw_get_plugin_instance_npp_def then_op_def f)
  then obtain t where "timer_data_run T E i p ?s = (Crash Use_after_free, t)" by blast
  then show ?thesis
    using pend by (simp add: dispatch_source_def bind_op_def gets_apply then_op_def modify_state_def put_source_def)
qed

subsection \<open>Instances that are gone\<close>

text \<open>
  A destroyed instance gets no more calls from the main loop: a waiting asynchronous call or timer of
  an instance that was invalidated goes away when it is dispatched, without calling any function of the
  plugin, and gives its reference to the instance back.
\<close>

theorem invalid_instance_gets_no_calls:
  assumes "main_sources s k = Some \<lparr>src_data = d, src_delay = w, src_running = False, src_removed = False\<rparr>"
    and "d = Async_call p f u \<or> d = Timer_data i p" and "plugins s p = Some pl" "p \<noteq> 0" "\<not> pi_is_valid pl" "1 < pi_refcount pl"
  shows "dispatch_source T E k s = (Ok (), put_plugin p (Some (pl\<lparr>pi_refcount := pi_refcount pl - 1\<rparr>))
     (s\<lparr>main_sources := (main_sources s)(k := None)\<rparr>))"
proof -
  let ?s = "s\<lparr>main_sources := (main_sources s)(k := Some \<lparr>src_data = d, src_delay = w, src_running = True, src_removed = False\<rparr>)\<rparr>"
  have run: "run_callback T E d ?s = (Ok False, ?s)"
    using assms(2-5) by (auto simp: async_call_run_def timer_data_run_def bind_op_def npw_plugin_instance_is_valid_def deref_def
        ret_apply then_op_def)
  have "free_main_data E d t = (Ok (), put_plugin p (Some (pl\<lparr>pi_refcount := pi_refcount pl - 1\<rparr>)) t)"
    if "plugins t p = Some pl" for t
    using that assms(2,4,6) by (auto simp: async_call_free_def timer_data_free_def npw_plugin_instance_unref_def bind_op_def
        deref_def ret_apply then_op_def modify_state_def)
  then show ?thesis
    using assms(1,3) run by (simp add: dispatch_source_def bind_op_def gets_apply then_op_def modify_state_def put_source_def)
qed


subsection \<open>Samples\<close>

definition timed_viewer :: "(cptr \<times> cptr) list npp_side" where
  "timed_viewer = viewer_G\<lparr>timers := (\<lambda>_. Some [])\<rparr>"

text \<open>The function of the plugin writes its arguments where the test can see them.\<close>

definition note_call :: "cptr \<Rightarrow> uint32 \<Rightarrow> (cptr \<times> cptr) list npp_side \<Rightarrow> (cptr \<times> cptr) list npp_side" where
  "note_call npp i s = s\<lparr>browser_toplevel := (browser_toplevel s)(npp := ucast i)\<rparr>"

definition noting_timers :: "(cptr \<times> cptr) list npp_side timer_env" where
  "noting_timers = \<lparr>call_timer = (\<lambda>_ npp i s. (Ok (), note_call npp i s)), call_async = (\<lambda>_ _. ret ()),
     new_timer_addr = (\<lambda>_. 4000), new_source_id = (\<lambda>_. 9)\<rparr>"


lemma timed_viewer_facts:
  "live_instance timed_viewer 512 256 (sample_instance 512)" "next_timer_id timed_viewer 256 = 1" "timers timed_viewer 256 = Some []"
  "main_thread viewer_requests" "pi_is_valid (sample_instance 512)" "plugins timed_viewer 256 = Some (sample_instance 512)"
  by (simp_all add: timed_viewer_def live_instance_def with_instance_def sample_instance_def sample_viewer_def frame_def
      np_process.defs sample_side_members_def viewer_requests_def)


definition stopping_timers :: "(cptr \<times> cptr) list npp_side timer_env" where
  "stopping_timers = noting_timers\<lparr>call_timer := (\<lambda>_. g_NPN_UnscheduleTimer viewer_requests (side_env True))\<rparr>"

theorem self_unscheduled_timer_witness:
  "fst (dispatch_source stopping_timers (side_env True) 9
     (with_timer alist_hash 256 (sample_instance 512) 1 4000 True 300 (Some 50) 9 timed_viewer)) = Crash Use_after_free"
proof -
  let ?s = "with_timer alist_hash 256 (sample_instance 512) 1 4000 True 300 (Some 50) 9 timed_viewer"
  have H: "hash_table alist_hash map_of" using sample_sides(1) [of True] by simp
  have "live_instance ?s 512 256 ((sample_instance 512)\<lparr>pi_refcount := 2\<rparr>)"
    using timed_viewer_facts(1) by (simp add: live_instance_def with_timer_def put_plugin_def sample_instance_def)
  moreover have "pending_timer alist_hash ?s 256 1 4000 True 300 (Some 50) 9"
    by (rule with_timer_pending [OF H]) (simp_all add: timed_viewer_facts)
  ultimately show ?thesis
    using timed_viewer_facts(5)
    by (intro self_unscheduled_timer_is_used_after_free [where tbl = map_of and npp = 512 and
          pl = "(sample_instance 512)\<lparr>pi_refcount := 2\<rparr>", OF timed_viewer_facts(4) sample_sides(1)])
      (simp_all add: stopping_timers_def)
qed

theorem invalid_instance_gets_no_calls_witness:
  "\<exists>t. dispatch_source stopping_timers (side_env True) 9
     (timed_viewer\<lparr>plugins := [256 \<mapsto> (sample_instance 512)\<lparr>pi_is_valid := False, pi_refcount := 2\<rparr>],
        main_sources := [9 \<mapsto> \<lparr>src_data = Timer_data 1 256, src_delay = Some 50, src_running = False, src_removed = False\<rparr>]\<rparr>) = (Ok (), t) \<and>
     main_sources t 9 = None"
  using invalid_instance_gets_no_calls [of "timed_viewer\<lparr>plugins := [256 \<mapsto> (sample_instance 512)\<lparr>pi_is_valid := False, pi_refcount := 2\<rparr>],
        main_sources := [9 \<mapsto> \<lparr>src_data = Timer_data 1 256, src_delay = Some 50, src_running = False, src_removed = False\<rparr>]\<rparr>" 9 "Timer_data 1 256" "Some 50" 256
      0 0 1 "(sample_instance 512)\<lparr>pi_is_valid := False, pi_refcount := 2\<rparr>" stopping_timers "side_env True"]
  by (simp add: put_plugin_def)

end
