(* ===== verification/Npp_Data.thy ===== *)
theory Npp_Data
  imports Npp_Delivery Npp_Handlers
begin

text \<open>
  Data a plugin hands over in pieces: what it printed, and the sites it keeps data for.
\<close>

subsection \<open>Printing\<close>

lemma then_nothing [simp]: "then_op m (ret ()) = m"
  by (rule ext) (simp add: then_op_def bind_op_def ret_def split: prod.split res.split)

lemma then_op_assoc: "then_op (then_op m n) k = then_op m (then_op n k)"
  by (rule ext) (simp add: then_op_def bind_op_def split: prod.split res.split)

lemma bind_then_op: "bind_op (then_op m n) f = then_op m (bind_op n f)"
  by (rule ext) (simp add: then_op_def bind_op_def split: prod.split res.split)

lemma full_blocks:
  "bind_op (send_full_blocks n E R plugin i fp) k =
   then_op (run_all (map (send_block E R plugin i) (map (\<lambda>j. take PRINT_DATA_SIZE (drop (j * PRINT_DATA_SIZE) fp)) [0..<n])))
     (k (drop (n * PRINT_DATA_SIZE) fp))"
proof (induction n arbitrary: fp)
  case 0
  show ?case by (rule ext) (simp add: bind_op_def then_op_def ret_apply)
next
  case (Suc n)
  have "[0..<Suc n] = 0 # map Suc [0..<n]" by (simp add: map_Suc_upt upt_conv_Cons)
  moreover have "drop (j * PRINT_DATA_SIZE) (drop PRINT_DATA_SIZE fp) = drop (Suc j * PRINT_DATA_SIZE) fp" for j
    by (simp add: drop_drop add.commute)
  ultimately show ?case
    by (simp add: bind_then_op Suc.IH then_op_assoc o_def del: mult_Suc upt_Suc)
qed


lemma concat_blocks: "concat (map (\<lambda>j. take k (drop (j * k) xs)) [0..<n]) = take (n * k) xs"
proof (induction n)
  case (Suc n)
  have "take (n * k) xs @ take k (drop (n * k) xs) = take (n * k + k) xs" by (simp add: take_add)
  with Suc.IH show ?case by (simp add: add.commute)
qed simp

text \<open>The blocks of a printed file: full ones, and a last one with what is left.\<close>

definition printed_blocks :: "byte list \<Rightarrow> byte list list" where
  "printed_blocks fp =
     (if fp = [] then []
      else map (\<lambda>j. take PRINT_DATA_SIZE (drop (j * PRINT_DATA_SIZE) fp)) [0..<length fp div PRINT_DATA_SIZE] @
        [drop (length fp div PRINT_DATA_SIZE * PRINT_DATA_SIZE) fp])"

lemma run_all_snoc: "run_all (ms @ [m]) = then_op (run_all ms) m"
proof (induction ms)
  case Nil
  have "then_op (ret ()) m = m" by (rule ext) (simp add: then_op_def bind_op_def ret_apply)
  then show ?case by simp
qed (simp add: then_op_assoc)

lemma send_printed_runs: "send_printed E R plugin i fp = run_all (map (send_block E R plugin i) (printed_blocks fp))"
proof (cases "fp = []")
  case False
  then show ?thesis
    by (simp add: send_printed_def printed_blocks_def full_blocks [where n = "length fp div PRINT_DATA_SIZE"] run_all_snoc)
qed (simp add: send_printed_def printed_blocks_def)

lemma full_block_length:
  assumes "j < length fp div PRINT_DATA_SIZE"
  shows "length (take PRINT_DATA_SIZE (drop (j * PRINT_DATA_SIZE) fp)) = PRINT_DATA_SIZE"
proof -
  have "Suc j * PRINT_DATA_SIZE \<le> length fp div PRINT_DATA_SIZE * PRINT_DATA_SIZE"
    using assms by (intro mult_le_mono1) simp
  then have "Suc j * PRINT_DATA_SIZE \<le> length fp" by (meson div_times_less_eq_dividend le_trans)
  then show ?thesis by simp
qed

text \<open>
  What a plugin prints is sent to the browser whole: the viewer sends the printed bytes as a sequence of
  blocks, each with one call of \<open>NPN_PrintData\<close> for the print job, whose data are together exactly
  the file; all but the last have the 4096 bytes of an \<open>NPPrintData\<close>, the last one has fewer, and
  is empty exactly when the file is a multiple of them.
\<close>

theorem send_printed_correct:
  shows "\<exists>blocks. send_printed E R plugin i fp = run_all (map (\<lambda>b. holding E plugin (invoke_NPN_PrintData R i
      \<lparr>pd_size = of_nat (length b), pd_data = b\<rparr>)) blocks) \<and>
    concat blocks = fp \<and> (\<forall>b \<in> set (butlast blocks). length b = 4096) \<and>
    (if fp = [] then blocks = []
     else blocks \<noteq> [] \<and> length (last blocks) < 4096 \<and> (last blocks = [] \<longleftrightarrow> 4096 dvd length fp))"
proof (intro exI conjI)
  show "send_printed E R plugin i fp = run_all (map (\<lambda>b. holding E plugin (invoke_NPN_PrintData R i
      \<lparr>pd_size = of_nat (length b), pd_data = b\<rparr>)) (printed_blocks fp))"
    by (simp add: send_printed_runs send_block_def [abs_def] print_block_def)
  show "concat (printed_blocks fp) = fp"
    by (simp add: printed_blocks_def concat_blocks)
  show "\<forall>b \<in> set (butlast (printed_blocks fp)). length b = 4096"
    using full_block_length [of _ fp] by (auto simp: printed_blocks_def PRINT_DATA_SIZE_def)
  have "length fp - length fp div 4096 * 4096 = length fp mod 4096" by (simp add: minus_div_mult_eq_mod)
  then show "if fp = [] then printed_blocks fp = []
     else printed_blocks fp \<noteq> [] \<and> length (last (printed_blocks fp)) < 4096 \<and>
       (last (printed_blocks fp) = [] \<longleftrightarrow> 4096 dvd length fp)"
    by (auto simp: printed_blocks_def dvd_eq_mod_eq_0 PRINT_DATA_SIZE_def)
qed

subsection \<open>Sites\<close>

lemma copy_site_runs:
  assumes "\<And>s n. mem_alloc s n" "length cs < 2 ^ 32"
  shows "copy_site mem_alloc (Some cs) s = (Ok (Some cs), s)"
  using assms by (simp add: copy_site_def realloc_bytes_def bind_op_def gets_apply ret_apply unat_of_nat)

lemma copy_all_runs:
  assumes "\<And>s n. mem_alloc s n" "\<forall>cs \<in> set xs. length cs < 2 ^ 32"
  shows "collect_all (map (copy_site mem_alloc) (map Some xs)) s = (Ok (map Some xs), s)"
  using assms(2) by (induction xs) (simp_all add: ret_apply bind_op_def copy_site_runs [OF assms(1)])

text \<open>
  The sites given to the browser are not strings: with enough memory, the blocks \<open>NPP_GetSitesWithData\<close> makes of
  the plugin's answer hold exactly the bytes of the strings, so that none of them contains the zero
  at which a reader of the block would stop.
\<close>

theorem copied_sites_are_unterminated:
  assumes "\<And>s n. mem_alloc s n" "\<forall>cs \<in> set sites. length cs < 2 ^ 32 \<and> 0 \<notin> set cs" "8 * (length sites + 1) < 2 ^ 32" "sites \<noteq> []"
  shows "\<exists>blocks. copy_sites mem_alloc (map Some sites) s = (Ok (Some (map Some blocks)), s) \<and> blocks = sites \<and>
    (\<forall>b \<in> set blocks. 0 \<notin> set b)"
  using assms copy_all_runs [where mem_alloc = mem_alloc and xs = sites and s = s]
  by (simp add: copy_sites_def bind_op_def gets_apply ret_apply)

theorem copied_sites_are_unterminated_witness:
  "copy_sites (\<lambda>_ _. True) (map Some [[97, 98], [99]]) (0 :: nat) = (Ok (Some (map Some [[97, 98], [99 :: byte]])), 0)"
  using copied_sites_are_unterminated [where mem_alloc = "\<lambda>_ _. True" and sites = "[[97, 98], [99 :: byte]]" and s = "0 :: nat"]
  by simp

end
