(* ===== verification/Npp_Life.thy ===== *)
theory Npp_Life
  imports Npp_Streams
begin

text \<open>
  How long plugin instances live: the reference count of \<^verbatim>\<open>npw-common.c\<close> with the two classes of
  instances the repository has, \<open>PluginInstanceClass\<close> of \<^verbatim>\<open>npw-viewer.c\<close> and of \<^verbatim>\<open>npw-wrapper.c\<close>.
\<close>

subsection \<open>The class of an instance\<close>

text \<open>
  The class of instance \<open>pl\<close> has a finalizer, which does \<open>fin\<close> where \<open>ok\<close> holds, and a deallocator, which
  does \<open>dealloc\<close>.
\<close>

definition has_class ::
  "(('h, 'z) np_process_scheme, 'h, 'y) np_env_scheme \<Rightarrow> (('h, 'z) np_process_scheme \<Rightarrow> bool) \<Rightarrow>
     (cptr \<Rightarrow> (('h, 'z) np_process_scheme, unit) op) \<Rightarrow> (cptr \<Rightarrow> (('h, 'z) np_process_scheme, unit) op) \<Rightarrow>
     ('h, 'z) np_process_scheme \<Rightarrow> cptr \<Rightarrow> 'h NPW_PluginInstance \<Rightarrow> bool"
where
  "has_class V ok fin dealloc s p pl \<longleftrightarrow> pi_klass pl \<noteq> 0 \<and>
     (case klasses s (pi_klass pl) of
        None \<Rightarrow> False
      | Some k \<Rightarrow> pc_finalize k \<noteq> NULL \<and> (\<forall>t. ok t \<longrightarrow> call_instance V (pc_finalize k) p t = fin p t) \<and>
          pc_deallocate k \<noteq> NULL \<and> (\<forall>t. call_instance V (pc_deallocate k) p t = dealloc p t))"

lemma has_class_unref:
  assumes "has_class V ok fin dealloc s p pl" "p \<noteq> 0" "plugins s p = Some pl" "pi_refcount pl = 1"
    and "ok (put_plugin p (Some (pl\<lparr>pi_refcount := 0\<rparr>)) s)"
    and "fin p (put_plugin p (Some (pl\<lparr>pi_refcount := 0\<rparr>)) s) = (Ok (), s1)" "klasses s1 = klasses s"
    and "dealloc p s1 = (Ok (), s2)"
  shows "npw_plugin_instance_unref (np_env.truncate V) p s = (Ok (), s2)"
proof -
  obtain k where k: "pi_klass pl \<noteq> 0" "klasses s (pi_klass pl) = Some k" "pc_finalize k \<noteq> NULL"
    "pc_deallocate k \<noteq> NULL" "\<And>t. ok t \<Longrightarrow> call_instance V (pc_finalize k) p t = fin p t"
    "\<And>t. call_instance V (pc_deallocate k) p t = dealloc p t"
    using assms(1) by (auto simp: has_class_def split: option.splits)
  show ?thesis
    by (rule unref_last [OF assms(2-4) k(1-4)]) (use assms(5-8) k(5,6) in \<open>simp_all add: np_env.defs\<close>)
qed

subsection \<open>In the viewer\<close>

text \<open>
  The timers in the table of the instance, and that none of them is pending: timers that fired and do not
  repeat stay in the table, without a source.
\<close>

definition own_timers :: "'h ghash \<Rightarrow> cptr \<Rightarrow> ('h, 'z) npp_side_scheme \<Rightarrow> cptr list" where
  "own_timers H p s = (case timers s p of None \<Rightarrow> [] | Some h \<Rightarrow> map snd (gh_entries H h))"

definition none_pending :: "'h ghash \<Rightarrow> cptr \<Rightarrow> ('h, 'z) npp_side_scheme \<Rightarrow> bool" where
  "none_pending H p s \<longleftrightarrow> distinct (own_timers H p s) \<and>
     list_all (\<lambda>a. a \<noteq> 0 \<and> (case timer_heap s a of None \<Rightarrow> False | Some t \<Rightarrow> t_source_id t = 0)) (own_timers H p s)"






lemma put_plugin_timers [simp]:
  "own_timers H p (put_plugin q x s) = own_timers H p s" "timer_heap (put_plugin q x s) = timer_heap s"
  "none_pending H p (put_plugin q x s) = none_pending H p s"
  by (simp_all add: none_pending_def own_timers_def put_plugin_def)









subsection \<open>In the wrapper\<close>

text \<open>
  The same for the wrapper's class, whose finalizer gives up the identifier and the reference to the
  connection of the viewer.
\<close>

lemma wrapper_instance_lifetime:
  assumes p: "p \<noteq> 0" "plugins s p = Some pl" "pi_refcount pl = 1" "m \<le> n"
    and k: "has_class V (\<lambda>_. True) (wrapper_instance_finalize E) (\<lambda>p. modify_state (put_plugin p None)) s p pl"
    and c: "(if inst_connection s p = 0 then ret () else unref_connection (inst_connection s p))
      ((put_plugin p (Some (pl\<lparr>pi_refcount := 0\<rparr>)) s)\<lparr>ids := snd (id_remove (hash E) (pi_instance_id pl) (ids s))\<rparr>) =
        (Ok (), s1)" "klasses s1 = klasses s"
  shows "then_op (ref_times n p) (unref_n m (np_env.truncate V) p) s =
      (Ok (), put_plugin p (Some (pl\<lparr>pi_refcount := 1 + int (n - m)\<rparr>)) s)"
    "then_op (ref_times n p) (unref_n (n + 1) (np_env.truncate V) p) s = (Ok (), put_plugin p None s1)"
proof -
  let ?r = "put_plugin p (Some (pl\<lparr>pi_refcount := 0\<rparr>)) s"
  have "wrapper_instance_finalize E p ?r = (Ok (), s1)"
    using c(1) by (simp add: wrapper_instance_finalize_def op_simps put_plugin_def)
  then have "npw_plugin_instance_unref (np_env.truncate V) p s = (Ok (), put_plugin p None s1)"
    by (intro has_class_unref [OF k p(1-3)]) (simp_all add: c(2) modify_state_def)
  from instance_lifetime [OF p this] show "then_op (ref_times n p) (unref_n m (np_env.truncate V) p) s =
      (Ok (), put_plugin p (Some (pl\<lparr>pi_refcount := 1 + int (n - m)\<rparr>)) s)"
    "then_op (ref_times n p) (unref_n (n + 1) (np_env.truncate V) p) s = (Ok (), put_plugin p None s1)" by blast+
qed

end
