(* ===== verification/Spec2Isabelle.thy ===== *)
theory Spec2Isabelle
  imports Rpc_Typed Np_Names Np_Refs Np_Idcache Npw_Malloc Npw_Recovery Npp_Windows Npp_Timing Npp_Data Npp_Life
begin

text \<open>
  Verification of nspluginwrapper: the RPC layer between the browser process and the process that
  runs the plugin, the marshaling of NPAPI values, the bridge for scriptable objects, the calls of a
  plugin to the browser and of the browser to the plugin, and the life cycle of the process that runs the
  plugin.

  \<^bold>\<open>The program.\<close> nspluginwrapper runs a browser plugin outside the browser. The \<^emph>\<open>wrapper\<close>
  (\<^verbatim>\<open>src/npw-wrapper.c\<close>) is loaded by the browser in place of the plugin, the \<^emph>\<open>viewer\<close>
  (\<^verbatim>\<open>src/npw-viewer.c\<close>) loads the plugin itself. Every NPAPI call of one side becomes a remote call on
  the other over a socket: \<^verbatim>\<open>src/rpc.c\<close> is the transport and the call protocol, \<^verbatim>\<open>src/npw-rpc.c\<close>
  marshals the NPAPI values, \<^verbatim>\<open>src/npruntime.c\<close> keeps the tables of stubs and proxies by which objects
  of one process are used in the other, \<^verbatim>\<open>src/npw-common.c\<close> and \<^verbatim>\<open>src/utils.c\<close> hold plugin instances
  and identifiers.

  \<^bold>\<open>Theories.\<close>
  \<^item> \<open>Npw_Prelude\<close>: C integer types, results (\<open>Ok\<close>, \<open>Err\<close> with the C error code, \<open>Crash\<close> for what
    ends the process or is undefined: a failed assertion, an access out of bounds or through a bad
    pointer, a call that does not return), operations \<open>('s, 'a) op\<close> on an explicit state and their
    sequencing, network byte order, the lemma collections.
  \<^item> \<open>Rpc_Codes\<close>, \<open>Rpc_Map\<close>, \<open>Rpc_Io\<close>, \<open>Rpc_Message\<close>, \<open>Rpc_Connection\<close>, \<open>Rpc_Dispatch\<close>: the six parts of
    \<^verbatim>\<open>rpc.c\<close> in the order of the file. A connection is the record \<open>rpc_connection\<close> with the members of
    \<^verbatim>\<open>struct rpc_connection\<close>; the socket is a pair of byte queues (\<open>rx_queue\<close>, \<open>tx_wire\<close>) and two scripts
    of what the system calls do next (partial transfers, \<open>EINTR\<close>, delays, errors).
  \<^item> \<open>Rpc_Wire\<close>, \<open>Rpc_Calls\<close>, \<open>Rpc_Chain\<close>, \<open>Rpc_Safety\<close>: their proofs. The interface \<open>user_marshalers\<close>
    states what \<^verbatim>\<open>rpc.c\<close> expects of the marshalers its clients register, \<open>rpc_peer\<close> adds a connection
    that has them; the call protocol is proved once inside them.
  \<^item> \<open>Np_Values\<close>, \<open>Np_Wire\<close>: the marshalers of plain NPAPI values and their wire format.
  \<^item> \<open>Np_Ids\<close>, \<open>Np_Process\<close>, \<open>Np_Objects\<close>: hash tables (interface \<open>hash_table\<close>, as GLib is not part of
    the repository), the identifier table of \<^verbatim>\<open>utils.c\<close>, plugin instances, the state of a process
    (\<open>np_process\<close>: its connection, heap of objects and instances, tables), stubs, proxies, reference
    counts.
  \<^item> \<open>Np_Marshalers\<close>, \<open>Np_Table\<close>: the marshalers of values that refer to objects, the table of all
    marshalers, and the interpretation of \<open>rpc_peer\<close> on it.
  \<^item> \<open>Np_Calls\<close>, \<open>Np_Class\<close>: method numbers, the shape all remote calls of the NPAPI layer have, the class
    of proxies with its ten calls (handler, remote call, member) and the end of the bridge.
  \<^item> \<open>Np_Bridge\<close>, \<open>Np_Refs\<close>: proofs about both processes at once.
  \<^item> \<open>Rpc_Typed\<close>: what a receiver may rely on, whatever the sender does.
  \<^item> \<open>Np_Identifiers\<close>: the plugin's calls on identifiers, the viewer's cache of them (\<open>viewer\<close> extends
    \<open>np_process\<close> by the two static variables) and the wrapper's handlers; \<open>Np_Exchange\<close> defines one call
    between the two processes (\<open>exchange\<close>) and proves the calls without an instance, \<open>Np_Idcache\<close> that
    the cache cannot be noticed (interface \<open>ident_table\<close>).
  \<^item> \<open>Np_Browser\<close>, \<open>Np_Script\<close>: the other calls to the browser as \<^verbatim>\<open>npw-wrapper.c\<close> has them. Its functions
    \<open>g_NPN_...\<close> are called \<open>wrapper_NPN_...\<close> here, as \<^verbatim>\<open>npw-viewer.c\<close> has functions of the same names; the
    table the browser passes in is the record \<open>mozilla_funcs\<close>, \<open>None\<close> for a \<open>NULL\<close> member. \<open>np_side\<close> adds the
    members of \<open>NPStream\<close> to the state.
  \<^item> \<open>Np_Requests\<close>, \<open>Np_Script_Requests\<close>: their other half in \<^verbatim>\<open>npw-viewer.c\<close> (\<open>g_NPN_...\<close>, \<open>invoke_NPN_...\<close>).
    The record \<open>request_env\<close> stands for the thread check, X and GDK, the toolkit and the allocator.
  \<^item> \<open>Np_Request_Exchange\<close>, \<open>Np_Browser_Calls\<close>, \<open>Np_Streams\<close>: both halves together. \<open>instance_exchange\<close> is one
    whole call for an instance, argument lists, handler, browser, reply and reference counts included;
    the properties instantiate it.
  \<^item> \<open>Npp_Timers\<close>, \<open>Npp_Window\<close>: timers, asynchronous calls, the main loop's sources and the windows of an
    instance in \<^verbatim>\<open>npw-viewer.c\<close>. The record \<open>npp_side\<close> adds the members of the viewer's \<open>PluginInstance\<close> and
    \<open>Timer\<close> and its static variables to the state of the viewer; \<open>toolkit_env\<close> stands for X, GDK, GTK and Xt.
  \<^item> \<open>Npp_Plugin\<close>, \<open>Npp_Handlers\<close>: the calls of the browser to the plugin in the viewer, each function
    (\<open>g_NPP_...\<close> and \<open>g_NP_...\<close> of \<^verbatim>\<open>npw-viewer.c\<close>, called \<open>viewer_NPP_...\<close> and \<open>viewer_NP_...\<close> here) and its handler; the
    plugin's table is the record \<open>npp_funcs\<close>, \<open>None\<close> for a \<open>NULL\<close> member.
  \<^item> \<open>Npp_Wrapper\<close>, \<open>Npp_Delivery\<close>: their other half in \<^verbatim>\<open>npw-wrapper.c\<close> (\<open>g_NPP_...\<close>, \<open>invoke_NPP_...\<close>), on the
    record \<open>npp_host\<close>, which adds the browser's streams, the connection each instance holds and the plugins run in
    the browser's own process to the record \<open>wrapper\<close>.
  \<^item> \<open>Npp_Exchange\<close>, \<open>Npp_Streams\<close>: one call of the browser through both halves (\<open>delivery_plain\<close>,
    \<open>delivery_stream\<close>), and the streams of the browser; \<open>Npp_Windows\<close>, \<open>Npp_Timing\<close>, \<open>Npp_Data\<close>, \<open>Npp_Life\<close>: sequences of
    windows, timers and the main loop, printed data and lists of sites, and how long instances live.
  \<^item> \<open>Npw_Malloc\<close>: \<^verbatim>\<open>npw-malloc.c\<close> over a byte memory, with an abstract allocator it refines.
  \<^item> \<open>Npw_Info\<close>: the description of a plugin, printed by the viewer and read by the wrapper.
  \<^item> \<open>Npw_Plugin\<close>: \<^verbatim>\<open>npw-wrapper.c\<close>'s side of the life of a viewer process (\<open>plugin_init\<close>, \<open>plugin_exit\<close>,
    \<open>plugin_start\<close>, \<open>NP_Initialize\<close>, \<open>NP_Shutdown\<close>) on the record \<open>wrapper\<close>, which can hold several live
    connections; \<open>wrapper_env\<close> stands for the operating system, the output of the viewer, the browser's
    event loop and a plugin run in the browser's process. \<open>Npw_Life\<close>, \<open>Npw_Recovery\<close>: its proofs.
  \<^item> \<open>Np_Names\<close>: names of NPAPI codes.

  \<^bold>\<open>Results.\<close> A remote call delivers its arguments to the handler and the handler's answer back (C1),
  also while serving calls in the other direction (\<open>wait_for_reply_serves_calls\<close>); the synchronisation
  protocol completes, immediately or deferred. Argument lists survive the wire, for \<^verbatim>\<open>rpc.c\<close>'s own types
  and the NPAPI types. A call on a proxy is the call on the object in the other process
  (\<open>proxy_Invoke_correct\<close>), and a reference that goes to the other process and comes back leaves the
  counts and tables right (\<open>object_there_and_back\<close>). For arbitrary peers and system-call results: the
  loop that waits for a reply ends with the bytes received if the handlers return and add none, nothing is written out of bounds in the output buffer, the depth counters balance,
  partial transfers lose nothing, received arguments have the types asked for. The tables of \<^verbatim>\<open>rpc.c\<close>
  refine finite maps, the allocator an abstract one. A call of the plugin is the browser's call for the
  same instance and stream (\<open>NPN_PostURLNotify_correct\<close>, \<open>NPN_Write_correct\<close>); streams are named and
  forgotten in both processes together (\<open>NPN_NewStream_correct\<close>, \<open>NPN_DestroyStream_correct\<close>). A stream of
  the browser is named in both processes, its data reach the plugin and its end frees it in both
  (\<open>NPP_NewStream_correct\<close>, \<open>NPP_Write_correct\<close>, \<open>NPP_DestroyStream_correct\<close>); timers fire as they were scheduled
  (\<open>ScheduleTimer_fires\<close>), windows of one kind can be set any number of times
  (\<open>SetWindow_one_kind_returns\<close>), instances live as long as they are referenced
  (\<open>viewer_instance_lifetime\<close>). The wrapper
  survives any sequence of starts, stops, questions and unloadings of the viewer (\<open>life_calls_safe\<close>; a viewer that
  dies by itself is not one of these calls) and always gets rid of it (\<open>plugin_exit_stops_viewer\<close>). Some properties state where
  the code falls short of its contract (sizes that wrap, errors that are dropped); they are listed as
  findings in the manifest.

  \<^bold>\<open>Bounds and fuel.\<close> \<open>dispatch_until_loop\<close> and \<open>recv_ranges_loop\<close> take a bound on their iterations, computed
  from the bytes still to be received: every iteration reads at least one tag of four bytes or the
  loop ends (\<open>rpc_dispatch_until_returns\<close>, \<open>do_recv_NPByteRange_returns\<close>). Calls nest in handlers; a
  handler is an operation of the environment (\<open>call_method\<close>), so the model has no bound on nesting.
  \<open>server_loop\<close>, which has no end of its own, is cut off after a given number of rounds. The depths of
  calls, the reference counts and the number of identifiers are \<open>int\<close>s of the code; where a property
  needs them not to overflow it says so. The starts of the viewer
  are proved for socket paths of at most 100 bytes (\<open>short_path\<close>): the code copies the path into the
  108 bytes of a socket address without looking at its length.

  \<^bold>\<open>Not modelled.\<close> Threads: the code is single-threaded apart from the accept thread of the server, whose
  body is a definition of its own. A crash of the viewer between two calls, debug output, the drawing and event
  handling of GTK, X and Xt, the player, the configuration tool (they act on windows and files), and GLib, the C
  library, the browser and the plugin, which are parameters. \<open>ENABLE_MALLOC_CHECK\<close> is a parameter too, although
  \<^verbatim>\<open>npw-malloc.c\<close> undefines it before it is tested.
\<close>

text \<open>
  C1. A remote call, end to end. The caller's \<open>rpc_method_invoke\<close> sends a request; given its bytes, the
  other end's \<open>rpc_dispatch\<close> calls the handler \<open>serve\<close>, which receives exactly the arguments sent (as
  the receiver sees them) and replies with \<open>f\<close> of them; given the bytes of the reply,
  \<open>rpc_method_wait_for_reply\<close> returns these results. Neither end reports an error or leaves bytes
  unread, and both connections are as before, their depth counters and tables included.
\<close>

theorem rpc_round_trip:
  assumes client: "rpc_peer Ec T U V W" and server: "rpc_peer Es T U V W"
    and args: "list_all (wf_arg T W) args"
    and reply: "list_all (wf_arg T W) (f (map (view_arg V) args))"
    and mid: "int32_range mid" "0 \<le> mid" "Ms mid = Some cb"
    and handler: "call_method Es cb = serve Es (map param_of args) f"
    and c: "calm c" "conn_inv T Mc Fc c" "rx_queue c = []" "tx_wire c = []" "status c \<noteq> RPC_STATUS_CLOSED"
    and s: "calm s" "conn_inv T Ms Fs s" "rx_queue s = []" "tx_wire s = []" "status s \<noteq> RPC_STATUS_CLOSED"
  shows "\<exists>c1 s1 c2.
    rpc_method_invoke Ec mid args (Some c) = (Ok (), Some c1) \<and>
    rpc_dispatch Es (s\<lparr>rx_queue := tx_wire c1\<rparr>) = (Ok mid, s1) \<and>
    rpc_method_wait_for_reply Ec (map param_of (f (map (view_arg V) args)))
      (Some (c1\<lparr>rx_queue := tx_wire s1\<rparr>)) =
      (Ok (map (view_arg V) (f (map (view_arg V) args))), Some c2) \<and>
    rx_queue s1 = [] \<and> rx_queue c2 = [] \<and>
    conn_inv T Ms Fs s1 \<and> conn_inv T Mc Fc c2"
proof -
  have Fc: "status Fc \<noteq> RPC_STATUS_CLOSED" and Fs: "status Fs \<noteq> RPC_STATUS_CLOSED"
    using c(5) s(5) conn_inv_fields(1) [OF c(2)] conn_inv_fields(1) [OF s(2)] by simp_all
  let ?as = "map (view_arg V) args"
  let ?F1 = "Fc\<lparr>invoke_depth := invoke_depth Fc + 1\<rparr>"
  obtain c1 where c1: "on_live (rpc_method_invoke Ec mid args) c = (Ok (), c1)" "calm c1"
    "conn_inv T Mc ?F1 c1" "tx_wire c1 = enc_invoke U mid args"
    using talksD [OF rpc_peer.talks_method_invoke [OF client args Fc], of c Mc "[]"] c by auto
  have "talks (conn_inv T Ms (Fs\<lparr>dispatch_depth := dispatch_depth Fs + 1\<rparr>)) (call_method Es cb)
      (enc_args U args) (enc_reply U (f ?as)) RPC_ERROR_NO_ERROR
      (conn_inv T Ms (Fs\<lparr>dispatch_depth := dispatch_depth Fs + 1\<rparr>))"
    unfolding handler using Fs reply by (intro rpc_peer.talks_serve [OF server args]) simp_all
  from rpc_peer.talks_dispatch [OF server mid(1,3,2) this]
  have disp: "talks (conn_inv T Ms Fs) (rpc_dispatch Es) (enc_invoke U mid args) (enc_reply U (f ?as)) mid
      (conn_inv T Ms Fs)"
    by (simp add: enc_invoke_def)
  obtain s1 where s1: "rpc_dispatch Es (s\<lparr>rx_queue := tx_wire c1\<rparr>) = (Ok mid, s1)"
    "conn_inv T Ms Fs s1" "rx_queue s1 = []" "tx_wire s1 = enc_reply U (f ?as)"
    using talksD [OF disp, of "s\<lparr>rx_queue := tx_wire c1\<rparr>" "[]"]
      conn_inv_deliver [OF s(1,2), of "tx_wire c1"] s(4) c1(4) by auto
  have "served Ec T Mc ?F1 []" by (simp add: served_def)
  with rpc_peer.talks_wait_for_reply [OF client reply, of ?F1 Mc "[]"] Fc
  have wait: "talks (conn_inv T Mc ?F1) (on_live (rpc_method_wait_for_reply Ec (map param_of (f ?as))))
      (enc_reply U (f ?as)) [] (map (view_arg V) (f ?as)) (conn_inv T Mc Fc)"
    by (simp add: enc_calls_def)
  obtain c2 where c2: "on_live (rpc_method_wait_for_reply Ec (map param_of (f ?as)))
      (c1\<lparr>rx_queue := tx_wire s1\<rparr>) = (Ok (map (view_arg V) (f ?as)), c2)"
    "conn_inv T Mc Fc c2" "rx_queue c2 = []"
    using talksD [OF wait, of "c1\<lparr>rx_queue := tx_wire s1\<rparr>" "[]"]
      conn_inv_deliver [OF c1(2,3), of "tx_wire s1"] s1(4) by auto
  have "rpc_method_invoke Ec mid args (Some c) = (Ok (), Some c1)"
    "rpc_method_wait_for_reply Ec (map param_of (f ?as)) (Some (c1\<lparr>rx_queue := tx_wire s1\<rparr>)) =
      (Ok (map (view_arg V) (f ?as)), Some c2)"
    using c1(1) c2(1) unfolding rpc_method_invoke_def rpc_method_wait_for_reply_def
    by (simp_all add: on_live_entry)
  with s1 c2 show ?thesis by blast
qed

theorem rpc_round_trip_witness:
  "\<exists>c1 s1 c2.
    rpc_method_invoke sample_env 3 [Int32 41] (Some sample_client) = (Ok (), Some c1) \<and>
    rpc_dispatch sample_server_env (sample_server\<lparr>rx_queue := tx_wire c1\<rparr>) = (Ok 3, s1) \<and>
    rpc_method_wait_for_reply sample_env [P_type RPC_TYPE_INT32] (Some (c1\<lparr>rx_queue := tx_wire s1\<rparr>)) =
      (Ok [Int32 42], Some c2) \<and>
    rx_queue s1 = [] \<and> rx_queue c2 = [] \<and>
    conn_inv Map.empty [3 \<mapsto> 17] (frame sample_server) s1 \<and>
    conn_inv Map.empty Map.empty (frame sample_client) c2"
  using rpc_round_trip [OF plain_peer.rpc_peer_axioms plain_peer.rpc_peer_axioms,
      where args = "[Int32 41]" and f = sample_fun and mid = 3 and Ms = "[3 \<mapsto> 17]" and cb = 17 and
        Es = sample_server_env and Ec = sample_env and c = sample_client and Mc = Map.empty and
        Fc = "frame sample_client" and s = sample_server and Fs = "frame sample_server"]
    sample_client_facts sample_server_facts sample_handler
  by (simp add: int32_range_def)

text \<open>
  C5. While an endpoint waits for a reply it serves the calls the other end makes: any number of
  interleaved calls, each answered by the registered handler (as if dispatched one level deeper), come
  before the reply; all are answered in order, the caller gets its own reply, the depth counters are
  as before the call, and nothing else is consumed or sent.
\<close>

theorem wait_for_reply_serves_calls:
  assumes "rpc_peer E T U V W" "list_all (wf_arg T W) reply" "served E T M F calls"
    and "calm s" "conn_inv T M F s" "status s \<noteq> RPC_STATUS_CLOSED"
    and "rx_queue s = enc_calls calls @ enc_reply U reply @ rest"
  shows "\<exists>s'. rpc_method_wait_for_reply E (map param_of reply) (Some s) = (Ok (map (view_arg V) reply), Some s') \<and>
    conn_inv T M (F\<lparr>invoke_depth := invoke_depth F - 1\<rparr>) s' \<and> rx_queue s' = rest \<and>
    tx_wire s' = tx_wire s @ concat (map (\<lambda>(mid, a, b). b) calls)"
proof -
  have "status F \<noteq> RPC_STATUS_CLOSED"
    using assms(6) conn_inv_fields(1) [OF assms(5)] by simp
  note talk = rpc_peer.talks_wait_for_reply [OF assms(1,2) this assms(3)]
  obtain s' where s': "on_live (rpc_method_wait_for_reply E (map param_of reply)) s =
      (Ok (map (view_arg V) reply), s')" "conn_inv T M (F\<lparr>invoke_depth := invoke_depth F - 1\<rparr>) s'"
    "rx_queue s' = rest" "tx_wire s' = tx_wire s @ concat (map (\<lambda>(mid, a, b). b) calls)"
    using talksD [OF talk assms(4,5)] assms(7) by auto
  then show ?thesis
    unfolding rpc_method_wait_for_reply_def by (blast dest: on_live_entry)
qed

text \<open>The server of \<open>sample_client\<close> as a peer that is waiting for a reply itself.\<close>

lemma sample_served:
  "served sample_server_env Map.empty [3 \<mapsto> 17] (frame sample_server)
     [(3, enc_args sample_U [Int32 41], enc_reply sample_U [Int32 42])]"
proof -
  let ?F = "(frame sample_server)\<lparr>dispatch_depth := dispatch_depth (frame sample_server) + 1\<rparr>"
  have "status ?F \<noteq> RPC_STATUS_CLOSED"
    using sample_server_facts(4) by (simp add: frame_def)
  from plain_peer.talks_serve [OF _ _ this, where args = "[Int32 41]" and f = sample_fun and
      M = "[3 \<mapsto> 17]" and E = sample_server_env and U = sample_U and V = "\<lambda>_ u. u"]
  show ?thesis
    by (simp add: served_def int32_range_def sample_handler)
qed

theorem wait_for_reply_serves_calls_witness:
  "\<exists>s'. rpc_method_wait_for_reply sample_server_env [P_type RPC_TYPE_INT32] (Some (sample_server\<lparr>rx_queue :=
       enc_calls [(3, enc_args sample_U [Int32 41], enc_reply sample_U [Int32 42])] @
       enc_reply sample_U [Int32 7] @ []\<rparr>)) = (Ok [Int32 7], Some s') \<and> rx_queue s' = [] \<and>
     tx_wire s' = enc_reply sample_U [Int32 42]"
  using wait_for_reply_serves_calls [OF plain_peer.rpc_peer_axioms _ sample_served,
      where reply = "[Int32 7]" and V = "\<lambda>_ u. u" and U = sample_U and rest = "[]" and
      s = "sample_server\<lparr>rx_queue := enc_calls [(3, enc_args sample_U [Int32 41], enc_reply sample_U [Int32 42])] @
       enc_reply sample_U [Int32 7] @ []\<rparr>"]
    conn_inv_deliver [OF sample_server_facts(1,5)] sample_server_facts
  by auto

text \<open>
  C6. The synchronisation handshake: \<open>rpc_sync\<close> in the viewer and \<open>rpc_dispatch\<close> in the wrapper answer
  each other. The viewer sends \<open>SYNC\<close> and, on the acknowledgement the wrapper sends, is in sync; the
  wrapper, having acknowledged, serves the viewer's calls until the \<open>SYNC_END\<close> of \<open>rpc_end_sync\<close>; then
  both ends are as before, with nothing left unread.
\<close>

theorem sync_handshake:
  assumes "rpc_peer Ev T U V W" "rpc_peer Ew T U V W" "served Ew T Mw Fw calls"
    and v: "calm v" "conn_inv T Mv Fv v" "\<not> is_sync v" "tx_wire v = []"
    and w: "calm w" "conn_inv T Mw Fw w" "tx_wire w = []"
  shows "\<exists>v1 v2 w1.
    rpc_sync Ev (v\<lparr>rx_queue := enc_marker RPC_MESSAGE_SYNC_ACK\<rparr>) = (Ok (), v1) \<and> is_sync v1 \<and>
    tx_wire v1 = enc_marker RPC_MESSAGE_SYNC \<and> rx_queue v1 = [] \<and>
    rpc_end_sync Ev v1 = (Ok (), v2) \<and> conn_inv T Mv Fv v2 \<and>
    tx_wire v2 = tx_wire v1 @ enc_marker RPC_MESSAGE_SYNC_END \<and>
    rpc_dispatch Ew (w\<lparr>rx_queue := tx_wire v1 @ enc_calls calls @ enc_marker RPC_MESSAGE_SYNC_END\<rparr>) =
      (Ok RPC_ERROR_NO_ERROR, w1) \<and> conn_inv T Mw Fw w1 \<and> rx_queue w1 = [] \<and>
    tx_wire w1 = enc_marker RPC_MESSAGE_SYNC_ACK @ concat (map (\<lambda>(mid, a, b). b) calls)"
proof -
  have Fv: "\<not> is_sync Fv" using v(3) conn_inv_fields(5) [OF v(2)] by simp
  have none: "served Ev T Mv Fv []" by (simp add: served_def)
  obtain v1 where v1: "rpc_sync Ev (v\<lparr>rx_queue := enc_marker RPC_MESSAGE_SYNC_ACK\<rparr>) = (Ok (), v1)"
    "calm v1" "conn_inv T Mv (Fv\<lparr>is_sync := True\<rparr>) v1" "rx_queue v1 = []"
    "tx_wire v1 = enc_marker RPC_MESSAGE_SYNC"
    using talksD [OF rpc_peer.talks_sync [OF assms(1) none Fv],
        of "v\<lparr>rx_queue := enc_marker RPC_MESSAGE_SYNC_ACK\<rparr>" "[]"]
      conn_inv_deliver [OF v(1,2), of "enc_marker RPC_MESSAGE_SYNC_ACK"] v(4)
    by (auto simp: enc_calls_def)
  have e: "is_sync (Fv\<lparr>is_sync := True\<rparr>)" and same: "Fv\<lparr>is_sync := True, is_sync := False\<rparr> = Fv"
    using Fv by simp_all
  obtain v2 where v2: "rpc_end_sync Ev v1 = (Ok (), v2)" "conn_inv T Mv Fv v2"
    "tx_wire v2 = tx_wire v1 @ enc_marker RPC_MESSAGE_SYNC_END"
    using talksD [OF rpc_peer.talks_end_sync [OF assms(1) e] v1(2,3), of "[]"] v1(4) same by auto
  obtain w1 where w1: "rpc_dispatch Ew (w\<lparr>rx_queue := enc_marker RPC_MESSAGE_SYNC @ enc_calls calls @
      enc_marker RPC_MESSAGE_SYNC_END\<rparr>) = (Ok RPC_ERROR_NO_ERROR, w1)" "conn_inv T Mw Fw w1"
    "rx_queue w1 = []" "tx_wire w1 = enc_marker RPC_MESSAGE_SYNC_ACK @ concat (map (\<lambda>(mid, a, b). b) calls)"
    using talksD [OF rpc_peer.talks_dispatch_SYNC [OF assms(2,3)], of "w\<lparr>rx_queue :=
        enc_marker RPC_MESSAGE_SYNC @ enc_calls calls @ enc_marker RPC_MESSAGE_SYNC_END\<rparr>" "[]"]
      conn_inv_deliver [OF w(1,2)] w(3) by auto
  have "is_sync v1" using conn_inv_fields(5) [OF v1(3)] by simp
  with v1 v2 w1 show ?thesis by auto
qed

theorem sync_handshake_witness:
  "\<exists>v1 v2 w1.
    rpc_sync sample_env (sample_client\<lparr>rx_queue := enc_marker RPC_MESSAGE_SYNC_ACK\<rparr>) = (Ok (), v1) \<and> is_sync v1 \<and>
    rpc_end_sync sample_env v1 = (Ok (), v2) \<and>
    rpc_dispatch sample_server_env (sample_server\<lparr>rx_queue := tx_wire v1 @
        enc_calls [(3, enc_args sample_U [Int32 41], enc_reply sample_U [Int32 42])] @
        enc_marker RPC_MESSAGE_SYNC_END\<rparr>) = (Ok RPC_ERROR_NO_ERROR, w1) \<and>
    tx_wire w1 = enc_marker RPC_MESSAGE_SYNC_ACK @ enc_reply sample_U [Int32 42]"
proof -
  have "\<not> is_sync sample_client" by (simp add: sample_defs connect_first)
  from sync_handshake [OF plain_peer.rpc_peer_axioms plain_peer.rpc_peer_axioms sample_served
      sample_client_facts(1,5) this sample_client_facts(3) sample_server_facts(1,5,3), of sample_env]
  show ?thesis by auto
qed

text \<open>
  C7. A synchronisation request that reaches the wrapper during its outermost call is put off: the
  reply is delivered as usual and nothing is sent, and back in the event loop (no call in progress,
  no bytes waiting) the pending request is reported and \<open>rpc_dispatch_pending_sync\<close> answers it exactly
  as if it had just arrived.
\<close>

theorem sync_deferred:
  assumes "rpc_peer E T U V W" "list_all (wf_arg T W) reply"
    and F: "conn_type F = RPC_CONNECTION_CLIENT" "pending_sync_depth F = 0" "invoke_depth F = 1"
      "handle_depth F = 0" "status F \<noteq> RPC_STATUS_CLOSED" "\<not> rx_eof F" "poll_script F = []"
    and s: "calm s" "conn_inv T M F s" "rx_queue s = enc_marker RPC_MESSAGE_SYNC @ enc_reply U reply"
  shows "\<exists>s'. rpc_method_wait_for_reply E (map param_of reply) (Some s) = (Ok (map (view_arg V) reply), Some s') \<and>
    tx_wire s' = tx_wire s \<and> rpc_has_pending_sync s' \<and> rpc_sync_prepare s' = (0, True) \<and>
    rpc_dispatch_pending_sync E s' = rpc_dispatch_sync E (s'\<lparr>pending_sync_depth := 0\<rparr>)"
proof -
  let ?F = "F\<lparr>pending_sync_depth := 1, invoke_depth := 0\<rparr>"
  obtain s' where s': "on_live (rpc_method_wait_for_reply E (map param_of reply)) s =
      (Ok (map (view_arg V) reply), s')" "calm s'" "conn_inv T M ?F s'" "rx_queue s' = []"
      "tx_wire s' = tx_wire s"
    using talksD [OF rpc_peer.talks_wait_for_reply_sync [OF assms(1,2) F(5,1,2)] s(1,2), of "[]"] s(3) F(3)
    by auto
  have call: "rpc_method_wait_for_reply E (map param_of reply) (Some s) = (Ok (map (view_arg V) reply), Some s')"
    using s'(1) unfolding rpc_method_wait_for_reply_def by (rule on_live_entry)
  have "\<not> rx_eof s'" "poll_script s' = []" "\<not> nested ?F"
    using conn_inv_fields [OF s'(3)] F by (simp_all add: nested_def)
  then have "rpc_dispatch_pending_sync E s' = rpc_dispatch_sync E (s'\<lparr>pending_sync_depth := 0\<rparr>)"
    using rpc_peer.talks_pending_sync [OF assms(1) _ _ s'(2,3,4)] by simp
  moreover have "rpc_has_pending_sync s'"
    using conn_inv_fields [OF s'(3)] F(4) by (simp add: rpc_has_pending_sync_def nested_def)
  ultimately show ?thesis
    using call s'(5) by (auto simp: rpc_sync_prepare_def)
qed

theorem sync_deferred_witness:
  "\<exists>s'. rpc_method_wait_for_reply sample_env [P_type RPC_TYPE_INT32] (Some (sample_client\<lparr>invoke_depth := 1,
      rx_queue := enc_marker RPC_MESSAGE_SYNC @ enc_reply sample_U [Int32 7]\<rparr>)) = (Ok [Int32 7], Some s') \<and>
    rpc_has_pending_sync s' \<and>
    rpc_dispatch_pending_sync sample_env s' = rpc_dispatch_sync sample_env (s'\<lparr>pending_sync_depth := 0\<rparr>)"
proof -
  let ?s = "sample_client\<lparr>invoke_depth := 1, rx_queue := enc_marker RPC_MESSAGE_SYNC @ enc_reply sample_U [Int32 7]\<rparr>"
  let ?F = "(frame sample_client)\<lparr>invoke_depth := 1\<rparr>"
  have c: "calm (sample_client\<lparr>invoke_depth := 1\<rparr>)" "conn_inv Map.empty Map.empty ?F (sample_client\<lparr>invoke_depth := 1\<rparr>)"
    using sample_client_facts(1) conn_inv_set(1) [OF sample_client_facts(5)] by (simp_all add: calm_def)
  have f: "conn_type ?F = RPC_CONNECTION_CLIENT" "pending_sync_depth ?F = 0" "invoke_depth ?F = 1"
      "handle_depth ?F = 0" "status ?F \<noteq> RPC_STATUS_CLOSED" "\<not> rx_eof ?F" "poll_script ?F = []"
    by (simp_all add: frame_def sample_defs connect_first)
  from sync_deferred [OF plain_peer.rpc_peer_axioms _ f, where reply = "[Int32 7]" and U = sample_U and
      V = "\<lambda>_ u. u" and s = ?s and M = Map.empty and E = sample_env] conn_inv_deliver [OF c]
  show ?thesis by auto
qed

end
